(* ===== verification/Rust_Prelude.thy ===== *)
theory Rust_Prelude
  imports Main "HOL-Library.Word" "HOL-Library.Char_ord" "HOL-Library.List_Lexorder"
    "HOL-Library.Product_Lexorder"
begin

text \<open>
  What the components share: Rust's \<open>Result\<close> and its \<open>?\<close> operator, byte strings and the ASCII
  operations of \<open>std\<close>, checked \<open>usize\<close> arithmetic and the printing of numbers. The ordered
  containers are in the theory \<open>BTree\<close>, JSON values, serialization and the third-party functions
  in \<open>Serde\<close>.

  A Rust \<open>&str\<close>/\<open>String\<close>/\<open>Vec<u8>\<close> is a \<^typ>\<open>string\<close>: a list of 8-bit \<^typ>\<open>char\<close>s, the UTF-8
  bytes of the text. \<open>len\<close> counts bytes, as in Rust. A \<open>usize\<close> is a \<^typ>\<open>nat\<close>, with the 64-bit
  bound written out in the checked operations; a \<open>u8\<close> is an \<open>8 word\<close>, a \<open>u64\<close> a \<open>64 word\<close>.
\<close>

named_theorems result_simps "inversion of computations in the Result type"
named_theorems btree_simps "laws of the ordered sets and maps"
named_theorems byte_defs "definitions of the byte predicates"

type_synonym bytes = string
type_synonym u8 = "8 word"
type_synonym u64 = "64 word"
type_synonym usize = nat

section \<open>Result\<close>

text \<open>
  The error structs of the D1 modules have one shape: a fixed code, a classification and a static
  message. A function that also contains an \<open>expect\<close> returns a \<open>failure\<close>: an error
  value, or a panic with the message of the \<open>expect\<close>.
\<close>

datatype 'c classified_error = ClassifiedError (err_code: string) (err_class: 'c) (err_message: string)

datatype 'e failure = Err 'e | Panic string

text \<open>\<open>r?\<close> followed by the rest of the function body: the error of \<open>r\<close> returns early.\<close>

fun ok_then :: "'e + 'a \<Rightarrow> ('a \<Rightarrow> 'e + 'b) \<Rightarrow> 'e + 'b" where
  "ok_then (Inl e) f = Inl e"
| "ok_then (Inr x) f = f x"

fun map_err :: "('e \<Rightarrow> 'f) \<Rightarrow> 'e + 'a \<Rightarrow> 'f + 'a" where
  "map_err g (Inl e) = Inl (g e)"
| "map_err g (Inr x) = Inr x"

fun map_ok :: "('a \<Rightarrow> 'b) \<Rightarrow> 'e + 'a \<Rightarrow> 'e + 'b" where
  "map_ok g (Inl e) = Inl e"
| "map_ok g (Inr x) = Inr (g x)"

text \<open>\<open>Result::ok\<close> and \<open>Option::ok_or_else\<close>.\<close>

fun result_ok :: "'e + 'a \<Rightarrow> 'a option" where
  "result_ok (Inl e) = None"
| "result_ok (Inr x) = Some x"

fun ok_or :: "'e \<Rightarrow> 'a option \<Rightarrow> 'e + 'a" where
  "ok_or e None = Inl e"
| "ok_or e (Some x) = Inr x"

text \<open>A \<open>for\<close> loop whose body may return an error: the state is threaded through the items.\<close>

fun try_fold :: "('s \<Rightarrow> 'x \<Rightarrow> 'e + 's) \<Rightarrow> 's \<Rightarrow> 'x list \<Rightarrow> 'e + 's" where
  "try_fold f s [] = Inr s"
| "try_fold f s (x # xs) = (case f s x of Inl e \<Rightarrow> Inl e | Inr s' \<Rightarrow> try_fold f s' xs)"

text \<open>\<open>iter().map(f).collect::<Result<Vec<_>, _>>()\<close>.\<close>

fun try_map :: "('x \<Rightarrow> 'e + 'y) \<Rightarrow> 'x list \<Rightarrow> 'e + 'y list" where
  "try_map f [] = Inr []"
| "try_map f (x # xs) =
     (case f x of Inl e \<Rightarrow> Inl e
      | Inr y \<Rightarrow> (case try_map f xs of Inl e \<Rightarrow> Inl e | Inr ys \<Rightarrow> Inr (y # ys)))"

lemma ok_then_eq_Inr [result_simps]:
  "ok_then r f = Inr y \<longleftrightarrow> (\<exists>x. r = Inr x \<and> f x = Inr y)"
  by (cases r) auto

lemma ok_then_eq_Inl [result_simps]:
  "ok_then r f = Inl e \<longleftrightarrow> r = Inl e \<or> (\<exists>x. r = Inr x \<and> f x = Inl e)"
  by (cases r) auto

lemma map_err_eq_Inr [result_simps]: "map_err g r = Inr x \<longleftrightarrow> r = Inr x"
  by (cases r) auto

lemma map_err_eq_Inl [result_simps]: "map_err g r = Inl e \<longleftrightarrow> (\<exists>e'. r = Inl e' \<and> e = g e')"
  by (cases r) auto

lemma map_ok_eq_Inr [result_simps]: "map_ok g r = Inr y \<longleftrightarrow> (\<exists>x. r = Inr x \<and> y = g x)"
  by (cases r) auto

lemma result_ok_eq_Some [result_simps]: "result_ok r = Some x \<longleftrightarrow> r = Inr x"
  by (cases r) auto

lemma ok_or_eq_Inr [result_simps]: "ok_or e r = Inr x \<longleftrightarrow> r = Some x"
  by (cases r) auto

lemma ok_or_eq_Inl [result_simps]: "ok_or e r = Inl e' \<longleftrightarrow> r = None \<and> e' = e"
  by (cases r) auto

lemma if_Inl_eq_Inr [result_simps]: "(if b then Inl e else r) = Inr x \<longleftrightarrow> \<not> b \<and> r = Inr x"
  by auto

lemma ok_then_cong [fundef_cong]:
  assumes "r = r'" and "\<And>x. r' = Inr x \<Longrightarrow> f x = f' x"
  shows "ok_then r f = ok_then r' f'"
  using assms by (cases r') auto

lemma try_fold_append:
  "try_fold f s (xs @ ys) = ok_then (try_fold f s xs) (\<lambda>s'. try_fold f s' ys)"
  by (induction xs arbitrary: s) (auto split: sum.splits)

text \<open>A loop invariant for \<^const>\<open>try_fold\<close>: kept by each successful step, it holds at the end.\<close>

lemma try_fold_invariant:
  assumes "try_fold f s xs = Inr t" and "P s"
    and "\<And>s x s'. x \<in> set xs \<Longrightarrow> P s \<Longrightarrow> f s x = Inr s' \<Longrightarrow> P s'"
  shows "P t"
  using assms
proof (induction xs arbitrary: s)
  case Nil
  then show ?case by simp
next
  case (Cons x xs)
  from Cons.prems(1) obtain s' where s': "f s x = Inr s'" and rest: "try_fold f s' xs = Inr t"
    by (auto split: sum.splits)
  have "P s'" using Cons.prems(2,3) s' by auto
  with rest show ?case by (rule Cons.IH) (use Cons.prems(3) in auto)
qed

text \<open>The same with the processed prefix as an argument of the invariant.\<close>

lemma try_fold_prefix_invariant:
  assumes "try_fold f s xs = Inr t" and "P [] s"
    and "\<And>pre x s s'. P pre s \<Longrightarrow> x \<in> set xs \<Longrightarrow> f s x = Inr s' \<Longrightarrow> P (pre @ [x]) s'"
  shows "P xs t"
proof -
  have "P (pre @ ys) t" if "try_fold f s ys = Inr t" "P pre s" "set ys \<subseteq> set xs" for ys pre s
    using that
  proof (induction ys arbitrary: pre s)
    case Nil
    then show ?case by simp
  next
    case (Cons y ys)
    from Cons.prems(1) obtain s' where s': "f s y = Inr s'" and rest: "try_fold f s' ys = Inr t"
      by (auto split: sum.splits)
    from Cons.prems s' have "P (pre @ [y]) s'" by (auto intro: assms(3))
    from Cons.IH [OF rest this] Cons.prems(3) show ?case by simp
  qed
  from this [OF assms(1,2)] show ?thesis by simp
qed

lemma try_fold_each:
  "try_fold f s xs = Inr t \<Longrightarrow> x \<in> set xs \<Longrightarrow> \<exists>s1 s2. f s1 x = Inr s2"
  by (induction xs arbitrary: s) (auto split: sum.splits)

lemma filter_single_unique:
  assumes "length (filter P xs) = 1" and "x \<in> set xs" "P x" and "y \<in> set xs" "P y"
  shows "x = y"
proof -
  from assms(1) obtain z where "filter P xs = [z]" by (auto simp: length_Suc_conv)
  moreover have "x \<in> set (filter P xs)" and "y \<in> set (filter P xs)" using assms by simp_all
  ultimately show ?thesis by simp
qed

lemma try_map_eq_Inr:
  "try_map f xs = Inr ys \<longleftrightarrow> list_all2 (\<lambda>x y. f x = Inr y) xs ys"
proof (induction xs arbitrary: ys)
  case Nil
  then show ?case by auto
next
  case (Cons x xs)
  show ?case
  proof (cases ys)
    case Nil
    then show ?thesis by (auto split: sum.splits)
  next
    case (Cons y ys')
    then show ?thesis using Cons.IH [of ys'] by (auto split: sum.splits)
  qed
qed

text \<open>A computation that does not end in a panic; the rules follow the structure of the code.\<close>

definition no_panic :: "'e failure + 'a \<Rightarrow> bool" where
  "no_panic r \<longleftrightarrow> (\<forall>m. r \<noteq> Inl (Panic m))"

named_theorems no_panic_intros "composition rules for panic freedom"

lemma no_panic_Inr [simp, no_panic_intros]: "no_panic (Inr x)"
  by (simp add: no_panic_def)

lemma no_panic_Err [simp, no_panic_intros]: "no_panic (Inl (Err e))"
  by (simp add: no_panic_def)

lemma no_panic_ok_then [no_panic_intros]:
  "no_panic r \<Longrightarrow> (\<And>x. r = Inr x \<Longrightarrow> no_panic (f x)) \<Longrightarrow> no_panic (ok_then r f)"
  by (cases r) (auto simp: no_panic_def)

lemma no_panic_map_ok [no_panic_intros]: "no_panic r \<Longrightarrow> no_panic (map_ok g r)"
  by (cases r) (auto simp: no_panic_def)

lemma no_panic_if [no_panic_intros]:
  "(b \<Longrightarrow> no_panic r) \<Longrightarrow> (\<not> b \<Longrightarrow> no_panic s) \<Longrightarrow> no_panic (if b then r else s)"
  by simp

lemma no_panic_case_option [no_panic_intros]:
  "(x = None \<Longrightarrow> no_panic r) \<Longrightarrow> (\<And>y. x = Some y \<Longrightarrow> no_panic (f y)) \<Longrightarrow>
   no_panic (case x of None \<Rightarrow> r | Some y \<Rightarrow> f y)"
  by (cases x) auto

lemma no_panic_try_fold [no_panic_intros]:
  "(\<And>s x. x \<in> set xs \<Longrightarrow> no_panic (f s x)) \<Longrightarrow> no_panic (try_fold f s xs)"
proof (induction xs arbitrary: s)
  case (Cons x xs)
  then show ?case by (auto simp: no_panic_def split: sum.splits)
qed simp

lemma no_panic_try_map [no_panic_intros]:
  "(\<And>x. x \<in> set xs \<Longrightarrow> no_panic (f x)) \<Longrightarrow> no_panic (try_map f xs)"
proof (induction xs)
  case (Cons x xs)
  then show ?case by (auto simp: no_panic_def split: sum.splits)
qed simp

section \<open>Checked \<open>usize\<close> arithmetic\<close>

definition usize_MAX :: usize where
  "usize_MAX = 2 ^ 64 - 1"

definition checked_add :: "usize \<Rightarrow> usize \<Rightarrow> usize option" where
  "checked_add a b = (if a + b \<le> usize_MAX then Some (a + b) else None)"

definition checked_mul :: "usize \<Rightarrow> usize \<Rightarrow> usize option" where
  "checked_mul a b = (if a * b \<le> usize_MAX then Some (a * b) else None)"

lemma checked_add_eq_Some [result_simps]:
  "checked_add a b = Some c \<longleftrightarrow> c = a + b \<and> a + b \<le> usize_MAX"
  by (auto simp: checked_add_def)

text \<open>Evaluation compares integers, whose numerals are binary.\<close>

lemma checked_add_code [code]:
  "checked_add a b = (if int a + int b \<le> 18446744073709551615 then Some (a + b) else None)"
  by (auto simp: checked_add_def usize_MAX_def)

lemma checked_mul_eq_Some [result_simps]:
  "checked_mul a b = Some c \<longleftrightarrow> c = a * b \<and> a * b \<le> usize_MAX"
  by (auto simp: checked_mul_def)

section \<open>Bytes and ASCII\<close>

definition byte :: "char \<Rightarrow> nat" where
  "byte c = of_char c"

lemma byte_less_256 [simp]: "byte c < 256"
  by (simp add: byte_def)

lemma char_of_byte [simp]: "char_of (byte c) = c"
  by (simp add: byte_def)

lemma byte_char_of [simp]: "n < 256 \<Longrightarrow> byte (char_of n) = n"
  by (simp add: byte_def)

lemma byte_inject [simp]: "byte c = byte d \<longleftrightarrow> c = d"
  by (metis char_of_byte)

definition byte_in :: "char \<Rightarrow> char \<Rightarrow> char \<Rightarrow> bool" where
  "byte_in lo hi c \<longleftrightarrow> byte lo \<le> byte c \<and> byte c \<le> byte hi"

definition is_ascii :: "char \<Rightarrow> bool" where
  "is_ascii c \<longleftrightarrow> byte c < 128"

definition is_ascii_digit :: "char \<Rightarrow> bool" where
  "is_ascii_digit c \<longleftrightarrow> byte_in (CHR ''0'') (CHR ''9'') c"

definition is_ascii_alphanumeric :: "char \<Rightarrow> bool" where
  "is_ascii_alphanumeric c \<longleftrightarrow>
     is_ascii_digit c \<or> byte_in (CHR ''A'') (CHR ''Z'') c \<or> byte_in (CHR ''a'') (CHR ''z'') c"

definition to_ascii_lower :: "char \<Rightarrow> char" where
  "to_ascii_lower c = (if byte_in (CHR ''A'') (CHR ''Z'') c then char_of (byte c + 32) else c)"

definition to_ascii_upper :: "char \<Rightarrow> char" where
  "to_ascii_upper c = (if byte_in (CHR ''a'') (CHR ''z'') c then char_of (byte c - 32) else c)"

definition to_ascii_lowercase :: "string \<Rightarrow> string" where
  "to_ascii_lowercase s = map to_ascii_lower s"

definition eq_ignore_ascii_case :: "string \<Rightarrow> string \<Rightarrow> bool" where
  "eq_ignore_ascii_case s t \<longleftrightarrow> to_ascii_lowercase s = to_ascii_lowercase t"

definition starts_with :: "string \<Rightarrow> string \<Rightarrow> bool" where
  "starts_with s p \<longleftrightarrow> take (length p) s = p"

lemmas ascii_defs [byte_defs] =
  byte_def byte_in_def is_ascii_def is_ascii_digit_def is_ascii_alphanumeric_def
  to_ascii_lower_def to_ascii_upper_def

lemma byte_lower_letters [simp]:
  "byte (CHR ''A'') = 65" "byte (CHR ''Z'') = 90" "byte (CHR ''a'') = 97" "byte (CHR ''z'') = 122"
  "byte (CHR ''0'') = 48" "byte (CHR ''9'') = 57" "byte (CHR ''F'') = 70" "byte (CHR ''f'') = 102"
  by (simp_all add: byte_def)

lemma to_ascii_lower_idem [simp]: "to_ascii_lower (to_ascii_lower c) = to_ascii_lower c"
  by (auto simp: to_ascii_lower_def byte_in_def)

lemma to_ascii_lowercase_idem [simp]:
  "to_ascii_lowercase (to_ascii_lowercase s) = to_ascii_lowercase s"
  by (simp add: to_ascii_lowercase_def o_def)

lemma length_to_ascii_lowercase [simp]: "length (to_ascii_lowercase s) = length s"
  by (simp add: to_ascii_lowercase_def)

lemma to_ascii_lowercase_eq_Nil [simp]: "to_ascii_lowercase s = [] \<longleftrightarrow> s = []"
  by (simp add: to_ascii_lowercase_def)

text \<open>
  \<open>str::trim\<close> removes leading and trailing characters with the Unicode property
  \<open>White_Space\<close>; on UTF-8 bytes these are the following sequences.
\<close>

definition whitespace_sequences :: "bytes list" where
  "whitespace_sequences =
     [[char_of (9::nat)], [char_of (10::nat)], [char_of (11::nat)], [char_of (12::nat)],
      [char_of (13::nat)], [char_of (32::nat)],
      map char_of [0xC2::nat, 0x85], map char_of [0xC2::nat, 0xA0],
      map char_of [0xE1::nat, 0x9A, 0x80]]
     @ map (\<lambda>n. map char_of [0xE2::nat, 0x80, n]) [0x80..<0x8B]
     @ [map char_of [0xE2::nat, 0x80, 0xA8], map char_of [0xE2::nat, 0x80, 0xA9],
        map char_of [0xE2::nat, 0x80, 0xAF], map char_of [0xE2::nat, 0x81, 0x9F],
        map char_of [0xE3::nat, 0x80, 0x80]]"

definition leading_whitespace :: "bytes \<Rightarrow> nat option" where
  "leading_whitespace s =
     map_option length (find (\<lambda>w. starts_with s w) whitespace_sequences)"

lemma leading_whitespace_pos:
  assumes "leading_whitespace s = Some n"
  shows "0 < n \<and> n \<le> length s"
proof -
  from assms obtain w where w: "find (\<lambda>w. starts_with s w) whitespace_sequences = Some w"
    and n: "n = length w"
    by (auto simp: leading_whitespace_def)
  from w have "w \<in> set whitespace_sequences" and pre: "starts_with s w"
    by (auto simp: find_Some_iff)
  then have "w \<noteq> []" by (auto simp: whitespace_sequences_def)
  moreover from pre have "length w \<le> length s"
    by (metis length_take min.cobounded1 starts_with_def)
  ultimately show ?thesis by (simp add: n)
qed

function trim_start :: "bytes \<Rightarrow> bytes" where
  "trim_start s = (case leading_whitespace s of None \<Rightarrow> s | Some n \<Rightarrow> trim_start (drop n s))"
  by pat_completeness auto
termination
  by (relation "measure length") (use leading_whitespace_pos in force)+

declare trim_start.simps [simp del]

text \<open>Trailing whitespace: the reversed sequences at the front of the reversed string.\<close>

definition trailing_whitespace :: "bytes \<Rightarrow> nat option" where
  "trailing_whitespace s =
     map_option length (find (\<lambda>w. starts_with (rev s) (rev w)) whitespace_sequences)"

lemma trailing_whitespace_pos:
  assumes "trailing_whitespace s = Some n"
  shows "0 < n \<and> n \<le> length s"
proof -
  from assms obtain w where
    w: "find (\<lambda>w. starts_with (rev s) (rev w)) whitespace_sequences = Some w"
    and n: "n = length w"
    by (auto simp: trailing_whitespace_def)
  from w have "w \<in> set whitespace_sequences" and pre: "starts_with (rev s) (rev w)"
    by (auto simp: find_Some_iff)
  then have "w \<noteq> []" by (auto simp: whitespace_sequences_def)
  moreover from pre have "length w \<le> length s"
    by (metis length_rev length_take min.cobounded1 starts_with_def)
  ultimately show ?thesis by (simp add: n)
qed

function trim_end :: "bytes \<Rightarrow> bytes" where
  "trim_end s =
     (case trailing_whitespace s of None \<Rightarrow> s | Some n \<Rightarrow> trim_end (take (length s - n) s))"
  by pat_completeness auto
termination
  by (relation "measure length") (use trailing_whitespace_pos in force)+

declare trim_end.simps [simp del]

definition trim :: "bytes \<Rightarrow> bytes" where
  "trim s = trim_end (trim_start s)"

section \<open>Numbers as text\<close>

text \<open>The decimal digits \<open>Display\<close> prints of an unsigned integer.\<close>

fun nat_to_string :: "nat \<Rightarrow> string" where
  "nat_to_string n =
     (if n < 10 then [char_of (48 + n)] else nat_to_string (n div 10) @ [char_of (48 + n mod 10)])"

declare nat_to_string.simps [simp del]

end
