(* ===== verification/BTree.thy ===== *)
theory BTree
  imports Rust_Prelude
begin

text \<open>
  Rust's ordered containers. A \<open>BTreeSet\<close> is a strictly increasing list, a \<open>BTreeMap\<close> an
  association list with strictly increasing keys: the iteration order of the containers, which the
  sources serialize and hash, is the order of the list. The contracts of the two containers are
  the locales \<open>ordered_set\<close> and \<open>ordered_map\<close>; the client lemmas proved there (what collecting
  an iterator gives, what a lookup returns after a loop of inserts) reach the components through
  the interpretations \<open>bset\<close> and \<open>bmap\<close> on the list implementations.
\<close>

section \<open>Implementations\<close>

fun bset_insert :: "'a::linorder \<Rightarrow> 'a list \<Rightarrow> 'a list" where
  "bset_insert x [] = [x]"
| "bset_insert x (y # ys) =
     (if x < y then x # y # ys else if x = y then y # ys else y # bset_insert x ys)"

definition bset_wf :: "'a::linorder list \<Rightarrow> bool" where
  "bset_wf s \<longleftrightarrow> sorted_wrt (<) s"

text \<open>\<open>iter().collect::<BTreeSet<_>>()\<close>.\<close>

definition bset_of :: "'a::linorder list \<Rightarrow> 'a list" where
  "bset_of xs = fold bset_insert xs []"

definition bset_union :: "'a::linorder list \<Rightarrow> 'a list \<Rightarrow> 'a list" where
  "bset_union s t = fold bset_insert t s"

definition bset_difference :: "'a::linorder list \<Rightarrow> 'a list \<Rightarrow> 'a list" where
  "bset_difference s t = filter (\<lambda>x. x \<notin> set t) s"

fun bmap_insert :: "'k::linorder \<Rightarrow> 'v \<Rightarrow> ('k \<times> 'v) list \<Rightarrow> ('k \<times> 'v) list" where
  "bmap_insert k v [] = [(k, v)]"
| "bmap_insert k v ((k', v') # m) =
     (if k < k' then (k, v) # (k', v') # m
      else if k = k' then (k', v) # m else (k', v') # bmap_insert k v m)"

definition bmap_wf :: "('k::linorder \<times> 'v) list \<Rightarrow> bool" where
  "bmap_wf m \<longleftrightarrow> sorted_wrt (<) (map fst m)"

lemma set_bmap_insert_new:
  "map_of m k = None \<Longrightarrow> set (bmap_insert k v m) = insert (k, v) (set m)"
  by (induction k v m rule: bmap_insert.induct) auto

section \<open>Contracts\<close>

locale ordered_set =
  fixes empty :: "'s"
    and insert :: "'a \<Rightarrow> 's \<Rightarrow> 's"
    and elems :: "'s \<Rightarrow> 'a set"
    and size_of :: "'s \<Rightarrow> nat"
    and invar :: "'s \<Rightarrow> bool"
  assumes elems_empty: "elems empty = {}"
    and elems_insert: "elems (insert x s) = Set.insert x (elems s)"
    and size_card: "invar s \<Longrightarrow> size_of s = card (elems s)"
    and invar_empty: "invar empty"
    and invar_insert: "invar s \<Longrightarrow> invar (insert x s)"
    and extensional: "invar s \<Longrightarrow> invar t \<Longrightarrow> elems s = elems t \<Longrightarrow> s = t"
begin

lemma elems_fold: "elems (fold insert xs s) = set xs \<union> elems s"
  by (induction xs arbitrary: s) (auto simp: elems_insert)

lemma invar_fold: "invar s \<Longrightarrow> invar (fold insert xs s)"
  by (induction xs arbitrary: s) (auto simp: invar_insert)

lemma collect_elems: "elems (fold insert xs empty) = set xs"
  by (simp add: elems_fold elems_empty)

lemma collect_invar: "invar (fold insert xs empty)"
  by (simp add: invar_fold invar_empty)

text \<open>Comparing the size of a collected set with the number of items is the distinctness test.\<close>

lemma collect_size_eq: "size_of (fold insert xs empty) = length xs \<longleftrightarrow> distinct xs"
  by (metis card_distinct collect_elems collect_invar distinct_card size_card)

lemma collect_cong: "set xs = set ys \<Longrightarrow> fold insert xs empty = fold insert ys empty"
  by (simp add: collect_elems collect_invar extensional)

lemma insert_absorb: "invar s \<Longrightarrow> x \<in> elems s \<Longrightarrow> insert x s = s"
  by (rule extensional) (auto simp: invar_insert elems_insert)

end

locale ordered_map =
  fixes empty :: "'m"
    and insert :: "'k \<Rightarrow> 'v \<Rightarrow> 'm \<Rightarrow> 'm"
    and get :: "'m \<Rightarrow> 'k \<Rightarrow> 'v option"
    and invar :: "'m \<Rightarrow> bool"
  assumes get_empty: "get empty k = None"
    and get_insert: "invar m \<Longrightarrow> get (insert k v m) k' = (if k' = k then Some v else get m k')"
    and invar_empty: "invar empty"
    and invar_insert: "invar m \<Longrightarrow> invar (insert k v m)"
begin

lemma invar_fold: "invar m \<Longrightarrow> invar (fold (\<lambda>x. insert (key x) (val x)) xs m)"
  by (induction xs arbitrary: m) (auto simp: invar_insert)

text \<open>After a loop of inserts under a fixed value function, a key of the loop has its value.\<close>

lemma get_fold:
  "invar m \<Longrightarrow> get (fold (\<lambda>k. insert k (f k)) ks m) k = (if k \<in> set ks then Some (f k) else get m k)"
  by (induction ks arbitrary: m) (auto simp: invar_insert get_insert)

end

section \<open>The implementations meet the contracts\<close>

lemma set_bset_insert [simp]: "set (bset_insert x s) = insert x (set s)"
  by (induction x s rule: bset_insert.induct) auto

lemma bset_wf_insert [simp]: "bset_wf s \<Longrightarrow> bset_wf (bset_insert x s)"
  unfolding bset_wf_def by (induction x s rule: bset_insert.induct) auto

lemma bset_wf_distinct: "bset_wf s \<Longrightarrow> distinct s"
  by (simp add: bset_wf_def strict_sorted_iff)

interpretation bset: ordered_set "[]" bset_insert set length bset_wf
proof
  fix s t :: "'a list"
  show "bset_wf s \<Longrightarrow> length s = card (set s)"
    by (simp add: bset_wf_distinct distinct_card)
  show "bset_wf s \<Longrightarrow> bset_wf t \<Longrightarrow> set s = set t \<Longrightarrow> s = t"
    by (simp add: bset_wf_def strict_sorted_equal)
qed (simp_all add: bset_wf_def [where s = "[]"])

lemma set_bset_of [btree_simps, simp]: "set (bset_of xs) = set xs"
  unfolding bset_of_def by (rule bset.collect_elems)

lemma bset_wf_of [btree_simps, simp]: "bset_wf (bset_of xs)"
  unfolding bset_of_def by (rule bset.collect_invar)

lemma length_bset_of_eq: "length (bset_of xs) = length xs \<longleftrightarrow> distinct xs"
  unfolding bset_of_def by (rule bset.collect_size_eq)

lemma length_bset_of: "length (bset_of xs) = card (set xs)"
  by (metis bset.size_card bset_wf_of set_bset_of)

lemma bset_of_cong: "set xs = set ys \<Longrightarrow> bset_of xs = bset_of ys"
  unfolding bset_of_def by (rule bset.collect_cong)

lemma bset_of_wf_id: "bset_wf s \<Longrightarrow> bset_of s = s"
  by (rule bset.extensional) simp_all

lemma set_bset_union [btree_simps, simp]: "set (bset_union s t) = set s \<union> set t"
  unfolding bset_union_def by (simp add: bset.elems_fold Un_commute)

lemma bset_wf_union [btree_simps, simp]: "bset_wf s \<Longrightarrow> bset_wf (bset_union s t)"
  unfolding bset_union_def by (rule bset.invar_fold)

lemma set_bset_difference [btree_simps, simp]: "set (bset_difference s t) = set s - set t"
  by (auto simp: bset_difference_def)

lemma bset_difference_empty_iff: "bset_difference s t = [] \<longleftrightarrow> set s \<subseteq> set t"
  by (auto simp: bset_difference_def filter_empty_conv)

lemma bset_wf_filter: "bset_wf s \<Longrightarrow> bset_wf (filter P s)"
  by (simp add: bset_wf_def sorted_wrt_filter)

lemma keys_bmap_insert [btree_simps, simp]:
  "fst ` set (bmap_insert k v m) = insert k (fst ` set m)"
  by (induction k v m rule: bmap_insert.induct) auto

lemma bmap_wf_insert [btree_simps, simp]: "bmap_wf m \<Longrightarrow> bmap_wf (bmap_insert k v m)"
proof (induction k v m rule: bmap_insert.induct)
  case (1 k v)
  then show ?case by (simp add: bmap_wf_def)
next
  case (2 k v k' v' m)
  have "\<forall>x \<in> fst ` set (bmap_insert k v m). k' < x" if "k' < k"
    using "2.prems" that by (auto simp: bmap_wf_def)
  with 2 show ?case by (auto simp: bmap_wf_def not_less)
qed

lemma map_of_bmap_insert:
  "bmap_wf m \<Longrightarrow> map_of (bmap_insert k v m) k' = (if k' = k then Some v else map_of m k')"
proof (induction k v m rule: bmap_insert.induct)
  case (1 k v)
  then show ?case by simp
next
  case (2 k v k' v' m)
  then show ?case by (auto simp: bmap_wf_def)
qed

interpretation bmap: ordered_map "[]" bmap_insert map_of bmap_wf
  by unfold_locales (simp_all add: map_of_bmap_insert bmap_wf_def [where m = "[]"])

lemma bmap_wf_Nil [simp]: "bmap_wf []"
  by (rule bmap.invar_empty)

lemma bset_wf_Nil [simp]: "bset_wf []"
  by (rule bset.invar_empty)

lemma bmap_wf_distinct: "bmap_wf m \<Longrightarrow> distinct (map fst m)"
  by (simp add: bmap_wf_def strict_sorted_iff)

lemma bmap_wf_keys: "bmap_wf m \<Longrightarrow> bset_wf (map fst m)"
  by (simp add: bmap_wf_def bset_wf_def)

lemma bmap_get_iff: "bmap_wf m \<Longrightarrow> map_of m k = Some v \<longleftrightarrow> (k, v) \<in> set m"
  by (simp add: bmap_wf_distinct)

lemma bmap_contains_iff: "map_of m k \<noteq> None \<longleftrightarrow> k \<in> fst ` set m"
  by (simp add: map_of_eq_None_iff)

lemma length_bmap_insert_new:
  "map_of m k = None \<Longrightarrow> length (bmap_insert k v m) = Suc (length m)"
  by (induction k v m rule: bmap_insert.induct) auto

lemma length_bmap_insert_old:
  "bmap_wf m \<Longrightarrow> map_of m k \<noteq> None \<Longrightarrow> map fst (bmap_insert k v m) = map fst m"
  by (rule strict_sorted_equal)
    (auto simp: bmap_wf_def [symmetric] map_of_eq_None_iff insert_absorb bmap_wf_insert)

lemma map_of_fold_insert:
  "bmap_wf m \<Longrightarrow> map_of (fold (\<lambda>(k, v). bmap_insert k v) entries m) k = Some v \<Longrightarrow>
   (k, v) \<in> set entries \<or> map_of m k = Some v"
proof (induction entries arbitrary: m)
  case (Cons e es)
  obtain a b where e: "e = (a, b)" by (cases e)
  from Cons.prems have "(k, v) \<in> set es \<or> map_of (bmap_insert a b m) k = Some v"
    by (intro Cons.IH) (simp_all add: e)
  then show ?case
    using Cons.prems(1) by (auto simp: e map_of_bmap_insert split: if_splits)
qed simp

end
