(* ===== verification/Serde.thy ===== *)
theory Serde
  imports BTree
begin

text \<open>
  The data formats at the boundary: \<open>serde_json::Value\<close> as a datatype with its constructors (its
  \<open>Number\<close> stays a type parameter, read only through an \<open>as_u64\<close> argument of the functions
  that need it), the tree a derived \<open>Serialize\<close> implementation describes, and the third-party
  functions the sources call as fields of the record \<open>env\<close>: \<open>sha256_hex\<close> (the lower-case hex of
  \<open>Sha256::digest\<close>) and \<open>to_vec\<close> (\<open>serde_json::to_vec\<close>). What the proofs rely on of them is
  stated as the named hypothesis \<open>sha256_is_hex\<close>.
\<close>

section \<open>JSON values\<close>

datatype 'n json =
    Null
  | Bool bool
  | Number 'n
  | String string
  | Array "'n json list"
  | Object "(string \<times> 'n json) list"

fun as_array :: "'n json \<Rightarrow> 'n json list option" where
  "as_array (Array xs) = Some xs"
| "as_array _ = None"

fun as_object :: "'n json \<Rightarrow> (string \<times> 'n json) list option" where
  "as_object (Object m) = Some m"
| "as_object _ = None"

fun as_bool :: "'n json \<Rightarrow> bool option" where
  "as_bool (Bool b) = Some b"
| "as_bool _ = None"

fun as_str :: "'n json \<Rightarrow> string option" where
  "as_str (String s) = Some s"
| "as_str _ = None"

fun as_number :: "('n \<Rightarrow> nat option) \<Rightarrow> 'n json \<Rightarrow> nat option" where
  "as_number as_u64 (Number n) = as_u64 n"
| "as_number as_u64 _ = None"

text \<open>\<open>Value::get\<close> with a string key: the member of an object, \<open>None\<close> on every other value.\<close>

fun json_get :: "'n json \<Rightarrow> string \<Rightarrow> 'n json option" where
  "json_get (Object m) k = map_of m k"
| "json_get _ k = None"

section \<open>Serialized trees\<close>

text \<open>
  What \<open>#[derive(Serialize)]\<close> describes: a struct is its fields by name in declaration order, a
  unit variant its renamed name, \<open>None\<close> is null, \<open>Some\<close> is transparent, a tuple, slice or ordered
  set is the sequence of its elements.
\<close>

datatype ser =
    SNull
  | SBool bool
  | SInt int
  | SStr string
  | SSeq "ser list"
  | SStruct "(string \<times> ser) list"

fun ser_option :: "('a \<Rightarrow> ser) \<Rightarrow> 'a option \<Rightarrow> ser" where
  "ser_option f None = SNull"
| "ser_option f (Some x) = f x"

abbreviation ser_u8 :: "u8 \<Rightarrow> ser" where
  "ser_u8 w \<equiv> SInt (uint w)"

abbreviation ser_usize :: "usize \<Rightarrow> ser" where
  "ser_usize n \<equiv> SInt (int n)"

section \<open>Third-party functions\<close>

record env =
  sha256_hex :: "bytes \<Rightarrow> string"
  to_vec :: "ser \<Rightarrow> bytes"

definition hash_serialized :: "env \<Rightarrow> ser \<Rightarrow> string" where
  "hash_serialized E v = sha256_hex E (to_vec E v)"

definition lower_hex_digit :: "char \<Rightarrow> bool" where
  "lower_hex_digit c \<longleftrightarrow> is_ascii_digit c \<or> byte_in (CHR ''a'') (CHR ''f'') c"

text \<open>
  Documented behaviour of the \<open>sha2\<close> crate under the lower-hex format: 32 bytes, two lower-case
  hex digits each.
\<close>

definition sha256_is_hex :: "env \<Rightarrow> bool" where
  "sha256_is_hex E \<longleftrightarrow>
     (\<forall>b. length (sha256_hex E b) = 64 \<and> list_all lower_hex_digit (sha256_hex E b))"

section \<open>The digest grammar\<close>

text \<open>
  Four modules carry their own copy of the canonical-digest test. The locale states the grammar they
  share; each copy is an interpretation in the theory of its module.
\<close>

locale digest_grammar =
  fixes valid :: "string \<Rightarrow> bool"
  assumes valid_iff: "valid s \<longleftrightarrow> length s = 64 \<and> list_all lower_hex_digit s"
begin

lemma digest_valid: "sha256_is_hex E \<Longrightarrow> valid (sha256_hex E b)"
  by (simp add: valid_iff sha256_is_hex_def)

lemma hash_serialized_valid: "sha256_is_hex E \<Longrightarrow> valid (hash_serialized E v)"
  by (simp add: hash_serialized_def digest_valid)

lemma valid_not_empty: "valid s \<Longrightarrow> s \<noteq> []"
  by (auto simp: valid_iff)

end

text \<open>
  Two different inputs with one digest. A statement that digests determine their inputs is a
  disjunction with this: SHA-256 is not injective, but a counterexample would be a collision.
\<close>

definition sha256_collision :: "env \<Rightarrow> bool" where
  "sha256_collision E \<longleftrightarrow> (\<exists>a b. a \<noteq> b \<and> sha256_hex E a = sha256_hex E b)"

lemma sha256_hex_eqD: "sha256_hex E a = sha256_hex E b \<Longrightarrow> a = b \<or> sha256_collision E"
  by (auto simp: sha256_collision_def)

text \<open>
  Documented behaviour of \<open>serde_json\<close>: the text of a value determines it.
\<close>

definition to_vec_injective :: "env \<Rightarrow> bool" where
  "to_vec_injective E \<longleftrightarrow> (\<forall>v w. to_vec E v = to_vec E w \<longrightarrow> v = w)"

lemma hash_serialized_eqD:
  assumes "to_vec_injective E" and "hash_serialized E v = hash_serialized E w"
  shows "v = w \<or> sha256_collision E"
proof -
  from assms(2) have "to_vec E v = to_vec E w \<or> sha256_collision E"
    unfolding hash_serialized_def by (rule sha256_hex_eqD)
  with assms(1) show ?thesis by (auto simp: to_vec_injective_def)
qed

section \<open>A concrete environment\<close>

text \<open>
  An instance used to evaluate the model on concrete inputs: an injective textual rendering of
  trees in prefix form, with lengths in unary, its reader, and a constant digest of the documented
  shape. It stands for neither SHA-256 nor JSON; it shows that the hypotheses above can hold.
\<close>

definition unary :: "nat \<Rightarrow> bytes" where
  "unary n = replicate n (CHR ''1'') @ [CHR '';'']"

fun render_bool :: "bool \<Rightarrow> bytes" where
  "render_bool b = (if b then ''t'' else ''f'')"

definition render_int :: "int \<Rightarrow> bytes" where
  "render_int i = render_bool (i < 0) @ unary (nat \<bar>i\<bar>)"

definition render_str :: "string \<Rightarrow> bytes" where
  "render_str s = unary (length s) @ s"

definition render_items :: "('a \<Rightarrow> bytes) \<Rightarrow> 'a list \<Rightarrow> bytes" where
  "render_items f xs = concat (map (\<lambda>x. CHR '','' # f x) xs) @ ''.''"

lemma render_items_cong [fundef_cong]:
  "xs = ys \<Longrightarrow> (\<And>x. x \<in> set ys \<Longrightarrow> f x = g x) \<Longrightarrow> render_items f xs = render_items g ys"
  unfolding render_items_def by (metis (no_types, lifting) map_cong)

fun render :: "ser \<Rightarrow> bytes" where
  "render SNull = ''n''"
| "render (SBool b) = CHR ''b'' # render_bool b"
| "render (SInt i) = CHR ''i'' # render_int i"
| "render (SStr s) = CHR ''s'' # render_str s"
| "render (SSeq xs) = CHR ''q'' # render_items render xs"
| "render (SStruct fs) = CHR ''o'' # render_items (\<lambda>(k, v). render_str k @ render v) fs"

definition zero_digest :: string where
  "zero_digest = replicate 64 (CHR ''0'')"

definition sample_env :: env where
  "sample_env = \<lparr>sha256_hex = \<lambda>_. zero_digest, to_vec = render\<rparr>"

lemma sample_env_simps [simp]:
  "sha256_hex sample_env b = zero_digest" "hash_serialized sample_env v = zero_digest"
  by (simp_all add: sample_env_def hash_serialized_def)

lemma zero_digest_hex: "length zero_digest = 64 \<and> list_all lower_hex_digit zero_digest"
  by (simp add: zero_digest_def list_all_iff lower_hex_digit_def is_ascii_digit_def byte_in_def)

lemma sample_env_hex: "sha256_is_hex sample_env"
  using zero_digest_hex by (simp add: sha256_is_hex_def)

lemma render_not_empty: "render v \<noteq> []"
  by (cases v) simp_all

lemma unary_prefix: "unary m @ xs = unary n @ ys \<Longrightarrow> m = n \<and> xs = ys"
  unfolding unary_def
proof (induction m arbitrary: n)
  case 0
  then show ?case by (cases n) auto
next
  case (Suc m)
  then show ?case by (cases n) auto
qed

lemma render_str_prefix: "render_str s @ xs = render_str t @ ys \<Longrightarrow> s = t \<and> xs = ys"
  by (auto simp: render_str_def dest!: unary_prefix)

lemma render_int_prefix: "render_int i @ xs = render_int j @ ys \<Longrightarrow> i = j \<and> xs = ys"
  by (auto simp: render_int_def dest!: unary_prefix split: if_splits)

text \<open>The rendering is prefix free, so it is injective.\<close>

lemma render_items_prefix:
  assumes "\<And>x y us vs. x \<in> set xs \<Longrightarrow> f x @ us = f y @ vs \<Longrightarrow> x = y \<and> us = vs"
    and "render_items f xs @ us = render_items f ys @ vs"
  shows "xs = ys \<and> us = vs"
  using assms
proof (induction xs arbitrary: ys)
  case Nil
  then show ?case by (cases ys) (auto simp: render_items_def)
next
  case (Cons x xs)
  from Cons.prems(2) obtain y ys' where ys: "ys = y # ys'"
    and eq: "f x @ (render_items f xs @ us) = f y @ (render_items f ys' @ vs)"
    by (cases ys) (auto simp: render_items_def)
  from Cons.prems(1) [OF _ eq] have "x = y"
    and rest: "render_items f xs @ us = render_items f ys' @ vs"
    by simp_all
  have "xs = ys' \<and> us = vs"
    by (rule Cons.IH [OF _ rest]) (rule Cons.prems(1), simp_all)
  with \<open>x = y\<close> ys show ?case by simp
qed

lemma render_prefix: "render v @ xs = render w @ ys \<Longrightarrow> v = w \<and> xs = ys"
proof (induction v arbitrary: w xs ys)
  case SNull
  then show ?case by (cases w) auto
next
  case (SBool b)
  then show ?case by (cases w) (auto split: if_splits)
next
  case (SInt i)
  then show ?case by (cases w) (auto dest: render_int_prefix)
next
  case (SStr s)
  then show ?case by (cases w) (auto dest: render_str_prefix)
next
  case (SSeq us)
  then obtain ws where w: "w = SSeq ws"
    and eq: "render_items render us @ xs = render_items render ws @ ys"
    by (cases w) auto
  from render_items_prefix [OF _ eq] SSeq.IH w show ?case by auto
next
  case (SStruct fs)
  then obtain gs where w: "w = SStruct gs"
    and eq: "render_items (\<lambda>(k, v). render_str k @ render v) fs @ xs =
             render_items (\<lambda>(k, v). render_str k @ render v) gs @ ys"
    by (cases w) auto
  have "fs = gs \<and> xs = ys"
  proof (rule render_items_prefix [OF _ eq])
    fix f g us vs
    assume f: "f \<in> set fs"
      and e: "(\<lambda>(k, v). render_str k @ render v) f @ us = (\<lambda>(k, v). render_str k @ render v) g @ vs"
    obtain k v k' v' where fg: "f = (k, v)" "g = (k', v')" by (cases f, cases g)
    from e fg have e': "render_str k @ (render v @ us) = render_str k' @ (render v' @ vs)" by simp
    from render_str_prefix [OF e'] have k: "k = k'" and r: "render v @ us = render v' @ vs" by simp_all
    from SStruct.IH [OF f _ r] fg k show "f = g \<and> us = vs" by auto
  qed
  with w show ?case by simp
qed

lemma sample_env_injective: "to_vec_injective sample_env"
  unfolding to_vec_injective_def sample_env_def
  using render_prefix [where xs = "[]" and ys = "[]"] by auto

text \<open>The reader of the rendering; \<open>k\<close> bounds the nesting depth.\<close>

fun parse_unary :: "bytes \<Rightarrow> (nat \<times> bytes) option" where
  "parse_unary [] = None"
| "parse_unary (c # cs) =
     (if c = CHR '';'' then Some (0, cs)
      else if c = CHR ''1'' then map_option (\<lambda>(n, rest). (Suc n, rest)) (parse_unary cs)
      else None)"

definition parse_str :: "bytes \<Rightarrow> (string \<times> bytes) option" where
  "parse_str bs =
     (case parse_unary bs of None \<Rightarrow> None
      | Some (n, rest) \<Rightarrow> if length rest < n then None else Some (take n rest, drop n rest))"

fun parse_items :: "(bytes \<Rightarrow> ('a \<times> bytes) option) \<Rightarrow> nat \<Rightarrow> bytes \<Rightarrow> ('a list \<times> bytes) option" where
  "parse_items p (Suc n) (c # cs) =
     (if c = CHR ''.'' then Some ([], cs)
      else case p cs of None \<Rightarrow> None
        | Some (x, rest) \<Rightarrow> map_option (\<lambda>(xs, r). (x # xs, r)) (parse_items p n rest))"
| "parse_items p _ _ = None"

definition parse_field :: "(bytes \<Rightarrow> (ser \<times> bytes) option) \<Rightarrow> bytes \<Rightarrow> ((string \<times> ser) \<times> bytes) option" where
  "parse_field p bs =
     (case parse_str bs of None \<Rightarrow> None
      | Some (k, rest) \<Rightarrow> map_option (\<lambda>(v, r). ((k, v), r)) (p rest))"

fun parse_ser :: "nat \<Rightarrow> bytes \<Rightarrow> (ser \<times> bytes) option" where
  "parse_ser (Suc k) (c # cs) =
     (if c = CHR ''n'' then Some (SNull, cs)
      else if c = CHR ''b'' then
        (case cs of [] \<Rightarrow> None | d # ds \<Rightarrow> Some (SBool (d = CHR ''t''), ds))
      else if c = CHR ''i'' then
        (case cs of [] \<Rightarrow> None
         | d # ds \<Rightarrow> map_option (\<lambda>(m, r). (SInt (if d = CHR ''t'' then - int m else int m), r)) (parse_unary ds))
      else if c = CHR ''s'' then map_option (\<lambda>(s, r). (SStr s, r)) (parse_str cs)
      else if c = CHR ''q'' then
        map_option (\<lambda>(xs, r). (SSeq xs, r)) (parse_items (parse_ser k) (length cs) cs)
      else if c = CHR ''o'' then
        map_option (\<lambda>(fs, r). (SStruct fs, r)) (parse_items (parse_field (parse_ser k)) (length cs) cs)
      else None)"
| "parse_ser _ _ = None"

fun shallow :: "nat \<Rightarrow> ser \<Rightarrow> bool" where
  "shallow 0 v = False"
| "shallow (Suc k) (SSeq xs) = list_all (shallow k) xs"
| "shallow (Suc k) (SStruct fs) = list_all (\<lambda>f. shallow k (snd f)) fs"
| "shallow (Suc k) v = True"

lemma parse_unary_unary: "parse_unary (unary n @ r) = Some (n, r)"
  unfolding unary_def by (induction n) simp_all

lemma parse_str_render: "parse_str (render_str s @ r) = Some (s, r)"
  by (simp add: parse_str_def render_str_def parse_unary_unary)

lemma parse_items_render:
  assumes "\<And>x r. x \<in> set xs \<Longrightarrow> p (f x @ r) = Some (x, r)" and "length xs < n"
  shows "parse_items p n (render_items f xs @ r) = Some (xs, r)"
  using assms
proof (induction xs arbitrary: n)
  case Nil
  then show ?case by (cases n) (auto simp: render_items_def)
next
  case (Cons x xs)
  then obtain m where n: "n = Suc m" by (cases n) auto
  have "parse_items p m (render_items f xs @ r) = Some (xs, r)"
    by (rule Cons.IH) (use Cons.prems n in auto)
  moreover have "p (f x @ render_items f xs @ r) = Some (x, render_items f xs @ r)"
    by (rule Cons.prems(1)) simp
  ultimately show ?case by (simp add: n render_items_def)
qed

lemma length_render_items: "length xs < length (render_items f xs @ r)"
  by (induction xs) (auto simp: render_items_def)

lemma parse_ser_render: "shallow k v \<Longrightarrow> parse_ser k (render v @ r) = Some (v, r)"
proof (induction k arbitrary: v r)
  case (Suc k)
  show ?case
  proof (cases v)
    case (SInt i)
    then show ?thesis by (simp add: render_int_def parse_unary_unary)
  next
    case (SSeq xs)
    have "parse_items (parse_ser k) (length (render_items render xs @ r)) (render_items render xs @ r) = Some (xs, r)"
      by (rule parse_items_render [OF _ length_render_items])
        (use Suc SSeq in \<open>auto simp: list_all_iff\<close>)
    with SSeq show ?thesis by simp
  next
    case (SStruct fs)
    have "parse_items (parse_field (parse_ser k))
        (length (render_items (\<lambda>(k, v). render_str k @ render v) fs @ r))
        (render_items (\<lambda>(k, v). render_str k @ render v) fs @ r) = Some (fs, r)"
      by (rule parse_items_render [OF _ length_render_items])
        (use Suc SStruct in \<open>auto simp: list_all_iff parse_field_def parse_str_render split: prod.splits\<close>)
    with SStruct show ?thesis by simp
  qed (simp_all add: parse_str_render)
qed simp

end
