(* ===== verification/D1_Target.thy ===== *)
theory D1_Target
  imports Serde
begin

text \<open>
  \<open>src/d1_target.rs\<close>: the canonical account/database identity every plan, receipt and custody key
  is bound to. The locale \<open>target_normalizer\<close> is the contract the later components rely on (a
  target that normalizes to itself is the exact input), interpreted on \<open>normalize_d1_target\<close>.
\<close>

definition MAX_D1_ACCOUNT_ID_BYTES :: usize where
  "MAX_D1_ACCOUNT_ID_BYTES = 256"

record D1TargetIdentity =
  tgt_account_id :: string
  tgt_database_id :: string

text \<open>The structured error \<open>invalid_argument_result\<close> returns: code, message and hint.\<close>

record invalid_argument =
  arg_code :: string
  arg_message :: string
  arg_hint :: string

definition invalid_argument_result :: "string \<Rightarrow> string \<Rightarrow> string \<Rightarrow> invalid_argument" where
  "invalid_argument_result code message hint =
     \<lparr>arg_code = code, arg_message = message, arg_hint = hint\<rparr>"

definition target_key_sha256 :: "env \<Rightarrow> D1TargetIdentity \<Rightarrow> string" where
  "target_key_sha256 E t =
     sha256_hex E (tgt_account_id t @ [CHR 0x00] @ tgt_database_id t)"

definition canonical_account_id :: "string \<Rightarrow> invalid_argument + string" where
  "canonical_account_id value =
     (let valid = value \<noteq> [] \<and> length value \<le> MAX_D1_ACCOUNT_ID_BYTES \<and>
        list_all (\<lambda>b. is_ascii_alphanumeric b \<or> b = CHR ''_'' \<or> b = CHR ''-'') value
      in if \<not> valid
         then Inl (invalid_argument_result ''d1.invalid_target_identity''
           (''account_id must be an exact 1..=256 byte ASCII identifier containing only letters, digits, ''
             @ [CHR 0x27] @ ''_'' @ [CHR 0x27] @ '' or '' @ [CHR 0x27] @ ''-'' @ [CHR 0x27])
           ''Use the exact account_id and database_id returned by Cloudflare; whitespace, NUL, dot, path, percent-encoded and other equivalent aliases are rejected.'')
         else Inr value)"

definition uuid_byte_ok :: "nat \<Rightarrow> char \<Rightarrow> bool" where
  "uuid_byte_ok index b =
     (if index \<in> {8, 13, 18, 23} then b = CHR ''-''
      else is_ascii_digit b \<or> byte_in (CHR ''a'') (CHR ''f'') b)"

definition canonical_database_id :: "string \<Rightarrow> invalid_argument + string" where
  "canonical_database_id value =
     (let valid = length value = 36 \<and>
        list_all (\<lambda>(index, b). uuid_byte_ok index b) (enumerate 0 value)
      in if \<not> valid
         then Inl (invalid_argument_result ''d1.invalid_target_identity''
           ''database_id must be a canonical lowercase hyphenated UUID''
           ''Use the exact lowercase database_id returned by Cloudflare; uppercase, mixed-case, compact, braced, whitespace, path and percent-encoded aliases are rejected.'')
         else Inr value)"

definition normalize_d1_target :: "string \<Rightarrow> string \<Rightarrow> invalid_argument + D1TargetIdentity" where
  "normalize_d1_target account_id database_id =
     ok_then (canonical_account_id account_id) (\<lambda>a.
     ok_then (canonical_database_id database_id) (\<lambda>d.
     Inr \<lparr>tgt_account_id = a, tgt_database_id = d\<rparr>))"

section \<open>The identity contract\<close>

locale target_normalizer =
  fixes normalize :: "string \<Rightarrow> string \<Rightarrow> 'e + D1TargetIdentity"
  assumes normalize_exact:
    "normalize a d = Inr t \<Longrightarrow> t = \<lparr>tgt_account_id = a, tgt_database_id = d\<rparr>"
begin

text \<open>The re-normalization guard of the consumers: it fails or leaves the target alone.\<close>

lemma guard_redundant:
  "normalize (tgt_account_id t) (tgt_database_id t) = Inr n \<Longrightarrow> n = t"
  by (auto dest: normalize_exact)

lemma guard_iff:
  "(\<exists>n. normalize (tgt_account_id t) (tgt_database_id t) = Inr n \<and> n = t) \<longleftrightarrow>
   (\<exists>n. normalize (tgt_account_id t) (tgt_database_id t) = Inr n)"
  using guard_redundant by blast

end

lemma canonical_account_id_eq_Inr:
  "canonical_account_id a = Inr x \<longleftrightarrow>
     x = a \<and> a \<noteq> [] \<and> length a \<le> 256 \<and>
     list_all (\<lambda>b. is_ascii_alphanumeric b \<or> b = CHR ''_'' \<or> b = CHR ''-'') a"
  unfolding canonical_account_id_def Let_def MAX_D1_ACCOUNT_ID_BYTES_def
  by auto

lemma canonical_database_id_eq_Inr:
  "canonical_database_id d = Inr x \<longleftrightarrow>
     x = d \<and> length d = 36 \<and> (\<forall>i<36. uuid_byte_ok i (d ! i))"
  unfolding canonical_database_id_def Let_def
  by (auto simp: list_all_length nth_enumerate_eq)

interpretation d1_target: target_normalizer normalize_d1_target
  by unfold_locales
    (auto simp: normalize_d1_target_def result_simps canonical_account_id_eq_Inr
      canonical_database_id_eq_Inr)

definition canonical_d1_target :: "D1TargetIdentity \<Rightarrow> bool" where
  "canonical_d1_target t \<longleftrightarrow>
     normalize_d1_target (tgt_account_id t) (tgt_database_id t) = Inr t"

lemma canonical_d1_target_iff:
  "canonical_d1_target t \<longleftrightarrow>
     (\<exists>n. normalize_d1_target (tgt_account_id t) (tgt_database_id t) = Inr n)"
  unfolding canonical_d1_target_def using d1_target.guard_redundant [of t] by blast

text \<open>No byte of a canonical account id is NUL, so the separator of the key is unambiguous.\<close>

lemma canonical_account_no_nul:
  assumes "canonical_account_id a = Inr x"
  shows "CHR 0x00 \<notin> set a"
proof
  assume nul: "CHR 0x00 \<in> set a"
  from assms have ok: "\<forall>b \<in> set a. is_ascii_alphanumeric b \<or> b = CHR ''_'' \<or> b = CHR ''-''"
    by (simp add: canonical_account_id_eq_Inr list_all_iff)
  have "\<not> (is_ascii_alphanumeric (CHR 0x00) \<or> CHR 0x00 = CHR ''_'' \<or>
      CHR 0x00 = CHR ''-'')"
    by (simp add: byte_defs)
  with ok nul show False by blast
qed

lemma append_separator_inject:
  "x \<notin> set xs \<Longrightarrow> x \<notin> set ys \<Longrightarrow> xs @ x # us = ys @ x # vs \<longleftrightarrow> xs = ys \<and> us = vs"
proof (induction xs arbitrary: ys)
  case Nil
  then show ?case by (cases ys) auto
next
  case (Cons z zs)
  then show ?case by (cases ys) auto
qed

lemma canonical_target_text:
  assumes "canonical_d1_target s" and "canonical_d1_target t"
    and "tgt_account_id s @ CHR 0x00 # tgt_database_id s = tgt_account_id t @ CHR 0x00 # tgt_database_id t"
  shows "s = t"
proof -
  have "CHR 0x00 \<notin> set (tgt_account_id u)" if "canonical_d1_target u" for u
    using that canonical_account_no_nul
    by (auto simp: canonical_d1_target_def normalize_d1_target_def result_simps)
  with assms show ?thesis by (auto simp: append_separator_inject)
qed

lemma target_key_inj:
  assumes "canonical_d1_target s" and "canonical_d1_target t"
    and "target_key_sha256 E s = target_key_sha256 E t"
  shows "s = t \<or> sha256_collision E"
  using canonical_target_text [OF assms(1,2)] assms(3) unfolding target_key_sha256_def by (auto dest: sha256_hex_eqD)

text \<open>The target key digest identifies the target: two canonical targets with one key are equal, unless SHA-256 collides; the NUL separator cannot be shifted between the two identifiers.\<close>

theorem target_key_determines_target:
  assumes "normalize_d1_target a1 d1 = Inr s" and "normalize_d1_target a2 d2 = Inr t"
    and "target_key_sha256 E s = target_key_sha256 E t"
  shows "(a1 = a2 \<and> d1 = d2) \<or> sha256_collision E"
proof -
  have "s = \<lparr>tgt_account_id = a1, tgt_database_id = d1\<rparr>" "t = \<lparr>tgt_account_id = a2, tgt_database_id = d2\<rparr>"
    using assms(1,2) d1_target.normalize_exact by blast+
  moreover from this assms(1,2) have "canonical_d1_target s" "canonical_d1_target t"
    by (simp_all add: canonical_d1_target_def)
  ultimately show ?thesis using target_key_inj [OF _ _ assms(3)] by auto
qed

text \<open>Normalization accepts exactly the canonical spellings and returns them unchanged: a non-empty account id of at most 256 letters, digits, underscores and hyphens, and a lower-case hyphenated UUID.\<close>

theorem target_normalization_exact:
  "normalize_d1_target a d = Inr t \<longleftrightarrow>
     t = \<lparr>tgt_account_id = a, tgt_database_id = d\<rparr> \<and> 1 \<le> length a \<and> length a \<le> 256 \<and>
     (\<forall>c \<in> set a. is_ascii_alphanumeric c \<or> c = CHR ''_'' \<or> c = CHR ''-'') \<and>
     length d = 36 \<and>
     (\<forall>i < 36. if i \<in> {8, 13, 18, 23} then d ! i = CHR ''-'' else lower_hex_digit (d ! i))"
  by (auto simp: normalize_d1_target_def result_simps canonical_account_id_eq_Inr canonical_database_id_eq_Inr
      list_all_iff uuid_byte_ok_def lower_hex_digit_def Suc_le_eq)

end
