(* ===== verification/D1_Catalog_Query.thy ===== *)
theory D1_Catalog_Query
  imports D1_Target
begin

text \<open>
  The text of the catalog query, \<open>D1_CATALOG_QUERY\<close> of \<open>src/d1_catalog_evidence.rs\<close>, line by
  line: the schema part, then the foreign-key part. The query is executed by the provider; the
  verifier uses its exact bytes (their length and digest are fields of the plan). \<open>sq\<close> is the
  single quote.
\<close>

abbreviation sq :: string where
  "sq \<equiv> [CHR 0x27]"

definition D1_CATALOG_QUERY_schema :: "string list" where
  "D1_CATALOG_QUERY_schema =
     [''WITH'',
      ''schema_raw AS ('',
      ''  SELECT rowid AS schema_rowid,'',
      ''    type AS raw_type, typeof(type) AS type_storage_class, hex(type) AS type_value_hex,'',
      ''    name AS raw_name, typeof(name) AS name_storage_class, hex(name) AS name_hex,'',
      ''    tbl_name AS raw_owner, typeof(tbl_name) AS owner_storage_class, hex(tbl_name) AS owner_hex,'',
      ''    sql AS raw_sql, typeof(sql) AS sql_storage_class'',
      ''  FROM sqlite_schema'',
      ''),'',
      ''schema_enriched AS ('',
      ''  SELECT candidate.*,'',
      ''    (SELECT count(*) FROM schema_raw AS claimant'',
      ''      WHERE claimant.name_hex = candidate.name_hex COLLATE BINARY'',
      ''         OR (claimant.name_storage_class = '' @ sq @ ''text'' @ sq,
      ''             AND candidate.name_storage_class = '' @ sq @ ''text'' @ sq,
      ''             AND claimant.raw_name = candidate.raw_name COLLATE NOCASE)) AS name_claimant_count'',
      ''  FROM schema_raw AS candidate'',
      ''),'',
      ''schema_classified AS ('',
      ''  SELECT candidate.*,'',
      ''    CASE'',
      ''      WHEN type_storage_class != '' @ sq @ ''text'' @ sq @ '' THEN '' @ sq @ ''schema_type_storage_class_invalid'' @ sq,
      ''      WHEN raw_type NOT IN ('' @ sq @ ''table'' @ sq @ '', '' @ sq @ ''view'' @ sq @ '', '' @ sq @ ''trigger'' @ sq @ '', '' @ sq @ ''index'' @ sq @ '') THEN '' @ sq @ ''schema_type_value_invalid'' @ sq,
      ''      WHEN name_storage_class != '' @ sq @ ''text'' @ sq @ '' THEN '' @ sq @ ''schema_name_storage_class_invalid'' @ sq,
      ''      WHEN instr(CAST(raw_name AS BLOB), X'' @ sq @ ''00'' @ sq @ '') != 0 THEN '' @ sq @ ''schema_name_contains_nul'' @ sq,
      ''      WHEN raw_name GLOB '' @ sq @ ''*[^ -~]*'' @ sq @ '' THEN '' @ sq @ ''schema_name_noncanonical_text'' @ sq,
      ''      WHEN owner_storage_class != '' @ sq @ ''text'' @ sq @ '' THEN '' @ sq @ ''schema_owner_storage_class_invalid'' @ sq,
      ''      WHEN instr(CAST(raw_owner AS BLOB), X'' @ sq @ ''00'' @ sq @ '') != 0 THEN '' @ sq @ ''schema_owner_contains_nul'' @ sq,
      ''      WHEN raw_owner GLOB '' @ sq @ ''*[^ -~]*'' @ sq @ '' THEN '' @ sq @ ''schema_owner_noncanonical_text'' @ sq,
      ''      WHEN sql_storage_class NOT IN ('' @ sq @ ''null'' @ sq @ '', '' @ sq @ ''text'' @ sq @ '') THEN '' @ sq @ ''schema_sql_storage_class_invalid'' @ sq,
      ''      WHEN name_claimant_count != 1 THEN '' @ sq @ ''schema_identity_ambiguous'' @ sq,
      ''      WHEN raw_type IN ('' @ sq @ ''table'' @ sq @ '', '' @ sq @ ''view'' @ sq @ '') AND raw_name != raw_owner COLLATE NOCASE'',
      ''        THEN '' @ sq @ ''relation_owner_mismatch'' @ sq,
      ''      WHEN raw_type IN ('' @ sq @ ''trigger'' @ sq @ '', '' @ sq @ ''index'' @ sq @ '') AND NOT EXISTS ('',
      ''        SELECT 1 FROM schema_enriched AS owner'',
      ''        WHERE owner.type_storage_class = '' @ sq @ ''text'' @ sq,
      ''          AND owner.raw_type IN ('' @ sq @ ''table'' @ sq @ '', '' @ sq @ ''view'' @ sq @ '')'',
      ''          AND owner.name_storage_class = '' @ sq @ ''text'' @ sq,
      ''          AND instr(CAST(owner.raw_name AS BLOB), X'' @ sq @ ''00'' @ sq @ '') = 0'',
      ''          AND owner.raw_name NOT GLOB '' @ sq @ ''*[^ -~]*'' @ sq,
      ''          AND owner.owner_storage_class = '' @ sq @ ''text'' @ sq,
      ''          AND instr(CAST(owner.raw_owner AS BLOB), X'' @ sq @ ''00'' @ sq @ '') = 0'',
      ''          AND owner.raw_owner NOT GLOB '' @ sq @ ''*[^ -~]*'' @ sq,
      ''          AND owner.sql_storage_class IN ('' @ sq @ ''null'' @ sq @ '', '' @ sq @ ''text'' @ sq @ '')'',
      ''          AND owner.name_claimant_count = 1'',
      ''          AND owner.raw_name = owner.raw_owner COLLATE NOCASE'',
      ''          AND owner.raw_name = candidate.raw_owner COLLATE NOCASE)'',
      ''        THEN '' @ sq @ ''schema_owner_unresolved'' @ sq,
      ''      ELSE '' @ sq @ sq,
      ''    END AS structural_blocker'',
      ''  FROM schema_enriched AS candidate'',
      ''),'',
      ''schema_facts AS ('',
      ''  SELECT schema_rowid, 0 AS fact_order,'',
      ''    CASE'',
      ''      WHEN structural_blocker != '' @ sq @ sq @ '' THEN '' @ sq @ ''schema_blocker'' @ sq,
      ''      WHEN raw_type IN ('' @ sq @ ''table'' @ sq @ '', '' @ sq @ ''view'' @ sq @ '') THEN '' @ sq @ ''relation'' @ sq,
      ''      WHEN raw_type = '' @ sq @ ''trigger'' @ sq @ '' THEN '' @ sq @ ''trigger_owner'' @ sq,
      ''      ELSE '' @ sq @ ''schema_auxiliary'' @ sq,
      ''    END AS fact_kind,'',
      ''    type_storage_class AS relation_type_storage_class,'',
      ''    type_value_hex AS relation_type_value_hex,'',
      ''    CASE WHEN type_storage_class = '' @ sq @ ''text'' @ sq,
      ''           AND raw_type IN ('' @ sq @ ''table'' @ sq @ '', '' @ sq @ ''view'' @ sq @ '', '' @ sq @ ''trigger'' @ sq @ '', '' @ sq @ ''index'' @ sq @ '')'',
      ''      THEN raw_type ELSE '' @ sq @ sq @ '' END AS relation_type,'',
      ''    name_storage_class AS relation_name_storage_class,'',
      ''    name_hex AS relation_name_hex,'',
      ''    owner_storage_class AS owner_name_storage_class,'',
      ''    owner_hex AS owner_name_hex,'',
      ''    sql_storage_class AS schema_sql_storage_class,'',
      ''    CASE WHEN structural_blocker = '' @ sq @ sq @ '' AND raw_type = '' @ sq @ ''table'' @ sq @ '' AND sql_storage_class = '' @ sq @ ''text'' @ sq,
      ''      THEN 0 ELSE 1 END AS table_sql_token_source_is_null,'',
      ''    CASE WHEN structural_blocker = '' @ sq @ sq @ '' AND raw_type = '' @ sq @ ''table'' @ sq @ '' AND sql_storage_class = '' @ sq @ ''text'' @ sq,
      ''      THEN hex(raw_sql) ELSE '' @ sq @ sq @ '' END AS table_sql_token_source_hex,'',
      ''    CASE WHEN structural_blocker = '' @ sq @ sq @ '' AND raw_type = '' @ sq @ ''table'' @ sq @ '' AND sql_storage_class = '' @ sq @ ''text'' @ sq,
      ''        AND length(CAST(raw_sql AS BLOB)) <= 65536'',
      ''        AND instr(lower(raw_sql), '' @ sq @ ''virtual'' @ sq @ '') != 0'',
      ''      THEN 1 ELSE 0 END AS table_virtual_token_hit,'',
      ''    CASE WHEN structural_blocker = '' @ sq @ sq @ '' AND raw_type = '' @ sq @ ''table'' @ sq @ '' AND sql_storage_class = '' @ sq @ ''text'' @ sq,
      ''        AND length(CAST(raw_sql AS BLOB)) <= 65536'',
      ''        AND instr(lower(raw_sql), '' @ sq @ ''replace'' @ sq @ '') != 0'',
      ''      THEN 1 ELSE 0 END AS table_replace_token_hit,'',
      ''    '' @ sq @ ''not_applicable'' @ sq @ '' AS foreign_key_id_storage_class, '' @ sq @ sq @ '' AS foreign_key_id_value_hex,'',
      ''    -1 AS foreign_key_id,'',
      ''    '' @ sq @ ''not_applicable'' @ sq @ '' AS foreign_key_seq_storage_class, '' @ sq @ sq @ '' AS foreign_key_seq_value_hex,'',
      ''    -1 AS foreign_key_seq,'',
      ''    '' @ sq @ ''not_applicable'' @ sq @ '' AS parent_name_storage_class, '' @ sq @ sq @ '' AS parent_name_hex,'',
      ''    '' @ sq @ ''not_applicable'' @ sq @ '' AS from_column_storage_class, '' @ sq @ sq @ '' AS from_column_hex,'',
      ''    '' @ sq @ ''not_applicable'' @ sq @ '' AS to_column_storage_class, 1 AS to_column_is_null, '' @ sq @ sq @ '' AS to_column_hex,'',
      ''    '' @ sq @ ''not_applicable'' @ sq @ '' AS on_update_storage_class, '' @ sq @ sq @ '' AS on_update_hex,'',
      ''    '' @ sq @ ''not_applicable'' @ sq @ '' AS on_delete_storage_class, '' @ sq @ sq @ '' AS on_delete_hex,'',
      ''    '' @ sq @ ''not_applicable'' @ sq @ '' AS match_storage_class, '' @ sq @ sq @ '' AS match_hex,'',
      ''    CASE'',
      ''      WHEN structural_blocker != '' @ sq @ sq @ '' THEN structural_blocker'',
      ''      WHEN raw_type = '' @ sq @ ''view'' @ sq @ '' THEN '' @ sq @ ''view_write_semantics_unproven'' @ sq,
      ''      WHEN raw_type = '' @ sq @ ''trigger'' @ sq @ '' THEN '' @ sq @ ''trigger_effects_unproven'' @ sq,
      ''      WHEN raw_type = '' @ sq @ ''table'' @ sq @ '' AND sql_storage_class = '' @ sq @ ''null'' @ sq,
      ''        THEN '' @ sq @ ''table_sql_token_source_unavailable'' @ sq,
      ''      WHEN raw_type = '' @ sq @ ''table'' @ sq @ '' AND sql_storage_class = '' @ sq @ ''text'' @ sq,
      ''          AND length(CAST(raw_sql AS BLOB)) > 65536'',
      ''        THEN '' @ sq @ ''table_sql_token_source_oversized'' @ sq,
      ''      WHEN raw_type = '' @ sq @ ''table'' @ sq @ '' AND sql_storage_class = '' @ sq @ ''text'' @ sq,
      ''          AND instr(lower(raw_sql), '' @ sq @ ''virtual'' @ sq @ '') != 0'',
      ''        THEN '' @ sq @ ''table_virtual_semantics_unproven'' @ sq,
      ''      WHEN raw_type = '' @ sq @ ''table'' @ sq @ '' AND sql_storage_class = '' @ sq @ ''text'' @ sq,
      ''          AND instr(lower(raw_sql), '' @ sq @ ''replace'' @ sq @ '') != 0'',
      ''        THEN '' @ sq @ ''table_replace_semantics_unproven'' @ sq,
      ''      ELSE '' @ sq @ sq,
      ''    END AS conservative_blocker'',
      ''  FROM schema_classified'',
      ''),'']"

definition D1_CATALOG_QUERY_foreign_keys :: "string list" where
  "D1_CATALOG_QUERY_foreign_keys =
     [''eligible_children AS ('',
      ''  SELECT * FROM schema_classified'',
      ''  WHERE structural_blocker = '' @ sq @ sq @ '' AND raw_type = '' @ sq @ ''table'' @ sq,
      ''),'',
      ''foreign_key_raw AS ('',
      ''  SELECT child.schema_rowid, child.name_hex AS child_name_hex,'',
      ''    fk.id AS raw_id, typeof(fk.id) AS id_storage_class, hex(fk.id) AS id_value_hex,'',
      ''    fk.seq AS raw_seq, typeof(fk.seq) AS seq_storage_class, hex(fk.seq) AS seq_value_hex,'',
      ''    fk.\"table\" AS raw_parent, typeof(fk.\"table\") AS parent_storage_class,'',
      ''      hex(fk.\"table\") AS parent_hex,'',
      ''    fk.\"from\" AS raw_from, typeof(fk.\"from\") AS from_storage_class,'',
      ''      hex(fk.\"from\") AS from_hex,'',
      ''    fk.\"to\" AS raw_to, typeof(fk.\"to\") AS to_storage_class, hex(fk.\"to\") AS to_hex,'',
      ''    fk.on_update AS raw_on_update, typeof(fk.on_update) AS on_update_storage_class,'',
      ''      hex(fk.on_update) AS on_update_hex,'',
      ''    fk.on_delete AS raw_on_delete, typeof(fk.on_delete) AS on_delete_storage_class,'',
      ''      hex(fk.on_delete) AS on_delete_hex,'',
      ''    fk.\"match\" AS raw_match, typeof(fk.\"match\") AS match_storage_class,'',
      ''      hex(fk.\"match\") AS match_hex'',
      ''  FROM eligible_children AS child'',
      ''  JOIN pragma_foreign_key_list(child.raw_name) AS fk'',
      ''),'',
      ''foreign_key_classified AS ('',
      ''  SELECT foreign_key.*,'',
      ''    CASE'',
      ''      WHEN id_storage_class != '' @ sq @ ''integer'' @ sq @ '' THEN '' @ sq @ ''foreign_key_id_storage_class_invalid'' @ sq,
      ''      WHEN raw_id < 0 THEN '' @ sq @ ''foreign_key_id_value_invalid'' @ sq,
      ''      WHEN seq_storage_class != '' @ sq @ ''integer'' @ sq @ '' THEN '' @ sq @ ''foreign_key_seq_storage_class_invalid'' @ sq,
      ''      WHEN raw_seq < 0 THEN '' @ sq @ ''foreign_key_seq_value_invalid'' @ sq,
      ''      WHEN parent_storage_class != '' @ sq @ ''text'' @ sq @ '' THEN '' @ sq @ ''foreign_key_parent_storage_class_invalid'' @ sq,
      ''      WHEN instr(CAST(raw_parent AS BLOB), X'' @ sq @ ''00'' @ sq @ '') != 0 THEN '' @ sq @ ''foreign_key_parent_contains_nul'' @ sq,
      ''      WHEN raw_parent GLOB '' @ sq @ ''*[^ -~]*'' @ sq @ '' THEN '' @ sq @ ''foreign_key_parent_noncanonical_text'' @ sq,
      ''      WHEN from_storage_class != '' @ sq @ ''text'' @ sq @ '' THEN '' @ sq @ ''foreign_key_from_storage_class_invalid'' @ sq,
      ''      WHEN instr(CAST(raw_from AS BLOB), X'' @ sq @ ''00'' @ sq @ '') != 0 THEN '' @ sq @ ''foreign_key_from_contains_nul'' @ sq,
      ''      WHEN raw_from GLOB '' @ sq @ ''*[^ -~]*'' @ sq @ '' THEN '' @ sq @ ''foreign_key_from_noncanonical_text'' @ sq,
      ''      WHEN to_storage_class NOT IN ('' @ sq @ ''null'' @ sq @ '', '' @ sq @ ''text'' @ sq @ '') THEN '' @ sq @ ''foreign_key_to_storage_class_invalid'' @ sq,
      ''      WHEN to_storage_class = '' @ sq @ ''text'' @ sq @ '' AND instr(CAST(raw_to AS BLOB), X'' @ sq @ ''00'' @ sq @ '') != 0'',
      ''        THEN '' @ sq @ ''foreign_key_to_contains_nul'' @ sq,
      ''      WHEN to_storage_class = '' @ sq @ ''text'' @ sq @ '' AND raw_to GLOB '' @ sq @ ''*[^ -~]*'' @ sq,
      ''        THEN '' @ sq @ ''foreign_key_to_noncanonical_text'' @ sq,
      ''      WHEN on_update_storage_class != '' @ sq @ ''text'' @ sq @ '' THEN '' @ sq @ ''foreign_key_on_update_storage_class_invalid'' @ sq,
      ''      WHEN raw_on_update NOT IN ('' @ sq @ ''NO ACTION'' @ sq @ '', '' @ sq @ ''RESTRICT'' @ sq @ '', '' @ sq @ ''SET NULL'' @ sq @ '', '' @ sq @ ''SET DEFAULT'' @ sq @ '', '' @ sq @ ''CASCADE'' @ sq @ '')'',
      ''        THEN '' @ sq @ ''foreign_key_on_update_value_invalid'' @ sq,
      ''      WHEN on_delete_storage_class != '' @ sq @ ''text'' @ sq @ '' THEN '' @ sq @ ''foreign_key_on_delete_storage_class_invalid'' @ sq,
      ''      WHEN raw_on_delete NOT IN ('' @ sq @ ''NO ACTION'' @ sq @ '', '' @ sq @ ''RESTRICT'' @ sq @ '', '' @ sq @ ''SET NULL'' @ sq @ '', '' @ sq @ ''SET DEFAULT'' @ sq @ '', '' @ sq @ ''CASCADE'' @ sq @ '')'',
      ''        THEN '' @ sq @ ''foreign_key_on_delete_value_invalid'' @ sq,
      ''      WHEN match_storage_class != '' @ sq @ ''text'' @ sq @ '' THEN '' @ sq @ ''foreign_key_match_storage_class_invalid'' @ sq,
      ''      WHEN raw_match NOT IN ('' @ sq @ ''NONE'' @ sq @ '', '' @ sq @ ''SIMPLE'' @ sq @ '', '' @ sq @ ''PARTIAL'' @ sq @ '', '' @ sq @ ''FULL'' @ sq @ '')'',
      ''        THEN '' @ sq @ ''foreign_key_match_value_invalid'' @ sq,
      ''      ELSE '' @ sq @ sq,
      ''    END AS structural_blocker'',
      ''  FROM foreign_key_raw AS foreign_key'',
      ''),'',
      ''foreign_key_facts AS ('',
      ''  SELECT foreign_key.schema_rowid, 1 AS fact_order,'',
      ''    CASE WHEN structural_blocker = '' @ sq @ sq @ '' THEN '' @ sq @ ''foreign_key'' @ sq @ '' ELSE '' @ sq @ ''foreign_key_blocker'' @ sq @ '' END AS fact_kind,'',
      ''    '' @ sq @ ''text'' @ sq @ '' AS relation_type_storage_class, '' @ sq @ ''7461626C65'' @ sq @ '' AS relation_type_value_hex,'',
      ''    '' @ sq @ ''table'' @ sq @ '' AS relation_type,'',
      ''    '' @ sq @ ''text'' @ sq @ '' AS relation_name_storage_class, child_name_hex AS relation_name_hex,'',
      ''    '' @ sq @ ''not_applicable'' @ sq @ '' AS owner_name_storage_class, '' @ sq @ sq @ '' AS owner_name_hex,'',
      ''    '' @ sq @ ''not_applicable'' @ sq @ '' AS schema_sql_storage_class,'',
      ''    1 AS table_sql_token_source_is_null, '' @ sq @ sq @ '' AS table_sql_token_source_hex,'',
      ''    0 AS table_virtual_token_hit,'',
      ''    0 AS table_replace_token_hit,'',
      ''    id_storage_class AS foreign_key_id_storage_class,'',
      ''    id_value_hex AS foreign_key_id_value_hex,'',
      ''    CASE WHEN id_storage_class = '' @ sq @ ''integer'' @ sq @ '' THEN raw_id ELSE -1 END AS foreign_key_id,'',
      ''    seq_storage_class AS foreign_key_seq_storage_class,'',
      ''    seq_value_hex AS foreign_key_seq_value_hex,'',
      ''    CASE WHEN seq_storage_class = '' @ sq @ ''integer'' @ sq @ '' THEN raw_seq ELSE -1 END AS foreign_key_seq,'',
      ''    parent_storage_class AS parent_name_storage_class, parent_hex AS parent_name_hex,'',
      ''    from_storage_class AS from_column_storage_class, from_hex AS from_column_hex,'',
      ''    to_storage_class AS to_column_storage_class,'',
      ''    CASE WHEN to_storage_class = '' @ sq @ ''null'' @ sq @ '' THEN 1 ELSE 0 END AS to_column_is_null,'',
      ''    to_hex AS to_column_hex,'',
      ''    on_update_storage_class, on_update_hex,'',
      ''    on_delete_storage_class, on_delete_hex,'',
      ''    match_storage_class, match_hex,'',
      ''    CASE'',
      ''      WHEN structural_blocker != '' @ sq @ sq @ '' THEN structural_blocker'',
      ''      WHEN NOT EXISTS ('',
      ''        SELECT 1 FROM schema_classified AS parent'',
      ''        WHERE parent.structural_blocker = '' @ sq @ sq @ '' AND parent.raw_type = '' @ sq @ ''table'' @ sq,
      ''          AND parent.raw_name = foreign_key.raw_parent COLLATE NOCASE)'',
      ''        THEN '' @ sq @ ''foreign_key_parent_unresolved'' @ sq,
      ''      ELSE '' @ sq @ sq,
      ''    END AS conservative_blocker'',
      ''  FROM foreign_key_classified AS foreign_key'',
      ''),'',
      ''facts AS ('',
      ''  SELECT * FROM schema_facts'',
      ''  UNION ALL'',
      ''  SELECT * FROM foreign_key_facts'',
      '')'',
      ''SELECT * FROM facts'',
      ''ORDER BY schema_rowid, fact_order, fact_kind COLLATE BINARY,'',
      ''  relation_type_storage_class COLLATE BINARY, relation_type_value_hex COLLATE BINARY,'',
      ''  relation_type COLLATE BINARY, relation_name_storage_class COLLATE BINARY,'',
      ''  relation_name_hex COLLATE BINARY, owner_name_storage_class COLLATE BINARY,'',
      ''  owner_name_hex COLLATE BINARY, schema_sql_storage_class COLLATE BINARY,'',
      ''  table_sql_token_source_is_null, table_sql_token_source_hex COLLATE BINARY,'',
      ''  table_virtual_token_hit, table_replace_token_hit,'',
      ''  foreign_key_id_storage_class COLLATE BINARY, foreign_key_id_value_hex COLLATE BINARY,'',
      ''  foreign_key_id, foreign_key_seq_storage_class COLLATE BINARY,'',
      ''  foreign_key_seq_value_hex COLLATE BINARY, foreign_key_seq,'',
      ''  parent_name_storage_class COLLATE BINARY, parent_name_hex COLLATE BINARY,'',
      ''  from_column_storage_class COLLATE BINARY, from_column_hex COLLATE BINARY,'',
      ''  to_column_storage_class COLLATE BINARY, to_column_is_null, to_column_hex COLLATE BINARY,'',
      ''  on_update_storage_class COLLATE BINARY, on_update_hex COLLATE BINARY,'',
      ''  on_delete_storage_class COLLATE BINARY, on_delete_hex COLLATE BINARY,'',
      ''  match_storage_class COLLATE BINARY, match_hex COLLATE BINARY,'',
      ''  conservative_blocker COLLATE BINARY'',
      ''LIMIT 1001'']"

text \<open>Lines joined by newlines, without a final one.\<close>

fun join_lines :: "string list \<Rightarrow> string" where
  "join_lines [] = []"
| "join_lines [l] = l"
| "join_lines (l # ls) = l @ [CHR 0x0A] @ join_lines ls"

definition D1_CATALOG_QUERY :: string where
  "D1_CATALOG_QUERY = join_lines (D1_CATALOG_QUERY_schema @ D1_CATALOG_QUERY_foreign_keys)"

end
