(* ===== verification/D1_Catalog.thy ===== *)
theory D1_Catalog
  imports D1_Catalog_Query
begin

text \<open>
  \<open>src/d1_catalog_evidence.rs\<close>: the catalog query plan, the projection rows two provider
  observations claim, and the verifier that accepts a pair of observations as one stable catalog
  snapshot. The deserializer of the observation body (\<open>serde_json::from_slice\<close> into the payload
  struct) is the argument \<open>from_slice\<close> of the functions that read a body.
\<close>

definition D1_CATALOG_EVIDENCE_OPERATION :: string where
  "D1_CATALOG_EVIDENCE_OPERATION = ''d1_catalog_evidence''"

definition D1_CATALOG_MAX_ROWS :: usize where
  "D1_CATALOG_MAX_ROWS = 1000"

definition D1_CATALOG_PROVIDER_ROW_CAP :: usize where
  "D1_CATALOG_PROVIDER_ROW_CAP = D1_CATALOG_MAX_ROWS + 1"

definition D1_CATALOG_PROVIDER_BYTE_CAP :: usize where
  "D1_CATALOG_PROVIDER_BYTE_CAP = 4 * 1024 * 1024"

definition D1_CATALOG_TABLE_SQL_TOKEN_SOURCE_BYTE_CAP :: usize where
  "D1_CATALOG_TABLE_SQL_TOKEN_SOURCE_BYTE_CAP = 64 * 1024"

definition D1_CATALOG_PROJECTION_VERSION :: u8 where
  "D1_CATALOG_PROJECTION_VERSION = 5"

definition D1_CATALOG_EVIDENCE_VERSION :: u8 where
  "D1_CATALOG_EVIDENCE_VERSION = 5"

section \<open>Data\<close>

record D1CatalogEvidencePlan =
  cplan_version :: u8
  cplan_operation :: string
  cplan_account_id :: string
  cplan_database_id :: string
  cplan_target_key_sha256 :: string
  cplan_projection_version :: u8
  cplan_projection_fields :: "string list"
  cplan_query :: string
  cplan_query_sha256 :: string
  cplan_query_size_bytes :: usize
  cplan_max_catalog_rows :: usize
  cplan_provider_row_cap :: usize
  cplan_provider_byte_cap :: usize

record D1CatalogObservationFrame =
  frame_target :: D1TargetIdentity
  frame_query_plan_sha256 :: string
  frame_dispatch_id :: string
  frame_read_id :: string
  frame_provider_row_cap :: usize
  frame_provider_byte_cap :: usize
  frame_body_complete :: bool
  frame_body_size_bytes :: usize
  frame_body :: bytes

definition from_adapter_observation ::
  "D1TargetIdentity \<Rightarrow> string \<Rightarrow> string \<Rightarrow> string \<Rightarrow> usize \<Rightarrow> usize \<Rightarrow> bool \<Rightarrow> usize \<Rightarrow> bytes
    \<Rightarrow> D1CatalogObservationFrame" where
  "from_adapter_observation target query_plan_sha256 dispatch_id read_id provider_row_cap
     provider_byte_cap body_complete body_size_bytes body =
     \<lparr>frame_target = target, frame_query_plan_sha256 = query_plan_sha256,
      frame_dispatch_id = dispatch_id, frame_read_id = read_id,
      frame_provider_row_cap = provider_row_cap, frame_provider_byte_cap = provider_byte_cap,
      frame_body_complete = body_complete, frame_body_size_bytes = body_size_bytes,
      frame_body = body\<rparr>"

record D1CatalogEvidenceReceipt =
  cat_version :: u8
  cat_operation :: string
  cat_target_key_sha256 :: string
  cat_query_plan_sha256 :: string
  cat_query_sha256 :: string
  cat_projection_version :: u8
  cat_catalog_snapshot_sha256 :: string
  cat_catalog_row_count :: usize
  cat_schema_physical_row_count :: usize
  cat_relation_fact_count :: usize
  cat_trigger_owner_fact_count :: usize
  cat_schema_auxiliary_fact_count :: usize
  cat_schema_blocker_fact_count :: usize
  cat_foreign_key_fact_count :: usize
  cat_foreign_key_blocker_fact_count :: usize
  cat_conservative_blocker_count :: usize
  cat_observation_pair_sha256 :: string
  cat_stable_primary_observations :: u8
  cat_provider_row_cap :: usize
  cat_provider_byte_cap :: usize
  cat_response_body_sizes :: "usize \<times> usize"

datatype D1CatalogEvidenceClassification =
    TargetIdentityInvalid
  | PlanDigestInvalid
  | PlanRederivationMismatch
  | ObservationTargetMismatch
  | ObservationPlanMismatch
  | ObservationIdentityInvalid
  | ObservationIdentityReused
  | ObservationCapMismatch
  | ObservationBodyIncomplete
  | ObservationBodySizeMismatch
  | ObservationBodyLimitExceeded
  | ObservationMalformed
  | ObservationTruncated
  | ObservationQueryFailed
  | ObservationNotPrimary
  | ObservationReportedMutation
  | CatalogRowLimitExceeded
  | CatalogRowMalformed
  | CatalogRowsNonCanonical
  | CatalogFactsContradictory
  | CatalogSnapshotsUnstable

type_synonym D1CatalogEvidenceError = "D1CatalogEvidenceClassification classified_error"
type_synonym 'a evidence = "D1CatalogEvidenceError failure + 'a"

record D1CatalogReadMetadata =
  meta_query_succeeded :: bool
  meta_served_by_primary :: bool
  meta_changed_db :: bool
  meta_changes :: u64
  meta_rows_written :: u64

text \<open>An \<open>i64\<close> column is an \<^typ>\<open>int\<close>: the code compares and prints it, and computes nothing.\<close>

record D1CatalogProjectionRow =
  schema_rowid :: int
  fact_order :: u8
  fact_kind :: string
  relation_type_storage_class :: string
  relation_type_value_hex :: string
  relation_type :: string
  relation_name_storage_class :: string
  relation_name_hex :: string
  owner_name_storage_class :: string
  owner_name_hex :: string
  schema_sql_storage_class :: string
  table_sql_token_source_is_null :: u8
  table_sql_token_source_hex :: string
  table_virtual_token_hit :: u8
  table_replace_token_hit :: u8
  foreign_key_id_storage_class :: string
  foreign_key_id_value_hex :: string
  foreign_key_id :: int
  foreign_key_seq_storage_class :: string
  foreign_key_seq_value_hex :: string
  foreign_key_seq :: int
  parent_name_storage_class :: string
  parent_name_hex :: string
  from_column_storage_class :: string
  from_column_hex :: string
  to_column_storage_class :: string
  to_column_is_null :: u8
  to_column_hex :: string
  on_update_storage_class :: string
  on_update_hex :: string
  on_delete_storage_class :: string
  on_delete_hex :: string
  match_storage_class :: string
  match_hex :: string
  conservative_blocker :: string

record D1CatalogEvidenceProduct =
  cprod_receipt :: D1CatalogEvidenceReceipt
  cprod_rows :: "D1CatalogProjectionRow list"

record D1CatalogProjectionPayload =
  payload_version :: u8
  payload_results_truncated :: bool
  payload_meta :: D1CatalogReadMetadata
  payload_rows :: "D1CatalogProjectionRow list"

text \<open>
  The row as its columns in declaration order. The derived \<open>Ord\<close> compares the columns
  lexicographically in this order, the derived \<open>Serialize\<close> writes them in this order.
\<close>

datatype cell = CInt int | CStr string

fun cell_le :: "cell \<Rightarrow> cell \<Rightarrow> bool" where
  "cell_le (CInt a) (CInt b) = (a \<le> b)"
| "cell_le (CInt a) (CStr t) = True"
| "cell_le (CStr s) (CInt b) = False"
| "cell_le (CStr s) (CStr t) = (s \<le> t)"

instantiation cell :: linorder
begin

definition less_eq_cell :: "cell \<Rightarrow> cell \<Rightarrow> bool" where
  "less_eq_cell a b = cell_le a b"

definition less_cell :: "cell \<Rightarrow> cell \<Rightarrow> bool" where
  "less_cell a b = (cell_le a b \<and> \<not> cell_le b a)"

instance
proof
  fix a b c :: cell
  show "a < b \<longleftrightarrow> a \<le> b \<and> \<not> b \<le> a"
    by (simp add: less_eq_cell_def less_cell_def)
  show "a \<le> a"
    by (cases a) (simp_all add: less_eq_cell_def)
  show "a \<le> b \<Longrightarrow> b \<le> c \<Longrightarrow> a \<le> c"
    by (cases a; cases b; cases c) (simp_all add: less_eq_cell_def)
  show "a \<le> b \<Longrightarrow> b \<le> a \<Longrightarrow> a = b"
    by (cases a; cases b) (simp_all add: less_eq_cell_def)
  show "a \<le> b \<or> b \<le> a"
    by (cases a; cases b) (auto simp: less_eq_cell_def)
qed

end

definition row_cells :: "D1CatalogProjectionRow \<Rightarrow> (string \<times> cell) list" where
  "row_cells r =
     [(''schema_rowid'', CInt (schema_rowid r)), (''fact_order'', CInt (uint (fact_order r))),
      (''fact_kind'', CStr (fact_kind r)),
      (''relation_type_storage_class'', CStr (relation_type_storage_class r)),
      (''relation_type_value_hex'', CStr (relation_type_value_hex r)),
      (''relation_type'', CStr (relation_type r)),
      (''relation_name_storage_class'', CStr (relation_name_storage_class r)),
      (''relation_name_hex'', CStr (relation_name_hex r)),
      (''owner_name_storage_class'', CStr (owner_name_storage_class r)),
      (''owner_name_hex'', CStr (owner_name_hex r)),
      (''schema_sql_storage_class'', CStr (schema_sql_storage_class r)),
      (''table_sql_token_source_is_null'', CInt (uint (table_sql_token_source_is_null r))),
      (''table_sql_token_source_hex'', CStr (table_sql_token_source_hex r)),
      (''table_virtual_token_hit'', CInt (uint (table_virtual_token_hit r))),
      (''table_replace_token_hit'', CInt (uint (table_replace_token_hit r))),
      (''foreign_key_id_storage_class'', CStr (foreign_key_id_storage_class r)),
      (''foreign_key_id_value_hex'', CStr (foreign_key_id_value_hex r)),
      (''foreign_key_id'', CInt (foreign_key_id r)),
      (''foreign_key_seq_storage_class'', CStr (foreign_key_seq_storage_class r)),
      (''foreign_key_seq_value_hex'', CStr (foreign_key_seq_value_hex r)),
      (''foreign_key_seq'', CInt (foreign_key_seq r)),
      (''parent_name_storage_class'', CStr (parent_name_storage_class r)),
      (''parent_name_hex'', CStr (parent_name_hex r)),
      (''from_column_storage_class'', CStr (from_column_storage_class r)),
      (''from_column_hex'', CStr (from_column_hex r)),
      (''to_column_storage_class'', CStr (to_column_storage_class r)),
      (''to_column_is_null'', CInt (uint (to_column_is_null r))),
      (''to_column_hex'', CStr (to_column_hex r)),
      (''on_update_storage_class'', CStr (on_update_storage_class r)),
      (''on_update_hex'', CStr (on_update_hex r)),
      (''on_delete_storage_class'', CStr (on_delete_storage_class r)),
      (''on_delete_hex'', CStr (on_delete_hex r)),
      (''match_storage_class'', CStr (match_storage_class r)), (''match_hex'', CStr (match_hex r)),
      (''conservative_blocker'', CStr (conservative_blocker r))]"

definition row_key :: "D1CatalogProjectionRow \<Rightarrow> cell list" where
  "row_key r = map snd (row_cells r)"

fun ser_cell :: "cell \<Rightarrow> ser" where
  "ser_cell (CInt i) = SInt i"
| "ser_cell (CStr t) = SStr t"

definition ser_row :: "D1CatalogProjectionRow \<Rightarrow> ser" where
  "ser_row r = SStruct (map (\<lambda>(n, c). (n, ser_cell c)) (row_cells r))"

definition ser_catalog_receipt :: "D1CatalogEvidenceReceipt \<Rightarrow> ser" where
  "ser_catalog_receipt r = SStruct
     [(''version'', ser_u8 (cat_version r)), (''operation'', SStr (cat_operation r)),
      (''target_key_sha256'', SStr (cat_target_key_sha256 r)),
      (''query_plan_sha256'', SStr (cat_query_plan_sha256 r)),
      (''query_sha256'', SStr (cat_query_sha256 r)),
      (''projection_version'', ser_u8 (cat_projection_version r)),
      (''catalog_snapshot_sha256'', SStr (cat_catalog_snapshot_sha256 r)),
      (''catalog_row_count'', ser_usize (cat_catalog_row_count r)),
      (''schema_physical_row_count'', ser_usize (cat_schema_physical_row_count r)),
      (''relation_fact_count'', ser_usize (cat_relation_fact_count r)),
      (''trigger_owner_fact_count'', ser_usize (cat_trigger_owner_fact_count r)),
      (''schema_auxiliary_fact_count'', ser_usize (cat_schema_auxiliary_fact_count r)),
      (''schema_blocker_fact_count'', ser_usize (cat_schema_blocker_fact_count r)),
      (''foreign_key_fact_count'', ser_usize (cat_foreign_key_fact_count r)),
      (''foreign_key_blocker_fact_count'', ser_usize (cat_foreign_key_blocker_fact_count r)),
      (''conservative_blocker_count'', ser_usize (cat_conservative_blocker_count r)),
      (''observation_pair_sha256'', SStr (cat_observation_pair_sha256 r)),
      (''stable_primary_observations'', ser_u8 (cat_stable_primary_observations r)),
      (''provider_row_cap'', ser_usize (cat_provider_row_cap r)),
      (''provider_byte_cap'', ser_usize (cat_provider_byte_cap r)),
      (''response_body_sizes'', SSeq [ser_usize (fst (cat_response_body_sizes r)), ser_usize (snd (cat_response_body_sizes r))])]"

definition ser_catalog_plan :: "D1CatalogEvidencePlan \<Rightarrow> ser" where
  "ser_catalog_plan p = SStruct
     [(''version'', ser_u8 (cplan_version p)), (''operation'', SStr (cplan_operation p)),
      (''account_id'', SStr (cplan_account_id p)), (''database_id'', SStr (cplan_database_id p)),
      (''target_key_sha256'', SStr (cplan_target_key_sha256 p)),
      (''projection_version'', ser_u8 (cplan_projection_version p)),
      (''projection_fields'', SSeq (map SStr (cplan_projection_fields p))),
      (''query'', SStr (cplan_query p)), (''query_sha256'', SStr (cplan_query_sha256 p)),
      (''query_size_bytes'', ser_usize (cplan_query_size_bytes p)),
      (''max_catalog_rows'', ser_usize (cplan_max_catalog_rows p)),
      (''provider_row_cap'', ser_usize (cplan_provider_row_cap p)),
      (''provider_byte_cap'', ser_usize (cplan_provider_byte_cap p))]"

definition catalog_projection_fields :: "string list" where
  "catalog_projection_fields =
     [''schema_rowid'', ''fact_order'', ''fact_kind'', ''relation_type_storage_class'',
      ''relation_type_value_hex'', ''relation_type'', ''relation_name_storage_class'',
      ''relation_name_hex'', ''owner_name_storage_class'', ''owner_name_hex'',
      ''schema_sql_storage_class'', ''table_sql_token_source_is_null'',
      ''table_sql_token_source_hex'', ''table_virtual_token_hit'', ''table_replace_token_hit'',
      ''foreign_key_id_storage_class'', ''foreign_key_id_value_hex'', ''foreign_key_id'',
      ''foreign_key_seq_storage_class'', ''foreign_key_seq_value_hex'', ''foreign_key_seq'',
      ''parent_name_storage_class'', ''parent_name_hex'', ''from_column_storage_class'',
      ''from_column_hex'', ''to_column_storage_class'', ''to_column_is_null'', ''to_column_hex'',
      ''on_update_storage_class'', ''on_update_hex'', ''on_delete_storage_class'',
      ''on_delete_hex'', ''match_storage_class'', ''match_hex'', ''conservative_blocker'']"

section \<open>Errors and byte helpers\<close>

definition evidence_error :: "D1CatalogEvidenceClassification \<Rightarrow> string \<Rightarrow> D1CatalogEvidenceError failure" where
  "evidence_error classification message =
     Err (ClassifiedError ''d1.catalog_evidence_unproven'' classification message)"

definition contradictory_facts :: "D1CatalogEvidenceError failure" where
  "contradictory_facts = evidence_error CatalogFactsContradictory
     ''structured catalog facts contradicted their relation or constraint identities''"

definition hex_nibble :: "char \<Rightarrow> nat option" where
  "hex_nibble value =
     (if byte_in (CHR ''0'') (CHR ''9'') value then Some (byte value - 48)
      else if byte_in (CHR ''A'') (CHR ''F'') value then Some (byte value - 65 + 10)
      else None)"

text \<open>\<open>chunks_exact(2)\<close> drops an odd last byte; \<open>(high << 4) | low\<close> on nibbles is \<open>16 * high + low\<close>.\<close>

fun decode_upper_hex :: "string \<Rightarrow> bytes evidence" where
  "decode_upper_hex (h # l # rest) =
     (case hex_nibble h of None \<Rightarrow> Inl contradictory_facts
      | Some high \<Rightarrow> (case hex_nibble l of None \<Rightarrow> Inl contradictory_facts
      | Some low \<Rightarrow> ok_then (decode_upper_hex rest) (\<lambda>decoded.
          Inr (char_of (16 * high + low) # decoded))))"
| "decode_upper_hex _ = Inr []"

definition upper_hex_digit :: "nat \<Rightarrow> char" where
  "upper_hex_digit n = (if n < 10 then char_of (48 + n) else char_of (55 + n))"

text \<open>\<open>format!("{byte:02X}")\<close> of every byte.\<close>

definition hex_bytes :: "bytes \<Rightarrow> string" where
  "hex_bytes value =
     concat (map (\<lambda>b. [upper_hex_digit (byte b div 16), upper_hex_digit (byte b mod 16)]) value)"

text \<open>\<open>i64::to_string\<close>.\<close>

definition i64_to_string :: "int \<Rightarrow> string" where
  "i64_to_string i = (if i < 0 then CHR ''-'' # nat_to_string (nat (- i)) else nat_to_string (nat i))"

definition printable_ascii :: "bytes \<Rightarrow> bool" where
  "printable_ascii value \<longleftrightarrow> list_all (byte_in (CHR '' '') (CHR ''~'')) value"

definition sqlite_ascii_lower :: "bytes \<Rightarrow> bytes" where
  "sqlite_ascii_lower value = map to_ascii_lower value"

definition sqlite_ascii_bytes :: "string \<Rightarrow> bytes evidence" where
  "sqlite_ascii_bytes value = map_ok sqlite_ascii_lower (decode_upper_hex value)"

definition sqlite_ascii_identity :: "string \<Rightarrow> bytes evidence" where
  "sqlite_ascii_identity value = sqlite_ascii_bytes value"

definition canonical_target :: "D1TargetIdentity \<Rightarrow> bool" where
  "canonical_target target =
     (case normalize_d1_target (tgt_account_id target) (tgt_database_id target) of
        Inl _ \<Rightarrow> False | Inr canonical \<Rightarrow> canonical = target)"

definition canonical_sha256 :: "string \<Rightarrow> bool" where
  "canonical_sha256 value \<longleftrightarrow>
     length value = 64 \<and>
     list_all (\<lambda>b. is_ascii_digit b \<or> byte_in (CHR ''a'') (CHR ''f'') b) value"

definition canonical_observation_identity :: "string \<Rightarrow> bool" where
  "canonical_observation_identity value \<longleftrightarrow>
     16 \<le> length value \<and> length value \<le> 128 \<and>
     list_all (\<lambda>b. is_ascii_alphanumeric b \<or> b \<in> {CHR ''.'', CHR ''_'', CHR '':'', CHR ''-''}) value"

definition canonical_upper_hex :: "string \<Rightarrow> bool \<Rightarrow> bool" where
  "canonical_upper_hex value empty_allowed \<longleftrightarrow>
     (empty_allowed \<or> value \<noteq> []) \<and> length value mod 2 = 0 \<and>
     list_all (\<lambda>b. is_ascii_digit b \<or> byte_in (CHR ''A'') (CHR ''F'') b) value"

text \<open>\<open>slice::windows(n)\<close>.\<close>

definition windows :: "nat \<Rightarrow> 'a list \<Rightarrow> 'a list list" where
  "windows n xs = map (\<lambda>i. take n (drop i xs)) [0..<Suc (length xs) - n]"

definition contains_ascii_token :: "bytes \<Rightarrow> bytes \<Rightarrow> bool" where
  "contains_ascii_token source token =
     list_ex (\<lambda>window. list_all (\<lambda>(actual, expected). to_ascii_upper actual = expected)
       (zip window token)) (windows (length token) source)"

definition validate_body_size :: "usize \<Rightarrow> usize \<Rightarrow> usize \<Rightarrow> unit evidence" where
  "validate_body_size reported actual cap =
     (if reported \<noteq> actual then Inl (evidence_error ObservationBodySizeMismatch
        ''catalog observation body size did not match the complete supplied bytes'')
      else if actual > cap then Inl (evidence_error ObservationBodyLimitExceeded
        ''catalog observation body exceeded the exact plan-bound byte cap'')
      else Inr ())"

section \<open>Hex decoding\<close>

text \<open>
  Two modules decode upper-case hex on their own; what both promise on canonical input is the
  locale's assumptions, and the consequences the verifiers need are proved in it once.
\<close>

locale hex_decoder =
  fixes decode :: "string \<Rightarrow> 'e + bytes"
  assumes decode_hex_bytes: "decode (hex_bytes b) = Inr b"
    and decode_canonical: "canonical_upper_hex v True \<Longrightarrow> \<exists>b. decode v = Inr b \<and> v = hex_bytes b"
begin

lemma decode_inject:
  assumes "canonical_upper_hex v True" and "canonical_upper_hex w True" and "decode v = decode w"
  shows "v = w"
proof -
  obtain b c where "decode v = Inr b" "v = hex_bytes b" "decode w = Inr c" "w = hex_bytes c"
    using decode_canonical [OF assms(1)] decode_canonical [OF assms(2)] by blast
  with assms(3) show ?thesis by simp
qed

lemma hex_bytes_inject: "hex_bytes b = hex_bytes c \<longleftrightarrow> b = c"
proof
  assume "hex_bytes b = hex_bytes c"
  then have "decode (hex_bytes b) = decode (hex_bytes c)" by (rule arg_cong)
  then show "b = c" by (simp only: decode_hex_bytes sum.inject)
qed simp

lemma decode_iff:
  assumes "canonical_upper_hex v True"
  shows "decode v = Inr b \<longleftrightarrow> v = hex_bytes b"
proof -
  obtain c where c: "decode v = Inr c" "v = hex_bytes c"
    using decode_canonical [OF assms] by blast
  then show ?thesis by (auto simp: hex_bytes_inject)
qed

end

lemma hex_nibble_upper_hex_digit: "n < 16 \<Longrightarrow> hex_nibble (upper_hex_digit n) = Some n"
  by (auto simp: hex_nibble_def upper_hex_digit_def byte_in_def)

lemma hex_nibble_SomeD:
  assumes "hex_nibble c = Some n"
  shows "n < 16 \<and> upper_hex_digit n = c"
proof -
  have "c = char_of (byte c)" by simp
  with assms show ?thesis
    by (auto simp: hex_nibble_def upper_hex_digit_def byte_in_def split: if_splits)
qed

lemma hex_nibble_eq_None:
  "hex_nibble c = None \<longleftrightarrow> \<not> (is_ascii_digit c \<or> byte_in (CHR ''A'') (CHR ''F'') c)"
  by (auto simp: hex_nibble_def is_ascii_digit_def)

lemma hex_bytes_Cons:
  "hex_bytes (b # bs) = upper_hex_digit (byte b div 16) # upper_hex_digit (byte b mod 16) # hex_bytes bs"
  by (simp add: hex_bytes_def)

lemma hex_bytes_Nil [simp]: "hex_bytes [] = []"
  by (simp add: hex_bytes_def)

lemma byte_div_16: "byte b div 16 < 16"
  using byte_less_256 [of b] by linarith

lemma length_hex_bytes: "length (hex_bytes b) = 2 * length b"
  by (induction b) (simp_all add: hex_bytes_Cons)

lemma decode_upper_hex_hex_bytes: "decode_upper_hex (hex_bytes b) = Inr b"
proof (induction b)
  case (Cons a b)
  then show ?case
    by (simp add: hex_bytes_Cons hex_nibble_upper_hex_digit byte_div_16)
qed simp

lemma decode_upper_hex_canonical:
  "canonical_upper_hex v True \<Longrightarrow> \<exists>b. decode_upper_hex v = Inr b \<and> v = hex_bytes b"
proof (induction v rule: decode_upper_hex.induct)
  case (1 h l rest)
  from "1.prems" have rest: "canonical_upper_hex rest True"
    and hl: "hex_nibble h \<noteq> None" "hex_nibble l \<noteq> None"
    by (auto simp: canonical_upper_hex_def hex_nibble_eq_None)
  then obtain hi lo where hi: "hex_nibble h = Some hi" and lo: "hex_nibble l = Some lo" by auto
  from "1.IH" [OF hi lo rest] obtain b where b: "decode_upper_hex rest = Inr b" "rest = hex_bytes b"
    by blast
  have "hi < 16" "lo < 16" "upper_hex_digit hi = h" "upper_hex_digit lo = l"
    using hex_nibble_SomeD [OF hi] hex_nibble_SomeD [OF lo] by auto
  then show ?case
    by (intro exI [of _ "char_of (16 * hi + lo) # b"]) (simp add: hi lo b hex_bytes_Cons decode_upper_hex_hex_bytes)
qed (auto simp: canonical_upper_hex_def)

interpretation catalog_hex: hex_decoder decode_upper_hex
  by unfold_locales (rule decode_upper_hex_hex_bytes, rule decode_upper_hex_canonical)

lemma decode_upper_hex_Inl:
  "decode_upper_hex v = Inl e \<Longrightarrow> e = contradictory_facts"
  by (induction v rule: decode_upper_hex.induct) (auto simp: result_simps split: option.splits)

interpretation catalog_digest: digest_grammar canonical_sha256
  by unfold_locales (simp add: canonical_sha256_def lower_hex_digit_def [abs_def])

lemma canonical_target_iff: "canonical_target t \<longleftrightarrow> canonical_d1_target t"
  by (auto simp: canonical_target_def canonical_d1_target_def split: sum.splits)

end
