(* ===== verification/D1_Catalog_Verify.thy ===== *)
theory D1_Catalog_Verify
  imports D1_Catalog
begin

text \<open>
  The verifier of \<open>src/d1_catalog_evidence.rs\<close>: the plan, the per-row grammar, the structural
  re-derivation of every fact's kind and blocker, the observation checks, and the product built
  from two agreeing observations.
\<close>

section \<open>Structural blockers\<close>

definition recognized_schema_type :: "D1CatalogProjectionRow \<Rightarrow> string option" where
  "recognized_schema_type row =
     (if relation_type_storage_class row \<noteq> ''text'' then None
      else (case decode_upper_hex (relation_type_value_hex row) of
          Inl _ \<Rightarrow> None
        | Inr value \<Rightarrow>
            (if value = ''table'' then Some ''table''
             else if value = ''view'' then Some ''view''
             else if value = ''trigger'' then Some ''trigger''
             else if value = ''index'' then Some ''index''
             else None)))"

definition base_canonical_relation ::
  "D1CatalogProjectionRow \<Rightarrow> D1CatalogProjectionRow list \<Rightarrow> bool" where
  "base_canonical_relation row schema_rows \<longleftrightarrow>
     recognized_schema_type row \<in> {Some ''table'', Some ''view''} \<and>
     relation_name_storage_class row = ''text'' \<and>
     owner_name_storage_class row = ''text'' \<and>
     schema_sql_storage_class row \<in> {''null'', ''text''} \<and>
     (case result_ok (decode_upper_hex (relation_name_hex row)) of
        None \<Rightarrow> False | Some value \<Rightarrow> printable_ascii value) \<and>
     (case result_ok (decode_upper_hex (owner_name_hex row)) of
        None \<Rightarrow> False | Some value \<Rightarrow> printable_ascii value) \<and>
     result_ok (sqlite_ascii_bytes (relation_name_hex row)) =
       result_ok (sqlite_ascii_bytes (owner_name_hex row)) \<and>
     length (filter (\<lambda>candidate.
       relation_name_hex candidate = relation_name_hex row \<or>
       (relation_name_storage_class candidate = ''text'' \<and>
        result_ok (sqlite_ascii_bytes (relation_name_hex candidate)) =
          result_ok (sqlite_ascii_bytes (relation_name_hex row)))) schema_rows) = 1"

definition name_claimants :: "D1CatalogProjectionRow \<Rightarrow> D1CatalogProjectionRow list \<Rightarrow> nat" where
  "name_claimants row schema_rows =
     length (filter (\<lambda>candidate.
       relation_name_hex candidate = relation_name_hex row \<or>
       (relation_name_storage_class candidate = ''text'' \<and>
        relation_name_storage_class row = ''text'' \<and>
        result_ok (sqlite_ascii_bytes (relation_name_hex candidate)) =
          result_ok (sqlite_ascii_bytes (relation_name_hex row)))) schema_rows)"

definition expected_schema_structural_blocker ::
  "D1CatalogProjectionRow \<Rightarrow> D1CatalogProjectionRow list \<Rightarrow> string evidence" where
  "expected_schema_structural_blocker row schema_rows =
     (if relation_type_storage_class row \<noteq> ''text''
      then Inr ''schema_type_storage_class_invalid''
      else (case recognized_schema_type row of
        None \<Rightarrow> Inr ''schema_type_value_invalid''
      | Some schema_type \<Rightarrow>
        (if relation_name_storage_class row \<noteq> ''text''
         then Inr ''schema_name_storage_class_invalid''
         else ok_then (decode_upper_hex (relation_name_hex row)) (\<lambda>name.
         if CHR 0x00 \<in> set name then Inr ''schema_name_contains_nul''
         else if \<not> printable_ascii name then Inr ''schema_name_noncanonical_text''
         else if owner_name_storage_class row \<noteq> ''text''
         then Inr ''schema_owner_storage_class_invalid''
         else ok_then (decode_upper_hex (owner_name_hex row)) (\<lambda>owner.
         if CHR 0x00 \<in> set owner then Inr ''schema_owner_contains_nul''
         else if \<not> printable_ascii owner then Inr ''schema_owner_noncanonical_text''
         else if schema_sql_storage_class row \<notin> {''null'', ''text''}
         then Inr ''schema_sql_storage_class_invalid''
         else if name_claimants row schema_rows \<noteq> 1 then Inr ''schema_identity_ambiguous''
         else if schema_type \<in> {''table'', ''view''} \<and>
           sqlite_ascii_lower name \<noteq> sqlite_ascii_lower owner
         then Inr ''relation_owner_mismatch''
         else if schema_type \<in> {''trigger'', ''index''} \<and>
           \<not> list_ex (\<lambda>candidate.
               recognized_schema_type candidate \<in> {Some ''table'', Some ''view''} \<and>
               base_canonical_relation candidate schema_rows \<and>
               result_ok (sqlite_ascii_bytes (relation_name_hex candidate)) =
                 Some (sqlite_ascii_lower owner)) schema_rows
         then Inr ''schema_owner_unresolved''
         else Inr [])))))"

text \<open>The two \<open>for\<close> loops over (storage, value, blockers) tuples, each with early returns.\<close>

fun foreign_key_text_loop ::
  "(string \<times> string \<times> string \<times> string \<times> string) list \<Rightarrow> string option evidence" where
  "foreign_key_text_loop [] = Inr None"
| "foreign_key_text_loop ((storage, value, storage_blocker, nul_blocker, text_blocker) # rest) =
     (if storage \<noteq> ''text'' then Inr (Some storage_blocker)
      else ok_then (decode_upper_hex value) (\<lambda>decoded.
        if CHR 0x00 \<in> set decoded then Inr (Some nul_blocker)
        else if \<not> printable_ascii decoded then Inr (Some text_blocker)
        else foreign_key_text_loop rest))"

fun foreign_key_value_loop ::
  "(string \<times> string \<times> string \<times> string \<times> string list) list \<Rightarrow> string option evidence" where
  "foreign_key_value_loop [] = Inr None"
| "foreign_key_value_loop ((storage, value, storage_blocker, value_blocker, allowed) # rest) =
     (if storage \<noteq> ''text'' then Inr (Some storage_blocker)
      else ok_then (decode_upper_hex value) (\<lambda>decoded.
        if \<not> list_ex (\<lambda>a. decoded = a) allowed then Inr (Some value_blocker)
        else foreign_key_value_loop rest))"

definition foreign_key_actions :: "string list" where
  "foreign_key_actions = [''NO ACTION'', ''RESTRICT'', ''SET NULL'', ''SET DEFAULT'', ''CASCADE'']"

definition foreign_key_match_modes :: "string list" where
  "foreign_key_match_modes = [''NONE'', ''SIMPLE'', ''PARTIAL'', ''FULL'']"

definition foreign_key_texts ::
  "D1CatalogProjectionRow \<Rightarrow> (string \<times> string \<times> string \<times> string \<times> string) list" where
  "foreign_key_texts row =
     [(parent_name_storage_class row, parent_name_hex row,
       ''foreign_key_parent_storage_class_invalid'', ''foreign_key_parent_contains_nul'',
       ''foreign_key_parent_noncanonical_text''),
      (from_column_storage_class row, from_column_hex row,
       ''foreign_key_from_storage_class_invalid'', ''foreign_key_from_contains_nul'',
       ''foreign_key_from_noncanonical_text'')]"

definition foreign_key_values ::
  "D1CatalogProjectionRow \<Rightarrow> (string \<times> string \<times> string \<times> string \<times> string list) list" where
  "foreign_key_values row =
     [(on_update_storage_class row, on_update_hex row,
       ''foreign_key_on_update_storage_class_invalid'', ''foreign_key_on_update_value_invalid'',
       foreign_key_actions),
      (on_delete_storage_class row, on_delete_hex row,
       ''foreign_key_on_delete_storage_class_invalid'', ''foreign_key_on_delete_value_invalid'',
       foreign_key_actions),
      (match_storage_class row, match_hex row,
       ''foreign_key_match_storage_class_invalid'', ''foreign_key_match_value_invalid'',
       foreign_key_match_modes)]"

text \<open>The target-column checks between the two loops: a blocker, or none.\<close>

definition foreign_key_to_blocker :: "D1CatalogProjectionRow \<Rightarrow> string option evidence" where
  "foreign_key_to_blocker row =
     (if to_column_storage_class row \<notin> {''null'', ''text''}
      then Inr (Some ''foreign_key_to_storage_class_invalid'')
      else if to_column_is_null row \<noteq> of_bool (to_column_storage_class row = ''null'')
      then Inr (Some ''foreign_key_to_storage_class_invalid'')
      else if to_column_storage_class row = ''text''
      then ok_then (decode_upper_hex (to_column_hex row)) (\<lambda>to.
        if CHR 0x00 \<in> set to then Inr (Some ''foreign_key_to_contains_nul'')
        else if \<not> printable_ascii to then Inr (Some ''foreign_key_to_noncanonical_text'')
        else Inr None)
      else Inr None)"

definition expected_foreign_key_structural_blocker :: "D1CatalogProjectionRow \<Rightarrow> string evidence" where
  "expected_foreign_key_structural_blocker row =
     (if foreign_key_id_storage_class row \<noteq> ''integer''
      then (if foreign_key_id row \<noteq> -1 then Inl contradictory_facts
            else Inr ''foreign_key_id_storage_class_invalid'')
      else if foreign_key_id_value_hex row \<noteq> hex_bytes (i64_to_string (foreign_key_id row)) \<or>
        foreign_key_id row < 0
      then Inr ''foreign_key_id_value_invalid''
      else if foreign_key_seq_storage_class row \<noteq> ''integer''
      then (if foreign_key_seq row \<noteq> -1 then Inl contradictory_facts
            else Inr ''foreign_key_seq_storage_class_invalid'')
      else if foreign_key_seq_value_hex row \<noteq> hex_bytes (i64_to_string (foreign_key_seq row)) \<or>
        foreign_key_seq row < 0
      then Inr ''foreign_key_seq_value_invalid''
      else ok_then (foreign_key_text_loop (foreign_key_texts row)) (\<lambda>text_blocker.
        case text_blocker of Some blocker \<Rightarrow> Inr blocker
        | None \<Rightarrow> ok_then (foreign_key_to_blocker row) (\<lambda>to_blocker.
        case to_blocker of Some blocker \<Rightarrow> Inr blocker
        | None \<Rightarrow> ok_then (foreign_key_value_loop (foreign_key_values row)) (\<lambda>value_blocker.
        case value_blocker of Some blocker \<Rightarrow> Inr blocker
        | None \<Rightarrow> Inr []))))"

section \<open>Row grammar and facts\<close>

definition storage_hex_pair :: "string \<Rightarrow> string \<Rightarrow> bool \<Rightarrow> bool" where
  "storage_hex_pair storage value_hex not_applicable_allowed \<longleftrightarrow>
     (storage \<in> {''null'', ''integer'', ''real'', ''text'', ''blob''} \<and>
      canonical_upper_hex value_hex True \<and>
      (storage \<noteq> ''null'' \<or> value_hex = []) \<and>
      (storage \<notin> {''integer'', ''real''} \<or> value_hex \<noteq> [])) \<or>
     (not_applicable_allowed \<and> storage = ''not_applicable'' \<and> value_hex = [])"

definition schema_fact_sentinels :: "D1CatalogProjectionRow \<Rightarrow> bool" where
  "schema_fact_sentinels row \<longleftrightarrow>
     fact_order row = 0 \<and>
     foreign_key_id_storage_class row = ''not_applicable'' \<and>
     foreign_key_id_value_hex row = [] \<and>
     foreign_key_id row = -1 \<and>
     foreign_key_seq_storage_class row = ''not_applicable'' \<and>
     foreign_key_seq_value_hex row = [] \<and>
     foreign_key_seq row = -1 \<and>
     parent_name_storage_class row = ''not_applicable'' \<and>
     parent_name_hex row = [] \<and>
     from_column_storage_class row = ''not_applicable'' \<and>
     from_column_hex row = [] \<and>
     to_column_storage_class row = ''not_applicable'' \<and>
     to_column_is_null row = 1 \<and>
     to_column_hex row = [] \<and>
     on_update_storage_class row = ''not_applicable'' \<and>
     on_update_hex row = [] \<and>
     on_delete_storage_class row = ''not_applicable'' \<and>
     on_delete_hex row = [] \<and>
     match_storage_class row = ''not_applicable'' \<and>
     match_hex row = []"

definition foreign_key_storage_markers_applicable :: "D1CatalogProjectionRow \<Rightarrow> bool" where
  "foreign_key_storage_markers_applicable row =
     list_all (\<lambda>storage. storage \<noteq> ''not_applicable'')
       [foreign_key_id_storage_class row, foreign_key_seq_storage_class row,
        parent_name_storage_class row, from_column_storage_class row,
        to_column_storage_class row, on_update_storage_class row,
        on_delete_storage_class row, match_storage_class row]"

text \<open>
  The blocker a schema row must carry: the structural one, or the conservative one of its type
  (\<open>token_source\<close> is the decoded table SQL where it is available).
\<close>

definition expected_schema_blocker ::
  "D1CatalogProjectionRow \<Rightarrow> string \<Rightarrow> string option \<Rightarrow> bytes option \<Rightarrow> string" where
  "expected_schema_blocker row structural_blocker recognized_type token_source =
     (if structural_blocker \<noteq> [] then structural_blocker
      else if recognized_type = Some ''view'' then ''view_write_semantics_unproven''
      else if recognized_type = Some ''trigger'' then ''trigger_effects_unproven''
      else if recognized_type = Some ''table'' \<and> schema_sql_storage_class row = ''null''
      then ''table_sql_token_source_unavailable''
      else if recognized_type = Some ''table'' \<and>
        (case token_source of None \<Rightarrow> False
         | Some source \<Rightarrow> D1_CATALOG_TABLE_SQL_TOKEN_SOURCE_BYTE_CAP < length source)
      then ''table_sql_token_source_oversized''
      else if recognized_type = Some ''table'' \<and>
        (case token_source of None \<Rightarrow> False
         | Some source \<Rightarrow> contains_ascii_token source ''VIRTUAL'')
      then ''table_virtual_semantics_unproven''
      else if recognized_type = Some ''table'' \<and>
        (case token_source of None \<Rightarrow> False
         | Some source \<Rightarrow> contains_ascii_token source ''REPLACE'')
      then ''table_replace_semantics_unproven''
      else [])"

text \<open>The kind a schema row must carry; \<open>None\<close> is the early return of \<open>false\<close>.\<close>

definition expected_schema_kind :: "string \<Rightarrow> string option \<Rightarrow> string option" where
  "expected_schema_kind structural_blocker recognized_type =
     (if structural_blocker \<noteq> [] then Some ''schema_blocker''
      else if recognized_type \<in> {Some ''table'', Some ''view''} then Some ''relation''
      else if recognized_type = Some ''trigger'' then Some ''trigger_owner''
      else if recognized_type = Some ''index'' then Some ''schema_auxiliary''
      else None)"

definition validate_schema_fact ::
  "D1CatalogProjectionRow \<Rightarrow> D1CatalogProjectionRow list \<Rightarrow> bool evidence" where
  "validate_schema_fact row schema_rows =
     (if relation_type_storage_class row = ''not_applicable'' \<or>
        relation_name_storage_class row = ''not_applicable'' \<or>
        owner_name_storage_class row = ''not_applicable'' \<or>
        schema_sql_storage_class row = ''not_applicable''
      then Inr False
      else let recognized_type = recognized_schema_type row;
        expected_relation_type = (case recognized_type of None \<Rightarrow> [] | Some t \<Rightarrow> t)
      in if relation_type row \<noteq> expected_relation_type then Inr False
      else ok_then (expected_schema_structural_blocker row schema_rows) (\<lambda>structural_blocker.
        case expected_schema_kind structural_blocker recognized_type of
          None \<Rightarrow> Inr False
        | Some expected_kind \<Rightarrow>
        (let token_available = (structural_blocker = [] \<and> recognized_type = Some ''table'' \<and>
               schema_sql_storage_class row = ''text'')
         in ok_then (if token_available
                     then map_ok Some (decode_upper_hex (table_sql_token_source_hex row))
                     else Inr None) (\<lambda>token_source.
         let token_source_oversized = (case token_source of None \<Rightarrow> False
               | Some source \<Rightarrow> D1_CATALOG_TABLE_SQL_TOKEN_SOURCE_BYTE_CAP < length source);
             virtual_token_hit = (case token_source of None \<Rightarrow> False
               | Some source \<Rightarrow> contains_ascii_token source ''VIRTUAL'');
             replace_token_hit = (case token_source of None \<Rightarrow> False
               | Some source \<Rightarrow> contains_ascii_token source ''REPLACE'')
         in Inr (fact_kind row = expected_kind \<and>
             conservative_blocker row =
               expected_schema_blocker row structural_blocker recognized_type token_source \<and>
             table_sql_token_source_is_null row = of_bool (\<not> token_available) \<and>
             (token_available \<or> table_sql_token_source_hex row = []) \<and>
             table_virtual_token_hit row = of_bool (virtual_token_hit \<and> \<not> token_source_oversized) \<and>
             table_replace_token_hit row =
               of_bool (replace_token_hit \<and> \<not> token_source_oversized))))))"

section \<open>Structured relationships\<close>

text \<open>One turn of the loop over the schema rows; the state is the set of row ids seen.\<close>

definition schema_row_step ::
  "D1CatalogProjectionRow list \<Rightarrow> int list \<Rightarrow> D1CatalogProjectionRow \<Rightarrow> int list evidence" where
  "schema_row_step schema_rows schema_rowids row =
     (if schema_rowid row \<in> set schema_rowids \<or> \<not> schema_fact_sentinels row
      then Inl contradictory_facts
      else ok_then (validate_schema_fact row schema_rows) (\<lambda>valid.
        if \<not> valid then Inl contradictory_facts
        else Inr (bset_insert (schema_rowid row) schema_rowids)))"

text \<open>The map from the case-folded relation names to their types.\<close>

definition schema_relations ::
  "D1CatalogProjectionRow list \<Rightarrow> (bytes \<times> string) list evidence" where
  "schema_relations schema_rows =
     map_ok (\<lambda>entries. fold (\<lambda>(k, v). bmap_insert k v) entries [])
       (try_map (\<lambda>row. ok_then (sqlite_ascii_identity (relation_name_hex row)) (\<lambda>name.
           Inr (name, relation_type row)))
         (filter (\<lambda>row. fact_kind row = ''relation'') schema_rows))"

text \<open>
  The entry of a foreign key: parent, actions, match mode, blocker and the set of sequence numbers.
\<close>

type_synonym foreign_key_entry = "bytes \<times> bytes \<times> bytes \<times> bytes \<times> string \<times> int list"

text \<open>\<open>decode_upper_hex(..).expect("validated hex")\<close>: a panic where the decoder fails.\<close>

definition expect_hex :: "string \<Rightarrow> bytes evidence" where
  "expect_hex value = map_err (\<lambda>_. Panic ''validated hex'') (decode_upper_hex value)"

definition foreign_key_row_consistent ::
  "D1CatalogProjectionRow \<Rightarrow> D1CatalogProjectionRow \<Rightarrow> bool" where
  "foreign_key_row_consistent child_schema row \<longleftrightarrow>
     \<not> (fact_kind child_schema \<noteq> ''relation'' \<or>
        relation_type child_schema \<noteq> ''table'' \<or>
        relation_type_storage_class row \<noteq> ''text'' \<or>
        relation_type_value_hex row \<noteq> hex_bytes ''table'' \<or>
        relation_type row \<noteq> ''table'' \<or>
        relation_name_storage_class row \<noteq> ''text'' \<or>
        relation_name_hex row \<noteq> relation_name_hex child_schema \<or>
        owner_name_storage_class row \<noteq> ''not_applicable'' \<or>
        owner_name_hex row \<noteq> [] \<or>
        schema_sql_storage_class row \<noteq> ''not_applicable'' \<or>
        table_sql_token_source_is_null row \<noteq> 1 \<or>
        table_sql_token_source_hex row \<noteq> [] \<or>
        table_virtual_token_hit row \<noteq> 0 \<or>
        table_replace_token_hit row \<noteq> 0 \<or>
        \<not> foreign_key_storage_markers_applicable row)"

text \<open>
  \<open>entry(..).or_insert_with(..)\<close> and the comparison of the entry with the row: the entry is the
  incumbent, or a new one decoded from the row.
\<close>

definition foreign_key_entry_for ::
  "((bytes \<times> int) \<times> foreign_key_entry) list \<Rightarrow> bytes \<Rightarrow> bytes \<Rightarrow> D1CatalogProjectionRow
    \<Rightarrow> foreign_key_entry evidence" where
  "foreign_key_entry_for foreign_keys child parent row =
     (case map_of foreign_keys (child, foreign_key_id row) of
        Some entry \<Rightarrow> Inr entry
      | None \<Rightarrow>
          ok_then (expect_hex (on_update_hex row)) (\<lambda>on_update.
          ok_then (expect_hex (on_delete_hex row)) (\<lambda>on_delete.
          ok_then (expect_hex (match_hex row)) (\<lambda>match_mode.
          Inr (parent, on_update, on_delete, match_mode, conservative_blocker row, [])))))"

definition foreign_key_record ::
  "((bytes \<times> int) \<times> foreign_key_entry) list \<Rightarrow> bytes \<Rightarrow> bytes \<Rightarrow> D1CatalogProjectionRow
    \<Rightarrow> ((bytes \<times> int) \<times> foreign_key_entry) list evidence" where
  "foreign_key_record foreign_keys child parent row =
     ok_then (foreign_key_entry_for foreign_keys child parent row)
       (\<lambda>(e_parent, e_update, e_delete, e_match, e_blocker, sequences).
       if e_parent \<noteq> parent then Inl contradictory_facts
       else ok_then (decode_upper_hex (on_update_hex row)) (\<lambda>on_update.
       if e_update \<noteq> on_update then Inl contradictory_facts
       else ok_then (decode_upper_hex (on_delete_hex row)) (\<lambda>on_delete.
       if e_delete \<noteq> on_delete then Inl contradictory_facts
       else ok_then (decode_upper_hex (match_hex row)) (\<lambda>match_mode.
       if e_match \<noteq> match_mode \<or> e_blocker \<noteq> conservative_blocker row \<or>
         foreign_key_seq row \<in> set sequences
       then Inl contradictory_facts
       else Inr (bmap_insert (child, foreign_key_id row)
         (e_parent, e_update, e_delete, e_match, e_blocker,
          bset_insert (foreign_key_seq row) sequences) foreign_keys)))))"

text \<open>One turn of the loop over the foreign-key rows; the state is the map of entries.\<close>

definition foreign_key_row_step ::
  "D1CatalogProjectionRow list \<Rightarrow> (bytes \<times> string) list
    \<Rightarrow> ((bytes \<times> int) \<times> foreign_key_entry) list \<Rightarrow> D1CatalogProjectionRow
    \<Rightarrow> ((bytes \<times> int) \<times> foreign_key_entry) list evidence" where
  "foreign_key_row_step schema_rows relations foreign_keys row =
     (case find (\<lambda>candidate. schema_rowid candidate = schema_rowid row) schema_rows of
        None \<Rightarrow> Inl contradictory_facts
      | Some child_schema \<Rightarrow>
        (if \<not> foreign_key_row_consistent child_schema row then Inl contradictory_facts
         else ok_then (expected_foreign_key_structural_blocker row) (\<lambda>structural_blocker.
         ok_then (sqlite_ascii_identity (relation_name_hex row)) (\<lambda>child.
         ok_then (sqlite_ascii_identity (parent_name_hex row)) (\<lambda>parent.
         let parent_present = (map_of relations parent = Some ''table'');
             expected_blocker = (if structural_blocker \<noteq> [] then structural_blocker
               else if \<not> parent_present then ''foreign_key_parent_unresolved'' else []);
             expected_kind = (if structural_blocker = [] then ''foreign_key''
               else ''foreign_key_blocker'')
         in if fact_kind row \<noteq> expected_kind \<or> conservative_blocker row \<noteq> expected_blocker
            then Inl contradictory_facts
            else if structural_blocker \<noteq> [] then Inr foreign_keys
            else foreign_key_record foreign_keys child parent row)))))"

definition foreign_key_sequences_complete ::
  "((bytes \<times> int) \<times> foreign_key_entry) list \<Rightarrow> bool" where
  "foreign_key_sequences_complete foreign_keys =
     list_all (\<lambda>(_, (_, _, _, _, _, sequences)). sequences = map int [0..<length sequences])
       foreign_keys"

definition validate_structured_relationships ::
  "D1CatalogProjectionRow list \<Rightarrow> unit evidence" where
  "validate_structured_relationships rows =
     (let schema_rows = filter (\<lambda>row. fact_order row = 0) rows
      in ok_then (try_fold (schema_row_step schema_rows) [] schema_rows) (\<lambda>schema_rowids.
      ok_then (schema_relations schema_rows) (\<lambda>relations.
      ok_then (try_fold (foreign_key_row_step schema_rows relations) []
          (filter (\<lambda>row. fact_order row = 1) rows)) (\<lambda>foreign_keys.
      if \<not> foreign_key_sequences_complete foreign_keys then Inl contradictory_facts
      else Inr ()))))"

section \<open>Projection rows\<close>

definition projection_row_wf :: "D1CatalogProjectionRow \<Rightarrow> bool" where
  "projection_row_wf row \<longleftrightarrow>
     fact_order row \<in> {0, 1} \<and>
     storage_hex_pair (relation_type_storage_class row) (relation_type_value_hex row) False \<and>
     storage_hex_pair (relation_name_storage_class row) (relation_name_hex row) False \<and>
     storage_hex_pair (owner_name_storage_class row) (owner_name_hex row) True \<and>
     schema_sql_storage_class row \<in>
       {''null'', ''integer'', ''real'', ''text'', ''blob'', ''not_applicable''} \<and>
     table_sql_token_source_is_null row \<in> {0, 1} \<and>
     canonical_upper_hex (table_sql_token_source_hex row) True \<and>
     table_virtual_token_hit row \<in> {0, 1} \<and>
     table_replace_token_hit row \<in> {0, 1} \<and>
     storage_hex_pair (foreign_key_id_storage_class row) (foreign_key_id_value_hex row) True \<and>
     storage_hex_pair (foreign_key_seq_storage_class row) (foreign_key_seq_value_hex row) True \<and>
     storage_hex_pair (parent_name_storage_class row) (parent_name_hex row) True \<and>
     storage_hex_pair (from_column_storage_class row) (from_column_hex row) True \<and>
     storage_hex_pair (to_column_storage_class row) (to_column_hex row) True \<and>
     to_column_is_null row \<in> {0, 1} \<and>
     storage_hex_pair (on_update_storage_class row) (on_update_hex row) True \<and>
     storage_hex_pair (on_delete_storage_class row) (on_delete_hex row) True \<and>
     storage_hex_pair (match_storage_class row) (match_hex row) True"

text \<open>One turn of the loop; the state is the previous row.\<close>

definition projection_row_step ::
  "D1CatalogProjectionRow option \<Rightarrow> D1CatalogProjectionRow
    \<Rightarrow> D1CatalogProjectionRow option evidence" where
  "projection_row_step previous row =
     (if \<not> projection_row_wf row then Inl (evidence_error CatalogRowMalformed
        ''catalog projection row was not canonical typed evidence'')
      else if (case previous of None \<Rightarrow> False | Some prior \<Rightarrow> row_key row \<le> row_key prior)
      then Inl (evidence_error CatalogRowsNonCanonical
        ''catalog projection rows were duplicate or outside exact query order'')
      else Inr (Some row))"

definition validate_projection_rows :: "D1CatalogProjectionRow list \<Rightarrow> unit evidence" where
  "validate_projection_rows rows =
     ok_then (try_fold projection_row_step None rows) (\<lambda>_.
     validate_structured_relationships rows)"

section \<open>Plan, observations and product\<close>

definition derive_d1_catalog_evidence_plan ::
  "env \<Rightarrow> D1TargetIdentity \<Rightarrow> (D1CatalogEvidencePlan \<times> string) evidence" where
  "derive_d1_catalog_evidence_plan E target =
     (if \<not> canonical_target target
      then Inl (evidence_error TargetIdentityInvalid
        ''catalog evidence did not receive one canonical D1 target'')
      else let plan =
        \<lparr>cplan_version = D1_CATALOG_EVIDENCE_VERSION,
         cplan_operation = D1_CATALOG_EVIDENCE_OPERATION,
         cplan_account_id = tgt_account_id target,
         cplan_database_id = tgt_database_id target,
         cplan_target_key_sha256 = target_key_sha256 E target,
         cplan_projection_version = D1_CATALOG_PROJECTION_VERSION,
         cplan_projection_fields = catalog_projection_fields,
         cplan_query = D1_CATALOG_QUERY,
         cplan_query_sha256 = sha256_hex E D1_CATALOG_QUERY,
         cplan_query_size_bytes = length D1_CATALOG_QUERY,
         cplan_max_catalog_rows = D1_CATALOG_MAX_ROWS,
         cplan_provider_row_cap = D1_CATALOG_PROVIDER_ROW_CAP,
         cplan_provider_byte_cap = D1_CATALOG_PROVIDER_BYTE_CAP\<rparr>
      in Inr (plan, hash_serialized E (ser_catalog_plan plan)))"

definition validate_observation ::
  "env \<Rightarrow> (bytes \<Rightarrow> D1CatalogProjectionPayload option) \<Rightarrow> D1CatalogEvidencePlan \<Rightarrow> string
    \<Rightarrow> D1CatalogObservationFrame \<Rightarrow> D1CatalogProjectionPayload evidence" where
  "validate_observation E from_slice plan plan_sha256 frame =
     (if \<not> canonical_target (frame_target frame) \<or>
        tgt_account_id (frame_target frame) \<noteq> cplan_account_id plan \<or>
        tgt_database_id (frame_target frame) \<noteq> cplan_database_id plan \<or>
        target_key_sha256 E (frame_target frame) \<noteq> cplan_target_key_sha256 plan
      then Inl (evidence_error ObservationTargetMismatch
        ''catalog observation was not bound to the plan target'')
      else if frame_query_plan_sha256 frame \<noteq> plan_sha256
      then Inl (evidence_error ObservationPlanMismatch
        ''catalog observation was not bound to the exact rederived query plan'')
      else if frame_provider_row_cap frame \<noteq> cplan_provider_row_cap plan \<or>
        frame_provider_byte_cap frame \<noteq> cplan_provider_byte_cap plan
      then Inl (evidence_error ObservationCapMismatch
        ''catalog observation did not use the exact plan-bound row and byte caps'')
      else if \<not> frame_body_complete frame
      then Inl (evidence_error ObservationBodyIncomplete
        ''catalog observation did not prove a complete provider response body'')
      else ok_then (validate_body_size (frame_body_size_bytes frame) (length (frame_body frame))
        (cplan_provider_byte_cap plan)) (\<lambda>_.
      ok_then (ok_or (evidence_error ObservationMalformed
        ''catalog observation was not the exact narrow projection payload'')
        (from_slice (frame_body frame))) (\<lambda>payload.
      if payload_version payload \<noteq> cplan_projection_version plan
      then Inl (evidence_error ObservationMalformed
        ''catalog observation projection version was not exact'')
      else if payload_results_truncated payload
      then Inl (evidence_error ObservationTruncated
        ''catalog observation reported truncated results'')
      else if \<not> meta_query_succeeded (payload_meta payload)
      then Inl (evidence_error ObservationQueryFailed
        ''catalog observation did not prove a successful query'')
      else if \<not> meta_served_by_primary (payload_meta payload)
      then Inl (evidence_error ObservationNotPrimary
        ''catalog observation did not prove primary service'')
      else if meta_changed_db (payload_meta payload) \<or> meta_changes (payload_meta payload) \<noteq> 0 \<or>
        meta_rows_written (payload_meta payload) \<noteq> 0
      then Inl (evidence_error ObservationReportedMutation
        ''catalog observation did not prove exact read-only metadata'')
      else if length (payload_rows payload) > cplan_max_catalog_rows plan
      then Inl (evidence_error CatalogRowLimitExceeded
        ''catalog observation reached the plan sentinel or exceeded the row boundary'')
      else ok_then (validate_projection_rows (payload_rows payload)) (\<lambda>_. Inr payload))))"

definition fact_count :: "string \<Rightarrow> D1CatalogProjectionRow list \<Rightarrow> usize" where
  "fact_count kind rows = length (filter (\<lambda>row. fact_kind row = kind) rows)"

definition schema_physical_count :: "D1CatalogProjectionRow list \<Rightarrow> usize" where
  "schema_physical_count rows = length (filter (\<lambda>row. fact_order row = 0) rows)"

definition blocker_count :: "D1CatalogProjectionRow list \<Rightarrow> usize" where
  "blocker_count rows = length (filter (\<lambda>row. conservative_blocker row \<noteq> []) rows)"

definition prove_d1_catalog_product ::
  "env \<Rightarrow> (bytes \<Rightarrow> D1CatalogProjectionPayload option) \<Rightarrow> D1TargetIdentity
    \<Rightarrow> D1CatalogEvidencePlan \<Rightarrow> string \<Rightarrow> D1CatalogObservationFrame \<Rightarrow> D1CatalogObservationFrame
    \<Rightarrow> D1CatalogEvidenceProduct evidence" where
  "prove_d1_catalog_product E from_slice target supplied_plan expected_plan_sha256 first second =
     (if \<not> canonical_sha256 expected_plan_sha256
      then Inl (evidence_error PlanDigestInvalid
        ''catalog evidence expected-plan identity was not canonical SHA-256'')
      else ok_then (derive_d1_catalog_evidence_plan E target)
        (\<lambda>(derived_plan, derived_plan_sha256).
      if supplied_plan \<noteq> derived_plan \<or> expected_plan_sha256 \<noteq> derived_plan_sha256
      then Inl (evidence_error PlanRederivationMismatch
        ''catalog evidence plan did not exactly rederive for the canonical target'')
      else ok_then (validate_observation E from_slice derived_plan derived_plan_sha256 first)
        (\<lambda>first_payload.
      ok_then (validate_observation E from_slice derived_plan derived_plan_sha256 second)
        (\<lambda>second_payload.
      let identities = [frame_dispatch_id first, frame_read_id first,
                        frame_dispatch_id second, frame_read_id second];
          rows = payload_rows first_payload
      in if list_ex (\<lambda>identity. \<not> canonical_observation_identity identity) identities
      then Inl (evidence_error ObservationIdentityInvalid
        ''catalog observation identity was not canonical bounded ASCII'')
      else if length (bset_of identities) \<noteq> length identities
      then Inl (evidence_error ObservationIdentityReused
        ''catalog observations did not prove four distinct dispatch and read identities'')
      else if rows \<noteq> payload_rows second_payload
      then Inl (evidence_error CatalogSnapshotsUnstable
        ''two complete primary catalog observations did not contain one stable full snapshot'')
      else Inr
        \<lparr>cprod_receipt =
           \<lparr>cat_version = D1_CATALOG_EVIDENCE_VERSION,
            cat_operation = D1_CATALOG_EVIDENCE_OPERATION,
            cat_target_key_sha256 = cplan_target_key_sha256 derived_plan,
            cat_query_plan_sha256 = derived_plan_sha256,
            cat_query_sha256 = cplan_query_sha256 derived_plan,
            cat_projection_version = cplan_projection_version derived_plan,
            cat_catalog_snapshot_sha256 = hash_serialized E (SSeq (map ser_row rows)),
            cat_catalog_row_count = length rows,
            cat_schema_physical_row_count = schema_physical_count rows,
            cat_relation_fact_count = fact_count ''relation'' rows,
            cat_trigger_owner_fact_count = fact_count ''trigger_owner'' rows,
            cat_schema_auxiliary_fact_count = fact_count ''schema_auxiliary'' rows,
            cat_schema_blocker_fact_count = fact_count ''schema_blocker'' rows,
            cat_foreign_key_fact_count = fact_count ''foreign_key'' rows,
            cat_foreign_key_blocker_fact_count = fact_count ''foreign_key_blocker'' rows,
            cat_conservative_blocker_count = blocker_count rows,
            cat_observation_pair_sha256 = hash_serialized E (SSeq (map SStr identities)),
            cat_stable_primary_observations = 2,
            cat_provider_row_cap = cplan_provider_row_cap derived_plan,
            cat_provider_byte_cap = cplan_provider_byte_cap derived_plan,
            cat_response_body_sizes = (frame_body_size_bytes first, frame_body_size_bytes second)\<rparr>,
         cprod_rows = rows\<rparr>))))"

definition prove_d1_catalog_evidence ::
  "env \<Rightarrow> (bytes \<Rightarrow> D1CatalogProjectionPayload option) \<Rightarrow> D1TargetIdentity
    \<Rightarrow> D1CatalogEvidencePlan \<Rightarrow> string \<Rightarrow> D1CatalogObservationFrame \<Rightarrow> D1CatalogObservationFrame
    \<Rightarrow> D1CatalogEvidenceReceipt evidence" where
  "prove_d1_catalog_evidence E from_slice target supplied_plan expected_plan_sha256 first second =
     map_ok cprod_receipt
       (prove_d1_catalog_product E from_slice target supplied_plan expected_plan_sha256 first second)"

section \<open>Panic freedom\<close>

lemma no_panic_evidence_error [simp, no_panic_intros]: "no_panic (Inl (evidence_error c m))"
  by (simp add: evidence_error_def)

lemma no_panic_contradictory [simp, no_panic_intros]: "no_panic (Inl contradictory_facts)"
  by (simp add: contradictory_facts_def)

lemma no_panic_decode [simp, no_panic_intros]: "no_panic (decode_upper_hex v)"
  by (cases "decode_upper_hex v") (auto dest: decode_upper_hex_Inl)

lemma no_panic_identity [simp, no_panic_intros]: "no_panic (sqlite_ascii_identity v)"
  by (simp add: sqlite_ascii_identity_def sqlite_ascii_bytes_def no_panic_map_ok)

lemma no_panic_ok_or [no_panic_intros]: "no_panic (ok_or (evidence_error c m) x)"
  by (cases x) simp_all

lemma no_panic_text_loop [no_panic_intros]: "no_panic (foreign_key_text_loop ts)"
  by (induction ts rule: foreign_key_text_loop.induct)
    (auto simp del: not_None_eq intro!: no_panic_intros)

lemma no_panic_value_loop [no_panic_intros]: "no_panic (foreign_key_value_loop ts)"
  by (induction ts rule: foreign_key_value_loop.induct) (auto intro!: no_panic_intros)

lemma no_panic_foreign_key_blocker [no_panic_intros]:
  "no_panic (expected_foreign_key_structural_blocker row)"
  unfolding expected_foreign_key_structural_blocker_def foreign_key_to_blocker_def
  by (intro no_panic_intros)

lemma no_panic_schema_blocker [no_panic_intros]:
  "no_panic (expected_schema_structural_blocker row schema_rows)"
  unfolding expected_schema_structural_blocker_def by (intro no_panic_intros)

lemma no_panic_schema_fact [no_panic_intros]: "no_panic (validate_schema_fact row schema_rows)"
  unfolding validate_schema_fact_def Let_def by (intro no_panic_intros)

text \<open>
  The values the \<open>expect("validated hex")\<close> calls decode were decoded before by the value loop.
\<close>

lemma text_loop_blocker:
  "foreign_key_text_loop ts = Inr (Some b) \<Longrightarrow>
   \<exists>st v b1 b2 b3. (st, v, b1, b2, b3) \<in> set ts \<and> b \<in> {b1, b2, b3}"
  by (induction ts rule: foreign_key_text_loop.induct)
    (auto simp: result_simps split: if_splits, blast+)

lemma value_loop_blocker:
  "foreign_key_value_loop ts = Inr (Some b) \<Longrightarrow>
   \<exists>st v b1 b2 al. (st, v, b1, b2, al) \<in> set ts \<and> b \<in> {b1, b2}"
  by (induction ts rule: foreign_key_value_loop.induct)
    (auto simp: result_simps split: if_splits, blast+)

lemma foreign_key_unblocked_loops:
  assumes "expected_foreign_key_structural_blocker row = Inr []"
  shows "foreign_key_text_loop (foreign_key_texts row) = Inr None"
    and "foreign_key_to_blocker row = Inr None"
    and "foreign_key_value_loop (foreign_key_values row) = Inr None"
    and "foreign_key_id row \<ge> 0" and "foreign_key_seq row \<ge> 0"
proof -
  have tx: "foreign_key_text_loop (foreign_key_texts row) \<noteq> Inr (Some [])"
    using text_loop_blocker [of "foreign_key_texts row" "[]"]
    by (auto simp: foreign_key_texts_def simp del: foreign_key_text_loop.simps)
  have tc: "foreign_key_to_blocker row \<noteq> Inr (Some [])"
    by (auto simp: foreign_key_to_blocker_def result_simps split: if_splits)
  have val: "foreign_key_value_loop (foreign_key_values row) \<noteq> Inr (Some [])"
    using value_loop_blocker [of "foreign_key_values row" "[]"]
    by (auto simp: foreign_key_values_def simp del: foreign_key_value_loop.simps)
  from assms tx tc val
  show "foreign_key_text_loop (foreign_key_texts row) = Inr None"
    and "foreign_key_to_blocker row = Inr None"
    and "foreign_key_value_loop (foreign_key_values row) = Inr None"
    and "foreign_key_id row \<ge> 0" and "foreign_key_seq row \<ge> 0"
    by (auto simp: expected_foreign_key_structural_blocker_def result_simps
        split: if_splits option.splits) (metis not_None_eq)+
qed

lemma foreign_key_unblocked:
  assumes "expected_foreign_key_structural_blocker row = Inr []"
  shows "\<exists>d \<in> set foreign_key_actions. decode_upper_hex (on_update_hex row) = Inr d"
    and "\<exists>d \<in> set foreign_key_actions. decode_upper_hex (on_delete_hex row) = Inr d"
    and "\<exists>d \<in> set foreign_key_match_modes. decode_upper_hex (match_hex row) = Inr d"
  using foreign_key_unblocked_loops(3) [OF assms]
  by (auto simp: foreign_key_values_def result_simps list_ex_iff split: if_splits)

lemma no_panic_record:
  assumes "expected_foreign_key_structural_blocker row = Inr []"
  shows "no_panic (foreign_key_record foreign_keys child parent row)"
proof -
  have "no_panic (foreign_key_entry_for foreign_keys child parent row)"
    using foreign_key_unblocked [OF assms]
    by (auto simp: foreign_key_entry_for_def expect_hex_def split: option.splits)
  then show ?thesis
    unfolding foreign_key_record_def by (auto intro!: no_panic_intros split: prod.splits)
qed

lemma no_panic_foreign_key_row_step [no_panic_intros]:
  "no_panic (foreign_key_row_step schema_rows relations foreign_keys row)"
  unfolding foreign_key_row_step_def Let_def
  by (intro no_panic_intros no_panic_record) auto

lemma no_panic_projection_rows [no_panic_intros]: "no_panic (validate_projection_rows rows)"
  unfolding validate_projection_rows_def projection_row_step_def [abs_def]
    validate_structured_relationships_def schema_row_step_def [abs_def] schema_relations_def Let_def
  by (intro no_panic_intros)

lemma no_panic_observation [no_panic_intros]:
  "no_panic (validate_observation E from_slice plan plan_sha256 frame)"
  unfolding validate_observation_def validate_body_size_def by (intro no_panic_intros)

text \<open>C22: The verifier never panics: every \<open>expect\<close> in it is reached only with hex that was decoded before.\<close>

theorem catalog_verifier_no_panic:
  "no_panic (prove_d1_catalog_product E from_slice target plan plan_sha256 first second)"
  unfolding prove_d1_catalog_product_def derive_d1_catalog_evidence_plan_def Let_def
  by (auto intro!: no_panic_intros)

section \<open>What an accepted snapshot satisfies\<close>

lemma projection_loop_sorted:
  assumes "try_fold projection_row_step previous rows = Inr t"
  shows "list_all projection_row_wf rows \<and>
    sorted_wrt (\<lambda>a b. row_key a < row_key b) rows \<and>
    (\<forall>prior \<in> set_option previous. \<forall>row \<in> set rows. row_key prior < row_key row)"
  using assms
proof (induction rows arbitrary: previous)
  case (Cons row rows)
  from Cons.prems obtain p where step: "projection_row_step previous row = Inr p"
    and fold: "try_fold projection_row_step p rows = Inr t"
    by (auto split: sum.splits)
  from step have row: "projection_row_wf row" and p: "p = Some row"
    and prior: "\<forall>prior \<in> set_option previous. row_key prior < row_key row"
    by (auto simp: projection_row_step_def split: if_splits option.splits)
  from fold p have rest: "try_fold projection_row_step (Some row) rows = Inr t" by simp
  from Cons.IH [OF rest] row prior show ?case
    by (auto intro: less_trans)
qed simp

lemma validated_rows_loop:
  assumes "validate_projection_rows rows = Inr u"
  shows "list_all projection_row_wf rows"
    and "sorted_wrt (\<lambda>a b. row_key a < row_key b) rows"
    and "validate_structured_relationships rows = Inr ()"
proof -
  from assms obtain t where "try_fold projection_row_step None rows = Inr t"
    and rel: "validate_structured_relationships rows = Inr u"
    by (auto simp: validate_projection_rows_def result_simps)
  from projection_loop_sorted [OF this(1)]
  show "list_all projection_row_wf rows" "sorted_wrt (\<lambda>a b. row_key a < row_key b) rows"
    by simp_all
  from rel show "validate_structured_relationships rows = Inr ()" by simp
qed

definition schema_rows_of :: "D1CatalogProjectionRow list \<Rightarrow> D1CatalogProjectionRow list" where
  "schema_rows_of rows = filter (\<lambda>row. fact_order row = 0) rows"

lemma validated_schema_row:
  assumes "validate_structured_relationships rows = Inr ()" and "row \<in> set (schema_rows_of rows)"
  shows "schema_fact_sentinels row"
    and "validate_schema_fact row (schema_rows_of rows) = Inr True"
proof -
  from assms(1) obtain ids where
    "try_fold (schema_row_step (schema_rows_of rows)) [] (schema_rows_of rows) = Inr ids"
    by (auto simp: validate_structured_relationships_def schema_rows_of_def Let_def result_simps)
  from try_fold_each [OF this assms(2)] obtain s1 s2 where
    "schema_row_step (schema_rows_of rows) s1 row = Inr s2" by blast
  then show "schema_fact_sentinels row"
    and "validate_schema_fact row (schema_rows_of rows) = Inr True"
    by (auto simp: schema_row_step_def result_simps split: if_splits)
qed

lemma validated_foreign_key_row:
  assumes "validate_structured_relationships rows = Inr ()"
    and "row \<in> set rows" and "fact_order row = 1"
  obtains relations child s1 s2 where
    "schema_relations (schema_rows_of rows) = Inr relations"
    "foreign_key_row_step (schema_rows_of rows) relations s1 row = Inr s2"
    "find (\<lambda>candidate. schema_rowid candidate = schema_rowid row) (schema_rows_of rows) = Some child"
    "foreign_key_row_consistent child row"
proof -
  from assms(1) obtain relations fks where
    rel: "schema_relations (schema_rows_of rows) = Inr relations"
    and fold: "try_fold (foreign_key_row_step (schema_rows_of rows) relations) []
      (filter (\<lambda>row. fact_order row = 1) rows) = Inr fks"
    by (auto simp: validate_structured_relationships_def schema_rows_of_def Let_def result_simps)
  from assms(2,3) have "row \<in> set (filter (\<lambda>row. fact_order row = 1) rows)" by simp
  from try_fold_each [OF fold this] obtain s1 s2 where
    step: "foreign_key_row_step (schema_rows_of rows) relations s1 row = Inr s2" by blast
  then obtain child where
    "find (\<lambda>candidate. schema_rowid candidate = schema_rowid row) (schema_rows_of rows) = Some child"
    "foreign_key_row_consistent child row"
    by (auto simp: foreign_key_row_step_def split: option.splits if_splits)
  with rel step that show ?thesis by blast
qed

lemma schema_fact_kind:
  assumes "validate_schema_fact row schema_rows = Inr True"
  obtains blocker where "expected_schema_structural_blocker row schema_rows = Inr blocker"
    and "expected_schema_kind blocker (recognized_schema_type row) = Some (fact_kind row)"
    and "relation_type row = (case recognized_schema_type row of None \<Rightarrow> [] | Some t \<Rightarrow> t)"
  using assms
  by (auto simp: validate_schema_fact_def Let_def result_simps split: if_splits option.splits)

lemma schema_kinds: "expected_schema_kind blocker t = Some k \<Longrightarrow>
  k \<in> {''relation'', ''trigger_owner'', ''schema_auxiliary'', ''schema_blocker''}"
  by (auto simp: expected_schema_kind_def split: if_splits)

lemma foreign_key_row_kind:
  "foreign_key_row_step schema_rows relations s1 row = Inr s2 \<Longrightarrow>
   fact_kind row \<in> {''foreign_key'', ''foreign_key_blocker''}"
  by (auto simp: foreign_key_row_step_def Let_def result_simps split: option.splits if_splits)

lemma validated_kinds:
  assumes "validate_projection_rows rows = Inr ()" and "row \<in> set rows"
  shows "fact_order row = 0 \<and>
      fact_kind row \<in> {''relation'', ''trigger_owner'', ''schema_auxiliary'', ''schema_blocker''} \<or>
    fact_order row = 1 \<and> fact_kind row \<in> {''foreign_key'', ''foreign_key_blocker''}"
proof -
  note loop = validated_rows_loop [OF assms(1)]
  from loop(1) assms(2) have "fact_order row = 0 \<or> fact_order row = 1"
    by (auto simp: list_all_iff projection_row_wf_def)
  then show ?thesis
  proof
    assume zero: "fact_order row = 0"
    with assms(2) have mem: "row \<in> set (schema_rows_of rows)" by (simp add: schema_rows_of_def)
    from schema_fact_kind [OF validated_schema_row(2) [OF loop(3) mem]] zero show ?thesis
      using schema_kinds by metis
  next
    assume one: "fact_order row = 1"
    from validated_foreign_key_row [OF loop(3) assms(2) one] one show ?thesis
      using foreign_key_row_kind by metis
  qed
qed

lemma fact_count_Cons:
  "fact_count k (r # rs) = of_bool (fact_kind r = k) + fact_count k rs"
  by (simp add: fact_count_def)

lemma fact_count_partition:
  assumes "\<forall>row \<in> set rows. fact_kind row \<in> {''relation'', ''trigger_owner'', ''schema_auxiliary'',
    ''schema_blocker'', ''foreign_key'', ''foreign_key_blocker''}"
  shows "fact_count ''relation'' rows + fact_count ''trigger_owner'' rows +
    fact_count ''schema_auxiliary'' rows + fact_count ''schema_blocker'' rows +
    fact_count ''foreign_key'' rows + fact_count ''foreign_key_blocker'' rows = length rows"
  using assms
proof (induction rows)
  case Nil
  then show ?case by (simp add: fact_count_def)
next
  case (Cons r rs)
  then show ?case by (auto simp: fact_count_Cons)
qed

lemma schema_relations_lookup:
  assumes "schema_relations schema_rows = Inr relations" and "map_of relations name = Some t"
  shows "\<exists>row \<in> set schema_rows. fact_kind row = ''relation'' \<and> relation_type row = t \<and>
    sqlite_ascii_identity (relation_name_hex row) = Inr name"
proof -
  from assms(1) obtain entries where
    maps: "try_map (\<lambda>row. ok_then (sqlite_ascii_identity (relation_name_hex row)) (\<lambda>name.
           Inr (name, relation_type row)))
         (filter (\<lambda>row. fact_kind row = ''relation'') schema_rows) = Inr entries"
    and rel: "relations = fold (\<lambda>(k, v). bmap_insert k v) entries []"
    by (auto simp: schema_relations_def result_simps)
  from assms(2) have "(name, t) \<in> set entries"
    using map_of_fold_insert [of "[]" entries name t] by (simp add: rel)
  then obtain i where i: "i < length entries" "entries ! i = (name, t)"
    by (auto simp: in_set_conv_nth)
  define rels where "rels = filter (\<lambda>row. fact_kind row = ''relation'') schema_rows"
  from maps have all: "list_all2 (\<lambda>row e. ok_then (sqlite_ascii_identity (relation_name_hex row))
      (\<lambda>name. Inr (name, relation_type row)) = Inr e) rels entries"
    by (simp add: try_map_eq_Inr rels_def)
  with i have "i < length rels" by (simp add: list_all2_lengthD)
  with list_all2_nthD [OF all this] i have
    "sqlite_ascii_identity (relation_name_hex (rels ! i)) = Inr name"
    "relation_type (rels ! i) = t" "rels ! i \<in> set rels"
    by (auto simp: result_simps)
  then show ?thesis by (auto simp: rels_def)
qed

lemma accepted_observation:
  assumes "validate_observation E from_slice plan sha frame = Inr payload"
  shows "canonical_d1_target (frame_target frame)"
    and "frame_target frame = \<lparr>tgt_account_id = cplan_account_id plan, tgt_database_id = cplan_database_id plan\<rparr>"
    and "frame_body_complete frame" and "from_slice (frame_body frame) = Some payload"
    and "\<not> payload_results_truncated payload" and "meta_query_succeeded (payload_meta payload)"
    and "meta_served_by_primary (payload_meta payload)"
    and "\<not> meta_changed_db (payload_meta payload)" and "meta_changes (payload_meta payload) = 0"
    and "meta_rows_written (payload_meta payload) = 0"
    and "length (payload_rows payload) \<le> cplan_max_catalog_rows plan"
    and "length (frame_body frame) \<le> cplan_provider_byte_cap plan"
    and "validate_projection_rows (payload_rows payload) = Inr ()"
  using assms
  by (auto simp: validate_observation_def validate_body_size_def canonical_target_iff result_simps
      split: if_splits)

lemma derived_plan_fields:
  assumes "derive_d1_catalog_evidence_plan E target = Inr (plan, sha)"
  shows "canonical_d1_target target"
    and "cplan_account_id plan = tgt_account_id target"
    and "cplan_database_id plan = tgt_database_id target"
    and "cplan_target_key_sha256 plan = target_key_sha256 E target"
    and "cplan_max_catalog_rows plan = D1_CATALOG_MAX_ROWS"
    and "cplan_projection_version plan = D1_CATALOG_PROJECTION_VERSION"
    and "cplan_query_sha256 plan = sha256_hex E D1_CATALOG_QUERY"
    and "sha = hash_serialized E (ser_catalog_plan plan)"
  using assms
  by (auto simp: derive_d1_catalog_evidence_plan_def Let_def canonical_target_iff split: if_splits)

lemma accepted_product:
  assumes "prove_d1_catalog_product E from_slice target plan sha first second = Inr p"
  obtains p1 p2 where
    "derive_d1_catalog_evidence_plan E target = Inr (plan, sha)"
    "validate_observation E from_slice plan sha first = Inr p1"
    "validate_observation E from_slice plan sha second = Inr p2"
    "payload_rows p1 = cprod_rows p" "payload_rows p2 = cprod_rows p"
    "distinct [frame_dispatch_id first, frame_read_id first,
       frame_dispatch_id second, frame_read_id second]"
proof -
  from assms obtain p1 p2 where
    "derive_d1_catalog_evidence_plan E target = Inr (plan, sha)"
    "validate_observation E from_slice plan sha first = Inr p1"
    "validate_observation E from_slice plan sha second = Inr p2"
    "payload_rows p1 = cprod_rows p \<and> payload_rows p2 = cprod_rows p"
    "length (bset_of [frame_dispatch_id first, frame_read_id first,
       frame_dispatch_id second, frame_read_id second]) =
     length [frame_dispatch_id first, frame_read_id first,
       frame_dispatch_id second, frame_read_id second]"
    by (auto simp: prove_d1_catalog_product_def Let_def result_simps split: if_splits)
  with that show ?thesis unfolding length_bset_of_eq by blast
qed

lemma accepted_receipt:
  assumes "prove_d1_catalog_product E from_slice target plan sha first second = Inr p"
  shows "cat_version (cprod_receipt p) = 5" and "cat_projection_version (cprod_receipt p) = 5"
    and "cat_operation (cprod_receipt p) = D1_CATALOG_EVIDENCE_OPERATION"
    and "cat_target_key_sha256 (cprod_receipt p) = target_key_sha256 E target"
    and "cat_query_plan_sha256 (cprod_receipt p) = sha"
    and "cat_query_sha256 (cprod_receipt p) = sha256_hex E D1_CATALOG_QUERY"
    and "cat_catalog_snapshot_sha256 (cprod_receipt p) =
      hash_serialized E (SSeq (map ser_row (cprod_rows p)))"
    and "\<exists>v. cat_observation_pair_sha256 (cprod_receipt p) = hash_serialized E v"
    and "cat_stable_primary_observations (cprod_receipt p) = 2"
    and "cat_catalog_row_count (cprod_receipt p) = length (cprod_rows p)"
    and "cat_schema_physical_row_count (cprod_receipt p) = schema_physical_count (cprod_rows p)"
    and "cat_relation_fact_count (cprod_receipt p) = fact_count ''relation'' (cprod_rows p)"
    and "cat_trigger_owner_fact_count (cprod_receipt p) = fact_count ''trigger_owner'' (cprod_rows p)"
    and "cat_schema_auxiliary_fact_count (cprod_receipt p) =
      fact_count ''schema_auxiliary'' (cprod_rows p)"
    and "cat_schema_blocker_fact_count (cprod_receipt p) = fact_count ''schema_blocker'' (cprod_rows p)"
    and "cat_foreign_key_fact_count (cprod_receipt p) = fact_count ''foreign_key'' (cprod_rows p)"
    and "cat_foreign_key_blocker_fact_count (cprod_receipt p) =
      fact_count ''foreign_key_blocker'' (cprod_rows p)"
    and "cat_conservative_blocker_count (cprod_receipt p) = blocker_count (cprod_rows p)"
  using assms
  by (auto simp: prove_d1_catalog_product_def Let_def result_simps derived_plan_fields
      D1_CATALOG_EVIDENCE_VERSION_def D1_CATALOG_PROJECTION_VERSION_def split: if_splits)

lemma accepted_rows:
  assumes "prove_d1_catalog_product E from_slice target plan sha first second = Inr p"
  shows "validate_projection_rows (cprod_rows p) = Inr ()"
proof (rule accepted_product [OF assms])
  fix p1 p2
  assume "validate_observation E from_slice plan sha first = Inr p1"
    and "payload_rows p1 = cprod_rows p"
  then show ?thesis using accepted_observation(13) by metis
qed

section \<open>Properties\<close>

text \<open>What one accepted observation frame says about the snapshot.\<close>

definition frame_proves_rows ::
  "(bytes \<Rightarrow> D1CatalogProjectionPayload option) \<Rightarrow> D1CatalogProjectionRow list
    \<Rightarrow> D1CatalogObservationFrame \<Rightarrow> bool" where
  "frame_proves_rows from_slice rows frame \<longleftrightarrow>
     frame_body_complete frame \<and>
     (\<exists>payload. from_slice (frame_body frame) = Some payload \<and> payload_rows payload = rows \<and>
       \<not> payload_results_truncated payload \<and> meta_query_succeeded (payload_meta payload) \<and>
       meta_served_by_primary (payload_meta payload) \<and> \<not> meta_changed_db (payload_meta payload) \<and>
       meta_changes (payload_meta payload) = 0 \<and> meta_rows_written (payload_meta payload) = 0)"

text \<open>C4: An accepted pair of observations is what the module claims of it: the target is canonical and both frames are bound to it, the four dispatch and read identities are pairwise distinct, both bodies are complete, parse to the rows of the product, and report an untruncated, successful, primary-served read that changed nothing; there are at most 1000 rows and they are strictly increasing in the query order.\<close>

theorem catalog_product_sound:
  assumes "prove_d1_catalog_product E from_slice target plan sha first second = Inr p"
  shows "canonical_d1_target target \<and> frame_target first = target \<and> frame_target second = target \<and>
    distinct [frame_dispatch_id first, frame_read_id first,
      frame_dispatch_id second, frame_read_id second] \<and>
    frame_proves_rows from_slice (cprod_rows p) first \<and>
    frame_proves_rows from_slice (cprod_rows p) second \<and>
    length (cprod_rows p) \<le> 1000 \<and> sorted_wrt (\<lambda>a b. row_key a < row_key b) (cprod_rows p)"
proof -
  obtain p1 p2 where
    plan: "derive_d1_catalog_evidence_plan E target = Inr (plan, sha)"
    and o1: "validate_observation E from_slice plan sha first = Inr p1"
    and o2: "validate_observation E from_slice plan sha second = Inr p2"
    and rows: "payload_rows p1 = cprod_rows p" "payload_rows p2 = cprod_rows p"
    and ids: "distinct [frame_dispatch_id first, frame_read_id first,
       frame_dispatch_id second, frame_read_id second]"
    using accepted_product [OF assms] by blast
  note fields = derived_plan_fields [OF plan]
  note a1 = accepted_observation [OF o1] and a2 = accepted_observation [OF o2]
  have "frame_target first = target \<and> frame_target second = target"
    using fields a1(2) a2(2) by simp
  moreover have "length (cprod_rows p) \<le> 1000"
    using a1(11) rows(1) fields(5) by (simp add: D1_CATALOG_MAX_ROWS_def)
  moreover have "frame_proves_rows from_slice (cprod_rows p) first"
    using a1 rows(1) by (auto simp: frame_proves_rows_def)
  moreover have "frame_proves_rows from_slice (cprod_rows p) second"
    using a2 rows(2) by (auto simp: frame_proves_rows_def)
  ultimately show ?thesis
    using fields(1) ids validated_rows_loop(2) [OF accepted_rows [OF assms]] by blast
qed

lemma catalog_row_bound:
  assumes "prove_d1_catalog_product E from_slice target plan sha first second = Inr p"
  shows "length (cprod_rows p) \<le> 1000"
proof (rule accepted_product [OF assms])
  fix p1
  assume "derive_d1_catalog_evidence_plan E target = Inr (plan, sha)"
    and "validate_observation E from_slice plan sha first = Inr p1" "payload_rows p1 = cprod_rows p"
  then show ?thesis
    using accepted_observation(11) derived_plan_fields(5) by (metis D1_CATALOG_MAX_ROWS_def)
qed

lemma accepted_counts:
  assumes "prove_d1_catalog_product E from_slice target plan sha first second = Inr p"
  shows "let r = cprod_receipt p in
    cat_relation_fact_count r + cat_trigger_owner_fact_count r + cat_schema_auxiliary_fact_count r
      + cat_schema_blocker_fact_count r + cat_foreign_key_fact_count r
      + cat_foreign_key_blocker_fact_count r = cat_catalog_row_count r \<and>
    cat_relation_fact_count r + cat_trigger_owner_fact_count r + cat_schema_auxiliary_fact_count r
      + cat_schema_blocker_fact_count r = cat_schema_physical_row_count r \<and>
    cat_catalog_row_count r = length (cprod_rows p) \<and> cat_catalog_row_count r \<le> 1000"
proof -
  note rows = accepted_rows [OF assms]
  have kinds: "\<forall>row \<in> set (cprod_rows p). fact_kind row \<in> {''relation'', ''trigger_owner'',
    ''schema_auxiliary'', ''schema_blocker'', ''foreign_key'', ''foreign_key_blocker''}"
    using validated_kinds [OF rows] by blast
  have physical: "fact_count ''relation'' rs + fact_count ''trigger_owner'' rs +
      fact_count ''schema_auxiliary'' rs + fact_count ''schema_blocker'' rs = schema_physical_count rs"
    if "set rs \<subseteq> set (cprod_rows p)" for rs
    using that
  proof (induction rs)
    case (Cons r rs)
    then have "r \<in> set (cprod_rows p)" by simp
    from validated_kinds [OF rows this] Cons show ?case
      by (auto simp: fact_count_Cons schema_physical_count_def)
  qed (simp add: fact_count_def schema_physical_count_def)
  have "length (cprod_rows p) \<le> 1000"
    using catalog_row_bound [OF assms] .
  with fact_count_partition [OF kinds] physical [OF subset_refl] show ?thesis
    by (simp add: accepted_receipt [OF assms] Let_def)
qed

text \<open>In the receipt of an accepted product the six fact counts add up to the number of rows, and the four schema counts to the number of physical schema rows.\<close>

theorem catalog_receipt_partitions_rows:
  assumes "prove_d1_catalog_product E from_slice target plan sha first second = Inr p"
  shows "let r = cprod_receipt p in
    cat_relation_fact_count r + cat_trigger_owner_fact_count r + cat_schema_auxiliary_fact_count r
      + cat_schema_blocker_fact_count r + cat_foreign_key_fact_count r
      + cat_foreign_key_blocker_fact_count r = cat_catalog_row_count r \<and>
    cat_relation_fact_count r + cat_trigger_owner_fact_count r + cat_schema_auxiliary_fact_count r
      + cat_schema_blocker_fact_count r = cat_schema_physical_row_count r \<and>
    cat_catalog_row_count r = length (cprod_rows p)"
  using accepted_counts [OF assms] unfolding Let_def by blast

lemma accepted_relations_unique:
  assumes "prove_d1_catalog_product E from_slice target plan sha first second = Inr p"
    and "r \<in> set (cprod_rows p)" "fact_kind r = ''relation''"
    and "s \<in> set (cprod_rows p)" "fact_kind s = ''relation''"
    and "sqlite_ascii_identity (relation_name_hex r) = sqlite_ascii_identity (relation_name_hex s)"
  shows "r = s"
proof -
  note rows = accepted_rows [OF assms(1)]
  note rel = validated_rows_loop(3) [OF rows]
  have schema: "x \<in> set (schema_rows_of (cprod_rows p)) \<and>
      expected_schema_structural_blocker x (schema_rows_of (cprod_rows p)) = Inr []"
    if "x \<in> set (cprod_rows p)" "fact_kind x = ''relation''" for x
  proof -
    from validated_kinds [OF rows that(1)] that(2) have zero: "fact_order x = 0" by auto
    with that(1) have mem: "x \<in> set (schema_rows_of (cprod_rows p))"
      by (simp add: schema_rows_of_def)
    obtain blocker where b: "expected_schema_structural_blocker x (schema_rows_of (cprod_rows p)) = Inr blocker"
      and k: "expected_schema_kind blocker (recognized_schema_type x) = Some (fact_kind x)"
      using schema_fact_kind [OF validated_schema_row(2) [OF rel mem]] by blast
    from k that(2) have "blocker = []"
      by (auto simp: expected_schema_kind_def split: if_splits)
    with mem b show ?thesis by simp
  qed
  have claim: "relation_name_storage_class x = ''text'' \<and>
      name_claimants x (schema_rows_of (cprod_rows p)) = 1"
    if "expected_schema_structural_blocker x (schema_rows_of (cprod_rows p)) = Inr []" for x
    using that by (auto simp: expected_schema_structural_blocker_def result_simps
        split: if_splits option.splits)
  note r = schema [OF assms(2,3)] and s = schema [OF assms(4,5)]
  have one: "name_claimants r (schema_rows_of (cprod_rows p)) = 1"
    and text_r: "relation_name_storage_class r = ''text''"
    and text_s: "relation_name_storage_class s = ''text''"
    using claim r s by blast+
  show ?thesis
    by (rule filter_single_unique [OF one [unfolded name_claimants_def]])
      (use r s text_r text_s assms(6) in \<open>simp_all add: sqlite_ascii_identity_def\<close>)
qed

lemma strictly_sorted_distinct: "sorted_wrt (\<lambda>a b. f a < (f b :: 'k :: order)) xs \<Longrightarrow> distinct xs"
  by (induction xs) auto

text \<open>An accepted catalog has no two relations whose names agree under SQLite ASCII case folding.\<close>

theorem catalog_relations_unique:
  assumes "prove_d1_catalog_product E from_slice target plan sha first second = Inr p"
  shows "distinct (map (\<lambda>row. sqlite_ascii_identity (relation_name_hex row))
    (filter (\<lambda>row. fact_kind row = ''relation'') (cprod_rows p)))"
  unfolding distinct_map inj_on_def
  using strictly_sorted_distinct [OF validated_rows_loop(2) [OF accepted_rows [OF assms]]]
    accepted_relations_unique [OF assms]
  by simp

text \<open>A table an accepted catalog reports without a blocker has its SQL text available, within 64 KiB, and the text contains neither VIRTUAL nor REPLACE in any case.\<close>

theorem catalog_unblocked_table_tokens:
  assumes "prove_d1_catalog_product E from_slice target plan sha first second = Inr p"
    and "row \<in> set (cprod_rows p)" "fact_kind row = ''relation''" "relation_type row = ''table''"
    and "conservative_blocker row = []"
  shows "\<exists>source. decode_upper_hex (table_sql_token_source_hex row) = Inr source \<and>
    length source \<le> 65536 \<and> \<not> contains_ascii_token source ''VIRTUAL'' \<and>
    \<not> contains_ascii_token source ''REPLACE'' \<and>
    schema_sql_storage_class row = ''text'' \<and> table_sql_token_source_is_null row = 0 \<and>
    table_virtual_token_hit row = 0 \<and> table_replace_token_hit row = 0"
proof -
  note rows = accepted_rows [OF assms(1)]
  note rel = validated_rows_loop(3) [OF rows]
  from validated_kinds [OF rows assms(2)] assms(3) have zero: "fact_order row = 0" by auto
  with assms(2) have mem: "row \<in> set (schema_rows_of (cprod_rows p))"
    by (simp add: schema_rows_of_def)
  note fact = validated_schema_row(2) [OF rel mem]
  obtain blocker where b: "expected_schema_structural_blocker row (schema_rows_of (cprod_rows p)) = Inr blocker"
    and k: "expected_schema_kind blocker (recognized_schema_type row) = Some (fact_kind row)"
    and t: "relation_type row = (case recognized_schema_type row of None \<Rightarrow> [] | Some t \<Rightarrow> t)"
    using schema_fact_kind [OF fact] by blast
  from k assms(3) have nb: "blocker = []"
    by (auto simp: expected_schema_kind_def split: if_splits)
  from t assms(4) have ty: "recognized_schema_type row = Some ''table''"
    by (auto split: option.splits)
  from b nb have sql: "schema_sql_storage_class row \<in> {''null'', ''text''}"
    by (auto simp: expected_schema_structural_blocker_def result_simps split: if_splits option.splits)
  from fact b nb ty k assms(5) sql show ?thesis
    by (auto simp: validate_schema_fact_def Let_def result_simps expected_schema_blocker_def
        D1_CATALOG_TABLE_SQL_TOKEN_SOURCE_BYTE_CAP_def split: if_splits option.splits)
qed

text \<open>C28: A foreign key an accepted catalog reports without a blocker has a table of the catalog as its parent and as its child, and its actions and match mode are among the recognized ones.\<close>

theorem catalog_foreign_keys_resolved:
  assumes "prove_d1_catalog_product E from_slice target plan sha first second = Inr p"
    and "row \<in> set (cprod_rows p)" "fact_kind row = ''foreign_key''" "conservative_blocker row = []"
  shows "(\<exists>parent \<in> set (cprod_rows p). fact_kind parent = ''relation'' \<and>
      relation_type parent = ''table'' \<and>
      sqlite_ascii_identity (relation_name_hex parent) = sqlite_ascii_identity (parent_name_hex row)) \<and>
    (\<exists>child \<in> set (cprod_rows p). fact_kind child = ''relation'' \<and>
      relation_type child = ''table'' \<and> relation_name_hex child = relation_name_hex row) \<and>
    (\<exists>d \<in> set foreign_key_actions. decode_upper_hex (on_update_hex row) = Inr d) \<and>
    (\<exists>d \<in> set foreign_key_actions. decode_upper_hex (on_delete_hex row) = Inr d) \<and>
    (\<exists>d \<in> set foreign_key_match_modes. decode_upper_hex (match_hex row) = Inr d)"
proof -
  note rows = accepted_rows [OF assms(1)]
  note rel = validated_rows_loop(3) [OF rows]
  from validated_kinds [OF rows assms(2)] assms(3) have one: "fact_order row = 1" by auto
  obtain relations child s1 s2 where
    relations: "schema_relations (schema_rows_of (cprod_rows p)) = Inr relations"
    and step: "foreign_key_row_step (schema_rows_of (cprod_rows p)) relations s1 row = Inr s2"
    and child: "find (\<lambda>candidate. schema_rowid candidate = schema_rowid row)
      (schema_rows_of (cprod_rows p)) = Some child"
    and cons: "foreign_key_row_consistent child row"
    by (rule validated_foreign_key_row [OF rel assms(2) one])
  from step child assms(3,4) obtain name where
    b: "expected_foreign_key_structural_blocker row = Inr []"
    and name: "sqlite_ascii_identity (parent_name_hex row) = Inr name"
    and look: "map_of relations name = Some ''table''"
    by (auto simp: foreign_key_row_step_def Let_def result_simps split: if_splits)
  from schema_relations_lookup [OF relations look] obtain parent where
    "parent \<in> set (schema_rows_of (cprod_rows p))" "fact_kind parent = ''relation''"
    "relation_type parent = ''table''" "sqlite_ascii_identity (relation_name_hex parent) = Inr name"
    by blast
  moreover from child have "child \<in> set (schema_rows_of (cprod_rows p))"
    by (auto simp: find_Some_iff)
  moreover from cons have "fact_kind child = ''relation''" "relation_type child = ''table''"
    "relation_name_hex child = relation_name_hex row"
    by (simp_all add: foreign_key_row_consistent_def)
  ultimately show ?thesis
    using foreign_key_unblocked [OF b] name unfolding schema_rows_of_def by auto
qed

end
