(* ===== verification/D1_Graph.thy ===== *)
theory D1_Graph
  imports D1_Catalog_Verify
begin

text \<open>
  \<open>src/d1_reserved_relation_graph.rs\<close>: from an accepted catalog to one decision per relation and
  write operation. The facts of the rows become a graph of write effects (foreign-key actions,
  AUTOINCREMENT bookkeeping); a breadth-first traversal from each node denies every write that can
  reach a reserved relation, a relation with triggers, or a view.
\<close>

definition D1_RESERVED_RELATION_GRAPH_OPERATION :: string where
  "D1_RESERVED_RELATION_GRAPH_OPERATION = ''d1_reserved_relation_write_graph''"

definition GRAPH_VERSION :: u8 where
  "GRAPH_VERSION = 3"

definition REQUIRED_CATALOG_VERSION :: u8 where
  "REQUIRED_CATALOG_VERSION = 5"

definition MAX_CONFIGURED_RESERVED_ROOTS :: usize where
  "MAX_CONFIGURED_RESERVED_ROOTS = 64"

definition MAX_RELATIONS :: usize where
  "MAX_RELATIONS = 1000"

definition MAX_GRAPH_NODES :: usize where
  "MAX_GRAPH_NODES = MAX_RELATIONS * 3"

definition MAX_GRAPH_EDGES :: usize where
  "MAX_GRAPH_EDGES = 4096"

section \<open>Data\<close>

datatype D1RelationWriteOperation = Insert | Update | Delete

definition ALL_operations :: "D1RelationWriteOperation list" where
  "ALL_operations = [Insert, Update, Delete]"

datatype D1WriteOperationForm =
    InsertForm
  | UpdateForm
  | DeleteForm
  | Replace
  | InsertOrReplace
  | UpsertDoUpdate
  | UpdateOrReplace
  | UnsupportedCompound

datatype D1ReservedRelationDecision =
    Allow
  | DenyReservedReachable
  | DenyTriggerEffectsUnproven
  | DenyViewWriteSemanticsUnproven

datatype WriteNode = WriteNode (wn_relation: string) (wn_operation: D1RelationWriteOperation)

datatype RelationKind = Table | View

record Relation =
  rel_kind :: RelationKind
  rel_autoincrement :: bool

record ForeignKeyGroup =
  fk_child :: string
  fk_parent :: string
  fk_on_update :: string
  fk_on_delete :: string
  fk_match_mode :: string

text \<open>The derived \<open>Ord\<close>: declaration order of the operations, lexicographic on nodes.\<close>

fun operation_rank :: "D1RelationWriteOperation \<Rightarrow> nat" where
  "operation_rank Insert = 0"
| "operation_rank Update = 1"
| "operation_rank Delete = 2"

instantiation D1RelationWriteOperation :: linorder
begin

definition less_eq_D1RelationWriteOperation :: "D1RelationWriteOperation \<Rightarrow> D1RelationWriteOperation \<Rightarrow> bool" where
  "less_eq_D1RelationWriteOperation a b \<longleftrightarrow> operation_rank a \<le> operation_rank b"

definition less_D1RelationWriteOperation :: "D1RelationWriteOperation \<Rightarrow> D1RelationWriteOperation \<Rightarrow> bool" where
  "less_D1RelationWriteOperation a b \<longleftrightarrow> operation_rank a < operation_rank b"

instance
proof
  fix x y z :: D1RelationWriteOperation
  show "x \<le> y \<Longrightarrow> y \<le> x \<Longrightarrow> x = y"
    by (cases x; cases y) (simp_all add: less_eq_D1RelationWriteOperation_def)
qed (auto simp: less_eq_D1RelationWriteOperation_def less_D1RelationWriteOperation_def)

end

definition node_key :: "WriteNode \<Rightarrow> string \<times> D1RelationWriteOperation" where
  "node_key n = (wn_relation n, wn_operation n)"

instantiation WriteNode :: linorder
begin

definition less_eq_WriteNode :: "WriteNode \<Rightarrow> WriteNode \<Rightarrow> bool" where
  "less_eq_WriteNode a b \<longleftrightarrow> node_key a \<le> node_key b"

definition less_WriteNode :: "WriteNode \<Rightarrow> WriteNode \<Rightarrow> bool" where
  "less_WriteNode a b \<longleftrightarrow> node_key a < node_key b"

instance
proof
  fix x y z :: WriteNode
  show "x \<le> y \<Longrightarrow> y \<le> x \<Longrightarrow> x = y"
    unfolding less_eq_WriteNode_def using antisym [of "node_key x" "node_key y"]
    by (cases x; cases y) (simp add: node_key_def)
  show "x \<le> y \<Longrightarrow> y \<le> z \<Longrightarrow> x \<le> z"
    unfolding less_eq_WriteNode_def by (rule order_trans)
  show "x < y \<longleftrightarrow> x \<le> y \<and> \<not> y \<le> x"
    unfolding less_eq_WriteNode_def less_WriteNode_def by (rule less_le_not_le)
  show "x \<le> y \<or> y \<le> x"
    unfolding less_eq_WriteNode_def by (rule linear)
qed (simp add: less_eq_WriteNode_def)

end

type_synonym graph_edges = "(WriteNode \<times> WriteNode list) list"

record D1ReservedRelationGraphReceipt =
  gr_version :: u8
  gr_operation :: string
  gr_target_key_sha256 :: string
  gr_catalog_snapshot_sha256 :: string
  gr_catalog_projection_version :: u8
  gr_catalog_row_count :: usize
  gr_configured_reserved_root_count :: usize
  gr_automatic_reserved_root_count :: usize
  gr_total_reserved_root_count :: usize
  gr_reserved_root_set_sha256 :: string
  gr_relation_count :: usize
  gr_table_count :: usize
  gr_view_count :: usize
  gr_trigger_fact_count :: usize
  gr_trigger_owned_relation_count :: usize
  gr_schema_auxiliary_fact_count :: usize
  gr_foreign_key_fact_count :: usize
  gr_foreign_key_group_count :: usize
  gr_autoincrement_relation_count :: usize
  gr_graph_node_count :: usize
  gr_graph_edge_count :: usize
  gr_allow_count :: usize
  gr_deny_reserved_reachable_count :: usize
  gr_deny_trigger_effects_unproven_count :: usize
  gr_deny_view_write_semantics_unproven_count :: usize
  gr_graph_sha256 :: string
  gr_decision_sha256 :: string

record D1ReservedRelationGraphProduct =
  gprod_receipt :: D1ReservedRelationGraphReceipt
  gprod_decisions :: "(WriteNode \<times> D1ReservedRelationDecision) list"

datatype D1ReservedRelationGraphClassification =
    CatalogProductMismatch
  | CatalogProjectionUnsupported
  | CatalogFactBlocked
  | CatalogFactUnsupported
  | CatalogTextInvalid
  | CatalogReferenceMissing
  | ReservedRootInvalid
  | ReservedRootDuplicate
  | ReservedRootAbsent
  | AutoincrementEvidenceUnsupported
  | CompoundWriteUnsupported
  | GraphLimitExceeded

type_synonym D1ReservedRelationGraphError = "D1ReservedRelationGraphClassification classified_error"
type_synonym 'a graph_result = "D1ReservedRelationGraphError failure + 'a"

section \<open>Errors\<close>

definition graph_error ::
  "D1ReservedRelationGraphClassification \<Rightarrow> string \<Rightarrow> D1ReservedRelationGraphError failure" where
  "graph_error classification message =
     Err (ClassifiedError ''d1.reserved_relation_graph_unproven'' classification message)"

definition blocked_fact :: "D1ReservedRelationGraphError failure" where
  "blocked_fact = graph_error CatalogFactBlocked
     ''structured catalog contained conservative blocker evidence''"

definition unsupported_fact :: "D1ReservedRelationGraphError failure" where
  "unsupported_fact = graph_error CatalogFactUnsupported
     ''structured catalog fact was unsupported by the closed graph contract''"

definition invalid_catalog_text :: "D1ReservedRelationGraphError failure" where
  "invalid_catalog_text = graph_error CatalogTextInvalid
     ''structured catalog bytes were not bounded canonical text''"

definition missing_reference :: "D1ReservedRelationGraphError failure" where
  "missing_reference = graph_error CatalogReferenceMissing
     ''structured graph reference was absent from the verified relation set''"

definition graph_limit :: "D1ReservedRelationGraphError failure" where
  "graph_limit = graph_error GraphLimitExceeded
     ''reserved-relation graph exceeded an exact local bound''"

definition checked_increment :: "usize \<Rightarrow> usize graph_result" where
  "checked_increment n = ok_or graph_limit (checked_add n 1)"

section \<open>Statement forms\<close>

fun required_relation_write_operations ::
  "D1WriteOperationForm \<Rightarrow> D1RelationWriteOperation list graph_result" where
  "required_relation_write_operations InsertForm = Inr [Insert]"
| "required_relation_write_operations UpdateForm = Inr [Update]"
| "required_relation_write_operations DeleteForm = Inr [Delete]"
| "required_relation_write_operations Replace = Inr [Delete, Insert]"
| "required_relation_write_operations InsertOrReplace = Inr [Delete, Insert]"
| "required_relation_write_operations UpsertDoUpdate = Inr [Insert, Update]"
| "required_relation_write_operations UpdateOrReplace = Inr [Update, Delete]"
| "required_relation_write_operations UnsupportedCompound =
     Inl (graph_error CompoundWriteUnsupported
       ''compound D1 write form is outside the closed primitive expansion contract'')"

section \<open>Text\<close>

definition upper_hex_nibble :: "char \<Rightarrow> nat option" where
  "upper_hex_nibble b =
     (if byte_in (CHR ''0'') (CHR ''9'') b then Some (byte b - 48)
      else if byte_in (CHR ''A'') (CHR ''F'') b then Some (byte b - 65 + 10)
      else None)"

fun graph_decode_pairs :: "string \<Rightarrow> bytes graph_result" where
  "graph_decode_pairs (h # l # rest) =
     (case upper_hex_nibble h of None \<Rightarrow> Inl invalid_catalog_text
      | Some high \<Rightarrow> (case upper_hex_nibble l of None \<Rightarrow> Inl invalid_catalog_text
      | Some low \<Rightarrow> ok_then (graph_decode_pairs rest) (\<lambda>decoded.
          Inr (char_of (16 * high + low) # decoded))))"
| "graph_decode_pairs _ = Inr []"

definition graph_decode_upper_hex :: "string \<Rightarrow> bytes graph_result" where
  "graph_decode_upper_hex v =
     (if length v mod 2 \<noteq> 0 then Inl invalid_catalog_text else graph_decode_pairs v)"

definition canonical_identity :: "string \<Rightarrow> string graph_result" where
  "canonical_identity v =
     (if length v > 255 \<or> \<not> list_all (byte_in (CHR '' '') (CHR ''~'')) v
      then Inl invalid_catalog_text
      else Inr (to_ascii_lowercase v))"

text \<open>The bytes are ASCII when \<open>String::from_utf8\<close> sees them, so its error branch is dead.\<close>

definition identity_from_hex :: "string \<Rightarrow> bool \<Rightarrow> string graph_result" where
  "identity_from_hex v empty_allowed =
     ok_then (graph_decode_upper_hex v) (\<lambda>bytes.
     if (\<not> empty_allowed \<and> bytes = []) \<or> length bytes > 255 \<or>
       \<not> list_all (byte_in (CHR '' '') (CHR ''~'')) bytes
     then Inl invalid_catalog_text
     else Inr (to_ascii_lowercase bytes))"

definition exact_text_from_hex :: "string \<Rightarrow> string graph_result" where
  "exact_text_from_hex v =
     ok_then (graph_decode_upper_hex v) (\<lambda>bytes.
     if bytes = [] \<or> \<not> list_all is_ascii bytes then Inl invalid_catalog_text else Inr bytes)"

definition is_automatic_reserved :: "string \<Rightarrow> bool" where
  "is_automatic_reserved identity \<longleftrightarrow>
     starts_with identity ''sqlite_'' \<or> starts_with identity ''_cf_''"

definition contains_autoincrement_token :: "bytes \<Rightarrow> bool" where
  "contains_autoincrement_token source =
     (let TOKEN = ''AUTOINCREMENT'' in
      list_ex (\<lambda>window. list_all (\<lambda>(actual, expected). to_ascii_upper actual = expected)
        (zip window TOKEN)) (windows (length TOKEN) source))"

definition table_token_source :: "D1CatalogProjectionRow \<Rightarrow> bytes graph_result" where
  "table_token_source row =
     (if schema_sql_storage_class row \<noteq> ''text'' \<or> table_sql_token_source_is_null row \<noteq> 0 \<or>
        table_sql_token_source_hex row = []
      then Inl blocked_fact
      else ok_then (graph_decode_upper_hex (table_sql_token_source_hex row)) (\<lambda>source.
        if length source > D1_CATALOG_TABLE_SQL_TOKEN_SOURCE_BYTE_CAP
        then Inl (graph_error AutoincrementEvidenceUnsupported
          ''table token source exceeded the exact local classification bound'')
        else Inr source))"

definition decision_for ::
  "D1ReservedRelationGraphProduct \<Rightarrow> string \<Rightarrow> D1RelationWriteOperation
    \<Rightarrow> D1ReservedRelationDecision option" where
  "decision_for p relation operation =
     (case result_ok (canonical_identity relation) of
        None \<Rightarrow> None
      | Some identity \<Rightarrow> map_of (gprod_decisions p) (WriteNode identity operation))"

section \<open>Inputs\<close>

definition validate_catalog_product ::
  "D1CatalogEvidenceReceipt \<Rightarrow> D1CatalogProjectionRow list \<Rightarrow> unit graph_result" where
  "validate_catalog_product receipt rows =
     (if cat_version receipt \<noteq> REQUIRED_CATALOG_VERSION \<or>
        cat_operation receipt \<noteq> D1_CATALOG_EVIDENCE_OPERATION \<or>
        cat_projection_version receipt \<noteq> REQUIRED_CATALOG_VERSION
      then Inl (graph_error CatalogProjectionUnsupported
        ''reserved graph requires the exact structured catalog projection version'')
      else if cat_catalog_row_count receipt \<noteq> length rows \<or>
        cat_schema_physical_row_count receipt \<noteq> schema_physical_count rows \<or>
        cat_relation_fact_count receipt \<noteq> fact_count ''relation'' rows \<or>
        cat_trigger_owner_fact_count receipt \<noteq> fact_count ''trigger_owner'' rows \<or>
        cat_schema_auxiliary_fact_count receipt \<noteq> fact_count ''schema_auxiliary'' rows \<or>
        cat_schema_blocker_fact_count receipt \<noteq> fact_count ''schema_blocker'' rows \<or>
        cat_foreign_key_fact_count receipt \<noteq> fact_count ''foreign_key'' rows \<or>
        cat_foreign_key_blocker_fact_count receipt \<noteq> fact_count ''foreign_key_blocker'' rows \<or>
        cat_conservative_blocker_count receipt \<noteq> blocker_count rows \<or>
        cat_stable_primary_observations receipt \<noteq> 2
      then Inl (graph_error CatalogProductMismatch
        ''verified catalog rows and aggregate receipt did not match'')
      else Inr ())"

definition reserved_root_step :: "string list \<Rightarrow> string \<Rightarrow> string list graph_result" where
  "reserved_root_step roots v =
     ok_then (map_err (\<lambda>_. graph_error ReservedRootInvalid
       ''a configured reserved root was not canonical bounded ASCII'') (canonical_identity v))
     (\<lambda>identity.
       if identity = [] \<or> is_automatic_reserved identity
       then Inl (graph_error ReservedRootInvalid
         ''automatic reserved families cannot be configured aliases'')
       else if identity \<in> set roots
       then Inl (graph_error ReservedRootDuplicate
         ''configured reserved roots collided under SQLite ASCII identity'')
       else Inr (bset_insert identity roots))"

definition normalize_reserved_roots :: "string list \<Rightarrow> string list graph_result" where
  "normalize_reserved_roots values =
     (if values = [] \<or> length values > MAX_CONFIGURED_RESERVED_ROOTS
      then Inl (graph_error ReservedRootInvalid
        ''configured reserved-root set was empty or exceeded its exact bound'')
      else try_fold reserved_root_step [] values)"

section \<open>Facts\<close>

text \<open>The mutable locals of the loop over the rows.\<close>

record graph_facts =
  relations :: "(string \<times> Relation) list"
  trigger_owners :: "string list"
  auxiliary_owners :: "string list"
  foreign_keys :: "((string \<times> int) \<times> ForeignKeyGroup) list"
  trigger_fact_count :: usize
  schema_auxiliary_fact_count :: usize
  foreign_key_fact_count :: usize

definition no_facts :: graph_facts where
  "no_facts = \<lparr>relations = [], trigger_owners = [], auxiliary_owners = [], foreign_keys = [],
     trigger_fact_count = 0, schema_auxiliary_fact_count = 0, foreign_key_fact_count = 0\<rparr>"

definition relation_of_row :: "D1CatalogProjectionRow \<Rightarrow> Relation graph_result" where
  "relation_of_row row =
     (if relation_type row = ''table'' then
        (if table_virtual_token_hit row \<noteq> 0 \<or> table_replace_token_hit row \<noteq> 0 \<or>
           conservative_blocker row \<noteq> []
         then Inl blocked_fact
         else ok_then (table_token_source row) (\<lambda>source.
           Inr \<lparr>rel_kind = Table, rel_autoincrement = contains_autoincrement_token source\<rparr>))
      else if relation_type row = ''view'' then
        (if conservative_blocker row \<noteq> ''view_write_semantics_unproven''
         then Inl unsupported_fact
         else Inr \<lparr>rel_kind = View, rel_autoincrement = False\<rparr>)
      else Inl unsupported_fact)"

definition group_of_row :: "D1CatalogProjectionRow \<Rightarrow> ForeignKeyGroup graph_result" where
  "group_of_row row =
     ok_then (identity_from_hex (relation_name_hex row) True) (\<lambda>child.
     ok_then (identity_from_hex (parent_name_hex row) True) (\<lambda>parent.
     ok_then (exact_text_from_hex (on_update_hex row)) (\<lambda>on_update.
     ok_then (exact_text_from_hex (on_delete_hex row)) (\<lambda>on_delete.
     ok_then (exact_text_from_hex (match_hex row)) (\<lambda>match_mode.
     Inr \<lparr>fk_child = child, fk_parent = parent, fk_on_update = on_update,
          fk_on_delete = on_delete, fk_match_mode = match_mode\<rparr>)))))"

text \<open>A repeated key must carry the same group.\<close>

definition insert_group ::
  "((string \<times> int) \<times> ForeignKeyGroup) list \<Rightarrow> string \<times> int \<Rightarrow> ForeignKeyGroup
    \<Rightarrow> ((string \<times> int) \<times> ForeignKeyGroup) list graph_result" where
  "insert_group groups key fk_group =
     (case map_of groups key of
        Some incumbent \<Rightarrow> (if incumbent \<noteq> fk_group then Inl unsupported_fact else Inr groups)
      | None \<Rightarrow> Inr (bmap_insert key fk_group groups))"

definition graph_row_step :: "graph_facts \<Rightarrow> D1CatalogProjectionRow \<Rightarrow> graph_facts graph_result" where
  "graph_row_step facts row =
     (if fact_kind row = ''relation'' then
        ok_then (identity_from_hex (relation_name_hex row) True) (\<lambda>identity.
        ok_then (relation_of_row row) (\<lambda>relation.
        if map_of (relations facts) identity \<noteq> None then Inl unsupported_fact
        else Inr (facts\<lparr>relations := bmap_insert identity relation (relations facts)\<rparr>)))
      else if fact_kind row = ''trigger_owner'' then
        (if relation_type row \<noteq> ''trigger'' \<or> conservative_blocker row \<noteq> ''trigger_effects_unproven''
         then Inl unsupported_fact
         else ok_then (identity_from_hex (owner_name_hex row) True) (\<lambda>owner.
         ok_then (checked_increment (trigger_fact_count facts)) (\<lambda>n.
         Inr (facts\<lparr>trigger_owners := trigger_owners facts @ [owner], trigger_fact_count := n\<rparr>))))
      else if fact_kind row = ''schema_auxiliary'' then
        (if relation_type row \<noteq> ''index'' \<or> conservative_blocker row \<noteq> []
         then Inl unsupported_fact
         else ok_then (identity_from_hex (owner_name_hex row) True) (\<lambda>owner.
         ok_then (checked_increment (schema_auxiliary_fact_count facts)) (\<lambda>n.
         Inr (facts\<lparr>auxiliary_owners := auxiliary_owners facts @ [owner],
                    schema_auxiliary_fact_count := n\<rparr>))))
      else if fact_kind row = ''foreign_key'' then
        (if conservative_blocker row \<noteq> [] then Inl blocked_fact
         else ok_then (group_of_row row) (\<lambda>group.
         ok_then (insert_group (foreign_keys facts) (fk_child group, foreign_key_id row) group) (\<lambda>fks.
         ok_then (checked_increment (foreign_key_fact_count facts)) (\<lambda>n.
         Inr (facts\<lparr>foreign_keys := fks, foreign_key_fact_count := n\<rparr>)))))
      else if fact_kind row \<in> {''schema_blocker'', ''foreign_key_blocker''} then Inl blocked_fact
      else Inl unsupported_fact)"

section \<open>Edges\<close>

text \<open>
  \<open>edges.get_mut(&source).expect("checked graph node").insert(target)\<close>: a panic where the lookup
  fails, and a changed target set where the target is new.
\<close>

definition add_edge ::
  "graph_edges \<times> usize \<Rightarrow> WriteNode \<Rightarrow> WriteNode \<Rightarrow> (graph_edges \<times> usize) graph_result" where
  "add_edge st source target =
     (let (edges, edge_count) = st in
      if map_of edges source = None \<or> map_of edges target = None then Inl missing_reference
      else case map_of edges source of
        None \<Rightarrow> Inl (Panic ''checked graph node'')
      | Some targets \<Rightarrow>
          (if target \<in> set targets then Inr (edges, edge_count)
           else ok_then (checked_increment edge_count) (\<lambda>count.
             if count > MAX_GRAPH_EDGES then Inl graph_limit
             else Inr (bmap_insert source (bset_insert target targets) edges, count))))"

definition child_operation ::
  "D1RelationWriteOperation \<Rightarrow> string \<Rightarrow> D1RelationWriteOperation option graph_result" where
  "child_operation parent_operation action =
     (if action \<in> {''NO ACTION'', ''RESTRICT''} then Inr None
      else if action = ''CASCADE'' then Inr (Some parent_operation)
      else if action \<in> {''SET NULL'', ''SET DEFAULT''} then Inr (Some Update)
      else Inl unsupported_fact)"

definition add_foreign_key_action ::
  "graph_edges \<times> usize \<Rightarrow> ForeignKeyGroup \<Rightarrow> D1RelationWriteOperation \<Rightarrow> string
    \<Rightarrow> (graph_edges \<times> usize) graph_result" where
  "add_foreign_key_action st foreign_key parent_operation action =
     ok_then (child_operation parent_operation action) (\<lambda>child_op.
     case child_op of
       None \<Rightarrow> Inr st
     | Some op \<Rightarrow> add_edge st (WriteNode (fk_parent foreign_key) parent_operation)
         (WriteNode (fk_child foreign_key) op))"

definition is_table :: "(string \<times> Relation) list \<Rightarrow> string \<Rightarrow> bool" where
  "is_table rels identity \<longleftrightarrow> map_option rel_kind (map_of rels identity) = Some Table"

definition foreign_key_step ::
  "(string \<times> Relation) list \<Rightarrow> graph_edges \<times> usize \<Rightarrow> ForeignKeyGroup
    \<Rightarrow> (graph_edges \<times> usize) graph_result" where
  "foreign_key_step rels st foreign_key =
     (if \<not> is_table rels (fk_child foreign_key) \<or> \<not> is_table rels (fk_parent foreign_key) \<or>
        fk_match_mode foreign_key \<notin> {''NONE'', ''SIMPLE'', ''PARTIAL'', ''FULL''}
      then Inl missing_reference
      else ok_then (add_foreign_key_action st foreign_key Update (fk_on_update foreign_key)) (\<lambda>st.
        add_foreign_key_action st foreign_key Delete (fk_on_delete foreign_key)))"

definition autoincrement_relations :: "(string \<times> Relation) list \<Rightarrow> string list" where
  "autoincrement_relations rels = bset_of (map fst (filter (\<lambda>(_, r). rel_autoincrement r) rels))"

definition add_autoincrement_edges ::
  "(string \<times> Relation) list \<Rightarrow> graph_edges \<times> usize \<Rightarrow> (graph_edges \<times> usize) graph_result" where
  "add_autoincrement_edges rels st =
     (if autoincrement_relations rels \<noteq> [] then
        (if \<not> is_table rels ''sqlite_sequence''
         then Inl (graph_error AutoincrementEvidenceUnsupported
           ''AUTOINCREMENT evidence lacked one physical sqlite_sequence table'')
         else try_fold (\<lambda>st relation.
           add_edge st (WriteNode relation Insert) (WriteNode ''sqlite_sequence'' Update))
           st (autoincrement_relations rels))
      else Inr st)"

definition initial_edges :: "string list \<Rightarrow> graph_edges" where
  "initial_edges keys =
     fold (\<lambda>relation. fold (\<lambda>operation. bmap_insert (WriteNode relation operation) []) ALL_operations) keys []"

section \<open>Traversal\<close>

text \<open>The inner loop over the targets of one node; the state is the queue and the visited set.\<close>

definition visit_target ::
  "graph_edges \<Rightarrow> WriteNode list \<times> WriteNode list \<Rightarrow> WriteNode
    \<Rightarrow> (WriteNode list \<times> WriteNode list) graph_result" where
  "visit_target edges st target =
     (let (queue, visited) = st in
      if map_of edges target = None then Inl missing_reference
      else if target \<in> set visited then Inr (queue, visited)
      else let visited' = bset_insert target visited in
        if length visited' > MAX_GRAPH_NODES \<or> length visited' > length edges then Inl graph_limit
        else Inr (queue @ [target], visited'))"

lemma length_bset_insert_new: "x \<notin> set s \<Longrightarrow> length (bset_insert x s) = Suc (length s)"
  by (induction x s rule: bset_insert.induct) auto

lemma visit_targets_progress:
  assumes "try_fold (visit_target edges) (queue, visited) targets = Inr (queue', visited')"
  shows "queue' = queue \<and> visited' = visited \<or>
    length visited < length visited' \<and> length visited' \<le> length edges"
proof -
  have "case st of (q, v) \<Rightarrow> q = queue \<and> v = visited \<or>
      length visited < length v \<and> length v \<le> length edges"
    if "try_fold (visit_target edges) (queue, visited) targets = Inr st" for st
    by (rule try_fold_invariant [OF that])
      (auto simp: visit_target_def Let_def length_bset_insert_new split: if_splits)
  from this [OF assms] show ?thesis by simp
qed

function traverse_loop ::
  "graph_edges \<Rightarrow> string list \<Rightarrow> string list \<Rightarrow> string list
    \<Rightarrow> WriteNode list \<Rightarrow> WriteNode list \<Rightarrow> bool \<Rightarrow> bool
    \<Rightarrow> D1ReservedRelationDecision graph_result" where
  "traverse_loop edges reserved_roots trigger_owned view_relations [] visited
     trigger_unproven view_unproven =
     Inr (if trigger_unproven then DenyTriggerEffectsUnproven
          else if view_unproven then DenyViewWriteSemanticsUnproven
          else Allow)"
| "traverse_loop edges reserved_roots trigger_owned view_relations (node # queue) visited
     trigger_unproven view_unproven =
     (if wn_relation node \<in> set reserved_roots then Inr DenyReservedReachable
      else case map_of edges node of
        None \<Rightarrow> Inl missing_reference
      | Some targets \<Rightarrow>
          (case try_fold (visit_target edges) (queue, visited) targets of
             Inl e \<Rightarrow> Inl e
           | Inr (queue', visited') \<Rightarrow>
               traverse_loop edges reserved_roots trigger_owned view_relations queue' visited'
                 (trigger_unproven \<or> wn_relation node \<in> set trigger_owned)
                 (view_unproven \<or> wn_relation node \<in> set view_relations)))"
  by pat_completeness auto
termination
proof (relation "measures [\<lambda>(edges, _, _, _, queue, visited, _, _). length edges - length visited,
    \<lambda>(_, _, _, _, queue, _, _, _). length queue]", goal_cases)
  case (2 edges reserved_roots trigger_owned view_relations node queue visited t v targets st queue' visited')
  then have "try_fold (visit_target edges) (queue, visited) targets = Inr (queue', visited')" by simp
  from visit_targets_progress [OF this] show ?case by auto
qed simp

definition traverse ::
  "WriteNode \<Rightarrow> graph_edges \<Rightarrow> string list \<Rightarrow> string list \<Rightarrow> string list
    \<Rightarrow> D1ReservedRelationDecision graph_result" where
  "traverse start edges reserved_roots trigger_owned_relations view_relations =
     traverse_loop edges reserved_roots trigger_owned_relations view_relations
       [start] [start] False False"

definition derive_decisions ::
  "graph_edges \<Rightarrow> string list \<Rightarrow> string list \<Rightarrow> string list
    \<Rightarrow> (WriteNode \<times> D1ReservedRelationDecision) list graph_result" where
  "derive_decisions edges reserved_roots trigger_owned view_relations =
     try_fold (\<lambda>decisions node. map_ok (\<lambda>d. bmap_insert node d decisions)
       (traverse node edges reserved_roots trigger_owned view_relations)) [] (map fst edges)"

definition decision_count ::
  "(WriteNode \<times> D1ReservedRelationDecision) list \<Rightarrow> D1ReservedRelationDecision \<Rightarrow> usize" where
  "decision_count decisions expected = length (filter (\<lambda>d. d = expected) (map snd decisions))"

section \<open>Derivation\<close>

fun ser_operation :: "D1RelationWriteOperation \<Rightarrow> ser" where
  "ser_operation Insert = SStr ''insert''"
| "ser_operation Update = SStr ''update''"
| "ser_operation Delete = SStr ''delete''"

fun ser_decision :: "D1ReservedRelationDecision \<Rightarrow> ser" where
  "ser_decision Allow = SStr ''allow''"
| "ser_decision DenyReservedReachable = SStr ''deny_reserved_reachable''"
| "ser_decision DenyTriggerEffectsUnproven = SStr ''deny_trigger_effects_unproven''"
| "ser_decision DenyViewWriteSemanticsUnproven = SStr ''deny_view_write_semantics_unproven''"

definition ser_node :: "WriteNode \<Rightarrow> ser" where
  "ser_node n = SStruct [(''relation'', SStr (wn_relation n)),
     (''operation'', ser_operation (wn_operation n))]"

definition ser_edges :: "graph_edges \<Rightarrow> ser" where
  "ser_edges edges = SSeq (map (\<lambda>(s, ts). SSeq [ser_node s, SSeq (map ser_node ts)]) edges)"

definition ser_decisions :: "(WriteNode \<times> D1ReservedRelationDecision) list \<Rightarrow> ser" where
  "ser_decisions ds = SSeq (map (\<lambda>(n, d). SSeq [ser_node n, ser_decision d]) ds)"

definition trigger_owned_of ::
  "(string \<times> Relation) list \<Rightarrow> string list \<Rightarrow> string list graph_result" where
  "trigger_owned_of rels owners = map_ok bset_of
     (try_map (\<lambda>owner. if map_of rels owner \<noteq> None then Inr owner else Inl missing_reference) owners)"

definition view_relations_of :: "(string \<times> Relation) list \<Rightarrow> string list" where
  "view_relations_of rels = bset_of (map fst (filter (\<lambda>(_, r). rel_kind r = View) rels))"

definition automatic_reserved_of :: "(string \<times> Relation) list \<Rightarrow> string list" where
  "automatic_reserved_of rels = bset_of (filter is_automatic_reserved (map fst rels))"

text \<open>The four sets and the edges the decisions are computed from.\<close>

record graph_parts =
  part_configured :: "string list"
  part_automatic :: "string list"
  part_trigger_owned :: "string list"
  part_facts :: graph_facts
  part_edges :: graph_edges
  part_edge_count :: usize

definition part_reserved :: "graph_parts \<Rightarrow> string list" where
  "part_reserved P = bset_of (bset_union (part_configured P) (part_automatic P))"

text \<open>The function body up to the loop that decides the nodes.\<close>

definition graph_parts_of ::
  "D1CatalogEvidenceReceipt \<Rightarrow> D1CatalogProjectionRow list \<Rightarrow> string list \<Rightarrow> graph_parts graph_result" where
  "graph_parts_of catalog_receipt rows configured_reserved_roots =
     ok_then (validate_catalog_product catalog_receipt rows) (\<lambda>_.
     ok_then (normalize_reserved_roots configured_reserved_roots) (\<lambda>configured_reserved.
     ok_then (try_fold graph_row_step no_facts rows) (\<lambda>facts.
     let rels = relations facts in
     if rels = [] \<or> length rels > MAX_RELATIONS then Inl graph_limit
     else if list_ex (\<lambda>owner. map_of rels owner = None) (auxiliary_owners facts)
     then Inl missing_reference
     else ok_then (trigger_owned_of rels (trigger_owners facts)) (\<lambda>trigger_owned.
     if list_ex (\<lambda>root. map_of rels root = None) configured_reserved
     then Inl (graph_error ReservedRootAbsent
       ''a configured reserved root was absent from verified relation facts'')
     else let edges = initial_edges (map fst rels) in
     if length edges > MAX_GRAPH_NODES then Inl graph_limit
     else ok_then (add_autoincrement_edges rels (edges, 0)) (\<lambda>st.
     ok_then (try_fold (foreign_key_step rels) st (map snd (foreign_keys facts)))
       (\<lambda>(edges, edge_count).
     Inr \<lparr>part_configured = configured_reserved, part_automatic = automatic_reserved_of rels,
          part_trigger_owned = trigger_owned, part_facts = facts,
          part_edges = edges, part_edge_count = edge_count\<rparr>))))))"

definition graph_receipt_of ::
  "env \<Rightarrow> D1CatalogEvidenceReceipt \<Rightarrow> graph_parts \<Rightarrow> (WriteNode \<times> D1ReservedRelationDecision) list
    \<Rightarrow> D1ReservedRelationGraphReceipt" where
  "graph_receipt_of E catalog_receipt P decisions =
     (let rels = relations (part_facts P);
          table_count = length (filter (\<lambda>r. rel_kind r = Table) (map snd rels))
      in \<lparr>gr_version = GRAPH_VERSION,
          gr_operation = D1_RESERVED_RELATION_GRAPH_OPERATION,
          gr_target_key_sha256 = cat_target_key_sha256 catalog_receipt,
          gr_catalog_snapshot_sha256 = cat_catalog_snapshot_sha256 catalog_receipt,
          gr_catalog_projection_version = cat_projection_version catalog_receipt,
          gr_catalog_row_count = cat_catalog_row_count catalog_receipt,
          gr_configured_reserved_root_count = length (part_configured P),
          gr_automatic_reserved_root_count = length (part_automatic P),
          gr_total_reserved_root_count = length (part_reserved P),
          gr_reserved_root_set_sha256 = hash_serialized E (SSeq (map SStr (part_reserved P))),
          gr_relation_count = length rels,
          gr_table_count = table_count,
          gr_view_count = length rels - table_count,
          gr_trigger_fact_count = trigger_fact_count (part_facts P),
          gr_trigger_owned_relation_count = length (part_trigger_owned P),
          gr_schema_auxiliary_fact_count = schema_auxiliary_fact_count (part_facts P),
          gr_foreign_key_fact_count = foreign_key_fact_count (part_facts P),
          gr_foreign_key_group_count = length (foreign_keys (part_facts P)),
          gr_autoincrement_relation_count = length (autoincrement_relations rels),
          gr_graph_node_count = length (part_edges P),
          gr_graph_edge_count = part_edge_count P,
          gr_allow_count = decision_count decisions Allow,
          gr_deny_reserved_reachable_count = decision_count decisions DenyReservedReachable,
          gr_deny_trigger_effects_unproven_count =
            decision_count decisions DenyTriggerEffectsUnproven,
          gr_deny_view_write_semantics_unproven_count =
            decision_count decisions DenyViewWriteSemanticsUnproven,
          gr_graph_sha256 = hash_serialized E (SSeq [ser_edges (part_edges P),
            SSeq (map SStr (part_trigger_owned P)), SSeq (map SStr (view_relations_of rels))]),
          gr_decision_sha256 = hash_serialized E (ser_decisions decisions)\<rparr>)"

definition derive_from_verified_parts ::
  "env \<Rightarrow> D1CatalogEvidenceReceipt \<Rightarrow> D1CatalogProjectionRow list \<Rightarrow> string list
    \<Rightarrow> D1ReservedRelationGraphProduct graph_result" where
  "derive_from_verified_parts E catalog_receipt rows configured_reserved_roots =
     ok_then (graph_parts_of catalog_receipt rows configured_reserved_roots) (\<lambda>P.
     ok_then (derive_decisions (part_edges P) (part_reserved P) (part_trigger_owned P)
       (view_relations_of (relations (part_facts P)))) (\<lambda>decisions.
     Inr \<lparr>gprod_receipt = graph_receipt_of E catalog_receipt P decisions,
          gprod_decisions = decisions\<rparr>))"

definition derive_d1_reserved_relation_graph ::
  "env \<Rightarrow> D1CatalogEvidenceProduct \<Rightarrow> string list \<Rightarrow> D1ReservedRelationGraphProduct graph_result" where
  "derive_d1_reserved_relation_graph E catalog configured_reserved_roots =
     derive_from_verified_parts E (cprod_receipt catalog) (cprod_rows catalog) configured_reserved_roots"

section \<open>The hex decoder\<close>

text \<open>This module's decoder checks the length first; on even lengths it is the catalog's.\<close>

lemma map_err_ok_then: "map_err g (ok_then r f) = ok_then (map_err g r) (\<lambda>x. map_err g (f x))"
  by (cases r) simp_all

lemma graph_decode_pairs_eq:
  "graph_decode_pairs v = map_err (\<lambda>_. invalid_catalog_text) (decode_upper_hex v)"
  by (induction v rule: graph_decode_pairs.induct)
    (auto simp: upper_hex_nibble_def hex_nibble_def map_err_ok_then split: option.splits)

interpretation graph_hex: hex_decoder graph_decode_upper_hex
proof
  fix b
  show "graph_decode_upper_hex (hex_bytes b) = Inr b"
    by (simp add: graph_decode_upper_hex_def graph_decode_pairs_eq length_hex_bytes catalog_hex.decode_hex_bytes)
next
  fix v
  assume v: "canonical_upper_hex v True"
  from catalog_hex.decode_canonical [OF v] obtain b where "decode_upper_hex v = Inr b" "v = hex_bytes b"
    by blast
  then show "\<exists>b. graph_decode_upper_hex v = Inr b \<and> v = hex_bytes b"
    by (simp add: graph_decode_upper_hex_def graph_decode_pairs_eq length_hex_bytes)
qed

section \<open>The traversal computes reachability\<close>

definition edge_relation :: "graph_edges \<Rightarrow> (WriteNode \<times> WriteNode) set" where
  "edge_relation edges = {(a, b). \<exists>targets. map_of edges a = Some targets \<and> b \<in> set targets}"

definition graph_nodes :: "graph_edges \<Rightarrow> WriteNode set" where
  "graph_nodes edges = fst ` set edges"

definition graph_closed :: "graph_edges \<Rightarrow> bool" where
  "graph_closed edges \<longleftrightarrow> edge_relation edges \<subseteq> UNIV \<times> graph_nodes edges \<and> length edges \<le> MAX_GRAPH_NODES"

text \<open>The decision as a property of the nodes that can be reached.\<close>

definition decision_of_reach ::
  "WriteNode set \<Rightarrow> string set \<Rightarrow> string set \<Rightarrow> string set \<Rightarrow> D1ReservedRelationDecision" where
  "decision_of_reach N reserved triggers views =
     (if wn_relation ` N \<inter> reserved \<noteq> {} then DenyReservedReachable
      else if wn_relation ` N \<inter> triggers \<noteq> {} then DenyTriggerEffectsUnproven
      else if wn_relation ` N \<inter> views \<noteq> {} then DenyViewWriteSemanticsUnproven
      else Allow)"

lemma graph_nodes_iff: "n \<in> graph_nodes edges \<longleftrightarrow> map_of edges n \<noteq> None"
  unfolding graph_nodes_def by (rule bmap_contains_iff [symmetric])

lemma visited_bound:
  assumes "bset_wf visited" and "set visited \<subseteq> graph_nodes edges"
  shows "length visited \<le> length edges"
proof -
  have "length visited = card (set visited)" using assms(1) by (rule bset.size_card)
  also have "\<dots> \<le> card (graph_nodes edges)"
    by (rule card_mono) (use assms(2) in \<open>simp_all add: graph_nodes_def\<close>)
  also have "\<dots> \<le> length edges"
    unfolding graph_nodes_def by (metis card_image_le card_length le_trans finite_set)
  finally show ?thesis .
qed

lemma visit_targets_total:
  assumes "bset_wf visited" and "set visited \<subseteq> graph_nodes edges" and "graph_closed edges"
    and "set targets \<subseteq> graph_nodes edges"
  shows "\<exists>new visited'. try_fold (visit_target edges) (queue, visited) targets = Inr (queue @ new, visited') \<and>
    bset_wf visited' \<and> set visited' = set visited \<union> set targets \<and>
    set new = set targets - set visited"
  using assms
proof (induction targets arbitrary: queue visited)
  case (Cons t ts)
  have key: "map_of edges t \<noteq> None" using Cons.prems(4) by (simp add: graph_nodes_iff)
  show ?case
  proof (cases "t \<in> set visited")
    case True
    then have "visit_target edges (queue, visited) t = Inr (queue, visited)"
      using key by (simp add: visit_target_def)
    with Cons.IH [of visited queue] Cons.prems True show ?thesis by (auto simp: insert_absorb)
  next
    case False
    let ?v = "bset_insert t visited"
    have wf: "bset_wf ?v" and sub: "set ?v \<subseteq> graph_nodes edges" using Cons.prems by simp_all
    from visited_bound [OF this] Cons.prems(3)
    have "length ?v \<le> length edges" "length ?v \<le> MAX_GRAPH_NODES" by (auto simp: graph_closed_def)
    then have "visit_target edges (queue, visited) t = Inr (queue @ [t], ?v)"
      using key False by (simp add: visit_target_def)
    with Cons.IH [OF wf sub, of "queue @ [t]"] Cons.prems False show ?thesis by fastforce
  qed
qed simp

lemma edge_relation_lookup: "map_of edges n = Some targets \<Longrightarrow> edge_relation edges `` {n} = set targets"
  by (auto simp: edge_relation_def)

text \<open>
  The loop invariant: the visited nodes are reachable and contain the start, the queue is a part of
  them, and the nodes already taken from the queue have all their targets visited and are the ones
  the flags speak about.
\<close>

definition traverse_inv ::
  "graph_edges \<Rightarrow> WriteNode \<Rightarrow> string set \<Rightarrow> string set \<Rightarrow> string set
    \<Rightarrow> WriteNode list \<Rightarrow> WriteNode list \<Rightarrow> WriteNode set \<Rightarrow> bool \<Rightarrow> bool \<Rightarrow> bool" where
  "traverse_inv edges start reserved triggers views queue visited processed t v \<longleftrightarrow>
     bset_wf visited \<and> set visited \<subseteq> graph_nodes edges \<and> start \<in> set visited \<and>
     set visited \<subseteq> (edge_relation edges)\<^sup>* `` {start} \<and>
     set visited = processed \<union> set queue \<and>
     edge_relation edges `` processed \<subseteq> set visited \<and>
     wn_relation ` processed \<inter> reserved = {} \<and>
     (t \<longleftrightarrow> wn_relation ` processed \<inter> triggers \<noteq> {}) \<and>
     (v \<longleftrightarrow> wn_relation ` processed \<inter> views \<noteq> {})"

lemma traverse_invD:
  assumes "traverse_inv edges start reserved triggers views queue visited processed t v"
  shows "bset_wf visited" and "set visited \<subseteq> graph_nodes edges" and "start \<in> set visited"
    and "set visited \<subseteq> (edge_relation edges)\<^sup>* `` {start}"
    and "set visited = processed \<union> set queue"
    and "edge_relation edges `` processed \<subseteq> set visited"
    and "wn_relation ` processed \<inter> reserved = {}"
    and "t \<longleftrightarrow> wn_relation ` processed \<inter> triggers \<noteq> {}"
    and "v \<longleftrightarrow> wn_relation ` processed \<inter> views \<noteq> {}"
  using assms unfolding traverse_inv_def by blast+

lemma traverse_inv_step:
  assumes inv: "traverse_inv edges start reserved triggers views (node # queue) visited processed t v"
    and free: "wn_relation node \<notin> reserved"
    and succ: "edge_relation edges `` {node} = T" and nodes: "T \<subseteq> graph_nodes edges"
    and visited': "bset_wf visited'" "set visited' = set visited \<union> T" "set new = T - set visited"
  shows "traverse_inv edges start reserved triggers views (queue @ new) visited'
    (insert node processed) (t \<or> wn_relation node \<in> triggers) (v \<or> wn_relation node \<in> views)"
proof -
  let ?R = "edge_relation edges"
  note reached = traverse_invD(4) [OF inv] and vis = traverse_invD(5) [OF inv]
    and closed = traverse_invD(6) [OF inv]
  have node: "node \<in> set visited" using vis by simp
  have reach: "T \<subseteq> ?R\<^sup>* `` {start}"
  proof
    fix x
    assume "x \<in> T"
    then have "(node, x) \<in> ?R" using succ by blast
    moreover have "(start, node) \<in> ?R\<^sup>*" using node reached by blast
    ultimately show "x \<in> ?R\<^sup>* `` {start}" by (blast intro: rtrancl_into_rtrancl)
  qed
  have sets: "set visited' = insert node processed \<union> set (queue @ new)"
    unfolding visited'(2) set_append visited'(3) vis by auto
  have sub: "set visited' \<subseteq> graph_nodes edges" "start \<in> set visited'"
    using traverse_invD(2,3) [OF inv] nodes unfolding visited'(2) by blast+
  have closed': "?R `` insert node processed \<subseteq> set visited'"
    using closed succ unfolding visited'(2) by blast
  have "wn_relation ` insert node processed \<inter> reserved = {}"
    "(t \<or> wn_relation node \<in> triggers) = (wn_relation ` insert node processed \<inter> triggers \<noteq> {})"
    "(v \<or> wn_relation node \<in> views) = (wn_relation ` insert node processed \<inter> views \<noteq> {})"
    using traverse_invD(7-9) [OF inv] free by auto
  moreover have "set visited' \<subseteq> ?R\<^sup>* `` {start}"
    unfolding visited'(2) using reach reached by blast
  ultimately show ?thesis
    unfolding traverse_inv_def using visited'(1) sub sets closed' by blast
qed

lemma traverse_inv_done:
  assumes inv: "traverse_inv edges start reserved triggers views [] visited processed t v"
  shows "decision_of_reach ((edge_relation edges)\<^sup>* `` {start}) reserved triggers views =
    (if t then DenyTriggerEffectsUnproven else if v then DenyViewWriteSemanticsUnproven else Allow)"
proof -
  have vis: "set visited = processed" using traverse_invD(5) [OF inv] by simp
  note start = traverse_invD(3) [OF inv, unfolded vis]
    and reached = traverse_invD(4) [OF inv, unfolded vis]
    and closed = traverse_invD(6) [OF inv, unfolded vis]
  have "(edge_relation edges)\<^sup>* `` processed = processed" by (rule Image_closed_trancl [OF closed])
  with start reached have "(edge_relation edges)\<^sup>* `` {start} = processed" by blast
  then show ?thesis
    using inv by (simp add: traverse_inv_def decision_of_reach_def)
qed

lemma traverse_loop_correct:
  assumes "graph_closed edges"
    and "traverse_inv edges start (set reserved) (set triggers) (set views) queue visited processed t v"
  shows "traverse_loop edges reserved triggers views queue visited t v =
    Inr (decision_of_reach ((edge_relation edges)\<^sup>* `` {start}) (set reserved) (set triggers) (set views))"
  using assms
proof (induction edges reserved triggers views queue visited t v arbitrary: processed
    rule: traverse_loop.induct)
  case (1 edges reserved triggers views visited t v)
  show ?case by (simp add: traverse_inv_done [OF "1.prems"(2)])
next
  case (2 edges reserved triggers views node queue visited t v)
  note inv = traverse_invD [OF "2.prems"(2)]
  have node: "node \<in> set visited" using inv(5) by simp
  show ?case
  proof (cases "wn_relation node \<in> set reserved")
    case True
    have "node \<in> (edge_relation edges)\<^sup>* `` {start}" using node inv(4) by blast
    with True have "wn_relation ` ((edge_relation edges)\<^sup>* `` {start}) \<inter> set reserved \<noteq> {}" by blast
    with True show ?thesis by (simp add: decision_of_reach_def)
  next
    case False
    from node inv(2) have "node \<in> graph_nodes edges" by blast
    then obtain targets where targets: "map_of edges node = Some targets"
      by (auto simp: graph_nodes_iff)
    note succ = edge_relation_lookup [OF targets]
    then have nodes: "set targets \<subseteq> graph_nodes edges"
      using "2.prems"(1) unfolding graph_closed_def by blast
    obtain new visited' where
      step: "try_fold (visit_target edges) (queue, visited) targets = Inr (queue @ new, visited')"
      and visited': "bset_wf visited'" "set visited' = set visited \<union> set targets"
        "set new = set targets - set visited"
      using visit_targets_total [OF inv(1,2) "2.prems"(1) nodes, of queue] by blast
    note inv' = traverse_inv_step [OF "2.prems"(2) False succ nodes visited']
    from "2.IH" [OF False targets step refl "2.prems"(1) inv'] False targets step show ?thesis
      by simp
  qed
qed

lemma traverse_correct:
  assumes "graph_closed edges" and "start \<in> graph_nodes edges"
  shows "traverse start edges reserved triggers views =
    Inr (decision_of_reach ((edge_relation edges)\<^sup>* `` {start}) (set reserved) (set triggers) (set views))"
  unfolding traverse_def
  by (rule traverse_loop_correct [OF assms(1), where processed = "{}"])
    (use assms(2) in \<open>simp add: traverse_inv_def bset_wf_def\<close>)

section \<open>The graph of the catalog's write effects\<close>

text \<open>
  What a write does beyond its own relation, read off the catalog rows: an INSERT into an
  AUTOINCREMENT table updates \<open>sqlite_sequence\<close>, an UPDATE or DELETE of a parent table runs the
  foreign-key actions on its children.
\<close>

inductive write_effect :: "D1CatalogProjectionRow list \<Rightarrow> WriteNode \<Rightarrow> WriteNode \<Rightarrow> bool"
  for rows :: "D1CatalogProjectionRow list" where
  autoincrement:
    "row \<in> set rows \<Longrightarrow> fact_kind row = ''relation'' \<Longrightarrow>
     identity_from_hex (relation_name_hex row) True = Inr r \<Longrightarrow>
     relation_of_row row = Inr R \<Longrightarrow> rel_autoincrement R \<Longrightarrow>
     write_effect rows (WriteNode r Insert) (WriteNode ''sqlite_sequence'' Update)"
| on_update:
    "row \<in> set rows \<Longrightarrow> fact_kind row = ''foreign_key'' \<Longrightarrow> group_of_row row = Inr g \<Longrightarrow>
     child_operation Update (fk_on_update g) = Inr (Some op) \<Longrightarrow>
     write_effect rows (WriteNode (fk_parent g) Update) (WriteNode (fk_child g) op)"
| on_delete:
    "row \<in> set rows \<Longrightarrow> fact_kind row = ''foreign_key'' \<Longrightarrow> group_of_row row = Inr g \<Longrightarrow>
     child_operation Delete (fk_on_delete g) = Inr (Some op) \<Longrightarrow>
     write_effect rows (WriteNode (fk_parent g) Delete) (WriteNode (fk_child g) op)"

definition relation_names :: "D1CatalogProjectionRow list \<Rightarrow> string set" where
  "relation_names rows = {r. \<exists>row \<in> set rows. fact_kind row = ''relation'' \<and>
     identity_from_hex (relation_name_hex row) True = Inr r}"

definition view_names :: "D1CatalogProjectionRow list \<Rightarrow> string set" where
  "view_names rows = {r. \<exists>row \<in> set rows. fact_kind row = ''relation'' \<and> relation_type row = ''view'' \<and>
     identity_from_hex (relation_name_hex row) True = Inr r}"

definition trigger_names :: "D1CatalogProjectionRow list \<Rightarrow> string set" where
  "trigger_names rows = {r. \<exists>row \<in> set rows. fact_kind row = ''trigger_owner'' \<and>
     identity_from_hex (owner_name_hex row) True = Inr r}"

definition reserved_names :: "D1CatalogProjectionRow list \<Rightarrow> string list \<Rightarrow> string set" where
  "reserved_names rows roots =
     to_ascii_lowercase ` set roots \<union> {r \<in> relation_names rows. is_automatic_reserved r}"

text \<open>What the loop over the rows has collected.\<close>

definition facts_inv :: "D1CatalogProjectionRow list \<Rightarrow> graph_facts \<Rightarrow> bool" where
  "facts_inv rows facts \<longleftrightarrow>
     bmap_wf (relations facts) \<and> bmap_wf (foreign_keys facts) \<and>
     (\<forall>r R. (r, R) \<in> set (relations facts) \<longleftrightarrow> (\<exists>row \<in> set rows. fact_kind row = ''relation'' \<and>
        identity_from_hex (relation_name_hex row) True = Inr r \<and> relation_of_row row = Inr R)) \<and>
     (\<forall>row \<in> set rows. fact_kind row = ''relation'' \<longrightarrow> (\<exists>R. relation_of_row row = Inr R)) \<and>
     set (trigger_owners facts) = trigger_names rows \<and>
     (\<forall>g. g \<in> snd ` set (foreign_keys facts) \<longleftrightarrow> (\<exists>row \<in> set rows. fact_kind row = ''foreign_key'' \<and>
        group_of_row row = Inr g))"

lemma insert_group_Inr:
  assumes "insert_group groups key g = Inr groups'" and "bmap_wf groups"
  shows "bmap_wf groups' \<and> snd ` set groups' = insert g (snd ` set groups)"
proof (cases "map_of groups key")
  case None
  with assms show ?thesis by (auto simp: insert_group_def set_bmap_insert_new)
next
  case (Some incumbent)
  with assms(1) have "incumbent = g" "groups' = groups"
    by (auto simp: insert_group_def split: if_splits)
  with Some assms(2) show ?thesis by (force dest: map_of_SomeD)
qed

lemma facts_inv_step:
  assumes inv: "facts_inv pre facts" and step: "graph_row_step facts row = Inr facts'"
  shows "facts_inv (pre @ [row]) facts'"
proof -
  from step consider
      (relation) r R where "fact_kind row = ''relation''"
        "identity_from_hex (relation_name_hex row) True = Inr r" "relation_of_row row = Inr R"
        "map_of (relations facts) r = None"
        "facts' = facts\<lparr>relations := bmap_insert r R (relations facts)\<rparr>"
    | (trigger) r n where "fact_kind row = ''trigger_owner''"
        "identity_from_hex (owner_name_hex row) True = Inr r"
        "facts' = facts\<lparr>trigger_owners := trigger_owners facts @ [r], trigger_fact_count := n\<rparr>"
    | (auxiliary) xs n where "fact_kind row = ''schema_auxiliary''"
        "facts' = facts\<lparr>auxiliary_owners := xs, schema_auxiliary_fact_count := n\<rparr>"
    | (key) g fks n where "fact_kind row = ''foreign_key''" "group_of_row row = Inr g"
        "insert_group (foreign_keys facts) (fk_child g, foreign_key_id row) g = Inr fks"
        "facts' = facts\<lparr>foreign_keys := fks, foreign_key_fact_count := n\<rparr>"
    by (auto simp: graph_row_step_def Let_def result_simps split: if_splits option.splits)
  then show ?thesis
  proof cases
    case relation
    then show ?thesis
      using inv by (auto simp: facts_inv_def trigger_names_def set_bmap_insert_new)
  next
    case trigger
    then show ?thesis using inv by (auto simp: facts_inv_def trigger_names_def)
  next
    case auxiliary
    then show ?thesis using inv by (auto simp: facts_inv_def trigger_names_def)
  next
    case key
    from insert_group_Inr [OF key(3)] inv
    have "bmap_wf fks" "snd ` set fks = insert g (snd ` set (foreign_keys facts))"
      by (simp_all add: facts_inv_def)
    with key inv show ?thesis by (auto simp: facts_inv_def trigger_names_def)
  qed
qed

lemma facts_inv_rows:
  assumes "try_fold graph_row_step no_facts rows = Inr facts"
  shows "facts_inv rows facts"
proof (rule try_fold_prefix_invariant [OF assms])
  show "facts_inv [] no_facts" by (simp add: facts_inv_def no_facts_def trigger_names_def)
qed (rule facts_inv_step)

end
