(* ===== verification/D1_Graph_Sound.thy ===== *)
theory D1_Graph_Sound
  imports D1_Graph
begin

text \<open>
  The decisions of \<open>D1_Graph\<close> against the write effects the catalog describes: the edges the
  code builds are exactly \<open>write_effect\<close>, so each decision is the one its reachable nodes
  demand, and an allowed write reaches no reserved relation, trigger or view.
\<close>

section \<open>Edge construction\<close>

lemma add_edge_spec:
  assumes "add_edge (edges, n) s t = Inr (edges', n')" and "bmap_wf edges"
  shows "bmap_wf edges'" and "map fst edges' = map fst edges"
    and "edge_relation edges' = insert (s, t) (edge_relation edges)"
    and "s \<in> graph_nodes edges" and "t \<in> graph_nodes edges"
proof -
  from assms(1) obtain targets where s: "map_of edges s = Some targets" and t: "map_of edges t \<noteq> None"
    and upd: "t \<in> set targets \<and> edges' = edges \<or> edges' = bmap_insert s (bset_insert t targets) edges"
    by (auto simp: add_edge_def Let_def result_simps split: if_splits)
  show "s \<in> graph_nodes edges" "t \<in> graph_nodes edges" using s t by (simp_all add: graph_nodes_iff)
  from upd show "bmap_wf edges'" using assms(2) by auto
  from upd show "map fst edges' = map fst edges"
    using assms(2) s by (auto simp: length_bmap_insert_old)
  from upd show "edge_relation edges' = insert (s, t) (edge_relation edges)"
    using s assms(2) by (auto simp: edge_relation_def map_of_bmap_insert split: if_splits)
qed

text \<open>One graph extends another by a set of edges, on the same nodes.\<close>

definition extends_by :: "graph_edges \<Rightarrow> (WriteNode \<times> WriteNode) set \<Rightarrow> graph_edges \<Rightarrow> bool" where
  "extends_by edges new edges' \<longleftrightarrow>
     bmap_wf edges' \<and> map fst edges' = map fst edges \<and>
     edge_relation edges' = new \<union> edge_relation edges \<and> new \<subseteq> UNIV \<times> graph_nodes edges"

lemma extends_by_refl: "bmap_wf edges \<Longrightarrow> extends_by edges {} edges"
  by (simp add: extends_by_def)

lemma graph_nodes_eq: "map fst edges' = map fst edges \<Longrightarrow> graph_nodes edges' = graph_nodes edges"
  unfolding graph_nodes_def by (metis list.set_map)

lemma extends_by_trans:
  "extends_by edges A edges' \<Longrightarrow> extends_by edges' B edges'' \<Longrightarrow> extends_by edges (A \<union> B) edges''"
  unfolding extends_by_def using graph_nodes_eq [of edges' edges] by auto

lemma add_edge_extends:
  "add_edge (edges, n) s t = Inr (edges', n') \<Longrightarrow> bmap_wf edges \<Longrightarrow> extends_by edges {(s, t)} edges'"
  using add_edge_spec [of edges n s t edges' n'] by (auto simp: extends_by_def)

lemma extends_by_closed:
  assumes "extends_by edges A edges'" and "graph_closed edges"
  shows "graph_closed edges'"
proof -
  have "graph_nodes edges' = graph_nodes edges" "length edges' = length edges"
    using assms(1) graph_nodes_eq [of edges' edges] by (auto simp: extends_by_def dest: map_eq_imp_length_eq)
  then show ?thesis using assms by (auto simp: graph_closed_def extends_by_def)
qed

text \<open>The edges a foreign-key group and an AUTOINCREMENT relation stand for.\<close>

definition action_edges ::
  "ForeignKeyGroup \<Rightarrow> D1RelationWriteOperation \<Rightarrow> string \<Rightarrow> (WriteNode \<times> WriteNode) set" where
  "action_edges g parent_operation action =
     {(WriteNode (fk_parent g) parent_operation, WriteNode (fk_child g) op) | op.
        child_operation parent_operation action = Inr (Some op)}"

definition group_edges :: "ForeignKeyGroup \<Rightarrow> (WriteNode \<times> WriteNode) set" where
  "group_edges g = action_edges g Update (fk_on_update g) \<union> action_edges g Delete (fk_on_delete g)"

definition sequence_edge :: "string \<Rightarrow> WriteNode \<times> WriteNode" where
  "sequence_edge r = (WriteNode r Insert, WriteNode ''sqlite_sequence'' Update)"

lemma add_action_extends:
  assumes "add_foreign_key_action (edges, n) g op action = Inr (edges', n')" and "bmap_wf edges"
  shows "extends_by edges (action_edges g op action) edges'"
proof -
  from assms(1) obtain c where c: "child_operation op action = Inr c"
    and r: "(case c of None \<Rightarrow> Inr (edges, n) | Some p \<Rightarrow>
      add_edge (edges, n) (WriteNode (fk_parent g) op) (WriteNode (fk_child g) p)) = Inr (edges', n')"
    by (auto simp: add_foreign_key_action_def result_simps)
  show ?thesis
  proof (cases c)
    case None
    with c r assms(2) show ?thesis by (simp add: action_edges_def extends_by_refl)
  next
    case (Some p)
    with c have "action_edges g op action =
        {(WriteNode (fk_parent g) op, WriteNode (fk_child g) p)}"
      by (auto simp: action_edges_def)
    with Some r assms(2) show ?thesis by (simp add: add_edge_extends)
  qed
qed

lemma foreign_key_step_extends:
  assumes "foreign_key_step rels (edges, n) g = Inr (edges', n')" and "bmap_wf edges"
  shows "extends_by edges (group_edges g) edges'"
proof -
  from assms(1) obtain e1 n1 where
    1: "add_foreign_key_action (edges, n) g Update (fk_on_update g) = Inr (e1, n1)"
    and 2: "add_foreign_key_action (e1, n1) g Delete (fk_on_delete g) = Inr (edges', n')"
    by (auto simp: foreign_key_step_def result_simps split: if_splits)
  have e1: "extends_by edges (action_edges g Update (fk_on_update g)) e1"
    using 1 assms(2) by (rule add_action_extends)
  then have "bmap_wf e1" by (simp add: extends_by_def)
  from extends_by_trans [OF e1 add_action_extends [OF 2 this]]
  show ?thesis by (simp add: group_edges_def)
qed

text \<open>A loop of steps that each add a set of edges adds their union.\<close>

lemma extends_by_fold:
  assumes "try_fold f (edges, n) xs = Inr (edges', n')" and "bmap_wf edges"
    and step: "\<And>e m x e' m'. x \<in> set xs \<Longrightarrow> f (e, m) x = Inr (e', m') \<Longrightarrow> bmap_wf e \<Longrightarrow>
      extends_by e (new x) e'"
  shows "extends_by edges (\<Union> (new ` set xs)) edges'"
proof -
  have "case st of (e, m) \<Rightarrow> extends_by edges (\<Union> (new ` set xs)) e"
    if "try_fold f (edges, n) xs = Inr st" for st
  proof (rule try_fold_prefix_invariant [OF that,
      where P = "\<lambda>pre st. case st of (e, m) \<Rightarrow> extends_by edges (\<Union> (new ` set pre)) e"])
    show "case (edges, n) of (e, m) \<Rightarrow> extends_by edges (\<Union> (new ` set [])) e"
      using assms(2) by (simp add: extends_by_refl)
  next
    fix pre x s s'
    assume pre: "case s of (e, m) \<Rightarrow> extends_by edges (\<Union> (new ` set pre)) e"
      and x: "x \<in> set xs" and fx: "f s x = Inr s'"
    obtain e m e' m' where s: "s = (e, m)" "s' = (e', m')" by (cases s, cases s')
    with pre have ext: "extends_by edges (\<Union> (new ` set pre)) e" by simp
    then have "bmap_wf e" by (simp add: extends_by_def)
    with x fx s have "extends_by e (new x) e'" by (auto intro: step)
    from extends_by_trans [OF ext this] s
    show "case s' of (e, m) \<Rightarrow> extends_by edges (\<Union> (new ` set (pre @ [x]))) e"
      by (simp add: Un_commute)
  qed
  from this [OF assms(1)] show ?thesis by simp
qed

lemma autoincrement_extends:
  assumes "add_autoincrement_edges rels (edges, n) = Inr (edges', n')" and "bmap_wf edges"
  shows "extends_by edges (sequence_edge ` set (autoincrement_relations rels)) edges'"
proof (cases "autoincrement_relations rels = []")
  case True
  with assms show ?thesis by (simp add: add_autoincrement_edges_def extends_by_refl)
next
  case False
  with assms(1) have "try_fold (\<lambda>st relation.
      add_edge st (WriteNode relation Insert) (WriteNode ''sqlite_sequence'' Update))
      (edges, n) (autoincrement_relations rels) = Inr (edges', n')"
    by (simp add: add_autoincrement_edges_def split: if_splits)
  from extends_by_fold [OF this assms(2), where new = "\<lambda>r. {sequence_edge r}"]
  show ?thesis by (simp add: add_edge_extends sequence_edge_def UNION_singleton_eq_range)
qed

section \<open>The initial nodes\<close>

definition node_list :: "string list \<Rightarrow> WriteNode list" where
  "node_list keys = concat (map (\<lambda>r. map (WriteNode r) ALL_operations) keys)"

lemma initial_edges_fold: "initial_edges keys = fold (\<lambda>n. bmap_insert n []) (node_list keys) []"
proof -
  have "fold (\<lambda>relation. fold (\<lambda>operation. bmap_insert (WriteNode relation operation) []) ALL_operations) keys m
      = fold (\<lambda>n. bmap_insert n []) (node_list keys) m" for m :: graph_edges
    by (induction keys arbitrary: m) (simp_all add: node_list_def fold_map o_def)
  then show ?thesis by (simp add: initial_edges_def)
qed

lemma set_node_list: "set (node_list keys) = {n. wn_relation n \<in> set keys}"
proof -
  have "op \<in> set ALL_operations" for op by (cases op) (simp_all add: ALL_operations_def)
  then have "n \<in> set (node_list keys) \<longleftrightarrow> wn_relation n \<in> set keys" for n
    by (cases n) (auto simp: node_list_def)
  then show ?thesis by blast
qed

lemma distinct_node_list: "distinct keys \<Longrightarrow> distinct (node_list keys)"
  by (induction keys) (auto simp: node_list_def ALL_operations_def)

lemma length_node_list: "length (node_list keys) = 3 * length keys"
  by (induction keys) (simp_all add: node_list_def ALL_operations_def)

lemma initial_edges_wf: "bmap_wf (initial_edges keys)"
  unfolding initial_edges_fold
  using bmap.invar_fold [of "[]" "\<lambda>n. n" "\<lambda>_. []" "node_list keys"] by simp

lemma initial_edges_lookup:
  "map_of (initial_edges keys) n = (if wn_relation n \<in> set keys then Some [] else None)"
  unfolding initial_edges_fold
  using bmap.get_fold [of "[]" "\<lambda>_. [] :: WriteNode list" "node_list keys" n] by (simp add: set_node_list)

lemma initial_edges_nodes: "graph_nodes (initial_edges keys) = {n. wn_relation n \<in> set keys}"
  by (auto simp: graph_nodes_iff initial_edges_lookup split: if_splits)

lemma initial_edges_relation: "edge_relation (initial_edges keys) = {}"
  by (auto simp: edge_relation_def initial_edges_lookup split: if_splits)

lemma initial_edges_length:
  assumes "distinct keys"
  shows "length (initial_edges keys) = 3 * length keys"
proof -
  have "length (initial_edges keys) = card (set (map fst (initial_edges keys)))"
    using distinct_card [OF bmap_wf_distinct [OF initial_edges_wf]] by simp
  also have "set (map fst (initial_edges keys)) = set (node_list keys)"
    using initial_edges_nodes [of keys] by (simp add: graph_nodes_def set_node_list)
  also have "card \<dots> = 3 * length keys"
    by (simp add: distinct_card distinct_node_list assms length_node_list)
  finally show ?thesis .
qed

section \<open>The parts of the graph\<close>

lemma canonical_identity_eq_Inr:
  "canonical_identity v = Inr x \<Longrightarrow> x = to_ascii_lowercase v"
  by (simp add: canonical_identity_def split: if_splits)

lemma normalized_roots:
  assumes "normalize_reserved_roots roots = Inr R"
  shows "bset_wf R \<and> set R = to_ascii_lowercase ` set roots"
proof -
  from assms have "try_fold reserved_root_step [] roots = Inr R"
    by (simp add: normalize_reserved_roots_def split: if_splits)
  then show ?thesis
    by (rule try_fold_prefix_invariant)
      (auto simp: reserved_root_step_def result_simps dest!: canonical_identity_eq_Inr split: if_splits)
qed

lemma trigger_owned_set:
  assumes "trigger_owned_of rels owners = Inr T"
  shows "set T = set owners"
proof -
  let ?f = "\<lambda>owner. if map_of rels owner \<noteq> None then Inr owner else Inl missing_reference"
  from assms obtain xs where T: "T = bset_of xs" and all: "list_all2 (\<lambda>x y. ?f x = Inr y) owners xs"
    by (auto simp: trigger_owned_of_def result_simps try_map_eq_Inr)
  have "list_all2 (=) owners xs"
    using all by (rule list_all2_mono) (simp split: if_splits)
  with T show ?thesis by (simp add: list.rel_eq)
qed

lemma autoincrement_relations_facts:
  assumes "facts_inv rows facts"
  shows "r \<in> set (autoincrement_relations (relations facts)) \<longleftrightarrow>
    (\<exists>row R. row \<in> set rows \<and> fact_kind row = ''relation'' \<and>
       identity_from_hex (relation_name_hex row) True = Inr r \<and> relation_of_row row = Inr R \<and>
       rel_autoincrement R)"
proof -
  have "r \<in> set (autoincrement_relations (relations facts)) \<longleftrightarrow>
      (\<exists>R. (r, R) \<in> set (relations facts) \<and> rel_autoincrement R)"
    by (force simp: autoincrement_relations_def)
  with assms show ?thesis unfolding facts_inv_def by blast
qed

lemma effect_edges:
  assumes "facts_inv rows facts"
  shows "sequence_edge ` set (autoincrement_relations (relations facts)) \<union>
    \<Union> (group_edges ` set (map snd (foreign_keys facts))) = {(a, b). write_effect rows a b}"
proof -
  have groups: "g \<in> set (map snd (foreign_keys facts)) \<longleftrightarrow>
      (\<exists>row \<in> set rows. fact_kind row = ''foreign_key'' \<and> group_of_row row = Inr g)" for g
    using assms by (simp add: facts_inv_def)
  have "(a, b) \<in> sequence_edge ` set (autoincrement_relations (relations facts)) \<union>
      \<Union> (group_edges ` set (map snd (foreign_keys facts))) \<longleftrightarrow> write_effect rows a b" for a b
  proof
    assume "write_effect rows a b"
    then show "(a, b) \<in> sequence_edge ` set (autoincrement_relations (relations facts)) \<union>
      \<Union> (group_edges ` set (map snd (foreign_keys facts)))"
    proof cases
      case (autoincrement row r R)
      then have "r \<in> set (autoincrement_relations (relations facts))"
        unfolding autoincrement_relations_facts [OF assms] by blast
      with autoincrement show ?thesis by (auto simp: sequence_edge_def)
    next
      case (on_update row g op)
      then have "g \<in> set (map snd (foreign_keys facts))" unfolding groups by blast
      with on_update show ?thesis by (fastforce simp: group_edges_def action_edges_def)
    next
      case (on_delete row g op)
      then have "g \<in> set (map snd (foreign_keys facts))" unfolding groups by blast
      with on_delete show ?thesis by (fastforce simp: group_edges_def action_edges_def)
    qed
  next
    assume "(a, b) \<in> sequence_edge ` set (autoincrement_relations (relations facts)) \<union>
      \<Union> (group_edges ` set (map snd (foreign_keys facts)))"
    then consider (seq) r where "r \<in> set (autoincrement_relations (relations facts))" "(a, b) = sequence_edge r"
      | (key) g where "g \<in> set (map snd (foreign_keys facts))" "(a, b) \<in> group_edges g"
      by blast
    then show "write_effect rows a b"
    proof cases
      case seq
      then show ?thesis
        unfolding autoincrement_relations_facts [OF assms] sequence_edge_def
        by (auto intro: write_effect.autoincrement)
    next
      case key
      then show ?thesis
        unfolding groups group_edges_def action_edges_def
        by (auto intro: write_effect.on_update write_effect.on_delete)
    qed
  qed
  then show ?thesis by auto
qed

lemma graph_parts_spec:
  assumes "graph_parts_of receipt rows roots = Inr P"
  shows "facts_inv rows (part_facts P)"
    and "validate_catalog_product receipt rows = Inr ()"
    and "normalize_reserved_roots roots = Inr (part_configured P)"
    and "part_automatic P = automatic_reserved_of (relations (part_facts P))"
    and "set (part_trigger_owned P) = trigger_names rows"
    and "length (relations (part_facts P)) \<le> MAX_RELATIONS"
    and "set (part_configured P) \<subseteq> fst ` set (relations (part_facts P))"
    and "extends_by (initial_edges (map fst (relations (part_facts P))))
      {(a, b). write_effect rows a b} (part_edges P)"
proof -
  from assms obtain facts trigger_owned configured e1 n1 e2 n2 where
    1: "validate_catalog_product receipt rows = Inr ()"
    and 2: "normalize_reserved_roots roots = Inr configured"
    and 3: "try_fold graph_row_step no_facts rows = Inr facts"
    and 4: "trigger_owned_of (relations facts) (trigger_owners facts) = Inr trigger_owned"
    and 5: "length (relations facts) \<le> MAX_RELATIONS"
    and 6: "\<not> list_ex (\<lambda>root. map_of (relations facts) root = None) configured"
    and 7: "add_autoincrement_edges (relations facts) (initial_edges (map fst (relations facts)), 0) = Inr (e1, n1)"
    and 8: "try_fold (foreign_key_step (relations facts)) (e1, n1) (map snd (foreign_keys facts)) = Inr (e2, n2)"
    and P: "P = \<lparr>part_configured = configured, part_automatic = automatic_reserved_of (relations facts),
          part_trigger_owned = trigger_owned, part_facts = facts,
          part_edges = e2, part_edge_count = n2\<rparr>"
    unfolding graph_parts_of_def Let_def
    by (auto simp: result_simps not_less split: if_splits)
  note inv = facts_inv_rows [OF 3]
  show "facts_inv rows (part_facts P)" using inv by (simp add: P)
  show "validate_catalog_product receipt rows = Inr ()" by (fact 1)
  show "normalize_reserved_roots roots = Inr (part_configured P)" by (simp add: 2 P)
  show "part_automatic P = automatic_reserved_of (relations (part_facts P))" by (simp add: P)
  show "length (relations (part_facts P)) \<le> MAX_RELATIONS" using 5 by (simp add: P)
  show "set (part_trigger_owned P) = trigger_names rows"
    using trigger_owned_set [OF 4] inv by (simp add: P facts_inv_def)
  show "set (part_configured P) \<subseteq> fst ` set (relations (part_facts P))"
    using 6 by (auto simp: P list_ex_iff bmap_contains_iff [symmetric])
  note e1 = autoincrement_extends [OF 7 initial_edges_wf]
  then have wf: "bmap_wf e1" by (simp add: extends_by_def)
  note e2 = extends_by_fold [OF 8 wf, where new = group_edges]
  have "extends_by e1 (\<Union> (group_edges ` set (map snd (foreign_keys facts)))) e2"
    by (rule e2) (rule foreign_key_step_extends)
  from extends_by_trans [OF e1 this]
  show "extends_by (initial_edges (map fst (relations (part_facts P))))
      {(a, b). write_effect rows a b} (part_edges P)"
    by (simp add: P effect_edges [OF inv, simplified])
qed

lemma facts_relations:
  assumes "facts_inv rows facts"
  shows "(r, R) \<in> set (relations facts) \<longleftrightarrow> (\<exists>row \<in> set rows. fact_kind row = ''relation'' \<and>
      identity_from_hex (relation_name_hex row) True = Inr r \<and> relation_of_row row = Inr R)"
    and "row \<in> set rows \<Longrightarrow> fact_kind row = ''relation'' \<Longrightarrow> \<exists>R. relation_of_row row = Inr R"
  using assms by (simp_all add: facts_inv_def)

lemma facts_relation_names:
  assumes "facts_inv rows facts"
  shows "fst ` set (relations facts) = relation_names rows"
proof -
  have "r \<in> fst ` set (relations facts) \<longleftrightarrow> r \<in> relation_names rows" for r
  proof -
    have "r \<in> fst ` set (relations facts) \<longleftrightarrow> (\<exists>R. (r, R) \<in> set (relations facts))" by force
    also have "\<dots> \<longleftrightarrow> r \<in> relation_names rows"
      unfolding facts_relations(1) [OF assms] relation_names_def
      using facts_relations(2) [OF assms] by fast
    finally show ?thesis .
  qed
  then show ?thesis by blast
qed

lemma relation_of_row_kind:
  "relation_of_row row = Inr R \<Longrightarrow> rel_kind R = View \<longleftrightarrow> relation_type row = ''view''"
  by (auto simp: relation_of_row_def result_simps split: if_splits)

lemma facts_view_names:
  assumes "facts_inv rows facts"
  shows "set (view_relations_of (relations facts)) = view_names rows"
proof -
  have "r \<in> set (view_relations_of (relations facts)) \<longleftrightarrow> r \<in> view_names rows" for r
  proof -
    have "r \<in> set (view_relations_of (relations facts)) \<longleftrightarrow>
        (\<exists>R. (r, R) \<in> set (relations facts) \<and> rel_kind R = View)"
      by (force simp: view_relations_of_def)
    also have "\<dots> \<longleftrightarrow> r \<in> view_names rows"
      unfolding facts_relations(1) [OF assms] view_names_def
      using facts_relations(2) [OF assms] relation_of_row_kind by fast
    finally show ?thesis .
  qed
  then show ?thesis by blast
qed

lemma graph_parts_sets:
  assumes "graph_parts_of receipt rows roots = Inr P"
  shows "set (part_reserved P) = reserved_names rows roots"
    and "graph_nodes (part_edges P) = {n. wn_relation n \<in> relation_names rows}"
    and "edge_relation (part_edges P) = {(a, b). write_effect rows a b}"
    and "graph_closed (part_edges P)" and "bmap_wf (part_edges P)"
    and "length (part_edges P) = 3 * length (relations (part_facts P))"
proof -
  let ?rels = "relations (part_facts P)"
  note spec = graph_parts_spec [OF assms]
  note names = facts_relation_names [OF spec(1)] and roots = normalized_roots [OF spec(3)]
  note ext = spec(8)
  have dist: "distinct (map fst ?rels)"
    using spec(1) by (simp add: facts_inv_def bmap_wf_distinct)
  have "set (part_automatic P) = {r \<in> relation_names rows. is_automatic_reserved r}"
    using names by (auto simp: spec(4) automatic_reserved_of_def)
  then show "set (part_reserved P) = reserved_names rows roots"
    using roots by (simp add: part_reserved_def reserved_names_def)
  have init: "graph_closed (initial_edges (map fst ?rels))"
    using spec(6) dist
    by (simp add: graph_closed_def initial_edges_relation initial_edges_length MAX_GRAPH_NODES_def)
  from extends_by_closed [OF ext this] show "graph_closed (part_edges P)" .
  show "graph_nodes (part_edges P) = {n. wn_relation n \<in> relation_names rows}"
    using ext graph_nodes_eq [of "part_edges P"] names
    by (auto simp: extends_by_def initial_edges_nodes)
  show "edge_relation (part_edges P) = {(a, b). write_effect rows a b}" "bmap_wf (part_edges P)"
    using ext by (simp_all add: extends_by_def initial_edges_relation)
  show "length (part_edges P) = 3 * length ?rels"
    using ext dist initial_edges_length [OF dist] map_eq_imp_length_eq
    by (metis extends_by_def length_map)
qed

section \<open>The decisions\<close>

lemma try_fold_pure:
  "(\<And>s x. x \<in> set xs \<Longrightarrow> f s x = Inr (g x s)) \<Longrightarrow> try_fold f s xs = Inr (fold g xs s)"
  by (induction xs arbitrary: s) simp_all

definition node_decision ::
  "graph_edges \<Rightarrow> string list \<Rightarrow> string list \<Rightarrow> string list \<Rightarrow> WriteNode \<Rightarrow> D1ReservedRelationDecision" where
  "node_decision edges R T V n =
     decision_of_reach ((edge_relation edges)\<^sup>* `` {n}) (set R) (set T) (set V)"

lemma derive_decisions_eq:
  assumes "graph_closed edges"
  shows "derive_decisions edges R T V =
    Inr (fold (\<lambda>n. bmap_insert n (node_decision edges R T V n)) (map fst edges) [])"
  unfolding derive_decisions_def
  by (rule try_fold_pure) (simp add: traverse_correct assms graph_nodes_def node_decision_def)

lemma decisions_lookup:
  "map_of (fold (\<lambda>n. bmap_insert n (f n)) (map fst edges) []) n =
     (if n \<in> graph_nodes edges then Some (f n) else None)"
  using bmap.get_fold [of "[]" f "map fst edges" n] by (simp add: graph_nodes_def)

lemma decisions_keys:
  fixes edges :: graph_edges
  assumes "bmap_wf edges"
  shows "map fst (fold (\<lambda>n. bmap_insert n (f n)) (map fst edges) []) = map fst edges"
proof (rule strict_sorted_equal)
  let ?ds = "fold (\<lambda>n. bmap_insert n (f n)) (map fst edges) []"
  have "bmap_wf ?ds" by (rule bmap.invar_fold [of "[]" "\<lambda>n. n" f]) simp
  then show "sorted_wrt (<) (map fst ?ds)" by (simp add: bmap_wf_def)
  show "sorted_wrt (<) (map fst edges)" using assms by (simp add: bmap_wf_def)
  have "n \<in> fst ` set ?ds \<longleftrightarrow> n \<in> graph_nodes edges" for n
    by (simp add: bmap_contains_iff [symmetric] decisions_lookup del: not_None_eq)
  then show "set (map fst ?ds) = set (map fst edges)" by (auto simp: graph_nodes_def)
qed

lemma derived_decisions:
  assumes "derive_from_verified_parts E receipt rows roots = Inr p"
  obtains P f where "graph_parts_of receipt rows roots = Inr P"
    "f = node_decision (part_edges P) (part_reserved P) (part_trigger_owned P)
      (view_relations_of (relations (part_facts P)))"
    "gprod_decisions p = fold (\<lambda>n. bmap_insert n (f n)) (map fst (part_edges P)) []"
    "gprod_receipt p = graph_receipt_of E receipt P (gprod_decisions p)"
proof -
  from assms obtain P where P: "graph_parts_of receipt rows roots = Inr P"
    and rest: "ok_then (derive_decisions (part_edges P) (part_reserved P) (part_trigger_owned P)
       (view_relations_of (relations (part_facts P)))) (\<lambda>decisions.
     Inr \<lparr>gprod_receipt = graph_receipt_of E receipt P decisions,
          gprod_decisions = decisions\<rparr>) = Inr p"
    by (auto simp: derive_from_verified_parts_def ok_then_eq_Inr)
  from rest show ?thesis
    unfolding derive_decisions_eq [OF graph_parts_sets(4) [OF P]]
    using that [OF P refl] by auto
qed

lemma write_effect_image: "{(a, b). write_effect rows a b}\<^sup>* `` {n} = {m. (write_effect rows)\<^sup>*\<^sup>* n m}"
  unfolding rtranclp_rtrancl_eq by blast

lemma graph_decisions_spec:
  assumes "derive_from_verified_parts E receipt rows roots = Inr p"
  shows "map_of (gprod_decisions p) n =
    (if wn_relation n \<in> relation_names rows
     then Some (decision_of_reach {m. (write_effect rows)\<^sup>*\<^sup>* n m}
       (reserved_names rows roots) (trigger_names rows) (view_names rows))
     else None)"
proof -
  obtain P f where P: "graph_parts_of receipt rows roots = Inr P"
    and f: "f = node_decision (part_edges P) (part_reserved P) (part_trigger_owned P)
      (view_relations_of (relations (part_facts P)))"
    and ds: "gprod_decisions p = fold (\<lambda>n. bmap_insert n (f n)) (map fst (part_edges P)) []"
    by (rule derived_decisions [OF assms])
  note sets = graph_parts_sets [OF P] and spec = graph_parts_spec [OF P]
  have "f n = decision_of_reach {m. (write_effect rows)\<^sup>*\<^sup>* n m}
      (reserved_names rows roots) (trigger_names rows) (view_names rows)"
    unfolding f node_decision_def sets(1,3) spec(5) facts_view_names [OF spec(1)] write_effect_image ..
  then show ?thesis
    unfolding ds decisions_lookup sets(2) by simp
qed

lemma to_ascii_lower_printable:
  assumes "byte_in (CHR '' '') (CHR ''~'') c"
  shows "byte_in (CHR '' '') (CHR ''~'') (to_ascii_lower c)"
  using assms by (auto simp: byte_in_def to_ascii_lower_def byte_def)

lemma canonical_relation_name:
  assumes "r \<in> relation_names rows"
  shows "canonical_identity r = Inr r"
proof -
  from assms obtain bytes where "r = to_ascii_lowercase bytes" "length bytes \<le> 255"
    "list_all (byte_in (CHR '' '') (CHR ''~'')) bytes"
    by (auto simp: relation_names_def identity_from_hex_def result_simps split: if_splits)
  then show ?thesis
    by (auto simp: canonical_identity_def list_all_iff to_ascii_lowercase_def to_ascii_lower_printable)
qed

lemma decision_for_exact:
  assumes "derive_from_verified_parts E receipt rows roots = Inr p"
    and "decision_for p relation operation = Some d"
  shows "to_ascii_lowercase relation \<in> relation_names rows"
    and "d = decision_of_reach {m. (write_effect rows)\<^sup>*\<^sup>* (WriteNode (to_ascii_lowercase relation) operation) m}
      (reserved_names rows roots) (trigger_names rows) (view_names rows)"
proof -
  from assms(2) have "map_of (gprod_decisions p) (WriteNode (to_ascii_lowercase relation) operation) = Some d"
    by (auto simp: decision_for_def result_simps dest!: canonical_identity_eq_Inr split: option.splits)
  then show "to_ascii_lowercase relation \<in> relation_names rows"
    "d = decision_of_reach {m. (write_effect rows)\<^sup>*\<^sup>* (WriteNode (to_ascii_lowercase relation) operation) m}
      (reserved_names rows roots) (trigger_names rows) (view_names rows)"
    unfolding graph_decisions_spec [OF assms(1)] by (simp_all split: if_splits)
qed

section \<open>The contract of the decisions\<close>

text \<open>
  What the composer relies on: an allowed write reaches only harmless relations. The consequences a
  client needs are proved from that law.
\<close>

locale write_decisions =
  fixes derived :: "'p \<Rightarrow> bool"
    and decide :: "'p \<Rightarrow> WriteNode \<Rightarrow> D1ReservedRelationDecision option"
    and effect :: "'p \<Rightarrow> WriteNode \<Rightarrow> WriteNode \<Rightarrow> bool"
    and hazard :: "'p \<Rightarrow> string \<Rightarrow> bool"
    and known :: "'p \<Rightarrow> string \<Rightarrow> bool"
  assumes allow_iff: "derived p \<Longrightarrow> decide p n = Some Allow \<longleftrightarrow>
      known p (wn_relation n) \<and> (\<forall>m. (effect p)\<^sup>*\<^sup>* n m \<longrightarrow> \<not> hazard p (wn_relation m))"
    and effect_known: "derived p \<Longrightarrow> effect p n m \<Longrightarrow> known p (wn_relation m)"
begin

lemma allow_harmless: "derived p \<Longrightarrow> decide p n = Some Allow \<Longrightarrow> (effect p)\<^sup>*\<^sup>* n m \<Longrightarrow> \<not> hazard p (wn_relation m)"
  by (simp add: allow_iff)

text \<open>Whatever an allowed write does next is itself allowed.\<close>

lemma allow_propagates:
  assumes "derived p" and "decide p n = Some Allow" and "(effect p)\<^sup>*\<^sup>* n m"
  shows "decide p m = Some Allow"
proof -
  have "known p (wn_relation m)"
    using assms(3) assms(1,2) by (cases rule: rtranclp.cases) (auto simp: allow_iff effect_known)
  moreover have "\<not> hazard p (wn_relation k)" if "(effect p)\<^sup>*\<^sup>* m k" for k
    using assms that allow_harmless rtranclp_trans by metis
  ultimately show ?thesis by (simp add: allow_iff [OF assms(1)])
qed

end

text \<open>A derivation: its inputs and the product the code returned for them.\<close>

record graph_derivation =
  der_env :: env
  der_receipt :: D1CatalogEvidenceReceipt
  der_rows :: "D1CatalogProjectionRow list"
  der_roots :: "string list"
  der_product :: D1ReservedRelationGraphProduct

definition is_derivation :: "graph_derivation \<Rightarrow> bool" where
  "is_derivation d \<longleftrightarrow>
     derive_from_verified_parts (der_env d) (der_receipt d) (der_rows d) (der_roots d) = Inr (der_product d)"

definition hazardous :: "D1CatalogProjectionRow list \<Rightarrow> string list \<Rightarrow> string \<Rightarrow> bool" where
  "hazardous rows roots r \<longleftrightarrow>
     r \<in> reserved_names rows roots \<or> r \<in> trigger_names rows \<or> r \<in> view_names rows"

lemma decision_of_reach_Allow:
  "decision_of_reach N R T V = Allow \<longleftrightarrow> (\<forall>m \<in> N. wn_relation m \<notin> R \<and> wn_relation m \<notin> T \<and> wn_relation m \<notin> V)"
  unfolding decision_of_reach_def by auto

lemma effect_relation_known:
  assumes "graph_parts_of receipt rows roots = Inr P" and "write_effect rows n m"
  shows "wn_relation m \<in> relation_names rows"
proof -
  have "(n, m) \<in> edge_relation (part_edges P)"
    using assms(2) by (simp add: graph_parts_sets(3) [OF assms(1)])
  with graph_parts_sets(4) [OF assms(1)] have "m \<in> graph_nodes (part_edges P)"
    unfolding graph_closed_def by blast
  then show ?thesis by (simp add: graph_parts_sets(2) [OF assms(1)])
qed

interpretation graph_decisions: write_decisions is_derivation
  "\<lambda>d. map_of (gprod_decisions (der_product d))" "\<lambda>d. write_effect (der_rows d)"
  "\<lambda>d. hazardous (der_rows d) (der_roots d)" "\<lambda>d r. r \<in> relation_names (der_rows d)"
proof
  fix d n m
  assume d: "is_derivation d"
  note exact = graph_decisions_spec [OF d [unfolded is_derivation_def]]
  show "map_of (gprod_decisions (der_product d)) n = Some Allow \<longleftrightarrow>
      wn_relation n \<in> relation_names (der_rows d) \<and>
      (\<forall>m. (write_effect (der_rows d))\<^sup>*\<^sup>* n m \<longrightarrow> \<not> hazardous (der_rows d) (der_roots d) (wn_relation m))"
    unfolding exact by (auto simp: decision_of_reach_Allow hazardous_def)
  obtain P where "graph_parts_of (der_receipt d) (der_rows d) (der_roots d) = Inr P"
    using d [unfolded is_derivation_def] by (rule derived_decisions)
  then show "write_effect (der_rows d) n m \<Longrightarrow> wn_relation m \<in> relation_names (der_rows d)"
    by (rule effect_relation_known)
qed

section \<open>Properties\<close>

text \<open>C3: The decision map refines its specification: it has an entry for exactly the three operations on each relation of the catalog, and the entry is the decision the nodes reachable through the catalog's write effects demand.\<close>

theorem graph_decisions_exact:
  assumes "derive_d1_reserved_relation_graph E catalog roots = Inr p"
  shows "map_of (gprod_decisions p) (WriteNode r operation) =
    (if r \<in> relation_names (cprod_rows catalog)
     then Some (decision_of_reach {m. (write_effect (cprod_rows catalog))\<^sup>*\<^sup>* (WriteNode r operation) m}
       (reserved_names (cprod_rows catalog) roots) (trigger_names (cprod_rows catalog))
       (view_names (cprod_rows catalog)))
     else None)"
  using graph_decisions_spec [OF assms [unfolded derive_d1_reserved_relation_graph_def]] by simp

lemma allowed_reach:
  assumes "derive_d1_reserved_relation_graph E catalog roots = Inr p"
    and "decision_for p relation operation = Some Allow"
    and "(write_effect (cprod_rows catalog))\<^sup>*\<^sup>* (WriteNode (to_ascii_lowercase relation) operation) m"
  shows "\<not> hazardous (cprod_rows catalog) roots (wn_relation m)"
    and "wn_relation m \<in> relation_names (cprod_rows catalog)"
    and "decision_for p (wn_relation m) (wn_operation m) = Some Allow"
proof -
  define d where "d = \<lparr>der_env = E, der_receipt = cprod_receipt catalog, der_rows = cprod_rows catalog,
    der_roots = roots, der_product = p\<rparr>"
  have derived: "is_derivation d"
    using assms(1) by (simp add: is_derivation_def d_def derive_d1_reserved_relation_graph_def)
  let ?n = "WriteNode (to_ascii_lowercase relation) operation"
  from assms(2) have allow: "map_of (gprod_decisions (der_product d)) ?n = Some Allow"
    by (auto simp: decision_for_def d_def result_simps dest!: canonical_identity_eq_Inr split: option.splits)
  have reach: "(write_effect (der_rows d))\<^sup>*\<^sup>* ?n m" using assms(3) by (simp add: d_def)
  note onward = graph_decisions.allow_propagates [OF derived allow reach]
  then show known: "wn_relation m \<in> relation_names (cprod_rows catalog)"
    unfolding graph_decisions.allow_iff [OF derived] by (simp add: d_def)
  show "\<not> hazardous (cprod_rows catalog) roots (wn_relation m)"
    using graph_decisions.allow_harmless [OF derived allow reach] by (simp add: d_def)
  show "decision_for p (wn_relation m) (wn_operation m) = Some Allow"
    using onward canonical_relation_name [OF known] by (simp add: decision_for_def d_def)
qed

text \<open>C20: A write the graph allows never reaches, through any chain of foreign-key actions and AUTOINCREMENT bookkeeping, a configured or automatic reserved relation, a relation that owns a trigger, or a view; and every write it reaches is itself allowed.\<close>

theorem graph_allow_sound:
  assumes "derive_d1_reserved_relation_graph E catalog roots = Inr p"
    and "decision_for p relation operation = Some Allow"
    and "(write_effect (cprod_rows catalog))\<^sup>*\<^sup>* (WriteNode (to_ascii_lowercase relation) operation) m"
  shows "wn_relation m \<notin> to_ascii_lowercase ` set roots \<and> \<not> is_automatic_reserved (wn_relation m) \<and>
    wn_relation m \<notin> trigger_names (cprod_rows catalog) \<and>
    wn_relation m \<notin> view_names (cprod_rows catalog) \<and>
    decision_for p (wn_relation m) (wn_operation m) = Some Allow"
  using allowed_reach [OF assms] by (simp add: hazardous_def reserved_names_def)

lemma relation_of_row_autoincrement:
  assumes "relation_of_row row = Inr R" "relation_type row = ''table''"
    and "graph_decode_upper_hex (table_sql_token_source_hex row) = Inr source"
    and "contains_autoincrement_token source"
  shows "rel_autoincrement R"
proof -
  from assms(1,2) obtain src where src: "table_token_source row = Inr src"
    and R: "R = \<lparr>rel_kind = Table, rel_autoincrement = contains_autoincrement_token src\<rparr>"
    by (auto simp: relation_of_row_def result_simps split: if_splits)
  from src assms(3) have "src = source"
    by (simp add: table_token_source_def split: if_splits)
  with R assms(4) show ?thesis by simp
qed

lemma sqlite_sequence_reserved: "is_automatic_reserved ''sqlite_sequence''"
  by (simp add: is_automatic_reserved_def starts_with_def)

text \<open>An INSERT into a table whose text contains AUTOINCREMENT is always denied as reaching a reserved relation, since it updates \<open>sqlite_sequence\<close>, which is automatically reserved.\<close>

theorem graph_autoincrement_insert_denied:
  assumes "derive_d1_reserved_relation_graph E catalog roots = Inr p"
    and "row \<in> set (cprod_rows catalog)" "fact_kind row = ''relation''" "relation_type row = ''table''"
    and "identity_from_hex (relation_name_hex row) True = Inr r"
    and "graph_decode_upper_hex (table_sql_token_source_hex row) = Inr source"
    and "contains_autoincrement_token source"
  shows "decision_for p r Insert = Some DenyReservedReachable"
proof -
  let ?rows = "cprod_rows catalog"
  have d: "derive_from_verified_parts E (cprod_receipt catalog) ?rows roots = Inr p"
    using assms(1) by (simp add: derive_d1_reserved_relation_graph_def)
  obtain P where P: "graph_parts_of (cprod_receipt catalog) ?rows roots = Inr P"
    using d by (rule derived_decisions)
  obtain R where R: "relation_of_row row = Inr R"
    using facts_relations(2) [OF graph_parts_spec(1) [OF P] assms(2,3)] by blast
  have "rel_autoincrement R" by (rule relation_of_row_autoincrement [OF R assms(4,6,7)])
  with assms(2,3,5) R have eff: "write_effect ?rows (WriteNode r Insert) (WriteNode ''sqlite_sequence'' Update)"
    by (rule write_effect.autoincrement)
  have known: "r \<in> relation_names ?rows" using assms(2,3,5) unfolding relation_names_def by blast
  have "''sqlite_sequence'' \<in> reserved_names ?rows roots"
    using effect_relation_known [OF P eff] sqlite_sequence_reserved
    unfolding reserved_names_def WriteNode.sel by blast
  moreover have "''sqlite_sequence'' \<in> wn_relation ` {m. (write_effect ?rows)\<^sup>*\<^sup>* (WriteNode r Insert) m}"
    using eff by (intro rev_image_eqI [of "WriteNode ''sqlite_sequence'' Update"]) simp_all
  ultimately have "wn_relation ` {m. (write_effect ?rows)\<^sup>*\<^sup>* (WriteNode r Insert) m} \<inter>
      reserved_names ?rows roots \<noteq> {}"
    by blast
  then show ?thesis
    unfolding decision_for_def graph_decisions_spec [OF d] canonical_relation_name [OF known]
    by (simp add: known decision_of_reach_def)
qed

definition facts_counts :: "D1CatalogProjectionRow list \<Rightarrow> graph_facts \<Rightarrow> bool" where
  "facts_counts rows facts \<longleftrightarrow>
     length (relations facts) = fact_count ''relation'' rows \<and>
     trigger_fact_count facts = fact_count ''trigger_owner'' rows \<and>
     schema_auxiliary_fact_count facts = fact_count ''schema_auxiliary'' rows \<and>
     foreign_key_fact_count facts = fact_count ''foreign_key'' rows \<and>
     fact_count ''schema_blocker'' rows = 0 \<and> fact_count ''foreign_key_blocker'' rows = 0"

lemma facts_counts_rows:
  assumes "try_fold graph_row_step no_facts rows = Inr facts"
  shows "facts_counts rows facts"
proof (rule try_fold_prefix_invariant [OF assms])
  show "facts_counts [] no_facts" by (simp add: facts_counts_def no_facts_def fact_count_def)
  show "facts_counts (pre @ [row]) s'"
    if "facts_counts pre s" "graph_row_step s row = Inr s'" for pre row s s'
    using that by (auto simp: facts_counts_def graph_row_step_def checked_increment_def fact_count_def
        result_simps length_bmap_insert_new split: if_splits)
qed

lemma decision_count_total:
  "decision_count ds Allow + decision_count ds DenyReservedReachable +
   decision_count ds DenyTriggerEffectsUnproven + decision_count ds DenyViewWriteSemanticsUnproven = length ds"
proof (induction ds)
  case (Cons d ds)
  then show ?case by (cases "snd d") (auto simp: decision_count_def)
qed (simp add: decision_count_def)

lemma kind_count_total:
  "length (filter (\<lambda>r. rel_kind r = Table) rs) \<le> length rs"
  by (rule length_filter_le)

lemma derived_totals:
  assumes d: "derive_from_verified_parts E (cprod_receipt catalog) (cprod_rows catalog) roots = Inr p"
  shows "let r = gprod_receipt p; c = cprod_receipt catalog in
    gr_allow_count r + gr_deny_reserved_reachable_count r + gr_deny_trigger_effects_unproven_count r
      + gr_deny_view_write_semantics_unproven_count r = gr_graph_node_count r \<and>
    gr_graph_node_count r = 3 * gr_relation_count r \<and> gr_relation_count r \<le> 1000 \<and>
    gr_table_count r + gr_view_count r = gr_relation_count r \<and>
    gr_relation_count r = cat_relation_fact_count c \<and>
    gr_trigger_fact_count r = cat_trigger_owner_fact_count c \<and>
    gr_schema_auxiliary_fact_count r = cat_schema_auxiliary_fact_count c \<and>
    gr_foreign_key_fact_count r = cat_foreign_key_fact_count c \<and>
    cat_schema_blocker_fact_count c = 0 \<and> cat_foreign_key_blocker_fact_count c = 0"
proof -
  let ?c = "cprod_receipt catalog" and ?rows = "cprod_rows catalog"
  obtain P f where P: "graph_parts_of ?c ?rows roots = Inr P"
    and ds: "gprod_decisions p = fold (\<lambda>n. bmap_insert n (f n)) (map fst (part_edges P)) []"
    and r: "gprod_receipt p = graph_receipt_of E ?c P (gprod_decisions p)"
    using d by (rule derived_decisions)
  from P have "try_fold graph_row_step no_facts ?rows = Inr (part_facts P)"
    unfolding graph_parts_of_def Let_def by (auto simp: result_simps split: if_splits)
  note counts = facts_counts_rows [OF this, unfolded facts_counts_def]
  note wf = graph_parts_sets(5) [OF P] and len = graph_parts_sets(6) [OF P]
  have "length (gprod_decisions p) = length (part_edges P)"
    using map_eq_imp_length_eq [OF decisions_keys [OF wf, of f]] by (simp add: ds)
  then have total: "decision_count (gprod_decisions p) Allow
      + decision_count (gprod_decisions p) DenyReservedReachable
      + decision_count (gprod_decisions p) DenyTriggerEffectsUnproven
      + decision_count (gprod_decisions p) DenyViewWriteSemanticsUnproven = length (part_edges P)"
    using decision_count_total [of "gprod_decisions p"] by simp
  have receipt: "cat_relation_fact_count ?c = fact_count ''relation'' ?rows"
    "cat_trigger_owner_fact_count ?c = fact_count ''trigger_owner'' ?rows"
    "cat_schema_auxiliary_fact_count ?c = fact_count ''schema_auxiliary'' ?rows"
    "cat_foreign_key_fact_count ?c = fact_count ''foreign_key'' ?rows"
    "cat_schema_blocker_fact_count ?c = fact_count ''schema_blocker'' ?rows"
    "cat_foreign_key_blocker_fact_count ?c = fact_count ''foreign_key_blocker'' ?rows"
    using graph_parts_spec(2) [OF P]
    by (simp_all add: validate_catalog_product_def split: if_splits)
  show ?thesis
    using counts total len graph_parts_spec(6) [OF P] receipt
      kind_count_total [of "map snd (relations (part_facts P))"]
    by (simp add: r graph_receipt_of_def Let_def MAX_RELATIONS_def)
qed

text \<open>The aggregates of a graph receipt are consistent: the four decision counts add up to the number of nodes, which is three per relation; tables and views partition the relations; the relation, trigger, index and foreign-key counts are those of the catalog receipt, which counts no blocker fact.\<close>

theorem graph_receipt_totals:
  assumes "derive_d1_reserved_relation_graph E catalog roots = Inr p"
  shows "let r = gprod_receipt p; c = cprod_receipt catalog in
    gr_allow_count r + gr_deny_reserved_reachable_count r + gr_deny_trigger_effects_unproven_count r
      + gr_deny_view_write_semantics_unproven_count r = gr_graph_node_count r \<and>
    gr_graph_node_count r = 3 * gr_relation_count r \<and> gr_relation_count r \<le> 1000 \<and>
    gr_table_count r + gr_view_count r = gr_relation_count r \<and>
    gr_relation_count r = cat_relation_fact_count c \<and>
    gr_trigger_fact_count r = cat_trigger_owner_fact_count c \<and>
    gr_schema_auxiliary_fact_count r = cat_schema_auxiliary_fact_count c \<and>
    gr_foreign_key_fact_count r = cat_foreign_key_fact_count c \<and>
    cat_schema_blocker_fact_count c = 0 \<and> cat_foreign_key_blocker_fact_count c = 0"
  using derived_totals [OF assms [unfolded derive_d1_reserved_relation_graph_def]] .

lemma no_panic_graph_error [simp, no_panic_intros]: "no_panic (Inl (graph_error c m))"
  by (simp add: graph_error_def)

lemma no_panic_graph_constants [simp, no_panic_intros]:
  "no_panic (Inl blocked_fact)" "no_panic (Inl unsupported_fact)" "no_panic (Inl invalid_catalog_text)"
  "no_panic (Inl missing_reference)" "no_panic (Inl graph_limit)"
  by (simp_all add: blocked_fact_def unsupported_fact_def invalid_catalog_text_def
      missing_reference_def graph_limit_def)

lemma no_panic_checked_increment [no_panic_intros]: "no_panic (checked_increment n)"
  by (cases "checked_add n 1") (simp_all add: checked_increment_def)

lemma no_panic_graph_decode_pairs: "no_panic (graph_decode_pairs v)"
  by (induction v rule: graph_decode_pairs.induct) (auto intro!: no_panic_intros)

lemma no_panic_graph_text [no_panic_intros]:
  "no_panic (graph_decode_upper_hex v)" "no_panic (identity_from_hex v b)"
  "no_panic (exact_text_from_hex v)" "no_panic (canonical_identity v)"
  unfolding identity_from_hex_def exact_text_from_hex_def canonical_identity_def graph_decode_upper_hex_def
  by (intro no_panic_intros no_panic_graph_decode_pairs)+

lemma no_panic_map_err [no_panic_intros]:
  fixes r :: "'e + 'a" and g :: "'e \<Rightarrow> 'f failure"
  shows "(\<And>e. no_panic (Inl (g e) :: 'f failure + 'a)) \<Longrightarrow> no_panic (map_err g r)"
  by (cases r) simp_all

lemma no_panic_add_edge [no_panic_intros]: "no_panic (add_edge st s t)"
  unfolding add_edge_def Let_def by (auto intro!: no_panic_intros split: prod.splits)

lemma no_panic_graph_rows [no_panic_intros]: "no_panic (graph_row_step facts row)"
  unfolding graph_row_step_def relation_of_row_def table_token_source_def group_of_row_def insert_group_def
  by (intro no_panic_intros)

lemma no_panic_foreign_key_step [no_panic_intros]: "no_panic (foreign_key_step rels st g)"
  unfolding foreign_key_step_def add_foreign_key_action_def child_operation_def
  by (intro no_panic_intros)

lemma no_panic_graph_parts: "no_panic (graph_parts_of receipt rows roots)"
  unfolding graph_parts_of_def validate_catalog_product_def normalize_reserved_roots_def
    reserved_root_step_def [abs_def] trigger_owned_of_def add_autoincrement_edges_def Let_def
  by (auto intro!: no_panic_intros)

text \<open>C27: Once the facts and edges are built, the derivation always yields a product: the traversal of no node fails, hits a limit or runs forever. The derivation as a whole never panics.\<close>

theorem graph_derivation_total:
  "((\<exists>p. derive_from_verified_parts E receipt rows roots = Inr p) \<longleftrightarrow>
      (\<exists>P. graph_parts_of receipt rows roots = Inr P)) \<and>
   no_panic (derive_from_verified_parts E receipt rows roots)"
proof (cases "graph_parts_of receipt rows roots")
  case (Inl e)
  with no_panic_graph_parts [of receipt rows roots] show ?thesis
    by (auto simp: derive_from_verified_parts_def no_panic_def)
next
  case (Inr P)
  then show ?thesis
    by (simp add: derive_from_verified_parts_def derive_decisions_eq [OF graph_parts_sets(4) [OF Inr]])
qed

text \<open>The primitive operations a statement form expands to are never empty and never repeat; exactly the form outside the closed contract is rejected.\<close>

lemma required_operations_cover_form:
  "case required_relation_write_operations form of
     Inr ops \<Rightarrow> form \<noteq> UnsupportedCompound \<and> ops \<noteq> [] \<and> distinct ops
   | Inl e \<Rightarrow> form = UnsupportedCompound"
  by (cases form) simp_all

end
