(* ===== verification/D1_Write_Plan.thy ===== *)
theory D1_Write_Plan
  imports D1_Target
begin

text \<open>
  \<open>src/d1_execute_write.rs\<close> and \<open>src/d1_row_write_plan.rs\<close>: the plan of one DML statement, which
  binds target, session, statement and parameters by digest, the boundary that admits its inputs, and
  the classifier of the provider's acknowledgement. A JSON number stays abstract: its
  serialization is the argument \<open>ser_number\<close>, its reading as an unsigned integer \<open>as_u64\<close>.
\<close>

definition D1_EXECUTE_WRITE_OPERATION :: string where
  "D1_EXECUTE_WRITE_OPERATION = ''d1_execute_write''"

datatype D1WriteStatementKind = InsertKind | UpdateKind | DeleteKind | ReplaceKind

record D1ExecuteWritePlan =
  wp_version :: u8
  wp_operation :: string
  wp_account_id :: string
  wp_database_id :: string
  wp_target_key_sha256 :: string
  wp_execution_session_sha256 :: string
  wp_statement_kind :: D1WriteStatementKind
  wp_sql_sha256 :: string
  wp_sql_size_bytes :: usize
  wp_params_sha256 :: string
  wp_params_size_bytes :: usize
  wp_max_rows :: usize

record D1ExecuteWriteOutcome =
  out_statement_kind :: D1WriteStatementKind
  out_changed_db :: bool
  out_changes :: nat
  out_rows_written :: nat
  out_zero_change :: bool

datatype D1WriteResultClassification =
    MissingOrNonArrayResult
  | UnexpectedResultSetCount
  | MalformedResultSet
  | InnerStatementFailureOrMissingSuccess
  | InnerStatementError
  | MalformedInnerErrors
  | MissingOrMalformedInnerResults
  | MissingOrMalformedWriteMetadata
  | WriteNotServedByPrimary
  | WriteMetadataContradictory

type_synonym D1WriteResultError = "D1WriteResultClassification classified_error"

section \<open>The plan\<close>

fun ser_statement_kind :: "D1WriteStatementKind \<Rightarrow> ser" where
  "ser_statement_kind InsertKind = SStr ''INSERT''"
| "ser_statement_kind UpdateKind = SStr ''UPDATE''"
| "ser_statement_kind DeleteKind = SStr ''DELETE''"
| "ser_statement_kind ReplaceKind = SStr ''REPLACE''"

fun ser_json :: "('n \<Rightarrow> ser) \<Rightarrow> 'n json \<Rightarrow> ser" where
  "ser_json ser_number Null = SNull"
| "ser_json ser_number (Bool b) = SBool b"
| "ser_json ser_number (Number n) = ser_number n"
| "ser_json ser_number (String s) = SStr s"
| "ser_json ser_number (Array xs) = SSeq (map (ser_json ser_number) xs)"
| "ser_json ser_number (Object m) = SStruct (map (\<lambda>(k, v). (k, ser_json ser_number v)) m)"

definition ser_write_plan :: "D1ExecuteWritePlan \<Rightarrow> ser" where
  "ser_write_plan p = SStruct
     [(''version'', ser_u8 (wp_version p)), (''operation'', SStr (wp_operation p)),
      (''account_id'', SStr (wp_account_id p)), (''database_id'', SStr (wp_database_id p)),
      (''target_key_sha256'', SStr (wp_target_key_sha256 p)),
      (''execution_session_sha256'', SStr (wp_execution_session_sha256 p)),
      (''statement_kind'', ser_statement_kind (wp_statement_kind p)),
      (''sql_sha256'', SStr (wp_sql_sha256 p)), (''sql_size_bytes'', ser_usize (wp_sql_size_bytes p)),
      (''params_sha256'', SStr (wp_params_sha256 p)),
      (''params_size_bytes'', ser_usize (wp_params_size_bytes p)),
      (''max_rows'', ser_usize (wp_max_rows p))]"

definition derive_d1_execute_write_plan ::
  "env \<Rightarrow> ('n \<Rightarrow> ser) \<Rightarrow> string \<Rightarrow> string \<Rightarrow> string \<Rightarrow> string \<Rightarrow> D1WriteStatementKind \<Rightarrow> string
    \<Rightarrow> 'n json list \<Rightarrow> usize \<Rightarrow> D1ExecuteWritePlan \<times> string" where
  "derive_d1_execute_write_plan E ser_number account_id database_id target_key execution_session_sha256
     statement_kind sql params max_rows =
     (let params_bytes = to_vec E (SSeq (map (ser_json ser_number) params));
          plan = \<lparr>wp_version = 2, wp_operation = D1_EXECUTE_WRITE_OPERATION,
            wp_account_id = account_id, wp_database_id = database_id,
            wp_target_key_sha256 = target_key,
            wp_execution_session_sha256 = execution_session_sha256,
            wp_statement_kind = statement_kind,
            wp_sql_sha256 = sha256_hex E sql, wp_sql_size_bytes = length sql,
            wp_params_sha256 = sha256_hex E params_bytes,
            wp_params_size_bytes = length params_bytes,
            wp_max_rows = max_rows\<rparr>
      in (plan, sha256_hex E (to_vec E (ser_write_plan plan))))"

section \<open>The row-write boundary\<close>

definition D1_ROW_WRITE_PLAN_MAX_ROWS :: usize where
  "D1_ROW_WRITE_PLAN_MAX_ROWS = 1000"

datatype D1RowWritePlanError =
    TargetIdentityNotCanonical
  | InvalidExecutionSessionIdentity
  | InvalidRowLimit

record D1RowWritePlan =
  rwp_inner :: D1ExecuteWritePlan
  rwp_plan_sha256 :: string

definition canonical_hash :: "string \<Rightarrow> bool" where
  "canonical_hash v \<longleftrightarrow>
     length v = 64 \<and> list_all (\<lambda>b. is_ascii_digit b \<or> byte_in (CHR ''a'') (CHR ''f'') b) v"

definition derive_d1_row_write_plan ::
  "env \<Rightarrow> ('n \<Rightarrow> ser) \<Rightarrow> D1TargetIdentity \<Rightarrow> string \<Rightarrow> D1WriteStatementKind \<Rightarrow> string
    \<Rightarrow> 'n json list \<Rightarrow> usize \<Rightarrow> D1RowWritePlanError + D1RowWritePlan" where
  "derive_d1_row_write_plan E ser_number target execution_session_sha256 statement_kind sql params max_rows =
     ok_then (map_err (\<lambda>_. TargetIdentityNotCanonical)
       (normalize_d1_target (tgt_account_id target) (tgt_database_id target))) (\<lambda>normalized.
     if normalized \<noteq> target then Inl TargetIdentityNotCanonical
     else if \<not> canonical_hash execution_session_sha256 then Inl InvalidExecutionSessionIdentity
     else if \<not> (1 \<le> max_rows \<and> max_rows \<le> D1_ROW_WRITE_PLAN_MAX_ROWS) then Inl InvalidRowLimit
     else let (inner, plan_sha256) = derive_d1_execute_write_plan E ser_number (tgt_account_id target)
            (tgt_database_id target) (target_key_sha256 E target) execution_session_sha256
            statement_kind sql params max_rows
       in Inr \<lparr>rwp_inner = inner, rwp_plan_sha256 = plan_sha256\<rparr>)"

section \<open>The acknowledgement\<close>

definition ambiguous :: "D1WriteResultClassification \<Rightarrow> string \<Rightarrow> D1WriteResultError" where
  "ambiguous classification message =
     ClassifiedError ''d1.execute_write_result_ambiguous'' classification message"

definition malformed_write_metadata :: "string \<Rightarrow> D1WriteResultError" where
  "malformed_write_metadata message = ambiguous MissingOrMalformedWriteMetadata message"

text \<open>The \<open>match\<close> on the member \<open>errors\<close>.\<close>

fun inner_errors :: "'n json option \<Rightarrow> D1WriteResultError + unit" where
  "inner_errors None = Inr ()"
| "inner_errors (Some (Array [])) = Inr ()"
| "inner_errors (Some (Array _)) = Inl (ambiguous InnerStatementError
     ''provider DML result contained an inner statement error'')"
| "inner_errors (Some _) = Inl (ambiguous MalformedInnerErrors
     ''provider DML result contained malformed inner errors'')"

fun single_result_set :: "'n json list \<Rightarrow> D1WriteResultError + 'n json" where
  "single_result_set [result_set] = Inr result_set"
| "single_result_set _ = Inl (ambiguous UnexpectedResultSetCount
     ''one DML statement must return exactly one D1 result set'')"

definition classify_d1_execute_write_result ::
  "('n \<Rightarrow> nat option) \<Rightarrow> D1WriteStatementKind \<Rightarrow> 'n json
    \<Rightarrow> D1WriteResultError + D1ExecuteWriteOutcome" where
  "classify_d1_execute_write_result as_u64 statement_kind v =
     ok_then (ok_or (ambiguous MissingOrNonArrayResult
       ''provider response did not contain the D1 result-set array'') (as_array v)) (\<lambda>result_sets.
     ok_then (single_result_set result_sets) (\<lambda>result_value.
     ok_then (ok_or (ambiguous MalformedResultSet
       ''provider DML result set was not an object'') (as_object result_value)) (\<lambda>result_set.
     if Option.bind (map_of result_set ''success'') as_bool \<noteq> Some True
     then Inl (ambiguous InnerStatementFailureOrMissingSuccess
       ''provider response did not prove a successful inner D1 statement'')
     else ok_then (inner_errors (map_of result_set ''errors'')) (\<lambda>_.
     if Option.bind (map_of result_set ''results'') as_array = None
     then Inl (ambiguous MissingOrMalformedInnerResults
       ''provider DML result did not contain an inner results array'')
     else ok_then (ok_or (ambiguous MissingOrMalformedWriteMetadata
       ''provider DML result did not contain exact mutation metadata'')
       (Option.bind (map_of result_set ''meta'') as_object)) (\<lambda>meta.
     if Option.bind (map_of meta ''served_by_primary'') as_bool \<noteq> Some True
     then Inl (ambiguous WriteNotServedByPrimary
       ''provider DML result did not prove primary service'')
     else ok_then (ok_or (malformed_write_metadata ''changed_db must be boolean'')
       (Option.bind (map_of meta ''changed_db'') as_bool)) (\<lambda>changed_db.
     ok_then (ok_or (malformed_write_metadata ''changes must be a non-negative u64 integer'')
       (Option.bind (map_of meta ''changes'') (as_number as_u64))) (\<lambda>changes.
     ok_then (ok_or (malformed_write_metadata ''rows_written must be a non-negative u64 integer'')
       (Option.bind (map_of meta ''rows_written'') (as_number as_u64))) (\<lambda>rows_written.
     if \<not> changed_db \<and> (changes \<noteq> 0 \<or> rows_written \<noteq> 0)
     then Inl (ambiguous WriteMetadataContradictory
       ''changed_db=false contradicted nonzero mutation counts'')
     else Inr \<lparr>out_statement_kind = statement_kind, out_changed_db = changed_db,
       out_changes = changes, out_rows_written = rows_written, out_zero_change = (\<not> changed_db)\<rparr>))))))))"

section \<open>Properties\<close>

interpretation row_plan_digest: digest_grammar canonical_hash
  by unfold_locales (simp add: canonical_hash_def lower_hex_digit_def [abs_def])

lemma inner_errors_ok: "inner_errors e = Inr u \<longleftrightarrow> e = None \<or> e = Some (Array [])"
  by (cases e rule: inner_errors.cases) auto

lemma single_result_set_ok: "single_result_set xs = Inr x \<longleftrightarrow> xs = [x]"
  by (cases xs rule: single_result_set.cases) auto

lemma as_array_Some: "as_array v = Some xs \<longleftrightarrow> v = Array xs"
  by (cases v) auto

lemma as_object_Some: "as_object v = Some m \<longleftrightarrow> v = Object m"
  by (cases v) auto

lemma as_bool_Some: "as_bool v = Some b \<longleftrightarrow> v = Bool b"
  by (cases v) auto

lemma as_number_Some: "as_number as_u64 v = Some k \<longleftrightarrow> (\<exists>n. v = Number n \<and> as_u64 n = Some k)"
  by (cases v) auto

text \<open>What a provider response has to contain to prove an outcome.\<close>

definition proves_outcome ::
  "('n \<Rightarrow> nat option) \<Rightarrow> 'n json \<Rightarrow> bool \<Rightarrow> nat \<Rightarrow> nat \<Rightarrow> bool" where
  "proves_outcome as_u64 v changed_db changes rows_written \<longleftrightarrow>
     (\<exists>rs results meta c w. v = Array [Object rs] \<and>
        map_of rs ''success'' = Some (Bool True) \<and>
        (map_of rs ''errors'' = None \<or> map_of rs ''errors'' = Some (Array [])) \<and>
        map_of rs ''results'' = Some (Array results) \<and>
        map_of rs ''meta'' = Some (Object meta) \<and>
        map_of meta ''served_by_primary'' = Some (Bool True) \<and>
        map_of meta ''changed_db'' = Some (Bool changed_db) \<and>
        map_of meta ''changes'' = Some (Number c) \<and> as_u64 c = Some changes \<and>
        map_of meta ''rows_written'' = Some (Number w) \<and> as_u64 w = Some rows_written \<and>
        (changed_db \<or> changes = 0 \<and> rows_written = 0))"

lemma bind_eq_Some: "Option.bind x f = Some y \<longleftrightarrow> (\<exists>z. x = Some z \<and> f z = Some y)"
  by (cases x) auto

text \<open>C26: The classifier accepts a provider response exactly when it is a single successful result set without inner errors, with a results array and primary-served metadata whose counters do not contradict an unchanged database; the outcome reports those values, and zero change is exactly an unchanged database.\<close>

theorem write_result_accepts_iff:
  "classify_d1_execute_write_result as_u64 kind v = Inr out \<longleftrightarrow>
     out_statement_kind out = kind \<and> out_zero_change out = (\<not> out_changed_db out) \<and>
     proves_outcome as_u64 v (out_changed_db out) (out_changes out) (out_rows_written out)"
proof -
  have "(Option.bind x as_array = None) \<longleftrightarrow> (\<nexists>xs. x = Some (Array xs))" for x :: "'n json option"
    by (cases "Option.bind x as_array") (auto simp: bind_eq_Some as_array_Some)
  then show ?thesis
    unfolding classify_d1_execute_write_result_def proves_outcome_def
    by (cases out) (auto simp: result_simps single_result_set_ok inner_errors_ok as_array_Some
        as_object_Some as_bool_Some as_number_Some bind_eq_Some)
qed

lemma row_write_plan_Inr:
  assumes "derive_d1_row_write_plan E ser_number target session kind sql params max_rows = Inr p"
  shows "canonical_d1_target target" and "canonical_hash session" and "1 \<le> max_rows" and "max_rows \<le> 1000"
    and "(rwp_inner p, rwp_plan_sha256 p) = derive_d1_execute_write_plan E ser_number (tgt_account_id target)
      (tgt_database_id target) (target_key_sha256 E target) session kind sql params max_rows"
  using assms
  by (auto simp: derive_d1_row_write_plan_def result_simps canonical_d1_target_def
      D1_ROW_WRITE_PLAN_MAX_ROWS_def split: if_splits prod.splits)

text \<open>Two admitted row-write plans with one digest are plans for the same target, session, statement kind, row limit, SQL text and parameter bytes, unless SHA-256 collides.\<close>

theorem row_plan_digest_binds:
  assumes "to_vec_injective E"
    and "derive_d1_row_write_plan E ser_number t1 s1 k1 sql1 p1 m1 = Inr r1"
    and "derive_d1_row_write_plan E ser_number t2 s2 k2 sql2 p2 m2 = Inr r2"
    and "rwp_plan_sha256 r1 = rwp_plan_sha256 r2"
  shows "(t1 = t2 \<and> s1 = s2 \<and> k1 = k2 \<and> m1 = m2 \<and> sql1 = sql2 \<and>
      map (ser_json ser_number) p1 = map (ser_json ser_number) p2) \<or> sha256_collision E"
proof -
  have kinds: "ser_statement_kind a = ser_statement_kind b \<longleftrightarrow> a = b" for a b
    by (cases a; cases b) simp_all
  note r1 = row_write_plan_Inr(5) [OF assms(2)] and r2 = row_write_plan_Inr(5) [OF assms(3)]
  have "hash_serialized E (ser_write_plan (rwp_inner r1)) = hash_serialized E (ser_write_plan (rwp_inner r2))"
    using r1 r2 assms(4) by (simp add: derive_d1_execute_write_plan_def Let_def hash_serialized_def)
  from hash_serialized_eqD [OF assms(1) this] show ?thesis
  proof
    assume "ser_write_plan (rwp_inner r1) = ser_write_plan (rwp_inner r2)"
    then have eq: "tgt_account_id t1 = tgt_account_id t2" "tgt_database_id t1 = tgt_database_id t2"
      "s1 = s2" "k1 = k2" "m1 = m2" "sha256_hex E sql1 = sha256_hex E sql2"
      "hash_serialized E (SSeq (map (ser_json ser_number) p1)) =
       hash_serialized E (SSeq (map (ser_json ser_number) p2))"
      using r1 r2 by (simp_all add: derive_d1_execute_write_plan_def Let_def ser_write_plan_def kinds
          hash_serialized_def)
    then show ?thesis
      using hash_serialized_eqD [OF assms(1) eq(7)] sha256_hex_eqD [OF eq(6)] by auto
  qed simp
qed

end
