(* ===== verification/D1_Composition.thy ===== *)
theory D1_Composition
  imports D1_Graph_Sound D1_Write_Plan
begin

text \<open>
  \<open>src/d1_exact_plan_composition.rs\<close>: one exact write plan against the verified catalog and the
  decision graph. The composition re-checks every input it binds and requires \<open>Allow\<close> for each
  primitive operation of the statement form.
\<close>

definition D1_EXACT_PLAN_COMPOSITION_OPERATION :: string where
  "D1_EXACT_PLAN_COMPOSITION_OPERATION = ''d1_exact_write_plan_composition''"

definition COMPOSITION_VERSION :: u8 where
  "COMPOSITION_VERSION = 1"

definition REQUIRED_EXECUTE_PLAN_VERSION :: u8 where
  "REQUIRED_EXECUTE_PLAN_VERSION = 2"

definition REQUIRED_GRAPH_VERSION :: u8 where
  "REQUIRED_GRAPH_VERSION = 3"

definition MAX_WRITE_ROWS :: usize where
  "MAX_WRITE_ROWS = 1000"

definition MAX_RELATION_IDENTITY_BYTES :: usize where
  "MAX_RELATION_IDENTITY_BYTES = 255"

record D1ExactPlanCompositionReceipt =
  comp_version :: u8
  comp_operation :: string
  comp_target_key_sha256 :: string
  comp_execute_plan_sha256 :: string
  comp_catalog_snapshot_sha256 :: string
  comp_catalog_receipt_sha256 :: string
  comp_graph_sha256 :: string
  comp_graph_decision_sha256 :: string
  comp_graph_receipt_sha256 :: string
  comp_classified_relation_sha256 :: string
  comp_classified_form_sha256 :: string
  comp_effective_primitive_sha256 :: string
  comp_effective_primitive_count :: usize
  comp_allow_decision_count :: usize
  comp_effective_decision_sha256 :: string
  comp_composition_sha256 :: string

record D1ExactPlanCompositionProduct =
  xprod_receipt :: D1ExactPlanCompositionReceipt
  xprod_plan :: D1ExecuteWritePlan
  xprod_classified_relation :: string
  xprod_classified_form :: D1WriteOperationForm
  xprod_effective_primitives :: "D1RelationWriteOperation list"

datatype D1ExactPlanCompositionClassification =
    TargetIdentityInvalid
  | PlanDigestInvalid
  | PlanProductMismatch
  | PlanTargetMismatch
  | PlanFormMismatch
  | ClassifiedRelationInvalid
  | CatalogProductMismatch
  | CatalogProjectionUnsupported
  | GraphProductMismatch
  | GraphProjectionUnsupported
  | CompoundWriteUnsupported
  | PrimitiveExpansionMismatch
  | PrimitiveDuplicate
  | GraphDecisionMissing
  | GraphDecisionDenied

type_synonym D1ExactPlanCompositionError = "D1ExactPlanCompositionClassification classified_error"

definition composition_error ::
  "D1ExactPlanCompositionClassification \<Rightarrow> string \<Rightarrow> D1ExactPlanCompositionError" where
  "composition_error classification message =
     ClassifiedError ''d1.exact_plan_composition_unproven'' classification message"

definition valid_sha256 :: "string \<Rightarrow> bool" where
  "valid_sha256 v \<longleftrightarrow>
     length v = 64 \<and> list_all (\<lambda>b. is_ascii_digit b \<or> byte_in (CHR ''a'') (CHR ''f'') b) v"

section \<open>Checks\<close>

definition validate_target :: "D1TargetIdentity \<Rightarrow> D1ExactPlanCompositionError + unit" where
  "validate_target target =
     ok_then (map_err (\<lambda>_. composition_error TargetIdentityInvalid
       ''D1 target identity was not exact canonical input'')
       (normalize_d1_target (tgt_account_id target) (tgt_database_id target))) (\<lambda>normalized.
     if normalized \<noteq> target then Inl (composition_error TargetIdentityInvalid
       ''D1 target identity was not exact canonical input'')
     else Inr ())"

fun statement_kind_matches_form :: "D1WriteStatementKind \<Rightarrow> D1WriteOperationForm \<Rightarrow> bool" where
  "statement_kind_matches_form InsertKind InsertForm = True"
| "statement_kind_matches_form InsertKind InsertOrReplace = True"
| "statement_kind_matches_form InsertKind UpsertDoUpdate = True"
| "statement_kind_matches_form UpdateKind UpdateForm = True"
| "statement_kind_matches_form UpdateKind UpdateOrReplace = True"
| "statement_kind_matches_form DeleteKind DeleteForm = True"
| "statement_kind_matches_form ReplaceKind Replace = True"
| "statement_kind_matches_form _ _ = False"

definition validate_plan ::
  "env \<Rightarrow> D1TargetIdentity \<Rightarrow> D1ExecuteWritePlan \<Rightarrow> string \<Rightarrow> D1WriteOperationForm
    \<Rightarrow> D1ExactPlanCompositionError + unit" where
  "validate_plan E target plan execute_plan_sha256 classified_form =
     (if \<not> valid_sha256 execute_plan_sha256 \<or> \<not> valid_sha256 (wp_execution_session_sha256 plan) \<or>
        \<not> valid_sha256 (wp_sql_sha256 plan) \<or> \<not> valid_sha256 (wp_params_sha256 plan)
      then Inl (composition_error PlanDigestInvalid
        ''exact write plan contained a malformed digest'')
      else if wp_version plan \<noteq> REQUIRED_EXECUTE_PLAN_VERSION \<or>
        wp_operation plan \<noteq> D1_EXECUTE_WRITE_OPERATION \<or> wp_sql_size_bytes plan = 0 \<or>
        wp_params_size_bytes plan = 0 \<or>
        \<not> (1 \<le> wp_max_rows plan \<and> wp_max_rows plan \<le> MAX_WRITE_ROWS) \<or>
        hash_serialized E (ser_write_plan plan) \<noteq> execute_plan_sha256
      then Inl (composition_error PlanProductMismatch
        ''exact write plan contradicted its closed product contract'')
      else if wp_account_id plan \<noteq> tgt_account_id target \<or>
        wp_database_id plan \<noteq> tgt_database_id target \<or>
        wp_target_key_sha256 plan \<noteq> target_key_sha256 E target
      then Inl (composition_error PlanTargetMismatch
        ''exact write plan target did not match the verified target'')
      else if \<not> statement_kind_matches_form (wp_statement_kind plan) classified_form
      then Inl (composition_error PlanFormMismatch
        ''classified write form contradicted the exact plan statement kind'')
      else Inr ())"

definition validate_relation :: "string \<Rightarrow> D1ExactPlanCompositionError + string" where
  "validate_relation v =
     (if v = [] \<or> length v > MAX_RELATION_IDENTITY_BYTES \<or>
        \<not> list_all (byte_in (CHR '' '') (CHR ''~'')) v \<or> to_ascii_lowercase v \<noteq> v
      then Inl (composition_error ClassifiedRelationInvalid
        ''classified relation was not exact canonical bounded ASCII identity'')
      else Inr v)"

definition catalog_receipt_shape_is_consistent :: "D1CatalogEvidenceReceipt \<Rightarrow> bool" where
  "catalog_receipt_shape_is_consistent receipt =
     (let fact_count =
        Option.bind (Option.bind (Option.bind (Option.bind
          (checked_add (cat_relation_fact_count receipt) (cat_trigger_owner_fact_count receipt))
          (\<lambda>n. checked_add n (cat_schema_auxiliary_fact_count receipt)))
          (\<lambda>n. checked_add n (cat_schema_blocker_fact_count receipt)))
          (\<lambda>n. checked_add n (cat_foreign_key_fact_count receipt)))
          (\<lambda>n. checked_add n (cat_foreign_key_blocker_fact_count receipt))
      in fact_count = Some (cat_catalog_row_count receipt) \<and>
         cat_stable_primary_observations receipt = 2 \<and>
         valid_sha256 (cat_target_key_sha256 receipt) \<and>
         valid_sha256 (cat_query_plan_sha256 receipt) \<and>
         valid_sha256 (cat_query_sha256 receipt) \<and>
         valid_sha256 (cat_catalog_snapshot_sha256 receipt) \<and>
         valid_sha256 (cat_observation_pair_sha256 receipt))"

definition validate_catalog_receipt ::
  "env \<Rightarrow> D1TargetIdentity \<Rightarrow> D1CatalogEvidenceReceipt \<Rightarrow> D1ExactPlanCompositionError + unit" where
  "validate_catalog_receipt E target receipt =
     (if cat_version receipt \<noteq> REQUIRED_CATALOG_VERSION \<or>
        cat_operation receipt \<noteq> D1_CATALOG_EVIDENCE_OPERATION \<or>
        cat_projection_version receipt \<noteq> REQUIRED_CATALOG_VERSION
      then Inl (composition_error CatalogProjectionUnsupported
        ''catalog product was outside the required verified projection version'')
      else if cat_target_key_sha256 receipt \<noteq> target_key_sha256 E target \<or>
        \<not> catalog_receipt_shape_is_consistent receipt
      then Inl (composition_error CatalogProductMismatch
        ''verified catalog receipt contradicted the target or aggregate product'')
      else Inr ())"

definition validate_graph_receipt ::
  "D1CatalogEvidenceReceipt \<Rightarrow> D1ReservedRelationGraphReceipt \<Rightarrow> D1ExactPlanCompositionError + unit" where
  "validate_graph_receipt catalog graph =
     (if gr_version graph \<noteq> REQUIRED_GRAPH_VERSION \<or>
        gr_operation graph \<noteq> D1_RESERVED_RELATION_GRAPH_OPERATION \<or>
        gr_catalog_projection_version graph \<noteq> REQUIRED_CATALOG_VERSION
      then Inl (composition_error GraphProjectionUnsupported
        ''reserved-relation graph was outside the required product version'')
      else let
        decision_count = Option.bind (Option.bind
          (checked_add (gr_allow_count graph) (gr_deny_reserved_reachable_count graph))
          (\<lambda>n. checked_add n (gr_deny_trigger_effects_unproven_count graph)))
          (\<lambda>n. checked_add n (gr_deny_view_write_semantics_unproven_count graph));
        relation_count = checked_add (gr_table_count graph) (gr_view_count graph);
        root_count = checked_add (gr_configured_reserved_root_count graph)
          (gr_automatic_reserved_root_count graph);
        node_count = checked_mul (gr_relation_count graph) 3
      in if gr_target_key_sha256 graph \<noteq> cat_target_key_sha256 catalog \<or>
        gr_catalog_snapshot_sha256 graph \<noteq> cat_catalog_snapshot_sha256 catalog \<or>
        gr_catalog_projection_version graph \<noteq> cat_projection_version catalog \<or>
        gr_catalog_row_count graph \<noteq> cat_catalog_row_count catalog \<or>
        gr_relation_count graph \<noteq> cat_relation_fact_count catalog \<or>
        gr_trigger_fact_count graph \<noteq> cat_trigger_owner_fact_count catalog \<or>
        gr_schema_auxiliary_fact_count graph \<noteq> cat_schema_auxiliary_fact_count catalog \<or>
        gr_foreign_key_fact_count graph \<noteq> cat_foreign_key_fact_count catalog \<or>
        gr_foreign_key_group_count graph > gr_foreign_key_fact_count graph \<or>
        gr_trigger_owned_relation_count graph > gr_trigger_fact_count graph \<or>
        relation_count \<noteq> Some (gr_relation_count graph) \<or>
        root_count \<noteq> Some (gr_total_reserved_root_count graph) \<or>
        node_count \<noteq> Some (gr_graph_node_count graph) \<or>
        decision_count \<noteq> Some (gr_graph_node_count graph) \<or>
        gr_total_reserved_root_count graph = 0 \<or>
        \<not> valid_sha256 (gr_target_key_sha256 graph) \<or>
        \<not> valid_sha256 (gr_catalog_snapshot_sha256 graph) \<or>
        \<not> valid_sha256 (gr_reserved_root_set_sha256 graph) \<or>
        \<not> valid_sha256 (gr_graph_sha256 graph) \<or>
        \<not> valid_sha256 (gr_decision_sha256 graph)
      then Inl (composition_error GraphProductMismatch
        ''reserved-relation graph contradicted the catalog or aggregate product'')
      else Inr ())"

definition validate_primitive_expansion ::
  "D1WriteOperationForm \<Rightarrow> D1RelationWriteOperation list \<Rightarrow> D1ExactPlanCompositionError + unit" where
  "validate_primitive_expansion form primitives =
     ok_then (map_err (\<lambda>_. composition_error CompoundWriteUnsupported
       ''classified write form is outside the closed primitive expansion contract'')
       (required_relation_write_operations form)) (\<lambda>expected.
     if primitives \<noteq> expected then Inl (composition_error PrimitiveExpansionMismatch
       ''effective primitives contradicted the closed operation-form expansion'')
     else Inr ())"

section \<open>Composition\<close>

fun form_label :: "D1WriteOperationForm \<Rightarrow> string" where
  "form_label InsertForm = ''insert''"
| "form_label UpdateForm = ''update''"
| "form_label DeleteForm = ''delete''"
| "form_label Replace = ''replace''"
| "form_label InsertOrReplace = ''insert_or_replace''"
| "form_label UpsertDoUpdate = ''upsert_do_update''"
| "form_label UpdateOrReplace = ''update_or_replace''"
| "form_label UnsupportedCompound = ''unsupported_compound''"

definition ser_graph_receipt :: "D1ReservedRelationGraphReceipt \<Rightarrow> ser" where
  "ser_graph_receipt r = SStruct
     [(''version'', ser_u8 (gr_version r)), (''operation'', SStr (gr_operation r)),
      (''target_key_sha256'', SStr (gr_target_key_sha256 r)),
      (''catalog_snapshot_sha256'', SStr (gr_catalog_snapshot_sha256 r)),
      (''catalog_projection_version'', ser_u8 (gr_catalog_projection_version r)),
      (''catalog_row_count'', ser_usize (gr_catalog_row_count r)),
      (''configured_reserved_root_count'', ser_usize (gr_configured_reserved_root_count r)),
      (''automatic_reserved_root_count'', ser_usize (gr_automatic_reserved_root_count r)),
      (''total_reserved_root_count'', ser_usize (gr_total_reserved_root_count r)),
      (''reserved_root_set_sha256'', SStr (gr_reserved_root_set_sha256 r)),
      (''relation_count'', ser_usize (gr_relation_count r)),
      (''table_count'', ser_usize (gr_table_count r)), (''view_count'', ser_usize (gr_view_count r)),
      (''trigger_fact_count'', ser_usize (gr_trigger_fact_count r)),
      (''trigger_owned_relation_count'', ser_usize (gr_trigger_owned_relation_count r)),
      (''schema_auxiliary_fact_count'', ser_usize (gr_schema_auxiliary_fact_count r)),
      (''foreign_key_fact_count'', ser_usize (gr_foreign_key_fact_count r)),
      (''foreign_key_group_count'', ser_usize (gr_foreign_key_group_count r)),
      (''autoincrement_relation_count'', ser_usize (gr_autoincrement_relation_count r)),
      (''graph_node_count'', ser_usize (gr_graph_node_count r)),
      (''graph_edge_count'', ser_usize (gr_graph_edge_count r)),
      (''allow_count'', ser_usize (gr_allow_count r)),
      (''deny_reserved_reachable_count'', ser_usize (gr_deny_reserved_reachable_count r)),
      (''deny_trigger_effects_unproven_count'', ser_usize (gr_deny_trigger_effects_unproven_count r)),
      (''deny_view_write_semantics_unproven_count'',
        ser_usize (gr_deny_view_write_semantics_unproven_count r)),
      (''graph_sha256'', SStr (gr_graph_sha256 r)), (''decision_sha256'', SStr (gr_decision_sha256 r))]"

text \<open>The loop that requires an \<open>Allow\<close> for each primitive.\<close>

definition primitive_step ::
  "(D1RelationWriteOperation \<Rightarrow> D1ReservedRelationDecision option)
    \<Rightarrow> (D1RelationWriteOperation \<times> D1ReservedRelationDecision) list \<Rightarrow> D1RelationWriteOperation
    \<Rightarrow> D1ExactPlanCompositionError + (D1RelationWriteOperation \<times> D1ReservedRelationDecision) list" where
  "primitive_step decide decisions operation =
     ok_then (ok_or (composition_error GraphDecisionMissing
       ''reserved-relation graph lacked one required primitive decision'') (decide operation))
     (\<lambda>decision. if decision \<noteq> Allow then Inl (composition_error GraphDecisionDenied
       ''reserved-relation graph denied one required primitive decision'')
     else Inr (decisions @ [(operation, decision)]))"

definition composition_receipt_of ::
  "env \<Rightarrow> D1TargetIdentity \<Rightarrow> string \<Rightarrow> string \<Rightarrow> D1WriteOperationForm \<Rightarrow> D1CatalogEvidenceReceipt
    \<Rightarrow> D1ReservedRelationGraphReceipt \<Rightarrow> D1RelationWriteOperation list
    \<Rightarrow> (D1RelationWriteOperation \<times> D1ReservedRelationDecision) list \<Rightarrow> D1ExactPlanCompositionReceipt" where
  "composition_receipt_of E target execute_plan_sha256 canonical_relation classified_form
     catalog_receipt graph_receipt primitives decisions =
     (let target_key = target_key_sha256 E target;
          catalog_receipt_sha256 = hash_serialized E (ser_catalog_receipt catalog_receipt);
          graph_receipt_sha256 = hash_serialized E (ser_graph_receipt graph_receipt);
          classified_relation_sha256 = sha256_hex E canonical_relation;
          classified_form_sha256 = hash_serialized E (SStr (form_label classified_form));
          effective_primitive_sha256 = hash_serialized E (SSeq (map ser_operation primitives));
          effective_decision_sha256 = hash_serialized E (SSeq
            [SStr classified_relation_sha256, SStr classified_form_sha256,
             SSeq (map (\<lambda>(o', d). SSeq [ser_operation o', ser_decision d]) decisions)]);
          composition_sha256 = hash_serialized E (SSeq
            [ser_u8 COMPOSITION_VERSION, SStr D1_EXACT_PLAN_COMPOSITION_OPERATION, SStr target_key,
             SStr execute_plan_sha256, SStr (cat_catalog_snapshot_sha256 catalog_receipt),
             SStr catalog_receipt_sha256, SStr (gr_graph_sha256 graph_receipt),
             SStr (gr_decision_sha256 graph_receipt), SStr graph_receipt_sha256,
             SStr classified_relation_sha256, SStr classified_form_sha256,
             SStr effective_primitive_sha256, SStr effective_decision_sha256])
      in \<lparr>comp_version = COMPOSITION_VERSION,
          comp_operation = D1_EXACT_PLAN_COMPOSITION_OPERATION,
          comp_target_key_sha256 = target_key,
          comp_execute_plan_sha256 = execute_plan_sha256,
          comp_catalog_snapshot_sha256 = cat_catalog_snapshot_sha256 catalog_receipt,
          comp_catalog_receipt_sha256 = catalog_receipt_sha256,
          comp_graph_sha256 = gr_graph_sha256 graph_receipt,
          comp_graph_decision_sha256 = gr_decision_sha256 graph_receipt,
          comp_graph_receipt_sha256 = graph_receipt_sha256,
          comp_classified_relation_sha256 = classified_relation_sha256,
          comp_classified_form_sha256 = classified_form_sha256,
          comp_effective_primitive_sha256 = effective_primitive_sha256,
          comp_effective_primitive_count = length primitives,
          comp_allow_decision_count = length decisions,
          comp_effective_decision_sha256 = effective_decision_sha256,
          comp_composition_sha256 = composition_sha256\<rparr>)"

definition compose_from_verified_parts ::
  "env \<Rightarrow> D1TargetIdentity \<Rightarrow> D1ExecuteWritePlan \<Rightarrow> string \<Rightarrow> string \<Rightarrow> D1WriteOperationForm
    \<Rightarrow> D1CatalogEvidenceReceipt \<Rightarrow> D1ReservedRelationGraphReceipt \<Rightarrow> D1RelationWriteOperation list
    \<Rightarrow> (D1RelationWriteOperation \<Rightarrow> D1ReservedRelationDecision option)
    \<Rightarrow> D1ExactPlanCompositionError + D1ExactPlanCompositionProduct" where
  "compose_from_verified_parts E target plan execute_plan_sha256 classified_relation classified_form
     catalog_receipt graph_receipt primitives decide =
     ok_then (validate_target target) (\<lambda>_.
     ok_then (validate_plan E target plan execute_plan_sha256 classified_form) (\<lambda>_.
     ok_then (validate_relation classified_relation) (\<lambda>canonical_relation.
     ok_then (validate_catalog_receipt E target catalog_receipt) (\<lambda>_.
     ok_then (validate_graph_receipt catalog_receipt graph_receipt) (\<lambda>_.
     if length (bset_of primitives) \<noteq> length primitives
     then Inl (composition_error PrimitiveDuplicate
       ''effective primitive expansion contained a duplicate operation'')
     else ok_then (validate_primitive_expansion classified_form primitives) (\<lambda>_.
     ok_then (try_fold (primitive_step decide) [] primitives) (\<lambda>decisions.
     Inr \<lparr>xprod_receipt = composition_receipt_of E target execute_plan_sha256 canonical_relation
            classified_form catalog_receipt graph_receipt primitives decisions,
          xprod_plan = plan, xprod_classified_relation = canonical_relation,
          xprod_classified_form = classified_form,
          xprod_effective_primitives = primitives\<rparr>)))))))"

definition compose_d1_exact_write_plan ::
  "env \<Rightarrow> D1TargetIdentity \<Rightarrow> D1ExecuteWritePlan \<Rightarrow> string \<Rightarrow> string \<Rightarrow> D1WriteOperationForm
    \<Rightarrow> D1CatalogEvidenceProduct \<Rightarrow> D1ReservedRelationGraphProduct
    \<Rightarrow> D1ExactPlanCompositionError + D1ExactPlanCompositionProduct" where
  "compose_d1_exact_write_plan E target plan execute_plan_sha256 classified_relation classified_form
     catalog graph =
     ok_then (map_err (\<lambda>_. composition_error CompoundWriteUnsupported
       ''classified write form is outside the closed primitive expansion contract'')
       (required_relation_write_operations classified_form)) (\<lambda>primitives.
     compose_from_verified_parts E target plan execute_plan_sha256 classified_relation classified_form
       (cprod_receipt catalog) (gprod_receipt graph) primitives
       (\<lambda>operation. decision_for graph classified_relation operation))"

end
