(* ===== verification/D1_Custody.thy ===== *)
theory D1_Custody
  imports D1_Composition
begin

text \<open>
  \<open>src/d1_dml_attempt_custody.rs\<close>: the recoverable state machine of one DML execution attempt. Each
  operation derives the binding of the attempt, restores the durable bytes against it, adds one piece
  of evidence and emits the canonical bytes of the successor state. The deserializer of the state
  (\<open>serde_json::from_slice\<close>) is the argument \<open>from_slice\<close>.
\<close>

definition D1_DML_ATTEMPT_CUSTODY_OPERATION :: string where
  "D1_DML_ATTEMPT_CUSTODY_OPERATION = ''d1_dml_attempt_custody''"

definition CUSTODY_VERSION :: u8 where
  "CUSTODY_VERSION = 1"

definition REQUIRED_COMPOSITION_VERSION :: u8 where
  "REQUIRED_COMPOSITION_VERSION = 1"

definition MAX_OPAQUE_IDENTITY_BYTES :: usize where
  "MAX_OPAQUE_IDENTITY_BYTES = 128"

definition MIN_OPAQUE_IDENTITY_BYTES :: usize where
  "MIN_OPAQUE_IDENTITY_BYTES = 16"

definition D1_DML_ATTEMPT_STATE_BYTE_CAP :: usize where
  "D1_DML_ATTEMPT_STATE_BYTE_CAP = 16 * 1024"

section \<open>Data\<close>

record D1DmlAttemptIdentities =
  operation_id :: string
  execution_attempt_id :: string
  provider_request_id :: string

datatype D1DmlAttemptPhase =
    PhasePrepared
  | DispatchReserved
  | ReconciliationRequired
  | TerminalApplied
  | TerminalNotApplied

datatype D1DmlAttemptAmbiguity =
    DispatchReplay
  | TransportUncertain
  | ResponseMissing
  | ResponseIncomplete
  | ResponseMalformed
  | ResponseContradictory

datatype D1DmlProviderTerminalClassification =
    SucceededChanged
  | SucceededUnchanged
  | RejectedTerminal

record D1DmlProviderTerminalAssertion =
  pta_classification :: D1DmlProviderTerminalClassification
  pta_evidence_sha256 :: string

datatype D1DmlReadbackTerminalClassification =
    ExpectedStateObserved
  | ExpectedStateAbsent

record D1DmlReadbackTerminalAssertion =
  rta_classification :: D1DmlReadbackTerminalClassification
  rta_readback_plan_sha256 :: string
  rta_evidence_sha256 :: string

record D1DmlProviderTerminalAssertionRecord =
  pr_version :: u8
  pr_attempt_binding_sha256 :: string
  pr_provider_request_id_sha256 :: string
  pr_classification :: D1DmlProviderTerminalClassification
  pr_evidence_sha256 :: string

record D1DmlReadbackTerminalAssertionRecord =
  rr_version :: u8
  rr_attempt_binding_sha256 :: string
  rr_classification :: D1DmlReadbackTerminalClassification
  rr_readback_plan_sha256 :: string
  rr_evidence_sha256 :: string

datatype D1DmlAttemptTerminalOutcome = Applied | NotApplied

record D1DmlAttemptState =
  st_version :: u8
  st_operation :: string
  st_target_key_sha256 :: string
  st_execute_plan_sha256 :: string
  st_composition_sha256 :: string
  st_composition_receipt_sha256 :: string
  st_operation_id_sha256 :: string
  st_execution_attempt_id_sha256 :: string
  st_provider_request_id_sha256 :: string
  st_attempt_binding_sha256 :: string
  st_phase :: D1DmlAttemptPhase
  st_dispatch_reservations :: u8
  st_ambiguity :: "D1DmlAttemptAmbiguity option"
  st_provider_assertion :: "D1DmlProviderTerminalAssertionRecord option"
  st_readback_assertion :: "D1DmlReadbackTerminalAssertionRecord option"
  st_terminal_outcome :: "D1DmlAttemptTerminalOutcome option"

datatype D1DmlAttemptTransition =
    TransitionPrepared
  | ExactReplay
  | DispatchReservationPrepared
  | DispatchReplayQuarantinePrepared
  | AmbiguityRecorded
  | ProviderAssertionRecorded
  | ProviderAssertionReplay
  | ReadbackAssertionRecorded
  | ReadbackAssertionReplay

datatype D1DmlAttemptRetryDecision =
    DispatchNotYetCrossed
  | DoNotRedispatchSameAttempt
  | TerminalReplayOnly

record D1DmlAttemptCustodyReceipt =
  cr_version :: u8
  cr_operation :: string
  cr_phase :: D1DmlAttemptPhase
  cr_transition :: D1DmlAttemptTransition
  cr_retry_decision :: D1DmlAttemptRetryDecision
  cr_target_key_sha256 :: string
  cr_execute_plan_sha256 :: string
  cr_composition_sha256 :: string
  cr_composition_receipt_sha256 :: string
  cr_operation_id_sha256 :: string
  cr_execution_attempt_id_sha256 :: string
  cr_provider_request_id_sha256 :: string
  cr_attempt_binding_sha256 :: string
  cr_state_sha256 :: string
  cr_state_size_bytes :: usize
  cr_state_byte_cap :: usize
  cr_dispatch_reservations :: u8
  cr_dispatch_atomic_compare_exchange_required :: bool
  cr_dispatch_expected_state_sha256 :: "string option"
  cr_dispatch_successor_state_sha256 :: "string option"
  cr_exact_replay :: bool
  cr_ambiguity :: "D1DmlAttemptAmbiguity option"
  cr_provider_assertion_present :: bool
  cr_provider_assertion_sha256 :: "string option"
  cr_readback_assertion_present :: bool
  cr_readback_assertion_sha256 :: "string option"
  cr_terminal_outcome :: "D1DmlAttemptTerminalOutcome option"

record D1DmlAttemptCustodyProduct =
  dprod_receipt :: D1DmlAttemptCustodyReceipt
  dprod_state_bytes :: bytes

datatype D1DmlAttemptCustodyClassification =
    TargetIdentityInvalid
  | CompositionProductMismatch
  | OpaqueIdentityInvalid
  | OpaqueIdentityDuplicate
  | RestoredStateRequired
  | RestoredStateTooLarge
  | RestoredStateMalformed
  | RestoredStateNonCanonical
  | RestoredStateUnsupported
  | RestoredStateContradictory
  | ReplayConflict
  | TransitionBeforeDispatch
  | AmbiguityConflict
  | EvidenceDigestInvalid
  | EvidenceConflict
  | StateLimitExceeded

type_synonym D1DmlAttemptCustodyError = "D1DmlAttemptCustodyClassification classified_error"
type_synonym 'a custody = "D1DmlAttemptCustodyError + 'a"

record D1DmlAttemptBinding =
  bind_target_key_sha256 :: string
  bind_execute_plan_sha256 :: string
  bind_composition_sha256 :: string
  bind_composition_receipt_sha256 :: string
  bind_operation_id_sha256 :: string
  bind_execution_attempt_id_sha256 :: string
  bind_provider_request_id_sha256 :: string
  bind_attempt_binding_sha256 :: string

definition custody_error :: "D1DmlAttemptCustodyClassification \<Rightarrow> string \<Rightarrow> D1DmlAttemptCustodyError" where
  "custody_error classification message =
     ClassifiedError ''d1.dml_attempt_custody_unproven'' classification message"

section \<open>Serialization\<close>

fun ser_phase :: "D1DmlAttemptPhase \<Rightarrow> ser" where
  "ser_phase PhasePrepared = SStr ''prepared''"
| "ser_phase DispatchReserved = SStr ''dispatch_reserved''"
| "ser_phase ReconciliationRequired = SStr ''reconciliation_required''"
| "ser_phase TerminalApplied = SStr ''terminal_applied''"
| "ser_phase TerminalNotApplied = SStr ''terminal_not_applied''"

fun ser_ambiguity :: "D1DmlAttemptAmbiguity \<Rightarrow> ser" where
  "ser_ambiguity DispatchReplay = SStr ''dispatch_replay''"
| "ser_ambiguity TransportUncertain = SStr ''transport_uncertain''"
| "ser_ambiguity ResponseMissing = SStr ''response_missing''"
| "ser_ambiguity ResponseIncomplete = SStr ''response_incomplete''"
| "ser_ambiguity ResponseMalformed = SStr ''response_malformed''"
| "ser_ambiguity ResponseContradictory = SStr ''response_contradictory''"

fun ser_provider_classification :: "D1DmlProviderTerminalClassification \<Rightarrow> ser" where
  "ser_provider_classification SucceededChanged = SStr ''succeeded_changed''"
| "ser_provider_classification SucceededUnchanged = SStr ''succeeded_unchanged''"
| "ser_provider_classification RejectedTerminal = SStr ''rejected_terminal''"

fun ser_readback_classification :: "D1DmlReadbackTerminalClassification \<Rightarrow> ser" where
  "ser_readback_classification ExpectedStateObserved = SStr ''expected_state_observed''"
| "ser_readback_classification ExpectedStateAbsent = SStr ''expected_state_absent''"

fun ser_terminal_outcome :: "D1DmlAttemptTerminalOutcome \<Rightarrow> ser" where
  "ser_terminal_outcome Applied = SStr ''applied''"
| "ser_terminal_outcome NotApplied = SStr ''not_applied''"

definition ser_provider_record :: "D1DmlProviderTerminalAssertionRecord \<Rightarrow> ser" where
  "ser_provider_record r = SStruct
     [(''version'', ser_u8 (pr_version r)),
      (''attempt_binding_sha256'', SStr (pr_attempt_binding_sha256 r)),
      (''provider_request_id_sha256'', SStr (pr_provider_request_id_sha256 r)),
      (''classification'', ser_provider_classification (pr_classification r)),
      (''evidence_sha256'', SStr (pr_evidence_sha256 r))]"

definition ser_readback_record :: "D1DmlReadbackTerminalAssertionRecord \<Rightarrow> ser" where
  "ser_readback_record r = SStruct
     [(''version'', ser_u8 (rr_version r)),
      (''attempt_binding_sha256'', SStr (rr_attempt_binding_sha256 r)),
      (''classification'', ser_readback_classification (rr_classification r)),
      (''readback_plan_sha256'', SStr (rr_readback_plan_sha256 r)),
      (''evidence_sha256'', SStr (rr_evidence_sha256 r))]"

definition ser_state :: "D1DmlAttemptState \<Rightarrow> ser" where
  "ser_state s = SStruct
     [(''version'', ser_u8 (st_version s)), (''operation'', SStr (st_operation s)),
      (''target_key_sha256'', SStr (st_target_key_sha256 s)),
      (''execute_plan_sha256'', SStr (st_execute_plan_sha256 s)),
      (''composition_sha256'', SStr (st_composition_sha256 s)),
      (''composition_receipt_sha256'', SStr (st_composition_receipt_sha256 s)),
      (''operation_id_sha256'', SStr (st_operation_id_sha256 s)),
      (''execution_attempt_id_sha256'', SStr (st_execution_attempt_id_sha256 s)),
      (''provider_request_id_sha256'', SStr (st_provider_request_id_sha256 s)),
      (''attempt_binding_sha256'', SStr (st_attempt_binding_sha256 s)),
      (''phase'', ser_phase (st_phase s)),
      (''dispatch_reservations'', ser_u8 (st_dispatch_reservations s)),
      (''ambiguity'', ser_option ser_ambiguity (st_ambiguity s)),
      (''provider_assertion'', ser_option ser_provider_record (st_provider_assertion s)),
      (''readback_assertion'', ser_option ser_readback_record (st_readback_assertion s)),
      (''terminal_outcome'', ser_option ser_terminal_outcome (st_terminal_outcome s))]"

definition ser_composition_receipt :: "D1ExactPlanCompositionReceipt \<Rightarrow> ser" where
  "ser_composition_receipt r = SStruct
     [(''version'', ser_u8 (comp_version r)), (''operation'', SStr (comp_operation r)),
      (''target_key_sha256'', SStr (comp_target_key_sha256 r)),
      (''execute_plan_sha256'', SStr (comp_execute_plan_sha256 r)),
      (''catalog_snapshot_sha256'', SStr (comp_catalog_snapshot_sha256 r)),
      (''catalog_receipt_sha256'', SStr (comp_catalog_receipt_sha256 r)),
      (''graph_sha256'', SStr (comp_graph_sha256 r)),
      (''graph_decision_sha256'', SStr (comp_graph_decision_sha256 r)),
      (''graph_receipt_sha256'', SStr (comp_graph_receipt_sha256 r)),
      (''classified_relation_sha256'', SStr (comp_classified_relation_sha256 r)),
      (''classified_form_sha256'', SStr (comp_classified_form_sha256 r)),
      (''effective_primitive_sha256'', SStr (comp_effective_primitive_sha256 r)),
      (''effective_primitive_count'', ser_usize (comp_effective_primitive_count r)),
      (''allow_decision_count'', ser_usize (comp_allow_decision_count r)),
      (''effective_decision_sha256'', SStr (comp_effective_decision_sha256 r)),
      (''composition_sha256'', SStr (comp_composition_sha256 r))]"

definition canonical_state_bytes :: "env \<Rightarrow> D1DmlAttemptState \<Rightarrow> bytes custody" where
  "canonical_state_bytes E state =
     (let bytes = to_vec E (ser_state state) @ [CHR 0x0A]
      in if length bytes > D1_DML_ATTEMPT_STATE_BYTE_CAP
         then Inl (custody_error StateLimitExceeded
           ''canonical attempt state exceeded the exact byte cap'')
         else Inr bytes)"

section \<open>Validation\<close>

definition custody_valid_sha256 :: "string \<Rightarrow> bool" where
  "custody_valid_sha256 v \<longleftrightarrow>
     length v = 64 \<and> list_all (\<lambda>b. is_ascii_digit b \<or> byte_in (CHR ''a'') (CHR ''f'') b) v"

definition valid_opaque_identity :: "string \<Rightarrow> bool" where
  "valid_opaque_identity v \<longleftrightarrow>
     MIN_OPAQUE_IDENTITY_BYTES \<le> length v \<and> length v \<le> MAX_OPAQUE_IDENTITY_BYTES \<and>
     list_all (\<lambda>b. is_ascii_alphanumeric b \<or> b \<in> {CHR ''.'', CHR ''_'', CHR '':'', CHR ''-''}) v"

definition all_state_digests_are_valid :: "D1DmlAttemptState \<Rightarrow> bool" where
  "all_state_digests_are_valid state =
     list_all custody_valid_sha256
       [st_target_key_sha256 state, st_execute_plan_sha256 state, st_composition_sha256 state,
        st_composition_receipt_sha256 state, st_operation_id_sha256 state,
        st_execution_attempt_id_sha256 state, st_provider_request_id_sha256 state,
        st_attempt_binding_sha256 state]"

definition composition_receipt_digests_are_valid :: "D1ExactPlanCompositionReceipt \<Rightarrow> bool" where
  "composition_receipt_digests_are_valid receipt =
     list_all custody_valid_sha256
       [comp_target_key_sha256 receipt, comp_execute_plan_sha256 receipt,
        comp_catalog_snapshot_sha256 receipt, comp_catalog_receipt_sha256 receipt,
        comp_graph_sha256 receipt, comp_graph_decision_sha256 receipt,
        comp_graph_receipt_sha256 receipt, comp_classified_relation_sha256 receipt,
        comp_classified_form_sha256 receipt, comp_effective_primitive_sha256 receipt,
        comp_effective_decision_sha256 receipt, comp_composition_sha256 receipt]"

definition state_matches_binding :: "D1DmlAttemptState \<Rightarrow> D1DmlAttemptBinding \<Rightarrow> bool" where
  "state_matches_binding state b \<longleftrightarrow>
     st_target_key_sha256 state = bind_target_key_sha256 b \<and>
     st_execute_plan_sha256 state = bind_execute_plan_sha256 b \<and>
     st_composition_sha256 state = bind_composition_sha256 b \<and>
     st_composition_receipt_sha256 state = bind_composition_receipt_sha256 b \<and>
     st_operation_id_sha256 state = bind_operation_id_sha256 b \<and>
     st_execution_attempt_id_sha256 state = bind_execution_attempt_id_sha256 b \<and>
     st_provider_request_id_sha256 state = bind_provider_request_id_sha256 b \<and>
     st_attempt_binding_sha256 state = bind_attempt_binding_sha256 b"

definition require_dispatch_reserved :: "D1DmlAttemptState \<Rightarrow> unit custody" where
  "require_dispatch_reserved state =
     (if st_dispatch_reservations state \<noteq> 1
      then Inl (custody_error TransitionBeforeDispatch
        ''post-dispatch assertion cannot precede the durable dispatch reservation'')
      else Inr ())"

definition validate_provider_assertion :: "D1DmlAttemptState \<Rightarrow> unit custody" where
  "validate_provider_assertion state =
     (case st_provider_assertion state of
        None \<Rightarrow> Inr ()
      | Some a \<Rightarrow>
          (if pr_version a \<noteq> CUSTODY_VERSION \<or>
             pr_attempt_binding_sha256 a \<noteq> st_attempt_binding_sha256 state \<or>
             pr_provider_request_id_sha256 a \<noteq> st_provider_request_id_sha256 state \<or>
             \<not> custody_valid_sha256 (pr_evidence_sha256 a)
           then Inl (custody_error RestoredStateContradictory
             ''provider terminal assertion contradicted attempt custody'')
           else Inr ()))"

definition validate_readback_assertion :: "D1DmlAttemptState \<Rightarrow> unit custody" where
  "validate_readback_assertion state =
     (case st_readback_assertion state of
        None \<Rightarrow> Inr ()
      | Some a \<Rightarrow>
          (if rr_version a \<noteq> CUSTODY_VERSION \<or>
             rr_attempt_binding_sha256 a \<noteq> st_attempt_binding_sha256 state \<or>
             \<not> custody_valid_sha256 (rr_readback_plan_sha256 a) \<or>
             \<not> custody_valid_sha256 (rr_evidence_sha256 a)
           then Inl (custody_error RestoredStateContradictory
             ''readback terminal assertion contradicted attempt custody'')
           else Inr ()))"

text \<open>The match on the two assertion slots.\<close>

fun pair_outcome ::
  "D1DmlProviderTerminalClassification \<Rightarrow> D1DmlReadbackTerminalClassification
    \<Rightarrow> D1DmlAttemptTerminalOutcome option" where
  "pair_outcome SucceededChanged ExpectedStateObserved = Some Applied"
| "pair_outcome SucceededUnchanged ExpectedStateObserved = Some Applied"
| "pair_outcome RejectedTerminal ExpectedStateAbsent = Some NotApplied"
| "pair_outcome _ _ = None"

definition assertion_outcome :: "D1DmlAttemptState \<Rightarrow> D1DmlAttemptTerminalOutcome option" where
  "assertion_outcome state =
     (case (st_provider_assertion state, st_readback_assertion state) of
        (Some provider, Some readback) \<Rightarrow> pair_outcome (pr_classification provider) (rr_classification readback)
      | _ \<Rightarrow> None)"

definition derive_phase_and_terminal ::
  "D1DmlAttemptState \<Rightarrow> (D1DmlAttemptPhase \<times> D1DmlAttemptTerminalOutcome option) custody" where
  "derive_phase_and_terminal state =
     (if st_dispatch_reservations state > 1
      then Inl (custody_error RestoredStateContradictory
        ''attempt state claimed more than one dispatch reservation'')
      else if st_dispatch_reservations state = 0
      then (if st_ambiguity state \<noteq> None \<or> st_provider_assertion state \<noteq> None \<or>
              st_readback_assertion state \<noteq> None \<or> st_terminal_outcome state \<noteq> None
            then Inl (custody_error RestoredStateContradictory
              ''predispatch attempt state contained post-dispatch evidence'')
            else Inr (PhasePrepared, None))
      else let outcome = assertion_outcome state;
        contradictory_pair = (st_provider_assertion state \<noteq> None \<and>
          st_readback_assertion state \<noteq> None \<and> outcome = None);
        phase = (case outcome of
            Some Applied \<Rightarrow> TerminalApplied
          | Some NotApplied \<Rightarrow> TerminalNotApplied
          | None \<Rightarrow> (if st_ambiguity state \<noteq> None \<or> contradictory_pair
              then ReconciliationRequired else DispatchReserved))
      in Inr (phase, outcome))"

definition validate_state :: "D1DmlAttemptState \<Rightarrow> unit custody" where
  "validate_state state =
     (if st_version state \<noteq> CUSTODY_VERSION \<or> st_operation state \<noteq> D1_DML_ATTEMPT_CUSTODY_OPERATION
      then Inl (custody_error RestoredStateUnsupported
        ''attempt state artifact version or operation was unsupported'')
      else if \<not> all_state_digests_are_valid state
      then Inl (custody_error RestoredStateContradictory
        ''attempt state artifact contained malformed digest evidence'')
      else ok_then (validate_provider_assertion state) (\<lambda>_.
      ok_then (validate_readback_assertion state) (\<lambda>_.
      ok_then (derive_phase_and_terminal state) (\<lambda>(expected_phase, expected_terminal).
      if st_phase state \<noteq> expected_phase \<or> st_terminal_outcome state \<noteq> expected_terminal
      then Inl (custody_error RestoredStateContradictory
        ''attempt state phase contradicted its durable evidence'')
      else Inr ()))))"

definition refresh_derived_state :: "D1DmlAttemptState \<Rightarrow> D1DmlAttemptState custody" where
  "refresh_derived_state state =
     ok_then (derive_phase_and_terminal state) (\<lambda>(phase, terminal).
     let state = state\<lparr>st_phase := phase, st_terminal_outcome := terminal\<rparr>
     in ok_then (validate_state state) (\<lambda>_. Inr state))"

definition restore_exact_state ::
  "env \<Rightarrow> (bytes \<Rightarrow> D1DmlAttemptState option) \<Rightarrow> bytes \<Rightarrow> D1DmlAttemptBinding
    \<Rightarrow> D1DmlAttemptState custody" where
  "restore_exact_state E from_slice bytes b =
     (if bytes = []
      then Inl (custody_error RestoredStateRequired
        ''one physically present attempt state artifact was required'')
      else if length bytes > D1_DML_ATTEMPT_STATE_BYTE_CAP
      then Inl (custody_error RestoredStateTooLarge
        ''attempt state artifact exceeded the exact byte cap'')
      else ok_then (ok_or (custody_error RestoredStateMalformed
        ''attempt state artifact was malformed or outside the closed schema'') (from_slice bytes)) (\<lambda>state.
      ok_then (canonical_state_bytes E state) (\<lambda>canonical.
      if canonical \<noteq> bytes
      then Inl (custody_error RestoredStateNonCanonical
        ''attempt state artifact was not exact canonical JSON'')
      else ok_then (validate_state state) (\<lambda>_.
      if \<not> state_matches_binding state b
      then Inl (custody_error ReplayConflict
        ''attempt replay contradicted the exact target, plan, composition, or identities'')
      else Inr state))))"

section \<open>Product\<close>

fun retry_decision_of :: "D1DmlAttemptPhase \<Rightarrow> D1DmlAttemptRetryDecision" where
  "retry_decision_of PhasePrepared = DispatchNotYetCrossed"
| "retry_decision_of DispatchReserved = DoNotRedispatchSameAttempt"
| "retry_decision_of ReconciliationRequired = DoNotRedispatchSameAttempt"
| "retry_decision_of TerminalApplied = TerminalReplayOnly"
| "retry_decision_of TerminalNotApplied = TerminalReplayOnly"

definition product ::
  "env \<Rightarrow> D1DmlAttemptState \<Rightarrow> D1DmlAttemptTransition \<Rightarrow> bytes option \<Rightarrow> bool
    \<Rightarrow> D1DmlAttemptCustodyProduct custody" where
  "product E state transition dispatch_expected_state exact_replay =
     ok_then (validate_state state) (\<lambda>_.
     ok_then (canonical_state_bytes E state) (\<lambda>state_bytes.
     let state_sha256 = sha256_hex E state_bytes;
         receipt =
       \<lparr>cr_version = CUSTODY_VERSION, cr_operation = D1_DML_ATTEMPT_CUSTODY_OPERATION,
        cr_phase = st_phase state, cr_transition = transition,
        cr_retry_decision = retry_decision_of (st_phase state),
        cr_target_key_sha256 = st_target_key_sha256 state,
        cr_execute_plan_sha256 = st_execute_plan_sha256 state,
        cr_composition_sha256 = st_composition_sha256 state,
        cr_composition_receipt_sha256 = st_composition_receipt_sha256 state,
        cr_operation_id_sha256 = st_operation_id_sha256 state,
        cr_execution_attempt_id_sha256 = st_execution_attempt_id_sha256 state,
        cr_provider_request_id_sha256 = st_provider_request_id_sha256 state,
        cr_attempt_binding_sha256 = st_attempt_binding_sha256 state,
        cr_state_sha256 = state_sha256, cr_state_size_bytes = length state_bytes,
        cr_state_byte_cap = D1_DML_ATTEMPT_STATE_BYTE_CAP,
        cr_dispatch_reservations = st_dispatch_reservations state,
        cr_dispatch_atomic_compare_exchange_required = (dispatch_expected_state \<noteq> None),
        cr_dispatch_expected_state_sha256 = map_option (sha256_hex E) dispatch_expected_state,
        cr_dispatch_successor_state_sha256 = map_option (\<lambda>_. state_sha256) dispatch_expected_state,
        cr_exact_replay = exact_replay, cr_ambiguity = st_ambiguity state,
        cr_provider_assertion_present = (st_provider_assertion state \<noteq> None),
        cr_provider_assertion_sha256 =
          map_option (\<lambda>a. hash_serialized E (ser_provider_record a)) (st_provider_assertion state),
        cr_readback_assertion_present = (st_readback_assertion state \<noteq> None),
        cr_readback_assertion_sha256 =
          map_option (\<lambda>a. hash_serialized E (ser_readback_record a)) (st_readback_assertion state),
        cr_terminal_outcome = st_terminal_outcome state\<rparr>
     in Inr \<lparr>dprod_receipt = receipt, dprod_state_bytes = state_bytes\<rparr>))"

section \<open>Binding\<close>

definition derive_attempt_binding ::
  "env \<Rightarrow> D1TargetIdentity \<Rightarrow> D1ExactPlanCompositionProduct \<Rightarrow> D1DmlAttemptIdentities
    \<Rightarrow> D1DmlAttemptBinding custody" where
  "derive_attempt_binding E target composition identities =
     ok_then (map_err (\<lambda>_. custody_error TargetIdentityInvalid
       ''D1 target identity was not exact canonical input'')
       (normalize_d1_target (tgt_account_id target) (tgt_database_id target))) (\<lambda>normalized.
     if normalized \<noteq> target
     then Inl (custody_error TargetIdentityInvalid
       ''D1 target identity was not exact canonical input'')
     else let receipt = xprod_receipt composition; plan = xprod_plan composition;
       target_key = target_key_sha256 E target
     in if comp_version receipt \<noteq> REQUIRED_COMPOSITION_VERSION \<or>
       comp_operation receipt \<noteq> D1_EXACT_PLAN_COMPOSITION_OPERATION \<or>
       comp_target_key_sha256 receipt \<noteq> target_key \<or>
       wp_account_id plan \<noteq> tgt_account_id target \<or>
       wp_database_id plan \<noteq> tgt_database_id target \<or>
       wp_target_key_sha256 plan \<noteq> target_key \<or>
       hash_serialized E (ser_write_plan plan) \<noteq> comp_execute_plan_sha256 receipt \<or>
       comp_effective_primitive_count receipt \<noteq> length (xprod_effective_primitives composition) \<or>
       comp_allow_decision_count receipt \<noteq> comp_effective_primitive_count receipt \<or>
       \<not> composition_receipt_digests_are_valid receipt
     then Inl (custody_error CompositionProductMismatch
       ''exact DML composition contradicted the target or opaque product'')
     else let opaque = [operation_id identities, execution_attempt_id identities,
       provider_request_id identities]
     in if list_ex (\<lambda>v. \<not> valid_opaque_identity v) opaque
     then Inl (custody_error OpaqueIdentityInvalid
       ''preallocated attempt identities were not exact bounded opaque identifiers'')
     else if length (bset_of opaque) \<noteq> 3
     then Inl (custody_error OpaqueIdentityDuplicate
       ''preallocated attempt identities were not pairwise distinct'')
     else let operation_id_sha256 = sha256_hex E (operation_id identities);
       execution_attempt_id_sha256 = sha256_hex E (execution_attempt_id identities);
       provider_request_id_sha256 = sha256_hex E (provider_request_id identities);
       composition_receipt_sha256 = hash_serialized E (ser_composition_receipt receipt);
       attempt_binding_sha256 = hash_serialized E (SSeq
         [ser_u8 CUSTODY_VERSION, SStr D1_DML_ATTEMPT_CUSTODY_OPERATION, SStr target_key,
          SStr (comp_execute_plan_sha256 receipt), SStr (comp_composition_sha256 receipt),
          SStr composition_receipt_sha256, SStr operation_id_sha256,
          SStr execution_attempt_id_sha256, SStr provider_request_id_sha256])
     in Inr \<lparr>bind_target_key_sha256 = target_key,
          bind_execute_plan_sha256 = comp_execute_plan_sha256 receipt,
          bind_composition_sha256 = comp_composition_sha256 receipt,
          bind_composition_receipt_sha256 = composition_receipt_sha256,
          bind_operation_id_sha256 = operation_id_sha256,
          bind_execution_attempt_id_sha256 = execution_attempt_id_sha256,
          bind_provider_request_id_sha256 = provider_request_id_sha256,
          bind_attempt_binding_sha256 = attempt_binding_sha256\<rparr>)"

section \<open>Operations\<close>

definition initial_state :: "D1DmlAttemptBinding \<Rightarrow> D1DmlAttemptState" where
  "initial_state b =
     \<lparr>st_version = CUSTODY_VERSION, st_operation = D1_DML_ATTEMPT_CUSTODY_OPERATION,
      st_target_key_sha256 = bind_target_key_sha256 b,
      st_execute_plan_sha256 = bind_execute_plan_sha256 b,
      st_composition_sha256 = bind_composition_sha256 b,
      st_composition_receipt_sha256 = bind_composition_receipt_sha256 b,
      st_operation_id_sha256 = bind_operation_id_sha256 b,
      st_execution_attempt_id_sha256 = bind_execution_attempt_id_sha256 b,
      st_provider_request_id_sha256 = bind_provider_request_id_sha256 b,
      st_attempt_binding_sha256 = bind_attempt_binding_sha256 b,
      st_phase = PhasePrepared, st_dispatch_reservations = 0, st_ambiguity = None,
      st_provider_assertion = None, st_readback_assertion = None, st_terminal_outcome = None\<rparr>"

definition prepare_d1_dml_attempt ::
  "env \<Rightarrow> (bytes \<Rightarrow> D1DmlAttemptState option) \<Rightarrow> D1TargetIdentity \<Rightarrow> D1ExactPlanCompositionProduct
    \<Rightarrow> D1DmlAttemptIdentities \<Rightarrow> bytes option \<Rightarrow> D1DmlAttemptCustodyProduct custody" where
  "prepare_d1_dml_attempt E from_slice target composition identities restored_state =
     ok_then (derive_attempt_binding E target composition identities) (\<lambda>b.
     case restored_state of
       None \<Rightarrow> product E (initial_state b) TransitionPrepared None False
     | Some bytes \<Rightarrow> ok_then (restore_exact_state E from_slice bytes b) (\<lambda>state.
         product E state ExactReplay None True))"

definition prepare_d1_dml_dispatch_reservation_cas ::
  "env \<Rightarrow> (bytes \<Rightarrow> D1DmlAttemptState option) \<Rightarrow> D1TargetIdentity \<Rightarrow> D1ExactPlanCompositionProduct
    \<Rightarrow> D1DmlAttemptIdentities \<Rightarrow> bytes \<Rightarrow> D1DmlAttemptCustodyProduct custody" where
  "prepare_d1_dml_dispatch_reservation_cas E from_slice target composition identities restored_state =
     ok_then (derive_attempt_binding E target composition identities) (\<lambda>b.
     ok_then (restore_exact_state E from_slice restored_state b) (\<lambda>state.
     case st_phase state of
       PhasePrepared \<Rightarrow>
         ok_then (refresh_derived_state (state\<lparr>st_dispatch_reservations := 1\<rparr>)) (\<lambda>state.
         product E state DispatchReservationPrepared (Some restored_state) False)
     | DispatchReserved \<Rightarrow>
         ok_then (refresh_derived_state (state\<lparr>st_ambiguity := Some DispatchReplay\<rparr>)) (\<lambda>state.
         product E state DispatchReplayQuarantinePrepared None False)
     | _ \<Rightarrow> product E state ExactReplay None True))"

definition record_d1_dml_attempt_ambiguity ::
  "env \<Rightarrow> (bytes \<Rightarrow> D1DmlAttemptState option) \<Rightarrow> D1TargetIdentity \<Rightarrow> D1ExactPlanCompositionProduct
    \<Rightarrow> D1DmlAttemptIdentities \<Rightarrow> bytes \<Rightarrow> D1DmlAttemptAmbiguity
    \<Rightarrow> D1DmlAttemptCustodyProduct custody" where
  "record_d1_dml_attempt_ambiguity E from_slice target composition identities restored_state ambiguity =
     ok_then (derive_attempt_binding E target composition identities) (\<lambda>b.
     ok_then (restore_exact_state E from_slice restored_state b) (\<lambda>state.
     ok_then (require_dispatch_reserved state) (\<lambda>_.
     case st_ambiguity state of
       Some incumbent \<Rightarrow>
         (if incumbent \<noteq> ambiguity
          then Inl (custody_error AmbiguityConflict
            ''attempt ambiguity contradicted incumbent durable evidence'')
          else product E state ExactReplay None True)
     | None \<Rightarrow>
         (if st_terminal_outcome state \<noteq> None
          then Inl (custody_error AmbiguityConflict
            ''terminal attempt had no incumbent ambiguity to replay'')
          else ok_then (refresh_derived_state (state\<lparr>st_ambiguity := Some ambiguity\<rparr>)) (\<lambda>state.
            product E state AmbiguityRecorded None False)))))"

definition record_d1_dml_provider_terminal_assertion ::
  "env \<Rightarrow> (bytes \<Rightarrow> D1DmlAttemptState option) \<Rightarrow> D1TargetIdentity \<Rightarrow> D1ExactPlanCompositionProduct
    \<Rightarrow> D1DmlAttemptIdentities \<Rightarrow> bytes \<Rightarrow> D1DmlProviderTerminalAssertion
    \<Rightarrow> D1DmlAttemptCustodyProduct custody" where
  "record_d1_dml_provider_terminal_assertion E from_slice target composition identities restored_state
     assertion =
     ok_then (derive_attempt_binding E target composition identities) (\<lambda>b.
     ok_then (restore_exact_state E from_slice restored_state b) (\<lambda>state.
     ok_then (require_dispatch_reserved state) (\<lambda>_.
     if \<not> custody_valid_sha256 (pta_evidence_sha256 assertion)
     then Inl (custody_error EvidenceDigestInvalid
       ''provider terminal assertion digest was not canonical SHA-256'')
     else let candidate =
       \<lparr>pr_version = CUSTODY_VERSION, pr_attempt_binding_sha256 = bind_attempt_binding_sha256 b,
        pr_provider_request_id_sha256 = bind_provider_request_id_sha256 b,
        pr_classification = pta_classification assertion,
        pr_evidence_sha256 = pta_evidence_sha256 assertion\<rparr>
     in case st_provider_assertion state of
       Some incumbent \<Rightarrow>
         (if incumbent \<noteq> candidate
          then Inl (custody_error EvidenceConflict
            ''provider terminal assertion contradicted the incumbent product'')
          else product E state ProviderAssertionReplay None True)
     | None \<Rightarrow>
         ok_then (refresh_derived_state (state\<lparr>st_provider_assertion := Some candidate\<rparr>)) (\<lambda>state.
         product E state ProviderAssertionRecorded None False))))"

definition record_d1_dml_readback_terminal_assertion ::
  "env \<Rightarrow> (bytes \<Rightarrow> D1DmlAttemptState option) \<Rightarrow> D1TargetIdentity \<Rightarrow> D1ExactPlanCompositionProduct
    \<Rightarrow> D1DmlAttemptIdentities \<Rightarrow> bytes \<Rightarrow> D1DmlReadbackTerminalAssertion
    \<Rightarrow> D1DmlAttemptCustodyProduct custody" where
  "record_d1_dml_readback_terminal_assertion E from_slice target composition identities restored_state
     assertion =
     ok_then (derive_attempt_binding E target composition identities) (\<lambda>b.
     ok_then (restore_exact_state E from_slice restored_state b) (\<lambda>state.
     ok_then (require_dispatch_reserved state) (\<lambda>_.
     if \<not> custody_valid_sha256 (rta_readback_plan_sha256 assertion) \<or>
       \<not> custody_valid_sha256 (rta_evidence_sha256 assertion)
     then Inl (custody_error EvidenceDigestInvalid
       ''readback terminal assertion digests were not canonical SHA-256'')
     else let candidate =
       \<lparr>rr_version = CUSTODY_VERSION, rr_attempt_binding_sha256 = bind_attempt_binding_sha256 b,
        rr_classification = rta_classification assertion,
        rr_readback_plan_sha256 = rta_readback_plan_sha256 assertion,
        rr_evidence_sha256 = rta_evidence_sha256 assertion\<rparr>
     in case st_readback_assertion state of
       Some incumbent \<Rightarrow>
         (if incumbent \<noteq> candidate
          then Inl (custody_error EvidenceConflict
            ''readback terminal assertion contradicted the incumbent product'')
          else product E state ReadbackAssertionReplay None True)
     | None \<Rightarrow>
         ok_then (refresh_derived_state (state\<lparr>st_readback_assertion := Some candidate\<rparr>)) (\<lambda>state.
         product E state ReadbackAssertionRecorded None False))))"

end
