(* ===== verification/D1_Composition_Sound.thy ===== *)
theory D1_Composition_Sound
  imports D1_Composition
begin

text \<open>
  What a composition guarantees and when it succeeds: an accepted composition binds one canonical
  target, plan and digest and every primitive of it is allowed by the graph; conversely the receipts
  the earlier stages produce pass every check of this one.
\<close>

section \<open>Acceptance\<close>

interpretation composition_digest: digest_grammar valid_sha256
  by unfold_locales (simp add: valid_sha256_def lower_hex_digit_def [abs_def])

lemma primitive_fold_Inr:
  "try_fold (primitive_step decide) ds ops = Inr ds' \<longleftrightarrow>
     (\<forall>o' \<in> set ops. decide o' = Some Allow) \<and> ds' = ds @ map (\<lambda>o'. (o', Allow)) ops"
proof (induction ops arbitrary: ds)
  case (Cons o' ops)
  show ?case
  proof (cases "decide o' = Some Allow")
    case True
    then have "primitive_step decide ds o' = Inr (ds @ [(o', Allow)])" by (simp add: primitive_step_def)
    with Cons True show ?thesis by simp
  next
    case False
    then have "\<exists>e. primitive_step decide ds o' = Inl e"
      by (cases "decide o'") (auto simp: primitive_step_def)
    with False show ?thesis by auto
  qed
qed auto

lemma validate_target_Inr: "validate_target t = Inr u \<longleftrightarrow> canonical_d1_target t"
  by (auto simp: validate_target_def canonical_d1_target_def result_simps)

lemma validate_plan_Inr:
  "validate_plan E target plan sha form = Inr u \<longleftrightarrow>
     valid_sha256 sha \<and> valid_sha256 (wp_execution_session_sha256 plan) \<and>
     valid_sha256 (wp_sql_sha256 plan) \<and> valid_sha256 (wp_params_sha256 plan) \<and>
     wp_version plan = 2 \<and> wp_operation plan = D1_EXECUTE_WRITE_OPERATION \<and>
     0 < wp_sql_size_bytes plan \<and> 0 < wp_params_size_bytes plan \<and>
     1 \<le> wp_max_rows plan \<and> wp_max_rows plan \<le> 1000 \<and>
     sha = hash_serialized E (ser_write_plan plan) \<and>
     wp_account_id plan = tgt_account_id target \<and> wp_database_id plan = tgt_database_id target \<and>
     wp_target_key_sha256 plan = target_key_sha256 E target \<and>
     statement_kind_matches_form (wp_statement_kind plan) form"
  by (auto simp: validate_plan_def REQUIRED_EXECUTE_PLAN_VERSION_def MAX_WRITE_ROWS_def)

text \<open>The conditions of an accepted composition, each as a fact.\<close>

lemma compose_Inr:
  "compose_d1_exact_write_plan E target plan sha relation form catalog graph = Inr x \<longleftrightarrow>
     (\<exists>ops. required_relation_write_operations form = Inr ops \<and>
       canonical_d1_target target \<and> validate_plan E target plan sha form = Inr () \<and>
       validate_relation relation = Inr relation \<and>
       validate_catalog_receipt E target (cprod_receipt catalog) = Inr () \<and>
       validate_graph_receipt (cprod_receipt catalog) (gprod_receipt graph) = Inr () \<and>
       (\<forall>o' \<in> set ops. decision_for graph relation o' = Some Allow) \<and>
       x = \<lparr>xprod_receipt = composition_receipt_of E target sha relation form
              (cprod_receipt catalog) (gprod_receipt graph) ops (map (\<lambda>o'. (o', Allow)) ops),
            xprod_plan = plan, xprod_classified_relation = relation,
            xprod_classified_form = form, xprod_effective_primitives = ops\<rparr>)"
proof -
  have dist: "length (bset_of ops) = length ops" if "required_relation_write_operations form = Inr ops" for ops
    using that unfolding length_bset_of_eq by (cases form) auto
  have rel: "c = relation" if "validate_relation relation = Inr c" for c
    using that by (simp add: validate_relation_def split: if_splits)
  have exp: "validate_primitive_expansion form ops = Inr ()"
    if "required_relation_write_operations form = Inr ops" for ops
    using that by (simp add: validate_primitive_expansion_def)
  have eq: "compose_d1_exact_write_plan E target plan sha relation form catalog graph = Inr x \<longleftrightarrow>
    (\<exists>ops. required_relation_write_operations form = Inr ops \<and>
      compose_from_verified_parts E target plan sha relation form (cprod_receipt catalog)
        (gprod_receipt graph) ops (\<lambda>o'. decision_for graph relation o') = Inr x)"
    unfolding compose_d1_exact_write_plan_def ok_then_eq_Inr map_err_eq_Inr ..
  show ?thesis
    unfolding eq
  proof (intro ex_cong1 conj_cong refl)
    fix ops
    assume ops: "required_relation_write_operations form = Inr ops"
    show "compose_from_verified_parts E target plan sha relation form (cprod_receipt catalog)
        (gprod_receipt graph) ops (\<lambda>o'. decision_for graph relation o') = Inr x \<longleftrightarrow>
      canonical_d1_target target \<and> validate_plan E target plan sha form = Inr () \<and>
       validate_relation relation = Inr relation \<and>
       validate_catalog_receipt E target (cprod_receipt catalog) = Inr () \<and>
       validate_graph_receipt (cprod_receipt catalog) (gprod_receipt graph) = Inr () \<and>
       (\<forall>o' \<in> set ops. decision_for graph relation o' = Some Allow) \<and>
       x = \<lparr>xprod_receipt = composition_receipt_of E target sha relation form
              (cprod_receipt catalog) (gprod_receipt graph) ops (map (\<lambda>o'. (o', Allow)) ops),
            xprod_plan = plan, xprod_classified_relation = relation,
            xprod_classified_form = form, xprod_effective_primitives = ops\<rparr>"
      unfolding compose_from_verified_parts_def ok_then_eq_Inr if_Inl_eq_Inr primitive_fold_Inr
        validate_target_Inr
      using dist [OF ops] exp [OF ops] by (auto dest: rel)
  qed
qed

section \<open>The receipts pass\<close>

lemma catalog_receipt_passes:
  assumes "prove_d1_catalog_product E from_slice target cplan csha first second = Inr catalog"
    and "sha256_is_hex E"
  shows "validate_catalog_receipt E target (cprod_receipt catalog) = Inr ()"
proof -
  note receipt = accepted_receipt [OF assms(1)]
  note valid = composition_digest.hash_serialized_valid [OF assms(2)]
    composition_digest.digest_valid [OF assms(2)]
  obtain v where v: "cat_observation_pair_sha256 (cprod_receipt catalog) = hash_serialized E v"
    using receipt(8) by blast
  have "derive_d1_catalog_evidence_plan E target = Inr (cplan, csha)"
    by (rule accepted_product [OF assms(1)])
  then have csha: "csha = hash_serialized E (ser_catalog_plan cplan)" by (rule derived_plan_fields)
  let ?c = "cprod_receipt catalog"
  have counts: "cat_relation_fact_count ?c + cat_trigger_owner_fact_count ?c
      + cat_schema_auxiliary_fact_count ?c + cat_schema_blocker_fact_count ?c
      + cat_foreign_key_fact_count ?c + cat_foreign_key_blocker_fact_count ?c = cat_catalog_row_count ?c"
    "cat_catalog_row_count ?c \<le> 1000"
    using accepted_counts [OF assms(1)] unfolding Let_def by blast+
  then have "cat_catalog_row_count ?c \<le> usize_MAX" by (simp add: usize_MAX_def)
  with counts(1) have shape: "catalog_receipt_shape_is_consistent ?c"
    unfolding catalog_receipt_shape_is_consistent_def Let_def
    by (auto simp: checked_add_def receipt(4-7,9) csha valid v target_key_sha256_def)
  then show ?thesis
    by (simp add: validate_catalog_receipt_def receipt(1-4) REQUIRED_CATALOG_VERSION_def)
qed

lemma facts_bounds:
  assumes "try_fold graph_row_step no_facts rows = Inr facts"
  shows "length (foreign_keys facts) \<le> foreign_key_fact_count facts \<and>
    length (trigger_owners facts) = trigger_fact_count facts"
proof (rule try_fold_invariant [OF assms])
  show "length (foreign_keys no_facts) \<le> foreign_key_fact_count no_facts \<and>
      length (trigger_owners no_facts) = trigger_fact_count no_facts"
    by (simp add: no_facts_def)
  have group: "length groups' \<le> Suc (length groups)"
    if "insert_group groups key g = Inr groups'" for groups key g groups'
    using that by (auto simp: insert_group_def length_bmap_insert_new split: option.splits if_splits)
  show "length (foreign_keys s') \<le> foreign_key_fact_count s' \<and>
      length (trigger_owners s') = trigger_fact_count s'"
    if "length (foreign_keys s) \<le> foreign_key_fact_count s \<and>
      length (trigger_owners s) = trigger_fact_count s" "graph_row_step s row = Inr s'" for s row s'
    using that by (auto simp: graph_row_step_def checked_increment_def result_simps dest: group split: if_splits)
qed

lemma configured_not_automatic:
  assumes "normalize_reserved_roots roots = Inr R" and "r \<in> set R"
  shows "\<not> is_automatic_reserved r"
proof -
  from assms(1) have "try_fold reserved_root_step [] roots = Inr R"
    by (simp add: normalize_reserved_roots_def split: if_splits)
  then have "\<forall>r \<in> set R. \<not> is_automatic_reserved r"
    by (rule try_fold_invariant) (auto simp: reserved_root_step_def result_simps split: if_splits)
  with assms(2) show ?thesis by blast
qed

lemma reserved_root_total:
  assumes "graph_parts_of receipt rows roots = Inr P"
  shows "length (part_reserved P) = length (part_configured P) + length (part_automatic P)"
    and "0 < length (part_configured P)"
proof -
  note spec = graph_parts_spec [OF assms]
  note roots = normalized_roots [OF spec(3)]
  have auto: "bset_wf (part_automatic P)" "\<forall>r \<in> set (part_automatic P). is_automatic_reserved r"
    by (simp_all add: spec(4) automatic_reserved_of_def)
  have "length (part_reserved P) = card (set (part_configured P) \<union> set (part_automatic P))"
    by (simp add: part_reserved_def length_bset_of)
  also have "\<dots> = card (set (part_configured P)) + card (set (part_automatic P))"
    using auto(2) configured_not_automatic [OF spec(3)] by (intro card_Un_disjoint) auto
  finally show "length (part_reserved P) = length (part_configured P) + length (part_automatic P)"
    using bset.size_card roots auto(1) by metis
  have "roots \<noteq> []" using spec(3) by (auto simp: normalize_reserved_roots_def)
  with roots show "0 < length (part_configured P)" by (cases "part_configured P") auto
qed

lemma graph_parts_facts:
  assumes "graph_parts_of receipt rows roots = Inr P"
  shows "try_fold graph_row_step no_facts rows = Inr (part_facts P)"
    and "length (part_trigger_owned P) \<le> trigger_fact_count (part_facts P)"
proof -
  from assms show facts: "try_fold graph_row_step no_facts rows = Inr (part_facts P)"
    unfolding graph_parts_of_def Let_def by (auto simp: result_simps split: if_splits)
  from assms obtain xs where "part_trigger_owned P = bset_of xs"
    and "length xs = length (trigger_owners (part_facts P))"
    unfolding graph_parts_of_def Let_def
    by (auto simp: result_simps trigger_owned_of_def try_map_eq_Inr dest: list_all2_lengthD split: if_splits)
  then show "length (part_trigger_owned P) \<le> trigger_fact_count (part_facts P)"
    using facts_bounds [OF facts] by (metis card_length length_bset_of)
qed

lemma roots_bound:
  assumes "graph_parts_of receipt rows roots = Inr P"
  shows "length (part_reserved P) \<le> 1064"
proof -
  note spec = graph_parts_spec [OF assms]
  have "length (part_configured P) \<le> length roots"
    using normalized_roots [OF spec(3)] bset.size_card card_image_le [of "set roots" to_ascii_lowercase]
      card_length [of roots]
    by (metis List.finite_set le_trans)
  also have "length roots \<le> 64"
    using spec(3) by (simp add: normalize_reserved_roots_def MAX_CONFIGURED_RESERVED_ROOTS_def split: if_splits)
  finally have "length (part_configured P) \<le> 64" .
  moreover have "length (part_automatic P) \<le> 1000"
  proof -
    have "length (part_automatic P) \<le> length (filter is_automatic_reserved (map fst (relations (part_facts P))))"
      unfolding spec(4) automatic_reserved_of_def length_bset_of by (rule card_length)
    also have "\<dots> \<le> length (relations (part_facts P))"
      using length_filter_le [of is_automatic_reserved "map fst (relations (part_facts P))"] by simp
    finally show ?thesis using spec(6) by (simp add: MAX_RELATIONS_def)
  qed
  ultimately show ?thesis by (simp add: reserved_root_total(1) [OF assms])
qed

lemma graph_receipt_passes:
  assumes "derive_d1_reserved_relation_graph E catalog roots = Inr graph"
    and "validate_catalog_receipt E target (cprod_receipt catalog) = Inr ()" and "sha256_is_hex E"
  shows "validate_graph_receipt (cprod_receipt catalog) (gprod_receipt graph) = Inr ()"
proof -
  let ?c = "cprod_receipt catalog" and ?g = "gprod_receipt graph"
  have d: "derive_from_verified_parts E ?c (cprod_rows catalog) roots = Inr graph"
    using assms(1) by (simp add: derive_d1_reserved_relation_graph_def)
  obtain P where P: "graph_parts_of ?c (cprod_rows catalog) roots = Inr P"
    and g: "?g = graph_receipt_of E ?c P (gprod_decisions graph)"
    using d by (rule derived_decisions)
  note valid = composition_digest.hash_serialized_valid [OF assms(3)]
  note totals = derived_totals [OF d, unfolded Let_def]
  note roots = reserved_root_total [OF P]
  have catalog: "cat_projection_version ?c = 5" "valid_sha256 (cat_target_key_sha256 ?c)"
    "valid_sha256 (cat_catalog_snapshot_sha256 ?c)"
    using assms(2)
    by (auto simp: validate_catalog_receipt_def catalog_receipt_shape_is_consistent_def Let_def
        REQUIRED_CATALOG_VERSION_def split: if_splits)
  have bounds: "gr_foreign_key_group_count ?g \<le> gr_foreign_key_fact_count ?g"
    "gr_trigger_owned_relation_count ?g \<le> gr_trigger_fact_count ?g"
    "gr_total_reserved_root_count ?g = gr_configured_reserved_root_count ?g + gr_automatic_reserved_root_count ?g"
    "0 < gr_total_reserved_root_count ?g"
    using facts_bounds [OF graph_parts_facts(1) [OF P]] graph_parts_facts(2) [OF P] roots
    by (simp_all add: g graph_receipt_of_def Let_def)
  have fields: "gr_version ?g = 3" "gr_operation ?g = D1_RESERVED_RELATION_GRAPH_OPERATION"
    "gr_target_key_sha256 ?g = cat_target_key_sha256 ?c"
    "gr_catalog_snapshot_sha256 ?g = cat_catalog_snapshot_sha256 ?c"
    "gr_catalog_projection_version ?g = cat_projection_version ?c"
    "gr_catalog_row_count ?g = cat_catalog_row_count ?c"
    "valid_sha256 (gr_reserved_root_set_sha256 ?g)" "valid_sha256 (gr_graph_sha256 ?g)"
    "valid_sha256 (gr_decision_sha256 ?g)"
    by (simp_all add: g graph_receipt_of_def Let_def GRAPH_VERSION_def valid)
  have "gr_total_reserved_root_count ?g \<le> 1064"
    using roots_bound [OF P] by (simp add: g graph_receipt_of_def Let_def)
  with totals bounds have sums: "checked_add (gr_table_count ?g) (gr_view_count ?g) = Some (gr_relation_count ?g)"
    "checked_add (gr_configured_reserved_root_count ?g) (gr_automatic_reserved_root_count ?g) =
       Some (gr_total_reserved_root_count ?g)"
    "checked_mul (gr_relation_count ?g) 3 = Some (gr_graph_node_count ?g)"
    "Option.bind (Option.bind
          (checked_add (gr_allow_count ?g) (gr_deny_reserved_reachable_count ?g))
          (\<lambda>n. checked_add n (gr_deny_trigger_effects_unproven_count ?g)))
          (\<lambda>n. checked_add n (gr_deny_view_write_semantics_unproven_count ?g)) =
       Some (gr_graph_node_count ?g)"
    by (auto simp: checked_add_def checked_mul_def usize_MAX_def)
  show ?thesis
    unfolding validate_graph_receipt_def Let_def REQUIRED_GRAPH_VERSION_def REQUIRED_CATALOG_VERSION_def
      sums fields
    using totals bounds catalog fields(7-9) by simp
qed

section \<open>Properties\<close>

text \<open>C1: End to end: when the catalog was accepted, the graph derived from it and a composition accepted against both, every primitive operation of the statement form, and everything it reaches through foreign-key actions and AUTOINCREMENT bookkeeping, stays clear of the reserved relations, of relations with triggers and of views; the composed plan is bound to the catalog's target and to its own digest.\<close>

theorem composition_safe:
  assumes "prove_d1_catalog_product E from_slice target cplan csha first second = Inr catalog"
    and "derive_d1_reserved_relation_graph E catalog roots = Inr graph"
    and "compose_d1_exact_write_plan E target plan sha relation form catalog graph = Inr x"
    and "operation \<in> set (xprod_effective_primitives x)"
    and "(write_effect (cprod_rows catalog))\<^sup>*\<^sup>* (WriteNode relation operation) m"
  shows "wn_relation m \<notin> to_ascii_lowercase ` set roots \<and> \<not> is_automatic_reserved (wn_relation m) \<and>
    wn_relation m \<notin> trigger_names (cprod_rows catalog) \<and> wn_relation m \<notin> view_names (cprod_rows catalog) \<and>
    xprod_plan x = plan \<and> wp_target_key_sha256 plan = cat_target_key_sha256 (cprod_receipt catalog) \<and>
    sha = hash_serialized E (ser_write_plan plan)"
proof -
  from assms(3) obtain ops where plan: "validate_plan E target plan sha form = Inr ()"
    and rel: "validate_relation relation = Inr relation"
    and allow: "\<forall>o' \<in> set ops. decision_for graph relation o' = Some Allow"
    and x: "xprod_effective_primitives x = ops" "xprod_plan x = plan"
    unfolding compose_Inr by auto
  from rel have lower: "to_ascii_lowercase relation = relation"
    by (simp add: validate_relation_def split: if_splits)
  have "decision_for graph relation operation = Some Allow" using allow assms(4) x by blast
  moreover have "(write_effect (cprod_rows catalog))\<^sup>*\<^sup>* (WriteNode (to_ascii_lowercase relation) operation) m"
    using assms(5) lower by simp
  ultimately have "\<not> hazardous (cprod_rows catalog) roots (wn_relation m)"
    "wn_relation m \<in> relation_names (cprod_rows catalog)"
    by (rule allowed_reach [OF assms(2)])+
  then show ?thesis
    using plan accepted_receipt(4) [OF assms(1)] x
    by (auto simp: hazardous_def reserved_names_def validate_plan_Inr)
qed

text \<open>A composition is accepted only for a supported statement form whose kind matches the plan, on a canonical lower-case relation, and only if the graph says Allow for every primitive operation the form expands to; the receipt counts exactly those operations.\<close>

theorem composition_requires_every_allow:
  assumes "compose_d1_exact_write_plan E target plan sha relation form catalog graph = Inr x"
  shows "required_relation_write_operations form = Inr (xprod_effective_primitives x) \<and>
    form \<noteq> UnsupportedCompound \<and> statement_kind_matches_form (wp_statement_kind plan) form \<and>
    to_ascii_lowercase relation = relation \<and> relation \<noteq> [] \<and>
    (\<forall>operation \<in> set (xprod_effective_primitives x). decision_for graph relation operation = Some Allow) \<and>
    comp_effective_primitive_count (xprod_receipt x) = length (xprod_effective_primitives x) \<and>
    comp_allow_decision_count (xprod_receipt x) = length (xprod_effective_primitives x)"
  using assms unfolding compose_Inr
  by (auto simp: validate_plan_Inr validate_relation_def composition_receipt_of_def Let_def split: if_splits)

text \<open>C23: Liveness: with an accepted catalog, its derived graph and an admitted row-write plan over a non-empty statement, composing a supported form of the plan's kind on a canonical relation succeeds as soon as the graph allows every primitive. No check of the composition rejects what the earlier stages produce.\<close>

theorem composition_succeeds:
  assumes "prove_d1_catalog_product E from_slice target cplan csha first second = Inr catalog"
    and "derive_d1_reserved_relation_graph E catalog roots = Inr graph"
    and "derive_d1_row_write_plan E ser_number target session kind sql params max_rows = Inr p"
    and "sha256_is_hex E" and "\<forall>v. to_vec E v \<noteq> []" and "sql \<noteq> []"
    and "required_relation_write_operations form = Inr ops" and "statement_kind_matches_form kind form"
    and "validate_relation relation = Inr relation"
    and "\<forall>operation \<in> set ops. decision_for graph relation operation = Some Allow"
  shows "\<exists>x. compose_d1_exact_write_plan E target (rwp_inner p) (rwp_plan_sha256 p) relation form catalog graph = Inr x"
proof -
  note plan = row_write_plan_Inr [OF assms(3)]
  note digests = composition_digest.digest_valid [OF assms(4)]
  have "validate_plan E target (rwp_inner p) (rwp_plan_sha256 p) form = Inr ()"
    using plan(2-5) assms(5,6,8) digests
    by (simp add: validate_plan_Inr derive_d1_execute_write_plan_def Let_def hash_serialized_def
        composition_digest.valid_iff row_plan_digest.valid_iff)
  moreover have receipt: "validate_catalog_receipt E target (cprod_receipt catalog) = Inr ()"
    by (rule catalog_receipt_passes [OF assms(1,4)])
  moreover have "validate_graph_receipt (cprod_receipt catalog) (gprod_receipt graph) = Inr ()"
    by (rule graph_receipt_passes [OF assms(2) receipt assms(4)])
  ultimately show ?thesis
    unfolding compose_Inr using assms(7,9,10) plan(1) by blast
qed

end
