(* ===== verification/D1_Custody_Sound.thy ===== *)
theory D1_Custody_Sound
  imports D1_Custody D1_Composition_Sound
begin

text \<open>
  The custody state machine: every operation moves along one evidence order, the durable bytes it
  emits restore to the state it reached, a dispatch reservation is proposed at most once, and
  terminal states are final. The contract the operations share is the locale \<open>custody_operation\<close>,
  interpreted on each of them.
\<close>

section \<open>Restoring and emitting\<close>

interpretation custody_digest: digest_grammar custody_valid_sha256
  by unfold_locales (simp add: custody_valid_sha256_def lower_hex_digit_def [abs_def])

text \<open>
  Documented behaviour of \<open>serde_json\<close> on the derived implementations: the text of a state,
  followed by a newline, parses back to it.
\<close>

definition state_codec :: "env \<Rightarrow> (bytes \<Rightarrow> D1DmlAttemptState option) \<Rightarrow> bool" where
  "state_codec E from_slice \<longleftrightarrow> (\<forall>s. from_slice (to_vec E (ser_state s) @ [CHR 0x0A]) = Some s)"

lemma canonical_state_bytes_Inr:
  "canonical_state_bytes E s = Inr bs \<longleftrightarrow>
     bs = to_vec E (ser_state s) @ [CHR 0x0A] \<and> length bs \<le> D1_DML_ATTEMPT_STATE_BYTE_CAP"
  by (auto simp: canonical_state_bytes_def Let_def)

lemma restore_Inr:
  "restore_exact_state E from_slice bs b = Inr s \<longleftrightarrow>
     bs \<noteq> [] \<and> from_slice bs = Some s \<and> canonical_state_bytes E s = Inr bs \<and>
     validate_state s = Inr () \<and> state_matches_binding s b"
  unfolding restore_exact_state_def
  by (auto simp: ok_then_eq_Inr ok_or_eq_Inr if_Inl_eq_Inr canonical_state_bytes_Inr)

text \<open>What a product says about the state it was emitted for.\<close>

definition emits :: "env \<Rightarrow> D1DmlAttemptState \<Rightarrow> D1DmlAttemptCustodyProduct \<Rightarrow> bool" where
  "emits E s p \<longleftrightarrow>
     validate_state s = Inr () \<and> canonical_state_bytes E s = Inr (dprod_state_bytes p) \<and>
     cr_phase (dprod_receipt p) = st_phase s \<and>
     cr_retry_decision (dprod_receipt p) = retry_decision_of (st_phase s) \<and>
     cr_dispatch_reservations (dprod_receipt p) = st_dispatch_reservations s \<and>
     cr_terminal_outcome (dprod_receipt p) = st_terminal_outcome s \<and>
     cr_attempt_binding_sha256 (dprod_receipt p) = st_attempt_binding_sha256 s"

lemma product_Inr:
  assumes "product E s transition expected replay = Inr p"
  shows "emits E s p" and "cr_transition (dprod_receipt p) = transition"
    and "cr_exact_replay (dprod_receipt p) = replay"
    and "cr_dispatch_atomic_compare_exchange_required (dprod_receipt p) \<longleftrightarrow> expected \<noteq> None"
  using assms by (auto simp: product_def emits_def Let_def ok_then_eq_Inr)

lemma product_total:
  assumes "validate_state s = Inr ()" and "canonical_state_bytes E s = Inr bs"
  shows "\<exists>p. product E s transition expected replay = Inr p \<and> dprod_state_bytes p = bs"
  using assms by (simp add: product_def Let_def)

lemma emits_restores:
  assumes "state_codec E from_slice" and "emits E s p" and "state_matches_binding s b"
  shows "restore_exact_state E from_slice (dprod_state_bytes p) b = Inr s"
  using assms unfolding restore_Inr by (auto simp: emits_def state_codec_def canonical_state_bytes_Inr)

lemma refresh_Inr:
  assumes "refresh_derived_state s = Inr s'"
  shows "validate_state s' = Inr ()" and "\<exists>p t. s' = s\<lparr>st_phase := p, st_terminal_outcome := t\<rparr>"
  using assms by (auto simp: refresh_derived_state_def Let_def ok_then_eq_Inr)

section \<open>Evidence\<close>

definition same_attempt :: "D1DmlAttemptState \<Rightarrow> D1DmlAttemptState \<Rightarrow> bool" where
  "same_attempt s s' \<longleftrightarrow>
     st_version s' = st_version s \<and> st_operation s' = st_operation s \<and>
     st_target_key_sha256 s' = st_target_key_sha256 s \<and>
     st_execute_plan_sha256 s' = st_execute_plan_sha256 s \<and>
     st_composition_sha256 s' = st_composition_sha256 s \<and>
     st_composition_receipt_sha256 s' = st_composition_receipt_sha256 s \<and>
     st_operation_id_sha256 s' = st_operation_id_sha256 s \<and>
     st_execution_attempt_id_sha256 s' = st_execution_attempt_id_sha256 s \<and>
     st_provider_request_id_sha256 s' = st_provider_request_id_sha256 s \<and>
     st_attempt_binding_sha256 s' = st_attempt_binding_sha256 s"

text \<open>Evidence is only added: what is recorded stays as it was recorded.\<close>

definition evidence_le :: "D1DmlAttemptState \<Rightarrow> D1DmlAttemptState \<Rightarrow> bool" where
  "evidence_le s s' \<longleftrightarrow> same_attempt s s' \<and>
     st_dispatch_reservations s \<le> st_dispatch_reservations s' \<and>
     (st_ambiguity s \<noteq> None \<longrightarrow> st_ambiguity s' = st_ambiguity s) \<and>
     (st_provider_assertion s \<noteq> None \<longrightarrow> st_provider_assertion s' = st_provider_assertion s) \<and>
     (st_readback_assertion s \<noteq> None \<longrightarrow> st_readback_assertion s' = st_readback_assertion s)"

lemma evidence_le_refl [simp]: "evidence_le s s"
  by (simp add: evidence_le_def same_attempt_def)

lemma evidence_le_trans: "evidence_le s t \<Longrightarrow> evidence_le t u \<Longrightarrow> evidence_le s u"
  unfolding evidence_le_def same_attempt_def by auto

lemma same_attempt_binding:
  "same_attempt s s' \<Longrightarrow> state_matches_binding s' b \<longleftrightarrow> state_matches_binding s b"
  by (simp add: same_attempt_def state_matches_binding_def)

text \<open>The phase and outcome of a valid state are functions of its evidence.\<close>

lemma validate_state_Inr:
  assumes "validate_state s = Inr ()"
  shows "st_version s = CUSTODY_VERSION" and "st_operation s = D1_DML_ATTEMPT_CUSTODY_OPERATION"
    and "derive_phase_and_terminal s = Inr (st_phase s, st_terminal_outcome s)"
    and "validate_provider_assertion s = Inr ()" and "validate_readback_assertion s = Inr ()"
  using assms by (auto simp: validate_state_def ok_then_eq_Inr if_Inl_eq_Inr split: prod.splits)

lemma u8_cases: "\<not> (n :: u8) > 1 \<longleftrightarrow> n = 0 \<or> n = 1"
proof
  assume "\<not> n > 1"
  then have "n \<le> 1" by simp
  then have "unat n \<le> 1" by (simp add: word_le_nat_alt)
  then have "unat n = 0 \<or> unat n = 1" by linarith
  then show "n = 0 \<or> n = 1" by (metis unat_1 unat_eq_zero unsigned_word_eqI)
qed auto

lemma valid_reservations:
  assumes "validate_state s = Inr ()"
  shows "st_dispatch_reservations s = 0 \<or> st_dispatch_reservations s = 1"
  using validate_state_Inr(3) [OF assms]
  by (auto simp: derive_phase_and_terminal_def u8_cases [symmetric] split: if_splits)

lemma valid_phase:
  assumes "validate_state s = Inr ()"
  shows "st_phase s =
    (if st_dispatch_reservations s = 0 then PhasePrepared
     else case assertion_outcome s of
         Some Applied \<Rightarrow> TerminalApplied
       | Some NotApplied \<Rightarrow> TerminalNotApplied
       | None \<Rightarrow> (if st_ambiguity s \<noteq> None \<or>
             st_provider_assertion s \<noteq> None \<and> st_readback_assertion s \<noteq> None
           then ReconciliationRequired else DispatchReserved))"
    and "st_terminal_outcome s = (if st_dispatch_reservations s = 0 then None else assertion_outcome s)"
    and "st_dispatch_reservations s = 0 \<Longrightarrow>
      st_ambiguity s = None \<and> st_provider_assertion s = None \<and> st_readback_assertion s = None"
  using validate_state_Inr(3) [OF assms]
  by (auto simp: derive_phase_and_terminal_def Let_def split: if_splits option.splits
      D1DmlAttemptTerminalOutcome.splits)

lemma valid_state_eqI:
  assumes "validate_state s = Inr ()" and "validate_state s' = Inr ()" and "same_attempt s s'"
    and "st_dispatch_reservations s = st_dispatch_reservations s'" "st_ambiguity s = st_ambiguity s'"
    "st_provider_assertion s = st_provider_assertion s'" "st_readback_assertion s = st_readback_assertion s'"
  shows "s = s'"
proof -
  have out: "assertion_outcome s = assertion_outcome s'" using assms(6,7) by (simp add: assertion_outcome_def)
  have "st_phase s = st_phase s'" "st_terminal_outcome s = st_terminal_outcome s'"
    unfolding valid_phase(1,2) [OF assms(1)] valid_phase(1,2) [OF assms(2)]
    by (simp_all only: assms(4-7) out)
  with assms(3-7) show ?thesis
    by (intro D1DmlAttemptState.equality) (simp_all add: same_attempt_def)
qed

definition terminal_phase :: "D1DmlAttemptPhase \<Rightarrow> bool" where
  "terminal_phase p \<longleftrightarrow> p = TerminalApplied \<or> p = TerminalNotApplied"

lemma terminal_final:
  assumes "validate_state s = Inr ()" and "validate_state s' = Inr ()" and "evidence_le s s'"
    and "terminal_phase (st_phase s)"
  shows "st_phase s' = st_phase s \<and> st_terminal_outcome s' = st_terminal_outcome s"
proof -
  from assms(4) valid_phase(1) [OF assms(1)] obtain out where
    res: "st_dispatch_reservations s \<noteq> 0" and out: "assertion_outcome s = Some out"
    by (auto simp: terminal_phase_def split: if_splits option.splits)
  then have one: "st_dispatch_reservations s = 1" using valid_reservations [OF assms(1)] by blast
  with assms(3) have "st_dispatch_reservations s' \<noteq> 0" by (auto simp: evidence_le_def)
  moreover from out have "st_provider_assertion s \<noteq> None" "st_readback_assertion s \<noteq> None"
    by (auto simp: assertion_outcome_def split: option.splits)
  with assms(3) have "assertion_outcome s' = assertion_outcome s"
    by (simp add: evidence_le_def assertion_outcome_def)
  ultimately show ?thesis
    using valid_phase(1,2) [OF assms(1)] valid_phase(1,2) [OF assms(2)] res out
    by (simp split: D1DmlAttemptTerminalOutcome.splits)
qed

section \<open>The operations\<close>

text \<open>The arguments every operation takes.\<close>

record custody_input =
  in_env :: env
  in_from_slice :: "bytes \<Rightarrow> D1DmlAttemptState option"
  in_target :: D1TargetIdentity
  in_composition :: D1ExactPlanCompositionProduct
  in_identities :: D1DmlAttemptIdentities

definition binding_of :: "custody_input \<Rightarrow> D1DmlAttemptBinding custody" where
  "binding_of I = derive_attempt_binding (in_env I) (in_target I) (in_composition I) (in_identities I)"

definition restored :: "custody_input \<Rightarrow> bytes \<Rightarrow> D1DmlAttemptState \<Rightarrow> bool" where
  "restored I bs s \<longleftrightarrow>
     (\<exists>b. binding_of I = Inr b \<and> restore_exact_state (in_env I) (in_from_slice I) bs b = Inr s)"

lemma restored_valid: "restored I bs s \<Longrightarrow> validate_state s = Inr ()"
  by (auto simp: restored_def restore_Inr)

lemma restored_unique: "restored I bs s \<Longrightarrow> restored I bs t \<Longrightarrow> s = t"
  by (auto simp: restored_def)

abbreviation proposes_dispatch :: "D1DmlAttemptCustodyReceipt \<Rightarrow> bool" where
  "proposes_dispatch \<equiv> cr_dispatch_atomic_compare_exchange_required"

locale custody_operation =
  fixes run :: "custody_input \<Rightarrow> 'a \<Rightarrow> bytes \<Rightarrow> D1DmlAttemptCustodyProduct custody"
  assumes run_step: "run I a bs = Inr p \<Longrightarrow> \<exists>s s'. restored I bs s \<and> evidence_le s s' \<and>
      emits (in_env I) s' p \<and>
      (proposes_dispatch (dprod_receipt p) \<longrightarrow>
        st_dispatch_reservations s = 0 \<and> st_dispatch_reservations s' = 1)"
begin

text \<open>The emitted bytes restore, under the same attempt, to a state with at least the evidence.\<close>

lemma run_restorable:
  assumes "state_codec (in_env I) (in_from_slice I)" and "run I a bs = Inr p"
  shows "\<exists>s s'. restored I bs s \<and> restored I (dprod_state_bytes p) s' \<and> evidence_le s s' \<and>
    emits (in_env I) s' p \<and> (proposes_dispatch (dprod_receipt p) \<longrightarrow>
        st_dispatch_reservations s = 0 \<and> st_dispatch_reservations s' = 1)"
proof -
  obtain s s' where s: "restored I bs s" "evidence_le s s'" "emits (in_env I) s' p"
    "proposes_dispatch (dprod_receipt p) \<longrightarrow> st_dispatch_reservations s = 0 \<and> st_dispatch_reservations s' = 1"
    using run_step [OF assms(2)] by blast
  from s(1) obtain b where b: "binding_of I = Inr b" "state_matches_binding s b"
    by (auto simp: restored_def restore_Inr)
  have "same_attempt s s'" using s(2) unfolding evidence_le_def by blast
  with b(2) have "state_matches_binding s' b" by (simp add: same_attempt_binding)
  with emits_restores [OF assms(1) s(3)] b(1) have "restored I (dprod_state_bytes p) s'"
    by (auto simp: restored_def)
  with s show ?thesis by blast
qed

lemma run_terminal:
  assumes "state_codec (in_env I) (in_from_slice I)" and "run I a bs = Inr p"
    and "restored I bs s" and "terminal_phase (st_phase s)"
  shows "\<exists>s'. restored I (dprod_state_bytes p) s' \<and> terminal_phase (st_phase s') \<and>
    cr_phase (dprod_receipt p) = st_phase s \<and> cr_terminal_outcome (dprod_receipt p) = st_terminal_outcome s \<and>
    cr_retry_decision (dprod_receipt p) = TerminalReplayOnly \<and>
    st_phase s' = st_phase s \<and> st_terminal_outcome s' = st_terminal_outcome s \<and>
    \<not> proposes_dispatch (dprod_receipt p)"
proof -
  obtain s' where s': "restored I (dprod_state_bytes p) s'" "evidence_le s s'" "emits (in_env I) s' p"
    "proposes_dispatch (dprod_receipt p) \<longrightarrow> st_dispatch_reservations s = 0"
    using run_restorable [OF assms(1,2)] restored_unique [OF assms(3)] by blast
  have final: "st_phase s' = st_phase s" "st_terminal_outcome s' = st_terminal_outcome s"
    using terminal_final [OF restored_valid [OF assms(3)] restored_valid [OF s'(1)] s'(2) assms(4)] by simp_all
  have "st_dispatch_reservations s \<noteq> 0"
    using valid_phase(1) [OF restored_valid [OF assms(3)]] assms(4) by (auto simp: terminal_phase_def)
  moreover have "retry_decision_of (st_phase s) = TerminalReplayOnly"
    using assms(4) by (auto simp: terminal_phase_def)
  ultimately show ?thesis using s' final assms(4) by (auto simp: emits_def)
qed

end

lemma evidence_leI:
  assumes "\<exists>p t. s' = s1\<lparr>st_phase := p, st_terminal_outcome := t\<rparr>" and "evidence_le s s1"
  shows "evidence_le s s'"
  using assms by (auto simp: evidence_le_def same_attempt_def)

text \<open>An operation body that records evidence and emits the refreshed state.\<close>

lemma recorded_step:
  assumes "ok_then (refresh_derived_state s1) (\<lambda>s'. product E s' transition expected replay) = Inr p"
    and "evidence_le s s1"
  shows "\<exists>s'. evidence_le s s' \<and> emits E s' p \<and>
    (proposes_dispatch (dprod_receipt p) \<longleftrightarrow> expected \<noteq> None) \<and>
    st_dispatch_reservations s' = st_dispatch_reservations s1"
proof -
  from assms(1) obtain s' where r: "refresh_derived_state s1 = Inr s'"
    and p: "product E s' transition expected replay = Inr p"
    by (auto simp: ok_then_eq_Inr)
  from refresh_Inr(2) [OF r] have "st_dispatch_reservations s' = st_dispatch_reservations s1" by auto
  with product_Inr(1,4) [OF p] evidence_leI [OF refresh_Inr(2) [OF r] assms(2)] show ?thesis by blast
qed

lemma replayed_step:
  assumes "product E s transition None replay = Inr p"
  shows "emits E s p" and "\<not> proposes_dispatch (dprod_receipt p)"
  using product_Inr [OF assms] by simp_all

lemma replayed_result:
  assumes "product E s transition None replay = Inr p"
  shows "\<exists>s'. evidence_le s s' \<and> emits E s' p \<and> (proposes_dispatch (dprod_receipt p) \<longrightarrow> Q s')"
  using replayed_step [OF assms] evidence_le_refl by blast

interpretation prepare_op: custody_operation
  "\<lambda>I (_ :: unit) bs. prepare_d1_dml_attempt (in_env I) (in_from_slice I) (in_target I)
     (in_composition I) (in_identities I) (Some bs)"
proof
  fix I :: custody_input and a bs p
  assume "prepare_d1_dml_attempt (in_env I) (in_from_slice I) (in_target I) (in_composition I)
      (in_identities I) (Some bs) = Inr p"
  then obtain s where "restored I bs s" "product (in_env I) s ExactReplay None True = Inr p"
    by (auto simp: prepare_d1_dml_attempt_def ok_then_eq_Inr restored_def binding_of_def)
  with replayed_step show "\<exists>s s'. restored I bs s \<and> evidence_le s s' \<and> emits (in_env I) s' p \<and>
      (proposes_dispatch (dprod_receipt p) \<longrightarrow>
        st_dispatch_reservations s = 0 \<and> st_dispatch_reservations s' = 1)"
    using evidence_le_refl by blast
qed

interpretation reserve_op: custody_operation
  "\<lambda>I (_ :: unit) bs. prepare_d1_dml_dispatch_reservation_cas (in_env I) (in_from_slice I) (in_target I)
     (in_composition I) (in_identities I) bs"
proof
  fix I :: custody_input and a bs p
  assume "prepare_d1_dml_dispatch_reservation_cas (in_env I) (in_from_slice I) (in_target I)
     (in_composition I) (in_identities I) bs = Inr p"
  then obtain s where s: "restored I bs s" and body: "(case st_phase s of
       PhasePrepared \<Rightarrow>
         ok_then (refresh_derived_state (s\<lparr>st_dispatch_reservations := 1\<rparr>)) (\<lambda>state.
         product (in_env I) state DispatchReservationPrepared (Some bs) False)
     | DispatchReserved \<Rightarrow>
         ok_then (refresh_derived_state (s\<lparr>st_ambiguity := Some DispatchReplay\<rparr>)) (\<lambda>state.
         product (in_env I) state DispatchReplayQuarantinePrepared None False)
     | _ \<Rightarrow> product (in_env I) s ExactReplay None True) = Inr p"
    by (auto simp: prepare_d1_dml_dispatch_reservation_cas_def ok_then_eq_Inr restored_def binding_of_def)
  note phase = valid_phase [OF restored_valid [OF s]]
  have "\<exists>s'. evidence_le s s' \<and> emits (in_env I) s' p \<and>
      (proposes_dispatch (dprod_receipt p) \<longrightarrow>
        st_dispatch_reservations s = 0 \<and> st_dispatch_reservations s' = 1)"
  proof (cases "st_phase s")
    case PhasePrepared
    then have zero: "st_dispatch_reservations s = 0"
      using phase(1) by (auto split: if_splits option.splits D1DmlAttemptTerminalOutcome.splits)
    have le: "evidence_le s (s\<lparr>st_dispatch_reservations := 1\<rparr>)"
      using zero by (simp add: evidence_le_def same_attempt_def)
    from body PhasePrepared have "ok_then (refresh_derived_state (s\<lparr>st_dispatch_reservations := 1\<rparr>))
      (\<lambda>state. product (in_env I) state DispatchReservationPrepared (Some bs) False) = Inr p" by simp
    from recorded_step [OF this le] zero show ?thesis by auto
  next
    case DispatchReserved
    then have "st_ambiguity s = None"
      using phase(1) by (auto split: if_splits option.splits D1DmlAttemptTerminalOutcome.splits)
    then have le: "evidence_le s (s\<lparr>st_ambiguity := Some DispatchReplay\<rparr>)"
      by (simp add: evidence_le_def same_attempt_def)
    from body DispatchReserved have "ok_then (refresh_derived_state (s\<lparr>st_ambiguity := Some DispatchReplay\<rparr>))
      (\<lambda>state. product (in_env I) state DispatchReplayQuarantinePrepared None False) = Inr p" by simp
    from recorded_step [OF this le] show ?thesis by auto
  next
    case ReconciliationRequired
    then show ?thesis using body by (intro replayed_result) simp
  next
    case TerminalApplied
    then show ?thesis using body by (intro replayed_result) simp
  next
    case TerminalNotApplied
    then show ?thesis using body by (intro replayed_result) simp
  qed
  with s show "\<exists>s s'. restored I bs s \<and> evidence_le s s' \<and> emits (in_env I) s' p \<and>
      (proposes_dispatch (dprod_receipt p) \<longrightarrow>
        st_dispatch_reservations s = 0 \<and> st_dispatch_reservations s' = 1)"
    by blast
qed

text \<open>
  The three recording operations share a body: replay an equal incumbent, or record the candidate in
  an empty slot.
\<close>

lemma slot_step:
  assumes s: "restored I bs s"
    and body: "(case slot of
        Some incumbent \<Rightarrow> (if incumbent \<noteq> candidate then Inl e else product (in_env I) s t1 None True)
      | None \<Rightarrow> (if blocked then Inl e' else
          ok_then (refresh_derived_state s1) (\<lambda>s'. product (in_env I) s' t2 None False))) = Inr p"
    and le: "slot = None \<Longrightarrow> evidence_le s s1"
  shows "\<exists>s s'. restored I bs s \<and> evidence_le s s' \<and> emits (in_env I) s' p \<and>
      (proposes_dispatch (dprod_receipt p) \<longrightarrow>
        st_dispatch_reservations s = 0 \<and> st_dispatch_reservations s' = 1)"
proof (cases slot)
  case None
  with body have "ok_then (refresh_derived_state s1) (\<lambda>s'. product (in_env I) s' t2 None False) = Inr p"
    by (simp split: if_splits)
  from recorded_step [OF this le [OF None]] s show ?thesis by blast
next
  case (Some incumbent)
  with body have "product (in_env I) s t1 None True = Inr p" by (simp split: if_splits)
  from replayed_step [OF this] s evidence_le_refl show ?thesis by blast
qed

interpretation ambiguity_op: custody_operation
  "\<lambda>I a bs. record_d1_dml_attempt_ambiguity (in_env I) (in_from_slice I) (in_target I)
     (in_composition I) (in_identities I) bs a"
proof
  fix I :: custody_input and a bs p
  assume "record_d1_dml_attempt_ambiguity (in_env I) (in_from_slice I) (in_target I)
     (in_composition I) (in_identities I) bs a = Inr p"
  then obtain s where s: "restored I bs s" and body: "(case st_ambiguity s of
       Some incumbent \<Rightarrow>
         (if incumbent \<noteq> a
          then Inl (custody_error AmbiguityConflict
            ''attempt ambiguity contradicted incumbent durable evidence'')
          else product (in_env I) s ExactReplay None True)
     | None \<Rightarrow>
         (if st_terminal_outcome s \<noteq> None
          then Inl (custody_error AmbiguityConflict
            ''terminal attempt had no incumbent ambiguity to replay'')
          else ok_then (refresh_derived_state (s\<lparr>st_ambiguity := Some a\<rparr>)) (\<lambda>state.
            product (in_env I) state AmbiguityRecorded None False))) = Inr p"
    unfolding record_d1_dml_attempt_ambiguity_def ok_then_eq_Inr restored_def binding_of_def by blast
  show "\<exists>s s'. restored I bs s \<and> evidence_le s s' \<and> emits (in_env I) s' p \<and>
      (proposes_dispatch (dprod_receipt p) \<longrightarrow>
        st_dispatch_reservations s = 0 \<and> st_dispatch_reservations s' = 1)"
    by (rule slot_step [OF s body]) (simp add: evidence_le_def same_attempt_def)
qed

definition provider_candidate ::
  "D1DmlAttemptBinding \<Rightarrow> D1DmlProviderTerminalAssertion \<Rightarrow> D1DmlProviderTerminalAssertionRecord" where
  "provider_candidate b a =
     \<lparr>pr_version = CUSTODY_VERSION, pr_attempt_binding_sha256 = bind_attempt_binding_sha256 b,
      pr_provider_request_id_sha256 = bind_provider_request_id_sha256 b,
      pr_classification = pta_classification a, pr_evidence_sha256 = pta_evidence_sha256 a\<rparr>"

definition readback_candidate ::
  "D1DmlAttemptBinding \<Rightarrow> D1DmlReadbackTerminalAssertion \<Rightarrow> D1DmlReadbackTerminalAssertionRecord" where
  "readback_candidate b a =
     \<lparr>rr_version = CUSTODY_VERSION, rr_attempt_binding_sha256 = bind_attempt_binding_sha256 b,
      rr_classification = rta_classification a, rr_readback_plan_sha256 = rta_readback_plan_sha256 a,
      rr_evidence_sha256 = rta_evidence_sha256 a\<rparr>"

lemma provider_body:
  assumes "record_d1_dml_provider_terminal_assertion (in_env I) (in_from_slice I) (in_target I)
     (in_composition I) (in_identities I) bs a = Inr p"
  obtains b s where "binding_of I = Inr b" and "restored I bs s" and "st_dispatch_reservations s = 1"
    and "(case st_provider_assertion s of
       Some incumbent \<Rightarrow>
         (if incumbent \<noteq> provider_candidate b a
          then Inl (custody_error EvidenceConflict
            ''provider terminal assertion contradicted the incumbent product'')
          else product (in_env I) s ProviderAssertionReplay None True)
     | None \<Rightarrow> (if False then Inl (custody_error EvidenceConflict []) else
         ok_then (refresh_derived_state (s\<lparr>st_provider_assertion := Some (provider_candidate b a)\<rparr>)) (\<lambda>state.
         product (in_env I) state ProviderAssertionRecorded None False))) = Inr p"
  using assms unfolding record_d1_dml_provider_terminal_assertion_def ok_then_eq_Inr if_Inl_eq_Inr
    Let_def provider_candidate_def [symmetric] restored_def binding_of_def require_dispatch_reserved_def if_False
  by blast

lemma readback_body:
  assumes "record_d1_dml_readback_terminal_assertion (in_env I) (in_from_slice I) (in_target I)
     (in_composition I) (in_identities I) bs a = Inr p"
  obtains b s where "binding_of I = Inr b" and "restored I bs s" and "st_dispatch_reservations s = 1"
    and "(case st_readback_assertion s of
       Some incumbent \<Rightarrow>
         (if incumbent \<noteq> readback_candidate b a
          then Inl (custody_error EvidenceConflict
            ''readback terminal assertion contradicted the incumbent product'')
          else product (in_env I) s ReadbackAssertionReplay None True)
     | None \<Rightarrow> (if False then Inl (custody_error EvidenceConflict []) else
         ok_then (refresh_derived_state (s\<lparr>st_readback_assertion := Some (readback_candidate b a)\<rparr>)) (\<lambda>state.
         product (in_env I) state ReadbackAssertionRecorded None False))) = Inr p"
  using assms unfolding record_d1_dml_readback_terminal_assertion_def ok_then_eq_Inr if_Inl_eq_Inr
    Let_def readback_candidate_def [symmetric] restored_def binding_of_def require_dispatch_reserved_def if_False
  by blast

interpretation provider_op: custody_operation
  "\<lambda>I a bs. record_d1_dml_provider_terminal_assertion (in_env I) (in_from_slice I) (in_target I)
     (in_composition I) (in_identities I) bs a"
proof (unfold_locales, erule provider_body, goal_cases)
  case (1 I a bs p b s)
  show ?case by (rule slot_step [OF 1(2,4)]) (simp add: evidence_le_def same_attempt_def)
qed

interpretation readback_op: custody_operation
  "\<lambda>I a bs. record_d1_dml_readback_terminal_assertion (in_env I) (in_from_slice I) (in_target I)
     (in_composition I) (in_identities I) bs a"
proof (unfold_locales, erule readback_body, goal_cases)
  case (1 I a bs p b s)
  show ?case by (rule slot_step [OF 1(2,4)]) (simp add: evidence_le_def same_attempt_def)
qed

section \<open>Sequences of operations\<close>

datatype custody_op =
    OpPrepare
  | OpReserve
  | OpAmbiguity D1DmlAttemptAmbiguity
  | OpProvider D1DmlProviderTerminalAssertion
  | OpReadback D1DmlReadbackTerminalAssertion

fun custody_apply :: "custody_input \<Rightarrow> custody_op \<Rightarrow> bytes \<Rightarrow> D1DmlAttemptCustodyProduct custody" where
  "custody_apply I OpPrepare bs = prepare_d1_dml_attempt (in_env I) (in_from_slice I) (in_target I)
     (in_composition I) (in_identities I) (Some bs)"
| "custody_apply I OpReserve bs = prepare_d1_dml_dispatch_reservation_cas (in_env I) (in_from_slice I)
     (in_target I) (in_composition I) (in_identities I) bs"
| "custody_apply I (OpAmbiguity a) bs = record_d1_dml_attempt_ambiguity (in_env I) (in_from_slice I)
     (in_target I) (in_composition I) (in_identities I) bs a"
| "custody_apply I (OpProvider a) bs = record_d1_dml_provider_terminal_assertion (in_env I)
     (in_from_slice I) (in_target I) (in_composition I) (in_identities I) bs a"
| "custody_apply I (OpReadback a) bs = record_d1_dml_readback_terminal_assertion (in_env I)
     (in_from_slice I) (in_target I) (in_composition I) (in_identities I) bs a"

interpretation custody: custody_operation custody_apply
proof
  fix I op bs p
  assume "custody_apply I op bs = Inr p"
  then show "\<exists>s s'. restored I bs s \<and> evidence_le s s' \<and> emits (in_env I) s' p \<and>
      (proposes_dispatch (dprod_receipt p) \<longrightarrow>
        st_dispatch_reservations s = 0 \<and> st_dispatch_reservations s' = 1)"
    by (cases op; simp only: custody_apply.simps) (erule prepare_op.run_step reserve_op.run_step
        ambiguity_op.run_step provider_op.run_step readback_op.run_step)+
qed

text \<open>
  A caller that stores the bytes each operation emits and keeps the old ones when it fails: the
  receipts of a sequence of operations.
\<close>

fun custody_run :: "custody_input \<Rightarrow> bytes \<Rightarrow> custody_op list \<Rightarrow> D1DmlAttemptCustodyReceipt list" where
  "custody_run I bs [] = []"
| "custody_run I bs (op # ops) =
     (case custody_apply I op bs of
        Inl e \<Rightarrow> custody_run I bs ops
      | Inr p \<Rightarrow> dprod_receipt p # custody_run I (dprod_state_bytes p) ops)"

text \<open>The states such a caller can reach.\<close>

inductive custody_reachable :: "custody_input \<Rightarrow> D1DmlAttemptState \<Rightarrow> bool" for I :: custody_input where
  reach_prepared:
    "prepare_d1_dml_attempt (in_env I) (in_from_slice I) (in_target I) (in_composition I)
       (in_identities I) None = Inr p \<Longrightarrow> restored I (dprod_state_bytes p) s \<Longrightarrow> custody_reachable I s"
| reach_step:
    "custody_reachable I s \<Longrightarrow> restored I bs s \<Longrightarrow> custody_apply I op bs = Inr p \<Longrightarrow>
     restored I (dprod_state_bytes p) s' \<Longrightarrow> custody_reachable I s'"

inductive_cases custody_reachableE: "custody_reachable I s"

section \<open>Properties\<close>

lemma prepared_emits:
  assumes "prepare_d1_dml_attempt E from_slice target composition identities None = Inr p"
  obtains b where "derive_attempt_binding E target composition identities = Inr b"
    and "emits E (initial_state b) p" and "cr_transition (dprod_receipt p) = TransitionPrepared"
    and "\<not> proposes_dispatch (dprod_receipt p)"
  using assms product_Inr unfolding prepare_d1_dml_attempt_def ok_then_eq_Inr by (metis option.simps(4))

lemma initial_matches: "state_matches_binding (initial_state b) b"
  by (simp add: state_matches_binding_def initial_state_def)

lemma prepared_restored:
  assumes "state_codec (in_env I) (in_from_slice I)"
    and "prepare_d1_dml_attempt (in_env I) (in_from_slice I) (in_target I) (in_composition I)
      (in_identities I) None = Inr p"
  shows "\<exists>b. binding_of I = Inr b \<and> restored I (dprod_state_bytes p) (initial_state b)"
proof -
  obtain b where b: "binding_of I = Inr b" "emits (in_env I) (initial_state b) p"
    using assms(2) unfolding binding_of_def by (rule prepared_emits)
  from emits_restores [OF assms(1) b(2) initial_matches] b(1) show ?thesis by (auto simp: restored_def)
qed

lemma reserved_never_proposes:
  assumes "state_codec (in_env I) (in_from_slice I)"
    and "restored I bs s" and "st_dispatch_reservations s = 1"
  shows "filter proposes_dispatch (custody_run I bs ops) = []"
  using assms(2,3)
proof (induction ops arbitrary: bs s)
  case (Cons op ops)
  show ?case
  proof (cases "custody_apply I op bs")
    case (Inl e)
    with Cons show ?thesis by simp
  next
    case (Inr p)
    then obtain s' where s': "restored I (dprod_state_bytes p) s'" "evidence_le s s'"
      "proposes_dispatch (dprod_receipt p) \<longrightarrow> st_dispatch_reservations s = 0"
      using custody.run_restorable [OF assms(1) Inr] restored_unique [OF Cons.prems(1)] by blast
    have "1 \<le> st_dispatch_reservations s'" using s'(2) Cons.prems(2) by (simp add: evidence_le_def)
    then have "st_dispatch_reservations s' = 1"
      using valid_reservations [OF restored_valid [OF s'(1)]] by auto
    with Cons.IH [OF s'(1)] s'(3) Cons.prems(2) Inr show ?thesis by simp
  qed
qed simp

lemma at_most_one_proposal:
  assumes "state_codec (in_env I) (in_from_slice I)" and "restored I bs s"
  shows "length (filter proposes_dispatch (custody_run I bs ops)) \<le> 1"
  using assms(2)
proof (induction ops arbitrary: bs s)
  case (Cons op ops)
  show ?case
  proof (cases "custody_apply I op bs")
    case (Inl e)
    with Cons show ?thesis by simp
  next
    case (Inr p)
    then obtain s' where s': "restored I (dprod_state_bytes p) s'"
      "proposes_dispatch (dprod_receipt p) \<longrightarrow> st_dispatch_reservations s' = 1"
      using custody.run_restorable [OF assms(1) Inr] by blast
    with Cons.IH [OF s'(1)] reserved_never_proposes [OF assms(1) s'(1)] Inr show ?thesis by auto
  qed
qed simp

text \<open>C2: Whatever sequence of operations follows the preparation of an attempt, with the emitted bytes stored after each success, at most one of the receipts proposes the dispatch compare-and-exchange.\<close>

theorem custody_dispatch_at_most_once:
  assumes "state_codec (in_env I) (in_from_slice I)"
    and "prepare_d1_dml_attempt (in_env I) (in_from_slice I) (in_target I) (in_composition I)
      (in_identities I) None = Inr p"
  shows "length (filter proposes_dispatch (custody_run I (dprod_state_bytes p) ops)) \<le> 1"
  using prepared_restored [OF assms] at_most_one_proposal [OF assms(1)] by blast

text \<open>C6: Once a stored attempt is terminal, every later operation that succeeds reports the same terminal phase and outcome, allows only replay and proposes no dispatch.\<close>

theorem custody_terminal_final:
  assumes "state_codec (in_env I) (in_from_slice I)"
    and "restored I bs s" and "terminal_phase (st_phase s)"
    and "r \<in> set (custody_run I bs ops)"
  shows "cr_phase r = st_phase s \<and> cr_terminal_outcome r = st_terminal_outcome s \<and>
    cr_retry_decision r = TerminalReplayOnly \<and> \<not> proposes_dispatch r"
  using assms(2-4)
proof (induction ops arbitrary: bs s)
  case (Cons op ops)
  show ?case
  proof (cases "custody_apply I op bs")
    case (Inl e)
    with Cons show ?thesis by simp
  next
    case (Inr p)
    obtain s' where s': "restored I (dprod_state_bytes p) s'" "terminal_phase (st_phase s')"
      "cr_phase (dprod_receipt p) = st_phase s" "cr_terminal_outcome (dprod_receipt p) = st_terminal_outcome s"
      "cr_retry_decision (dprod_receipt p) = TerminalReplayOnly"
      "st_phase s' = st_phase s" "st_terminal_outcome s' = st_terminal_outcome s"
      "\<not> proposes_dispatch (dprod_receipt p)"
      using custody.run_terminal [OF assms(1) Inr Cons.prems(1,2)] by blast
    with Cons.IH [OF s'(1,2)] Cons.prems(3) Inr show ?thesis by auto
  qed
qed simp

text \<open>C24: Restarting from the bytes an operation stored loses nothing: the exact replay succeeds, emits the same bytes and reports the same phase, retry decision and outcome.\<close>

theorem custody_restart_roundtrip:
  assumes "state_codec (in_env I) (in_from_slice I)" and "custody_apply I op bs = Inr p"
  shows "\<exists>q. custody_apply I OpPrepare (dprod_state_bytes p) = Inr q \<and>
    dprod_state_bytes q = dprod_state_bytes p \<and> cr_transition (dprod_receipt q) = ExactReplay \<and>
    cr_exact_replay (dprod_receipt q) \<and> cr_phase (dprod_receipt q) = cr_phase (dprod_receipt p) \<and>
    cr_retry_decision (dprod_receipt q) = cr_retry_decision (dprod_receipt p) \<and>
    cr_terminal_outcome (dprod_receipt q) = cr_terminal_outcome (dprod_receipt p)"
proof -
  obtain s' where s': "restored I (dprod_state_bytes p) s'" "emits (in_env I) s' p"
    using custody.run_restorable [OF assms] by blast
  then obtain b where b: "binding_of I = Inr b"
    "restore_exact_state (in_env I) (in_from_slice I) (dprod_state_bytes p) b = Inr s'"
    by (auto simp: restored_def)
  obtain q where q: "product (in_env I) s' ExactReplay None True = Inr q"
    "dprod_state_bytes q = dprod_state_bytes p"
    using product_total s'(2) unfolding emits_def by blast
  have "custody_apply I OpPrepare (dprod_state_bytes p) = Inr q"
    using b q(1) by (simp add: prepare_d1_dml_attempt_def binding_of_def)
  with q product_Inr [OF q(1)] s'(2) show ?thesis by (simp add: emits_def)
qed

text \<open>C21: In every reachable state the phase is the one its evidence demands: prepared exactly without a reservation (and then without any evidence), terminal exactly with a compatible pair of provider and readback assertions, otherwise open for reconciliation exactly when an ambiguity or a contradictory pair is recorded; and there is never more than one reservation.\<close>

theorem custody_reachable_phase:
  assumes "custody_reachable I s"
  shows "(st_dispatch_reservations s = 0 \<or> st_dispatch_reservations s = 1) \<and>
    (st_phase s = PhasePrepared \<longleftrightarrow> st_dispatch_reservations s = 0) \<and>
    (st_phase s = PhasePrepared \<longrightarrow> st_ambiguity s = None \<and> st_provider_assertion s = None \<and>
      st_readback_assertion s = None) \<and>
    (st_phase s = TerminalApplied \<longleftrightarrow> assertion_outcome s = Some Applied) \<and>
    (st_phase s = TerminalNotApplied \<longleftrightarrow> assertion_outcome s = Some NotApplied) \<and>
    (st_phase s = ReconciliationRequired \<longleftrightarrow> assertion_outcome s = None \<and>
      (st_ambiguity s \<noteq> None \<or> st_provider_assertion s \<noteq> None \<and> st_readback_assertion s \<noteq> None))"
proof -
  have valid: "validate_state s = Inr ()"
    using assms by (cases rule: custody_reachable.cases) (auto dest: restored_valid)
  note phase = valid_phase [OF valid]
  have zero: "assertion_outcome s = None" if "st_dispatch_reservations s = 0"
    using phase(3) [OF that] by (simp add: assertion_outcome_def)
  show ?thesis
    using phase(1,3) zero valid_reservations [OF valid]
    by (cases "assertion_outcome s" rule: option.exhaust; auto split: D1DmlAttemptTerminalOutcome.splits if_splits)
qed

text \<open>C31: Along reachable steps evidence is only added: the identity of the attempt never changes, reservations never decrease, and a recorded ambiguity, provider or readback assertion is never changed.\<close>

theorem custody_evidence_monotone:
  assumes "state_codec (in_env I) (in_from_slice I)" and "restored I bs s"
    and "custody_apply I op bs = Inr p"
  shows "\<exists>s'. restored I (dprod_state_bytes p) s' \<and> evidence_le s s'"
  using custody.run_restorable [OF assms(1,3)] restored_unique [OF assms(2)] by blast

text \<open>Every state reachable from the preparation of an attempt belongs to that attempt: it matches the binding derived from the target, the composition and the identities, and extends the prepared state of that binding.\<close>

theorem custody_reachable_bound:
  assumes "state_codec (in_env I) (in_from_slice I)" and "custody_reachable I s"
  shows "\<exists>b. binding_of I = Inr b \<and> state_matches_binding s b \<and> evidence_le (initial_state b) s"
  using assms(2)
proof (induction rule: custody_reachable.induct)
  case (reach_prepared p s)
  from prepared_restored [OF assms(1) reach_prepared(1)] restored_unique [OF reach_prepared(2)]
  show ?case using initial_matches evidence_le_refl by blast
next
  case (reach_step s bs op p s')
  then obtain b where b: "binding_of I = Inr b" "state_matches_binding s b" "evidence_le (initial_state b) s"
    by blast
  have le: "evidence_le s s'"
    using custody.run_restorable [OF assms(1) reach_step(3)] restored_unique reach_step(2,4) by blast
  then have "same_attempt s s'" unfolding evidence_le_def by blast
  then show ?case
    using b le evidence_le_trans same_attempt_binding by blast
qed

text \<open>Bytes that restore under one attempt are rejected as a replay conflict under every other binding.\<close>

theorem custody_replay_conflict:
  assumes "restore_exact_state E from_slice bs b = Inr s" and "b' \<noteq> b"
  shows "\<exists>message. restore_exact_state E from_slice bs b' = Inl (custody_error ReplayConflict message)"
proof -
  note r = assms(1) [unfolded restore_Inr]
  have "\<not> state_matches_binding s b'"
  proof
    assume "state_matches_binding s b'"
    with r have "b' = b"
      by (intro D1DmlAttemptBinding.equality) (simp_all add: state_matches_binding_def)
    with assms(2) show False ..
  qed
  moreover from r have "canonical_state_bytes E s = Inr bs" by blast
  moreover from this have "\<not> D1_DML_ATTEMPT_STATE_BYTE_CAP < length bs"
    unfolding canonical_state_bytes_Inr not_less by blast
  ultimately have "restore_exact_state E from_slice bs b' = Inl (custody_error ReplayConflict
      ''attempt replay contradicted the exact target, plan, composition, or identities'')"
    using r by (simp add: restore_exact_state_def)
  then show ?thesis by blast
qed

lemma restored_by:
  assumes "binding_of I = Inr b" and "restored I bs s"
  shows "restore_exact_state (in_env I) (in_from_slice I) bs b = Inr s"
  using assms by (auto simp: restored_def)

text \<open>What one evidence operation leaves in its slot.\<close>

lemma slot_final:
  assumes "(case slot of
        Some incumbent \<Rightarrow> (if incumbent \<noteq> candidate then Inl e else product E s t1 None True)
      | None \<Rightarrow> (if blocked then Inl e' else
          ok_then (refresh_derived_state s1) (\<lambda>s'. product E s' t2 None False))) = Inr p"
  shows "\<exists>s'. emits E s' p \<and> (slot = Some candidate \<and> s' = s \<or>
    slot = None \<and> (\<exists>ph t. s' = s1\<lparr>st_phase := ph, st_terminal_outcome := t\<rparr>))"
proof (cases slot)
  case None
  with assms obtain s' where "refresh_derived_state s1 = Inr s'" "product E s' t2 None False = Inr p"
    by (auto simp: ok_then_eq_Inr split: if_splits)
  with refresh_Inr(2) product_Inr(1) None show ?thesis by blast
next
  case (Some incumbent)
  with assms product_Inr(1) show ?thesis by (auto split: if_splits)
qed

lemma emitted_restored:
  assumes "state_codec (in_env I) (in_from_slice I)" and "restored I bs s"
    and "emits (in_env I) s' p" and "same_attempt s s'"
  shows "restored I (dprod_state_bytes p) s'"
proof -
  from assms(2) obtain b where b: "binding_of I = Inr b" "state_matches_binding s b"
    by (auto simp: restored_def restore_Inr)
  with assms(4) have "state_matches_binding s' b" by (simp add: same_attempt_binding)
  from emits_restores [OF assms(1,3) this] b(1) show ?thesis by (auto simp: restored_def)
qed

lemma provider_recorded:
  assumes "state_codec (in_env I) (in_from_slice I)" and "binding_of I = Inr b"
    and "custody_apply I (OpProvider a) bs = Inr p" and "restored I bs s"
  shows "\<exists>s'. restored I (dprod_state_bytes p) s' \<and> same_attempt s s' \<and>
    st_dispatch_reservations s' = st_dispatch_reservations s \<and> st_ambiguity s' = st_ambiguity s \<and>
    st_provider_assertion s' = Some (provider_candidate b a) \<and>
    st_readback_assertion s' = st_readback_assertion s"
proof (rule provider_body [OF assms(3) [unfolded custody_apply.simps]], goal_cases)
  case (1 b' s0)
  then have eq: "b' = b" "s0 = s" using assms(2,4) restored_unique by auto
  from slot_final [OF 1(4)] obtain s' where s': "emits (in_env I) s' p" "same_attempt s s'"
    "st_dispatch_reservations s' = st_dispatch_reservations s" "st_ambiguity s' = st_ambiguity s"
    "st_provider_assertion s' = Some (provider_candidate b a)"
    "st_readback_assertion s' = st_readback_assertion s"
    by (auto simp: same_attempt_def eq)
  with emitted_restored [OF assms(1,4) s'(1,2)] show ?case by blast
qed

lemma readback_recorded:
  assumes "state_codec (in_env I) (in_from_slice I)" and "binding_of I = Inr b"
    and "custody_apply I (OpReadback a) bs = Inr p" and "restored I bs s"
  shows "\<exists>s'. restored I (dprod_state_bytes p) s' \<and> same_attempt s s' \<and>
    st_dispatch_reservations s' = st_dispatch_reservations s \<and> st_ambiguity s' = st_ambiguity s \<and>
    st_readback_assertion s' = Some (readback_candidate b a) \<and>
    st_provider_assertion s' = st_provider_assertion s"
proof (rule readback_body [OF assms(3) [unfolded custody_apply.simps]], goal_cases)
  case (1 b' s0)
  then have eq: "b' = b" "s0 = s" using assms(2,4) restored_unique by auto
  from slot_final [OF 1(4)] obtain s' where s': "emits (in_env I) s' p" "same_attempt s s'"
    "st_dispatch_reservations s' = st_dispatch_reservations s" "st_ambiguity s' = st_ambiguity s"
    "st_readback_assertion s' = Some (readback_candidate b a)"
    "st_provider_assertion s' = st_provider_assertion s"
    by (auto simp: same_attempt_def eq)
  with emitted_restored [OF assms(1,4) s'(1,2)] show ?case by blast
qed

lemma same_attempt_trans: "same_attempt s t \<Longrightarrow> same_attempt t u \<Longrightarrow> same_attempt s u"
  by (simp add: same_attempt_def)

lemma same_attempt_sym: "same_attempt s t \<Longrightarrow> same_attempt t s"
  by (simp add: same_attempt_def)

lemma restored_bytes: "restored I bs s \<Longrightarrow> canonical_state_bytes (in_env I) s = Inr bs"
  by (auto simp: restored_def restore_Inr)

text \<open>C30: The provider and the readback assertion can be recorded in either order: the durable bytes after both are the same.\<close>

theorem custody_assertions_commute:
  assumes "state_codec (in_env I) (in_from_slice I)" and "restored I bs s"
    and "custody_apply I (OpProvider a) bs = Inr p1" and "custody_apply I (OpReadback r) (dprod_state_bytes p1) = Inr p2"
    and "custody_apply I (OpReadback r) bs = Inr q1" and "custody_apply I (OpProvider a) (dprod_state_bytes q1) = Inr q2"
  shows "dprod_state_bytes p2 = dprod_state_bytes q2"
proof -
  from assms(2) obtain b where b: "binding_of I = Inr b" by (auto simp: restored_def)
  obtain s1 where s1: "restored I (dprod_state_bytes p1) s1" "same_attempt s s1"
    "st_dispatch_reservations s1 = st_dispatch_reservations s" "st_ambiguity s1 = st_ambiguity s"
    "st_provider_assertion s1 = Some (provider_candidate b a)" "st_readback_assertion s1 = st_readback_assertion s"
    using provider_recorded [OF assms(1) b assms(3,2)] by blast
  obtain s2 where s2: "restored I (dprod_state_bytes p2) s2" "same_attempt s1 s2"
    "st_dispatch_reservations s2 = st_dispatch_reservations s1" "st_ambiguity s2 = st_ambiguity s1"
    "st_readback_assertion s2 = Some (readback_candidate b r)" "st_provider_assertion s2 = st_provider_assertion s1"
    using readback_recorded [OF assms(1) b assms(4) s1(1)] by blast
  obtain t1 where t1: "restored I (dprod_state_bytes q1) t1" "same_attempt s t1"
    "st_dispatch_reservations t1 = st_dispatch_reservations s" "st_ambiguity t1 = st_ambiguity s"
    "st_readback_assertion t1 = Some (readback_candidate b r)" "st_provider_assertion t1 = st_provider_assertion s"
    using readback_recorded [OF assms(1) b assms(5,2)] by blast
  obtain t2 where t2: "restored I (dprod_state_bytes q2) t2" "same_attempt t1 t2"
    "st_dispatch_reservations t2 = st_dispatch_reservations t1" "st_ambiguity t2 = st_ambiguity t1"
    "st_provider_assertion t2 = Some (provider_candidate b a)" "st_readback_assertion t2 = st_readback_assertion t1"
    using provider_recorded [OF assms(1) b assms(6) t1(1)] by blast
  have "same_attempt s2 t2"
    using same_attempt_trans [OF same_attempt_sym [OF same_attempt_trans [OF s1(2) s2(2)]]
      same_attempt_trans [OF t1(2) t2(2)]] .
  moreover have "st_dispatch_reservations s2 = st_dispatch_reservations t2" using s1(3) s2(3) t1(3) t2(3) by simp
  moreover have "st_ambiguity s2 = st_ambiguity t2" using s1(4) s2(4) t1(4) t2(4) by simp
  moreover have "st_provider_assertion s2 = st_provider_assertion t2" using s1(5) s2(6) t2(5) by simp
  moreover have "st_readback_assertion s2 = st_readback_assertion t2" using s2(5) t1(5) t2(6) by simp
  ultimately have "s2 = t2"
    by (rule valid_state_eqI [OF restored_valid [OF s2(1)] restored_valid [OF t2(1)]])
  with restored_bytes [OF s2(1)] restored_bytes [OF t2(1)] show ?thesis by simp
qed

text \<open>Repeating a recorded provider or readback assertion on the stored bytes changes nothing and is reported as an exact replay.\<close>

theorem custody_replay_idempotent:
  assumes "state_codec (in_env I) (in_from_slice I)"
    and "op = OpProvider a \<or> op = OpReadback r" and "custody_apply I op bs = Inr p"
  shows "\<exists>q. custody_apply I op (dprod_state_bytes p) = Inr q \<and> dprod_state_bytes q = dprod_state_bytes p \<and>
    cr_exact_replay (dprod_receipt q) \<and> \<not> proposes_dispatch (dprod_receipt q)"
proof -
  obtain s where s: "restored I bs s" using custody.run_step [OF assms(3)] by blast
  then obtain b where b: "binding_of I = Inr b" by (auto simp: restored_def)
  from assms(2) show ?thesis
  proof
    assume op: "op = OpProvider a"
    note p = assms(3) [unfolded op]
    have one: "st_dispatch_reservations s = 1" and digest: "custody_valid_sha256 (pta_evidence_sha256 a)"
      using p restored_by [OF b s] b
      by (auto simp: record_d1_dml_provider_terminal_assertion_def binding_of_def require_dispatch_reserved_def
          ok_then_eq_Inr if_Inl_eq_Inr)
    obtain s' where s': "restored I (dprod_state_bytes p) s'" "st_dispatch_reservations s' = 1"
      "st_provider_assertion s' = Some (provider_candidate b a)"
      using provider_recorded [OF assms(1) b p s] one by auto
    obtain q where q: "product (in_env I) s' ProviderAssertionReplay None True = Inr q"
      "dprod_state_bytes q = dprod_state_bytes p"
      using product_total [OF restored_valid [OF s'(1)] restored_bytes [OF s'(1)]] by blast
    have "custody_apply I op (dprod_state_bytes p) = Inr q"
      using restored_by [OF b s'(1)] b s'(2,3) digest q(1)
      by (simp add: op record_d1_dml_provider_terminal_assertion_def binding_of_def
          require_dispatch_reserved_def provider_candidate_def)
    with q product_Inr [OF q(1)] show ?thesis by simp
  next
    assume op: "op = OpReadback r"
    note p = assms(3) [unfolded op]
    have one: "st_dispatch_reservations s = 1" and digest: "custody_valid_sha256 (rta_readback_plan_sha256 r)"
      "custody_valid_sha256 (rta_evidence_sha256 r)"
      using p restored_by [OF b s] b
      by (auto simp: record_d1_dml_readback_terminal_assertion_def binding_of_def require_dispatch_reserved_def
          ok_then_eq_Inr if_Inl_eq_Inr)
    obtain s' where s': "restored I (dprod_state_bytes p) s'" "st_dispatch_reservations s' = 1"
      "st_readback_assertion s' = Some (readback_candidate b r)"
      using readback_recorded [OF assms(1) b p s] one by auto
    obtain q where q: "product (in_env I) s' ReadbackAssertionReplay None True = Inr q"
      "dprod_state_bytes q = dprod_state_bytes p"
      using product_total [OF restored_valid [OF s'(1)] restored_bytes [OF s'(1)]] by blast
    have "custody_apply I op (dprod_state_bytes p) = Inr q"
      using restored_by [OF b s'(1)] b s'(2,3) digest q(1)
      by (simp add: op record_d1_dml_readback_terminal_assertion_def binding_of_def
          require_dispatch_reserved_def readback_candidate_def)
    with q product_Inr [OF q(1)] show ?thesis by simp
  qed
qed

section \<open>The binding\<close>

lemma derive_attempt_binding_Inr:
  assumes "derive_attempt_binding E target composition identities = Inr b"
  shows "canonical_d1_target target"
    and "wp_account_id (xprod_plan composition) = tgt_account_id target"
    and "comp_execute_plan_sha256 (xprod_receipt composition) = hash_serialized E (ser_write_plan (xprod_plan composition))"
    and "distinct [operation_id identities, execution_attempt_id identities, provider_request_id identities]"
    and "bind_target_key_sha256 b = target_key_sha256 E target"
    and "bind_execute_plan_sha256 b = comp_execute_plan_sha256 (xprod_receipt composition)"
    and "bind_composition_sha256 b = comp_composition_sha256 (xprod_receipt composition)"
    and "bind_composition_receipt_sha256 b = hash_serialized E (ser_composition_receipt (xprod_receipt composition))"
    and "bind_operation_id_sha256 b = sha256_hex E (operation_id identities)"
    and "bind_execution_attempt_id_sha256 b = sha256_hex E (execution_attempt_id identities)"
    and "bind_provider_request_id_sha256 b = sha256_hex E (provider_request_id identities)"
    and "bind_attempt_binding_sha256 b = hash_serialized E (SSeq
         [ser_u8 CUSTODY_VERSION, SStr D1_DML_ATTEMPT_CUSTODY_OPERATION, SStr (bind_target_key_sha256 b),
          SStr (bind_execute_plan_sha256 b), SStr (bind_composition_sha256 b),
          SStr (bind_composition_receipt_sha256 b), SStr (bind_operation_id_sha256 b),
          SStr (bind_execution_attempt_id_sha256 b), SStr (bind_provider_request_id_sha256 b)])"
    and "composition_receipt_digests_are_valid (xprod_receipt composition)"
proof -
  let ?ids = "[operation_id identities, execution_attempt_id identities, provider_request_id identities]"
  have three: "length (bset_of ?ids) = 3 \<longleftrightarrow> distinct ?ids"
    unfolding length_bset_of_eq [symmetric] by (simp add: numeral_3_eq_3)
  note body = assms [unfolded derive_attempt_binding_def ok_then_eq_Inr map_err_eq_Inr Let_def if_Inl_eq_Inr
    canonical_d1_target_def [symmetric]]
  then show "canonical_d1_target target" "distinct ?ids"
    unfolding canonical_d1_target_def three [symmetric] by auto
  from body show "wp_account_id (xprod_plan composition) = tgt_account_id target"
    "comp_execute_plan_sha256 (xprod_receipt composition) = hash_serialized E (ser_write_plan (xprod_plan composition))"
    "bind_target_key_sha256 b = target_key_sha256 E target"
    "bind_execute_plan_sha256 b = comp_execute_plan_sha256 (xprod_receipt composition)"
    "bind_composition_sha256 b = comp_composition_sha256 (xprod_receipt composition)"
    "bind_composition_receipt_sha256 b = hash_serialized E (ser_composition_receipt (xprod_receipt composition))"
    "bind_operation_id_sha256 b = sha256_hex E (operation_id identities)"
    "bind_execution_attempt_id_sha256 b = sha256_hex E (execution_attempt_id identities)"
    "bind_provider_request_id_sha256 b = sha256_hex E (provider_request_id identities)"
    "bind_attempt_binding_sha256 b = hash_serialized E (SSeq
         [ser_u8 CUSTODY_VERSION, SStr D1_DML_ATTEMPT_CUSTODY_OPERATION, SStr (bind_target_key_sha256 b),
          SStr (bind_execute_plan_sha256 b), SStr (bind_composition_sha256 b),
          SStr (bind_composition_receipt_sha256 b), SStr (bind_operation_id_sha256 b),
          SStr (bind_execution_attempt_id_sha256 b), SStr (bind_provider_request_id_sha256 b)])"
    "composition_receipt_digests_are_valid (xprod_receipt composition)"
    by auto
qed

lemma ser_write_plan_inject: "ser_write_plan p = ser_write_plan q \<longleftrightarrow> p = q"
proof
  assume eq: "ser_write_plan p = ser_write_plan q"
  have "wp_statement_kind p = wp_statement_kind q"
    using eq by (cases "wp_statement_kind p"; cases "wp_statement_kind q") (simp_all add: ser_write_plan_def)
  with eq show "p = q"
    by (intro D1ExecuteWritePlan.equality) (simp_all add: ser_write_plan_def word_uint_eq_iff)
qed simp

lemma ser_composition_receipt_inject: "ser_composition_receipt r = ser_composition_receipt r' \<longleftrightarrow> r = r'"
proof
  assume "ser_composition_receipt r = ser_composition_receipt r'"
  then show "r = r'"
    by (intro D1ExactPlanCompositionReceipt.equality) (simp_all add: ser_composition_receipt_def word_uint_eq_iff)
qed simp

text \<open>The texts an attempt binding digests, the binding itself last.\<close>

definition bound_texts :: "env \<Rightarrow> D1TargetIdentity \<Rightarrow> D1ExactPlanCompositionProduct \<Rightarrow> D1DmlAttemptIdentities \<Rightarrow>
    D1DmlAttemptBinding \<Rightarrow> bytes list" where
  "bound_texts E target composition identities b =
     [tgt_account_id target @ CHR 0x00 # tgt_database_id target, to_vec E (ser_write_plan (xprod_plan composition)),
      to_vec E (ser_composition_receipt (xprod_receipt composition)), operation_id identities,
      execution_attempt_id identities, provider_request_id identities,
      to_vec E (SSeq [ser_u8 CUSTODY_VERSION, SStr D1_DML_ATTEMPT_CUSTODY_OPERATION, SStr (bind_target_key_sha256 b),
        SStr (bind_execute_plan_sha256 b), SStr (bind_composition_sha256 b), SStr (bind_composition_receipt_sha256 b),
        SStr (bind_operation_id_sha256 b), SStr (bind_execution_attempt_id_sha256 b), SStr (bind_provider_request_id_sha256 b)])]"

text \<open>Two texts at one position that differ and have one digest.\<close>

definition collide :: "env \<Rightarrow> bytes list \<Rightarrow> bytes list \<Rightarrow> bool" where
  "collide E xs ys \<longleftrightarrow> (\<exists>i < length xs. xs ! i \<noteq> ys ! i \<and> sha256_hex E (xs ! i) = sha256_hex E (ys ! i))"

lemma collide_simps [simp]:
  "\<not> collide E [] ys" "collide E (x # xs) (y # ys) \<longleftrightarrow> x \<noteq> y \<and> sha256_hex E x = sha256_hex E y \<or> collide E xs ys"
  by (auto simp: collide_def All_less_Suc2 Ex_less_Suc2)

text \<open>C25: Two attempts have the same binding digest exactly when they are attempts on the same target, with the
  same exact plan, the same composition receipt and the same three identities; only a collision of SHA-256 on two
  corresponding texts of the two bindings could give different attempts one digest.\<close>

theorem custody_binding_binds:
  assumes "to_vec_injective E"
    and "derive_attempt_binding E t1 c1 i1 = Inr b1" and "derive_attempt_binding E t2 c2 i2 = Inr b2"
  shows "(bind_attempt_binding_sha256 b1 = bind_attempt_binding_sha256 b2 \<longleftrightarrow>
      t1 = t2 \<and> xprod_plan c1 = xprod_plan c2 \<and> xprod_receipt c1 = xprod_receipt c2 \<and> i1 = i2) \<or>
    collide E (bound_texts E t1 c1 i1 b1) (bound_texts E t2 c2 i2 b2)"
proof (rule disjCI)
  assume free: "\<not> collide E (bound_texts E t1 c1 i1 b1) (bound_texts E t2 c2 i2 b2)"
  note d1 = derive_attempt_binding_Inr [OF assms(2)] and d2 = derive_attempt_binding_Inr [OF assms(3)]
  have to_vec: "to_vec E v = to_vec E w \<longleftrightarrow> v = w" for v w using assms(1) by (auto simp: to_vec_injective_def)
  note keys = free [unfolded bound_texts_def collide_simps to_vec de_Morgan_disj, simplified]
  have same: "t1 = t2" if "bind_target_key_sha256 b1 = bind_target_key_sha256 b2"
    using canonical_target_text [OF d1(1) d2(1)] keys that unfolding d1(5) d2(5) target_key_sha256_def by auto
  have plan: "xprod_plan c1 = xprod_plan c2" if "bind_execute_plan_sha256 b1 = bind_execute_plan_sha256 b2"
    using keys that unfolding d1(6) d2(6) d1(3) d2(3) hash_serialized_def ser_write_plan_inject by auto
  have receipt: "xprod_receipt c1 = xprod_receipt c2" if "bind_composition_receipt_sha256 b1 = bind_composition_receipt_sha256 b2"
    using keys that unfolding d1(8) d2(8) hash_serialized_def ser_composition_receipt_inject by auto
  have ids: "i1 = i2" if "bind_operation_id_sha256 b1 = bind_operation_id_sha256 b2"
    "bind_execution_attempt_id_sha256 b1 = bind_execution_attempt_id_sha256 b2"
    "bind_provider_request_id_sha256 b1 = bind_provider_request_id_sha256 b2"
    using keys that unfolding d1(9-11) d2(9-11) by (intro D1DmlAttemptIdentities.equality) auto
  show "bind_attempt_binding_sha256 b1 = bind_attempt_binding_sha256 b2 \<longleftrightarrow>
      t1 = t2 \<and> xprod_plan c1 = xprod_plan c2 \<and> xprod_receipt c1 = xprod_receipt c2 \<and> i1 = i2" (is "?digest \<longleftrightarrow> ?inputs")
  proof
    assume ?digest
    with keys have "bind_target_key_sha256 b1 = bind_target_key_sha256 b2"
      "bind_execute_plan_sha256 b1 = bind_execute_plan_sha256 b2"
      "bind_composition_receipt_sha256 b1 = bind_composition_receipt_sha256 b2"
      "bind_operation_id_sha256 b1 = bind_operation_id_sha256 b2"
      "bind_execution_attempt_id_sha256 b1 = bind_execution_attempt_id_sha256 b2"
      "bind_provider_request_id_sha256 b1 = bind_provider_request_id_sha256 b2"
      unfolding d1(12) d2(12) hash_serialized_def by auto
    then show ?inputs using same plan receipt ids by blast
  next
    assume ?inputs
    then show ?digest unfolding d1(5-12) d2(5-12) by simp
  qed
qed

text \<open>C29: Every accepted composition, with three distinct well-formed identities, yields an attempt binding: custody rejects nothing the composer produced.\<close>

theorem custody_accepts_composition:
  assumes "compose_d1_exact_write_plan E target plan sha relation form catalog graph = Inr x"
    and "sha256_is_hex E"
    and "list_all valid_opaque_identity [operation_id i, execution_attempt_id i, provider_request_id i]"
    and "distinct [operation_id i, execution_attempt_id i, provider_request_id i]"
  shows "\<exists>b. derive_attempt_binding E target x i = Inr b"
proof -
  from assms(1) obtain ops where
    target: "canonical_d1_target target" and plan: "validate_plan E target plan sha form = Inr ()"
    and catalog: "validate_catalog_receipt E target (cprod_receipt catalog) = Inr ()"
    and graph: "validate_graph_receipt (cprod_receipt catalog) (gprod_receipt graph) = Inr ()"
    and x: "x = \<lparr>xprod_receipt = composition_receipt_of E target sha relation form
              (cprod_receipt catalog) (gprod_receipt graph) ops (map (\<lambda>o'. (o', Allow)) ops),
            xprod_plan = plan, xprod_classified_relation = relation,
            xprod_classified_form = form, xprod_effective_primitives = ops\<rparr>"
    unfolding compose_Inr by blast
  note hex = custody_digest.hash_serialized_valid [OF assms(2)] custody_digest.digest_valid [OF assms(2)]
  have same: "valid_sha256 = custody_valid_sha256"
    by (rule ext) (simp add: valid_sha256_def custody_valid_sha256_def)
  have "composition_receipt_digests_are_valid (xprod_receipt x)"
    using plan catalog graph
    by (auto simp: x composition_receipt_digests_are_valid_def composition_receipt_of_def Let_def hex
        target_key_sha256_def validate_plan_Inr same validate_graph_receipt_def validate_catalog_receipt_def
        catalog_receipt_shape_is_consistent_def split: if_splits)
  moreover have "length (bset_of [operation_id i, execution_attempt_id i, provider_request_id i]) = 3"
    using assms(4) [folded length_bset_of_eq] by simp
  ultimately show ?thesis
    using target plan assms(3)
    unfolding derive_attempt_binding_def canonical_d1_target_def validate_plan_Inr
    by (simp add: x composition_receipt_of_def Let_def COMPOSITION_VERSION_def REQUIRED_COMPOSITION_VERSION_def)
qed

section \<open>Completion\<close>

text \<open>
  A consequence of the JSON text of a valid state: sixteen fields, each at most a digest or a small
  record of digests, stay far below the byte cap.
\<close>

definition state_text_bounded :: "env \<Rightarrow> bool" where
  "state_text_bounded E \<longleftrightarrow>
     (\<forall>s. validate_state s = Inr () \<longrightarrow> length (to_vec E (ser_state s)) < D1_DML_ATTEMPT_STATE_BYTE_CAP)"

lemma product_succeeds:
  assumes "state_text_bounded E" and "validate_state s = Inr ()"
  shows "\<exists>p. product E s transition expected replay = Inr p \<and> emits E s p \<and>
    (proposes_dispatch (dprod_receipt p) \<longleftrightarrow> expected \<noteq> None)"
proof -
  have "canonical_state_bytes E s = Inr (to_vec E (ser_state s) @ [CHR 0x0A])"
    using assms by (simp add: canonical_state_bytes_Inr state_text_bounded_def Suc_le_eq)
  from product_total [OF assms(2) this] obtain p where p: "product E s transition expected replay = Inr p"
    by blast
  with product_Inr [OF p] show ?thesis by blast
qed

text \<open>The part of the validation that does not depend on the derived fields.\<close>

definition evidence_wf :: "D1DmlAttemptState \<Rightarrow> bool" where
  "evidence_wf s \<longleftrightarrow> st_version s = CUSTODY_VERSION \<and> st_operation s = D1_DML_ATTEMPT_CUSTODY_OPERATION \<and>
     all_state_digests_are_valid s \<and> validate_provider_assertion s = Inr () \<and>
     validate_readback_assertion s = Inr ()"

lemma refresh_reserved:
  assumes "evidence_wf s" and "st_dispatch_reservations s = 1"
  shows "\<exists>ph. refresh_derived_state s = Inr (s\<lparr>st_phase := ph, st_terminal_outcome := assertion_outcome s\<rparr>)"
proof -
  have keep: "validate_provider_assertion (s\<lparr>st_phase := ph, st_terminal_outcome := t\<rparr>) = validate_provider_assertion s"
    "validate_readback_assertion (s\<lparr>st_phase := ph, st_terminal_outcome := t\<rparr>) = validate_readback_assertion s"
    "all_state_digests_are_valid (s\<lparr>st_phase := ph, st_terminal_outcome := t\<rparr>) = all_state_digests_are_valid s"
    "assertion_outcome (s\<lparr>st_phase := ph, st_terminal_outcome := t\<rparr>) = assertion_outcome s" for ph t
    by (simp_all add: validate_provider_assertion_def validate_readback_assertion_def
        all_state_digests_are_valid_def assertion_outcome_def cong: option.case_cong)
  have derive: "derive_phase_and_terminal (s\<lparr>st_phase := ph, st_terminal_outcome := t\<rparr>) = derive_phase_and_terminal s" for ph t
    using assms(2) by (simp add: derive_phase_and_terminal_def keep Let_def cong: option.case_cong)
  obtain ph where ph: "derive_phase_and_terminal s = Inr (ph, assertion_outcome s)"
    using assms(2) by (simp add: derive_phase_and_terminal_def Let_def)
  have "refresh_derived_state s = Inr (s\<lparr>st_phase := ph, st_terminal_outcome := assertion_outcome s\<rparr>)"
    using assms(1)
    by (simp add: refresh_derived_state_def ph validate_state_def keep derive evidence_wf_def)
  then show ?thesis ..
qed

lemma initial_state_wf:
  assumes "sha256_is_hex E" and "derive_attempt_binding E target composition identities = Inr b"
  shows "evidence_wf (initial_state b)" and "validate_state (initial_state b) = Inr ()"
proof -
  note hex = custody_digest.hash_serialized_valid [OF assms(1)] custody_digest.digest_valid [OF assms(1)]
  note d = derive_attempt_binding_Inr [OF assms(2)]
  have "custody_valid_sha256 (bind_composition_sha256 b)" "custody_valid_sha256 (bind_execute_plan_sha256 b)"
    using d(13) by (simp_all add: d(6,7) composition_receipt_digests_are_valid_def)
  moreover have "custody_valid_sha256 (bind_attempt_binding_sha256 b)" unfolding d(12) by (rule hex)
  ultimately have "all_state_digests_are_valid (initial_state b)"
    by (simp add: all_state_digests_are_valid_def initial_state_def d(5,8-11) hex target_key_sha256_def)
  then show "evidence_wf (initial_state b)"
    by (simp add: evidence_wf_def validate_provider_assertion_def validate_readback_assertion_def initial_state_def)
  then show "validate_state (initial_state b) = Inr ()"
    by (simp add: validate_state_def evidence_wf_def derive_phase_and_terminal_def)
      (simp add: initial_state_def)
qed

text \<open>The successor states of an attempt that runs to its end.\<close>

lemma completion_step:
  assumes "state_codec (in_env I) (in_from_slice I)" and "state_text_bounded (in_env I)"
    and "restored I bs s" and "evidence_wf s1" and "same_attempt s s1" and "st_dispatch_reservations s1 = 1"
  shows "\<exists>p s'. ok_then (refresh_derived_state s1) (\<lambda>s'. product (in_env I) s' t expected False) = Inr p \<and>
    restored I (dprod_state_bytes p) s' \<and> emits (in_env I) s' p \<and>
    (proposes_dispatch (dprod_receipt p) \<longleftrightarrow> expected \<noteq> None) \<and>
    (\<exists>ph. s' = s1\<lparr>st_phase := ph, st_terminal_outcome := assertion_outcome s1\<rparr>)"
proof -
  obtain ph where r: "refresh_derived_state s1 = Inr (s1\<lparr>st_phase := ph, st_terminal_outcome := assertion_outcome s1\<rparr>)"
    using refresh_reserved [OF assms(4,6)] by blast
  let ?s' = "s1\<lparr>st_phase := ph, st_terminal_outcome := assertion_outcome s1\<rparr>"
  obtain p where p: "product (in_env I) ?s' t expected False = Inr p" "emits (in_env I) ?s' p"
    "proposes_dispatch (dprod_receipt p) \<longleftrightarrow> expected \<noteq> None"
    using product_succeeds [OF assms(2) refresh_Inr(1) [OF r], of t expected False] by (elim exE conjE)
  have "same_attempt s ?s'" using assms(5) by (simp add: same_attempt_def)
  note restored' = emitted_restored [OF assms(1,3) p(2) this]
  have run: "ok_then (refresh_derived_state s1) (\<lambda>s'. product (in_env I) s' t expected False) = Inr p"
    using r p(1) by simp
  show ?thesis
    by (rule exI [of _ p], rule exI [of _ ?s'], intro conjI exI [of _ ph] refl run restored' p(2,3))
qed

text \<open>A reserved attempt of the binding \<open>b\<close> with the given assertion slots.\<close>

definition reserved_stage ::
  "D1DmlAttemptBinding \<Rightarrow> D1DmlAttemptState \<Rightarrow> D1DmlProviderTerminalAssertionRecord option \<Rightarrow>
    D1DmlReadbackTerminalAssertionRecord option \<Rightarrow> bool" where
  "reserved_stage b s provider readback \<longleftrightarrow> evidence_wf s \<and> st_dispatch_reservations s = 1 \<and>
     st_attempt_binding_sha256 s = bind_attempt_binding_sha256 b \<and>
     st_provider_request_id_sha256 s = bind_provider_request_id_sha256 b \<and>
     st_provider_assertion s = provider \<and> st_readback_assertion s = readback"

lemmas evidence_wf_defs = evidence_wf_def all_state_digests_are_valid_def
  validate_provider_assertion_def validate_readback_assertion_def

lemma reserved_stage_refreshed:
  assumes "\<exists>ph. s' = s\<lparr>st_phase := ph, st_terminal_outcome := t\<rparr>" and "reserved_stage b s provider readback"
  shows "reserved_stage b s' provider readback"
  using assms by (auto simp: reserved_stage_def evidence_wf_defs cong: option.case_cong)

lemma reserve_completes:
  assumes "state_codec (in_env I) (in_from_slice I)" and "state_text_bounded (in_env I)"
    and "binding_of I = Inr b" and "restored I bs (initial_state b)" and "evidence_wf (initial_state b)"
  shows "\<exists>p s'. custody_apply I OpReserve bs = Inr p \<and> proposes_dispatch (dprod_receipt p) \<and>
    restored I (dprod_state_bytes p) s' \<and> reserved_stage b s' None None"
proof -
  let ?s1 = "(initial_state b)\<lparr>st_dispatch_reservations := 1\<rparr>"
  have stage: "reserved_stage b ?s1 None None"
    using assms(5) by (simp add: reserved_stage_def evidence_wf_defs initial_state_def)
  have "evidence_wf ?s1" "same_attempt (initial_state b) ?s1" "st_dispatch_reservations ?s1 = 1"
    using stage by (simp_all add: reserved_stage_def same_attempt_def)
  from completion_step [OF assms(1,2,4) this] obtain p s' where
    p: "ok_then (refresh_derived_state ?s1) (\<lambda>s'. product (in_env I) s' DispatchReservationPrepared
        (Some bs) False) = Inr p"
    and s': "restored I (dprod_state_bytes p) s'" "proposes_dispatch (dprod_receipt p)"
    and eq: "\<exists>ph. s' = ?s1\<lparr>st_phase := ph, st_terminal_outcome := assertion_outcome ?s1\<rparr>"
    by blast
  have "custody_apply I OpReserve bs = Inr p"
    using restored_by [OF assms(3,4)] assms(3) p
    by (simp add: prepare_d1_dml_dispatch_reservation_cas_def binding_of_def)
      (simp add: initial_state_def)
  with s' reserved_stage_refreshed [OF eq stage] show ?thesis by blast
qed

text \<open>A recorded assertion refreshes the derived fields and nothing else.\<close>

lemma stage_step:
  assumes "state_codec (in_env I) (in_from_slice I)" and "state_text_bounded (in_env I)"
    and "restored I bs s" and "reserved_stage b s1 provider readback" and "same_attempt s s1"
  shows "\<exists>p s'. ok_then (refresh_derived_state s1) (\<lambda>s'. product (in_env I) s' t None False) = Inr p \<and>
    restored I (dprod_state_bytes p) s' \<and> reserved_stage b s' provider readback \<and>
    cr_terminal_outcome (dprod_receipt p) = assertion_outcome s'"
proof -
  have "evidence_wf s1" "st_dispatch_reservations s1 = 1" using assms(4) by (simp_all add: reserved_stage_def)
  from completion_step [OF assms(1,2,3) this(1) assms(5) this(2)] obtain p s' where
    p: "ok_then (refresh_derived_state s1) (\<lambda>s'. product (in_env I) s' t None False) = Inr p"
    and s': "restored I (dprod_state_bytes p) s'" "emits (in_env I) s' p"
    and eq: "\<exists>ph. s' = s1\<lparr>st_phase := ph, st_terminal_outcome := assertion_outcome s1\<rparr>"
    by blast
  have "st_terminal_outcome s' = assertion_outcome s1" "assertion_outcome s' = assertion_outcome s1"
    using eq by (auto simp: assertion_outcome_def cong: option.case_cong)
  then have "cr_terminal_outcome (dprod_receipt p) = assertion_outcome s'"
    using s'(2) by (simp add: emits_def)
  with p s'(1) reserved_stage_refreshed [OF eq assms(4)] show ?thesis by blast
qed

lemma provider_completes:
  assumes "state_codec (in_env I) (in_from_slice I)" and "state_text_bounded (in_env I)"
    and "binding_of I = Inr b" and "restored I bs s" and "reserved_stage b s None readback"
    and "custody_valid_sha256 (pta_evidence_sha256 a)"
  shows "\<exists>p s'. custody_apply I (OpProvider a) bs = Inr p \<and> restored I (dprod_state_bytes p) s' \<and>
    reserved_stage b s' (Some (provider_candidate b a)) readback \<and>
    cr_terminal_outcome (dprod_receipt p) = assertion_outcome s'"
proof -
  let ?s1 = "s\<lparr>st_provider_assertion := Some (provider_candidate b a)\<rparr>"
  have stage: "reserved_stage b ?s1 (Some (provider_candidate b a)) readback"
    using assms(5,6) by (auto simp: reserved_stage_def evidence_wf_defs provider_candidate_def cong: option.case_cong)
  have "same_attempt s ?s1" by (simp add: same_attempt_def)
  from stage_step [OF assms(1,2,4) stage this] obtain p s' where
    p: "ok_then (refresh_derived_state ?s1) (\<lambda>s'. product (in_env I) s' ProviderAssertionRecorded None False) = Inr p"
    and s': "restored I (dprod_state_bytes p) s'" "reserved_stage b s' (Some (provider_candidate b a)) readback"
      "cr_terminal_outcome (dprod_receipt p) = assertion_outcome s'"
    by blast
  have "custody_apply I (OpProvider a) bs = Inr p"
    using restored_by [OF assms(3,4)] assms(3,5,6) p
    by (simp add: record_d1_dml_provider_terminal_assertion_def binding_of_def require_dispatch_reserved_def
        provider_candidate_def reserved_stage_def)
  with s' show ?thesis by blast
qed

lemma readback_completes:
  assumes "state_codec (in_env I) (in_from_slice I)" and "state_text_bounded (in_env I)"
    and "binding_of I = Inr b" and "restored I bs s" and "reserved_stage b s provider None"
    and "custody_valid_sha256 (rta_readback_plan_sha256 r)" "custody_valid_sha256 (rta_evidence_sha256 r)"
  shows "\<exists>p s'. custody_apply I (OpReadback r) bs = Inr p \<and> restored I (dprod_state_bytes p) s' \<and>
    reserved_stage b s' provider (Some (readback_candidate b r)) \<and>
    cr_terminal_outcome (dprod_receipt p) = assertion_outcome s'"
proof -
  let ?s1 = "s\<lparr>st_readback_assertion := Some (readback_candidate b r)\<rparr>"
  have stage: "reserved_stage b ?s1 provider (Some (readback_candidate b r))"
    using assms(5-7) by (auto simp: reserved_stage_def evidence_wf_defs readback_candidate_def cong: option.case_cong)
  have "same_attempt s ?s1" by (simp add: same_attempt_def)
  from stage_step [OF assms(1,2,4) stage this] obtain p s' where
    p: "ok_then (refresh_derived_state ?s1) (\<lambda>s'. product (in_env I) s' ReadbackAssertionRecorded None False) = Inr p"
    and s': "restored I (dprod_state_bytes p) s'" "reserved_stage b s' provider (Some (readback_candidate b r))"
      "cr_terminal_outcome (dprod_receipt p) = assertion_outcome s'"
    by blast
  have "custody_apply I (OpReadback r) bs = Inr p"
    using restored_by [OF assms(3,4)] assms(3,5-7) p
    by (simp add: record_d1_dml_readback_terminal_assertion_def binding_of_def require_dispatch_reserved_def
        readback_candidate_def reserved_stage_def)
  with s' show ?thesis by blast
qed

lemma stage_outcome:
  assumes "reserved_stage b s (Some (provider_candidate b a)) (Some (readback_candidate b r))"
  shows "assertion_outcome s = pair_outcome (pta_classification a) (rta_classification r)"
  using assms by (simp add: reserved_stage_def assertion_outcome_def provider_candidate_def readback_candidate_def)

text \<open>C5: Liveness of the whole protocol: for a bound attempt, preparing, reserving the dispatch and recording a well-formed provider and readback assertion all succeed, the reservation is the step that proposes the dispatch, and a compatible pair of assertions ends in its terminal outcome.\<close>

theorem custody_completes:
  assumes "state_codec (in_env I) (in_from_slice I)" and "state_text_bounded (in_env I)"
    and "sha256_is_hex (in_env I)" and "binding_of I = Inr b"
    and "custody_valid_sha256 (pta_evidence_sha256 a)" and "custody_valid_sha256 (rta_readback_plan_sha256 r)"
    and "custody_valid_sha256 (rta_evidence_sha256 r)"
  shows "\<exists>p0 p1 p2 p3. prepare_d1_dml_attempt (in_env I) (in_from_slice I) (in_target I) (in_composition I)
      (in_identities I) None = Inr p0 \<and>
    custody_apply I OpReserve (dprod_state_bytes p0) = Inr p1 \<and> proposes_dispatch (dprod_receipt p1) \<and>
    custody_apply I (OpProvider a) (dprod_state_bytes p1) = Inr p2 \<and>
    custody_apply I (OpReadback r) (dprod_state_bytes p2) = Inr p3 \<and>
    cr_terminal_outcome (dprod_receipt p3) = pair_outcome (pta_classification a) (rta_classification r)"
proof -
  note init = initial_state_wf [OF assms(3) assms(4) [unfolded binding_of_def]]
  obtain p0 where p0: "product (in_env I) (initial_state b) TransitionPrepared None False = Inr p0"
    "emits (in_env I) (initial_state b) p0"
    using product_succeeds [OF assms(2) init(2)] by blast
  have prepared: "prepare_d1_dml_attempt (in_env I) (in_from_slice I) (in_target I) (in_composition I)
      (in_identities I) None = Inr p0"
    using p0(1) assms(4) by (simp add: prepare_d1_dml_attempt_def binding_of_def)
  have "restored I (dprod_state_bytes p0) (initial_state b)"
    using emits_restores [OF assms(1) p0(2) initial_matches] assms(4) by (auto simp: restored_def)
  from reserve_completes [OF assms(1,2,4) this init(1)] obtain p1 s1 where
    p1: "custody_apply I OpReserve (dprod_state_bytes p0) = Inr p1" "proposes_dispatch (dprod_receipt p1)"
    and s1: "restored I (dprod_state_bytes p1) s1" "reserved_stage b s1 None None"
    by blast
  from provider_completes [OF assms(1,2,4) s1 assms(5)] obtain p2 s2 where
    p2: "custody_apply I (OpProvider a) (dprod_state_bytes p1) = Inr p2"
    and s2: "restored I (dprod_state_bytes p2) s2" "reserved_stage b s2 (Some (provider_candidate b a)) None"
    by blast
  from readback_completes [OF assms(1,2,4) s2 assms(6,7)] obtain p3 s3 where
    p3: "custody_apply I (OpReadback r) (dprod_state_bytes p2) = Inr p3"
      "cr_terminal_outcome (dprod_receipt p3) = assertion_outcome s3"
    and s3: "reserved_stage b s3 (Some (provider_candidate b a)) (Some (readback_candidate b r))"
    by blast
  from prepared p1 p2 p3 stage_outcome [OF s3] show ?thesis by auto
qed

end
