(* ===== verification/D1_Samples.thy ===== *)
theory D1_Samples
  imports D1_Custody_Sound
begin

text \<open>
  A concrete catalog the verifier accepts and the graph decides, used to evaluate the model: tables
  \<open>users\<close>, \<open>orders\<close> (with a cascading foreign key to \<open>users\<close>), \<open>audit_log\<close> (a configured
  reserved root), \<open>sqlite_sequence\<close> and an AUTOINCREMENT table \<open>events\<close>. The third-party functions
  are those of \<open>sample_env\<close>. The same catalog carries a composition and an attempt through custody.
\<close>

definition sample_target :: D1TargetIdentity where
  "sample_target = \<lparr>tgt_account_id = ''acct'', tgt_database_id = ''01234567-89ab-cdef-0123-456789abcdef''\<rparr>"

definition table_row :: "int \<Rightarrow> string \<Rightarrow> string \<Rightarrow> D1CatalogProjectionRow" where
  "table_row rowid name source =
     \<lparr>schema_rowid = rowid, fact_order = 0, fact_kind = ''relation'',
      relation_type_storage_class = ''text'', relation_type_value_hex = hex_bytes ''table'',
      relation_type = ''table'', relation_name_storage_class = ''text'',
      relation_name_hex = hex_bytes name, owner_name_storage_class = ''text'',
      owner_name_hex = hex_bytes name, schema_sql_storage_class = ''text'',
      table_sql_token_source_is_null = 0, table_sql_token_source_hex = hex_bytes source,
      table_virtual_token_hit = 0, table_replace_token_hit = 0,
      foreign_key_id_storage_class = ''not_applicable'', foreign_key_id_value_hex = [], foreign_key_id = -1,
      foreign_key_seq_storage_class = ''not_applicable'', foreign_key_seq_value_hex = [],
      foreign_key_seq = -1, parent_name_storage_class = ''not_applicable'', parent_name_hex = [],
      from_column_storage_class = ''not_applicable'', from_column_hex = [],
      to_column_storage_class = ''not_applicable'', to_column_is_null = 1, to_column_hex = [],
      on_update_storage_class = ''not_applicable'', on_update_hex = [],
      on_delete_storage_class = ''not_applicable'', on_delete_hex = [],
      match_storage_class = ''not_applicable'', match_hex = [], conservative_blocker = []\<rparr>"

definition key_row :: D1CatalogProjectionRow where
  "key_row =
     \<lparr>schema_rowid = 2, fact_order = 1, fact_kind = ''foreign_key'',
      relation_type_storage_class = ''text'', relation_type_value_hex = hex_bytes ''table'',
      relation_type = ''table'', relation_name_storage_class = ''text'',
      relation_name_hex = hex_bytes ''orders'', owner_name_storage_class = ''not_applicable'',
      owner_name_hex = [], schema_sql_storage_class = ''not_applicable'',
      table_sql_token_source_is_null = 1, table_sql_token_source_hex = [],
      table_virtual_token_hit = 0, table_replace_token_hit = 0,
      foreign_key_id_storage_class = ''integer'', foreign_key_id_value_hex = hex_bytes ''0'',
      foreign_key_id = 0, foreign_key_seq_storage_class = ''integer'',
      foreign_key_seq_value_hex = hex_bytes ''0'', foreign_key_seq = 0,
      parent_name_storage_class = ''text'', parent_name_hex = hex_bytes ''users'',
      from_column_storage_class = ''text'', from_column_hex = hex_bytes ''user'',
      to_column_storage_class = ''text'', to_column_is_null = 0, to_column_hex = hex_bytes ''id'',
      on_update_storage_class = ''text'', on_update_hex = hex_bytes ''NO ACTION'',
      on_delete_storage_class = ''text'', on_delete_hex = hex_bytes ''CASCADE'',
      match_storage_class = ''text'', match_hex = hex_bytes ''NONE'', conservative_blocker = []\<rparr>"

definition sample_rows :: "D1CatalogProjectionRow list" where
  "sample_rows =
     [table_row 1 ''users'' ''T'', table_row 2 ''orders'' ''T'', key_row, table_row 3 ''audit_log'' ''T'',
      table_row 4 ''sqlite_sequence'' ''T'', table_row 5 ''events'' ''AUTOINCREMENT'']"

lemma table_row_fields [simp]:
  "schema_rowid (table_row rowid name source) = rowid"
  "fact_order (table_row rowid name source) = 0"
  "fact_kind (table_row rowid name source) = ''relation''"
  "relation_type_storage_class (table_row rowid name source) = ''text''"
  "relation_type_value_hex (table_row rowid name source) = hex_bytes ''table''"
  "relation_type (table_row rowid name source) = ''table''"
  "relation_name_storage_class (table_row rowid name source) = ''text''"
  "relation_name_hex (table_row rowid name source) = hex_bytes name"
  "owner_name_storage_class (table_row rowid name source) = ''text''"
  "owner_name_hex (table_row rowid name source) = hex_bytes name"
  "schema_sql_storage_class (table_row rowid name source) = ''text''"
  "table_sql_token_source_is_null (table_row rowid name source) = 0"
  "table_sql_token_source_hex (table_row rowid name source) = hex_bytes source"
  "table_virtual_token_hit (table_row rowid name source) = 0"
  "table_replace_token_hit (table_row rowid name source) = 0"
  "foreign_key_id_storage_class (table_row rowid name source) = ''not_applicable''"
  "foreign_key_id_value_hex (table_row rowid name source) = []"
  "foreign_key_id (table_row rowid name source) = -1"
  "foreign_key_seq_storage_class (table_row rowid name source) = ''not_applicable''"
  "foreign_key_seq_value_hex (table_row rowid name source) = []"
  "foreign_key_seq (table_row rowid name source) = -1"
  "parent_name_storage_class (table_row rowid name source) = ''not_applicable''"
  "parent_name_hex (table_row rowid name source) = []"
  "from_column_storage_class (table_row rowid name source) = ''not_applicable''"
  "from_column_hex (table_row rowid name source) = []"
  "to_column_storage_class (table_row rowid name source) = ''not_applicable''"
  "to_column_is_null (table_row rowid name source) = 1"
  "to_column_hex (table_row rowid name source) = []"
  "on_update_storage_class (table_row rowid name source) = ''not_applicable''"
  "on_update_hex (table_row rowid name source) = []"
  "on_delete_storage_class (table_row rowid name source) = ''not_applicable''"
  "on_delete_hex (table_row rowid name source) = []"
  "match_storage_class (table_row rowid name source) = ''not_applicable''"
  "match_hex (table_row rowid name source) = []"
  "conservative_blocker (table_row rowid name source) = []"
  by (simp_all add: table_row_def)

lemma key_row_fields [simp]:
  "schema_rowid key_row = 2"
  "fact_order key_row = 1"
  "fact_kind key_row = ''foreign_key''"
  "relation_type_storage_class key_row = ''text''"
  "relation_type_value_hex key_row = hex_bytes ''table''"
  "relation_type key_row = ''table''"
  "relation_name_storage_class key_row = ''text''"
  "relation_name_hex key_row = hex_bytes ''orders''"
  "owner_name_storage_class key_row = ''not_applicable''"
  "owner_name_hex key_row = []"
  "schema_sql_storage_class key_row = ''not_applicable''"
  "table_sql_token_source_is_null key_row = 1"
  "table_sql_token_source_hex key_row = []"
  "table_virtual_token_hit key_row = 0"
  "table_replace_token_hit key_row = 0"
  "foreign_key_id_storage_class key_row = ''integer''"
  "foreign_key_id_value_hex key_row = hex_bytes ''0''"
  "foreign_key_id key_row = 0"
  "foreign_key_seq_storage_class key_row = ''integer''"
  "foreign_key_seq_value_hex key_row = hex_bytes ''0''"
  "foreign_key_seq key_row = 0"
  "parent_name_storage_class key_row = ''text''"
  "parent_name_hex key_row = hex_bytes ''users''"
  "from_column_storage_class key_row = ''text''"
  "from_column_hex key_row = hex_bytes ''user''"
  "to_column_storage_class key_row = ''text''"
  "to_column_is_null key_row = 0"
  "to_column_hex key_row = hex_bytes ''id''"
  "on_update_storage_class key_row = ''text''"
  "on_update_hex key_row = hex_bytes ''NO ACTION''"
  "on_delete_storage_class key_row = ''text''"
  "on_delete_hex key_row = hex_bytes ''CASCADE''"
  "match_storage_class key_row = ''text''"
  "match_hex key_row = hex_bytes ''NONE''"
  "conservative_blocker key_row = []"
  by (simp_all add: key_row_def)

lemma canonical_hex_bytes: "canonical_upper_hex (hex_bytes b) e \<longleftrightarrow> e \<or> b \<noteq> []"
proof -
  have "list_all (\<lambda>b. is_ascii_digit b \<or> byte_in (CHR ''A'') (CHR ''F'') b) (hex_bytes b)"
  proof (induction b)
    case (Cons x xs)
    have "hex_nibble (upper_hex_digit n) \<noteq> None" if "n < 16" for n
      using hex_nibble_upper_hex_digit [OF that] by simp
    then have "is_ascii_digit (upper_hex_digit n) \<or> byte_in (CHR ''A'') (CHR ''F'') (upper_hex_digit n)"
      if "n < 16" for n
      using that hex_nibble_eq_None by blast
    with Cons show ?case by (simp add: hex_bytes_Cons byte_div_16)
  qed simp
  moreover have "hex_bytes b = [] \<longleftrightarrow> b = []" using length_hex_bytes [of b] by auto
  ultimately show ?thesis by (auto simp: canonical_upper_hex_def length_hex_bytes)
qed

lemma hex_bytes_simps [simp]:
  "decode_upper_hex (hex_bytes b) = Inr b"
  "canonical_upper_hex (hex_bytes b) e \<longleftrightarrow> e \<or> b \<noteq> []"
  "hex_bytes b = hex_bytes c \<longleftrightarrow> b = c" "hex_bytes b = [] \<longleftrightarrow> b = []" "[] = hex_bytes b \<longleftrightarrow> [] = b"
  using catalog_hex.hex_bytes_inject [of b "[]"] catalog_hex.hex_bytes_inject [of "[]" b]
  by (simp_all add: catalog_hex.decode_hex_bytes canonical_hex_bytes catalog_hex.hex_bytes_inject)

lemma table_row_wf: "projection_row_wf (table_row i name source)"
  by (simp add: projection_row_wf_def storage_hex_pair_def canonical_upper_hex_def [of "[]"])

lemma key_row_wf: "projection_row_wf key_row"
  by (simp add: projection_row_wf_def storage_hex_pair_def canonical_upper_hex_def [of "[]"])

lemma row_key_first: "schema_rowid a < schema_rowid b \<Longrightarrow> \<not> row_key b \<le> row_key a"
  by (simp add: row_key_def row_cells_def list_le_def less_cell_def)
lemma row_key_fact: "schema_rowid a = schema_rowid b \<Longrightarrow> fact_order a < fact_order b \<Longrightarrow> \<not> row_key b \<le> row_key a"
  by (simp add: row_key_def row_cells_def less_cell_def word_less_def)

lemma sample_names [simp]:
  "sqlite_ascii_lower ''users'' = ''users''" "sqlite_ascii_lower ''orders'' = ''orders''"
  "sqlite_ascii_lower ''audit_log'' = ''audit_log''"
  "sqlite_ascii_lower ''sqlite_sequence'' = ''sqlite_sequence''"
  "sqlite_ascii_lower ''events'' = ''events''"
  by code_simp+

lemma sample_printable [simp]:
  "printable_ascii ''users''" "printable_ascii ''orders''" "printable_ascii ''audit_log''"
  "printable_ascii ''sqlite_sequence''" "printable_ascii ''events''" "printable_ascii ''user''"
  "printable_ascii ''id''"
  by code_simp+

lemma sample_tokens [simp]:
  "\<not> contains_ascii_token ''T'' ''VIRTUAL''" "\<not> contains_ascii_token ''T'' ''REPLACE''"
  "\<not> contains_ascii_token ''AUTOINCREMENT'' ''VIRTUAL''"
  "\<not> contains_ascii_token ''AUTOINCREMENT'' ''REPLACE''"
  by code_simp+

lemma sqlite_ascii_bytes_hex [simp]: "sqlite_ascii_bytes (hex_bytes b) = Inr (sqlite_ascii_lower b)"
  by (simp add: sqlite_ascii_bytes_def)

lemma sample_schema_rows:
  "filter (\<lambda>row. fact_order row = 0) sample_rows =
     [table_row 1 ''users'' ''T'', table_row 2 ''orders'' ''T'', table_row 3 ''audit_log'' ''T'',
      table_row 4 ''sqlite_sequence'' ''T'', table_row 5 ''events'' ''AUTOINCREMENT'']"
  by (simp add: sample_rows_def)

lemma table_row_type [simp]: "recognized_schema_type (table_row i name source) = Some ''table''"
  by (simp add: recognized_schema_type_def)

lemma table_row_sentinels: "schema_fact_sentinels (table_row i name source)"
  by (simp add: schema_fact_sentinels_def)

text \<open>A table row with a printable name no other row claims is a valid schema fact.\<close>

lemma table_row_fact:
  assumes "printable_ascii name" and "CHR 0x00 \<notin> set name"
    and "name_claimants (table_row i name source) rows = 1"
    and "length source \<le> 65536" "\<not> contains_ascii_token source ''VIRTUAL''"
    and "\<not> contains_ascii_token source ''REPLACE''"
  shows "validate_schema_fact (table_row i name source) rows = Inr True"
proof -
  have "expected_schema_structural_blocker (table_row i name source) rows = Inr []"
    using assms(1-3)
    by (simp add: expected_schema_structural_blocker_def)
  with assms(4-6) show ?thesis
    by (simp add: validate_schema_fact_def Let_def expected_schema_kind_def expected_schema_blocker_def
        D1_CATALOG_TABLE_SQL_TOKEN_SOURCE_BYTE_CAP_def)
qed

lemma sample_order: "\<exists>t. try_fold projection_row_step None sample_rows = Inr t"
  by (simp add: sample_rows_def projection_row_step_def table_row_wf key_row_wf row_key_first row_key_fact)

lemma zero_text: "i64_to_string 0 = ''0''"
  by code_simp

lemma key_row_blocker: "expected_foreign_key_structural_blocker key_row = Inr []"
  by (simp add: expected_foreign_key_structural_blocker_def foreign_key_texts_def foreign_key_values_def
      foreign_key_to_blocker_def foreign_key_actions_def foreign_key_match_modes_def
      zero_text)

lemma key_row_consistent: "foreign_key_row_consistent (table_row i ''orders'' source) key_row"
  by (simp add: foreign_key_row_consistent_def foreign_key_storage_markers_applicable_def)

lemma sample_schema_loop:
  "\<exists>ids. try_fold (schema_row_step (filter (\<lambda>row. fact_order row = 0) sample_rows)) []
     (filter (\<lambda>row. fact_order row = 0) sample_rows) = Inr ids"
  by (simp add: sample_schema_rows schema_row_step_def table_row_sentinels table_row_fact
      name_claimants_def)

lemma sample_relations:
  "schema_relations (filter (\<lambda>row. fact_order row = 0) sample_rows) =
     Inr [(''audit_log'', ''table''), (''events'', ''table''), (''orders'', ''table''),
          (''sqlite_sequence'', ''table''), (''users'', ''table'')]"
  by (simp add: sample_schema_rows schema_relations_def sqlite_ascii_identity_def less_char_def)

lemma sample_foreign_key_rows: "filter (\<lambda>row. fact_order row = 1) sample_rows = [key_row]"
  by (simp add: sample_rows_def)

lemma sample_rows_valid: "validate_projection_rows sample_rows = Inr ()"
proof -
  obtain t where t: "try_fold projection_row_step None sample_rows = Inr t" using sample_order by blast
  obtain ids where ids: "try_fold (schema_row_step (filter (\<lambda>row. fact_order row = 0) sample_rows)) []
     (filter (\<lambda>row. fact_order row = 0) sample_rows) = Inr ids"
    using sample_schema_loop by blast
  have child: "find (\<lambda>candidate. schema_rowid candidate = 2) (filter (\<lambda>row. fact_order row = 0) sample_rows)
      = Some (table_row 2 ''orders'' ''T'')"
    by (simp add: sample_schema_rows)
  show ?thesis
    by (simp add: validate_projection_rows_def t validate_structured_relationships_def ids sample_relations
        sample_foreign_key_rows foreign_key_row_step_def child key_row_consistent key_row_blocker
        sqlite_ascii_identity_def foreign_key_record_def foreign_key_entry_for_def expect_hex_def
        foreign_key_sequences_complete_def)
qed

section \<open>An accepted pair of observations\<close>

definition sample_plan :: D1CatalogEvidencePlan where
  "sample_plan =
     \<lparr>cplan_version = 5, cplan_operation = D1_CATALOG_EVIDENCE_OPERATION,
      cplan_account_id = tgt_account_id sample_target, cplan_database_id = tgt_database_id sample_target,
      cplan_target_key_sha256 = zero_digest, cplan_projection_version = 5,
      cplan_projection_fields = catalog_projection_fields, cplan_query = D1_CATALOG_QUERY,
      cplan_query_sha256 = zero_digest, cplan_query_size_bytes = length D1_CATALOG_QUERY,
      cplan_max_catalog_rows = 1000, cplan_provider_row_cap = 1001,
      cplan_provider_byte_cap = 4194304\<rparr>"

definition sample_frame :: "string \<Rightarrow> string \<Rightarrow> D1CatalogObservationFrame" where
  "sample_frame dispatch_id read_id =
     from_adapter_observation sample_target zero_digest dispatch_id read_id 1001 4194304 True 0 []"

definition sample_payload :: D1CatalogProjectionPayload where
  "sample_payload =
     \<lparr>payload_version = 5, payload_results_truncated = False,
      payload_meta = \<lparr>meta_query_succeeded = True, meta_served_by_primary = True,
        meta_changed_db = False, meta_changes = 0, meta_rows_written = 0\<rparr>,
      payload_rows = sample_rows\<rparr>"

definition first_frame :: D1CatalogObservationFrame where
  "first_frame = sample_frame ''dispatch-00000001'' ''read-000000000001''"

definition second_frame :: D1CatalogObservationFrame where
  "second_frame = sample_frame ''dispatch-00000002'' ''read-000000000002''"

definition sample_receipt :: D1CatalogEvidenceReceipt where
  "sample_receipt =
     \<lparr>cat_version = 5, cat_operation = D1_CATALOG_EVIDENCE_OPERATION,
      cat_target_key_sha256 = zero_digest, cat_query_plan_sha256 = zero_digest,
      cat_query_sha256 = zero_digest, cat_projection_version = 5,
      cat_catalog_snapshot_sha256 = zero_digest, cat_catalog_row_count = 6,
      cat_schema_physical_row_count = 5, cat_relation_fact_count = 5,
      cat_trigger_owner_fact_count = 0, cat_schema_auxiliary_fact_count = 0,
      cat_schema_blocker_fact_count = 0, cat_foreign_key_fact_count = 1,
      cat_foreign_key_blocker_fact_count = 0, cat_conservative_blocker_count = 0,
      cat_observation_pair_sha256 = zero_digest, cat_stable_primary_observations = 2,
      cat_provider_row_cap = 1001, cat_provider_byte_cap = 4194304,
      cat_response_body_sizes = (0, 0)\<rparr>"

definition sample_product :: D1CatalogEvidenceProduct where
  "sample_product = \<lparr>cprod_receipt = sample_receipt, cprod_rows = sample_rows\<rparr>"

lemma sample_target_canonical: "canonical_d1_target sample_target"
proof -
  have "canonical_account_id ''acct'' = Inr ''acct''"
    "canonical_database_id ''01234567-89ab-cdef-0123-456789abcdef'' =
      Inr ''01234567-89ab-cdef-0123-456789abcdef''"
    by code_simp+
  then show ?thesis
    by (simp add: canonical_d1_target_def sample_target_def normalize_d1_target_def)
qed

lemma zero_digest_canonical: "canonical_sha256 zero_digest"
  using catalog_digest.digest_valid [OF sample_env_hex, of "[]"] by simp

lemma sample_plan_derived:
  "derive_d1_catalog_evidence_plan sample_env sample_target = Inr (sample_plan, zero_digest)"
  by (simp add: derive_d1_catalog_evidence_plan_def canonical_target_iff sample_target_canonical
      sample_plan_def target_key_sha256_def D1_CATALOG_EVIDENCE_VERSION_def
      D1_CATALOG_PROJECTION_VERSION_def D1_CATALOG_MAX_ROWS_def D1_CATALOG_PROVIDER_ROW_CAP_def
      D1_CATALOG_PROVIDER_BYTE_CAP_def)

lemma sample_length: "length sample_rows = 6"
  by (simp add: sample_rows_def)

lemma sample_observation:
  "validate_observation sample_env (\<lambda>_. Some sample_payload) sample_plan zero_digest (sample_frame d r) =
     Inr sample_payload"
  by (simp add: validate_observation_def sample_frame_def from_adapter_observation_def
      canonical_target_iff sample_target_canonical sample_plan_def target_key_sha256_def
      validate_body_size_def sample_payload_def sample_rows_valid sample_length)

lemma sample_identities:
  "list_all canonical_observation_identity
     [''dispatch-00000001'', ''read-000000000001'', ''dispatch-00000002'', ''read-000000000002'']"
  by code_simp

lemma sample_counts:
  "length sample_rows = 6" "schema_physical_count sample_rows = 5"
  "fact_count ''relation'' sample_rows = 5" "fact_count ''trigger_owner'' sample_rows = 0"
  "fact_count ''schema_auxiliary'' sample_rows = 0" "fact_count ''schema_blocker'' sample_rows = 0"
  "fact_count ''foreign_key'' sample_rows = 1" "fact_count ''foreign_key_blocker'' sample_rows = 0"
  "blocker_count sample_rows = 0"
  by (simp_all add: sample_rows_def schema_physical_count_def fact_count_def blocker_count_def)

lemma sample_accepted:
  "prove_d1_catalog_product sample_env (\<lambda>_. Some sample_payload) sample_target sample_plan zero_digest
     first_frame second_frame = Inr sample_product"
proof -
  have ids: "length (bset_of [''dispatch-00000001'', ''read-000000000001'', ''dispatch-00000002'',
      ''read-000000000002'']) = 4"
    using length_bset_of_eq [of "[''dispatch-00000001'', ''read-000000000001'', ''dispatch-00000002'',
      ''read-000000000002'']"] by simp
  show ?thesis
    using sample_identities ids
    by (simp add: prove_d1_catalog_product_def zero_digest_canonical sample_plan_derived first_frame_def
        second_frame_def sample_observation Let_def)
      (simp add: sample_frame_def from_adapter_observation_def sample_payload_def sample_counts
        sample_product_def sample_receipt_def sample_plan_def D1_CATALOG_EVIDENCE_VERSION_def)
qed

section \<open>The graph of the sample\<close>

definition sample_roots :: "string list" where
  "sample_roots = [''audit_log'']"

definition plain_table :: Relation where
  "plain_table = \<lparr>rel_kind = Table, rel_autoincrement = False\<rparr>"

definition sample_facts :: graph_facts where
  "sample_facts = \<lparr>relations = [(''audit_log'', plain_table),
       (''events'', \<lparr>rel_kind = Table, rel_autoincrement = True\<rparr>), (''orders'', plain_table),
       (''sqlite_sequence'', plain_table), (''users'', plain_table)],
     trigger_owners = [], auxiliary_owners = [],
     foreign_keys = [((''orders'', 0), \<lparr>fk_child = ''orders'', fk_parent = ''users'',
       fk_on_update = ''NO ACTION'', fk_on_delete = ''CASCADE'', fk_match_mode = ''NONE''\<rparr>)],
     trigger_fact_count = 0, schema_auxiliary_fact_count = 0, foreign_key_fact_count = 1\<rparr>"

definition sample_parts :: graph_parts where
  "sample_parts = \<lparr>part_configured = [''audit_log''], part_automatic = [''sqlite_sequence''],
     part_trigger_owned = [], part_facts = sample_facts,
     part_edges = [(WriteNode ''audit_log'' Insert, []), (WriteNode ''audit_log'' Update, []),
       (WriteNode ''audit_log'' Delete, []),
       (WriteNode ''events'' Insert, [WriteNode ''sqlite_sequence'' Update]),
       (WriteNode ''events'' Update, []), (WriteNode ''events'' Delete, []),
       (WriteNode ''orders'' Insert, []), (WriteNode ''orders'' Update, []), (WriteNode ''orders'' Delete, []),
       (WriteNode ''sqlite_sequence'' Insert, []), (WriteNode ''sqlite_sequence'' Update, []),
       (WriteNode ''sqlite_sequence'' Delete, []),
       (WriteNode ''users'' Insert, []), (WriteNode ''users'' Update, []),
       (WriteNode ''users'' Delete, [WriteNode ''orders'' Delete])],
     part_edge_count = 2\<rparr>"

lemma identity_hex: "identity_from_hex (hex_bytes b) True = canonical_identity b"
  by (simp add: identity_from_hex_def canonical_identity_def graph_hex.decode_hex_bytes)

lemma sample_identities_lower:
  "canonical_identity ''users'' = Inr ''users''" "canonical_identity ''orders'' = Inr ''orders''"
  "canonical_identity ''audit_log'' = Inr ''audit_log''"
  "canonical_identity ''sqlite_sequence'' = Inr ''sqlite_sequence''"
  "canonical_identity ''events'' = Inr ''events''"
  by code_simp+

lemma exact_hex: "exact_text_from_hex (hex_bytes b) = (if b = [] \<or> \<not> list_all is_ascii b then Inl invalid_catalog_text else Inr b)"
  by (simp add: exact_text_from_hex_def graph_hex.decode_hex_bytes)

lemma sample_autoincrement: "\<not> contains_autoincrement_token ''T''" "contains_autoincrement_token ''AUTOINCREMENT''"
  by code_simp+

lemma sample_facts_derived: "try_fold graph_row_step no_facts sample_rows = Inr sample_facts"
  by (simp add: sample_rows_def graph_row_step_def no_facts_def identity_hex sample_identities_lower
      relation_of_row_def table_token_source_def graph_hex.decode_hex_bytes sample_autoincrement
      D1_CATALOG_TABLE_SQL_TOKEN_SOURCE_BYTE_CAP_def group_of_row_def exact_hex is_ascii_def byte_def insert_group_def
      checked_increment_def checked_add_def usize_MAX_def less_char_def sample_facts_def plain_table_def)

lemmas node_order = less_WriteNode_def node_key_def less_prod_simp less_D1RelationWriteOperation_def less_char_def

lemma sample_initial: "initial_edges (map fst (relations sample_facts)) =
  [(WriteNode ''audit_log'' Insert, []), (WriteNode ''audit_log'' Update, []),
       (WriteNode ''audit_log'' Delete, []),
       (WriteNode ''events'' Insert, []),
       (WriteNode ''events'' Update, []), (WriteNode ''events'' Delete, []),
       (WriteNode ''orders'' Insert, []), (WriteNode ''orders'' Update, []), (WriteNode ''orders'' Delete, []),
       (WriteNode ''sqlite_sequence'' Insert, []), (WriteNode ''sqlite_sequence'' Update, []),
       (WriteNode ''sqlite_sequence'' Delete, []),
       (WriteNode ''users'' Insert, []), (WriteNode ''users'' Update, []),
       (WriteNode ''users'' Delete, [])]"
  by (simp add: initial_edges_def ALL_operations_def sample_facts_def node_order)

lemma sample_autoincrement_edges:
  "autoincrement_relations (relations sample_facts) = [''events'']"
  "is_table (relations sample_facts) ''sqlite_sequence''"
  "is_table (relations sample_facts) ''orders''" "is_table (relations sample_facts) ''users''"
  by (simp_all add: autoincrement_relations_def sample_facts_def plain_table_def is_table_def bset_of_def)

lemma sample_foreign_keys:
  "map snd (foreign_keys sample_facts) = [\<lparr>fk_child = ''orders'', fk_parent = ''users'',
     fk_on_update = ''NO ACTION'', fk_on_delete = ''CASCADE'', fk_match_mode = ''NONE''\<rparr>]"
  by (simp add: sample_facts_def)

lemma sample_edges:
  "ok_then (add_autoincrement_edges (relations sample_facts) (initial_edges (map fst (relations sample_facts)), 0))
    (\<lambda>st. try_fold (foreign_key_step (relations sample_facts)) st (map snd (foreign_keys sample_facts))) =
    Inr (part_edges sample_parts, 2)"
  unfolding sample_initial
  by (simp add: add_autoincrement_edges_def sample_autoincrement_edges add_edge_def checked_increment_def
      checked_add_def usize_MAX_def MAX_GRAPH_EDGES_def node_order foreign_key_step_def add_foreign_key_action_def
      child_operation_def sample_parts_def sample_foreign_keys)

lemma sample_sets:
  "normalize_reserved_roots sample_roots = Inr [''audit_log'']"
  "automatic_reserved_of (relations sample_facts) = [''sqlite_sequence'']"
  by code_simp+

lemma sample_parts_derived: "graph_parts_of sample_receipt sample_rows sample_roots = Inr sample_parts"
proof -
  have "validate_catalog_product sample_receipt sample_rows = Inr ()"
    by (simp add: validate_catalog_product_def sample_receipt_def REQUIRED_CATALOG_VERSION_def sample_counts)
  moreover obtain st where
    "add_autoincrement_edges (relations sample_facts) (initial_edges (map fst (relations sample_facts)), 0) = Inr st"
    "try_fold (foreign_key_step (relations sample_facts)) st (map snd (foreign_keys sample_facts)) =
      Inr (part_edges sample_parts, 2)"
    using sample_edges by (auto simp: ok_then_eq_Inr)
  moreover have "length (initial_edges (map fst (relations sample_facts))) = 15"
    unfolding sample_initial by simp
  moreover have "relations sample_facts \<noteq> []" "length (relations sample_facts) = 5"
    "map_of (relations sample_facts) ''audit_log'' \<noteq> None"
    "auxiliary_owners sample_facts = []" "trigger_owners sample_facts = []"
    by (simp_all add: sample_facts_def)
  ultimately show ?thesis
    by (simp add: graph_parts_of_def Let_def sample_sets sample_facts_derived MAX_RELATIONS_def
        MAX_GRAPH_NODES_def trigger_owned_of_def bset_of_def)
      (simp add: sample_parts_def)
qed

definition sample_decisions :: "(WriteNode \<times> D1ReservedRelationDecision) list" where
  "sample_decisions =
     [(WriteNode ''audit_log'' Insert, DenyReservedReachable),
      (WriteNode ''audit_log'' Update, DenyReservedReachable),
      (WriteNode ''audit_log'' Delete, DenyReservedReachable),
      (WriteNode ''events'' Insert, DenyReservedReachable),
      (WriteNode ''events'' Update, Allow),
      (WriteNode ''events'' Delete, Allow),
      (WriteNode ''orders'' Insert, Allow),
      (WriteNode ''orders'' Update, Allow),
      (WriteNode ''orders'' Delete, Allow),
      (WriteNode ''sqlite_sequence'' Insert, DenyReservedReachable),
      (WriteNode ''sqlite_sequence'' Update, DenyReservedReachable),
      (WriteNode ''sqlite_sequence'' Delete, DenyReservedReachable),
      (WriteNode ''users'' Insert, Allow),
      (WriteNode ''users'' Update, Allow),
      (WriteNode ''users'' Delete, Allow)]"

definition sample_graph :: D1ReservedRelationGraphProduct where
  "sample_graph = \<lparr>gprod_receipt = graph_receipt_of sample_env sample_receipt sample_parts sample_decisions,
     gprod_decisions = sample_decisions\<rparr>"

lemma sample_part_sets:
  "part_reserved sample_parts = [''audit_log'', ''sqlite_sequence'']"
  "view_relations_of (relations (part_facts sample_parts)) = []"
  "part_trigger_owned sample_parts = []"
  by (simp_all add: part_reserved_def sample_parts_def sample_facts_def plain_table_def bset_union_def
      bset_of_def view_relations_of_def less_char_def)

lemma sample_graph_derived:
  "derive_d1_reserved_relation_graph sample_env sample_product sample_roots = Inr sample_graph"
proof -
  have "derive_decisions (part_edges sample_parts) (part_reserved sample_parts)
      (part_trigger_owned sample_parts) (view_relations_of (relations (part_facts sample_parts))) =
      Inr sample_decisions"
    unfolding sample_part_sets
    by (simp add: derive_decisions_def sample_parts_def traverse_def visit_target_def MAX_GRAPH_NODES_def
        MAX_RELATIONS_def node_order sample_decisions_def)
  then show ?thesis
    by (simp add: derive_d1_reserved_relation_graph_def derive_from_verified_parts_def sample_product_def
        sample_parts_derived sample_graph_def)
qed

lemma sample_graph_decisions:
  "decision_for sample_graph ''users'' Delete = Some Allow"
  "decision_for sample_graph ''orders'' Insert = Some Allow"
  "decision_for sample_graph ''orders'' Delete = Some Allow"
  by (simp_all add: decision_for_def sample_identities_lower sample_graph_def sample_decisions_def)

section \<open>Witnesses\<close>

theorem catalog_product_sound_witness:
  "frame_target first_frame = sample_target \<and> length (cprod_rows sample_product) \<le> 1000 \<and>
   frame_proves_rows (\<lambda>_. Some sample_payload) sample_rows second_frame"
  using catalog_product_sound [OF sample_accepted] by (simp add: sample_product_def)

theorem catalog_receipt_partitions_rows_witness:
  "cat_schema_physical_row_count (cprod_receipt sample_product) = 5"
  using catalog_receipt_partitions_rows [OF sample_accepted]
  by (simp add: Let_def sample_product_def sample_receipt_def)

theorem catalog_relations_unique_witness:
  "distinct [sqlite_ascii_identity (hex_bytes ''users''), sqlite_ascii_identity (hex_bytes ''orders''),
     sqlite_ascii_identity (hex_bytes ''audit_log''), sqlite_ascii_identity (hex_bytes ''sqlite_sequence''),
     sqlite_ascii_identity (hex_bytes ''events'')]"
  using catalog_relations_unique [OF sample_accepted] by (simp add: sample_product_def sample_rows_def)

theorem catalog_unblocked_table_tokens_witness:
  "\<exists>source. decode_upper_hex (table_sql_token_source_hex (table_row 5 ''events'' ''AUTOINCREMENT'')) = Inr source \<and>
     length source \<le> 65536"
  using catalog_unblocked_table_tokens [OF sample_accepted, of "table_row 5 ''events'' ''AUTOINCREMENT''"]
  by (simp add: sample_product_def sample_rows_def)

theorem catalog_foreign_keys_resolved_witness:
  "\<exists>parent \<in> set sample_rows. fact_kind parent = ''relation'' \<and>
     sqlite_ascii_identity (relation_name_hex parent) = sqlite_ascii_identity (parent_name_hex key_row)"
  using catalog_foreign_keys_resolved [OF sample_accepted, of key_row]
  by (auto simp: sample_product_def sample_rows_def)

theorem graph_decisions_exact_witness:
  "decision_of_reach {m. (write_effect sample_rows)\<^sup>*\<^sup>* (WriteNode ''users'' Delete) m}
     (reserved_names sample_rows sample_roots) (trigger_names sample_rows) (view_names sample_rows) = Allow"
  using graph_decisions_exact [OF sample_graph_derived, of "''users''" Delete]
  by (simp add: sample_graph_def sample_decisions_def sample_product_def split: if_splits)

theorem graph_allow_sound_witness:
  "write_effect sample_rows (WriteNode ''users'' Delete) (WriteNode ''orders'' Delete) \<and>
   ''orders'' \<notin> to_ascii_lowercase ` set sample_roots \<and>
   decision_for sample_graph ''orders'' Delete = Some Allow"
proof -
  have effect: "write_effect sample_rows (WriteNode ''users'' Delete) (WriteNode ''orders'' Delete)"
  proof -
    let ?g = "\<lparr>fk_child = ''orders'', fk_parent = ''users'', fk_on_update = ''NO ACTION'',
      fk_on_delete = ''CASCADE'', fk_match_mode = ''NONE''\<rparr>"
    have "group_of_row key_row = Inr ?g"
      by (simp add: group_of_row_def identity_hex sample_identities_lower exact_hex is_ascii_def byte_def)
    from write_effect.on_delete [of key_row sample_rows ?g Delete, OF _ _ this] show ?thesis
      by (simp add: sample_rows_def child_operation_def)
  qed
  have "to_ascii_lowercase ''users'' = ''users''" by code_simp
  with effect have "(write_effect (cprod_rows sample_product))\<^sup>*\<^sup>*
      (WriteNode (to_ascii_lowercase ''users'') Delete) (WriteNode ''orders'' Delete)"
    by (simp add: sample_product_def r_into_rtranclp)
  from graph_allow_sound [OF sample_graph_derived sample_graph_decisions(1) this] effect
  show ?thesis by simp
qed

theorem graph_autoincrement_insert_denied_witness:
  "decision_for sample_graph ''events'' Insert = Some DenyReservedReachable"
  by (rule graph_autoincrement_insert_denied [OF sample_graph_derived,
        of "table_row 5 ''events'' ''AUTOINCREMENT''" _ "''AUTOINCREMENT''"])
    (simp_all add: sample_product_def sample_rows_def identity_hex sample_identities_lower
      graph_hex.decode_hex_bytes sample_autoincrement)

theorem graph_receipt_totals_witness:
  "gr_allow_count (gprod_receipt sample_graph) + gr_deny_reserved_reachable_count (gprod_receipt sample_graph)
     + gr_deny_trigger_effects_unproven_count (gprod_receipt sample_graph)
     + gr_deny_view_write_semantics_unproven_count (gprod_receipt sample_graph) = 15"
  using graph_receipt_totals [OF sample_graph_derived]
  by (simp add: Let_def sample_product_def sample_receipt_def)

end
