(* ===== verification/Digest_Samples.thy ===== *)
theory Digest_Samples
  imports Serde
begin

text \<open>
  A second sample environment. The digest of \<open>sample_env\<close> is constant, so it tells no two texts apart;
  this one has two digests, one for the texts with at least three eights, and the digest of eights is itself
  such a text. The witnesses of the binding properties run under it.
\<close>

definition eights :: "bytes \<Rightarrow> nat" where
  "eights bs = length (filter (\<lambda>c. c = CHR ''8'') bs)"

definition eight_digest :: string where
  "eight_digest = replicate 64 (CHR ''8'')"

definition split_digest :: "bytes \<Rightarrow> string" where
  "split_digest bs = (if 3 \<le> eights bs then eight_digest else zero_digest)"

definition split_env :: env where
  "split_env = sample_env\<lparr>sha256_hex := split_digest\<rparr>"

lemma split_env_simps [simp]:
  "sha256_hex split_env b = split_digest b" "to_vec split_env v = render v"
  "hash_serialized split_env v = split_digest (render v)"
  by (simp_all add: split_env_def sample_env_def hash_serialized_def)

lemma split_env_injective: "to_vec_injective split_env"
  using sample_env_injective by (simp add: to_vec_injective_def sample_env_def)

lemma eight_digest_hex: "length eight_digest = 64 \<and> list_all lower_hex_digit eight_digest"
proof -
  have "lower_hex_digit (CHR ''8'')" by code_simp
  then show ?thesis by (simp add: eight_digest_def list_all_iff)
qed

lemma split_env_hex: "sha256_is_hex split_env"
  using eight_digest_hex zero_digest_hex by (simp add: sha256_is_hex_def split_digest_def)

lemma digests_differ [simp]: "eight_digest \<noteq> zero_digest" "zero_digest \<noteq> eight_digest"
  by (simp_all add: eight_digest_def zero_digest_def)

text \<open>The rendering adds no eights.\<close>

lemma eights_simps [simp]:
  "eights [] = 0" "eights (c # bs) = (if c = CHR ''8'' then 1 else 0) + eights bs" "eights (as @ bs) = eights as + eights bs"
  "eights zero_digest = 0" "eights eight_digest = 64"
  by (simp_all add: eights_def zero_digest_def eight_digest_def)

lemma eights_unary [simp]: "eights (unary n) = 0"
  by (simp add: unary_def eights_def)

lemma eights_render_str [simp]: "eights (render_str s) = eights s"
  by (simp add: render_str_def)

lemma eights_render_int [simp]: "eights (render_int i) = 0"
  by (simp add: render_int_def)

lemma eights_render_items [simp]: "eights (render_items f xs) = sum_list (map (\<lambda>x. eights (f x)) xs)"
  by (induction xs) (simp_all add: render_items_def)

end
