(* ===== verification/D1_Attempt_Samples.thy ===== *)
theory D1_Attempt_Samples
  imports D1_Samples Digest_Samples
begin

text \<open>
  The sample catalog carried through composition and custody: a row-write plan, its composition, an
  attempt binding and a concrete codec of attempt states, which instantiate the hypotheses of the
  theorems on composition and custody.
\<close>

section \<open>A composition and an attempt\<close>

definition sample_row_plan :: D1RowWritePlan where
  "sample_row_plan =
     (let plan = \<lparr>wp_version = 2, wp_operation = D1_EXECUTE_WRITE_OPERATION,
        wp_account_id = tgt_account_id sample_target, wp_database_id = tgt_database_id sample_target,
        wp_target_key_sha256 = zero_digest, wp_execution_session_sha256 = zero_digest,
        wp_statement_kind = DeleteKind, wp_sql_sha256 = zero_digest, wp_sql_size_bytes = 17,
        wp_params_sha256 = zero_digest, wp_params_size_bytes = 2, wp_max_rows = 10\<rparr>
      in \<lparr>rwp_inner = plan, rwp_plan_sha256 = zero_digest\<rparr>)"

lemma sample_row_plan_of:
  assumes "length sql = 17"
  shows "derive_d1_row_write_plan sample_env (\<lambda>_ :: unit. SNull) sample_target zero_digest DeleteKind
     sql [] 10 = Inr sample_row_plan"
proof -
  have "canonical_hash zero_digest" using row_plan_digest.digest_valid [OF sample_env_hex, of "[]"] by simp
  then show ?thesis
    using sample_target_canonical assms
    by (simp add: derive_d1_row_write_plan_def canonical_d1_target_def D1_ROW_WRITE_PLAN_MAX_ROWS_def
        derive_d1_execute_write_plan_def sample_row_plan_def target_key_sha256_def sample_env_simps)
      (simp add: sample_env_def render_items_def)
qed

lemma sample_row_plan_derived:
  "derive_d1_row_write_plan sample_env (\<lambda>_ :: unit. SNull) sample_target zero_digest DeleteKind
     ''DELETE FROM users'' [] 10 = Inr sample_row_plan"
  by (rule sample_row_plan_of) simp

lemma users_relation: "validate_relation ''users'' = Inr ''users''"
  by code_simp

definition sample_composition :: D1ExactPlanCompositionProduct where
  "sample_composition =
     \<lparr>xprod_receipt = composition_receipt_of sample_env sample_target zero_digest ''users'' DeleteForm
        sample_receipt (gprod_receipt sample_graph) [Delete] [(Delete, Allow)],
      xprod_plan = rwp_inner sample_row_plan, xprod_classified_relation = ''users'',
      xprod_classified_form = DeleteForm, xprod_effective_primitives = [Delete]\<rparr>"

lemma zero_digest_valid [simp]:
  "valid_sha256 zero_digest" "custody_valid_sha256 zero_digest" "canonical_hash zero_digest"
  using zero_digest_hex
  by (simp_all add: composition_digest.valid_iff custody_digest.valid_iff row_plan_digest.valid_iff)

lemma sample_composed:
  "compose_d1_exact_write_plan sample_env sample_target (rwp_inner sample_row_plan) zero_digest ''users''
     DeleteForm sample_product sample_graph = Inr sample_composition"
proof -
  have catalog: "validate_catalog_receipt sample_env sample_target (cprod_receipt sample_product) = Inr ()"
    by (rule catalog_receipt_passes [OF sample_accepted sample_env_hex])
  have graph: "validate_graph_receipt (cprod_receipt sample_product) (gprod_receipt sample_graph) = Inr ()"
    by (rule graph_receipt_passes [OF sample_graph_derived catalog sample_env_hex])
  have "validate_plan sample_env sample_target (rwp_inner sample_row_plan) zero_digest DeleteForm = Inr ()"
    by (simp add: validate_plan_Inr sample_row_plan_def target_key_sha256_def)
  with catalog graph show ?thesis
    unfolding compose_Inr
    by (simp add: sample_target_canonical users_relation sample_graph_decisions sample_composition_def
        sample_product_def)
qed

definition attempt_identities :: D1DmlAttemptIdentities where
  "attempt_identities = \<lparr>operation_id = ''operation-000001'', execution_attempt_id = ''attempt-00000001'',
     provider_request_id = ''provider-0000001''\<rparr>"

definition sample_binding :: D1DmlAttemptBinding where
  "sample_binding = \<lparr>bind_target_key_sha256 = zero_digest, bind_execute_plan_sha256 = zero_digest,
     bind_composition_sha256 = zero_digest, bind_composition_receipt_sha256 = zero_digest,
     bind_operation_id_sha256 = zero_digest, bind_execution_attempt_id_sha256 = zero_digest,
     bind_provider_request_id_sha256 = zero_digest, bind_attempt_binding_sha256 = zero_digest\<rparr>"

lemma sample_opaque:
  "list_all valid_opaque_identity [''operation-000001'', ''attempt-00000001'', ''provider-0000001'']"
  by code_simp

lemma sample_binding_of:
  assumes "list_all valid_opaque_identity [x, y, z]" and "distinct [x, y, z]"
  shows "derive_attempt_binding sample_env sample_target sample_composition
    \<lparr>operation_id = x, execution_attempt_id = y, provider_request_id = z\<rparr> = Inr sample_binding"
proof -
  have ids: "length (bset_of [x, y, z]) = 3" using assms(2) length_bset_of_eq [of "[x, y, z]"] by simp
  have digests: "composition_receipt_digests_are_valid (xprod_receipt sample_composition)"
    by (simp add: composition_receipt_digests_are_valid_def sample_composition_def composition_receipt_of_def
        target_key_sha256_def sample_receipt_def sample_graph_def graph_receipt_of_def Let_def)
  show ?thesis
    using sample_target_canonical ids digests assms(1)
    unfolding derive_attempt_binding_def canonical_d1_target_def
    by (simp add: sample_composition_def composition_receipt_of_def Let_def COMPOSITION_VERSION_def
        REQUIRED_COMPOSITION_VERSION_def sample_row_plan_def target_key_sha256_def sample_binding_def)
qed

lemma sample_bound:
  "derive_attempt_binding sample_env sample_target sample_composition attempt_identities = Inr sample_binding"
  using sample_binding_of [OF sample_opaque] by (simp add: attempt_identities_def)

lemma other_target:
  "normalize_d1_target ''other'' (tgt_database_id sample_target) =
     Inr \<lparr>tgt_account_id = ''other'', tgt_database_id = tgt_database_id sample_target\<rparr>"
  by code_simp

text \<open>The attempt under a digest with two values, and an attempt with another operation identity.\<close>

definition late_identities :: D1DmlAttemptIdentities where
  "late_identities = attempt_identities\<lparr>operation_id := ''operation-001888''\<rparr>"

definition late_binding :: D1DmlAttemptBinding where
  "late_binding = sample_binding\<lparr>bind_operation_id_sha256 := eight_digest, bind_attempt_binding_sha256 := eight_digest\<rparr>"

lemma split_bound:
  "derive_attempt_binding split_env sample_target sample_composition attempt_identities = Inr sample_binding"
  "derive_attempt_binding split_env sample_target sample_composition late_identities = Inr late_binding"
proof -
  have ids: "length (bset_of [''operation-000001'', ''attempt-00000001'', ''provider-0000001'']) = 3"
    "length (bset_of [''operation-001888'', ''attempt-00000001'', ''provider-0000001'']) = 3"
    "list_all valid_opaque_identity [''operation-001888'', ''attempt-00000001'', ''provider-0000001'']"
    by code_simp+
  have digests: "composition_receipt_digests_are_valid (xprod_receipt sample_composition)"
    by (simp add: composition_receipt_digests_are_valid_def sample_composition_def composition_receipt_of_def
        target_key_sha256_def sample_receipt_def sample_graph_def graph_receipt_of_def Let_def)
  have key: "target_key_sha256 split_env sample_target = zero_digest"
    by (simp add: target_key_sha256_def split_digest_def sample_target_def)
  have plan: "eights (render (ser_write_plan (xprod_plan sample_composition))) < 3"
    by (simp add: ser_write_plan_def sample_composition_def sample_row_plan_def sample_target_def D1_EXECUTE_WRITE_OPERATION_def)
  have receipt: "eights (render (ser_composition_receipt (xprod_receipt sample_composition))) = 0"
    by (simp add: ser_composition_receipt_def sample_composition_def composition_receipt_of_def target_key_sha256_def
        sample_receipt_def sample_graph_def graph_receipt_of_def Let_def D1_EXACT_PLAN_COMPOSITION_OPERATION_def)
  have fields: "comp_version (xprod_receipt sample_composition) = REQUIRED_COMPOSITION_VERSION"
    "comp_operation (xprod_receipt sample_composition) = D1_EXACT_PLAN_COMPOSITION_OPERATION"
    "comp_target_key_sha256 (xprod_receipt sample_composition) = zero_digest"
    "comp_execute_plan_sha256 (xprod_receipt sample_composition) = zero_digest"
    "comp_composition_sha256 (xprod_receipt sample_composition) = zero_digest"
    "comp_effective_primitive_count (xprod_receipt sample_composition) = 1"
    "comp_allow_decision_count (xprod_receipt sample_composition) = 1"
    "xprod_effective_primitives sample_composition = [Delete]"
    "wp_account_id (xprod_plan sample_composition) = tgt_account_id sample_target"
    "wp_database_id (xprod_plan sample_composition) = tgt_database_id sample_target"
    "wp_target_key_sha256 (xprod_plan sample_composition) = zero_digest"
    by (simp_all add: sample_composition_def composition_receipt_of_def Let_def COMPOSITION_VERSION_def
        REQUIRED_COMPOSITION_VERSION_def sample_row_plan_def target_key_sha256_def)
  show "derive_attempt_binding split_env sample_target sample_composition attempt_identities = Inr sample_binding"
    "derive_attempt_binding split_env sample_target sample_composition late_identities = Inr late_binding"
    unfolding derive_attempt_binding_def
    using sample_target_canonical ids sample_opaque digests key plan receipt
    by (simp_all add: fields canonical_d1_target_def split_digest_def attempt_identities_def late_identities_def sample_binding_def
        late_binding_def D1_DML_ATTEMPT_CUSTODY_OPERATION_def)
qed

section \<open>A codec for attempt states\<close>

fun of_str :: "ser \<Rightarrow> string option" where
  "of_str (SStr s) = Some s"
| "of_str _ = None"

fun of_u8 :: "ser \<Rightarrow> u8 option" where
  "of_u8 (SInt i) = Some (word_of_int i)"
| "of_u8 _ = None"

fun of_option :: "(ser \<Rightarrow> 'a option) \<Rightarrow> ser \<Rightarrow> 'a option option" where
  "of_option f SNull = Some None"
| "of_option f v = map_option Some (f v)"

text \<open>A unit variant is found by its name.\<close>

definition of_variant :: "('a \<Rightarrow> ser) \<Rightarrow> 'a list \<Rightarrow> ser \<Rightarrow> 'a option" where
  "of_variant f variants v = find (\<lambda>x. f x = v) variants"

definition of_fields :: "ser \<Rightarrow> ser list" where
  "of_fields v = (case v of SStruct fs \<Rightarrow> map snd fs | _ \<Rightarrow> [])"

definition of_phase :: "ser \<Rightarrow> D1DmlAttemptPhase option" where
  "of_phase = of_variant ser_phase
     [PhasePrepared, DispatchReserved, ReconciliationRequired, TerminalApplied, TerminalNotApplied]"

definition of_ambiguity :: "ser \<Rightarrow> D1DmlAttemptAmbiguity option" where
  "of_ambiguity = of_variant ser_ambiguity [DispatchReplay, TransportUncertain, ResponseMissing,
     ResponseIncomplete, ResponseMalformed, ResponseContradictory]"

definition of_outcome :: "ser \<Rightarrow> D1DmlAttemptTerminalOutcome option" where
  "of_outcome = of_variant ser_terminal_outcome [Applied, NotApplied]"

definition of_provider :: "ser \<Rightarrow> D1DmlProviderTerminalAssertionRecord option" where
  "of_provider v = (case of_fields v of [a, b, c, d, e] \<Rightarrow>
       Option.bind (of_u8 a) (\<lambda>a. Option.bind (of_str b) (\<lambda>b. Option.bind (of_str c) (\<lambda>c.
       Option.bind (of_variant ser_provider_classification [SucceededChanged, SucceededUnchanged, RejectedTerminal] d) (\<lambda>d.
       map_option (\<lambda>e. \<lparr>pr_version = a, pr_attempt_binding_sha256 = b, pr_provider_request_id_sha256 = c,
         pr_classification = d, pr_evidence_sha256 = e\<rparr>) (of_str e)))))
     | _ \<Rightarrow> None)"

definition of_readback :: "ser \<Rightarrow> D1DmlReadbackTerminalAssertionRecord option" where
  "of_readback v = (case of_fields v of [a, b, c, d, e] \<Rightarrow>
       Option.bind (of_u8 a) (\<lambda>a. Option.bind (of_str b) (\<lambda>b.
       Option.bind (of_variant ser_readback_classification [ExpectedStateObserved, ExpectedStateAbsent] c) (\<lambda>c.
       Option.bind (of_str d) (\<lambda>d.
       map_option (\<lambda>e. \<lparr>rr_version = a, rr_attempt_binding_sha256 = b, rr_classification = c,
         rr_readback_plan_sha256 = d, rr_evidence_sha256 = e\<rparr>) (of_str e)))))
     | _ \<Rightarrow> None)"

text \<open>The ten string fields, then the evidence.\<close>

definition state_of_ser :: "ser \<Rightarrow> D1DmlAttemptState option" where
  "state_of_ser v =
     (case of_fields v of
        ver # rest \<Rightarrow>
          Option.bind (of_u8 ver) (\<lambda>ver.
          Option.bind (those (map of_str (take 9 rest))) (\<lambda>names.
          (case drop 9 rest of [ph, res, amb, prov, rb, out] \<Rightarrow>
            Option.bind (of_phase ph) (\<lambda>ph. Option.bind (of_u8 res) (\<lambda>res.
            Option.bind (of_option of_ambiguity amb) (\<lambda>amb. Option.bind (of_option of_provider prov) (\<lambda>prov.
            Option.bind (of_option of_readback rb) (\<lambda>rb. Option.bind (of_option of_outcome out) (\<lambda>out.
            Some \<lparr>st_version = ver, st_operation = names ! 0, st_target_key_sha256 = names ! 1,
              st_execute_plan_sha256 = names ! 2, st_composition_sha256 = names ! 3,
              st_composition_receipt_sha256 = names ! 4, st_operation_id_sha256 = names ! 5,
              st_execution_attempt_id_sha256 = names ! 6, st_provider_request_id_sha256 = names ! 7,
              st_attempt_binding_sha256 = names ! 8, st_phase = ph, st_dispatch_reservations = res,
              st_ambiguity = amb, st_provider_assertion = prov, st_readback_assertion = rb,
              st_terminal_outcome = out\<rparr>))))))
          | _ \<Rightarrow> None)))
      | [] \<Rightarrow> None)"

definition sample_from_slice :: "bytes \<Rightarrow> D1DmlAttemptState option" where
  "sample_from_slice bs =
     (case parse_ser 4 bs of
        Some (v, rest) \<Rightarrow> (if rest = [CHR 0x0A] then state_of_ser v else None)
      | None \<Rightarrow> None)"

lemma of_phase_ser: "of_phase (ser_phase v) = Some v"
  by (cases v) (simp_all add: of_phase_def of_variant_def)

lemma of_ambiguity_ser: "of_ambiguity (ser_ambiguity v) = Some v"
  by (cases v) (simp_all add: of_ambiguity_def of_variant_def)

lemma of_outcome_ser: "of_outcome (ser_terminal_outcome v) = Some v"
  by (cases v) (simp_all add: of_outcome_def of_variant_def)

lemma of_records: "of_provider (ser_provider_record p) = Some p" "of_readback (ser_readback_record r) = Some r"
  by (cases p; cases "pr_classification p"; simp add: of_provider_def of_fields_def ser_provider_record_def of_variant_def)
    (cases r; cases "rr_classification r"; simp add: of_readback_def of_fields_def ser_readback_record_def of_variant_def)

lemma of_option_ser:
  assumes "\<And>x. f (g x) = Some x" and "\<And>x. g x \<noteq> SNull"
  shows "of_option f (ser_option g x) = Some x"
proof (cases x)
  case (Some y)
  then show ?thesis using assms(1) [of y] assms(2) [of y] by (cases "g y") simp_all
qed simp

lemma ser_not_null:
  "ser_ambiguity a \<noteq> SNull" "ser_terminal_outcome t \<noteq> SNull" "ser_provider_record p \<noteq> SNull"
  "ser_readback_record r \<noteq> SNull"
proof -
  show "ser_ambiguity a \<noteq> SNull" by (cases a) simp_all
  show "ser_terminal_outcome t \<noteq> SNull" by (cases t) simp_all
qed (simp_all add: ser_provider_record_def ser_readback_record_def)

lemma state_of_ser_state: "state_of_ser (ser_state s) = Some s"
proof -
  note options = of_option_ser [of of_ambiguity ser_ambiguity, OF of_ambiguity_ser ser_not_null(1)]
    of_option_ser [of of_outcome ser_terminal_outcome, OF of_outcome_ser ser_not_null(2)]
    of_option_ser [of of_provider ser_provider_record, OF of_records(1) ser_not_null(3)]
    of_option_ser [of of_readback ser_readback_record, OF of_records(2) ser_not_null(4)]
  show ?thesis
    by (simp add: state_of_ser_def ser_state_def of_fields_def of_phase_ser options)
qed

lemma shallow_variants:
  "shallow (Suc k) (ser_phase ph)" "shallow (Suc k) (ser_ambiguity a)" "shallow (Suc k) (ser_terminal_outcome t)"
  "shallow (Suc k) (ser_provider_classification pc)" "shallow (Suc k) (ser_readback_classification rc)"
proof -
  show "shallow (Suc k) (ser_phase ph)" by (cases ph) simp_all
  show "shallow (Suc k) (ser_ambiguity a)" by (cases a) simp_all
  show "shallow (Suc k) (ser_terminal_outcome t)" by (cases t) simp_all
  show "shallow (Suc k) (ser_provider_classification pc)" by (cases pc) simp_all
  show "shallow (Suc k) (ser_readback_classification rc)" by (cases rc) simp_all
qed

lemma shallow_option: "(\<And>x. shallow (Suc k) (f x)) \<Longrightarrow> shallow (Suc k) (ser_option f v)"
  by (cases v) simp_all

lemma shallow_records:
  "shallow (Suc (Suc k)) (ser_provider_record p)" "shallow (Suc (Suc k)) (ser_readback_record r)"
  by (simp_all add: ser_provider_record_def ser_readback_record_def shallow_variants)

lemma shallow_state: "shallow 4 (ser_state s)"
  by (simp add: numeral_eq_Suc ser_state_def shallow_variants shallow_option shallow_records)

lemma sample_codec: "state_codec sample_env sample_from_slice"
  unfolding state_codec_def sample_from_slice_def sample_env_def
  by (simp add: parse_ser_render [OF shallow_state] state_of_ser_state)

section \<open>The length of a state\<close>

lemma length_render_str [simp]: "length (render_str s) = 2 * length s + 1"
  by (simp add: render_str_def unary_def)

lemma length_render_struct:
  "length (render (SStruct fs)) = 2 + (\<Sum>(k, v) \<leftarrow> fs. 2 + 2 * length k + length (render v))"
  by (induction fs) (auto simp: render_items_def)

lemma length_render_variants:
  "length (render (ser_phase ph)) \<le> 50" "length (render (ser_ambiguity a)) \<le> 50"
  "length (render (ser_terminal_outcome t)) \<le> 50" "length (render (ser_provider_classification pc)) \<le> 50"
  "length (render (ser_readback_classification rc)) \<le> 50"
proof -
  show "length (render (ser_phase ph)) \<le> 50" by (cases ph) simp_all
  show "length (render (ser_ambiguity a)) \<le> 50" by (cases a) simp_all
  show "length (render (ser_terminal_outcome t)) \<le> 50" by (cases t) simp_all
  show "length (render (ser_provider_classification pc)) \<le> 50" by (cases pc) simp_all
  show "length (render (ser_readback_classification rc)) \<le> 50" by (cases rc) simp_all
qed

lemma length_render_option:
  "(\<And>x. v = Some x \<Longrightarrow> length (render (f x)) \<le> Suc n) \<Longrightarrow> length (render (ser_option f v)) \<le> Suc n"
  by (cases v) simp_all

lemma length_digest: "custody_valid_sha256 s \<Longrightarrow> length s = 64"
  by (simp add: custody_valid_sha256_def)

lemma sample_text_bounded: "state_text_bounded sample_env"
  unfolding state_text_bounded_def
proof (intro allI impI)
  fix s assume valid: "validate_state s = Inr ()"
  note v = validate_state_Inr [OF valid]
  have digests: "all_state_digests_are_valid s"
    using valid by (auto simp: validate_state_def split: if_splits)
  have one: "length (render (ser_u8 (1 :: u8))) = 4" "length (render (ser_u8 (0 :: u8))) = 3"
    by (simp_all add: render_int_def unary_def)
  have res: "length (render (ser_u8 (st_dispatch_reservations s))) \<le> 4"
    using valid_reservations [OF valid] one by auto
  have p: "length (render (ser_option ser_provider_record (st_provider_assertion s))) \<le> Suc 999"
  proof (rule length_render_option)
    fix x assume x: "st_provider_assertion s = Some x"
    with v(4) digests have "length (pr_attempt_binding_sha256 x) = 64" "length (pr_provider_request_id_sha256 x) = 64"
      "length (pr_evidence_sha256 x) = 64" "pr_version x = 1"
      by (auto simp: validate_provider_assertion_def all_state_digests_are_valid_def CUSTODY_VERSION_def
          dest: length_digest split: if_splits)
    with one length_render_variants(4) [of "pr_classification x"]
    show "length (render (ser_provider_record x)) \<le> Suc 999"
      by (simp add: ser_provider_record_def length_render_struct del: render.simps(6))
  qed
  have r: "length (render (ser_option ser_readback_record (st_readback_assertion s))) \<le> Suc 999"
  proof (rule length_render_option)
    fix x assume x: "st_readback_assertion s = Some x"
    with v(5) digests have "length (rr_attempt_binding_sha256 x) = 64" "length (rr_readback_plan_sha256 x) = 64"
      "length (rr_evidence_sha256 x) = 64" "rr_version x = 1"
      by (auto simp: validate_readback_assertion_def all_state_digests_are_valid_def CUSTODY_VERSION_def
          dest: length_digest split: if_splits)
    with one length_render_variants(5) [of "rr_classification x"]
    show "length (render (ser_readback_record x)) \<le> Suc 999"
      by (simp add: ser_readback_record_def length_render_struct del: render.simps(6))
  qed
  have a: "length (render (ser_option ser_ambiguity (st_ambiguity s))) \<le> Suc 49"
    by (rule length_render_option) (simp add: length_render_variants(2))
  have t: "length (render (ser_option ser_terminal_outcome (st_terminal_outcome s))) \<le> Suc 49"
    by (rule length_render_option) (simp add: length_render_variants(3))
  have lens: "length (st_target_key_sha256 s) = 64" "length (st_execute_plan_sha256 s) = 64"
    "length (st_composition_sha256 s) = 64" "length (st_composition_receipt_sha256 s) = 64"
    "length (st_operation_id_sha256 s) = 64" "length (st_execution_attempt_id_sha256 s) = 64"
    "length (st_provider_request_id_sha256 s) = 64" "length (st_attempt_binding_sha256 s) = 64"
    using digests by (simp_all add: all_state_digests_are_valid_def length_digest)
  have "length (render (ser_state s)) < 16384"
    using p r a t res lens length_render_variants(1) [of "st_phase s"] one v(1,2)
    by (simp add: ser_state_def length_render_struct CUSTODY_VERSION_def D1_DML_ATTEMPT_CUSTODY_OPERATION_def
        del: render.simps(6))
  then show "length (to_vec sample_env (ser_state s)) < D1_DML_ATTEMPT_STATE_BYTE_CAP"
    by (simp add: sample_env_def D1_DML_ATTEMPT_STATE_BYTE_CAP_def)
qed

section \<open>A run of the sample attempt\<close>

definition sample_attempt :: custody_input where
  "sample_attempt = \<lparr>in_env = sample_env, in_from_slice = sample_from_slice, in_target = sample_target,
     in_composition = sample_composition, in_identities = attempt_identities\<rparr>"

definition sample_provider :: D1DmlProviderTerminalAssertion where
  "sample_provider = \<lparr>pta_classification = SucceededChanged, pta_evidence_sha256 = zero_digest\<rparr>"

definition sample_readback :: D1DmlReadbackTerminalAssertion where
  "sample_readback = \<lparr>rta_classification = ExpectedStateObserved, rta_readback_plan_sha256 = zero_digest,
     rta_evidence_sha256 = zero_digest\<rparr>"

abbreviation sample_prepared :: "D1DmlAttemptCustodyProduct custody" where
  "sample_prepared \<equiv> prepare_d1_dml_attempt (in_env sample_attempt) (in_from_slice sample_attempt)
     (in_target sample_attempt) (in_composition sample_attempt) (in_identities sample_attempt) None"

lemma sample_attempt_laws:
  "state_codec (in_env sample_attempt) (in_from_slice sample_attempt)"
  "state_text_bounded (in_env sample_attempt)" "sha256_is_hex (in_env sample_attempt)"
  "binding_of sample_attempt = Inr sample_binding"
  "custody_valid_sha256 (pta_evidence_sha256 sample_provider)"
  "custody_valid_sha256 (rta_readback_plan_sha256 sample_readback)"
  "custody_valid_sha256 (rta_evidence_sha256 sample_readback)"
  by (simp_all add: sample_attempt_def sample_codec sample_text_bounded sample_env_hex binding_of_def
      sample_bound sample_provider_def sample_readback_def)

text \<open>The stages of the run, with the state each one stores.\<close>

lemma sample_stage_prepared:
  obtains p0 where "sample_prepared = Inr p0"
    and "restored sample_attempt (dprod_state_bytes p0) (initial_state sample_binding)"
proof -
  note init = initial_state_wf [OF sample_attempt_laws(3) sample_attempt_laws(4) [unfolded binding_of_def]]
  obtain p0 where p0: "product (in_env sample_attempt) (initial_state sample_binding) TransitionPrepared None False = Inr p0"
    using product_succeeds [OF sample_attempt_laws(2) init(2)] by blast
  then have "sample_prepared = Inr p0"
    using sample_attempt_laws(4) by (simp add: prepare_d1_dml_attempt_def binding_of_def)
  with prepared_restored [OF sample_attempt_laws(1) this] sample_attempt_laws(4) that show ?thesis by auto
qed

lemma sample_stage_reserved:
  obtains p0 p1 s1 where "sample_prepared = Inr p0"
    and "restored sample_attempt (dprod_state_bytes p0) (initial_state sample_binding)"
    and "custody_apply sample_attempt OpReserve (dprod_state_bytes p0) = Inr p1"
    and "restored sample_attempt (dprod_state_bytes p1) s1" and "reserved_stage sample_binding s1 None None"
    and "custody_reachable sample_attempt s1"
proof -
  obtain p0 where p0: "sample_prepared = Inr p0"
    "restored sample_attempt (dprod_state_bytes p0) (initial_state sample_binding)"
    using sample_stage_prepared by blast
  note init = initial_state_wf(1) [OF sample_attempt_laws(3) sample_attempt_laws(4) [unfolded binding_of_def]]
  from reserve_completes [OF sample_attempt_laws(1,2,4) p0(2) init] obtain p1 s1 where
    p1: "custody_apply sample_attempt OpReserve (dprod_state_bytes p0) = Inr p1"
    "restored sample_attempt (dprod_state_bytes p1) s1" "reserved_stage sample_binding s1 None None"
    by blast
  from reach_step [OF reach_prepared [OF p0] p0(2) p1(1,2)] that p0 p1 show ?thesis by blast
qed

lemma sample_stage_terminal:
  obtains p3 :: D1DmlAttemptCustodyProduct and s3 where "restored sample_attempt (dprod_state_bytes p3) s3"
    and "custody_reachable sample_attempt s3" and "assertion_outcome s3 = Some Applied"
    and "st_phase s3 = TerminalApplied"
proof -
  obtain p1 :: D1DmlAttemptCustodyProduct and s1 where p1: "restored sample_attempt (dprod_state_bytes p1) s1"
    "reserved_stage sample_binding s1 None None" "custody_reachable sample_attempt s1"
    using sample_stage_reserved by blast
  from provider_completes [OF sample_attempt_laws(1,2,4) p1(1,2) sample_attempt_laws(5)] obtain p2 s2 where
    p2: "custody_apply sample_attempt (OpProvider sample_provider) (dprod_state_bytes p1) = Inr p2"
    "restored sample_attempt (dprod_state_bytes p2) s2"
    "reserved_stage sample_binding s2 (Some (provider_candidate sample_binding sample_provider)) None"
    by blast
  from readback_completes [OF sample_attempt_laws(1,2,4) p2(2,3) sample_attempt_laws(6,7)] obtain p3 s3 where
    p3: "custody_apply sample_attempt (OpReadback sample_readback) (dprod_state_bytes p2) = Inr p3"
    "restored sample_attempt (dprod_state_bytes p3) s3"
    "reserved_stage sample_binding s3 (Some (provider_candidate sample_binding sample_provider))
      (Some (readback_candidate sample_binding sample_readback))"
    by blast
  have out: "assertion_outcome s3 = Some Applied"
    using stage_outcome [OF p3(3)] by (simp add: sample_provider_def sample_readback_def)
  moreover from out p3(3) valid_phase(1) [OF restored_valid [OF p3(2)]] have "st_phase s3 = TerminalApplied"
    by (simp add: reserved_stage_def)
  moreover from p1 p2 p3 have "custody_reachable sample_attempt s3" by (blast intro: reach_step)
  ultimately show ?thesis using that p3(2) by blast
qed

lemma sample_replay:
  assumes "restored sample_attempt bs s"
  shows "\<exists>q. custody_apply sample_attempt OpPrepare bs = Inr q"
  using product_succeeds [OF sample_attempt_laws(2) restored_valid [OF assms]] restored_by [OF sample_attempt_laws(4) assms]
    sample_attempt_laws(4)
  by (simp add: prepare_d1_dml_attempt_def binding_of_def) blast

section \<open>Witnesses\<close>

theorem target_key_determines_target_witness:
  "sha256_collision sample_env"
  using target_key_determines_target [of "''acct''" "''01234567-89ab-cdef-0123-456789abcdef''" sample_target
      "''other''" "''01234567-89ab-cdef-0123-456789abcdef''"
      "\<lparr>tgt_account_id = ''other'', tgt_database_id = ''01234567-89ab-cdef-0123-456789abcdef''\<rparr>" sample_env]
    sample_target_canonical other_target
  by (simp add: target_key_sha256_def canonical_d1_target_def sample_target_def)

theorem target_normalization_exact_witness:
  "length (tgt_database_id sample_target) = 36 \<and> tgt_database_id sample_target ! 8 = CHR ''-''"
  using target_normalization_exact [of "tgt_account_id sample_target" "tgt_database_id sample_target" sample_target]
    sample_target_canonical
  by (auto simp: canonical_d1_target_def)

theorem row_plan_digest_binds_witness:
  "derive_d1_row_write_plan sample_env (\<lambda>_ :: unit. SNull) sample_target zero_digest DeleteKind
     ''DELETE FROM event'' [] 10 = Inr sample_row_plan \<and> sha256_collision sample_env"
proof -
  note derived = sample_row_plan_of [of "''DELETE FROM users''"] sample_row_plan_of [of "''DELETE FROM event''"]
  from row_plan_digest_binds [OF sample_env_injective derived] derived(2) show ?thesis by simp
qed

theorem composition_safe_witness:
  "''users'' \<notin> to_ascii_lowercase ` set sample_roots \<and> \<not> is_automatic_reserved ''users'' \<and>
   ''users'' \<notin> trigger_names sample_rows"
  using composition_safe [OF sample_accepted sample_graph_derived sample_composed, of Delete "WriteNode ''users'' Delete"]
  by (simp add: sample_composition_def sample_product_def)

theorem composition_requires_every_allow_witness:
  "comp_allow_decision_count (xprod_receipt sample_composition) = 1 \<and>
   statement_kind_matches_form (wp_statement_kind (rwp_inner sample_row_plan)) DeleteForm"
  using composition_requires_every_allow [OF sample_composed] by (simp add: sample_composition_def)

theorem composition_succeeds_witness:
  "\<exists>x. compose_d1_exact_write_plan sample_env sample_target (rwp_inner sample_row_plan)
     (rwp_plan_sha256 sample_row_plan) ''users'' DeleteForm sample_product sample_graph = Inr x"
proof (rule composition_succeeds [OF sample_accepted sample_graph_derived sample_row_plan_derived sample_env_hex])
  show "\<forall>v. to_vec sample_env v \<noteq> []" by (simp add: sample_env_def render_not_empty)
  show "required_relation_write_operations DeleteForm = Inr [Delete]" by simp
  show "\<forall>operation \<in> set [Delete]. decision_for sample_graph ''users'' operation = Some Allow"
    by (simp add: sample_graph_decisions(1))
qed (simp_all add: users_relation)

theorem custody_accepts_composition_witness:
  "\<exists>b. derive_attempt_binding sample_env sample_target sample_composition attempt_identities = Inr b"
  by (rule custody_accepts_composition [OF sample_composed sample_env_hex])
    (use sample_opaque in \<open>simp_all add: attempt_identities_def\<close>)

text \<open>Under a digest that tells the operations apart, another operation identity gives another binding digest.\<close>

theorem custody_binding_binds_witness:
  "\<exists>b. derive_attempt_binding split_env sample_target sample_composition attempt_identities = Inr sample_binding \<and>
     derive_attempt_binding split_env sample_target sample_composition late_identities = Inr b \<and>
     bind_attempt_binding_sha256 b \<noteq> bind_attempt_binding_sha256 sample_binding"
proof -
  have "attempt_identities \<noteq> late_identities" by (simp add: attempt_identities_def late_identities_def)
  moreover have "\<not> collide split_env (bound_texts split_env sample_target sample_composition attempt_identities sample_binding)
      (bound_texts split_env sample_target sample_composition late_identities late_binding)"
    by (simp add: bound_texts_def split_digest_def attempt_identities_def late_identities_def sample_binding_def late_binding_def
        D1_DML_ATTEMPT_CUSTODY_OPERATION_def)
  ultimately have "bind_attempt_binding_sha256 sample_binding \<noteq> bind_attempt_binding_sha256 late_binding"
    using custody_binding_binds [OF split_env_injective split_bound] by blast
  with split_bound show ?thesis by metis
qed

theorem custody_completes_witness:
  "\<exists>p0 p1 p2 p3. sample_prepared = Inr p0 \<and>
     custody_apply sample_attempt OpReserve (dprod_state_bytes p0) = Inr p1 \<and> proposes_dispatch (dprod_receipt p1) \<and>
     custody_apply sample_attempt (OpProvider sample_provider) (dprod_state_bytes p1) = Inr p2 \<and>
     custody_apply sample_attempt (OpReadback sample_readback) (dprod_state_bytes p2) = Inr p3 \<and>
     cr_terminal_outcome (dprod_receipt p3) = Some Applied"
  using custody_completes [OF sample_attempt_laws]
  by (simp add: sample_provider_def sample_readback_def)

theorem custody_dispatch_at_most_once_witness:
  "\<exists>p0. sample_prepared = Inr p0 \<and>
     length (filter proposes_dispatch (custody_run sample_attempt (dprod_state_bytes p0) [OpReserve, OpReserve])) \<le> 1"
proof -
  obtain p0 where p0: "sample_prepared = Inr p0" using sample_stage_prepared by blast
  from custody_dispatch_at_most_once [OF sample_attempt_laws(1) p0] p0 show ?thesis by blast
qed

theorem custody_terminal_final_witness:
  "\<exists>bs r. r \<in> set (custody_run sample_attempt bs [OpPrepare]) \<and> cr_phase r = TerminalApplied \<and>
     cr_retry_decision r = TerminalReplayOnly"
proof -
  obtain p3 :: D1DmlAttemptCustodyProduct and s3 where s3: "restored sample_attempt (dprod_state_bytes p3) s3" "st_phase s3 = TerminalApplied"
    using sample_stage_terminal by blast
  obtain q where "custody_apply sample_attempt OpPrepare (dprod_state_bytes p3) = Inr q"
    using sample_replay [OF s3(1)] by blast
  then have q: "dprod_receipt q \<in> set (custody_run sample_attempt (dprod_state_bytes p3) [OpPrepare])" by simp
  have "terminal_phase (st_phase s3)" using s3(2) by (simp add: terminal_phase_def)
  from custody_terminal_final [OF sample_attempt_laws(1) s3(1) this q] q s3(2) show ?thesis by auto
qed

theorem custody_restart_roundtrip_witness:
  "\<exists>(p1 :: D1DmlAttemptCustodyProduct) q. custody_apply sample_attempt OpPrepare (dprod_state_bytes p1) = Inr q \<and>
     dprod_state_bytes q = dprod_state_bytes p1 \<and> cr_phase (dprod_receipt q) = cr_phase (dprod_receipt p1)"
proof -
  obtain p0 p1 :: D1DmlAttemptCustodyProduct where p1: "custody_apply sample_attempt OpReserve (dprod_state_bytes p0) = Inr p1"
    using sample_stage_reserved by blast
  from custody_restart_roundtrip [OF sample_attempt_laws(1) p1] show ?thesis by blast
qed

theorem custody_reachable_phase_witness:
  "\<exists>s. custody_reachable sample_attempt s \<and> st_phase s = TerminalApplied \<and> st_dispatch_reservations s = 1"
proof -
  obtain p3 :: D1DmlAttemptCustodyProduct and s3 where s3: "custody_reachable sample_attempt s3" "assertion_outcome s3 = Some Applied"
    using sample_stage_terminal by blast
  from custody_reachable_phase [OF s3(1)] s3 show ?thesis by auto
qed

theorem custody_evidence_monotone_witness:
  "\<exists>bs s'. restored sample_attempt bs s' \<and> evidence_le (initial_state sample_binding) s'"
proof -
  obtain p0 p1 :: D1DmlAttemptCustodyProduct where p: "restored sample_attempt (dprod_state_bytes p0) (initial_state sample_binding)"
    "custody_apply sample_attempt OpReserve (dprod_state_bytes p0) = Inr p1"
    using sample_stage_reserved by blast
  from custody_evidence_monotone [OF sample_attempt_laws(1) p] show ?thesis by blast
qed

theorem custody_reachable_bound_witness:
  "\<exists>s. st_phase s = TerminalApplied \<and> state_matches_binding s sample_binding"
proof -
  obtain p3 :: D1DmlAttemptCustodyProduct and s3 where s3: "custody_reachable sample_attempt s3" "st_phase s3 = TerminalApplied"
    using sample_stage_terminal by blast
  from custody_reachable_bound [OF sample_attempt_laws(1) s3(1)] sample_attempt_laws(4) s3(2) show ?thesis by auto
qed

theorem custody_replay_conflict_witness:
  "\<exists>bs message. restore_exact_state sample_env sample_from_slice bs (sample_binding\<lparr>bind_operation_id_sha256 := []\<rparr>)
     = Inl (custody_error ReplayConflict message)"
proof -
  obtain p0 :: D1DmlAttemptCustodyProduct where "restored sample_attempt (dprod_state_bytes p0) (initial_state sample_binding)"
    using sample_stage_prepared by blast
  then have r: "restore_exact_state sample_env sample_from_slice (dprod_state_bytes p0) sample_binding =
      Inr (initial_state sample_binding)"
    using sample_attempt_laws(4) by (simp add: restored_def sample_attempt_def)
  have "sample_binding\<lparr>bind_operation_id_sha256 := []\<rparr> \<noteq> sample_binding"
    by (simp add: sample_binding_def zero_digest_def)
  from custody_replay_conflict [OF r this] show ?thesis by blast
qed

theorem custody_assertions_commute_witness:
  "\<exists>bs p1 p2 q1 q2. custody_apply sample_attempt (OpProvider sample_provider) bs = Inr p1 \<and>
     custody_apply sample_attempt (OpReadback sample_readback) (dprod_state_bytes p1) = Inr p2 \<and>
     custody_apply sample_attempt (OpReadback sample_readback) bs = Inr q1 \<and>
     custody_apply sample_attempt (OpProvider sample_provider) (dprod_state_bytes q1) = Inr q2 \<and>
     dprod_state_bytes p2 = dprod_state_bytes q2"
proof -
  obtain bs s where s: "restored sample_attempt bs s" "reserved_stage sample_binding s None None"
    using sample_stage_reserved by blast
  note laws = sample_attempt_laws(1,2,4)
  from provider_completes [OF laws s sample_attempt_laws(5)] obtain p1 s1 where
    p1: "custody_apply sample_attempt (OpProvider sample_provider) bs = Inr p1"
    "restored sample_attempt (dprod_state_bytes p1) s1"
    "reserved_stage sample_binding s1 (Some (provider_candidate sample_binding sample_provider)) None" by blast
  from readback_completes [OF laws p1(2,3) sample_attempt_laws(6,7)] obtain p2 where
    p2: "custody_apply sample_attempt (OpReadback sample_readback) (dprod_state_bytes p1) = Inr p2" by blast
  from readback_completes [OF laws s sample_attempt_laws(6,7)] obtain q1 t1 where
    q1: "custody_apply sample_attempt (OpReadback sample_readback) bs = Inr q1"
    "restored sample_attempt (dprod_state_bytes q1) t1"
    "reserved_stage sample_binding t1 None (Some (readback_candidate sample_binding sample_readback))" by blast
  from provider_completes [OF laws q1(2,3) sample_attempt_laws(5)] obtain q2 where
    q2: "custody_apply sample_attempt (OpProvider sample_provider) (dprod_state_bytes q1) = Inr q2" by blast
  from custody_assertions_commute [OF laws(1) s(1) p1(1) p2 q1(1) q2] p1(1) p2 q1(1) q2 show ?thesis by blast
qed

theorem custody_replay_idempotent_witness:
  "\<exists>(p :: D1DmlAttemptCustodyProduct) q. custody_apply sample_attempt (OpProvider sample_provider) (dprod_state_bytes p) = Inr q \<and>
     dprod_state_bytes q = dprod_state_bytes p \<and> cr_exact_replay (dprod_receipt q)"
proof -
  obtain bs s where s: "restored sample_attempt bs s" "reserved_stage sample_binding s None None"
    using sample_stage_reserved by blast
  from provider_completes [OF sample_attempt_laws(1,2,4) s sample_attempt_laws(5)] obtain p where
    p: "custody_apply sample_attempt (OpProvider sample_provider) bs = Inr p" by blast
  from custody_replay_idempotent [of sample_attempt, OF sample_attempt_laws(1) disjI1 [OF refl] p]
  show ?thesis by blast
qed

end
