(* ===== verification/Rust_Slice.thy ===== *)
theory Rust_Slice
  imports BTree "HOL-Library.Monad_Syntax"
begin

text \<open>
  Indexing that may panic. A computation that slices or subtracts is an option: \<open>None\<close> is the
  panic of an out-of-range slice or of a \<open>usize\<close> underflow, so that a function is free of panics
  exactly when it always returns \<open>Some\<close>. Lookups with \<open>get\<close> are plain options of the element.
\<close>

type_synonym 'a checked = "'a option"

named_theorems slice_simps "slices and lookups within range"

definition list_get :: "'a list \<Rightarrow> nat \<Rightarrow> 'a option" where
  "list_get xs i = (if i < length xs then Some (xs ! i) else None)"

definition slice :: "'a list \<Rightarrow> nat \<Rightarrow> nat \<Rightarrow> 'a list checked" where
  "slice xs a b = (if a \<le> b \<and> b \<le> length xs then Some (take (b - a) (drop a xs)) else None)"

definition usize_sub :: "nat \<Rightarrow> nat \<Rightarrow> nat checked" where
  "usize_sub a b = (if b \<le> a then Some (a - b) else None)"

text \<open>The operators \<open>||\<close> and \<open>&&\<close>, whose right operand is evaluated only when it matters.\<close>

definition or_else :: "bool checked \<Rightarrow> bool checked \<Rightarrow> bool checked" where
  "or_else a b = Option.bind a (\<lambda>x. if x then Some True else b)"

definition and_then :: "bool checked \<Rightarrow> bool checked \<Rightarrow> bool checked" where
  "and_then a b = Option.bind a (\<lambda>x. if x then b else Some False)"

text \<open>A loop whose body may panic.\<close>

fun checked_fold :: "('s \<Rightarrow> 'x \<Rightarrow> 's checked) \<Rightarrow> 's \<Rightarrow> 'x list \<Rightarrow> 's checked" where
  "checked_fold f s [] = Some s"
| "checked_fold f s (x # xs) = Option.bind (f s x) (\<lambda>s'. checked_fold f s' xs)"

section \<open>Laws\<close>

lemma list_get_eq_Some [slice_simps]: "list_get xs i = Some x \<longleftrightarrow> i < length xs \<and> xs ! i = x"
  by (auto simp: list_get_def)

lemma slice_eq_Some [slice_simps]:
  "slice xs a b = Some ys \<longleftrightarrow> a \<le> b \<and> b \<le> length xs \<and> ys = take (b - a) (drop a xs)"
  by (auto simp: slice_def)

lemma slice_in_range: "a \<le> b \<Longrightarrow> b \<le> length xs \<Longrightarrow> \<exists>ys. slice xs a b = Some ys"
  by (simp add: slice_def)

lemma length_slice: "slice xs a b = Some ys \<Longrightarrow> length ys = b - a"
  by (auto simp: slice_simps)

lemma nth_slice: "slice xs a b = Some ys \<Longrightarrow> i < b - a \<Longrightarrow> ys ! i = xs ! (a + i)"
  by (auto simp: slice_simps)

lemma usize_sub_eq_Some [slice_simps]: "usize_sub a b = Some c \<longleftrightarrow> b \<le> a \<and> c = a - b"
  by (auto simp: usize_sub_def)

lemma checked_fold_cong [fundef_cong]:
  "xs = ys \<Longrightarrow> s = t \<Longrightarrow> (\<And>x s. x \<in> set ys \<Longrightarrow> f s x = g s x) \<Longrightarrow>
     checked_fold f s xs = checked_fold g t ys"
proof (induction xs arbitrary: ys s t)
  case (Cons x xs)
  then show ?case by (auto intro!: Option.bind_cong)
qed simp

text \<open>Composition of panic-free computations.\<close>

named_theorems defined_intros "composition rules for computations that do not panic"

definition defined :: "'a checked \<Rightarrow> bool" where
  "defined m \<longleftrightarrow> m \<noteq> None"

lemma defined_Some [simp, defined_intros]: "defined (Some x)"
  by (simp add: defined_def)

lemma defined_iff: "defined m \<longleftrightarrow> (\<exists>x. m = Some x)"
  by (auto simp: defined_def)

lemma defined_bind [defined_intros]:
  "defined m \<Longrightarrow> (\<And>x. m = Some x \<Longrightarrow> defined (f x)) \<Longrightarrow> defined (Option.bind m f)"
  by (cases m) (simp_all add: defined_def)

lemma defined_if [defined_intros]:
  "(b \<Longrightarrow> defined x) \<Longrightarrow> (\<not> b \<Longrightarrow> defined y) \<Longrightarrow> defined (if b then x else y)"
  by simp

lemma defined_or_else [defined_intros]:
  "defined a \<Longrightarrow> (a = Some False \<Longrightarrow> defined b) \<Longrightarrow> defined (or_else a b)"
  by (auto simp: or_else_def intro!: defined_intros)

lemma defined_and_then [defined_intros]:
  "defined a \<Longrightarrow> (a = Some True \<Longrightarrow> defined b) \<Longrightarrow> defined (and_then a b)"
  by (auto simp: and_then_def intro!: defined_intros)

lemma defined_checked_fold [defined_intros]:
  "(\<And>s x. x \<in> set xs \<Longrightarrow> defined (f s x)) \<Longrightarrow> defined (checked_fold f s xs)"
  by (induction xs arbitrary: s) (auto intro!: defined_intros)

lemma defined_case_option [defined_intros]:
  "(v = None \<Longrightarrow> defined x) \<Longrightarrow> (\<And>y. v = Some y \<Longrightarrow> defined (f y)) \<Longrightarrow>
     defined (case v of None \<Rightarrow> x | Some y \<Rightarrow> f y)"
  by (cases v) simp_all

lemma defined_slice: "a \<le> b \<Longrightarrow> b \<le> length xs \<Longrightarrow> defined (slice xs a b)"
  by (simp add: slice_def)

lemma defined_usize_sub: "b \<le> a \<Longrightarrow> defined (usize_sub a b)"
  by (simp add: usize_sub_def)

section \<open>Scans for a closing parenthesis\<close>

text \<open>
  Both SQL readers look for the parenthesis that closes an open one; what their clients rely on is
  that the scan moves forward and stays in the slice.
\<close>

locale paren_scanner =
  fixes scan :: "'a list \<Rightarrow> nat \<Rightarrow> nat option"
  assumes scan_bounds: "scan tokens k = Some after \<Longrightarrow> k < after \<and> after \<le> length tokens"
begin

lemma scan_progress: "scan tokens k = Some after \<Longrightarrow> length tokens - after < length tokens - k"
  using scan_bounds [of tokens k after] by linarith

lemma rest_defined: "scan tokens k = Some after \<Longrightarrow> defined (slice tokens after (length tokens))"
  using scan_bounds [of tokens k after] by (simp add: defined_slice)

lemma span_defined: "scan tokens k = Some after \<Longrightarrow> j \<le> k \<Longrightarrow> defined (slice tokens j after)"
  using scan_bounds [of tokens k after] by (simp add: defined_slice)

end

end
