(* ===== verification/Sql_Lexer.thy ===== *)
theory Sql_Lexer
  imports Rust_Slice
begin

text \<open>
  The lexer of \<open>src/sql_preflight.rs\<close>: \<open>sql_tokens\<close> and the scanners it calls. The source works on
  \<open>char\<close>s, the model on UTF-8 bytes; every test of the lexer is for an ASCII character, which no
  byte of a longer UTF-8 sequence equals. A scanner over \<open>Peekable<Chars>\<close> is a function of the
  remaining input that returns what is left of it.
\<close>

datatype SqlToken = Identifier string | Symbol char

text \<open>\<open>str::trim_matches\<close> with a predicate, then \<open>to_ascii_lowercase\<close>.\<close>

definition identifier_quote :: "char \<Rightarrow> bool" where
  "identifier_quote ch \<longleftrightarrow> ch = CHR 0x22 \<or> ch = CHR 0x60 \<or> ch = CHR ''['' \<or> ch = CHR '']''"

definition normalize_sql_identifier :: "string \<Rightarrow> string" where
  "normalize_sql_identifier value =
     to_ascii_lowercase (rev (dropWhile identifier_quote (rev (dropWhile identifier_quote value))))"

definition push_identifier_token :: "string \<Rightarrow> SqlToken list" where
  "push_identifier_token current =
     (if current = [] then [] else [Identifier (normalize_sql_identifier current)])"

fun skip_quoted_literal :: "char \<Rightarrow> string \<Rightarrow> string" where
  "skip_quoted_literal quote (ch # peeked # rest) =
     (if ch = quote
      then (if peeked = quote then skip_quoted_literal quote rest else peeked # rest)
      else skip_quoted_literal quote (peeked # rest))"
| "skip_quoted_literal quote _ = []"

fun read_quoted_identifier :: "char \<Rightarrow> string \<Rightarrow> string \<times> string" where
  "read_quoted_identifier quote (ch # peeked # rest) =
     (if ch = quote
      then (if peeked = quote
        then (let (value, left) = read_quoted_identifier quote rest in (quote # value, left))
        else ([], peeked # rest))
      else (let (value, left) = read_quoted_identifier quote (peeked # rest) in (ch # value, left)))"
| "read_quoted_identifier quote [ch] = (if ch = quote then ([], []) else ([ch], []))"
| "read_quoted_identifier quote [] = ([], [])"

definition read_bracket_identifier :: "string \<Rightarrow> string \<times> string" where
  "read_bracket_identifier chars = read_quoted_identifier (CHR '']'') chars"

fun skip_line_comment :: "string \<Rightarrow> string" where
  "skip_line_comment [] = []"
| "skip_line_comment (ch # chars) = (if ch = CHR 0x0A then chars else skip_line_comment chars)"

fun skip_block_comment_from :: "char \<Rightarrow> string \<Rightarrow> string" where
  "skip_block_comment_from previous [] = []"
| "skip_block_comment_from previous (ch # chars) =
     (if previous = CHR ''*'' \<and> ch = CHR ''/'' then chars else skip_block_comment_from ch chars)"

definition skip_block_comment :: "string \<Rightarrow> string" where
  "skip_block_comment chars = skip_block_comment_from (CHR 0x00) chars"

lemma length_skip_quoted_literal: "length (skip_quoted_literal q cs) \<le> length cs"
  by (induction q cs rule: skip_quoted_literal.induct) auto

lemma length_read_quoted_identifier: "length (snd (read_quoted_identifier q cs)) \<le> length cs"
  by (induction q cs rule: read_quoted_identifier.induct) (auto simp: split_beta)

lemma length_skip_line_comment: "length (skip_line_comment cs) \<le> length cs"
  by (induction cs) auto

lemma length_skip_block_comment_from: "length (skip_block_comment_from p cs) \<le> length cs"
  by (induction p cs rule: skip_block_comment_from.induct) auto

lemmas length_scanners = length_skip_quoted_literal length_read_quoted_identifier
  length_skip_line_comment length_skip_block_comment_from

text \<open>
  The loop, with the identifier under construction as an argument; the result is the tokens it
  still pushes.
\<close>

definition quoted_token :: "string \<Rightarrow> SqlToken list" where
  "quoted_token identifier =
     (if identifier = [] then [] else [Identifier (normalize_sql_identifier identifier)])"

function sql_tokens_loop :: "string \<Rightarrow> string \<Rightarrow> SqlToken list" where
  "sql_tokens_loop current [] = push_identifier_token current"
| "sql_tokens_loop current (ch # chars) =
     (if ch = CHR 0x27
      then push_identifier_token current
        @ sql_tokens_loop [] (skip_quoted_literal (CHR 0x27) chars)
      else if ch = CHR 0x22 \<or> ch = CHR 0x60
      then push_identifier_token current
        @ quoted_token (fst (read_quoted_identifier ch chars))
        @ sql_tokens_loop [] (snd (read_quoted_identifier ch chars))
      else if ch = CHR ''[''
      then push_identifier_token current
        @ quoted_token (fst (read_bracket_identifier chars))
        @ sql_tokens_loop [] (snd (read_bracket_identifier chars))
      else if ch = CHR ''-'' \<and> chars \<noteq> [] \<and> hd chars = CHR ''-''
      then push_identifier_token current @ sql_tokens_loop [] (skip_line_comment (tl chars))
      else if ch = CHR ''/'' \<and> chars \<noteq> [] \<and> hd chars = CHR ''*''
      then push_identifier_token current @ sql_tokens_loop [] (skip_block_comment (tl chars))
      else if ch = CHR ''('' \<or> ch = CHR '')'' \<or> ch = CHR '','' \<or> ch = CHR ''.''
      then push_identifier_token current @ Symbol ch # sql_tokens_loop [] chars
      else if is_ascii_alphanumeric ch \<or> ch = CHR ''_''
      then sql_tokens_loop (current @ [ch]) chars
      else push_identifier_token current @ sql_tokens_loop [] chars)"
  by pat_completeness auto

termination
proof (relation "measure (\<lambda>(current, chars). length chars)", goal_cases)
  case (5 current ch chars)
  then show ?case using length_skip_line_comment [of "tl chars"] by simp
next
  case (6 current ch chars)
  then show ?case using length_skip_block_comment_from [of "CHR 0x00" "tl chars"]
    by (simp add: skip_block_comment_def)
qed (simp_all add: read_bracket_identifier_def less_Suc_eq_le length_scanners)

declare sql_tokens_loop.simps(2) [simp del]

definition sql_tokens :: "string \<Rightarrow> SqlToken list" where
  "sql_tokens sql = sql_tokens_loop [] sql"

section \<open>The branches of the loop\<close>

definition lexer_symbol :: "char \<Rightarrow> bool" where
  "lexer_symbol ch \<longleftrightarrow> ch = CHR ''('' \<or> ch = CHR '')'' \<or> ch = CHR '','' \<or> ch = CHR ''.''"

definition lexer_word :: "char \<Rightarrow> bool" where
  "lexer_word ch \<longleftrightarrow> is_ascii_alphanumeric ch \<or> ch = CHR ''_''"

definition lexer_other :: "char \<Rightarrow> string \<Rightarrow> bool" where
  "lexer_other ch chars \<longleftrightarrow> ch \<noteq> CHR 0x27 \<and> ch \<noteq> CHR 0x22 \<and> ch \<noteq> CHR 0x60 \<and> ch \<noteq> CHR ''['' \<and>
     \<not> (ch = CHR ''-'' \<and> chars \<noteq> [] \<and> hd chars = CHR ''-'') \<and>
     \<not> (ch = CHR ''/'' \<and> chars \<noteq> [] \<and> hd chars = CHR ''*'') \<and>
     \<not> lexer_symbol ch \<and> \<not> lexer_word ch"

lemma lexer_word_not:
  "lexer_word ch \<Longrightarrow> ch \<noteq> CHR 0x27 \<and> ch \<noteq> CHR 0x22 \<and> ch \<noteq> CHR 0x60 \<and> ch \<noteq> CHR ''['' \<and>
     ch \<noteq> CHR '']'' \<and> ch \<noteq> CHR ''-'' \<and> ch \<noteq> CHR ''/'' \<and> \<not> lexer_symbol ch"
  by (auto simp: lexer_word_def lexer_symbol_def is_ascii_alphanumeric_def is_ascii_digit_def byte_in_def byte_def)

lemma lexer_cases:
  obtains (Literal) "ch = CHR 0x27" | (Quoted) "ch = CHR 0x22 \<or> ch = CHR 0x60" | (Bracket) "ch = CHR ''[''"
  | (Line) rest where "ch = CHR ''-''" "chars = CHR ''-'' # rest"
  | (Block) rest where "ch = CHR ''/''" "chars = CHR ''*'' # rest"
  | (Symbols) "lexer_symbol ch" | (Letter) "lexer_word ch" | (Other) "lexer_other ch chars"
  unfolding lexer_other_def by (metis list.collapse)

lemma sql_loop_branches:
  "sql_tokens_loop cur (CHR 0x27 # cs) =
     push_identifier_token cur @ sql_tokens_loop [] (skip_quoted_literal (CHR 0x27) cs)"
  "ch = CHR 0x22 \<or> ch = CHR 0x60 \<Longrightarrow> sql_tokens_loop cur (ch # cs) =
     push_identifier_token cur @ quoted_token (fst (read_quoted_identifier ch cs))
       @ sql_tokens_loop [] (snd (read_quoted_identifier ch cs))"
  "sql_tokens_loop cur (CHR ''['' # cs) =
     push_identifier_token cur @ quoted_token (fst (read_bracket_identifier cs))
       @ sql_tokens_loop [] (snd (read_bracket_identifier cs))"
  "sql_tokens_loop cur (CHR ''-'' # CHR ''-'' # cs) =
     push_identifier_token cur @ sql_tokens_loop [] (skip_line_comment cs)"
  "sql_tokens_loop cur (CHR ''/'' # CHR ''*'' # cs) =
     push_identifier_token cur @ sql_tokens_loop [] (skip_block_comment cs)"
  "lexer_symbol ch \<Longrightarrow> sql_tokens_loop cur (ch # cs) =
     push_identifier_token cur @ Symbol ch # sql_tokens_loop [] cs"
  "lexer_word ch \<Longrightarrow> sql_tokens_loop cur (ch # cs) = sql_tokens_loop (cur @ [ch]) cs"
  "lexer_other ch cs \<Longrightarrow> sql_tokens_loop cur (ch # cs) = push_identifier_token cur @ sql_tokens_loop [] cs"
proof -
  show "lexer_word ch \<Longrightarrow> sql_tokens_loop cur (ch # cs) = sql_tokens_loop (cur @ [ch]) cs"
    using lexer_word_not [of ch] unfolding sql_tokens_loop.simps(2) [of cur ch cs]
    by (simp add: lexer_word_def lexer_symbol_def)
  show "lexer_other ch cs \<Longrightarrow> sql_tokens_loop cur (ch # cs) = push_identifier_token cur @ sql_tokens_loop [] cs"
    unfolding sql_tokens_loop.simps(2) [of cur ch cs]
    by (auto simp: lexer_other_def lexer_word_def lexer_symbol_def)
qed (auto simp: sql_tokens_loop.simps(2) lexer_symbol_def)

text \<open>Induction along the branches.\<close>

lemma sql_loop_induct [case_names Nil Literal Quoted Bracket Line Block Symbols Letter Other]:
  assumes "\<And>cur. P cur []"
    and "\<And>cur cs. P [] (skip_quoted_literal (CHR 0x27) cs) \<Longrightarrow> P cur (CHR 0x27 # cs)"
    and "\<And>cur ch cs. ch = CHR 0x22 \<or> ch = CHR 0x60 \<Longrightarrow> P [] (snd (read_quoted_identifier ch cs)) \<Longrightarrow> P cur (ch # cs)"
    and "\<And>cur cs. P [] (snd (read_bracket_identifier cs)) \<Longrightarrow> P cur (CHR ''['' # cs)"
    and "\<And>cur cs. P [] (skip_line_comment cs) \<Longrightarrow> P cur (CHR ''-'' # CHR ''-'' # cs)"
    and "\<And>cur cs. P [] (skip_block_comment cs) \<Longrightarrow> P cur (CHR ''/'' # CHR ''*'' # cs)"
    and "\<And>cur ch cs. lexer_symbol ch \<Longrightarrow> P [] cs \<Longrightarrow> P cur (ch # cs)"
    and "\<And>cur ch cs. lexer_word ch \<Longrightarrow> P (cur @ [ch]) cs \<Longrightarrow> P cur (ch # cs)"
    and "\<And>cur ch cs. lexer_other ch cs \<Longrightarrow> P [] cs \<Longrightarrow> P cur (ch # cs)"
  shows "P cur cs"
proof (induction "length cs" arbitrary: cur cs rule: less_induct)
  case less
  show ?case
  proof (cases cs)
    case (Cons ch chars)
    have smaller: "P c x" if "length x \<le> length chars" for c x using less Cons that by simp
    show ?thesis
      unfolding Cons
    proof (cases rule: lexer_cases [where ch = ch and chars = chars])
      case (Line rest)
      show "P cur (ch # chars)" unfolding Line
        by (rule assms(5), rule smaller) (use Line length_skip_line_comment [of rest] in simp)
    next
      case (Block rest)
      show "P cur (ch # chars)" unfolding Block
        by (rule assms(6), rule smaller)
          (use Block length_skip_block_comment_from [of _ rest] in \<open>simp add: skip_block_comment_def le_SucI\<close>)
    qed (use assms smaller length_skip_quoted_literal length_read_quoted_identifier in
        \<open>auto simp: read_bracket_identifier_def\<close>)
  qed (simp add: assms(1))
qed

section \<open>Tokens are normalized\<close>

definition token_wf :: "SqlToken \<Rightarrow> bool" where
  "token_wf t = (case t of Identifier x \<Rightarrow> to_ascii_lowercase x = x
     | Symbol c \<Rightarrow> c \<in> {CHR ''('', CHR '')'', CHR '','', CHR ''.''})"

lemma normalize_lower [simp]:
  "to_ascii_lowercase (normalize_sql_identifier x) = normalize_sql_identifier x"
  by (simp add: normalize_sql_identifier_def)

lemma push_wf: "list_all token_wf (push_identifier_token x)" "list_all token_wf (quoted_token x)"
  by (simp_all add: push_identifier_token_def quoted_token_def token_wf_def)

lemma sql_tokens_loop_wf: "list_all token_wf (sql_tokens_loop current chars)"
  by (induction current chars rule: sql_loop_induct)
    (simp_all add: sql_loop_branches push_wf, simp add: token_wf_def lexer_symbol_def)

lemma sql_tokens_wf: "list_all token_wf (sql_tokens sql)"
  by (simp add: sql_tokens_def sql_tokens_loop_wf)

section \<open>Case folding\<close>

text \<open>The characters the lexer tests for are fixed by folding, and folding hits no other.\<close>

lemma to_ascii_lower_eq_iff:
  assumes "\<not> byte_in (CHR ''A'') (CHR ''Z'') k" "\<not> byte_in (CHR ''a'') (CHR ''z'') k"
  shows "to_ascii_lower c = k \<longleftrightarrow> c = k"
proof -
  have "byte (char_of (byte c + 32)) = byte c + 32" if "byte_in (CHR ''A'') (CHR ''Z'') c"
    using that by (intro byte_char_of) (simp add: byte_in_def)
  then show ?thesis using assms by (auto simp: to_ascii_lower_def byte_in_def)
qed

lemma lexer_chars [simp]:
  "to_ascii_lower c = CHR 0x27 \<longleftrightarrow> c = CHR 0x27" "to_ascii_lower c = CHR 0x22 \<longleftrightarrow> c = CHR 0x22"
  "to_ascii_lower c = CHR 0x60 \<longleftrightarrow> c = CHR 0x60" "to_ascii_lower c = CHR ''['' \<longleftrightarrow> c = CHR ''[''"
  "to_ascii_lower c = CHR '']'' \<longleftrightarrow> c = CHR '']''" "to_ascii_lower c = CHR ''-'' \<longleftrightarrow> c = CHR ''-''"
  "to_ascii_lower c = CHR ''/'' \<longleftrightarrow> c = CHR ''/''" "to_ascii_lower c = CHR ''*'' \<longleftrightarrow> c = CHR ''*''"
  "to_ascii_lower c = CHR ''('' \<longleftrightarrow> c = CHR ''(''" "to_ascii_lower c = CHR '')'' \<longleftrightarrow> c = CHR '')''"
  "to_ascii_lower c = CHR '','' \<longleftrightarrow> c = CHR '',''" "to_ascii_lower c = CHR ''.'' \<longleftrightarrow> c = CHR ''.''"
  "to_ascii_lower c = CHR ''_'' \<longleftrightarrow> c = CHR ''_''" "to_ascii_lower c = CHR 0x0A \<longleftrightarrow> c = CHR 0x0A"
  by (rule to_ascii_lower_eq_iff; simp add: byte_in_def byte_def)+

lemma lower_alphanumeric [simp]: "is_ascii_alphanumeric (to_ascii_lower c) \<longleftrightarrow> is_ascii_alphanumeric c"
  by (auto simp: is_ascii_alphanumeric_def to_ascii_lower_def is_ascii_digit_def byte_in_def)

lemma lower_identifier_quote [simp]: "identifier_quote (to_ascii_lower c) \<longleftrightarrow> identifier_quote c"
  by (simp add: identifier_quote_def)

lemma dropWhile_lower:
  "dropWhile identifier_quote (map to_ascii_lower x) = map to_ascii_lower (dropWhile identifier_quote x)"
  by (simp add: dropWhile_map o_def)

lemma normalize_of_lower [simp]:
  "normalize_sql_identifier (map to_ascii_lower x) = normalize_sql_identifier x"
proof -
  have "dropWhile identifier_quote (rev (dropWhile identifier_quote (map to_ascii_lower x))) =
      map to_ascii_lower (dropWhile identifier_quote (rev (dropWhile identifier_quote x)))"
    by (simp only: dropWhile_lower rev_map)
  then show ?thesis by (simp add: normalize_sql_identifier_def to_ascii_lowercase_def rev_map)
qed

lemma push_of_lower [simp]:
  "push_identifier_token (map to_ascii_lower x) = push_identifier_token x"
  "quoted_token (map to_ascii_lower x) = quoted_token x"
  by (simp_all add: push_identifier_token_def quoted_token_def)

text \<open>A delimiter of the lexer: a character folding neither produces nor changes.\<close>

definition fold_stable :: "char \<Rightarrow> bool" where
  "fold_stable q \<longleftrightarrow> (\<forall>c. to_ascii_lower c = q \<longleftrightarrow> c = q)"

lemma fold_stable_delimiters: "fold_stable (CHR 0x27)" "fold_stable (CHR 0x22)" "fold_stable (CHR 0x60)"
  "fold_stable (CHR '']'')"
  by (simp_all add: fold_stable_def)

lemma skip_quoted_literal_lower:
  "fold_stable q \<Longrightarrow> skip_quoted_literal q (map to_ascii_lower cs) = map to_ascii_lower (skip_quoted_literal q cs)"
  by (induction q cs rule: skip_quoted_literal.induct) (auto simp: fold_stable_def)

lemma read_quoted_identifier_lower:
  "fold_stable q \<Longrightarrow> read_quoted_identifier q (map to_ascii_lower cs) =
     map_prod (map to_ascii_lower) (map to_ascii_lower) (read_quoted_identifier q cs)"
proof (induction q cs rule: read_quoted_identifier.induct)
  case (1 quote ch peeked rest)
  have "quote = to_ascii_lower quote" using "1.prems" unfolding fold_stable_def by metis
  with 1 show ?case by (auto simp: fold_stable_def split_beta)
qed (auto simp: fold_stable_def)

lemma skip_line_comment_lower:
  "skip_line_comment (map to_ascii_lower cs) = map to_ascii_lower (skip_line_comment cs)"
  by (induction cs) auto

lemma skip_block_comment_lower:
  "skip_block_comment_from (to_ascii_lower p) (map to_ascii_lower cs) =
     map to_ascii_lower (skip_block_comment_from p cs)"
  by (induction p cs rule: skip_block_comment_from.induct) auto

lemma skip_block_lower: "skip_block_comment (map to_ascii_lower cs) = map to_ascii_lower (skip_block_comment cs)"
proof -
  have "to_ascii_lower (CHR 0x00) = CHR 0x00" by (simp add: to_ascii_lower_def byte_in_def byte_def)
  then show ?thesis using skip_block_comment_lower [of "CHR 0x00" cs] by (simp add: skip_block_comment_def)
qed

lemmas scanners_lower = skip_quoted_literal_lower read_quoted_identifier_lower skip_line_comment_lower
  skip_block_lower fold_stable_delimiters read_bracket_identifier_def map_tl [symmetric] hd_map

lemma lexer_classes_lower:
  "lexer_symbol ch \<Longrightarrow> to_ascii_lower ch = ch" "lexer_word (to_ascii_lower ch) \<longleftrightarrow> lexer_word ch"
  "lexer_other (to_ascii_lower ch) (map to_ascii_lower cs) \<longleftrightarrow> lexer_other ch cs"
  by (auto simp: lexer_symbol_def lexer_word_def lexer_other_def hd_map cong: conj_cong)

lemma to_ascii_lower_delimiters:
  "to_ascii_lower (CHR 0x27) = CHR 0x27" "to_ascii_lower (CHR ''['') = CHR ''[''"
  "to_ascii_lower (CHR ''-'') = CHR ''-''" "to_ascii_lower (CHR ''/'') = CHR ''/''"
  "to_ascii_lower (CHR ''*'') = CHR ''*''" "to_ascii_lower (CHR 0x22) = CHR 0x22"
  "to_ascii_lower (CHR 0x60) = CHR 0x60"
  by simp_all

lemma sql_tokens_loop_lower:
  "sql_tokens_loop (map to_ascii_lower current) (map to_ascii_lower chars) = sql_tokens_loop current chars"
proof (induction current chars rule: sql_loop_induct)
  case (Quoted cur ch cs)
  then have "to_ascii_lower ch = ch" "fold_stable ch"
    using fold_stable_delimiters by (auto simp: to_ascii_lower_delimiters)
  with Quoted show ?case by (simp add: sql_loop_branches(2) scanners_lower)
qed (simp_all add: sql_loop_branches scanners_lower lexer_classes_lower to_ascii_lower_delimiters)

lemma sql_tokens_lower: "sql_tokens (to_ascii_lowercase sql) = sql_tokens sql"
  using sql_tokens_loop_lower [of "[]" sql] by (simp add: sql_tokens_def to_ascii_lowercase_def)

section \<open>Printing and lexing\<close>

text \<open>
  A source text as a sequence of pieces, each followed by a space: bare words, quoted identifiers,
  symbols, string literals, comments. The lexer reads back the identifiers and symbols; literals
  and comments are opaque whatever they contain.
\<close>

datatype piece =
    Bare string
  | DoubleQuoted string
  | BackQuoted string
  | Bracketed string
  | Punctuation char
  | StringLiteral string
  | LineComment string
  | BlockComment string

fun double_quotes :: "char \<Rightarrow> string \<Rightarrow> string" where
  "double_quotes q [] = []"
| "double_quotes q (c # cs) = (if c = q then q # q # double_quotes q cs else c # double_quotes q cs)"

fun no_block_end :: "string \<Rightarrow> bool" where
  "no_block_end (c # d # cs) \<longleftrightarrow> \<not> (c = CHR ''*'' \<and> d = CHR ''/'') \<and> no_block_end (d # cs)"
| "no_block_end _ \<longleftrightarrow> True"

fun print_piece :: "piece \<Rightarrow> string" where
  "print_piece (Bare w) = w"
| "print_piece (DoubleQuoted x) = CHR 0x22 # double_quotes (CHR 0x22) x @ [CHR 0x22]"
| "print_piece (BackQuoted x) = CHR 0x60 # double_quotes (CHR 0x60) x @ [CHR 0x60]"
| "print_piece (Bracketed x) = CHR ''['' # double_quotes (CHR '']'') x @ [CHR '']'']"
| "print_piece (Punctuation c) = [c]"
| "print_piece (StringLiteral x) = CHR 0x27 # double_quotes (CHR 0x27) x @ [CHR 0x27]"
| "print_piece (LineComment x) = ''--'' @ x @ [CHR 0x0A]"
| "print_piece (BlockComment x) = ''/*'' @ x @ ''*/''"

fun piece_tokens :: "piece \<Rightarrow> SqlToken list" where
  "piece_tokens (Bare w) = [Identifier (to_ascii_lowercase w)]"
| "piece_tokens (DoubleQuoted x) = [Identifier (normalize_sql_identifier x)]"
| "piece_tokens (BackQuoted x) = [Identifier (normalize_sql_identifier x)]"
| "piece_tokens (Bracketed x) = [Identifier (normalize_sql_identifier x)]"
| "piece_tokens (Punctuation c) = [Symbol c]"
| "piece_tokens _ = []"

fun piece_wf :: "piece \<Rightarrow> bool" where
  "piece_wf (Bare w) \<longleftrightarrow> w \<noteq> [] \<and> list_all lexer_word w"
| "piece_wf (DoubleQuoted x) \<longleftrightarrow> x \<noteq> []"
| "piece_wf (BackQuoted x) \<longleftrightarrow> x \<noteq> []"
| "piece_wf (Bracketed x) \<longleftrightarrow> x \<noteq> []"
| "piece_wf (Punctuation c) \<longleftrightarrow> lexer_symbol c"
| "piece_wf (StringLiteral x) \<longleftrightarrow> True"
| "piece_wf (LineComment x) \<longleftrightarrow> CHR 0x0A \<notin> set x"
| "piece_wf (BlockComment x) \<longleftrightarrow> no_block_end x"

definition print_pieces :: "piece list \<Rightarrow> string" where
  "print_pieces ps = concat (map (\<lambda>p. print_piece p @ '' '') ps)"

lemma scan_other_char:
  "c \<noteq> q \<Longrightarrow> skip_quoted_literal q (c # cs) = skip_quoted_literal q cs"
  "c \<noteq> q \<Longrightarrow> read_quoted_identifier q (c # cs) = map_prod ((#) c) id (read_quoted_identifier q cs)"
  by (cases cs, simp_all) (cases cs, simp_all add: split_beta map_prod_def)

lemma scan_double_quote:
  "skip_quoted_literal q (q # q # cs) = skip_quoted_literal q cs"
  "read_quoted_identifier q (q # q # cs) = map_prod ((#) q) id (read_quoted_identifier q cs)"
  by (simp_all add: split_beta map_prod_def)

lemma scan_end:
  "c \<noteq> q \<Longrightarrow> skip_quoted_literal q (q # c # r) = c # r"
  "c \<noteq> q \<Longrightarrow> read_quoted_identifier q (q # c # r) = ([], c # r)"
  by simp_all

lemmas scan_steps = scan_other_char scan_double_quote scan_end

lemma scan_printed:
  assumes "c \<noteq> q"
  shows "skip_quoted_literal q (double_quotes q x @ q # c # r) = c # r"
    and "read_quoted_identifier q (double_quotes q x @ q # c # r) = (x, c # r)"
  using assms
  by (induction x) (simp_all add: scan_steps del: skip_quoted_literal.simps read_quoted_identifier.simps)

lemma skip_line_comment_print: "CHR 0x0A \<notin> set x \<Longrightarrow> skip_line_comment (x @ CHR 0x0A # r) = r"
  by (induction x) auto

lemma skip_block_comment_print:
  assumes "no_block_end x"
  shows "skip_block_comment (x @ CHR ''*'' # CHR ''/'' # r) = r"
proof -
  have "skip_block_comment_from p (x @ CHR ''*'' # CHR ''/'' # r) = r"
    if "no_block_end x" "p = CHR ''*'' \<Longrightarrow> x = [] \<or> hd x \<noteq> CHR ''/''" for p
    using that
  proof (induction x arbitrary: p)
    case (Cons c cs)
    then show ?case by (cases cs) auto
  qed simp
  from this [OF assms, of "CHR 0x00"] show ?thesis by (simp add: skip_block_comment_def)
qed

lemma lex_words:
  "list_all lexer_word w \<Longrightarrow> sql_tokens_loop cur (w @ r) = sql_tokens_loop (cur @ w) r"
  by (induction w arbitrary: cur) (auto simp: sql_loop_branches(7))

lemma lex_space: "sql_tokens_loop cur (CHR '' '' # r) = push_identifier_token cur @ sql_tokens_loop [] r"
  by (rule sql_loop_branches(8))
    (simp add: lexer_other_def lexer_symbol_def lexer_word_def is_ascii_alphanumeric_def
      is_ascii_digit_def byte_in_def byte_def)

lemma normalize_word: "list_all lexer_word w \<Longrightarrow> normalize_sql_identifier w = to_ascii_lowercase w"
proof -
  have "dropWhile identifier_quote v = v" if "list_all lexer_word v" for v
    using that lexer_word_not by (cases v) (auto simp: identifier_quote_def)
  then show "list_all lexer_word w \<Longrightarrow> ?thesis"
    by (simp add: normalize_sql_identifier_def)
qed

lemma lex_piece:
  assumes "piece_wf p"
  shows "sql_tokens_loop [] (print_piece p @ CHR '' '' # r) = piece_tokens p @ sql_tokens_loop [] r"
proof -
  have empty: "push_identifier_token [] = []" by (simp add: push_identifier_token_def)
  show ?thesis
  proof (cases p)
    case (Bare w)
    with assms show ?thesis
      by (simp add: lex_words lex_space push_identifier_token_def normalize_word)
  next
    case (Punctuation c)
    with assms show ?thesis by (simp add: sql_loop_branches(6) lex_space empty)
  qed (use assms in \<open>simp_all add: sql_loop_branches(1-5) scan_printed lex_space empty quoted_token_def
      read_bracket_identifier_def skip_line_comment_print skip_block_comment_print\<close>)
qed

text \<open>C32: Printing any sequence of words, quoted identifiers (with embedded quotes doubled), punctuation, string literals and comments and lexing the text gives back exactly the identifiers, folded to lower case and trimmed of quotes, and the punctuation: whatever stands in a literal or a comment produces no token.\<close>

theorem sql_lexer_roundtrip:
  assumes "list_all piece_wf ps"
  shows "sql_tokens (print_pieces ps) = concat (map piece_tokens ps)"
proof -
  have "sql_tokens_loop [] (print_pieces ps) = concat (map piece_tokens ps)"
    using assms
  proof (induction ps)
    case (Cons p ps)
    then show ?case using lex_piece [of p "print_pieces ps"] by (simp add: print_pieces_def)
  qed (simp add: print_pieces_def push_identifier_token_def)
  then show ?thesis by (simp add: sql_tokens_def)
qed

theorem sql_lexer_roundtrip_witness:
  "sql_tokens (print_pieces [Bare ''SELECT'', Bracketed ''a]b'', BlockComment ''from x'', Bare ''from'',
      StringLiteral (''join y'' @ [CHR 0x27]), DoubleQuoted ''T'', Punctuation (CHR ''('')]) =
   [Identifier ''select'', Identifier ''a]b'', Identifier ''from'', Identifier ''t'', Symbol (CHR ''('')]"
proof -
  have wf: "list_all piece_wf [Bare ''SELECT'', Bracketed ''a]b'', BlockComment ''from x'', Bare ''from'',
      StringLiteral (''join y'' @ [CHR 0x27]), DoubleQuoted ''T'', Punctuation (CHR ''('')]"
    by code_simp
  show ?thesis unfolding sql_lexer_roundtrip [OF wf] by code_simp
qed

end
