(* ===== verification/Sql_Preflight.thy ===== *)
theory Sql_Preflight
  imports Sql_Lexer Serde
begin

text \<open>
  \<open>src/sql_preflight.rs\<close>: which tables, columns and functions a query references, and the validation
  of those references against schema metadata. Slices are checked (\<open>None\<close> is a panic). The loops
  that track the parenthesis depth and look at the tokens outside parentheses only share their head;
  it is \<open>top_level\<close>, the list of those tokens with their indices.
\<close>

section \<open>Tokens\<close>

text \<open>Only membership in this set is used.\<close>

definition sql_validation_keywords :: "string list" where
  "sql_validation_keywords =
     [''select'', ''from'', ''where'', ''join'', ''inner'', ''left'', ''right'', ''full'', ''outer'',
      ''on'', ''as'', ''and'', ''or'', ''not'', ''null'', ''is'', ''in'', ''between'', ''like'', ''glob'',
      ''group'', ''by'', ''order'', ''having'', ''limit'', ''offset'', ''desc'', ''asc'', ''case'',
      ''when'', ''then'', ''else'', ''end'', ''cast'', ''count'', ''sum'', ''avg'', ''min'', ''max'',
      ''date'', ''datetime'', ''now'', ''interval'', ''day'', ''hour'', ''minute'', ''second'',
      ''format'', ''json'', ''explain'', ''query'', ''plan'', ''true'', ''false'', ''exists'',
      ''distinct'', ''with'', ''recursive'', ''materialized'', ''union'', ''all'', ''over'',
      ''partition'', ''range'', ''rows'', ''preceding'', ''following'', ''current'', ''row'']"

definition sqlite_json_table_column_names :: "string list" where
  "sqlite_json_table_column_names =
     [''key'', ''value'', ''type'', ''atom'', ''id'', ''parent'', ''fullkey'', ''path'', ''json'', ''root'']"

abbreviation open_paren :: SqlToken where
  "open_paren \<equiv> Symbol (CHR ''('')"

abbreviation close_paren :: SqlToken where
  "close_paren \<equiv> Symbol (CHR '')'')"

abbreviation dot :: SqlToken where
  "dot \<equiv> Symbol (CHR ''.'')"

abbreviation comma :: SqlToken where
  "comma \<equiv> Symbol (CHR '','')"

definition is_from_or_join :: "SqlToken option \<Rightarrow> bool" where
  "is_from_or_join t \<longleftrightarrow> t = Some (Identifier ''from'') \<or> t = Some (Identifier ''join'')"

fun identifier_of :: "SqlToken option \<Rightarrow> string option" where
  "identifier_of (Some (Identifier name)) = Some name"
| "identifier_of _ = None"

definition previous_sql_token :: "SqlToken list \<Rightarrow> nat \<Rightarrow> nat \<Rightarrow> SqlToken option" where
  "previous_sql_token tokens index offset =
     (if offset \<le> index then list_get tokens (index - offset) else None)"

text \<open>\<open>d - 1\<close> on naturals is \<open>saturating_sub(1)\<close>.\<close>

fun top_level :: "nat \<Rightarrow> nat \<Rightarrow> SqlToken list \<Rightarrow> (nat \<times> SqlToken) list" where
  "top_level depth index [] = []"
| "top_level depth index (token # tokens) =
     (if token = open_paren then top_level (Suc depth) (Suc index) tokens
      else if token = close_paren then top_level (depth - 1) (Suc index) tokens
      else (if depth = 0 then [(index, token)] else []) @ top_level depth (Suc index) tokens)"

section \<open>Parentheses\<close>

fun skip_parenthesized_loop :: "nat \<Rightarrow> nat \<Rightarrow> SqlToken list \<Rightarrow> nat option" where
  "skip_parenthesized_loop depth index [] = None"
| "skip_parenthesized_loop depth index (token # tokens) =
     (if token = open_paren then skip_parenthesized_loop (Suc depth) (Suc index) tokens
      else if token = close_paren
      then (if depth - 1 = 0 then Some (Suc index)
            else skip_parenthesized_loop (depth - 1) (Suc index) tokens)
      else skip_parenthesized_loop depth (Suc index) tokens)"

definition skip_parenthesized_tokens :: "SqlToken list \<Rightarrow> nat \<Rightarrow> nat option" where
  "skip_parenthesized_tokens tokens open_index =
     skip_parenthesized_loop 0 open_index (drop open_index tokens)"

fun matching_open_loop :: "nat \<Rightarrow> (nat \<times> SqlToken) list \<Rightarrow> nat option" where
  "matching_open_loop depth [] = None"
| "matching_open_loop depth ((index, token) # rest) =
     (if token = close_paren then matching_open_loop (Suc depth) rest
      else if token = open_paren
      then (if depth - 1 = 0 then Some index else matching_open_loop (depth - 1) rest)
      else matching_open_loop depth rest)"

definition matching_open_paren_before :: "SqlToken list \<Rightarrow> nat \<Rightarrow> nat option" where
  "matching_open_paren_before tokens close_index =
     matching_open_loop 0 (rev (enumerate 0 (take (close_index + 1) tokens)))"

lemma skip_parenthesized_loop_bounds:
  assumes "skip_parenthesized_loop depth index tokens = Some after"
  shows "index < after \<and> after \<le> index + length tokens \<and>
    tokens ! (after - 1 - index) = close_paren"
  using assms
proof (induction depth index tokens rule: skip_parenthesized_loop.induct)
  case (2 depth index token tokens)
  show ?case
  proof (cases "token = close_paren \<and> depth - 1 = 0")
    case True
    with "2.prems" show ?thesis by simp
  next
    case False
    with 2 have "Suc index < after" "after \<le> Suc index + length tokens"
      "tokens ! (after - 1 - Suc index) = close_paren"
      by (auto split: if_splits)
    moreover from this have "after - 1 - index = Suc (after - 1 - Suc index)" by linarith
    ultimately show ?thesis by simp
  qed
qed simp

lemma skip_parenthesized_bounds:
  assumes "skip_parenthesized_tokens tokens k = Some after"
  shows "k < after" and "after \<le> length tokens"
  using skip_parenthesized_loop_bounds [of 0 k "drop k tokens" after] assms
  by (cases "k \<le> length tokens"; simp add: skip_parenthesized_tokens_def)+

interpretation preflight_parens: paren_scanner skip_parenthesized_tokens
  by unfold_locales (simp add: skip_parenthesized_bounds)

text \<open>From an opening parenthesis the scan passes at least one more token.\<close>

lemma skip_parenthesized_open:
  assumes "skip_parenthesized_tokens tokens k = Some after" and "list_get tokens k = Some open_paren"
  shows "k + 2 \<le> after" and "after \<le> length tokens"
proof -
  show "after \<le> length tokens" by (rule skip_parenthesized_bounds [OF assms(1)])
  from assms(2) have "drop k tokens = open_paren # drop (Suc k) tokens"
    by (metis Cons_nth_drop_Suc list_get_eq_Some)
  with assms(1) have "skip_parenthesized_loop 1 (Suc k) (drop (Suc k) tokens) = Some after"
    by (simp add: skip_parenthesized_tokens_def)
  from skip_parenthesized_loop_bounds [OF this] show "k + 2 \<le> after" by simp
qed

section \<open>Select lists\<close>

definition sql_tokens_have_top_level_select :: "SqlToken list \<Rightarrow> bool" where
  "sql_tokens_have_top_level_select tokens =
     list_ex (\<lambda>(_, token). token = Identifier ''select'') (top_level 0 0 tokens)"

definition sql_select_aliases_in_tokens :: "SqlToken list \<Rightarrow> string list" where
  "sql_select_aliases_in_tokens tokens =
     bset_of (List.map_filter (\<lambda>(index, token).
       if token = Identifier ''as'' then identifier_of (list_get tokens (index + 1)) else None)
       (top_level 0 0 tokens))"

fun select_list_loop :: "SqlToken list \<Rightarrow> nat option \<Rightarrow> (nat \<times> SqlToken) list \<Rightarrow> SqlToken list option checked" where
  "select_list_loop tokens select_start [] =
     (case select_start of
        None \<Rightarrow> Some None
      | Some start \<Rightarrow> do { body \<leftarrow> slice tokens start (length tokens); Some (Some body) })"
| "select_list_loop tokens select_start ((index, token) # rest) =
     (if token = Identifier ''select'' \<and> select_start = None
      then select_list_loop tokens (Some (index + 1)) rest
      else if token = Identifier ''from''
      then (case select_start of
          Some start \<Rightarrow> do { body \<leftarrow> slice tokens start index; Some (Some body) }
        | None \<Rightarrow> select_list_loop tokens select_start rest)
      else select_list_loop tokens select_start rest)"

definition sql_select_list_tokens :: "SqlToken list \<Rightarrow> SqlToken list option checked" where
  "sql_select_list_tokens tokens = select_list_loop tokens None (top_level 0 0 tokens)"

text \<open>The two halves of \<open>select_item_bounds\<close>: the last comma before, the first comma after.\<close>

fun item_start_loop :: "nat \<Rightarrow> nat \<Rightarrow> nat \<Rightarrow> SqlToken list \<Rightarrow> nat" where
  "item_start_loop depth start cursor [] = start"
| "item_start_loop depth start cursor (token # tokens) =
     (if token = open_paren then item_start_loop (Suc depth) start (Suc cursor) tokens
      else if token = close_paren then item_start_loop (depth - 1) start (Suc cursor) tokens
      else if token = comma \<and> depth = 0 then item_start_loop depth (cursor + 1) (Suc cursor) tokens
      else item_start_loop depth start (Suc cursor) tokens)"

fun item_end_loop :: "nat \<Rightarrow> nat \<Rightarrow> nat \<Rightarrow> SqlToken list \<Rightarrow> nat" where
  "item_end_loop count depth cursor [] = count"
| "item_end_loop count depth cursor (token # tokens) =
     (if token = open_paren then item_end_loop count (Suc depth) (Suc cursor) tokens
      else if token = close_paren then item_end_loop count (depth - 1) (Suc cursor) tokens
      else if token = comma \<and> depth = 0 then cursor
      else item_end_loop count depth (Suc cursor) tokens)"

definition select_item_bounds :: "SqlToken list \<Rightarrow> nat \<Rightarrow> nat \<times> nat" where
  "select_item_bounds tokens index =
     (item_start_loop 0 0 0 (take index tokens),
      item_end_loop (length tokens) 0 (index + 1) (drop (index + 1) tokens))"

fun wraps_loop :: "nat \<Rightarrow> nat \<Rightarrow> SqlToken list \<Rightarrow> bool" where
  "wraps_loop depth offset [] \<longleftrightarrow> depth = 0"
| "wraps_loop depth offset (token # tokens) \<longleftrightarrow>
     (if token = open_paren then wraps_loop (Suc depth) (Suc offset) tokens
      else if token = close_paren
      then (if depth - 1 = 0 \<and> tokens \<noteq> [] then False else wraps_loop (depth - 1) (Suc offset) tokens)
      else wraps_loop depth (Suc offset) tokens)"

definition select_item_has_wrapping_parentheses :: "SqlToken list \<Rightarrow> nat \<Rightarrow> nat \<Rightarrow> bool checked" where
  "select_item_has_wrapping_parentheses tokens start end_index =
     (if end_index \<le> start + 1 \<or> list_get tokens start \<noteq> Some open_paren \<or>
        list_get tokens (end_index - 1) \<noteq> Some close_paren
      then Some False
      else do { item \<leftarrow> slice tokens start end_index; Some (wraps_loop 0 0 item) })"

function skip_quantifiers :: "SqlToken list \<Rightarrow> nat \<Rightarrow> nat" where
  "skip_quantifiers tokens start =
     (if list_get tokens start = Some (Identifier ''distinct'') \<or>
        list_get tokens start = Some (Identifier ''all'')
      then skip_quantifiers tokens (start + 1) else start)"
  by pat_completeness auto

termination
  by (relation "measure (\<lambda>(tokens, start). length tokens - start)") (auto simp: slice_simps)

declare skip_quantifiers.simps [simp del]

function unwrap_parentheses :: "SqlToken list \<Rightarrow> nat \<Rightarrow> nat \<Rightarrow> (nat \<times> nat) checked" where
  "unwrap_parentheses tokens start end_index =
     (case select_item_has_wrapping_parentheses tokens start end_index of
        None \<Rightarrow> None
      | Some wrapped \<Rightarrow>
          (if wrapped then unwrap_parentheses tokens (start + 1) (end_index - 1)
           else Some (start, end_index)))"
  by pat_completeness auto

termination
  by (relation "measure (\<lambda>(tokens, start, end_index). end_index - start)")
    (auto simp: select_item_has_wrapping_parentheses_def split: if_splits)

declare unwrap_parentheses.simps [simp del]

definition select_item_is_plain_identifier :: "SqlToken list \<Rightarrow> nat \<Rightarrow> bool checked" where
  "select_item_is_plain_identifier tokens index = do {
     let (start, end_index) = select_item_bounds tokens index;
     (start, end_index) \<leftarrow> unwrap_parentheses tokens (skip_quantifiers tokens start) end_index;
     item \<leftarrow> slice tokens start end_index;
     Some (case item of
         [Identifier _] \<Rightarrow> index = start
       | [Identifier _, separator, Identifier _] \<Rightarrow> separator = dot \<and> index = start + 2
       | _ \<Rightarrow> False) }"

section \<open>Sources\<close>

definition sql_source_alias_after :: "SqlToken list \<Rightarrow> nat \<Rightarrow> (string \<times> bool) option" where
  "sql_source_alias_after tokens keyword_index =
     (let index = keyword_index + 1;
          source = (case (list_get tokens index, list_get tokens (index + 1)) of
              (Some first, second) \<Rightarrow>
                (if first = open_paren
                 then map_option (\<lambda>after. (after, True)) (skip_parenthesized_tokens tokens index)
                 else (case first of
                     Symbol _ \<Rightarrow> None
                   | Identifier _ \<Rightarrow>
                       (if second = Some dot
                        then (case identifier_of (list_get tokens (index + 2)) of
                            None \<Rightarrow> None | Some _ \<Rightarrow> Some (index + 3, False))
                        else if second = Some open_paren
                        then map_option (\<lambda>after. (after, True)) (skip_parenthesized_tokens tokens (index + 1))
                        else Some (index + 1, False))))
            | (None, _) \<Rightarrow> None)
      in case source of
          None \<Rightarrow> None
        | Some (index, virtual_source) \<Rightarrow>
            (let index = (if list_get tokens index = Some (Identifier ''as'') then index + 1 else index)
             in case identifier_of (list_get tokens index) of
                 None \<Rightarrow> None
               | Some alias \<Rightarrow>
                   (if alias \<in> set sql_validation_keywords then None else Some (alias, virtual_source))))"

definition sql_table_valued_output_columns_in_tokens :: "SqlToken list \<Rightarrow> string list" where
  "sql_table_valued_output_columns_in_tokens tokens =
     bset_of (concat (map (\<lambda>(index, token).
       if is_from_or_join (Some token) \<and>
         (list_get tokens (index + 1) = Some (Identifier ''json_each'') \<or>
          list_get tokens (index + 1) = Some (Identifier ''json_tree'')) \<and>
         list_get tokens (index + 2) = Some open_paren
       then sqlite_json_table_column_names else [])
       (top_level 0 0 tokens)))"

definition sql_virtual_source_aliases_in_tokens :: "SqlToken list \<Rightarrow> string list" where
  "sql_virtual_source_aliases_in_tokens tokens =
     bset_of (concat (map (\<lambda>(index, token).
       if is_from_or_join (Some token)
       then (case identifier_of (list_get tokens (index + 1)) of
              None \<Rightarrow> []
            | Some function_name \<Rightarrow>
                (if list_get tokens (index + 2) = Some open_paren \<and>
                   (function_name = ''json_each'' \<or> function_name = ''json_tree'')
                 then [function_name] else []))
         @ (case sql_source_alias_after tokens index of
              Some (alias, True) \<Rightarrow> [alias] | _ \<Rightarrow> [])
       else [])
       (top_level 0 0 tokens)))"

text \<open>
  The columns a derived table, a table-valued function or a \<open>SELECT\<close> puts out. The three source
  functions call each other on ever shorter slices; the middle one, a union of two results, is
  unfolded in the first.
\<close>

definition output_column_step ::
  "SqlToken list \<Rightarrow> string list \<Rightarrow> string list \<Rightarrow> string list \<Rightarrow> nat \<times> SqlToken \<Rightarrow> string list checked" where
  "output_column_step select_tokens virtual_columns virtual_source_aliases output_columns item =
     (case item of
        (index, Symbol _) \<Rightarrow> Some output_columns
      | (index, Identifier name) \<Rightarrow> do {
          skip \<leftarrow> or_else (Some (name \<in> set sql_validation_keywords \<or> name \<in> set output_columns \<or>
              list_all is_ascii_digit name \<or> list_get select_tokens (index + 1) = Some dot))
            (do { plain \<leftarrow> select_item_is_plain_identifier select_tokens index; Some (\<not> plain) });
          if skip then Some output_columns
          else let
            qualified_by_virtual_source =
              previous_sql_token select_tokens index 1 = Some dot \<and>
              (case identifier_of (previous_sql_token select_tokens index 2) of
                 None \<Rightarrow> False | Some qualifier \<Rightarrow> qualifier \<in> set virtual_source_aliases);
            unqualified = (previous_sql_token select_tokens index 1 \<noteq> Some dot)
          in Some (if name \<in> set virtual_columns \<and> (qualified_by_virtual_source \<or> unqualified)
                   then bset_insert name output_columns else output_columns) })"

function sql_select_output_columns_in_tokens :: "SqlToken list \<Rightarrow> string list checked"
  and derived_output_loop :: "SqlToken list \<Rightarrow> nat \<Rightarrow> nat \<Rightarrow> string list \<Rightarrow> string list checked" where
  "sql_select_output_columns_in_tokens tokens = do {
     let output_columns = sql_select_aliases_in_tokens tokens;
     derived \<leftarrow> derived_output_loop tokens 0 0 [];
     let virtual_columns = bset_union (sql_table_valued_output_columns_in_tokens tokens) derived;
     if virtual_columns = [] then Some output_columns
     else do {
       select_list \<leftarrow> sql_select_list_tokens tokens;
       case select_list of
         None \<Rightarrow> Some output_columns
       | Some select_tokens \<Rightarrow>
           checked_fold (output_column_step select_tokens virtual_columns
             (sql_virtual_source_aliases_in_tokens tokens)) output_columns (enumerate 0 select_tokens) } }"
| "derived_output_loop tokens depth index columns =
     (case list_get tokens index of
        None \<Rightarrow> Some columns
      | Some token \<Rightarrow>
          (if token = open_paren then derived_output_loop tokens (Suc depth) (index + 1) columns
           else if token = close_paren then derived_output_loop tokens (depth - 1) (index + 1) columns
           else if depth = 0 \<and> is_from_or_join (Some token) \<and> list_get tokens (index + 1) = Some open_paren
           then (case skip_parenthesized_tokens tokens (index + 1) of
               None \<Rightarrow> derived_output_loop tokens depth (index + 1) columns
             | Some after_body \<Rightarrow> do {
                 body \<leftarrow> slice tokens (index + 2) (after_body - 1);
                 found \<leftarrow> sql_select_output_columns_in_tokens body;
                 derived_output_loop tokens depth after_body (bset_union columns found) })
           else derived_output_loop tokens depth (index + 1) columns))"
  by pat_completeness auto

termination
proof (relation "inv_image (less_than <*lex*> less_than <*lex*> less_than)
    (\<lambda>x. case x of Inl tokens \<Rightarrow> (length tokens, 1, 0)
       | Inr (tokens, depth, index, columns) \<Rightarrow> (length tokens, 0, length tokens - index))", goal_cases)
  case 1
  show ?case by (intro wf_inv_image wf_lex_prod wf_less_than)
qed (auto simp: slice_simps dest: skip_parenthesized_bounds)

declare sql_select_output_columns_in_tokens.simps [simp del] derived_output_loop.simps [simp del]

definition sql_derived_source_output_columns_in_tokens :: "SqlToken list \<Rightarrow> string list checked" where
  "sql_derived_source_output_columns_in_tokens tokens = derived_output_loop tokens 0 0 []"

definition sql_virtual_output_columns_in_tokens :: "SqlToken list \<Rightarrow> string list checked" where
  "sql_virtual_output_columns_in_tokens tokens = do {
     derived \<leftarrow> sql_derived_source_output_columns_in_tokens tokens;
     Some (bset_union (sql_table_valued_output_columns_in_tokens tokens) derived) }"

section \<open>Common table expressions\<close>

text \<open>\<open>MATERIALIZED\<close> or \<open>NOT MATERIALIZED\<close> after \<open>AS\<close>.\<close>

definition skip_materialized :: "SqlToken list \<Rightarrow> nat \<Rightarrow> nat" where
  "skip_materialized tokens cursor =
     (if list_get tokens cursor = Some (Identifier ''materialized'') then cursor + 1
      else if list_get tokens cursor = Some (Identifier ''not'') \<and>
        list_get tokens (cursor + 1) = Some (Identifier ''materialized'') then cursor + 2
      else cursor)"

definition cte_start :: "SqlToken list \<Rightarrow> nat option" where
  "cte_start tokens =
     (if list_get tokens 0 = Some (Identifier ''with'')
      then Some (if list_get tokens 1 = Some (Identifier ''recursive'') then 2 else 1) else None)"

text \<open>The column list must alternate identifiers and commas; \<open>None\<close> is the early return.\<close>

fun column_indices :: "nat \<Rightarrow> nat \<Rightarrow> SqlToken list \<Rightarrow> nat list option" where
  "column_indices base offset [] = Some []"
| "column_indices base offset (token # tokens) =
     (if offset mod 2 = 0 \<and> identifier_of (Some token) \<noteq> None
      then map_option ((#) (base + offset)) (column_indices base (offset + 1) tokens)
      else if offset mod 2 = 1 \<and> token = comma then column_indices base (offset + 1) tokens
      else None)"

definition declared_columns :: "SqlToken list \<Rightarrow> nat \<Rightarrow> (nat list \<times> nat) option checked" where
  "declared_columns tokens cursor =
     (if list_get tokens cursor = Some open_paren
      then (case skip_parenthesized_tokens tokens cursor of
          None \<Rightarrow> Some None
        | Some after_columns \<Rightarrow> do {
            last \<leftarrow> usize_sub after_columns 1;
            inner \<leftarrow> slice tokens (cursor + 1) last;
            case column_indices (cursor + 1) 0 inner of
              None \<Rightarrow> Some None
            | Some indices \<Rightarrow> do {
                width \<leftarrow> usize_sub after_columns cursor;
                Some (if indices = [] \<or> width \<noteq> length indices * 2 + 1 then None
                      else Some (indices, after_columns)) } })
      else Some (Some ([], cursor)))"

lemma declared_columns_progress:
  "declared_columns tokens cursor = Some (Some (indices, cursor')) \<Longrightarrow> cursor \<le> cursor'"
  by (auto simp: declared_columns_def slice_simps bind_eq_Some_conv split: if_splits option.splits
      dest: skip_parenthesized_bounds)

lemma skip_materialized_progress: "cursor \<le> skip_materialized tokens cursor"
  by (simp add: skip_materialized_def)

function cte_declarations_loop :: "SqlToken list \<Rightarrow> nat \<Rightarrow> nat list \<Rightarrow> nat list checked" where
  "cte_declarations_loop tokens cursor identifiers =
     (if identifier_of (list_get tokens cursor) = None then Some identifiers
      else case declared_columns tokens (cursor + 1) of
          None \<Rightarrow> None
        | Some None \<Rightarrow> Some identifiers
        | Some (Some (indices, after_columns)) \<Rightarrow>
            (if list_get tokens after_columns \<noteq> Some (Identifier ''as'') then Some identifiers
             else let body = skip_materialized tokens (after_columns + 1)
             in if list_get tokens body \<noteq> Some open_paren then Some identifiers
             else case skip_parenthesized_tokens tokens body of
                 None \<Rightarrow> Some identifiers
               | Some after_body \<Rightarrow>
                   (let identifiers = bset_union (bset_insert cursor identifiers) indices
                    in if list_get tokens after_body = Some comma
                       then cte_declarations_loop tokens (after_body + 1) identifiers
                       else Some identifiers)))"
  by pat_completeness auto

termination
proof (relation "measure (\<lambda>(tokens, cursor, identifiers). length tokens - cursor)", goal_cases)
  case (2 tokens cursor identifiers x2 pair indices after_columns body after_body ids)
  then have "cursor < after_columns" using declared_columns_progress by fastforce
  also have "after_columns < body" using 2 skip_materialized_progress [of "after_columns + 1" tokens] by simp
  finally have "cursor < body" .
  moreover have "length tokens - after_body < length tokens - body" using 2 by (blast intro: preflight_parens.scan_progress)
  ultimately show ?case by simp
qed simp

declare cte_declarations_loop.simps [simp del]

definition sql_cte_declaration_identifiers :: "SqlToken list \<Rightarrow> nat list checked" where
  "sql_cte_declaration_identifiers tokens =
     (case cte_start tokens of None \<Rightarrow> Some [] | Some cursor \<Rightarrow> cte_declarations_loop tokens cursor [])"

text \<open>
  The same walk for the definitions: here the column list may hold anything, its identifiers are the
  output columns; without a list they are those of the body.
\<close>

definition listed_columns :: "SqlToken list \<Rightarrow> nat \<Rightarrow> (string list \<times> nat) option checked" where
  "listed_columns tokens index =
     (if list_get tokens index = Some open_paren
      then (case skip_parenthesized_tokens tokens index of
          None \<Rightarrow> Some None
        | Some after_columns \<Rightarrow> do {
            inner \<leftarrow> slice tokens (index + 1) (after_columns - 1);
            Some (Some (bset_of (List.map_filter (\<lambda>token. identifier_of (Some token)) inner), after_columns)) })
      else Some (Some ([], index)))"

lemma listed_columns_progress:
  "listed_columns tokens cursor = Some (Some (cols, cursor')) \<Longrightarrow> cursor \<le> cursor'"
  by (auto simp: listed_columns_def bind_eq_Some_conv split: if_splits option.splits
      dest: skip_parenthesized_bounds)

definition body_columns :: "SqlToken list \<Rightarrow> string list \<Rightarrow> nat \<Rightarrow> nat \<Rightarrow> string list checked" where
  "body_columns tokens output_columns body after_body =
     (if output_columns = []
      then do {
        last \<leftarrow> usize_sub after_body 1;
        inner \<leftarrow> slice tokens (body + 1) last;
        sql_select_output_columns_in_tokens inner }
      else Some output_columns)"

function cte_definitions_loop ::
  "SqlToken list \<Rightarrow> nat \<Rightarrow> (string \<times> string list) list \<Rightarrow> (string \<times> string list) list checked" where
  "cte_definitions_loop tokens index definitions =
     (case identifier_of (list_get tokens index) of
        None \<Rightarrow> Some definitions
      | Some name \<Rightarrow> (case listed_columns tokens (index + 1) of
          None \<Rightarrow> None
        | Some None \<Rightarrow> Some definitions
        | Some (Some (output_columns, after_columns)) \<Rightarrow>
            (if list_get tokens after_columns \<noteq> Some (Identifier ''as'') then Some definitions
             else let body = skip_materialized tokens (after_columns + 1)
             in if list_get tokens body \<noteq> Some open_paren then Some definitions
             else case skip_parenthesized_tokens tokens body of
                 None \<Rightarrow> Some definitions
               | Some after_body \<Rightarrow> (case body_columns tokens output_columns body after_body of
                   None \<Rightarrow> None
                 | Some output_columns \<Rightarrow>
                   (let definitions = bmap_insert name output_columns definitions
                    in if list_get tokens after_body = Some comma
                       then cte_definitions_loop tokens (after_body + 1) definitions
                       else Some definitions)))))"
  by pat_completeness auto

termination
proof (relation "measure (\<lambda>(tokens, index, definitions). length tokens - index)", goal_cases)
  case (2 tokens index definitions name x2 pair cols after_columns body after_body cols' defs)
  then have "index < after_columns" using listed_columns_progress by fastforce
  also have "after_columns < body" using 2 skip_materialized_progress [of "after_columns + 1" tokens] by simp
  finally have "index < body" .
  moreover have "length tokens - after_body < length tokens - body" using 2 by (blast intro: preflight_parens.scan_progress)
  ultimately show ?case by simp
qed simp

declare cte_definitions_loop.simps [simp del]

definition sql_cte_definitions :: "string \<Rightarrow> (string \<times> string list) list checked" where
  "sql_cte_definitions sql =
     (let tokens = sql_tokens sql
      in case cte_start tokens of None \<Rightarrow> Some [] | Some index \<Rightarrow> cte_definitions_loop tokens index [])"

definition sql_cte_names :: "string \<Rightarrow> string list checked" where
  "sql_cte_names sql = do { definitions \<leftarrow> sql_cte_definitions sql; Some (map fst definitions) }"

definition sql_referenced_cte_names :: "string \<Rightarrow> string list checked" where
  "sql_referenced_cte_names sql = do {
     definitions \<leftarrow> sql_cte_definitions sql;
     if definitions = [] then Some []
     else let tokens = sql_tokens sql in
       Some (bset_of (List.map_filter (\<lambda>(index, token).
         if is_from_or_join (Some token)
         then (case identifier_of (list_get tokens (index + 1)) of
             None \<Rightarrow> None
           | Some name \<Rightarrow> (if map_of definitions name \<noteq> None then Some name else None))
         else None) (top_level 0 0 tokens))) }"

end
