(* ===== verification/Sql_References.thy ===== *)
theory Sql_References
  imports Sql_Preflight
begin

text \<open>
  The second half of \<open>src/sql_preflight.rs\<close>: the classification of every identifier of a query as
  a keyword, a table, an alias, a function, an output of a virtual source or of a common table
  expression, or a column, and the validation of what is left against the schema metadata.
\<close>

section \<open>The query an identifier belongs to\<close>

fun paren_stack :: "nat list \<Rightarrow> nat \<Rightarrow> SqlToken list \<Rightarrow> nat list" where
  "paren_stack stack cursor [] = stack"
| "paren_stack stack cursor (token # tokens) =
     (if token = open_paren then paren_stack (cursor # stack) (Suc cursor) tokens
      else if token = close_paren then paren_stack (tl stack) (Suc cursor) tokens
      else paren_stack stack (Suc cursor) tokens)"

fun enclosing_loop :: "SqlToken list \<Rightarrow> nat list \<Rightarrow> (nat \<times> nat) checked" where
  "enclosing_loop tokens [] = Some (0, length tokens)"
| "enclosing_loop tokens (open_index # stack) =
     (case skip_parenthesized_tokens tokens open_index of
        None \<Rightarrow> enclosing_loop tokens stack
      | Some close_after \<Rightarrow> do {
          let close_index = close_after - 1;
          body \<leftarrow> slice tokens (open_index + 1) close_index;
          if sql_tokens_have_top_level_select body then Some (open_index + 1, close_index)
          else enclosing_loop tokens stack })"

text \<open>The stack has its top first, so that the walk over it is the source's reversed one.\<close>

definition sql_enclosing_query_bounds :: "SqlToken list \<Rightarrow> nat \<Rightarrow> (nat \<times> nat) checked" where
  "sql_enclosing_query_bounds tokens index = enclosing_loop tokens (paren_stack [] 0 (take index tokens))"

text \<open>The head the four classifiers share: the enclosing block and the position in it.\<close>

definition enclosing_block :: "SqlToken list \<Rightarrow> nat \<Rightarrow> (SqlToken list \<times> nat) checked" where
  "enclosing_block tokens index = do {
     (start, end_index) \<leftarrow> sql_enclosing_query_bounds tokens index;
     block \<leftarrow> slice tokens start end_index;
     Some (block, index - start) }"

section \<open>Names a query references\<close>

definition referenced_sql_tables :: "string \<Rightarrow> string list checked" where
  "referenced_sql_tables sql = do {
     let tokens = sql_tokens sql;
     cte_names \<leftarrow> sql_cte_names sql;
     Some (bset_of (List.map_filter (\<lambda>(index, token).
       if is_from_or_join (Some token)
       then (case identifier_of (list_get tokens (index + 1)) of
           None \<Rightarrow> None
         | Some name \<Rightarrow>
             (if list_get tokens (index + 2) = Some dot then identifier_of (list_get tokens (index + 3))
              else if list_get tokens (index + 2) = Some open_paren then None
              else if name \<in> set cte_names then None
              else Some name))
       else None) (enumerate 0 tokens))) }"

definition sql_aliases :: "string \<Rightarrow> string list" where
  "sql_aliases sql =
     (let tokens = sql_tokens sql in
      bset_of (filter (\<lambda>alias. alias \<notin> set sql_validation_keywords) (sql_select_aliases_in_tokens tokens)
        @ List.map_filter (\<lambda>(index, token).
            if is_from_or_join (Some token) then map_option fst (sql_source_alias_after tokens index) else None)
          (enumerate 0 tokens)))"

definition sql_virtual_source_aliases :: "string \<Rightarrow> string list checked" where
  "sql_virtual_source_aliases sql = do {
     aliases \<leftarrow> sql_referenced_cte_names sql;
     Some (bset_union aliases (sql_virtual_source_aliases_in_tokens (sql_tokens sql))) }"

definition sql_function_names :: "string \<Rightarrow> string list checked" where
  "sql_function_names sql = do {
     let tokens = sql_tokens sql;
     cte_declarations \<leftarrow> sql_cte_declaration_identifiers tokens;
     Some (bset_of (List.map_filter (\<lambda>(index, token).
       (case identifier_of (Some token) of
          None \<Rightarrow> None
        | Some name \<Rightarrow>
            (if list_get tokens (index + 1) = Some open_paren \<and> name \<notin> set sql_validation_keywords \<and>
               index \<notin> set cte_declarations
             then Some name else None))) (enumerate 0 tokens))) }"

definition referenced_sql_functions :: "string \<Rightarrow> string list checked" where
  "referenced_sql_functions sql = sql_function_names sql"

section \<open>Classifiers\<close>

definition is_source_identifier_at :: "SqlToken list \<Rightarrow> nat \<Rightarrow> bool" where
  "is_source_identifier_at tokens index \<longleftrightarrow> is_from_or_join (previous_sql_token tokens index 1)"

definition is_table_reference_name_at :: "SqlToken list \<Rightarrow> nat \<Rightarrow> string list \<Rightarrow> bool" where
  "is_table_reference_name_at tokens index table_refs =
     (case identifier_of (list_get tokens index) of
        None \<Rightarrow> False
      | Some name \<Rightarrow> name \<in> set table_refs \<and>
          (is_from_or_join (previous_sql_token tokens index 1) \<or>
           is_from_or_join (previous_sql_token tokens index 3) \<and>
             previous_sql_token tokens index 1 = Some dot))"

definition is_source_alias_declaration_at :: "SqlToken list \<Rightarrow> nat \<Rightarrow> string list \<Rightarrow> bool" where
  "is_source_alias_declaration_at tokens index aliases =
     (case identifier_of (list_get tokens index) of
        None \<Rightarrow> False
      | Some name \<Rightarrow>
          (if name \<notin> set aliases then False
           else if previous_sql_token tokens index 1 = Some (Identifier ''as'') then True
           else if is_from_or_join (previous_sql_token tokens index 2) then True
           else if is_from_or_join (previous_sql_token tokens index 4) \<and>
             previous_sql_token tokens index 2 = Some dot then True
           else if previous_sql_token tokens index 1 \<noteq> Some close_paren then False
           else case matching_open_paren_before tokens (index - 1) of
               None \<Rightarrow> False
             | Some open_index \<Rightarrow>
                 is_from_or_join (previous_sql_token tokens open_index 1) \<or>
                 is_from_or_join (previous_sql_token tokens open_index 2)))"

definition is_schema_qualifier_at :: "SqlToken list \<Rightarrow> nat \<Rightarrow> string list \<Rightarrow> bool" where
  "is_schema_qualifier_at tokens index table_refs \<longleftrightarrow>
     is_from_or_join (previous_sql_token tokens index 1) \<and>
     (case identifier_of (list_get tokens (index + 2)) of
        None \<Rightarrow> False | Some table \<Rightarrow> table \<in> set table_refs)"

definition is_function_name_at :: "SqlToken list \<Rightarrow> nat \<Rightarrow> string list \<Rightarrow> bool" where
  "is_function_name_at tokens index function_names \<longleftrightarrow>
     list_get tokens (index + 1) = Some open_paren \<and>
     (case identifier_of (list_get tokens index) of
        None \<Rightarrow> False | Some name \<Rightarrow> name \<in> set function_names)"

definition is_known_sql_qualifier_at ::
  "SqlToken list \<Rightarrow> nat \<Rightarrow> string list \<Rightarrow> string list \<Rightarrow> string list \<Rightarrow> bool" where
  "is_known_sql_qualifier_at tokens index table_refs aliases virtual_source_aliases =
     (case identifier_of (list_get tokens index) of
        None \<Rightarrow> False
      | Some token \<Rightarrow>
          token \<in> set table_refs \<or> token \<in> set aliases \<or> token \<in> set virtual_source_aliases)"

definition clause_keywords :: "string list" where
  "clause_keywords =
     [''select'', ''from'', ''where'', ''group'', ''having'', ''order'', ''limit'', ''offset'']"

definition top_level_clause_before :: "SqlToken list \<Rightarrow> nat \<Rightarrow> string option" where
  "top_level_clause_before tokens index =
     fold (\<lambda>(_, token) clause. case token of
         Identifier keyword \<Rightarrow> (if keyword \<in> set clause_keywords then Some keyword else clause)
       | Symbol _ \<Rightarrow> clause) (top_level 0 0 (take index tokens)) None"

definition is_select_alias_reference_at :: "SqlToken list \<Rightarrow> nat \<Rightarrow> bool checked" where
  "is_select_alias_reference_at tokens index =
     (case identifier_of (list_get tokens index) of
        None \<Rightarrow> Some False
      | Some name \<Rightarrow> do {
          (block, local_index) \<leftarrow> enclosing_block tokens index;
          select_list \<leftarrow> sql_select_list_tokens block;
          let select_aliases = filter (\<lambda>alias. alias \<notin> set sql_validation_keywords)
            (case select_list of None \<Rightarrow> [] | Some items \<Rightarrow> sql_select_aliases_in_tokens items);
          Some (name \<in> set select_aliases \<and>
            top_level_clause_before block local_index \<in> {Some ''group'', Some ''order'', Some ''having''}) })"

text \<open>The sources of a block that are common table expressions: their names and aliases, their columns.\<close>

definition cte_source_step ::
  "SqlToken list \<Rightarrow> (string \<times> string list) list \<Rightarrow> nat \<times> SqlToken \<Rightarrow>
   string list \<times> string list \<Rightarrow> string list \<times> string list" where
  "cte_source_step tokens definitions item acc =
     (case (item, acc) of ((index, token), (source_names, output_columns)) \<Rightarrow>
        (if \<not> is_from_or_join (Some token) then acc
         else case identifier_of (list_get tokens (index + 1)) of
             None \<Rightarrow> acc
           | Some name \<Rightarrow>
               (if list_get tokens (index + 2) = Some dot then acc
                else case map_of definitions name of
                    None \<Rightarrow> acc
                  | Some columns \<Rightarrow>
                      (let source_names = bset_insert name source_names
                       in (case sql_source_alias_after tokens index of
                             Some (alias, _) \<Rightarrow> bset_insert alias source_names
                           | None \<Rightarrow> source_names,
                           bset_union output_columns columns)))))"

definition sql_cte_source_outputs_in_tokens ::
  "SqlToken list \<Rightarrow> (string \<times> string list) list \<Rightarrow> string list \<times> string list" where
  "sql_cte_source_outputs_in_tokens tokens definitions =
     fold (cte_source_step tokens definitions) (top_level 0 0 tokens) ([], [])"

definition is_cte_source_qualifier_at ::
  "SqlToken list \<Rightarrow> nat \<Rightarrow> (string \<times> string list) list \<Rightarrow> bool checked" where
  "is_cte_source_qualifier_at tokens index definitions =
     (case identifier_of (list_get tokens index) of
        None \<Rightarrow> Some False
      | Some name \<Rightarrow> do {
          (block, _) \<leftarrow> enclosing_block tokens index;
          Some (name \<in> set (fst (sql_cte_source_outputs_in_tokens block definitions))) })"

text \<open>
  The test both output classifiers end with: the name is unqualified, or qualified by one of the
  block's sources.
\<close>

definition qualified_or_plain :: "SqlToken list \<Rightarrow> nat \<Rightarrow> string list \<Rightarrow> bool" where
  "qualified_or_plain block local_index source_names \<longleftrightarrow>
     previous_sql_token block local_index 1 = Some dot \<and>
       (case identifier_of (previous_sql_token block local_index 2) of
          None \<Rightarrow> False | Some qualifier \<Rightarrow> qualifier \<in> set source_names) \<or>
     previous_sql_token block local_index 1 \<noteq> Some dot"

definition is_cte_output_column_at ::
  "SqlToken list \<Rightarrow> nat \<Rightarrow> (string \<times> string list) list \<Rightarrow> bool checked" where
  "is_cte_output_column_at tokens index definitions =
     (case identifier_of (list_get tokens index) of
        None \<Rightarrow> Some False
      | Some name \<Rightarrow> do {
          (block, local_index) \<leftarrow> enclosing_block tokens index;
          let (source_names, output_columns) = sql_cte_source_outputs_in_tokens block definitions;
          Some (name \<in> set output_columns \<and> qualified_or_plain block local_index source_names) })"

definition is_virtual_output_column_at :: "SqlToken list \<Rightarrow> nat \<Rightarrow> bool checked" where
  "is_virtual_output_column_at tokens index =
     (case identifier_of (list_get tokens index) of
        None \<Rightarrow> Some False
      | Some name \<Rightarrow> do {
          (block, local_index) \<leftarrow> enclosing_block tokens index;
          virtual_columns \<leftarrow> sql_virtual_output_columns_in_tokens block;
          Some (name \<in> set virtual_columns \<and>
            qualified_or_plain block local_index (sql_virtual_source_aliases_in_tokens block)) })"

section \<open>Columns\<close>

text \<open>What the loop of \<open>referenced_sql_columns\<close> knows of the whole query.\<close>

record query_facts =
  qf_functions :: "string list"
  qf_tables :: "string list"
  qf_ctes :: "(string \<times> string list) list"
  qf_cte_declarations :: "nat list"
  qf_aliases :: "string list"
  qf_virtual_aliases :: "string list"

definition collect_query_facts :: "string \<Rightarrow> query_facts checked" where
  "collect_query_facts sql = do {
     function_names \<leftarrow> referenced_sql_functions sql;
     table_refs \<leftarrow> referenced_sql_tables sql;
     cte_definitions \<leftarrow> sql_cte_definitions sql;
     cte_declarations \<leftarrow> sql_cte_declaration_identifiers (sql_tokens sql);
     virtual_source_aliases \<leftarrow> sql_virtual_source_aliases sql;
     Some \<lparr>qf_functions = bset_of function_names, qf_tables = bset_of table_refs,
       qf_ctes = cte_definitions, qf_cte_declarations = cte_declarations,
       qf_aliases = sql_aliases sql, qf_virtual_aliases = virtual_source_aliases\<rparr> }"

text \<open>
  The loop body: the conditions under which an identifier is passed over, in order, each evaluated
  only when those before it fail.
\<close>

definition is_not_column :: "query_facts \<Rightarrow> SqlToken list \<Rightarrow> nat \<Rightarrow> string \<Rightarrow> bool checked" where
  "is_not_column q tokens index token =
     (let qualifier = (list_get tokens (index + 1) = Some dot) in
      or_else (Some (previous_sql_token tokens index 1 = Some (Identifier ''as'')))
     (or_else (and_then (Some qualifier) (is_cte_source_qualifier_at tokens index (qf_ctes q)))
     (or_else (Some (qualifier \<and> is_schema_qualifier_at tokens index (qf_tables q)))
     (or_else (Some (qualifier \<and>
        is_known_sql_qualifier_at tokens index (qf_tables q) (qf_aliases q) (qf_virtual_aliases q)))
     (or_else (Some (previous_sql_token tokens index 1 = Some dot \<and>
        (case identifier_of (previous_sql_token tokens index 2) of
           None \<Rightarrow> False | Some name \<Rightarrow> name \<in> set (qf_virtual_aliases q))))
     (or_else (Some (token \<in> set sql_validation_keywords))
     (or_else (Some (is_table_reference_name_at tokens index (qf_tables q)))
     (or_else (Some (is_source_alias_declaration_at tokens index (qf_aliases q)))
     (or_else (is_select_alias_reference_at tokens index)
     (or_else (Some (is_function_name_at tokens index (qf_functions q)))
     (or_else (is_virtual_output_column_at tokens index)
     (or_else (is_cte_output_column_at tokens index (qf_ctes q))
     (or_else (Some (map_of (qf_ctes q) token \<noteq> None \<and> is_source_identifier_at tokens index))
     (or_else (Some (index \<in> set (qf_cte_declarations q)))
       (Some (list_all is_ascii_digit token))))))))))))))))"

definition column_step ::
  "query_facts \<Rightarrow> SqlToken list \<Rightarrow> string list \<Rightarrow> nat \<times> SqlToken \<Rightarrow> string list checked" where
  "column_step q tokens columns item =
     (case item of
        (index, Symbol _) \<Rightarrow> Some columns
      | (index, Identifier token) \<Rightarrow> do {
          passed \<leftarrow> is_not_column q tokens index token;
          Some (if passed then columns else bset_insert token columns) })"

definition referenced_sql_columns :: "string \<Rightarrow> string list checked" where
  "referenced_sql_columns sql = do {
     q \<leftarrow> collect_query_facts sql;
     checked_fold (column_step q (sql_tokens sql)) [] (enumerate 0 (sql_tokens sql)) }"

end
