(* ===== verification/Sql_Total.thy ===== *)
theory Sql_Total
  imports Sql_References
begin

text \<open>
  No slice of the preflight is out of range: every function of it that slices returns a value.
  The facts behind it are the bounds of the scans over parentheses and, for a select item, that the
  identifier at hand is no quantifier keyword, which the caller has tested before.
\<close>

section \<open>Positions\<close>

lemma top_level_bounds:
  "(i, t) \<in> set (top_level depth index tokens) \<Longrightarrow> index \<le> i \<and> i < index + length tokens"
  by (induction depth index tokens rule: top_level.induct) (fastforce split: if_splits)+

lemma top_level_increasing: "sorted_wrt (\<lambda>x y. fst x < fst y) (top_level depth index tokens)"
proof (induction depth index tokens rule: top_level.induct)
  case (2 depth index token tokens)
  then show ?case by (auto dest: top_level_bounds)
qed simp

lemma top_level_nth:
  "(i, t) \<in> set (top_level depth index tokens) \<Longrightarrow> tokens ! (i - index) = t"
proof (induction depth index tokens rule: top_level.induct)
  case (2 depth index token tokens)
  from "2.prems" consider "i = index" "t = token"
    | d where "(i, t) \<in> set (top_level d (Suc index) tokens)" "tokens ! (i - Suc index) = t"
    using "2.IH" by (auto split: if_splits)
  then show ?case
  proof cases
    case (2 d)
    from top_level_bounds [OF 2(1)] have "i - index = Suc (i - Suc index)" by linarith
    with 2(2) show ?thesis by simp
  qed simp
qed simp

section \<open>Select lists\<close>

lemma select_list_loop_defined:
  assumes "sorted_wrt (\<lambda>x y. fst x < fst y) items" and "\<forall>(i, t) \<in> set items. i < length tokens"
    and "\<And>s. start = Some s \<Longrightarrow> s \<le> length tokens \<and> (\<forall>(i, t) \<in> set items. s \<le> i)"
  shows "defined (select_list_loop tokens start items)"
  using assms
proof (induction tokens start items rule: select_list_loop.induct)
  case (1 tokens start)
  then show ?case by (auto intro!: defined_intros defined_slice split: option.splits)
next
  case (2 tokens start index token rest)
  note sorted = "2.prems"(1) and below = "2.prems"(2) and start = "2.prems"(3)
  consider (select) "token = Identifier ''select''" "start = None"
    | (found) s where "token = Identifier ''from''" "start = Some s"
    | (early) "token = Identifier ''from''" "start = None"
    | (other) "\<not> (token = Identifier ''select'' \<and> start = None)" "token \<noteq> Identifier ''from''"
    by (cases start) auto
  then show ?case
  proof cases
    case select
    have "defined (select_list_loop tokens (Some (index + 1)) rest)"
      by (rule "2.IH"(1)) (use select sorted below in \<open>auto simp: Suc_le_eq\<close>)
    with select show ?thesis by simp
  next
    case found
    with start [of s] below show ?thesis by (auto intro!: defined_intros defined_slice)
  next
    case early
    have "defined (select_list_loop tokens start rest)"
      by (rule "2.IH"(2)) (use early sorted below in auto)
    with early show ?thesis by simp
  next
    case other
    have "defined (select_list_loop tokens start rest)"
      by (rule "2.IH"(3)) (use other sorted below start in auto)
    with other show ?thesis by auto
  qed
qed

lemma sql_select_list_tokens_defined [defined_intros]: "defined (sql_select_list_tokens tokens)"
  unfolding sql_select_list_tokens_def
  by (rule select_list_loop_defined) (auto simp: top_level_increasing dest: top_level_bounds)

lemma item_start_bound: "start \<le> cursor \<Longrightarrow> item_start_loop depth start cursor tokens \<le> cursor + length tokens"
proof (induction tokens arbitrary: depth start cursor)
  case (Cons t ts)
  show ?case using Cons.IH [of _ "Suc cursor"] Cons.prems by (auto simp: le_SucI)
qed simp

lemma item_end_bound:
  "cursor + length tokens = n \<Longrightarrow>
     cursor \<le> item_end_loop n depth cursor tokens \<and> item_end_loop n depth cursor tokens \<le> n"
proof (induction tokens arbitrary: depth cursor)
  case (Cons t ts)
  show ?case using Cons.IH [of "Suc cursor"] Cons.prems by (auto dest: Suc_leD)
qed simp

lemma select_item_bounds_around:
  assumes "index < length tokens" and "select_item_bounds tokens index = (start, end_index)"
  shows "start \<le> index" and "index < end_index" and "end_index \<le> length tokens"
  using assms item_start_bound [of 0 0 0 "take index tokens"]
    item_end_bound [where depth = 0 and tokens = "drop (index + 1) tokens", of "index + 1" "length tokens"]
  by (auto simp: select_item_bounds_def Suc_le_eq)

lemma skip_quantifiers_stops:
  assumes "start \<le> index" and "list_get tokens index \<notin> {Some (Identifier ''distinct''), Some (Identifier ''all'')}"
  shows "skip_quantifiers tokens start \<le> index"
  using assms
proof (induction tokens start rule: skip_quantifiers.induct)
  case (1 tokens start)
  then have "start < index" if "list_get tokens start \<in> {Some (Identifier ''distinct''), Some (Identifier ''all'')}"
    using that by (auto simp: le_less)
  with 1 show ?case by (subst skip_quantifiers.simps) auto
qed

lemma unwrap_parentheses_defined:
  assumes "start \<le> end_index" and "end_index \<le> length tokens"
  obtains s e where "unwrap_parentheses tokens start end_index = Some (s, e)"
    and "s \<le> e" and "e \<le> length tokens"
  using assms
proof (induction tokens start end_index arbitrary: thesis rule: unwrap_parentheses.induct)
  case (1 tokens start end_index)
  have "defined (select_item_has_wrapping_parentheses tokens start end_index)"
    using "1.prems" by (auto simp: select_item_has_wrapping_parentheses_def intro!: defined_intros defined_slice)
  then obtain wrapped where w: "select_item_has_wrapping_parentheses tokens start end_index = Some wrapped"
    by (auto simp: defined_iff)
  show ?case
  proof (cases wrapped)
    case True
    with w have "start + 1 < end_index"
      by (auto simp: select_item_has_wrapping_parentheses_def split: if_splits)
    with "1.prems" obtain s e where "unwrap_parentheses tokens (start + 1) (end_index - 1) = Some (s, e)"
      and "s \<le> e" and "e \<le> length tokens"
      by (elim "1.IH" [OF w True]) simp_all
    moreover from this w True have "unwrap_parentheses tokens start end_index = Some (s, e)"
      by (subst unwrap_parentheses.simps) simp
    ultimately show ?thesis using "1.prems"(1) by blast
  next
    case False
    with w have "unwrap_parentheses tokens start end_index = Some (start, end_index)"
      by (subst unwrap_parentheses.simps) simp
    with "1.prems" show ?thesis by blast
  qed
qed

lemma select_item_is_plain_identifier_defined:
  assumes "index < length tokens" and "tokens ! index = Identifier name" and "name \<notin> set sql_validation_keywords"
  shows "defined (select_item_is_plain_identifier tokens index)"
proof -
  obtain start end_index where b: "select_item_bounds tokens index = (start, end_index)" by fastforce
  from assms have "list_get tokens index \<notin> {Some (Identifier ''distinct''), Some (Identifier ''all'')}"
    by (auto simp: slice_simps sql_validation_keywords_def)
  with select_item_bounds_around [OF assms(1) b]
  have "skip_quantifiers tokens start \<le> end_index" "end_index \<le> length tokens"
    using skip_quantifiers_stops [of start index tokens] by auto
  then obtain s e where "unwrap_parentheses tokens (skip_quantifiers tokens start) end_index = Some (s, e)"
    and "s \<le> e" and "e \<le> length tokens"
    by (rule unwrap_parentheses_defined)
  then show ?thesis
    by (simp add: select_item_is_plain_identifier_def b slice_def)
qed

section \<open>Output columns and common table expressions\<close>

lemma output_column_step_defined:
  assumes "(index, token) \<in> set (enumerate 0 items)"
  shows "defined (output_column_step items vc va columns (index, token))"
proof (cases token)
  case (Identifier name)
  from assms have "index < length items" "items ! index = Identifier name"
    by (auto simp: in_set_enumerate_eq Identifier)
  then show ?thesis
    unfolding output_column_step_def Identifier prod.case SqlToken.case
    by (intro defined_intros select_item_is_plain_identifier_defined) (auto simp: Let_def)
qed (simp add: output_column_step_def)

lemma select_output_defined [defined_intros]:
  "defined (sql_select_output_columns_in_tokens tokens)"
  "defined (derived_output_loop tokens depth index columns)"
proof (induction tokens and tokens depth index columns
    rule: sql_select_output_columns_in_tokens_derived_output_loop.induct)
  case (1 tokens)
  then show ?case
    by (subst sql_select_output_columns_in_tokens.simps)
      (auto intro!: defined_intros output_column_step_defined simp: Let_def)
next
  case (2 tokens depth index columns)
  show ?case
  proof (cases "list_get tokens index")
    case None
    then show ?thesis by (subst derived_output_loop.simps) simp
  next
    case (Some token)
    show ?thesis
      by (subst derived_output_loop.simps, unfold Some option.case, intro defined_intros defined_slice)
        (use 2 Some skip_parenthesized_open [of tokens "index + 1"] in \<open>fastforce+\<close>)
  qed
qed

lemma sql_virtual_output_columns_defined [defined_intros]:
  "defined (sql_virtual_output_columns_in_tokens tokens)"
  unfolding sql_virtual_output_columns_in_tokens_def sql_derived_source_output_columns_in_tokens_def
  by (intro defined_intros)

lemma declared_columns_defined [defined_intros]: "defined (declared_columns tokens cursor)"
  unfolding declared_columns_def
  by (intro defined_intros defined_slice defined_usize_sub)
    (auto simp: slice_simps dest: skip_parenthesized_open skip_parenthesized_bounds)

lemma listed_columns_defined [defined_intros]: "defined (listed_columns tokens index)"
  unfolding listed_columns_def
  by (intro defined_intros defined_slice)
    (auto simp: slice_simps dest: skip_parenthesized_open skip_parenthesized_bounds)

lemma body_columns_defined [defined_intros]:
  assumes "skip_parenthesized_tokens tokens body = Some after_body" and "list_get tokens body = Some open_paren"
  shows "defined (body_columns tokens output_columns body after_body)"
  unfolding body_columns_def
  by (intro defined_intros defined_slice defined_usize_sub)
    (use skip_parenthesized_open [OF assms] in \<open>auto simp: slice_simps\<close>)

lemma cte_declarations_loop_defined [defined_intros]:
  "defined (cte_declarations_loop tokens cursor identifiers)"
proof (induction tokens cursor identifiers rule: cte_declarations_loop.induct)
  case (1 tokens cursor identifiers)
  obtain v where v: "declared_columns tokens (cursor + 1) = Some v"
    using declared_columns_defined by (auto simp: defined_iff)
  show ?case
  proof (cases v)
    case None
    then show ?thesis by (subst cte_declarations_loop.simps) (use v in simp)
  next
    case (Some pair)
    obtain indices after_columns where pair: "pair = (indices, after_columns)" by fastforce
    show ?thesis
      by (subst cte_declarations_loop.simps, unfold v Some pair option.case prod.case Let_def, intro defined_intros)
        (use 1 v Some pair in auto)
  qed
qed

lemma sql_cte_declaration_identifiers_defined [defined_intros]:
  "defined (sql_cte_declaration_identifiers tokens)"
  unfolding sql_cte_declaration_identifiers_def by (intro defined_intros)

lemma cte_definitions_loop_defined [defined_intros]:
  "defined (cte_definitions_loop tokens index definitions)"
proof (induction tokens index definitions rule: cte_definitions_loop.induct)
  case (1 tokens index definitions)
  obtain v where v: "listed_columns tokens (index + 1) = Some v"
    using listed_columns_defined by (auto simp: defined_iff)
  show ?case
  proof (cases v)
    case None
    then show ?thesis by (subst cte_definitions_loop.simps, intro defined_intros) (use v in simp_all)
  next
    case (Some pair)
    obtain columns after_columns where pair: "pair = (columns, after_columns)" by fastforce
    have total: "body_columns tokens columns body after_body \<noteq> None"
      if "skip_parenthesized_tokens tokens body = Some after_body" and "list_get tokens body = Some open_paren"
      for body after_body
      using body_columns_defined [OF that] by (simp add: defined_def)
    show ?thesis
      by (subst cte_definitions_loop.simps, unfold v Some pair option.case prod.case Let_def, intro defined_intros)
        (use 1 v Some pair total in auto)
  qed
qed

lemma sql_cte_definitions_defined [defined_intros]: "defined (sql_cte_definitions sql)"
  unfolding sql_cte_definitions_def Let_def by (intro defined_intros)

lemma sql_cte_names_defined [defined_intros]: "defined (sql_cte_names sql)"
  unfolding sql_cte_names_def by (intro defined_intros)

lemma sql_referenced_cte_names_defined [defined_intros]: "defined (sql_referenced_cte_names sql)"
  unfolding sql_referenced_cte_names_def Let_def by (intro defined_intros)

section \<open>The classifiers\<close>

lemma paren_stack_open:
  assumes "\<forall>k \<in> set stack. k < length tokens \<and> tokens ! k = open_paren"
    and "drop cursor tokens = front @ rest"
  shows "\<forall>k \<in> set (paren_stack stack cursor front). k < length tokens \<and> tokens ! k = open_paren"
  using assms
proof (induction stack cursor front rule: paren_stack.induct)
  case (2 stack cursor token front)
  from "2.prems"(2) have "cursor < length tokens \<and> tokens ! cursor = token \<and> drop (Suc cursor) tokens = front @ rest"
    by (metis Cons_nth_drop_Suc append_Cons drop_eq_Nil2 leI list.distinct(1) list.inject)
  note here = this
  have "set (tl stack) \<subseteq> set stack" by (cases stack) auto
  with here "2.prems"(1) have "\<forall>k \<in> set (tl stack). k < length tokens \<and> tokens ! k = open_paren" by blast
  with here 2 show ?case by simp
qed simp

lemma enclosing_loop_bounds:
  assumes "\<forall>k \<in> set stack. k < length tokens \<and> tokens ! k = open_paren"
  obtains s e where "enclosing_loop tokens stack = Some (s, e)" and "s \<le> e" and "e \<le> length tokens"
  using assms
proof (induction stack arbitrary: thesis)
  case (Cons k stack)
  show ?case
  proof (cases "skip_parenthesized_tokens tokens k")
    case None
    show ?thesis by (rule Cons.IH) (use None Cons.prems in simp_all)
  next
    case (Some after)
    from Cons.prems have "list_get tokens k = Some open_paren" by (simp add: slice_simps)
    from skip_parenthesized_open [OF Some this] obtain body where
      b: "slice tokens (k + 1) (after - 1) = Some body" "k + 1 \<le> after - 1" "after - 1 \<le> length tokens"
      by (auto simp: slice_def)
    show ?thesis
    proof (cases "sql_tokens_have_top_level_select body")
      case True
      with Some b show ?thesis by (intro Cons.prems(1)) simp_all
    next
      case False
      show ?thesis by (rule Cons.IH) (use False Some b Cons.prems in simp_all)
    qed
  qed
qed simp

lemma enclosing_block_defined [defined_intros]: "defined (enclosing_block tokens index)"
proof -
  have "\<forall>k \<in> set (paren_stack [] 0 (take index tokens)). k < length tokens \<and> tokens ! k = open_paren"
    by (rule paren_stack_open [where rest = "drop index tokens"]) simp_all
  then obtain s e where "sql_enclosing_query_bounds tokens index = Some (s, e)" "s \<le> e" "e \<le> length tokens"
    unfolding sql_enclosing_query_bounds_def by (rule enclosing_loop_bounds)
  then show ?thesis by (simp add: enclosing_block_def slice_def)
qed

lemma defined_case_prod [defined_intros]:
  "(\<And>a b. p = (a, b) \<Longrightarrow> defined (f a b)) \<Longrightarrow> defined (case p of (a, b) \<Rightarrow> f a b)"
  by (cases p) simp

lemma classifiers_defined [defined_intros]:
  "defined (is_select_alias_reference_at tokens index)"
  "defined (is_cte_source_qualifier_at tokens index definitions)"
  "defined (is_cte_output_column_at tokens index definitions)"
  "defined (is_virtual_output_column_at tokens index)"
  unfolding is_select_alias_reference_at_def is_cte_source_qualifier_at_def is_cte_output_column_at_def
    is_virtual_output_column_at_def Let_def
  by (intro defined_intros)+

lemma references_defined [defined_intros]:
  "defined (referenced_sql_functions sql)" "defined (referenced_sql_tables sql)"
  "defined (sql_virtual_source_aliases sql)"
  unfolding referenced_sql_functions_def sql_function_names_def referenced_sql_tables_def
    sql_virtual_source_aliases_def Let_def
  by (intro defined_intros)+

lemma collect_query_facts_defined [defined_intros]: "defined (collect_query_facts sql)"
  unfolding collect_query_facts_def by (intro defined_intros)

lemma is_not_column_defined [defined_intros]: "defined (is_not_column q tokens index token)"
  unfolding is_not_column_def Let_def by (intro defined_intros)

lemma column_step_defined [defined_intros]: "defined (column_step q tokens columns item)"
  unfolding column_step_def by (auto split: prod.splits SqlToken.splits intro!: defined_intros)

lemma referenced_sql_columns_defined [defined_intros]: "defined (referenced_sql_columns sql)"
  unfolding referenced_sql_columns_def by (intro defined_intros)

end
