(* ===== verification/Sql_Validate.thy ===== *)
theory Sql_Validate
  imports Sql_Total
begin

text \<open>
  \<open>validate_sql_against_schema\<close> and the Analytics Engine schema hints of \<open>src/sql_preflight.rs\<close>,
  with what the preflight promises: it always answers, its verdict is decided by the names the
  query references, and an accepted query reads from known tables only.
\<close>

section \<open>Building JSON values\<close>

text \<open>\<open>json!({...})\<close>: an object is an ordered map.\<close>

definition json_object :: "(string \<times> 'n json) list \<Rightarrow> 'n json" where
  "json_object entries = Object (fold (\<lambda>(k, v). bmap_insert k v) entries [])"

definition json_strings :: "string list \<Rightarrow> 'n json" where
  "json_strings xs = Array (map String xs)"

fun join_with :: "string \<Rightarrow> string list \<Rightarrow> string" where
  "join_with separator [] = []"
| "join_with separator [x] = x"
| "join_with separator (x # xs) = x @ separator @ join_with separator xs"

text \<open>\<open>value.get(key).and_then(Value::as_array).into_iter().flatten()\<close> and \<open>value.get(key).and_then(Value::as_str)\<close>.\<close>

definition members :: "'n json \<Rightarrow> string \<Rightarrow> 'n json list" where
  "members json key = (case Option.bind (json_get json key) as_array of None \<Rightarrow> [] | Some xs \<Rightarrow> xs)"

definition str_member :: "string \<Rightarrow> 'n json \<Rightarrow> string option" where
  "str_member key json = Option.bind (json_get json key) as_str"

section \<open>Schema metadata\<close>

definition schema_object_names :: "'n json \<Rightarrow> string list" where
  "schema_object_names schema =
     bset_of (map normalize_sql_identifier (List.map_filter (str_member ''name'') (members schema ''objects'')))"

definition schema_column_names :: "'n json \<Rightarrow> string list" where
  "schema_column_names schema =
     bset_of (map normalize_sql_identifier (List.map_filter (str_member ''column_name'') (members schema ''columns'')))"

definition schema_view_names :: "'n json \<Rightarrow> string list" where
  "schema_view_names schema =
     bset_of (map normalize_sql_identifier (List.map_filter (str_member ''name'')
       (filter (\<lambda>object. str_member ''type'' object = Some ''view'') (members schema ''objects''))))"

section \<open>Validation\<close>

text \<open>The members every answer carries.\<close>

definition reference_fields :: "string list \<Rightarrow> string list \<Rightarrow> string list \<Rightarrow> (string \<times> 'n json) list" where
  "reference_fields tables columns functions =
     [(''referenced_tables'', json_strings tables),
      (''referenced_columns'', json_strings columns),
      (''referenced_functions'', json_strings functions),
      (''validation_confidence'', String ''heuristic'')]"

definition missing_tables_error :: "string \<Rightarrow> string list \<Rightarrow> 'n json" where
  "missing_tables_error product missing = json_object
     [(''code'', String (product @ ''.table_not_application_schema'')),
      (''category'', String ''not_application_schema''),
      (''message'', String (''Query references table or dataset not present in application schema metadata: ''
         @ join_with '', '' missing)),
      (''hint'', String ''Use the schema metadata returned by this tool and choose an application table, dataset, or view that is present.''),
      (''missing_tables'', json_strings missing)]"

definition missing_columns_error :: "string \<Rightarrow> string list \<Rightarrow> 'n json" where
  "missing_columns_error product missing = json_object
     [(''code'', String (product @ ''.column_not_found'')),
      (''category'', String ''column_does_not_exist''),
      (''message'', String (''Query references column not present in application schema metadata: ''
         @ join_with '', '' missing)),
      (''hint'', String ''Use a column from the returned schema. For derived view columns, check object_type=view rows in schema.columns.''),
      (''missing_columns'', json_strings missing)]"

definition view_warnings :: "string \<Rightarrow> string list \<Rightarrow> 'n json" where
  "view_warnings product views =
     (if views = [] then Array []
      else Array [json_object
        [(''code'', String (product @ ''.view_may_be_expensive'')),
         (''message'', String ''Query references one or more views; inspect query_plan when available before executing against large datasets.''),
         (''views'', json_strings views)]])"

definition validate_sql_against_schema :: "string \<Rightarrow> 'n json \<Rightarrow> string \<Rightarrow> 'n json checked" where
  "validate_sql_against_schema sql schema product = do {
     let available_tables = schema_object_names schema;
     let available_columns = schema_column_names schema;
     referenced_tables \<leftarrow> referenced_sql_tables sql;
     referenced_columns \<leftarrow> referenced_sql_columns sql;
     referenced_functions \<leftarrow> referenced_sql_functions sql;
     let common = reference_fields referenced_tables referenced_columns referenced_functions;
     let missing_tables = filter (\<lambda>name. name \<notin> set available_tables) referenced_tables;
     let missing_columns = filter (\<lambda>name. name \<notin> set available_columns) referenced_columns;
     Some (if missing_tables \<noteq> []
       then json_object ([(''ok'', Bool False), (''error'', missing_tables_error product missing_tables)] @ common)
       else if missing_columns \<noteq> []
       then json_object ([(''ok'', Bool False), (''error'', missing_columns_error product missing_columns)] @ common)
       else json_object ((''ok'', Bool True) # common @
         [(''warnings'', view_warnings product
            (filter (\<lambda>name. name \<in> set (schema_view_names schema)) referenced_tables))])) }"

section \<open>Analytics Engine\<close>

definition analytics_column :: "string \<Rightarrow> string \<Rightarrow> 'n json" where
  "analytics_column name column_type = json_object
     [(''table_name'', String ''*''), (''object_type'', String ''dataset''), (''column_name'', String name),
      (''column_type'', String column_type), (''derived'', Bool False),
      (''source'', String ''cloudflare_documented_schema'')]"

definition numbered :: "string \<Rightarrow> string list" where
  "numbered prefix = map (\<lambda>index. prefix @ nat_to_string index) [1..<21]"

definition analytics_engine_columns :: "'n json list" where
  "analytics_engine_columns =
     [analytics_column ''dataset'' ''string'', analytics_column ''timestamp'' ''DateTime'',
      analytics_column ''_sample_interval'' ''integer'', analytics_column ''index1'' ''string'']
     @ map (\<lambda>name. analytics_column name ''string'') (numbered ''blob'')
     @ map (\<lambda>name. analytics_column name ''double'') (numbered ''double'')"

definition analytics_engine_result_rows :: "'n json \<Rightarrow> 'n json list" where
  "analytics_engine_result_rows result =
     (case Option.bind (json_get result ''data'') as_array of
        Some rows \<Rightarrow> rows
      | None \<Rightarrow> (case json_get result ''result'' of None \<Rightarrow> [] | Some inner \<Rightarrow> members inner ''data''))"

text \<open>The first key present decides, even when its value is no string.\<close>

fun first_member :: "'n json \<Rightarrow> string list \<Rightarrow> 'n json option" where
  "first_member row [] = None"
| "first_member row (key # keys) =
     (case json_get row key of Some v \<Rightarrow> Some v | None \<Rightarrow> first_member row keys)"

definition analytics_engine_dataset_objects :: "'n json \<Rightarrow> 'n json list" where
  "analytics_engine_dataset_objects result =
     List.map_filter (\<lambda>row.
       map_option (\<lambda>name. json_object
         [(''type'', String ''dataset''), (''name'', String name), (''tbl_name'', String name), (''sql'', Null)])
       (Option.bind (first_member row [''name'', ''dataset'', ''table'', ''table_name'']) as_str))
     (analytics_engine_result_rows result)"

definition analytics_engine_schema_hints :: "'n json option \<Rightarrow> 'n json" where
  "analytics_engine_schema_hints dataset_readback = json_object
     [(''schema_version'', String ''workers_analytics_engine_sql_v1''),
      (''source'', String ''cloudflare_workers_analytics_engine_sql_api''),
      (''objects'', Array (case dataset_readback of None \<Rightarrow> [] | Some r \<Rightarrow> analytics_engine_dataset_objects r)),
      (''columns'', Array analytics_engine_columns),
      (''blob_mapping'', json_object
        [(''columns'', json_strings (numbered ''blob'')), (''type'', String ''string''),
         (''meaning'', String ''application-defined dimensions written through writeDataPoint blobs'')]),
      (''double_mapping'', json_object
        [(''columns'', json_strings (numbered ''double'')), (''type'', String ''double''),
         (''meaning'', String ''application-defined numeric values written through writeDataPoint doubles'')]),
      (''index_mapping'', json_object
        [(''columns'', json_strings [''index1'']), (''type'', String ''string''),
         (''meaning'', String ''application-defined sampling key written through writeDataPoint indexes'')]),
      (''sampling'', json_object
        [(''sample_interval_column'', String ''_sample_interval''),
         (''count_hint'', String ''Use SUM(_sample_interval) instead of COUNT() for sampled-aware counts.'')]),
      (''fidelity'', json_object
        [(''mode'', String ''template''),
         (''limitations'', json_strings
           [''application-specific meanings for blob, double, and index fields are not available from Cloudflare SQL metadata'',
            ''dataset existence comes from SHOW TABLES when readback is enabled''])])]"

section \<open>What the answer says\<close>

lemma json_get_object:
  "json_get (json_object entries) k = map_of (rev entries) k"
proof -
  have "bmap_wf m \<Longrightarrow> map_of (fold (\<lambda>(k, v). bmap_insert k v) entries m) k =
      (case map_of (rev entries) k of Some v \<Rightarrow> Some v | None \<Rightarrow> map_of m k)" for m :: "(string \<times> 'a json) list"
    by (induction entries arbitrary: m)
      (auto simp: map_of_bmap_insert map_add_def split: option.splits)
  from this [of "[]"] show ?thesis by (simp add: json_object_def split: option.splits)
qed

lemma reference_fields_keys:
  "map_of (reference_fields tables columns functions) ''ok'' = None"
  "map_of (rev (reference_fields tables columns functions)) ''ok'' = None"
  by (simp_all add: reference_fields_def)

text \<open>The preflight runs to an answer on every input.\<close>

lemma validate_defined: "defined (validate_sql_against_schema sql schema product)"
  unfolding validate_sql_against_schema_def Let_def by (intro defined_intros)

text \<open>C12: The preflight never panics: every query, schema and product get an answer,
  and its \<open>ok\<close> is true exactly when each referenced table is an object of the schema and each
  referenced column a column of it. No slice of the token list is out of range on any input.
\<close>

theorem preflight_verdict:
  "\<exists>answer tables columns.
     validate_sql_against_schema sql schema product = Some answer \<and>
     referenced_sql_tables sql = Some tables \<and> referenced_sql_columns sql = Some columns \<and>
     json_get answer ''ok'' = Some (Bool (set tables \<subseteq> set (schema_object_names schema) \<and>
       set columns \<subseteq> set (schema_column_names schema)))"
proof -
  obtain tables columns functs where refs: "referenced_sql_tables sql = Some tables"
    "referenced_sql_columns sql = Some columns" "referenced_sql_functions sql = Some functs"
    using references_defined referenced_sql_columns_defined by (metis defined_iff)
  then show ?thesis
    by (auto simp: validate_sql_against_schema_def Let_def json_get_object reference_fields_keys
        map_add_def filter_empty_conv subset_iff)
qed

text \<open>
  Where a query names a source: the identifier after a \<open>FROM\<close> or \<open>JOIN\<close>, or after the schema
  qualifier there; a call is a table-valued function and not a table.
\<close>

inductive names_source :: "SqlToken list \<Rightarrow> nat \<Rightarrow> string \<Rightarrow> bool" for tokens where
  plain: "is_from_or_join (list_get tokens i) \<Longrightarrow> list_get tokens (i + 1) = Some (Identifier name) \<Longrightarrow>
     list_get tokens (i + 2) \<notin> {Some dot, Some open_paren} \<Longrightarrow> names_source tokens i name"
| in_schema: "is_from_or_join (list_get tokens i) \<Longrightarrow> list_get tokens (i + 1) = Some (Identifier schema) \<Longrightarrow>
     list_get tokens (i + 2) = Some dot \<Longrightarrow> list_get tokens (i + 3) = Some (Identifier name) \<Longrightarrow>
     names_source tokens i name"

lemma in_map_filter: "x \<in> set xs \<Longrightarrow> f x = Some y \<Longrightarrow> y \<in> set (List.map_filter f xs)"
  by (force simp: List.map_filter_def)

lemma names_source_referenced:
  assumes "names_source (sql_tokens sql) i name" and "sql_cte_names sql = Some ctes"
    and "referenced_sql_tables sql = Some tables"
  shows "name \<in> set tables \<or> name \<in> set ctes"
proof -
  from assms(1) have "i < length (sql_tokens sql)"
    by cases (auto simp: is_from_or_join_def slice_simps)
  then have here: "(i, sql_tokens sql ! i) \<in> set (enumerate 0 (sql_tokens sql))"
    and get: "list_get (sql_tokens sql) i = Some (sql_tokens sql ! i)"
    by (simp_all add: in_set_enumerate_eq slice_simps)
  show ?thesis
  proof (rule disjCI)
    assume "name \<notin> set ctes"
    with assms(1,3) get show "name \<in> set tables"
      by (cases rule: names_source.cases)
        (auto simp: referenced_sql_tables_def Let_def assms(2) intro!: in_map_filter [OF here])
  qed
qed

text \<open>C17: Safety: when the preflight accepts a query, each table or view the
  query names after \<open>FROM\<close> or \<open>JOIN\<close>, at any depth of nesting and with or without a schema
  qualifier, is a common table expression of the query or an object of the schema metadata.
\<close>

theorem preflight_sources_known:
  assumes "validate_sql_against_schema sql schema product = Some answer"
    and "json_get answer ''ok'' = Some (Bool True)"
    and "names_source (sql_tokens sql) i name"
  shows "name \<in> set (schema_object_names schema) \<or>
    (\<exists>ctes. sql_cte_names sql = Some ctes \<and> name \<in> set ctes)"
proof -
  obtain ctes where ctes: "sql_cte_names sql = Some ctes"
    using sql_cte_names_defined by (auto simp: defined_iff)
  from assms(1) obtain tables where tables: "referenced_sql_tables sql = Some tables"
    by (auto simp: validate_sql_against_schema_def Let_def bind_eq_Some_conv)
  have "set tables \<subseteq> set (schema_object_names schema)"
  proof (rule ccontr)
    assume "\<not> set tables \<subseteq> set (schema_object_names schema)"
    then have "filter (\<lambda>name. name \<notin> set (schema_object_names schema)) tables \<noteq> []"
      by (auto simp: filter_empty_conv)
    with assms(1,2) tables show False
      by (auto simp: validate_sql_against_schema_def Let_def bind_eq_Some_conv json_get_object
          reference_fields_keys)
  qed
  with names_source_referenced [OF assms(3) ctes tables] ctes show ?thesis by blast
qed

lemma cte_definitions_lower: "sql_cte_definitions (to_ascii_lowercase sql) = sql_cte_definitions sql"
  by (simp add: sql_cte_definitions_def sql_tokens_lower)

lemma names_lower:
  "sql_cte_names (to_ascii_lowercase sql) = sql_cte_names sql"
  "sql_aliases (to_ascii_lowercase sql) = sql_aliases sql"
  "sql_virtual_source_aliases (to_ascii_lowercase sql) = sql_virtual_source_aliases sql"
  by (simp_all only: sql_cte_names_def sql_aliases_def sql_virtual_source_aliases_def
      sql_referenced_cte_names_def sql_tokens_lower cte_definitions_lower)

lemma references_lower:
  "referenced_sql_tables (to_ascii_lowercase sql) = referenced_sql_tables sql"
  "referenced_sql_functions (to_ascii_lowercase sql) = referenced_sql_functions sql"
  "referenced_sql_columns (to_ascii_lowercase sql) = referenced_sql_columns sql"
proof -
  show tables: "referenced_sql_tables (to_ascii_lowercase sql) = referenced_sql_tables sql"
    by (simp only: referenced_sql_tables_def sql_tokens_lower names_lower)
  show functs: "referenced_sql_functions (to_ascii_lowercase sql) = referenced_sql_functions sql"
    by (simp only: referenced_sql_functions_def sql_function_names_def sql_tokens_lower)
  show "referenced_sql_columns (to_ascii_lowercase sql) = referenced_sql_columns sql"
    by (simp only: referenced_sql_columns_def collect_query_facts_def sql_tokens_lower names_lower
        cte_definitions_lower tables functs)
qed

text \<open>SQL identifiers are compared without regard to case: writing the
  query in lower case changes neither the verdict nor any reported name.
\<close>

theorem preflight_case_insensitive:
  "validate_sql_against_schema (to_ascii_lowercase sql) schema product =
   validate_sql_against_schema sql schema product"
  by (simp add: validate_sql_against_schema_def references_lower)

end
