(* ===== verification/Sql_Samples.thy ===== *)
theory Sql_Samples
  imports Sql_Validate
begin

text \<open>A query over a small schema, on which the preflight is evaluated step by step.\<close>

definition query_schema :: "unit json" where
  "query_schema = Object
     [(''columns'', Array [Object [(''column_name'', String ''Id'')]]),
      (''objects'', Array [Object [(''name'', String ''Users''), (''type'', String ''table'')]])]"

definition query_sql :: string where
  "query_sql = ''WITH r AS (SELECT id FROM main.users) SELECT x.id FROM r x''"

definition query_tokens :: "SqlToken list" where
  "query_tokens = [Identifier ''with'', Identifier ''r'', Identifier ''as'', open_paren, Identifier ''select'',
     Identifier ''id'', Identifier ''from'', Identifier ''main'', dot, Identifier ''users'', close_paren,
     Identifier ''select'', Identifier ''x'', dot, Identifier ''id'', Identifier ''from'', Identifier ''r'', Identifier ''x'']"

lemma query_tokens: "sql_tokens query_sql = query_tokens"
  by code_simp

lemma query_ctes: "sql_cte_definitions query_sql = Some [(''r'', [])]"
  by (simp only: sql_cte_definitions_def query_tokens) code_simp

lemma query_functions: "referenced_sql_functions query_sql = Some []"
  by (simp only: referenced_sql_functions_def sql_function_names_def query_tokens) code_simp

lemma query_tables: "referenced_sql_tables query_sql = Some [''users'']"
  by (simp only: referenced_sql_tables_def sql_cte_names_def query_tokens query_ctes) code_simp

lemma query_facts: "collect_query_facts query_sql = Some
    \<lparr>qf_functions = [], qf_tables = [''users''], qf_ctes = [(''r'', [])], qf_cte_declarations = [1],
      qf_aliases = [''x''], qf_virtual_aliases = [''r'']\<rparr>"
  by (simp only: collect_query_facts_def query_functions query_tables query_ctes query_tokens
      sql_virtual_source_aliases_def sql_referenced_cte_names_def sql_aliases_def) code_simp

lemma query_columns: "referenced_sql_columns query_sql = Some [''id'']"
  by (simp only: referenced_sql_columns_def query_facts query_tokens bind.simps) code_simp

lemma query_accepted:
  "validate_sql_against_schema query_sql query_schema ''d1'' = Some (json_object
     ((''ok'', Bool True) # reference_fields [''users''] [''id''] [] @ [(''warnings'', Array [])]))"
  by (simp only: validate_sql_against_schema_def query_tables query_columns query_functions bind.simps)
    code_simp

lemma query_names_users: "names_source (sql_tokens query_sql) 6 ''users''"
  unfolding query_tokens by (rule names_source.in_schema [where schema = "''main''"]; code_simp)

theorem preflight_sources_known_witness:
  "\<exists>answer. validate_sql_against_schema query_sql query_schema ''d1'' = Some answer \<and>
     json_get answer ''ok'' = Some (Bool True) \<and> names_source (sql_tokens query_sql) 6 ''users'' \<and>
     (''users'' \<in> set (schema_object_names query_schema) \<or>
      (\<exists>ctes. sql_cte_names query_sql = Some ctes \<and> ''users'' \<in> set ctes))"
proof -
  have ok: "json_get (json_object ((''ok'', Bool True) # reference_fields [''users''] [''id''] []
      @ [(''warnings'', Array [])])) ''ok'' = Some (Bool True)"
    by (simp add: json_get_object reference_fields_def)
  from preflight_sources_known [OF query_accepted ok query_names_users]
  show ?thesis using query_accepted ok query_names_users by blast
qed

end
