(* ===== verification/D1_Migration_Sql.thy ===== *)
theory D1_Migration_Sql
  imports Rust_Slice
begin

text \<open>
  The SQL front end of \<open>src/d1_migration_reconciliation.rs\<close>: the tokenizer of migration files, the
  split into top-level statements, which keeps the semicolons of a trigger body, and the
  classification of \<open>CREATE\<close> statements. A function of the source that returns an \<open>Option\<close> and
  slices is an \<open>option checked\<close>: the outer \<open>None\<close> is a panic, the inner one the source's \<open>None\<close>.

  The source converts the bytes between two quotes with \<open>String::from_utf8\<close>. The input is a
  \<open>&str\<close> and the quotes are ASCII, so that the bytes between them are UTF-8 and the conversion
  succeeds; in the model it is the identity.
\<close>

section \<open>Characters and tokens\<close>

definition is_ascii_alphabetic :: "char \<Rightarrow> bool" where
  "is_ascii_alphabetic c \<longleftrightarrow> byte_in (CHR ''A'') (CHR ''Z'') c \<or> byte_in (CHR ''a'') (CHR ''z'') c"

definition is_ascii_whitespace :: "char \<Rightarrow> bool" where
  "is_ascii_whitespace c \<longleftrightarrow> c \<in> {CHR '' '', CHR 0x09, CHR 0x0A, CHR 0x0C, CHR 0x0D}"

definition is_ascii_punctuation :: "char \<Rightarrow> bool" where
  "is_ascii_punctuation c \<longleftrightarrow> byte_in (CHR ''!'') (CHR ''/'') c \<or> byte_in (CHR '':'') (CHR ''@'') c \<or>
     byte_in (CHR ''['') (CHR 0x60) c \<or> byte_in (CHR ''{'') (CHR ''~'') c"

datatype SqlToken = Word string | Identifier string | StringLiteral string | Symbol char

fun token_is_word :: "SqlToken option \<Rightarrow> string \<Rightarrow> bool" where
  "token_is_word (Some (Word word)) expected \<longleftrightarrow> eq_ignore_ascii_case word expected"
| "token_is_word _ expected \<longleftrightarrow> False"

fun token_identifier :: "SqlToken option \<Rightarrow> string option" where
  "token_identifier (Some (Word name)) = Some name"
| "token_identifier (Some (Identifier name)) = Some name"
| "token_identifier _ = None"

definition matches_ignore_ascii_case :: "string \<Rightarrow> string list \<Rightarrow> bool" where
  "matches_ignore_ascii_case v allowed = list_ex (eq_ignore_ascii_case v) allowed"

fun token_matches :: "SqlToken option \<Rightarrow> string list \<Rightarrow> bool" where
  "token_matches (Some (Word word)) allowed = matches_ignore_ascii_case word allowed"
| "token_matches _ allowed = False"

definition canonical_identifier :: "string \<Rightarrow> bool" where
  "canonical_identifier v \<longleftrightarrow> length v \<le> 128 \<and>
     (case v of
        [] \<Rightarrow> False
      | b # bs \<Rightarrow> (b = CHR ''_'' \<or> is_ascii_alphabetic b) \<and>
          list_all (\<lambda>b. b = CHR ''_'' \<or> is_ascii_alphanumeric b) bs)"

text \<open>\<open>reconciliation_error\<close>: the capability state, the code and the message of a failed call.\<close>

datatype reconciliation_error = ReconciliationError (capability_state: string) (error_code: string) (error_message: string)

definition validate_identifier :: "string \<Rightarrow> reconciliation_error + unit" where
  "validate_identifier v =
     (if canonical_identifier v then Inr ()
      else Inl (ReconciliationError ''capability_gap'' ''d1.migration_reconciliation_identifier_invalid''
        ''a schema, table, column, or foreign-key identifier was not canonical bounded ASCII''))"

section \<open>Tokenizer\<close>

datatype Mode = Normal | SingleQuote | DoubleQuote | Backtick | Bracket | LineComment | BlockComment

definition flush_token :: "bytes \<Rightarrow> SqlToken list" where
  "flush_token token = (if token = [] then [] else [Word token])"

definition pushing :: "SqlToken list \<Rightarrow> SqlToken list option \<Rightarrow> SqlToken list option" where
  "pushing pushed rest = map_option ((@) pushed) rest"

text \<open>
  One iteration per byte; the arguments are the mode, the word and the quoted text under
  construction and the bytes left, the result the tokens still pushed. \<open>index += 1\<close> before the end
  of an iteration passes over the next byte.
\<close>

definition quote_of :: "Mode \<Rightarrow> char" where
  "quote_of mode = (case mode of SingleQuote \<Rightarrow> CHR 0x27 | DoubleQuote \<Rightarrow> CHR 0x22 | Backtick \<Rightarrow> CHR 0x60 | _ \<Rightarrow> CHR '']'')"

definition quoted_as :: "Mode \<Rightarrow> string \<Rightarrow> SqlToken" where
  "quoted_as mode quoted = (if mode = SingleQuote then StringLiteral quoted else Identifier quoted)"

definition opening_mode :: "char \<Rightarrow> Mode option" where
  "opening_mode b =
     (if b = CHR 0x27 then Some SingleQuote else if b = CHR 0x22 then Some DoubleQuote
      else if b = CHR 0x60 then Some Backtick else if b = CHR ''['' then Some Bracket else None)"

definition symbol_bytes :: "char list" where
  "symbol_bytes = [CHR '';'', CHR ''('', CHR '')'', CHR '','', CHR ''.'', CHR ''='', CHR ''+'', CHR ''-'']"

fun tokenize_loop :: "Mode \<Rightarrow> bytes \<Rightarrow> bytes \<Rightarrow> bytes \<Rightarrow> SqlToken list option" where
  "tokenize_loop mode token quoted [] =
     (if mode = Normal \<or> mode = LineComment then Some (flush_token token) else None)"
| "tokenize_loop mode token quoted (b # bs) =
     (let following = list_get bs 0 in
      case mode of
        Normal \<Rightarrow>
          (if b = CHR ''-'' \<and> following = Some (CHR ''-'')
           then pushing (flush_token token) (tokenize_loop LineComment [] quoted (tl bs))
           else if b = CHR ''/'' \<and> following = Some (CHR ''*'')
           then pushing (flush_token token) (tokenize_loop BlockComment [] quoted (tl bs))
           else (case opening_mode b of
               Some opened \<Rightarrow> pushing (flush_token token) (tokenize_loop opened [] [] bs)
             | None \<Rightarrow>
                 (if b \<in> set symbol_bytes
                  then pushing (flush_token token @ [Symbol b]) (tokenize_loop Normal [] quoted bs)
                  else if is_ascii_alphanumeric b \<or> b = CHR ''_''
                  then tokenize_loop Normal (token @ [b]) quoted bs
                  else if is_ascii_whitespace b
                  then pushing (flush_token token) (tokenize_loop Normal [] quoted bs)
                  else if is_ascii_punctuation b
                  then pushing (flush_token token @ [Symbol b]) (tokenize_loop Normal [] quoted bs)
                  else None)))
      | LineComment \<Rightarrow>
          tokenize_loop (if b = CHR 0x0A \<or> b = CHR 0x0D then Normal else LineComment) token quoted bs
      | BlockComment \<Rightarrow>
          (if b = CHR ''*'' \<and> following = Some (CHR ''/'')
           then tokenize_loop Normal token quoted (tl bs)
           else tokenize_loop BlockComment token quoted bs)
      | Bracket \<Rightarrow>
          (if b = CHR '']'' then pushing [quoted_as mode quoted] (tokenize_loop Normal token quoted bs)
           else tokenize_loop mode token (quoted @ [b]) bs)
      | _ \<Rightarrow>
          (if b = quote_of mode
           then (if following = Some (quote_of mode)
                 then tokenize_loop mode token (quoted @ [b]) (tl bs)
                 else pushing [quoted_as mode quoted] (tokenize_loop Normal token quoted bs))
           else tokenize_loop mode token (quoted @ [b]) bs))"

declare tokenize_loop.simps(2) [simp del]

section \<open>Statements\<close>

definition create_trigger_prefix :: "SqlToken list \<Rightarrow> SqlToken option \<Rightarrow> bool" where
  "create_trigger_prefix current following \<longleftrightarrow>
     token_is_word (list_get current 0) ''create'' \<and>
     (length current = 1 \<and> token_is_word following ''trigger'' \<or>
      length current = 2 \<and>
        (token_is_word (list_get current 1) ''temp'' \<or> token_is_word (list_get current 1) ''temporary'') \<and>
        token_is_word following ''trigger'')"

record split_state =
  sp_current :: "SqlToken list"
  sp_trigger :: bool
  sp_trigger_body :: bool
  sp_trigger_closed :: bool
  sp_case_depth :: nat

definition split_start :: split_state where
  "split_start = \<lparr>sp_current = [], sp_trigger = False, sp_trigger_body = False, sp_trigger_closed = False,
     sp_case_depth = 0\<rparr>"

text \<open>The flags before the token itself is handled; \<open>None\<close> is the overflow of the \<open>CASE\<close> depth.\<close>

definition track_trigger :: "split_state \<Rightarrow> SqlToken \<Rightarrow> split_state option" where
  "track_trigger s token =
     (let s = (if \<not> sp_trigger s \<and> create_trigger_prefix (sp_current s) (Some token)
               then s\<lparr>sp_trigger := True\<rparr> else s)
      in if sp_trigger s \<and> \<not> sp_trigger_body s \<and> token_is_word (Some token) ''begin''
         then Some (s\<lparr>sp_trigger_body := True\<rparr>)
         else if sp_trigger_body s \<and> \<not> sp_trigger_closed s
         then (if token_is_word (Some token) ''case''
               then map_option (\<lambda>d. s\<lparr>sp_case_depth := d\<rparr>) (checked_add (sp_case_depth s) 1)
               else if token_is_word (Some token) ''end''
               then Some (if sp_case_depth s > 0 then s\<lparr>sp_case_depth := sp_case_depth s - 1\<rparr>
                          else s\<lparr>sp_trigger_closed := True\<rparr>)
               else Some s)
         else Some s)"

definition statement_of :: "SqlToken list \<Rightarrow> SqlToken list list" where
  "statement_of current = (if current = [] then [] else [current])"

abbreviation semicolon :: SqlToken where
  "semicolon \<equiv> Symbol (CHR '';'')"

fun split_loop :: "split_state \<Rightarrow> SqlToken list \<Rightarrow> SqlToken list list option" where
  "split_loop s [] =
     (if sp_trigger s \<and> (\<not> sp_trigger_body s \<or> \<not> sp_trigger_closed s \<or> sp_case_depth s \<noteq> 0) then None
      else Some (statement_of (sp_current s)))"
| "split_loop s (token # tokens) =
     (case track_trigger s token of
        None \<Rightarrow> None
      | Some s \<Rightarrow>
          (if token = semicolon \<and> (\<not> sp_trigger s \<or> sp_trigger_closed s)
           then map_option ((@) (statement_of (sp_current s))) (split_loop split_start tokens)
           else split_loop (s\<lparr>sp_current := sp_current s @ [token]\<rparr>) tokens))"

definition split_top_level_statements :: "SqlToken list \<Rightarrow> SqlToken list list option" where
  "split_top_level_statements tokens = split_loop split_start tokens"

definition tokenize_sql_statements :: "string \<Rightarrow> SqlToken list list option" where
  "tokenize_sql_statements sql =
     (case tokenize_loop Normal [] [] sql of None \<Rightarrow> None | Some tokens \<Rightarrow> split_top_level_statements tokens)"

section \<open>\<open>CREATE\<close> statements\<close>

fun parenthesized_loop :: "nat \<Rightarrow> nat \<Rightarrow> SqlToken list \<Rightarrow> nat option" where
  "parenthesized_loop depth index [] = None"
| "parenthesized_loop depth index (token # tokens) =
     (if token = Symbol (CHR ''('') then (case checked_add depth 1 of
          None \<Rightarrow> None | Some depth \<Rightarrow> parenthesized_loop depth (Suc index) tokens)
      else if token = Symbol (CHR '')'')
      then (if depth = 0 then None
            else if depth - 1 = 0 then Some (Suc index)
            else parenthesized_loop (depth - 1) (Suc index) tokens)
      else parenthesized_loop depth (Suc index) tokens)"

definition balanced_parenthesized_end :: "SqlToken list \<Rightarrow> nat \<Rightarrow> nat option" where
  "balanced_parenthesized_end tokens start =
     (if start \<le> length tokens then parenthesized_loop 0 start (drop start tokens) else None)"

fun table_suffix_loop :: "bool \<Rightarrow> bool \<Rightarrow> SqlToken list \<Rightarrow> bool" where
  "table_suffix_loop without_rowid strict [] \<longleftrightarrow> True"
| "table_suffix_loop without_rowid strict (token # tokens) \<longleftrightarrow>
     (if token = Symbol (CHR '','') then table_suffix_loop without_rowid strict tokens
      else if \<not> without_rowid \<and> token_is_word (Some token) ''without'' \<and> token_is_word (list_get tokens 0) ''rowid''
      then table_suffix_loop True strict (tl tokens)
      else if \<not> strict \<and> token_is_word (Some token) ''strict'' then table_suffix_loop without_rowid True tokens
      else False)"

definition valid_table_suffix :: "SqlToken list \<Rightarrow> bool" where
  "valid_table_suffix tokens = table_suffix_loop False False tokens"

text \<open>The statement that starts at \<open>statement_start\<close> is what is left of the current one.\<close>

fun trigger_body_loop :: "SqlToken list \<Rightarrow> SqlToken list \<Rightarrow> bool" where
  "trigger_body_loop statement [] \<longleftrightarrow> statement = []"
| "trigger_body_loop statement (token # tokens) \<longleftrightarrow>
     (if token \<noteq> semicolon then trigger_body_loop (statement @ [token]) tokens
      else statement \<noteq> [] \<and>
        token_matches (list_get statement 0) [''delete'', ''insert'', ''select'', ''update''] \<and>
        trigger_body_loop [] tokens)"

definition valid_trigger_body :: "SqlToken list \<Rightarrow> bool" where
  "valid_trigger_body tokens \<longleftrightarrow>
     tokens \<noteq> [] \<and> last tokens = semicolon \<and> trigger_body_loop [] tokens"

fun lexical_value :: "SqlToken \<Rightarrow> string option" where
  "lexical_value (Symbol _) = None"
| "lexical_value (Word v) = Some v"
| "lexical_value (Identifier v) = Some v"
| "lexical_value (StringLiteral v) = Some v"

definition trigger_lexical_token_values :: "SqlToken list \<Rightarrow> SqlToken list \<Rightarrow> string list" where
  "trigger_lexical_token_values header_suffix body =
     bset_of (List.map_filter lexical_value (header_suffix @ body))"

record DerivedSchemaObject =
  object_type :: string
  object_name :: string
  table_name :: string

text \<open>The \<open>?\<close> operator in a function that returns an \<open>Option\<close>.\<close>

definition some_then :: "'a option \<Rightarrow> ('a \<Rightarrow> 'b option checked) \<Rightarrow> 'b option checked" where
  "some_then m f = (case m of None \<Rightarrow> Some None | Some x \<Rightarrow> f x)"

definition canonical_name_at :: "SqlToken list \<Rightarrow> nat \<Rightarrow> string option" where
  "canonical_name_at tokens cursor =
     Option.bind (token_identifier (list_get tokens cursor))
       (\<lambda>name. if result_ok (validate_identifier name) = None then None else Some name)"

definition skip_if_not_exists :: "SqlToken list \<Rightarrow> nat \<Rightarrow> nat" where
  "skip_if_not_exists tokens cursor =
     (if token_is_word (list_get tokens cursor) ''if'' \<and> token_is_word (list_get tokens (cursor + 1)) ''not'' \<and>
        token_is_word (list_get tokens (cursor + 2)) ''exists'' then cursor + 3 else cursor)"

definition created_type :: "SqlToken list \<Rightarrow> nat \<Rightarrow> bool \<Rightarrow> bool \<Rightarrow> string option" where
  "created_type tokens cursor unique allow_views_and_triggers =
     (if token_is_word (list_get tokens cursor) ''table'' \<and> \<not> unique then Some ''table''
      else if token_is_word (list_get tokens cursor) ''index'' then Some ''index''
      else if allow_views_and_triggers \<and> token_is_word (list_get tokens cursor) ''view'' \<and> \<not> unique then Some ''view''
      else if allow_views_and_triggers \<and> token_is_word (list_get tokens cursor) ''trigger'' \<and> \<not> unique then Some ''trigger''
      else None)"

definition own_object :: "string \<Rightarrow> string \<Rightarrow> DerivedSchemaObject \<times> string list" where
  "own_object kind name = (\<lparr>object_type = kind, object_name = name, table_name = name\<rparr>, [])"

definition classify_table :: "SqlToken list \<Rightarrow> nat \<Rightarrow> string \<Rightarrow> (DerivedSchemaObject \<times> string list) option checked" where
  "classify_table tokens cursor name =
     (if list_get tokens cursor \<noteq> Some (Symbol (CHR ''('')) then Some None
      else some_then (balanced_parenthesized_end tokens cursor) (\<lambda>after_definition. do {
        suffix \<leftarrow> slice tokens after_definition (length tokens);
        Some (if \<not> valid_table_suffix suffix then None else Some (own_object ''table'' name)) }))"

definition classify_index :: "SqlToken list \<Rightarrow> nat \<Rightarrow> string \<Rightarrow> (DerivedSchemaObject \<times> string list) option checked" where
  "classify_index tokens cursor name =
     (if \<not> token_is_word (list_get tokens cursor) ''on'' then Some None
      else some_then (canonical_name_at tokens (cursor + 1)) (\<lambda>table.
        if list_get tokens (cursor + 2) \<noteq> Some (Symbol (CHR ''('')) then Some None
        else some_then (balanced_parenthesized_end tokens (cursor + 2)) (\<lambda>after_columns.
          Some (if after_columns < length tokens \<and> \<not> token_is_word (list_get tokens after_columns) ''where'' then None
            else Some (\<lparr>object_type = ''index'', object_name = name, table_name = table\<rparr>, [])))))"

definition classify_view :: "SqlToken list \<Rightarrow> nat \<Rightarrow> string \<Rightarrow> (DerivedSchemaObject \<times> string list) option checked" where
  "classify_view tokens cursor name =
     some_then (if list_get tokens cursor = Some (Symbol (CHR ''(''))
                then balanced_parenthesized_end tokens cursor else Some cursor) (\<lambda>cursor.
       if \<not> token_is_word (list_get tokens cursor) ''as'' \<or>
         \<not> token_matches (list_get tokens (cursor + 1)) [''select'', ''with'', ''values''] \<or>
         cursor + 2 \<ge> length tokens
       then Some None
       else do {
         query \<leftarrow> slice tokens (cursor + 1) (length tokens);
         Some (if semicolon \<in> set query then None else Some (own_object ''view'' name)) })"

lemma canonical_name_at_bound: "canonical_name_at tokens cursor = Some name \<Longrightarrow> cursor < length tokens"
  by (cases "list_get tokens cursor") (auto simp: canonical_name_at_def slice_simps)

text \<open>
  The column list of \<open>UPDATE OF\<close>; the loop ends after an identifier, never after a comma.
\<close>

function update_columns :: "SqlToken list \<Rightarrow> nat \<Rightarrow> bool \<Rightarrow> nat option" where
  "update_columns tokens cursor needs_identifier =
     (if needs_identifier
      then (case canonical_name_at tokens cursor of
          None \<Rightarrow> None | Some _ \<Rightarrow> update_columns tokens (cursor + 1) False)
      else if list_get tokens cursor = Some (Symbol (CHR '','')) then update_columns tokens (cursor + 1) True
      else Some cursor)"
  by pat_completeness auto

termination
  by (relation "measure (\<lambda>(tokens, cursor, needs). length tokens - cursor)")
    (auto simp: slice_simps dest: canonical_name_at_bound)

declare update_columns.simps [simp del]

definition trigger_timing :: "SqlToken list \<Rightarrow> nat \<Rightarrow> nat" where
  "trigger_timing tokens cursor =
     (if token_matches (list_get tokens cursor) [''before'', ''after''] then cursor + 1
      else if token_is_word (list_get tokens cursor) ''instead'' \<and> token_is_word (list_get tokens (cursor + 1)) ''of''
      then cursor + 2 else cursor)"

definition trigger_event :: "SqlToken list \<Rightarrow> nat \<Rightarrow> nat option" where
  "trigger_event tokens cursor =
     (if token_is_word (list_get tokens cursor) ''delete'' \<or> token_is_word (list_get tokens cursor) ''insert''
      then Some (cursor + 1)
      else if token_is_word (list_get tokens cursor) ''update''
      then (if token_is_word (list_get tokens (cursor + 1)) ''of'' then update_columns tokens (cursor + 2) True
            else Some (cursor + 1))
      else None)"

definition header_end :: "SqlToken list \<Rightarrow> nat option" where
  "header_end header_suffix =
     (let cursor = (if token_is_word (list_get header_suffix 0) ''for'' \<and> token_is_word (list_get header_suffix 1) ''each'' \<and>
          token_is_word (list_get header_suffix 2) ''row'' then 3 else 0)
      in if token_is_word (list_get header_suffix cursor) ''when''
         then (if cursor + 1 \<ge> length header_suffix then None else Some (length header_suffix))
         else Some cursor)"

fun position :: "('a \<Rightarrow> bool) \<Rightarrow> 'a list \<Rightarrow> nat option" where
  "position P [] = None"
| "position P (x # xs) = (if P x then Some 0 else map_option Suc (position P xs))"

definition get_range :: "'a list \<Rightarrow> nat \<Rightarrow> nat \<Rightarrow> 'a list option" where
  "get_range xs a b = slice xs a b"

definition classify_trigger :: "SqlToken list \<Rightarrow> nat \<Rightarrow> string \<Rightarrow> (DerivedSchemaObject \<times> string list) option checked" where
  "classify_trigger tokens cursor name =
     some_then (trigger_event tokens (trigger_timing tokens cursor)) (\<lambda>cursor.
     if \<not> token_is_word (list_get tokens cursor) ''on'' then Some None
     else some_then (canonical_name_at tokens (cursor + 1)) (\<lambda>table.
     if list_get tokens (cursor + 2) = Some (Symbol (CHR ''.'')) then Some None
     else do {
       rest \<leftarrow> slice tokens (cursor + 2) (length tokens);
       some_then (position (\<lambda>token. token_is_word (Some token) ''begin'') rest) (\<lambda>offset.
         some_then (usize_sub (length tokens) 1) (\<lambda>end_index. do {
           let begin_index = offset + (cursor + 2);
           header_suffix \<leftarrow> slice tokens (cursor + 2) begin_index;
           some_then (header_end header_suffix) (\<lambda>header_cursor.
             some_then (get_range tokens (begin_index + 1) end_index) (\<lambda>body.
               Some (if \<not> token_is_word (list_get tokens end_index) ''end'' \<or>
                   header_cursor \<noteq> length header_suffix \<or> semicolon \<in> set header_suffix \<or>
                   \<not> valid_trigger_body body
                 then None
                 else Some (\<lparr>object_type = ''trigger'', object_name = name, table_name = table\<rparr>,
                   trigger_lexical_token_values header_suffix body)))) })) }))"

definition classify_created :: "string \<Rightarrow> SqlToken list \<Rightarrow> nat \<Rightarrow> string \<Rightarrow> (DerivedSchemaObject \<times> string list) option checked" where
  "classify_created kind tokens cursor name =
     (if kind = ''table'' then classify_table tokens cursor name
      else if kind = ''index'' then classify_index tokens cursor name
      else if kind = ''view'' then classify_view tokens cursor name
      else classify_trigger tokens cursor name)"

definition classify_schema_create ::
  "SqlToken list \<Rightarrow> bool \<Rightarrow> (DerivedSchemaObject \<times> string list) option checked" where
  "classify_schema_create tokens allow_views_and_triggers =
     (if \<not> token_is_word (list_get tokens 0) ''create'' then Some None
      else
        let unique = token_is_word (list_get tokens 1) ''unique'';
            cursor = (if unique then 2 else 1)
        in some_then (created_type tokens cursor unique allow_views_and_triggers) (\<lambda>kind.
          let cursor = skip_if_not_exists tokens (cursor + 1)
          in some_then (canonical_name_at tokens cursor) (classify_created kind tokens (cursor + 1))))"

definition schema_create_uses_if_not_exists :: "SqlToken list \<Rightarrow> bool" where
  "schema_create_uses_if_not_exists tokens \<longleftrightarrow>
     token_is_word (list_get tokens 0) ''create'' \<and>
     (let cursor = (if token_is_word (list_get tokens 1) ''unique'' then 2 else 1)
      in token_matches (list_get tokens cursor) [''table'', ''index'', ''view'', ''trigger''] \<and>
         token_is_word (list_get tokens (cursor + 1)) ''if'' \<and> token_is_word (list_get tokens (cursor + 2)) ''not'' \<and>
         token_is_word (list_get tokens (cursor + 3)) ''exists'')"

end
