(* ===== verification/D1_Migration_Sql_Sound.thy ===== *)
theory D1_Migration_Sql_Sound
  imports D1_Migration_Sql
begin

text \<open>
  What the SQL front end of the reconciliation promises: the split is exact, every boundary
  and the semicolons of trigger bodies included; the classifier never panics.
\<close>

section \<open>The split\<close>

text \<open>
  Where statements end, said of the tokens alone. A trigger declares itself by its first two or three words;
  its body follows the first \<open>BEGIN\<close> and is closed by the first \<open>END\<close> that no \<open>CASE\<close> in it claims. A semicolon
  ends a statement unless a trigger with no closed body precedes it.
\<close>

abbreviation word_is :: "string \<Rightarrow> SqlToken \<Rightarrow> bool" where
  "word_is w t \<equiv> token_is_word (Some t) w"

fun opens_trigger :: "SqlToken list \<Rightarrow> bool" where
  "opens_trigger (a # b # rest) \<longleftrightarrow> word_is ''create'' a \<and>
     (word_is ''trigger'' b \<or> (word_is ''temp'' b \<or> word_is ''temporary'' b) \<and> (case rest of [] \<Rightarrow> False | c # _ \<Rightarrow> word_is ''trigger'' c))"
| "opens_trigger _ \<longleftrightarrow> False"

definition has_body :: "SqlToken list \<Rightarrow> bool" where
  "has_body stmt \<longleftrightarrow> list_ex (word_is ''begin'') stmt"

definition trigger_body_of :: "SqlToken list \<Rightarrow> SqlToken list" where
  "trigger_body_of stmt = tl (dropWhile (\<lambda>t. \<not> word_is ''begin'' t) stmt)"

definition occurrences :: "string \<Rightarrow> SqlToken list \<Rightarrow> nat" where
  "occurrences w ts = length (filter (word_is w) ts)"

definition body_closed :: "SqlToken list \<Rightarrow> bool" where
  "body_closed ts \<longleftrightarrow> (\<exists>k \<le> length ts. occurrences ''case'' (take k ts) < occurrences ''end'' (take k ts))"

definition statement_complete :: "SqlToken list \<Rightarrow> bool" where
  "statement_complete stmt \<longleftrightarrow> (opens_trigger stmt \<longrightarrow> has_body stmt \<and> body_closed (trigger_body_of stmt))"

text \<open>A piece between two boundaries: complete, and at none of its own semicolons.\<close>

definition statement_piece :: "SqlToken list \<Rightarrow> bool" where
  "statement_piece stmt \<longleftrightarrow> statement_complete stmt \<and> (\<forall>a b. stmt = a @ semicolon # b \<longrightarrow> \<not> statement_complete a)"

definition terminated :: "SqlToken list list \<Rightarrow> SqlToken list" where
  "terminated stmts = concat (map (\<lambda>stmt. stmt @ [semicolon]) stmts)"

lemma word_once: "word_is v t \<Longrightarrow> word_is w t \<Longrightarrow> to_ascii_lowercase v = to_ascii_lowercase w"
  by (cases t) (simp_all add: eq_ignore_ascii_case_def)

lemma words_apart:
  "word_is ''create'' t \<Longrightarrow> \<not> word_is ''begin'' t" "word_is ''trigger'' t \<Longrightarrow> \<not> word_is ''begin'' t"
  "word_is ''temp'' t \<Longrightarrow> \<not> word_is ''begin'' t" "word_is ''temporary'' t \<Longrightarrow> \<not> word_is ''begin'' t"
  "word_is ''case'' t \<Longrightarrow> \<not> word_is ''end'' t"
proof -
  have "to_ascii_lowercase ''create'' \<noteq> to_ascii_lowercase ''begin''" "to_ascii_lowercase ''trigger'' \<noteq> to_ascii_lowercase ''begin''"
    "to_ascii_lowercase ''temp'' \<noteq> to_ascii_lowercase ''begin''" "to_ascii_lowercase ''temporary'' \<noteq> to_ascii_lowercase ''begin''"
    "to_ascii_lowercase ''case'' \<noteq> to_ascii_lowercase ''end''"
    by code_simp+
  then show "word_is ''create'' t \<Longrightarrow> \<not> word_is ''begin'' t" "word_is ''trigger'' t \<Longrightarrow> \<not> word_is ''begin'' t"
    "word_is ''temp'' t \<Longrightarrow> \<not> word_is ''begin'' t" "word_is ''temporary'' t \<Longrightarrow> \<not> word_is ''begin'' t"
    "word_is ''case'' t \<Longrightarrow> \<not> word_is ''end'' t"
    using word_once by blast+
qed

lemma opens_trigger_snoc: "opens_trigger (p @ [t]) \<longleftrightarrow> opens_trigger p \<or> create_trigger_prefix p (Some t)"
proof -
  consider "p = []" | a where "p = [a]" | a b where "p = [a, b]" | a b c r where "p = a # b # c # r"
    by (metis list.exhaust)
  then show ?thesis
    by cases (auto simp: create_trigger_prefix_def list_get_def)
qed

lemma opening_has_no_body: "create_trigger_prefix p (Some t) \<Longrightarrow> \<not> has_body (p @ [t])"
  by (auto simp: create_trigger_prefix_def list_get_def has_body_def length_Suc_conv numeral_2_eq_2 dest: words_apart)

lemma has_body_snoc: "has_body (p @ [t]) \<longleftrightarrow> has_body p \<or> word_is ''begin'' t"
  by (simp add: has_body_def)

lemma trigger_body_snoc:
  "trigger_body_of (p @ [t]) = (if has_body p then trigger_body_of p @ [t] else [])"
proof (cases "has_body p")
  case True
  then have "dropWhile (\<lambda>t. \<not> word_is ''begin'' t) p \<noteq> []" by (auto simp: has_body_def list_ex_iff dropWhile_eq_Nil_conv)
  with True show ?thesis by (auto simp: trigger_body_of_def has_body_def list_ex_iff dropWhile_append tl_append2)
next
  case False
  then have "dropWhile (\<lambda>t. \<not> word_is ''begin'' t) p = []" by (auto simp: has_body_def list_ex_iff dropWhile_eq_Nil_conv)
  with False show ?thesis by (simp add: trigger_body_of_def dropWhile_append has_body_def list_ex_iff)
qed

lemma occurrences_snoc: "occurrences w (ts @ [t]) = occurrences w ts + (if word_is w t then 1 else 0)"
  by (simp add: occurrences_def)

lemma body_closed_snoc:
  "body_closed (ts @ [t]) \<longleftrightarrow> body_closed ts \<or> occurrences ''case'' (ts @ [t]) < occurrences ''end'' (ts @ [t])"
  by (auto simp: body_closed_def le_Suc_eq)

lemma body_closed_Nil [simp]: "\<not> body_closed []"
  by (simp add: body_closed_def occurrences_def)

lemma open_body: "\<not> body_closed ts \<Longrightarrow> occurrences ''end'' ts \<le> occurrences ''case'' ts"
  by (force simp: body_closed_def not_less)

lemma closing_body: "occurrences ''case'' ts < occurrences ''end'' ts \<Longrightarrow> body_closed ts"
  using open_body by (force simp: not_less)

text \<open>The flags of the loop are functions of the tokens since the last boundary.\<close>

definition split_flags :: "SqlToken list \<Rightarrow> split_state" where
  "split_flags p = \<lparr>sp_current = p, sp_trigger = opens_trigger p, sp_trigger_body = (opens_trigger p \<and> has_body p),
     sp_trigger_closed = (opens_trigger p \<and> has_body p \<and> body_closed (trigger_body_of p)),
     sp_case_depth = (if opens_trigger p \<and> has_body p \<and> \<not> body_closed (trigger_body_of p)
       then occurrences ''case'' (trigger_body_of p) - occurrences ''end'' (trigger_body_of p) else 0)\<rparr>"

lemma split_flags_simps [simp]:
  "sp_current (split_flags p) = p" "sp_trigger (split_flags p) = opens_trigger p"
  "sp_trigger_closed (split_flags p) = (opens_trigger p \<and> has_body p \<and> body_closed (trigger_body_of p))"
  "(split_flags p)\<lparr>sp_current := q, sp_current := p\<rparr> = split_flags p" "(split_flags p)\<lparr>sp_current := p\<rparr> = split_flags p"
  by (simp_all add: split_flags_def)

lemma split_flags_Nil: "split_flags [] = split_start"
  by (simp add: split_flags_def split_start_def)

lemma occurrences_le: "occurrences w (trigger_body_of p) \<le> length p"
  unfolding occurrences_def trigger_body_of_def
  by (metis (no_types, lifting) le_trans length_dropWhile_le length_filter_le length_tl diff_le_self)

lemma track_split_flags:
  assumes "length p < usize_MAX"
  shows "track_trigger (split_flags p) t = Some ((split_flags (p @ [t]))\<lparr>sp_current := p\<rparr>)"
proof (cases "opens_trigger p \<and> has_body p")
  case True
  let ?b = "trigger_body_of p"
  have opens: "opens_trigger (p @ [t])" "has_body (p @ [t])" "trigger_body_of (p @ [t]) = ?b @ [t]"
    using True by (simp_all add: opens_trigger_snoc has_body_snoc trigger_body_snoc)
  show ?thesis
  proof (cases "body_closed ?b")
    case closed: True
    with True opens show ?thesis
      by (simp add: track_trigger_def split_flags_def body_closed_snoc)
  next
    case False
    note le = open_body [OF False]
    have "checked_add (occurrences ''case'' ?b - occurrences ''end'' ?b) 1 = Some (Suc (occurrences ''case'' ?b - occurrences ''end'' ?b))"
      using assms occurrences_le [of "''case''" p] by (simp add: checked_add_def)
    with False True opens le words_apart(5) [of t] show ?thesis
      by (auto simp: track_trigger_def split_flags_def body_closed_snoc occurrences_snoc)
  qed
next
  case False
  have nb: "trigger_body_of (p @ [t]) = []" if "\<not> has_body p"
    using that by (simp add: trigger_body_snoc)
  have "\<not> has_body (p @ [t])" "\<not> word_is ''begin'' t" if "create_trigger_prefix p (Some t)"
    using opening_has_no_body [OF that] by (simp_all add: has_body_snoc)
  with False nb show ?thesis
    by (auto simp: track_trigger_def split_flags_def opens_trigger_snoc has_body_snoc occurrences_def)
qed

lemma terminated_first:
  assumes "p @ semicolon # rest = terminated pieces" and "\<forall>stmt \<in> set pieces. statement_piece stmt"
    and "\<forall>a b. p = a @ semicolon # b \<longrightarrow> \<not> statement_complete a" and "statement_complete p"
  obtains pieces' where "pieces = p # pieces'" "rest = terminated pieces'"
proof (cases pieces)
  case (Cons q pieces')
  with assms(1) have eq: "p @ semicolon # rest = q @ semicolon # terminated pieces'" by (simp add: terminated_def)
  then consider "p = q" "rest = terminated pieces'" | r where "p = q @ semicolon # r" | r where "q = p @ semicolon # r"
    by (auto simp: append_eq_append_conv2 append_eq_Cons_conv Cons_eq_append_conv)
  then show ?thesis
  proof cases
    case 1
    with Cons that show ?thesis by blast
  next
    case 2
    with assms(2,3) Cons show ?thesis by (auto simp: statement_piece_def)
  next
    case 3
    with assms(2,4) Cons show ?thesis by (auto simp: statement_piece_def)
  qed
qed (use assms(1) in \<open>simp add: terminated_def\<close>)

lemma split_loop_exact:
  assumes "length p + length tokens \<le> usize_MAX" and "\<forall>a b. p = a @ semicolon # b \<longrightarrow> \<not> statement_complete a"
  shows "split_loop (split_flags p) tokens = Some statements \<longleftrightarrow>
    (\<exists>pieces. p @ tokens @ [semicolon] = terminated pieces \<and> (\<forall>stmt \<in> set pieces. statement_piece stmt) \<and>
       statements = filter (\<lambda>stmt. stmt \<noteq> []) pieces)"
  using assms
proof (induction tokens arbitrary: p statements)
  case Nil
  have loop: "split_loop (split_flags p) [] = Some statements \<longleftrightarrow> statement_complete p \<and> statements = statement_of p"
    by (auto simp: split_flags_def statement_complete_def)
  have "statement_complete p" if "p @ [semicolon] = terminated pieces" "\<forall>stmt \<in> set pieces. statement_piece stmt" for pieces
  proof (cases pieces)
    case (Cons q pieces')
    with that(1) have "p @ [semicolon] = q @ semicolon # terminated pieces'" by (simp add: terminated_def)
    then consider "p = q" | r where "p = q @ semicolon # r"
      by (auto simp: append_eq_append_conv2 append_eq_Cons_conv Cons_eq_append_conv)
    then show ?thesis using that(2) Cons Nil.prems(2) by cases (auto simp: statement_piece_def)
  qed (use that in \<open>simp add: terminated_def\<close>)
  moreover have "pieces = [p]" if "statement_complete p" "p @ [semicolon] = terminated pieces" "\<forall>stmt \<in> set pieces. statement_piece stmt" for pieces
  proof -
    from terminated_first [OF that(2,3) Nil.prems(2) that(1)] obtain pieces' where "pieces = p # pieces'" "[] = terminated pieces'" .
    then show ?thesis by (cases pieces') (simp_all add: terminated_def)
  qed
  moreover have "statement_piece p" "p @ [semicolon] = terminated [p]" if "statement_complete p"
    using that Nil.prems(2) by (simp_all add: statement_piece_def terminated_def)
  moreover have "filter (\<lambda>stmt. stmt \<noteq> []) [p] = statement_of p" by (simp add: statement_of_def)
  ultimately have "statement_complete p \<and> statements = statement_of p \<longleftrightarrow>
    (\<exists>pieces. p @ [semicolon] = terminated pieces \<and> (\<forall>stmt \<in> set pieces. statement_piece stmt) \<and>
       statements = filter (\<lambda>stmt. stmt \<noteq> []) pieces)"
    by (metis empty_iff empty_set set_ConsD)
  then show ?case unfolding loop by simp
next
  case (Cons t tokens)
  have track: "track_trigger (split_flags p) t = Some ((split_flags (p @ [t]))\<lparr>sp_current := p\<rparr>)"
    using Cons.prems(1) by (intro track_split_flags) simp
  have semi: "\<not> word_is w semicolon" for w by simp
  have complete: "t = semicolon \<Longrightarrow> \<not> opens_trigger (p @ [t]) \<or> opens_trigger (p @ [t]) \<and> has_body (p @ [t]) \<and> body_closed (trigger_body_of (p @ [t])) \<longleftrightarrow>
      statement_complete p"
    by (auto simp: statement_complete_def opens_trigger_snoc has_body_snoc trigger_body_snoc body_closed_snoc occurrences_snoc
        create_trigger_prefix_def intro: closing_body)
  show ?case
  proof (cases "t = semicolon \<and> statement_complete p")
    case True
    then have loop: "split_loop (split_flags p) (t # tokens) = map_option ((@) (statement_of p)) (split_loop (split_flags []) tokens)"
      using track complete by (auto simp: split_flags_Nil)
    have IH: "split_loop (split_flags []) tokens = Some sts \<longleftrightarrow> (\<exists>pieces. tokens @ [semicolon] = terminated pieces \<and>
        (\<forall>stmt \<in> set pieces. statement_piece stmt) \<and> sts = filter (\<lambda>stmt. stmt \<noteq> []) pieces)" for sts
      using Cons.IH [of "[]" sts] Cons.prems(1) by simp
    have "statement_piece p" using True Cons.prems(2) by (simp add: statement_piece_def)
    have step: "terminated (p # pieces) = p @ semicolon # terminated pieces" for pieces by (simp add: terminated_def)
    have "filter (\<lambda>stmt. stmt \<noteq> []) (p # pieces) = statement_of p @ filter (\<lambda>stmt. stmt \<noteq> []) pieces" for pieces
      by (simp add: statement_of_def)
    show ?thesis
    proof
      assume "split_loop (split_flags p) (t # tokens) = Some statements"
      with loop obtain sts where "split_loop (split_flags []) tokens = Some sts" "statements = statement_of p @ sts" by auto
      with IH obtain pieces where "tokens @ [semicolon] = terminated pieces" "\<forall>stmt \<in> set pieces. statement_piece stmt"
        "statements = statement_of p @ filter (\<lambda>stmt. stmt \<noteq> []) pieces" by blast
      with True \<open>statement_piece p\<close> step show "\<exists>pieces. p @ (t # tokens) @ [semicolon] = terminated pieces \<and> (\<forall>stmt \<in> set pieces. statement_piece stmt) \<and>
          statements = filter (\<lambda>stmt. stmt \<noteq> []) pieces"
        by (intro exI [of _ "p # pieces"]) (simp add: statement_of_def)
    next
      assume "\<exists>pieces. p @ (t # tokens) @ [semicolon] = terminated pieces \<and> (\<forall>stmt \<in> set pieces. statement_piece stmt) \<and>
          statements = filter (\<lambda>stmt. stmt \<noteq> []) pieces"
      then obtain pieces where pieces: "p @ semicolon # (tokens @ [semicolon]) = terminated pieces" "\<forall>stmt \<in> set pieces. statement_piece stmt"
        "statements = filter (\<lambda>stmt. stmt \<noteq> []) pieces" using True by auto
      from True have "statement_complete p" by simp
      from terminated_first [OF pieces(1,2) Cons.prems(2) this] obtain pieces' where
        "pieces = p # pieces'" "tokens @ [semicolon] = terminated pieces'" .
      with pieces(2,3) IH [of "filter (\<lambda>stmt. stmt \<noteq> []) pieces'"] loop
      show "split_loop (split_flags p) (t # tokens) = Some statements" by (auto simp: statement_of_def)
    qed
  next
    case False
    then have loop: "split_loop (split_flags p) (t # tokens) = split_loop (split_flags (p @ [t])) tokens"
      using track complete by auto
    have "\<forall>a b. p @ [t] = a @ semicolon # b \<longrightarrow> \<not> statement_complete a"
      using False Cons.prems(2)
      by (auto simp: append_eq_append_conv2 append_eq_Cons_conv Cons_eq_append_conv)
    from Cons.IH [OF _ this] Cons.prems(1) show ?thesis unfolding loop by simp
  qed
qed

text \<open>C18: Splitting a migration into statements finds exactly the boundaries: it returns some statements
  exactly when the tokens, with one semicolon added at the end, are complete pieces each followed by a semicolon, none
  of which has an earlier semicolon where it could have ended, and the statements are the pieces that are not empty.
  A piece that opens a trigger is complete once its body is closed, so the semicolons of a trigger body stay inside it
  and every other semicolon ends a statement; an unclosed trigger is refused. No token is lost, added or moved.
\<close>

theorem split_statements_exact:
  assumes "length tokens \<le> usize_MAX"
  shows "split_top_level_statements tokens = Some statements \<longleftrightarrow>
    (\<exists>pieces. tokens @ [semicolon] = terminated pieces \<and> (\<forall>stmt \<in> set pieces. statement_piece stmt) \<and>
       statements = filter (\<lambda>stmt. stmt \<noteq> []) pieces)"
  using split_loop_exact [of "[]" tokens] assms by (simp add: split_top_level_statements_def split_flags_Nil)

theorem split_statements_exact_witness:
  "\<exists>pieces. [Word ''DROP'', semicolon, Word ''CREATE'', Word ''trigger'', Word ''begin'', semicolon, Word ''End'', semicolon, semicolon] =
       terminated pieces \<and> list_all statement_piece pieces \<and>
     [[Word ''DROP''], [Word ''CREATE'', Word ''trigger'', Word ''begin'', semicolon, Word ''End'']] = filter (\<lambda>stmt. stmt \<noteq> []) pieces"
proof -
  have run: "split_top_level_statements [Word ''DROP'', semicolon, Word ''CREATE'', Word ''trigger'', Word ''begin'',
      semicolon, Word ''End'', semicolon] =
     Some [[Word ''DROP''], [Word ''CREATE'', Word ''trigger'', Word ''begin'', semicolon, Word ''End'']]"
    by code_simp
  have "length [Word ''DROP'', semicolon, Word ''CREATE'', Word ''trigger'', Word ''begin'', semicolon, Word ''End'', semicolon] \<le> usize_MAX"
    by (simp add: usize_MAX_def)
  from iffD1 [OF split_statements_exact [OF this] run] show ?thesis by (simp add: list_all_iff)
qed

section \<open>The classifier\<close>

lemma parenthesized_loop_bounds:
  "parenthesized_loop depth index tokens = Some after \<Longrightarrow> index < after \<and> after \<le> index + length tokens"
  by (induction depth index tokens rule: parenthesized_loop.induct)
    (auto split: if_splits option.splits dest: Suc_lessD)

lemma balanced_end_bounds:
  "balanced_parenthesized_end tokens start = Some after \<Longrightarrow> start < after \<and> after \<le> length tokens"
  by (auto simp: balanced_parenthesized_end_def split: if_splits dest!: parenthesized_loop_bounds)

interpretation create_parens: paren_scanner balanced_parenthesized_end
  by unfold_locales (rule balanced_end_bounds)

lemma position_bound: "position P xs = Some i \<Longrightarrow> i < length xs \<and> P (xs ! i)"
  by (induction xs arbitrary: i) (auto split: if_splits)

lemma defined_some_then [defined_intros]:
  "(\<And>x. m = Some x \<Longrightarrow> defined (f x)) \<Longrightarrow> defined (some_then m f)"
  by (cases m) (simp_all add: some_then_def)

lemma classify_table_defined: "defined (classify_table tokens cursor name)"
  unfolding classify_table_def by (intro defined_intros create_parens.rest_defined)

lemma classify_index_defined: "defined (classify_index tokens cursor name)"
  unfolding classify_index_def by (intro defined_intros)

lemma classify_view_defined: "defined (classify_view tokens cursor name)"
  unfolding classify_view_def by (intro defined_intros defined_slice) auto

lemma classify_trigger_defined: "defined (classify_trigger tokens cursor name)"
  unfolding classify_trigger_def Let_def
  by (intro defined_intros defined_slice)
    (auto dest: canonical_name_at_bound position_bound simp: slice_simps)

lemma classify_schema_create_defined: "defined (classify_schema_create tokens allow)"
  unfolding classify_schema_create_def classify_created_def Let_def
  by (intro defined_intros classify_table_defined classify_index_defined classify_view_defined
      classify_trigger_defined)

text \<open>What is derived of an accepted statement.\<close>

definition derived_object_wf :: "bool \<Rightarrow> DerivedSchemaObject \<Rightarrow> bool" where
  "derived_object_wf allow_views_and_triggers object \<longleftrightarrow>
     canonical_identifier (object_name object) \<and> canonical_identifier (table_name object) \<and>
     (object_type object \<in> {''table'', ''index''} \<or>
      allow_views_and_triggers \<and> object_type object \<in> {''view'', ''trigger''}) \<and>
     (object_type object \<in> {''table'', ''view''} \<longrightarrow> table_name object = object_name object)"

lemma canonical_name_at_canonical: "canonical_name_at tokens cursor = Some name \<Longrightarrow> canonical_identifier name"
  by (auto simp: canonical_name_at_def validate_identifier_def bind_eq_Some_conv split: if_splits)

lemma some_then_eq_Some: "some_then m f = Some (Some y) \<longleftrightarrow> (\<exists>x. m = Some x \<and> f x = Some (Some y))"
  by (cases m) (auto simp: some_then_def)

lemma classify_branches:
  "classify_table tokens cursor name = Some (Some (obj, vals)) \<Longrightarrow> obj = fst (own_object ''table'' name)"
  "classify_view tokens cursor name = Some (Some (obj, vals)) \<Longrightarrow> obj = fst (own_object ''view'' name)"
  "classify_index tokens cursor name = Some (Some (obj, vals)) \<Longrightarrow>
     object_type obj = ''index'' \<and> object_name obj = name \<and> canonical_identifier (table_name obj)"
  "classify_trigger tokens cursor name = Some (Some (obj, vals)) \<Longrightarrow>
     object_type obj = ''trigger'' \<and> object_name obj = name \<and> canonical_identifier (table_name obj)"
proof -
  show "classify_table tokens cursor name = Some (Some (obj, vals)) \<Longrightarrow> obj = fst (own_object ''table'' name)"
    by (auto simp: classify_table_def some_then_eq_Some bind_eq_Some_conv own_object_def split: if_splits)
  show "classify_view tokens cursor name = Some (Some (obj, vals)) \<Longrightarrow> obj = fst (own_object ''view'' name)"
    by (auto simp: classify_view_def some_then_eq_Some bind_eq_Some_conv own_object_def split: if_splits)
  show "classify_index tokens cursor name = Some (Some (obj, vals)) \<Longrightarrow>
     object_type obj = ''index'' \<and> object_name obj = name \<and> canonical_identifier (table_name obj)"
    by (auto simp: classify_index_def some_then_eq_Some canonical_name_at_canonical split: if_splits)
  show "classify_trigger tokens cursor name = Some (Some (obj, vals)) \<Longrightarrow>
     object_type obj = ''trigger'' \<and> object_name obj = name \<and> canonical_identifier (table_name obj)"
    by (auto simp: classify_trigger_def Let_def some_then_eq_Some bind_eq_Some_conv canonical_name_at_canonical
        split: if_splits)
qed

lemma classify_schema_create_wf:
  assumes "classify_schema_create tokens allow = Some (Some (obj, vals))"
  shows "derived_object_wf allow obj"
proof -
  from assms obtain cursor unique kind cursor' name where
    kind: "created_type tokens cursor unique allow = Some kind" and
    name: "canonical_name_at tokens cursor' = Some name" and
    obj: "classify_created kind tokens (cursor' + 1) name = Some (Some (obj, vals))"
    by (auto simp: classify_schema_create_def Let_def some_then_eq_Some split: if_splits)
  note obj = obj [unfolded classify_created_def]
  from kind have "kind \<in> {''table'', ''index''} \<or> allow \<and> kind \<in> {''view'', ''trigger''}"
    by (auto simp: created_type_def split: if_splits)
  then consider "kind = ''table''" | "kind = ''index''" | "allow" "kind = ''view''" | "allow" "kind = ''trigger''"
    by auto
  then show ?thesis
  proof cases
    case 1
    with obj canonical_name_at_canonical [OF name] show ?thesis
      by (auto simp: derived_object_wf_def own_object_def dest!: classify_branches(1))
  next
    case 2
    with obj canonical_name_at_canonical [OF name] show ?thesis
      by (auto simp: derived_object_wf_def dest!: classify_branches(3))
  next
    case 3
    with obj canonical_name_at_canonical [OF name] show ?thesis
      by (auto simp: derived_object_wf_def own_object_def dest!: classify_branches(2))
  next
    case 4
    with obj canonical_name_at_canonical [OF name] show ?thesis
      by (auto simp: derived_object_wf_def dest!: classify_branches(4))
  qed
qed

text \<open>Classifying a statement never panics: whatever tokens a migration
  holds, no index or slice of the classifier is out of range. An accepted statement gives an object
  with canonical bounded names, of a type the assertion allows; a table or view is its own table.
\<close>

theorem classify_create_sound:
  "\<exists>r. classify_schema_create tokens allow = Some r \<and>
     (\<forall>obj vals. r = Some (obj, vals) \<longrightarrow> derived_object_wf allow obj)"
  using classify_schema_create_defined [of tokens allow] classify_schema_create_wf
  by (auto simp: defined_iff)

theorem classify_create_sound_witness:
  "classify_schema_create [Word ''create'', Word ''Index'', Word ''i'', Word ''ON'', Identifier ''T'',
      Symbol (CHR ''(''), Word ''c'', Symbol (CHR '')'')] False =
     Some (Some (\<lparr>object_type = ''index'', object_name = ''i'', table_name = ''T''\<rparr>, [])) \<and>
   derived_object_wf False \<lparr>object_type = ''index'', object_name = ''i'', table_name = ''T''\<rparr>"
proof -
  have run: "classify_schema_create [Word ''create'', Word ''Index'', Word ''i'', Word ''ON'', Identifier ''T'',
      Symbol (CHR ''(''), Word ''c'', Symbol (CHR '')'')] False =
     Some (Some (\<lparr>object_type = ''index'', object_name = ''i'', table_name = ''T''\<rparr>, []))"
    by code_simp
  from classify_create_sound obtain r where
    "classify_schema_create [Word ''create'', Word ''Index'', Word ''i'', Word ''ON'', Identifier ''T'',
      Symbol (CHR ''(''), Word ''c'', Symbol (CHR '')'')] False = Some r"
    and "\<forall>obj vals. r = Some (obj, vals) \<longrightarrow> derived_object_wf False obj"
    by blast
  with run show ?thesis by simp
qed

end
