(* ===== verification/D1_Additive.thy ===== *)
theory D1_Additive
  imports D1_Migration_Sql
begin

text \<open>
  \<open>src/d1_migration_additive.rs\<close>: the closed grammar of \<open>ALTER TABLE ... ADD COLUMN\<close> and of
  \<open>PRAGMA foreign_keys = ON\<close>, and the proof that each prefix of a manifest changes the expected
  schema state only by what its statements declare. The parser of \<open>CHECK\<close> expressions moves a
  cursor over the token slice; here each of its methods maps the cursor to the cursor after it, and
  \<open>None\<close> is a rejected expression.
\<close>

section \<open>Expected states\<close>

record D1MigrationColumnExpectation =
  col_cid :: int
  col_name :: string
  col_declared_type :: string
  col_not_null :: bool
  col_default_value :: "string option"
  col_primary_key_position :: int
  col_hidden :: int

record D1MigrationForeignKeyExpectation =
  fk_id :: int
  fk_sequence :: int
  fk_referenced_table :: string
  fk_from_column :: string
  fk_to_column :: "string option"
  fk_on_update :: string
  fk_on_delete :: string
  fk_match_mode :: string

record D1MigrationSchemaObjectExpectation =
  obj_type :: string
  obj_name :: string
  obj_table_name :: string
  obj_sql_sha256 :: string

record D1MigrationTableExpectation =
  tab_name :: string
  tab_columns :: "D1MigrationColumnExpectation list"
  tab_foreign_keys :: "D1MigrationForeignKeyExpectation list"

text \<open>The seed tables of a state expectation play no part in the additive contract; \<open>'seed\<close> is their type.\<close>

record 'seed D1MigrationStateExpectation =
  manifest_prefix_length :: nat
  schema_objects :: "D1MigrationSchemaObjectExpectation list"
  tables :: "D1MigrationTableExpectation list"
  seed_tables :: "'seed list"

section \<open>Statements and plans\<close>

record AddColumnEffect =
  eff_table_name :: string
  eff_column :: D1MigrationColumnExpectation

datatype AdditiveStatement = AddColumn AddColumnEffect | ForeignKeysOn

record AdditivePrefixPlan =
  created_objects :: "(string \<times> string) list"
  addition :: "AddColumnEffect option"
  foreign_keys_on :: bool

record AdditiveManifestPlan =
  prefixes :: "AdditivePrefixPlan list"

datatype AdditiveContractError =
  AdditiveContractError (contract_state: string) (contract_code: string) (contract_message: string)

definition alter_grammar :: AdditiveContractError where
  "alter_grammar = AdditiveContractError ''capability_gap''
     ''d1.migration_reconciliation_add_column_effect_unavailable''
     ''the additive assertion accepts only one canonical unqualified ALTER TABLE parent ADD [COLUMN] column with one bounded column definition''"

definition pragma_grammar :: AdditiveContractError where
  "pragma_grammar = AdditiveContractError ''capability_gap''
     ''d1.migration_reconciliation_pragma_effect_unavailable''
     ''the additive assertion accepts only semantic PRAGMA foreign_keys = ON as non-persistent manifest intent''"

definition transition :: "string \<Rightarrow> string \<Rightarrow> AdditiveContractError" where
  "transition code message = AdditiveContractError ''contradictory'' code message"

section \<open>\<open>CHECK\<close> expressions\<close>

definition MAX_CHECK_TOKENS :: nat where "MAX_CHECK_TOKENS = 96"
definition MAX_CHECK_DEPTH :: nat where "MAX_CHECK_DEPTH = 6"
definition MAX_CHECK_IN_VALUES :: nat where "MAX_CHECK_IN_VALUES = 16"
definition MAX_CHECK_LITERAL_BYTES :: nat where "MAX_CHECK_LITERAL_BYTES = 256"

datatype CheckValueKind = Column | ColumnDerived | Literal

definition consume_word :: "SqlToken list \<Rightarrow> string \<Rightarrow> nat \<Rightarrow> nat option" where
  "consume_word tokens expected cursor =
     (if token_is_word (list_get tokens cursor) expected then Some (cursor + 1) else None)"

definition consume_symbol :: "SqlToken list \<Rightarrow> char \<Rightarrow> nat \<Rightarrow> nat option" where
  "consume_symbol tokens expected cursor =
     (if list_get tokens cursor = Some (Symbol expected) then Some (cursor + 1) else None)"

definition consume_column :: "SqlToken list \<Rightarrow> string \<Rightarrow> nat \<Rightarrow> nat option" where
  "consume_column tokens column_name cursor =
     (case list_get tokens cursor of
        Some (Word v) \<Rightarrow> (if eq_ignore_ascii_case v column_name then Some (cursor + 1) else None)
      | _ \<Rightarrow> None)"

definition short_digits :: "string \<Rightarrow> bool" where
  "short_digits v \<longleftrightarrow> length v \<le> 10 \<and> list_all is_ascii_digit v"

definition consume_positive_integer :: "SqlToken list \<Rightarrow> nat \<Rightarrow> nat option" where
  "consume_positive_integer tokens cursor =
     (case list_get tokens cursor of
        Some (Word v) \<Rightarrow>
          (if short_digits v \<and> list_ex (\<lambda>b. b \<noteq> CHR ''0'') v then Some (cursor + 1) else None)
      | _ \<Rightarrow> None)"

definition parse_value :: "SqlToken list \<Rightarrow> string \<Rightarrow> nat \<Rightarrow> (CheckValueKind \<times> nat) option" where
  "parse_value tokens column_name cursor =
     (case list_get tokens cursor of
        None \<Rightarrow> None
      | Some (Word v) \<Rightarrow>
          (if eq_ignore_ascii_case v ''length'' \<and> list_get tokens (cursor + 1) = Some (Symbol (CHR ''(''))
           then do {
             c \<leftarrow> consume_column tokens column_name (cursor + 2);
             c \<leftarrow> consume_symbol tokens (CHR '')'') c;
             Some (ColumnDerived, c) }
           else if eq_ignore_ascii_case v ''substr'' \<and> list_get tokens (cursor + 1) = Some (Symbol (CHR ''(''))
           then do {
             c \<leftarrow> consume_column tokens column_name (cursor + 2);
             c \<leftarrow> consume_symbol tokens (CHR '','') c;
             c \<leftarrow> consume_positive_integer tokens c;
             c \<leftarrow> consume_symbol tokens (CHR '','') c;
             c \<leftarrow> consume_positive_integer tokens c;
             c \<leftarrow> consume_symbol tokens (CHR '')'') c;
             Some (ColumnDerived, c) }
           else if eq_ignore_ascii_case v column_name then Some (Column, cursor + 1)
           else if short_digits v then Some (Literal, cursor + 1)
           else None)
      | Some (Symbol s) \<Rightarrow>
          (if s = CHR ''-'' \<or> s = CHR ''+''
           then (case list_get tokens (cursor + 1) of
               Some (Word v) \<Rightarrow> (if short_digits v then Some (Literal, cursor + 2) else None)
             | _ \<Rightarrow> None)
           else None)
      | Some (StringLiteral v) \<Rightarrow>
          (if length v \<le> MAX_CHECK_LITERAL_BYTES then Some (Literal, cursor + 1) else None)
      | Some (Identifier _) \<Rightarrow> None)"

definition parse_literal :: "SqlToken list \<Rightarrow> string \<Rightarrow> nat \<Rightarrow> nat option" where
  "parse_literal tokens column_name cursor =
     (case parse_value tokens column_name cursor of
        Some (Literal, c) \<Rightarrow> Some c | _ \<Rightarrow> None)"

text \<open>The loop over the values of \<open>IN\<close>, with the number of values read.\<close>

function parse_in_values :: "SqlToken list \<Rightarrow> string \<Rightarrow> nat \<Rightarrow> nat \<Rightarrow> nat option" where
  "parse_in_values tokens column_name count cursor =
     (case parse_literal tokens column_name cursor of
        None \<Rightarrow> None
      | Some c \<Rightarrow>
          (if count + 1 > MAX_CHECK_IN_VALUES then None
           else case consume_symbol tokens (CHR '','') c of
               None \<Rightarrow> Some c
             | Some c \<Rightarrow> parse_in_values tokens column_name (count + 1) c))"
  by pat_completeness auto

termination
  by (relation "measure (\<lambda>(tokens, column_name, count, cursor). MAX_CHECK_IN_VALUES - count)") auto

declare parse_in_values.simps [simp del]

text \<open>\<open>nested\<close> is the parser of the expression between parentheses, one level deeper.\<close>

definition parse_comparison :: "SqlToken list \<Rightarrow> string \<Rightarrow> nat \<Rightarrow> nat option" where
  "parse_comparison tokens column_name cursor =
     (case parse_value tokens column_name cursor of
        None \<Rightarrow> None
      | Some (left, c) \<Rightarrow>
          (case consume_word tokens ''is'' c of
             Some c \<Rightarrow> (if left \<noteq> Column then None else consume_word tokens ''null'' c)
           | None \<Rightarrow>
          (case consume_symbol tokens (CHR ''='') c of
             Some c \<Rightarrow>
               (if left \<noteq> Column \<and> left \<noteq> ColumnDerived then None else parse_literal tokens column_name c)
           | None \<Rightarrow>
          (case consume_word tokens ''in'' c of
             Some c \<Rightarrow>
               (if left \<noteq> Column then None
                else do {
                  c \<leftarrow> consume_symbol tokens (CHR ''('') c;
                  c \<leftarrow> parse_in_values tokens column_name 0 c;
                  consume_symbol tokens (CHR '')'') c })
           | None \<Rightarrow> None))))"

definition parse_predicate :: "SqlToken list \<Rightarrow> string \<Rightarrow> (nat \<Rightarrow> nat option) \<Rightarrow> nat \<Rightarrow> nat option" where
  "parse_predicate tokens column_name nested cursor =
     (case consume_symbol tokens (CHR ''('') cursor of
        Some c \<Rightarrow> do { c \<leftarrow> nested c; consume_symbol tokens (CHR '')'') c }
      | None \<Rightarrow> parse_comparison tokens column_name cursor)"

text \<open>
  The loops \<open>while self.consume_word(w).is_some() { parse()? }\<close>. The loop ends because each round
  moves the cursor forward; \<open>separated_tail_unfold\<close> below shows that the test for it never fires on
  the parsers of the source.
\<close>

function separated_tail :: "SqlToken list \<Rightarrow> string \<Rightarrow> (nat \<Rightarrow> nat option) \<Rightarrow> nat \<Rightarrow> nat option" where
  "separated_tail tokens w parse cursor =
     (case consume_word tokens w cursor of
        None \<Rightarrow> Some cursor
      | Some c \<Rightarrow>
          (case parse c of
             None \<Rightarrow> None
           | Some c' \<Rightarrow> (if c \<le> c' then separated_tail tokens w parse c' else None)))"
  by pat_completeness auto

termination
  by (relation "measure (\<lambda>(tokens, w, parse, cursor). length tokens - cursor)")
    (auto simp: consume_word_def list_get_def split: if_splits)

declare separated_tail.simps [simp del]

definition parse_separated :: "SqlToken list \<Rightarrow> string \<Rightarrow> (nat \<Rightarrow> nat option) \<Rightarrow> nat \<Rightarrow> nat option" where
  "parse_separated tokens w parse cursor =
     (case parse cursor of None \<Rightarrow> None | Some c \<Rightarrow> separated_tail tokens w parse c)"

definition parse_and_expression :: "SqlToken list \<Rightarrow> string \<Rightarrow> (nat \<Rightarrow> nat option) \<Rightarrow> nat \<Rightarrow> nat option" where
  "parse_and_expression tokens column_name nested =
     parse_separated tokens ''and'' (parse_predicate tokens column_name nested)"

function parse_or_expression :: "SqlToken list \<Rightarrow> string \<Rightarrow> nat \<Rightarrow> nat \<Rightarrow> nat option" where
  "parse_or_expression tokens column_name depth cursor =
     (if depth > MAX_CHECK_DEPTH then None
      else parse_separated tokens ''or''
        (parse_and_expression tokens column_name (\<lambda>c. parse_or_expression tokens column_name (depth + 1) c))
        cursor)"
  by pat_completeness auto

termination
  by (relation "measure (\<lambda>(tokens, column_name, depth, cursor). MAX_CHECK_DEPTH + 1 - depth)") auto

declare parse_or_expression.simps [simp del]

definition parse_check_constraint :: "SqlToken list \<Rightarrow> nat \<Rightarrow> string \<Rightarrow> nat option" where
  "parse_check_constraint tokens cursor column_name =
     (if cursor > length tokens then None
      else if length tokens - cursor = 0 \<or> length tokens - cursor > MAX_CHECK_TOKENS then None
      else do {
        c \<leftarrow> consume_symbol tokens (CHR ''('') cursor;
        c \<leftarrow> parse_or_expression tokens column_name 1 c;
        consume_symbol tokens (CHR '')'') c })"

section \<open>Statements\<close>

definition to_ascii_uppercase :: "string \<Rightarrow> string" where
  "to_ascii_uppercase s = map to_ascii_upper s"

fun double_apostrophes :: "string \<Rightarrow> string" where
  "double_apostrophes [] = []"
| "double_apostrophes (c # cs) =
     (if c = CHR 0x27 then CHR 0x27 # CHR 0x27 # double_apostrophes cs else c # double_apostrophes cs)"

definition quote_sql_string :: "string \<Rightarrow> string" where
  "quote_sql_string v = CHR 0x27 # double_apostrophes v @ [CHR 0x27]"

definition parse_default :: "SqlToken list \<Rightarrow> nat \<Rightarrow> (string \<times> nat) option" where
  "parse_default tokens cursor =
     (case list_get tokens cursor of
        Some (Word v) \<Rightarrow>
          (if eq_ignore_ascii_case v ''null'' then Some (''NULL'', 1)
           else if list_all is_ascii_digit v then Some (v, 1) else None)
      | Some (StringLiteral v) \<Rightarrow> Some (quote_sql_string v, 1)
      | Some (Symbol sign) \<Rightarrow>
          (if sign = CHR ''-'' \<or> sign = CHR ''+''
           then (case list_get tokens (cursor + 1) of
               Some (Word v) \<Rightarrow> (if list_all is_ascii_digit v then Some (sign # v, 2) else None)
             | _ \<Rightarrow> None)
           else None)
      | _ \<Rightarrow> None)"

definition canonical_declared_type :: "string \<Rightarrow> string" where
  "canonical_declared_type v =
     (if matches_ignore_ascii_case v [''integer'', ''text'', ''real'', ''blob''] then to_ascii_uppercase v else v)"

definition canonical_type_word :: "string \<Rightarrow> bool" where
  "canonical_type_word v \<longleftrightarrow> canonical_identifier v \<and>
     \<not> matches_ignore_ascii_case v
       [''add'', ''alter'', ''as'', ''check'', ''collate'', ''constraint'', ''default'', ''generated'', ''not'',
        ''null'', ''primary'', ''references'', ''unique'']"

fun word_identifier :: "SqlToken option \<Rightarrow> string option" where
  "word_identifier (Some (Word v)) = Some v"
| "word_identifier _ = None"

definition canonical_unquoted_identifier :: "SqlToken option \<Rightarrow> string option" where
  "canonical_unquoted_identifier token =
     (case word_identifier token of
        None \<Rightarrow> None | Some v \<Rightarrow> (if canonical_identifier v then Some v else None))"

definition declared_type_at :: "SqlToken list \<Rightarrow> nat \<Rightarrow> string option" where
  "declared_type_at tokens cursor =
     (case word_identifier (list_get tokens cursor) of
        None \<Rightarrow> None
      | Some v \<Rightarrow> (if canonical_type_word v then Some (canonical_declared_type v) else None))"

definition optional_default :: "SqlToken list \<Rightarrow> nat \<Rightarrow> (string option \<times> nat) option" where
  "optional_default tokens cursor =
     (if token_is_word (list_get tokens cursor) ''default''
      then map_option (\<lambda>(v, width). (Some v, cursor + (width + 1))) (parse_default tokens (cursor + 1))
      else Some (None, cursor))"

definition optional_check :: "SqlToken list \<Rightarrow> string \<Rightarrow> nat \<Rightarrow> nat option" where
  "optional_check tokens column_name cursor =
     (if token_is_word (list_get tokens cursor) ''check''
      then parse_check_constraint tokens (cursor + 1) column_name else Some cursor)"

text \<open>Every failure of the grammar is the same error; \<open>None\<close> here stands for it.\<close>

definition parse_add_column_option :: "SqlToken list \<Rightarrow> AddColumnEffect option" where
  "parse_add_column_option tokens = do {
     _ \<leftarrow> consume_word tokens ''table'' 1;
     table \<leftarrow> canonical_unquoted_identifier (list_get tokens 2);
     _ \<leftarrow> consume_word tokens ''add'' 3;
     let cursor = (if token_is_word (list_get tokens 4) ''column'' then 5 else 4);
     name \<leftarrow> canonical_unquoted_identifier (list_get tokens cursor);
     declared_type \<leftarrow> declared_type_at tokens (cursor + 1);
     let not_null = (token_is_word (list_get tokens (cursor + 2)) ''not'' \<and>
       token_is_word (list_get tokens (cursor + 3)) ''null'');
     let cursor = (if not_null then cursor + 4 else cursor + 2);
     (default_value, cursor) \<leftarrow> optional_default tokens cursor;
     cursor \<leftarrow> optional_check tokens name cursor;
     if cursor \<noteq> length tokens \<or> (not_null \<and> default_value = Some ''NULL'') then None
     else Some \<lparr>eff_table_name = table, eff_column = \<lparr>col_cid = - 1, col_name = name,
       col_declared_type = declared_type, col_not_null = not_null, col_default_value = default_value,
       col_primary_key_position = 0, col_hidden = 0\<rparr>\<rparr> }"

definition parse_add_column :: "SqlToken list \<Rightarrow> AdditiveContractError + AddColumnEffect" where
  "parse_add_column tokens = ok_or alter_grammar (parse_add_column_option tokens)"

definition classify_additive_statement ::
  "SqlToken list \<Rightarrow> AdditiveContractError + AdditiveStatement option" where
  "classify_additive_statement tokens =
     (if token_is_word (list_get tokens 0) ''alter''
      then map_ok (\<lambda>effect. Some (AddColumn effect)) (parse_add_column tokens)
      else if token_is_word (list_get tokens 0) ''pragma''
      then (if length tokens = 4 \<and>
              (case word_identifier (list_get tokens 1) of
                 None \<Rightarrow> False | Some name \<Rightarrow> eq_ignore_ascii_case name ''foreign_keys'') \<and>
              list_get tokens 2 = Some (Symbol (CHR ''='')) \<and> token_is_word (list_get tokens 3) ''on''
            then Inr (Some ForeignKeysOn) else Inl pragma_grammar)
      else Inr None)"

section \<open>Transitions\<close>

text \<open>A \<open>for\<close> loop whose body may return an error.\<close>

fun try_each :: "('x \<Rightarrow> 'e + unit) \<Rightarrow> 'x list \<Rightarrow> 'e + unit" where
  "try_each f [] = Inr ()"
| "try_each f (x # xs) = ok_then (f x) (\<lambda>_. try_each f xs)"

definition require :: "bool \<Rightarrow> 'e \<Rightarrow> 'e + unit" where
  "require b e = (if b then Inr () else Inl e)"

definition i64_checked_add :: "int \<Rightarrow> int \<Rightarrow> int option" where
  "i64_checked_add a b = (if - (2 ^ 63) \<le> a + b \<and> a + b < 2 ^ 63 then Some (a + b) else None)"

definition expected_cid :: "D1MigrationColumnExpectation list \<Rightarrow> int" where
  "expected_cid columns =
     (if columns = [] then 0
      else case i64_checked_add (col_cid (last columns)) 1 of None \<Rightarrow> 0 | Some c \<Rightarrow> c)"

definition column_drift :: "string \<Rightarrow> AdditiveContractError" where
  "column_drift message = transition ''d1.migration_reconciliation_additive_column_drift'' message"

definition validate_column_append ::
  "D1MigrationTableExpectation \<Rightarrow> D1MigrationTableExpectation \<Rightarrow> AddColumnEffect \<Rightarrow> AdditiveContractError + unit" where
  "validate_column_append previous current effect =
     (if tab_foreign_keys previous \<noteq> tab_foreign_keys current \<or>
        length (tab_columns current) \<noteq> length (tab_columns previous) + 1 \<or>
        take (length (tab_columns previous)) (tab_columns current) \<noteq> tab_columns previous
      then Inl (column_drift ''an additive prefix must preserve every prior ordered column and foreign key before appending exactly one column'')
      else if last (tab_columns current) \<noteq> (eff_column effect)\<lparr>col_cid := expected_cid (tab_columns previous)\<rparr>
      then Inl (column_drift ''the appended column must match the classified name, declared type, nullability, default, key position, hidden flag, and next cid'')
      else Inr ())"

definition object_map ::
  "'seed D1MigrationStateExpectation \<Rightarrow> ((string \<times> string) \<times> D1MigrationSchemaObjectExpectation) list" where
  "object_map state = fold (\<lambda>(k, v). bmap_insert k v)
     (map (\<lambda>object. ((obj_type object, obj_name object), object)) (schema_objects state)) []"

definition table_map :: "'seed D1MigrationStateExpectation \<Rightarrow> (string \<times> D1MigrationTableExpectation) list" where
  "table_map state = fold (\<lambda>(k, v). bmap_insert k v) (map (\<lambda>table. (tab_name table, table)) (tables state)) []"

definition schema_drift :: "string \<Rightarrow> AdditiveContractError" where
  "schema_drift message = transition ''d1.migration_reconciliation_additive_schema_drift'' message"

definition parent_missing :: "string \<Rightarrow> AdditiveContractError" where
  "parent_missing message = transition ''d1.migration_reconciliation_additive_parent_missing'' message"

definition table_drift :: "string \<Rightarrow> AdditiveContractError" where
  "table_drift message = transition ''d1.migration_reconciliation_additive_table_drift'' message"

definition retained_object ::
  "((string \<times> string) \<times> D1MigrationSchemaObjectExpectation) list \<Rightarrow> string option \<Rightarrow>
   (string \<times> string) \<times> D1MigrationSchemaObjectExpectation \<Rightarrow> AdditiveContractError + unit" where
  "retained_object current_objects addition_target entry =
     (case entry of (identity, object) \<Rightarrow>
      case map_of current_objects identity of
        None \<Rightarrow> Inl (schema_drift ''an existing schema object disappeared or changed identity across an additive prefix'')
      | Some successor \<Rightarrow>
          (if obj_type object = ''table'' \<and> addition_target = Some (obj_name object)
           then require (obj_table_name successor = obj_table_name object \<and>
               obj_sql_sha256 successor \<noteq> obj_sql_sha256 object)
             (transition ''d1.migration_reconciliation_additive_parent_sql_drift''
               ''an altered parent must retain exact table identity and receive a distinct reviewed sqlite_master SQL digest'')
           else require (successor = object)
             (schema_drift ''schema objects outside the exact additive target and newly created set must remain byte-identical'')))"

definition retained_table ::
  "(string \<times> D1MigrationTableExpectation) list \<Rightarrow> AddColumnEffect option \<Rightarrow>
   string \<times> D1MigrationTableExpectation \<Rightarrow> AdditiveContractError + unit" where
  "retained_table current_tables added entry =
     (case entry of (name, table) \<Rightarrow>
      case map_of current_tables name of
        None \<Rightarrow> Inl (parent_missing ''every baseline or created table must remain present through later additive prefixes'')
      | Some successor \<Rightarrow>
          (case added of
             Some effect \<Rightarrow>
               (if eff_table_name effect = name then validate_column_append table successor effect
                else require (successor = table)
                  (table_drift ''tables outside the exact additive target must retain complete ordered xinfo and foreign-key expectations''))
           | None \<Rightarrow> require (successor = table)
               (table_drift ''tables outside the exact additive target must retain complete ordered xinfo and foreign-key expectations'')))"

definition new_object ::
  "((string \<times> string) \<times> D1MigrationSchemaObjectExpectation) list \<Rightarrow> (string \<times> string) list \<Rightarrow>
   (string \<times> string) \<times> D1MigrationSchemaObjectExpectation \<Rightarrow> AdditiveContractError + unit" where
  "new_object previous_objects created entry =
     require (map_of previous_objects (fst entry) \<noteq> None \<or> fst entry \<in> set created)
       (schema_drift ''an additive prefix introduced a schema object not classified as CREATE intent'')"

definition new_table ::
  "(string \<times> D1MigrationTableExpectation) list \<Rightarrow> (string \<times> string) list \<Rightarrow>
   string \<times> D1MigrationTableExpectation \<Rightarrow> AdditiveContractError + unit" where
  "new_table previous_tables created entry =
     require (map_of previous_tables (fst entry) \<noteq> None \<or> (''table'', fst entry) \<in> set created)
       (table_drift ''a table expectation appeared without exact CREATE intent in that prefix'')"

definition validate_prefix_transition ::
  "'seed D1MigrationStateExpectation \<Rightarrow> 'seed D1MigrationStateExpectation \<Rightarrow> AdditivePrefixPlan \<Rightarrow>
   AdditiveContractError + unit" where
  "validate_prefix_transition previous current plan =
     (let addition_target = map_option eff_table_name (addition plan) in
      ok_then (try_each (retained_object (object_map current) addition_target) (object_map previous)) (\<lambda>_.
      ok_then (try_each (new_object (object_map previous) (created_objects plan)) (object_map current)) (\<lambda>_.
      ok_then (try_each (retained_table (table_map current) (addition plan)) (table_map previous)) (\<lambda>_.
      ok_then (try_each (new_table (table_map previous) (created_objects plan)) (table_map current)) (\<lambda>_.
      case addition_target of
        None \<Rightarrow> Inr ()
      | Some target \<Rightarrow>
          require (map_of (table_map previous) target \<noteq> None \<and> map_of (table_map current) target \<noteq> None)
            (parent_missing ''ALTER TABLE ADD COLUMN requires the exact parent and its complete baseline expectation before the additive prefix''))))))"

definition validate_additive_transitions ::
  "AdditiveManifestPlan \<Rightarrow> 'seed D1MigrationStateExpectation list \<Rightarrow> AdditiveContractError + unit" where
  "validate_additive_transitions plan states =
     (if length states \<noteq> length (prefixes plan) + 1
      then Inl (transition ''d1.migration_reconciliation_additive_prefix_mismatch''
        ''the additive transition plan must bind every expected manifest prefix including baseline'')
      else try_each (\<lambda>(index, prefix).
        validate_prefix_transition (states ! index) (states ! (index + 1)) prefix) (enumerate 0 (prefixes plan)))"

end
