(* ===== verification/D1_Check_Grammar.thy ===== *)
theory D1_Check_Grammar
  imports D1_Additive
begin

text \<open>
  The grammar of \<open>CHECK\<close> expressions, stated on token lists, and the equivalence of the parser with
  it. \<open>recognizes\<close> is the contract of a parser method: what it accepts is a phrase of its category
  between the two cursors, and it accepts each phrase that a token of its follow set comes after.
  The separated repetitions and the nesting levels preserve the contract.
\<close>

section \<open>Grammar\<close>

definition is_column :: "string \<Rightarrow> SqlToken \<Rightarrow> bool" where
  "is_column column_name token = (case token of Word v \<Rightarrow> eq_ignore_ascii_case v column_name | _ \<Rightarrow> False)"

definition is_positive :: "SqlToken \<Rightarrow> bool" where
  "is_positive token = (case token of Word v \<Rightarrow> short_digits v \<and> list_ex (\<lambda>b. b \<noteq> CHR ''0'') v | _ \<Rightarrow> False)"

abbreviation is_word :: "string \<Rightarrow> SqlToken \<Rightarrow> bool" where
  "is_word w token \<equiv> token_is_word (Some token) w"

inductive check_value :: "string \<Rightarrow> CheckValueKind \<Rightarrow> SqlToken list \<Rightarrow> bool" for column_name where
  column: "is_column column_name t \<Longrightarrow> check_value column_name Column [t]"
| length_of: "is_word ''length'' f \<Longrightarrow> is_column column_name t \<Longrightarrow>
    check_value column_name ColumnDerived [f, Symbol (CHR ''(''), t, Symbol (CHR '')'')]"
| substr_of: "is_word ''substr'' f \<Longrightarrow> is_column column_name t \<Longrightarrow> is_positive m \<Longrightarrow> is_positive n \<Longrightarrow>
    check_value column_name ColumnDerived
      [f, Symbol (CHR ''(''), t, Symbol (CHR '',''), m, Symbol (CHR '',''), n, Symbol (CHR '')'')]"
| digits: "short_digits v \<Longrightarrow> \<not> eq_ignore_ascii_case v column_name \<Longrightarrow> check_value column_name Literal [Word v]"
| signed: "s = CHR ''-'' \<or> s = CHR ''+'' \<Longrightarrow> short_digits v \<Longrightarrow> check_value column_name Literal [Symbol s, Word v]"
| string: "length v \<le> MAX_CHECK_LITERAL_BYTES \<Longrightarrow> check_value column_name Literal [StringLiteral v]"

text \<open>One to \<open>n\<close> literals, separated by commas.\<close>

fun check_literals :: "string \<Rightarrow> nat \<Rightarrow> SqlToken list \<Rightarrow> bool" where
  "check_literals column_name 0 ts \<longleftrightarrow> False"
| "check_literals column_name (Suc n) ts \<longleftrightarrow>
     check_value column_name Literal ts \<or>
     (\<exists>us vs. ts = us @ Symbol (CHR '','') # vs \<and> check_value column_name Literal us \<and> check_literals column_name n vs)"

inductive check_comparison :: "string \<Rightarrow> SqlToken list \<Rightarrow> bool" for column_name where
  is_null: "check_value column_name Column us \<Longrightarrow> is_word ''is'' a \<Longrightarrow> is_word ''null'' b \<Longrightarrow>
    check_comparison column_name (us @ [a, b])"
| equals: "check_value column_name kind us \<Longrightarrow> kind \<noteq> Literal \<Longrightarrow> check_value column_name Literal vs \<Longrightarrow>
    check_comparison column_name (us @ Symbol (CHR ''='') # vs)"
| among: "check_value column_name Column us \<Longrightarrow> is_word ''in'' a \<Longrightarrow>
    check_literals column_name MAX_CHECK_IN_VALUES vs \<Longrightarrow>
    check_comparison column_name (us @ [a, Symbol (CHR ''('')] @ vs @ [Symbol (CHR '')'')])"

inductive separated_by :: "string \<Rightarrow> (SqlToken list \<Rightarrow> bool) \<Rightarrow> SqlToken list \<Rightarrow> bool" for w P where
  one: "P us \<Longrightarrow> separated_by w P us"
| more: "P us \<Longrightarrow> is_word w t \<Longrightarrow> separated_by w P vs \<Longrightarrow> separated_by w P (us @ t # vs)"

definition check_junction :: "(SqlToken list \<Rightarrow> bool) \<Rightarrow> SqlToken list \<Rightarrow> bool" where
  "check_junction P = separated_by ''or'' (separated_by ''and'' P)"

text \<open>Expressions with at most \<open>n\<close> levels of parentheses inside.\<close>

primrec check_expression :: "string \<Rightarrow> nat \<Rightarrow> SqlToken list \<Rightarrow> bool" where
  "check_expression column_name 0 = check_junction (check_comparison column_name)"
| "check_expression column_name (Suc n) = check_junction (\<lambda>ts. check_comparison column_name ts \<or>
     (\<exists>us. ts = Symbol (CHR ''('') # us @ [Symbol (CHR '')'')] \<and> check_expression column_name n us))"

section \<open>Spans of the cursor\<close>

definition spans :: "SqlToken list \<Rightarrow> nat \<Rightarrow> SqlToken list \<Rightarrow> nat \<Rightarrow> bool" where
  "spans tokens a xs b \<longleftrightarrow> b \<le> length tokens \<and> b = a + length xs \<and> take (length xs) (drop a tokens) = xs"

lemma spans_append: "spans tokens a (xs @ ys) c \<longleftrightarrow> (\<exists>b. spans tokens a xs b \<and> spans tokens b ys c)"
  by (auto simp: spans_def take_add add.commute add.left_commute)

lemma spans_single: "spans tokens a [t] b \<longleftrightarrow> list_get tokens a = Some t \<and> b = a + 1"
  by (auto simp: spans_def list_get_def take_Suc_conv_app_nth hd_drop_conv_nth take_Suc)

lemma spans_Cons: "spans tokens a (t # ys) c \<longleftrightarrow> list_get tokens a = Some t \<and> spans tokens (a + 1) ys c"
  using spans_append [of tokens a "[t]" ys c] by (auto simp: spans_single)

lemma spans_Nil: "spans tokens a [] b \<longleftrightarrow> a = b \<and> b \<le> length tokens"
  by (auto simp: spans_def)

lemma spans_le: "spans tokens a xs b \<Longrightarrow> a \<le> b"
  by (simp add: spans_def)

lemmas spans_simps = spans_append spans_single spans_Cons

definition recognizes ::
  "SqlToken list \<Rightarrow> (SqlToken option \<Rightarrow> bool) \<Rightarrow> (nat \<Rightarrow> nat option) \<Rightarrow> (SqlToken list \<Rightarrow> bool) \<Rightarrow> bool" where
  "recognizes tokens follow parse P \<longleftrightarrow>
     (\<forall>a b. parse a = Some b \<longrightarrow> (\<exists>xs. P xs \<and> spans tokens a xs b)) \<and>
     (\<forall>a xs b. P xs \<longrightarrow> spans tokens a xs b \<longrightarrow> follow (list_get tokens b) \<longrightarrow> parse a = Some b)"

lemma recognizesI:
  assumes "\<And>a b. parse a = Some b \<Longrightarrow> \<exists>xs. P xs \<and> spans tokens a xs b"
    and "\<And>a xs b. P xs \<Longrightarrow> spans tokens a xs b \<Longrightarrow> follow (list_get tokens b) \<Longrightarrow> parse a = Some b"
  shows "recognizes tokens follow parse P"
  using assms unfolding recognizes_def by blast

lemma recognizes_sound: "recognizes tokens follow parse P \<Longrightarrow> parse a = Some b \<Longrightarrow> \<exists>xs. P xs \<and> spans tokens a xs b"
  by (auto simp: recognizes_def)

lemma recognizes_complete:
  "recognizes tokens follow parse P \<Longrightarrow> P xs \<Longrightarrow> spans tokens a xs b \<Longrightarrow> follow (list_get tokens b) \<Longrightarrow> parse a = Some b"
  by (auto simp: recognizes_def)

section \<open>Repetitions\<close>

lemma consume_word_eq: "consume_word tokens w a = Some b \<longleftrightarrow> (\<exists>t. is_word w t \<and> spans tokens a [t] b)"
  by (cases "list_get tokens a") (auto simp: consume_word_def spans_single)

lemma consume_symbol_eq: "consume_symbol tokens s a = Some b \<longleftrightarrow> spans tokens a [Symbol s] b"
  by (auto simp: consume_symbol_def spans_single)

text \<open>On a parser that meets its contract the loop is the source's, without the test of progress.\<close>

lemma separated_tail_unfold:
  assumes "recognizes tokens follow parse P"
  shows "separated_tail tokens w parse cursor =
    (case consume_word tokens w cursor of
       None \<Rightarrow> Some cursor | Some c \<Rightarrow> Option.bind (parse c) (separated_tail tokens w parse))"
  by (subst separated_tail.simps)
    (use recognizes_sound [OF assms] spans_le in \<open>fastforce split: option.splits\<close>)

lemma separated_tail_sound:
  assumes "recognizes tokens follow parse P" and "separated_tail tokens w parse a = Some b" and "a \<le> length tokens"
  shows "spans tokens a [] b \<or> (\<exists>t vs. is_word w t \<and> separated_by w P vs \<and> spans tokens a (t # vs) b)"
  using assms
proof (induction tokens w parse a rule: separated_tail.induct)
  case (1 tokens w parse a)
  show ?case
  proof (cases "consume_word tokens w a")
    case None
    with 1 show ?thesis by (simp add: separated_tail.simps [of tokens w parse a] spans_Nil)
  next
    case (Some c)
    then obtain t where t: "is_word w t" "spans tokens a [t] c" by (auto simp: consume_word_eq)
    from "1.prems"(2) Some obtain c' where c': "parse c = Some c'" "c \<le> c'"
      and tail: "separated_tail tokens w parse c' = Some b"
      by (auto simp: separated_tail.simps [of tokens w parse a] split: option.splits if_splits)
    from recognizes_sound [OF "1.prems"(1) c'(1)] obtain us where us: "P us" "spans tokens c us c'" by blast
    then have "c' \<le> length tokens" by (simp add: spans_def)
    from "1.IH" [OF Some c' "1.prems"(1) tail this]
    consider "spans tokens c' [] b"
      | t' vs where "is_word w t'" "separated_by w P vs" "spans tokens c' (t' # vs) b" by blast
    then show ?thesis
    proof cases
      case 1
      then have "spans tokens a (t # us) b" using t us by (auto simp: spans_simps spans_Nil)
      with t us show ?thesis by (blast intro: separated_by.one)
    next
      case (2 t' vs)
      then have "spans tokens a (t # us @ t' # vs) b" using t us by (auto simp: spans_simps spans_Nil)
      moreover have "separated_by w P (us @ t' # vs)" by (rule separated_by.more [OF us(1) 2(1,2)])
      ultimately show ?thesis using t by blast
    qed
  qed
qed

lemma recognizes_separated:
  assumes parse: "recognizes tokens follow parse P"
    and sep: "\<And>t. is_word w t \<Longrightarrow> follow (Some t)"
    and stop: "\<And>t. follow' t \<Longrightarrow> follow t \<and> \<not> token_is_word t w"
  shows "recognizes tokens follow' (parse_separated tokens w parse) (separated_by w P)"
proof (rule recognizesI)
  fix a b
  assume "parse_separated tokens w parse a = Some b"
  then obtain c where c: "parse a = Some c" and tail: "separated_tail tokens w parse c = Some b"
    by (auto simp: parse_separated_def split: option.splits)
  from recognizes_sound [OF parse c] obtain us where us: "P us" "spans tokens a us c" by blast
  then have "c \<le> length tokens" by (simp add: spans_def)
  from separated_tail_sound [OF parse tail this] us
  show "\<exists>xs. separated_by w P xs \<and> spans tokens a xs b"
    by (auto simp: spans_Nil spans_append intro: separated_by.intros)
      (metis separated_by.more spans_append)
next
  fix a xs b
  assume "separated_by w P xs" and "spans tokens a xs b" and "follow' (list_get tokens b)"
  then show "parse_separated tokens w parse a = Some b"
  proof (induction xs arbitrary: a rule: separated_by.induct)
    case (one us)
    with stop have "parse a = Some b" "consume_word tokens w b = None"
      by (auto simp: consume_word_def intro: recognizes_complete [OF parse])
    then show ?case by (simp add: parse_separated_def separated_tail.simps [of tokens w parse b])
  next
    case (more us t vs)
    then obtain c where c: "spans tokens a us c" "list_get tokens c = Some t" "spans tokens (c + 1) vs b"
      by (auto simp: spans_simps)
    with more have "parse a = Some c" by (auto intro!: recognizes_complete [OF parse] sep)
    moreover have "consume_word tokens w c = Some (c + 1)" using c more by (simp add: consume_word_def)
    moreover have "parse_separated tokens w parse (c + 1) = Some b" using more c by blast
    ultimately show ?case
      by (auto simp: parse_separated_def separated_tail_unfold [OF parse, of w c] split: option.splits)
  qed
qed

section \<open>Comparisons\<close>

lemma consume_column_eq: "consume_column tokens col a = Some b \<longleftrightarrow> (\<exists>t. is_column col t \<and> spans tokens a [t] b)"
  by (auto simp: consume_column_def is_column_def spans_single split: option.splits SqlToken.splits)

lemma consume_positive_integer_eq:
  "consume_positive_integer tokens a = Some b \<longleftrightarrow> (\<exists>t. is_positive t \<and> spans tokens a [t] b)"
  by (auto simp: consume_positive_integer_def is_positive_def spans_single split: option.splits SqlToken.splits)

lemmas consume_eqs = consume_word_eq consume_symbol_eq consume_column_eq consume_positive_integer_eq

lemma digits_not_word:
  assumes "list_all is_ascii_digit v" and "w \<noteq> []" and "\<not> is_ascii_digit (to_ascii_lower (hd w))"
  shows "\<not> eq_ignore_ascii_case v w"
proof
  assume eq: "eq_ignore_ascii_case v w"
  with assms(2) obtain c cs where v: "v = c # cs" and c: "to_ascii_lower c = to_ascii_lower (hd w)"
    by (cases v; cases w) (auto simp: eq_ignore_ascii_case_def to_ascii_lowercase_def)
  from assms(1) v have "is_ascii_digit c" by simp
  then have "to_ascii_lower c = c" by (auto simp: to_ascii_lower_def is_ascii_digit_def byte_in_def)
  with c assms(3) \<open>is_ascii_digit c\<close> show False by simp
qed

lemma digits_not_function:
  assumes "short_digits v"
  shows "\<not> eq_ignore_ascii_case v ''length''" and "\<not> eq_ignore_ascii_case v ''substr''"
  using digits_not_word [of v] assms by (auto simp: short_digits_def byte_defs)

lemma function_names_differ: "eq_ignore_ascii_case v ''substr'' \<Longrightarrow> \<not> eq_ignore_ascii_case v ''length''"
  by (simp add: eq_ignore_ascii_case_def) code_simp

lemma is_word_iff: "is_word w t \<longleftrightarrow> (\<exists>v. t = Word v \<and> eq_ignore_ascii_case v w)"
  by (cases t) auto

lemma parse_value_sound:
  assumes "parse_value tokens col a = Some (k, b)"
  shows "\<exists>xs. check_value col k xs \<and> spans tokens a xs b"
proof (cases "list_get tokens a")
  case (Some t)
  have reach: "\<exists>xs. check_value col k xs \<and> spans tokens a xs b"
    if "check_value col k (t # ys)" "spans tokens (a + 1) ys b" for ys
    using that Some by (auto simp: spans_Cons)
  have empty: "spans tokens (a + 1) [] (a + 1)"
    using Some by (auto simp: spans_Nil list_get_def split: if_splits)
  show ?thesis
  proof (cases t)
    case (Word v)
    consider (len) "eq_ignore_ascii_case v ''length''" "list_get tokens (a + 1) = Some (Symbol (CHR ''(''))"
      | (sub) "\<not> eq_ignore_ascii_case v ''length''" "eq_ignore_ascii_case v ''substr''"
          "list_get tokens (a + 1) = Some (Symbol (CHR ''(''))"
      | (plain) "k = Column \<and> eq_ignore_ascii_case v col \<or>
          k = Literal \<and> short_digits v \<and> \<not> eq_ignore_ascii_case v col" "b = a + 1"
      using assms Some Word by (auto simp: parse_value_def split: if_splits)
    then show ?thesis
    proof cases
      case len
      then obtain u where "is_column col u" "k = ColumnDerived"
        and ys: "spans tokens (a + 1) [Symbol (CHR ''(''), u, Symbol (CHR '')'')] b"
        using assms Some Word
        by (auto simp: parse_value_def consume_eqs bind_eq_Some_conv spans_simps spans_Nil)
      with len show ?thesis
        by (intro reach [OF _ ys]) (simp add: Word check_value.length_of)
    next
      case sub
      then obtain u m n where "is_column col u" "is_positive m" "is_positive n" "k = ColumnDerived"
        and ys: "spans tokens (a + 1) [Symbol (CHR ''(''), u, Symbol (CHR '',''), m, Symbol (CHR '',''), n,
          Symbol (CHR '')'')] b"
        using assms Some Word
        by (auto simp: parse_value_def consume_eqs bind_eq_Some_conv spans_simps spans_Nil)
      with sub show ?thesis
        by (intro reach [OF _ ys]) (simp add: Word check_value.substr_of)
    next
      case plain
      then show ?thesis using empty
        by (intro reach [of "[]"]) (auto simp: Word is_column_def intro: check_value.column check_value.digits)
    qed
  next
    case (Symbol s)
    with assms Some obtain v where "s = CHR ''-'' \<or> s = CHR ''+''" "short_digits v" "k = Literal"
      and ys: "spans tokens (a + 1) [Word v] b"
      by (auto simp: parse_value_def spans_single split: option.splits SqlToken.splits if_splits)
    then show ?thesis by (intro reach [OF _ ys]) (simp add: Symbol check_value.signed)
  next
    case (StringLiteral v)
    with assms Some have "k = Literal" "b = a + 1" "length v \<le> MAX_CHECK_LITERAL_BYTES"
      by (auto simp: parse_value_def split: if_splits)
    with empty show ?thesis by (intro reach [of "[]"]) (simp_all add: StringLiteral check_value.string)
  qed (use assms Some in \<open>simp add: parse_value_def\<close>)
qed (use assms in \<open>simp add: parse_value_def\<close>)

lemma parse_value_complete:
  assumes "check_value col k xs" and "spans tokens a xs b"
    and "k = Column \<Longrightarrow> list_get tokens b \<noteq> Some (Symbol (CHR ''(''))"
  shows "parse_value tokens col a = Some (k, b)"
  using assms
proof cases
  case (column t)
  then show ?thesis using assms
    by (auto simp: parse_value_def is_column_def spans_single split: SqlToken.splits)
next
  case (length_of f t)
  then show ?thesis using assms
    by (auto simp: parse_value_def is_word_iff spans_Cons spans_Nil consume_eqs bind_eq_Some_conv)
next
  case (substr_of f t m n)
  then show ?thesis using assms
    by (auto simp: parse_value_def is_word_iff spans_Cons spans_Nil function_names_differ consume_eqs
       bind_eq_Some_conv)
next
  case (digits v)
  then show ?thesis using assms
    by (auto simp: parse_value_def spans_Cons spans_Nil digits_not_function)
next
  case (signed s v)
  then show ?thesis using assms by (auto simp: parse_value_def spans_Cons spans_Nil)
next
  case (string v)
  then show ?thesis using assms by (auto simp: parse_value_def spans_Cons spans_Nil)
qed

lemma recognizes_literal:
  "recognizes tokens (\<lambda>_. True) (parse_literal tokens col) (check_value col Literal)"
proof (rule recognizesI)
  fix a b
  assume "parse_literal tokens col a = Some b"
  then show "\<exists>xs. check_value col Literal xs \<and> spans tokens a xs b"
    by (intro parse_value_sound) (auto simp: parse_literal_def split: option.splits CheckValueKind.splits)
next
  fix a xs b
  assume "check_value col Literal xs" and "spans tokens a xs b"
  then show "parse_literal tokens col a = Some b"
    using parse_value_complete [of col Literal xs tokens a b] by (simp add: parse_literal_def)
qed

lemma parse_in_values_sound:
  "parse_in_values tokens col count a = Some b \<Longrightarrow>
     \<exists>xs. check_literals col (MAX_CHECK_IN_VALUES - count) xs \<and> spans tokens a xs b"
proof (induction tokens col count a rule: parse_in_values.induct)
  case (1 tokens col count a)
  from "1.prems" obtain c where c: "parse_literal tokens col a = Some c" and "count + 1 \<le> MAX_CHECK_IN_VALUES"
    by (auto simp: parse_in_values.simps [of tokens col count a] split: option.splits if_splits)
  then have left: "MAX_CHECK_IN_VALUES - count = Suc (MAX_CHECK_IN_VALUES - (count + 1))" by simp
  from recognizes_sound [OF recognizes_literal c] obtain us where
    us: "check_value col Literal us" "spans tokens a us c" by blast
  show ?case
  proof (cases "consume_symbol tokens (CHR '','') c")
    case None
    with "1.prems" c us left show ?thesis
      by (auto simp: parse_in_values.simps [of tokens col count a] split: if_splits)
  next
    case (Some d)
    with "1.prems" c have "parse_in_values tokens col (count + 1) d = Some b"
      by (auto simp: parse_in_values.simps [of tokens col count a] split: if_splits)
    with "1.IH" [OF c _ Some] \<open>count + 1 \<le> MAX_CHECK_IN_VALUES\<close> obtain vs where
      vs: "check_literals col (MAX_CHECK_IN_VALUES - (count + 1)) vs" "spans tokens d vs b" by auto
    with us Some have "spans tokens a (us @ Symbol (CHR '','') # vs) b"
      by (auto simp: consume_symbol_eq spans_simps spans_Nil)
    moreover have "check_literals col (MAX_CHECK_IN_VALUES - count) (us @ Symbol (CHR '','') # vs)"
      unfolding left using us vs by auto
    ultimately show ?thesis by blast
  qed
qed

lemma parse_in_values_complete:
  assumes "check_literals col n xs" and "spans tokens a xs b" and "list_get tokens b = Some (Symbol (CHR '')''))"
    and "n + count = MAX_CHECK_IN_VALUES"
  shows "parse_in_values tokens col count a = Some b"
  using assms
proof (induction col n xs arbitrary: a count rule: check_literals.induct)
  case (2 col n ts)
  note IH = "2.IH" and prems = "2.prems"
  have run: "parse_in_values tokens col count a =
      (case consume_symbol tokens (CHR '','') c of None \<Rightarrow> Some c
         | Some d \<Rightarrow> parse_in_values tokens col (count + 1) d)"
    if "check_value col Literal us" "spans tokens a us c" for us c
    using that 2(5) recognizes_complete [OF recognizes_literal that]
    by (subst parse_in_values.simps) simp
  from 2(2) consider "check_value col Literal ts"
    | us vs where "ts = us @ Symbol (CHR '','') # vs" "check_value col Literal us" "check_literals col n vs"
    by auto
  then show ?case
  proof cases
    case 1
    with run [OF 1 2(3)] 2(4) show ?thesis by (simp add: consume_symbol_def)
  next
    case (2 us vs)
    with 2(1) \<open>spans tokens a ts b\<close> obtain c where
      c: "spans tokens a us c" "list_get tokens c = Some (Symbol (CHR '',''))" "spans tokens (c + 1) vs b"
      by (auto simp: spans_simps)
    with run [OF 2(2) c(1)] IH [OF 2(3) c(3)] prems show ?thesis
      by (simp add: consume_symbol_def)
  qed
qed simp

lemma keywords_differ:
  "is_word ''in'' t \<Longrightarrow> \<not> is_word ''is'' t" "is_word ''or'' t \<Longrightarrow> \<not> is_word ''and'' t"
  by (cases t; simp add: eq_ignore_ascii_case_def; code_simp)+

lemma parse_comparison_sound:
  assumes "parse_comparison tokens col a = Some b"
  shows "\<exists>xs. check_comparison col xs \<and> spans tokens a xs b"
proof -
  from assms obtain left c where l: "parse_value tokens col a = Some (left, c)"
    by (auto simp: parse_comparison_def split: option.splits)
  from parse_value_sound [OF l] obtain us where us: "check_value col left us" "spans tokens a us c" by blast
  consider (is_null) u v where "left = Column" "is_word ''is'' u" "is_word ''null'' v" "spans tokens c [u, v] b"
    | (equals) d where "left \<noteq> Literal" "spans tokens c [Symbol (CHR ''='')] d" "parse_literal tokens col d = Some b"
    | (among) u d e where "left = Column" "is_word ''in'' u" "spans tokens c [u, Symbol (CHR ''('')] d"
        "parse_in_values tokens col 0 d = Some e" "spans tokens e [Symbol (CHR '')'')] b"
    using assms l CheckValueKind.exhaust [of left]
    by (auto simp: parse_comparison_def consume_eqs bind_eq_Some_conv spans_Cons spans_Nil
        split: option.splits if_splits)
  then show ?thesis
  proof cases
    case is_null
    with us have "spans tokens a (us @ [u, v]) b" "check_comparison col (us @ [u, v])"
      by (auto simp: spans_append check_comparison.is_null)
    then show ?thesis by blast
  next
    case equals
    from recognizes_sound [OF recognizes_literal equals(3)] obtain vs where
      "check_value col Literal vs" "spans tokens d vs b" by blast
    with us equals have "spans tokens a (us @ Symbol (CHR ''='') # vs) b"
      "check_comparison col (us @ Symbol (CHR ''='') # vs)"
      by (auto simp: spans_append spans_Cons spans_Nil intro: check_comparison.equals)
    then show ?thesis by blast
  next
    case among
    from parse_in_values_sound [OF among(4)] obtain vs where
      "check_literals col MAX_CHECK_IN_VALUES vs" "spans tokens d vs e" by auto
    with us among have "spans tokens a (us @ [u, Symbol (CHR ''('')] @ vs @ [Symbol (CHR '')'')]) b"
      "check_comparison col (us @ [u, Symbol (CHR ''('')] @ vs @ [Symbol (CHR '')'')])"
      by (auto simp only: spans_append intro: check_comparison.among)
    then show ?thesis by blast
  qed
qed

lemma parse_comparison_complete:
  assumes "check_comparison col xs" and "spans tokens a xs b"
  shows "parse_comparison tokens col a = Some b"
  using assms
proof cases
  case (is_null us u v)
  with assms obtain c where "spans tokens a us c" "spans tokens c [u, v] b" by (auto simp: spans_append)
  moreover from this is_null have "parse_value tokens col a = Some (Column, c)"
    by (intro parse_value_complete) (auto simp: spans_Cons)
  ultimately show ?thesis using is_null
    by (simp add: parse_comparison_def consume_word_def spans_Cons spans_Nil)
next
  case (equals kind us vs)
  with assms obtain c where "spans tokens a us c" "list_get tokens c = Some (Symbol (CHR ''=''))"
    and vs: "spans tokens (c + 1) vs b" by (auto simp: spans_simps)
  moreover from this equals have "parse_value tokens col a = Some (kind, c)"
    by (intro parse_value_complete) auto
  ultimately show ?thesis using equals recognizes_complete [OF recognizes_literal equals(4) vs]
    by (cases kind) (simp_all add: parse_comparison_def consume_word_def consume_symbol_def)
next
  case (among us u vs)
  with assms obtain c d where us: "spans tokens a us c"
    and get: "list_get tokens c = Some u" "list_get tokens (c + 1) = Some (Symbol (CHR ''(''))"
    and vs: "spans tokens (c + 2) vs d" and close: "list_get tokens d = Some (Symbol (CHR '')''))" "b = d + 1"
    by (auto simp: spans_append spans_Cons spans_Nil)
  from us get among have v: "parse_value tokens col a = Some (Column, c)"
    by (intro parse_value_complete) auto
  have "parse_in_values tokens col 0 (c + 2) = Some d"
    by (rule parse_in_values_complete [OF among(4) vs close(1)]) simp
  moreover have "consume_word tokens ''is'' c = None" "consume_symbol tokens (CHR ''='') c = None"
    "consume_word tokens ''in'' c = Some (c + 1)"
    using get(1) among(3) keywords_differ(1) [OF among(3)]
    by (auto simp: consume_word_def consume_symbol_def is_word_iff)
  ultimately show ?thesis using v get close
    by (simp add: parse_comparison_def consume_symbol_def)
qed

lemma check_comparison_start: "check_comparison col (t # xs) \<Longrightarrow> t \<noteq> Symbol (CHR ''('')"
  by (auto elim!: check_comparison.cases check_value.cases simp: is_column_def is_word_iff Cons_eq_append_conv
      split: SqlToken.splits)

lemma check_comparison_not_empty: "\<not> check_comparison col []"
  by (auto elim: check_comparison.cases)

section \<open>Expressions\<close>

lemma recognizes_predicate:
  assumes nested: "\<And>c d. list_get tokens d = Some (Symbol (CHR '')'')) \<Longrightarrow>
      nested c = Some d \<longleftrightarrow> (\<exists>us. N us \<and> spans tokens c us d)"
  shows "recognizes tokens (\<lambda>_. True) (parse_predicate tokens col nested)
    (\<lambda>ts. check_comparison col ts \<or> (\<exists>us. ts = Symbol (CHR ''('') # us @ [Symbol (CHR '')'')] \<and> N us))"
proof (rule recognizesI, goal_cases)
  case (1 a b)
  show ?case
  proof (cases "consume_symbol tokens (CHR ''('') a")
    case None
    with 1 parse_comparison_sound show ?thesis by (fastforce simp: parse_predicate_def)
  next
    case (Some c)
    with 1 obtain d where d: "nested c = Some d" "spans tokens d [Symbol (CHR '')'')] b"
      by (auto simp: parse_predicate_def bind_eq_Some_conv consume_symbol_eq)
    with nested [of d c] obtain us where us: "N us" "spans tokens c us d" by (auto simp: spans_single)
    with Some d have "spans tokens a (Symbol (CHR ''('') # us @ [Symbol (CHR '')'')]) b"
      by (auto simp: consume_symbol_eq spans_simps spans_Nil)
    with us show ?thesis by blast
  qed
next
  case (2 a ts b)
  from 2(1) show ?case
  proof
    assume ts: "check_comparison col ts"
    then obtain t xs where "ts = t # xs" using check_comparison_not_empty by (cases ts) auto
    with ts 2(2) check_comparison_start have "consume_symbol tokens (CHR ''('') a = None"
      by (auto simp: consume_symbol_def spans_Cons)
    with parse_comparison_complete [OF ts 2(2)] show ?thesis by (simp add: parse_predicate_def)
  next
    assume "\<exists>us. ts = Symbol (CHR ''('') # us @ [Symbol (CHR '')'')] \<and> N us"
    then obtain us where us: "ts = Symbol (CHR ''('') # us @ [Symbol (CHR '')'')]" "N us" by blast
    with 2(2) obtain d where d: "list_get tokens a = Some (Symbol (CHR ''(''))" "spans tokens (a + 1) us d"
      "list_get tokens d = Some (Symbol (CHR '')''))" "b = d + 1"
      by (auto simp: spans_simps spans_Nil)
    with nested [of d "a + 1"] us show ?thesis by (auto simp: parse_predicate_def consume_symbol_def)
  qed
qed

text \<open>After a whole expression stands neither \<open>AND\<close> nor \<open>OR\<close>.\<close>

definition ends_expression :: "SqlToken option \<Rightarrow> bool" where
  "ends_expression t \<longleftrightarrow> \<not> token_is_word t ''and'' \<and> \<not> token_is_word t ''or''"

lemma recognizes_junction:
  assumes "recognizes tokens (\<lambda>_. True) parse P"
  shows "recognizes tokens ends_expression
    (parse_separated tokens ''or'' (parse_separated tokens ''and'' parse)) (check_junction P)"
  unfolding check_junction_def
  by (rule recognizes_separated [where follow = "\<lambda>t. \<not> token_is_word t ''and''"],
      rule recognizes_separated [OF assms])
    (auto simp: ends_expression_def keywords_differ)

lemma parse_or_unfold:
  "depth \<le> MAX_CHECK_DEPTH \<Longrightarrow> parse_or_expression tokens col depth =
     parse_separated tokens ''or'' (parse_separated tokens ''and''
       (parse_predicate tokens col (parse_or_expression tokens col (depth + 1))))"
  by (rule ext, subst parse_or_expression.simps) (simp add: parse_and_expression_def)

lemma recognizes_expression:
  "n < MAX_CHECK_DEPTH \<Longrightarrow>
   recognizes tokens ends_expression (parse_or_expression tokens col (MAX_CHECK_DEPTH - n)) (check_expression col n)"
proof (induction n)
  case 0
  have deep: "parse_or_expression tokens col (MAX_CHECK_DEPTH + 1) c = None" for c
    by (subst parse_or_expression.simps) simp
  have "recognizes tokens (\<lambda>_. True) (parse_predicate tokens col (parse_or_expression tokens col (MAX_CHECK_DEPTH + 1)))
      (\<lambda>ts. check_comparison col ts \<or> (\<exists>us. ts = Symbol (CHR ''('') # us @ [Symbol (CHR '')'')] \<and> False))"
    by (rule recognizes_predicate) (simp only: deep option.distinct simp_thms)
  from recognizes_junction [OF this] show ?case by (simp add: parse_or_unfold)
next
  case (Suc n)
  then have IH: "recognizes tokens ends_expression (parse_or_expression tokens col (MAX_CHECK_DEPTH - n))
      (check_expression col n)" by simp
  have depth: "MAX_CHECK_DEPTH - Suc n + 1 = MAX_CHECK_DEPTH - n" using Suc.prems by simp
  have "recognizes tokens (\<lambda>_. True) (parse_predicate tokens col (parse_or_expression tokens col (MAX_CHECK_DEPTH - n)))
      (\<lambda>ts. check_comparison col ts \<or>
        (\<exists>us. ts = Symbol (CHR ''('') # us @ [Symbol (CHR '')'')] \<and> check_expression col n us))"
  proof (rule recognizes_predicate)
    fix c d
    assume "list_get tokens d = Some (Symbol (CHR '')''))"
    then show "parse_or_expression tokens col (MAX_CHECK_DEPTH - n) c = Some d \<longleftrightarrow>
        (\<exists>us. check_expression col n us \<and> spans tokens c us d)"
      using recognizes_sound [OF IH, of c d] recognizes_complete [OF IH, of _ c d]
      by (auto simp: ends_expression_def)
  qed
  from recognizes_junction [OF this] show ?case by (simp add: parse_or_unfold depth [simplified])
qed

lemma check_constraint_iff:
  "parse_check_constraint tokens cursor column_name = Some after \<longleftrightarrow>
     length tokens - cursor \<le> 96 \<and>
     (\<exists>us. check_expression column_name 5 us \<and>
       spans tokens cursor (Symbol (CHR ''('') # us @ [Symbol (CHR '')'')]) after)"
proof -
  have depth: "MAX_CHECK_DEPTH - 5 = 1" by (simp add: MAX_CHECK_DEPTH_def)
  have rec: "recognizes tokens ends_expression (parse_or_expression tokens column_name 1)
      (check_expression column_name 5)"
    using recognizes_expression [of 5] unfolding depth by (simp add: MAX_CHECK_DEPTH_def)
  have body: "parse_or_expression tokens column_name 1 c = Some d \<longleftrightarrow>
      (\<exists>us. check_expression column_name 5 us \<and> spans tokens c us d)"
    if "list_get tokens d = Some (Symbol (CHR '')''))" for c d
    using that recognizes_sound [OF rec, of c d] recognizes_complete [OF rec, of _ c d]
    by (auto simp: ends_expression_def)
  have "parse_check_constraint tokens cursor column_name = Some after \<longleftrightarrow>
      length tokens - cursor \<le> 96 \<and> (\<exists>d. list_get tokens cursor = Some (Symbol (CHR ''('')) \<and>
        parse_or_expression tokens column_name 1 (cursor + 1) = Some d \<and>
        list_get tokens d = Some (Symbol (CHR '')'')) \<and> after = d + 1)"
    by (auto simp: parse_check_constraint_def MAX_CHECK_TOKENS_def bind_eq_Some_conv consume_symbol_def
        list_get_def split: if_splits)
  moreover have "spans tokens cursor (Symbol (CHR ''('') # us @ [Symbol (CHR '')'')]) after \<longleftrightarrow>
      list_get tokens cursor = Some (Symbol (CHR ''('')) \<and> (\<exists>d. spans tokens (cursor + 1) us d \<and>
        list_get tokens d = Some (Symbol (CHR '')'')) \<and> after = d + 1)" for us
    unfolding spans_Cons [of _ _ "Symbol (CHR ''('')"] spans_append spans_single by blast
  ultimately show ?thesis using body by blast
qed

text \<open>C8: The recursive-descent parser of \<open>CHECK\<close> constraints accepts exactly the
  bounded grammar: from a cursor it stops at another one if and only if at most 96 tokens are left
  and the tokens between the two are a parenthesized expression of the grammar with at most five
  further levels of parentheses. In particular every expression of the grammar is accepted, nothing
  else is, and each accepted constraint constrains the added column against literals only.
\<close>

theorem check_constraint_exact:
  "parse_check_constraint tokens cursor column_name = Some after \<longleftrightarrow>
     length tokens - cursor \<le> 96 \<and>
     (\<exists>us. check_expression column_name 5 us \<and>
       spans tokens cursor (Symbol (CHR ''('') # us @ [Symbol (CHR '')'')]) after)"
  by (rule check_constraint_iff)

end
