(* ===== verification/D1_Additive_Sound.thy ===== *)
theory D1_Additive_Sound
  imports D1_Check_Grammar
begin

text \<open>
  The additive contract: each bounded \<open>ADD COLUMN\<close> statement is read as the effect it states, and an
  accepted chain of state expectations only ever appends the declared columns and adds the declared
  objects.
\<close>

section \<open>Reading \<open>ADD COLUMN\<close>\<close>

datatype default_form =
    NoDefault
  | DefaultNull
  | DefaultDigits string
  | DefaultSigned char string
  | DefaultText string

fun default_tokens :: "default_form \<Rightarrow> SqlToken list" where
  "default_tokens NoDefault = []"
| "default_tokens DefaultNull = [Word ''DEFAULT'', Word ''NULL'']"
| "default_tokens (DefaultDigits d) = [Word ''DEFAULT'', Word d]"
| "default_tokens (DefaultSigned s d) = [Word ''DEFAULT'', Symbol s, Word d]"
| "default_tokens (DefaultText v) = [Word ''DEFAULT'', StringLiteral v]"

fun default_text :: "default_form \<Rightarrow> string option" where
  "default_text NoDefault = None"
| "default_text DefaultNull = Some ''NULL''"
| "default_text (DefaultDigits d) = Some d"
| "default_text (DefaultSigned s d) = Some (s # d)"
| "default_text (DefaultText v) = Some (quote_sql_string v)"

fun default_wf :: "default_form \<Rightarrow> bool" where
  "default_wf (DefaultDigits d) \<longleftrightarrow> list_all is_ascii_digit d"
| "default_wf (DefaultSigned s d) \<longleftrightarrow> (s = CHR ''-'' \<or> s = CHR ''+'') \<and> list_all is_ascii_digit d"
| "default_wf _ \<longleftrightarrow> True"

fun check_tokens :: "SqlToken list option \<Rightarrow> SqlToken list" where
  "check_tokens None = []"
| "check_tokens (Some us) = Word ''CHECK'' # Symbol (CHR ''('') # us @ [Symbol (CHR '')'')]"

fun check_wf :: "string \<Rightarrow> SqlToken list option \<Rightarrow> bool" where
  "check_wf name None \<longleftrightarrow> True"
| "check_wf name (Some us) \<longleftrightarrow> check_expression name 5 us \<and> length us + 2 \<le> 96"

definition add_column_tokens ::
  "string \<Rightarrow> string \<Rightarrow> string \<Rightarrow> bool \<Rightarrow> default_form \<Rightarrow> SqlToken list option \<Rightarrow> SqlToken list" where
  "add_column_tokens table name declared not_null form check =
     [Word ''ALTER'', Word ''TABLE'', Word table, Word ''ADD'', Word ''COLUMN'', Word name, Word declared]
     @ (if not_null then [Word ''NOT'', Word ''NULL''] else []) @ default_tokens form @ check_tokens check"

lemma list_get_append: "list_get (xs @ ys) (length xs + i) = list_get ys i"
  by (simp add: list_get_def nth_append)

lemma list_get_Cons [simp]:
  "list_get (x # xs) 0 = Some x" "list_get (x # xs) (Suc i) = list_get xs i" "list_get [] i = None"
  by (simp_all add: list_get_def)

lemma statement_words [simp]:
  "\<not> eq_ignore_ascii_case ''CHECK'' ''default''" "\<not> eq_ignore_ascii_case ''CHECK'' ''not''"
  "\<not> eq_ignore_ascii_case ''DEFAULT'' ''not''" "\<not> eq_ignore_ascii_case ''DEFAULT'' ''check''"
  "eq_ignore_ascii_case ''ALTER'' ''alter''" "eq_ignore_ascii_case ''TABLE'' ''table''"
  "eq_ignore_ascii_case ''ADD'' ''add''" "eq_ignore_ascii_case ''COLUMN'' ''column''"
  "eq_ignore_ascii_case ''NOT'' ''not''" "eq_ignore_ascii_case ''NULL'' ''null''"
  "eq_ignore_ascii_case ''DEFAULT'' ''default''" "eq_ignore_ascii_case ''CHECK'' ''check''"
  by code_simp+

lemma digits_not_null: "list_all is_ascii_digit d \<Longrightarrow> \<not> eq_ignore_ascii_case d ''null''"
  using digits_not_word [of d "''null''"] by (simp add: byte_defs)

lemma optional_check_reads:
  assumes "check_wf name check"
  shows "optional_check (pre @ check_tokens check) name (length pre) =
    Some (length (pre @ check_tokens check))"
proof (cases check)
  case None
  have "list_get (pre @ []) (length pre + 0) = list_get [] 0" by (rule list_get_append)
  then show ?thesis using None by (simp add: optional_check_def)
next
  case (Some us)
  let ?tokens = "pre @ Word ''CHECK'' # Symbol (CHR ''('') # us @ [Symbol (CHR '')'')]"
  have "spans ?tokens (length pre + 1) (Symbol (CHR ''('') # us @ [Symbol (CHR '')'')]) (length ?tokens)"
    by (simp add: spans_def)
  with assms Some have "parse_check_constraint ?tokens (length pre + 1) name = Some (length ?tokens)"
    by (subst check_constraint_iff) auto
  moreover have "list_get ?tokens (length pre + 0) = Some (Word ''CHECK'')" by (simp only: list_get_append list_get_Cons)
  ultimately show ?thesis using Some by (simp add: optional_check_def)
qed

lemma optional_default_reads:
  assumes "default_wf form"
  shows "optional_default (pre @ default_tokens form @ check_tokens check) (length pre) =
    Some (default_text form, length (pre @ default_tokens form))"
proof -
  let ?rest = "default_tokens form @ check_tokens check"
  have get: "list_get (pre @ ?rest) (length pre) = list_get ?rest 0"
    "list_get (pre @ ?rest) (Suc (length pre)) = list_get ?rest 1"
    "list_get (pre @ ?rest) (Suc (Suc (length pre))) = list_get ?rest 2"
    using list_get_append [of pre ?rest 0] list_get_append [of pre ?rest 1] list_get_append [of pre ?rest 2]
    by simp_all
  show ?thesis
  proof (cases form)
    case NoDefault
    then show ?thesis using get by (cases check) (simp_all add: optional_default_def)
  qed (use assms get digits_not_null in \<open>auto simp: optional_default_def parse_default_def numeral_2_eq_2\<close>)
qed

text \<open>C33: Round trip: every bounded \<open>ALTER TABLE ... ADD COLUMN\<close> statement, with any
  canonical names and type, an optional \<open>NOT NULL\<close>, any of the five default forms and any \<open>CHECK\<close> of the
  grammar, is classified as exactly the effect it declares; only \<open>NOT NULL DEFAULT NULL\<close> is left out.
\<close>

theorem add_column_roundtrip:
  assumes "canonical_identifier table" and "canonical_identifier name" and "canonical_type_word declared"
    and "default_wf form" and "check_wf name check" and "\<not> (not_null \<and> form = DefaultNull)"
  shows "classify_additive_statement (add_column_tokens table name declared not_null form check) =
    Inr (Some (AddColumn \<lparr>eff_table_name = table, eff_column = \<lparr>col_cid = - 1, col_name = name,
      col_declared_type = canonical_declared_type declared, col_not_null = not_null,
      col_default_value = default_text form, col_primary_key_position = 0, col_hidden = 0\<rparr>\<rparr>))"
proof -
  define nn where "nn = (if not_null then [Word ''NOT'', Word ''NULL''] else [])"
  define head where "head = [Word ''ALTER'', Word ''TABLE'', Word table, Word ''ADD'', Word ''COLUMN'', Word name, Word declared]"
  let ?tokens = "add_column_tokens table name declared not_null form check"
  have tokens: "?tokens = (head @ nn) @ default_tokens form @ check_tokens check"
    by (simp add: add_column_tokens_def head_def nn_def)
  have at: "list_get ?tokens 0 = Some (Word ''ALTER'')" "list_get ?tokens 1 = Some (Word ''TABLE'')"
    "list_get ?tokens 2 = Some (Word table)" "list_get ?tokens 3 = Some (Word ''ADD'')"
    "list_get ?tokens 4 = Some (Word ''COLUMN'')" "list_get ?tokens 5 = Some (Word name)"
    "list_get ?tokens 6 = Some (Word declared)"
    by (simp_all add: add_column_tokens_def numeral_eq_Suc)
  have seven: "length head = 7" by (simp add: head_def)
  have not_null: "(token_is_word (list_get ?tokens 7) ''not'' \<and> token_is_word (list_get ?tokens 8) ''null'') = not_null"
    by (cases not_null; cases form; cases check) (simp_all add: add_column_tokens_def numeral_eq_Suc)
  have null: "default_text form = Some ''NULL'' \<longleftrightarrow> form = DefaultNull"
    using assms(4) by (cases form) (auto simp: quote_sql_string_def byte_defs)
  have cursor: "(if not_null then 9 else 7) = length (head @ nn)" by (simp add: seven nn_def)
  have d: "optional_default ?tokens (if not_null then 9 else 7) =
      Some (default_text form, length ((head @ nn) @ default_tokens form))"
    unfolding cursor tokens by (rule optional_default_reads [OF assms(4)])
  have c: "optional_check ?tokens name (length ((head @ nn) @ default_tokens form)) = Some (length ?tokens)"
    using optional_check_reads [OF assms(5), of "(head @ nn) @ default_tokens form"] by (simp add: tokens)
  obtain ts where ts: "?tokens = ts" by blast
  have "parse_add_column_option ts = Some \<lparr>eff_table_name = table, eff_column = \<lparr>col_cid = - 1, col_name = name,
      col_declared_type = canonical_declared_type declared, col_not_null = not_null,
      col_default_value = default_text form, col_primary_key_position = 0, col_hidden = 0\<rparr>\<rparr>"
    using assms(1-3,6) at not_null d c unfolding ts
    by (cases not_null)
      (auto simp: parse_add_column_option_def consume_word_def canonical_unquoted_identifier_def
        declared_type_at_def null Let_def)
  with at ts show ?thesis by (simp add: classify_additive_statement_def parse_add_column_def)
qed

theorem add_column_roundtrip_witness:
  "classify_additive_statement (add_column_tokens ''items'' ''status'' ''text'' True (DefaultText ''a'')
      (Some [Word ''STATUS'', Word ''IS'', Word ''NULL''])) =
    Inr (Some (AddColumn \<lparr>eff_table_name = ''items'', eff_column = \<lparr>col_cid = - 1, col_name = ''status'',
      col_declared_type = ''TEXT'', col_not_null = True, col_default_value = Some [CHR 0x27, CHR ''a'', CHR 0x27],
      col_primary_key_position = 0, col_hidden = 0\<rparr>\<rparr>))"
proof -
  have col: "check_value ''status'' Column [Word ''STATUS'']"
    by (rule check_value.column) code_simp
  have "check_comparison ''status'' ([Word ''STATUS''] @ [Word ''IS'', Word ''NULL''])"
    by (rule check_comparison.is_null [OF col]) code_simp+
  then have check: "check_wf ''status'' (Some [Word ''STATUS'', Word ''IS'', Word ''NULL''])"
    by (simp add: numeral_eq_Suc check_junction_def separated_by.one)
  have names: "canonical_identifier ''items''" "canonical_identifier ''status''" "canonical_type_word ''text''"
    by code_simp+
  have texts: "canonical_declared_type ''text'' = ''TEXT''"
    "default_text (DefaultText ''a'') = Some [CHR 0x27, CHR ''a'', CHR 0x27]"
    by code_simp+
  show ?thesis
    using add_column_roundtrip [OF names _ check, of "DefaultText ''a''" True] unfolding texts by simp
qed

section \<open>Transitions\<close>

lemma try_each_ok [result_simps]: "try_each f xs = Inr u \<longleftrightarrow> (\<forall>x \<in> set xs. f x = Inr ())"
  by (induction xs) (auto simp: result_simps)

lemma require_ok [result_simps]: "require b e = Inr u \<longleftrightarrow> b"
  by (simp add: require_def)

lemma bmap_wf_fold: "bmap_wf m \<Longrightarrow> bmap_wf (fold (\<lambda>(k, v). bmap_insert k v) entries m)"
  by (induction entries arbitrary: m) (auto simp: split_beta)

lemma state_maps_wf: "bmap_wf (object_map state)" "bmap_wf (table_map state)"
  by (simp_all add: object_map_def table_map_def bmap_wf_fold)

lemmas in_state_maps = bmap_get_iff [OF state_maps_wf(1)] bmap_get_iff [OF state_maps_wf(2)]

lemma object_map_identity: "map_of (object_map state) k = Some object \<Longrightarrow> k = (obj_type object, obj_name object)"
  using map_of_fold_insert [of "[]" "map (\<lambda>object. ((obj_type object, obj_name object), object)) (schema_objects state)" k object]
  by (auto simp: object_map_def)

definition added_columns :: "AdditivePrefixPlan \<Rightarrow> string \<Rightarrow> D1MigrationColumnExpectation list" where
  "added_columns plan name =
     (case addition plan of
        None \<Rightarrow> [] | Some effect \<Rightarrow> (if eff_table_name effect = name then [eff_column effect] else []))"

text \<open>A column without its position.\<close>

definition declared_part :: "D1MigrationColumnExpectation \<Rightarrow> D1MigrationColumnExpectation" where
  "declared_part column = column\<lparr>col_cid := - 1\<rparr>"

lemma column_append_ok:
  assumes "validate_column_append previous current effect = Inr ()"
  shows "tab_foreign_keys current = tab_foreign_keys previous \<and>
    tab_columns current =
      tab_columns previous @ [(eff_column effect)\<lparr>col_cid := expected_cid (tab_columns previous)\<rparr>]"
proof -
  from assms have *: "tab_foreign_keys current = tab_foreign_keys previous"
    "length (tab_columns current) = length (tab_columns previous) + 1"
    "take (length (tab_columns previous)) (tab_columns current) = tab_columns previous"
    "last (tab_columns current) = (eff_column effect)\<lparr>col_cid := expected_cid (tab_columns previous)\<rparr>"
    by (auto simp: validate_column_append_def split: if_splits)
  then have "tab_columns current \<noteq> []" "butlast (tab_columns current) = tab_columns previous"
    by (auto simp: butlast_conv_take)
  with * show ?thesis by (metis append_butlast_last_id)
qed

lemma prefix_transition_table:
  assumes "validate_prefix_transition previous current plan = Inr ()"
    and "map_of (table_map previous) name = Some table"
  shows "\<exists>table'. map_of (table_map current) name = Some table' \<and>
    tab_foreign_keys table' = tab_foreign_keys table \<and>
    take (length (tab_columns table)) (tab_columns table') = tab_columns table \<and>
    map declared_part (tab_columns table') =
      map declared_part (tab_columns table) @ map declared_part (added_columns plan name)"
proof -
  from assms have "retained_table (table_map current) (addition plan) (name, table) = Inr ()"
    by (auto simp: validate_prefix_transition_def Let_def result_simps in_state_maps)
  then show ?thesis
    by (auto simp: retained_table_def added_columns_def declared_part_def result_simps
        split: option.splits if_splits dest!: column_append_ok)
qed

lemma prefix_transition_object:
  assumes "validate_prefix_transition previous current plan = Inr ()"
    and "map_of (object_map previous) identity = Some object"
  shows "\<exists>object'. map_of (object_map current) identity = Some object' \<and>
    obj_table_name object' = obj_table_name object \<and>
    (object' = object \<or> (\<exists>effect. addition plan = Some effect \<and> identity = (''table'', eff_table_name effect)))"
proof -
  from assms have "retained_object (object_map current) (map_option eff_table_name (addition plan)) (identity, object) = Inr ()"
    by (auto simp: validate_prefix_transition_def Let_def result_simps in_state_maps)
  with object_map_identity [OF assms(2)] show ?thesis
    by (auto simp: retained_object_def result_simps split: option.splits if_splits)
qed

lemma prefix_transition_new_object:
  assumes "validate_prefix_transition previous current plan = Inr ()"
    and "map_of (object_map current) identity \<noteq> None" and "map_of (object_map previous) identity = None"
  shows "identity \<in> set (created_objects plan)"
proof -
  from assms(2) obtain object where "(identity, object) \<in> set (object_map current)"
    by (auto dest: map_of_SomeD)
  with assms(1) have "new_object (object_map previous) (created_objects plan) (identity, object) = Inr ()"
    by (auto simp: validate_prefix_transition_def Let_def result_simps)
  with assms(3) show ?thesis by (simp add: new_object_def result_simps)
qed

lemma transitions_step:
  assumes "validate_additive_transitions plan states = Inr ()" and "k < length (prefixes plan)"
  shows "validate_prefix_transition (states ! k) (states ! (k + 1)) (prefixes plan ! k) = Inr ()"
proof -
  have "(k, prefixes plan ! k) \<in> set (enumerate 0 (prefixes plan))"
    using assms(2) by (simp add: in_set_enumerate_eq)
  with assms(1) show ?thesis
    by (auto simp: validate_additive_transitions_def result_simps split: if_splits)
qed

lemma transitions_length:
  "validate_additive_transitions plan states = Inr () \<Longrightarrow> length states = length (prefixes plan) + 1"
  by (auto simp: validate_additive_transitions_def split: if_splits)

text \<open>C7: Safety of an accepted additive manifest: between any two of its
  prefixes no table is lost, no foreign key changes and no earlier column is touched; the later
  columns of a table are the earlier ones followed by exactly the columns that the statements in
  between declare for it, in their order.
\<close>

theorem additive_tables_append_only:
  assumes "validate_additive_transitions plan states = Inr ()" and "i \<le> j" and "j < length states"
    and "map_of (table_map (states ! i)) name = Some table"
  shows "\<exists>table'. map_of (table_map (states ! j)) name = Some table' \<and>
    tab_foreign_keys table' = tab_foreign_keys table \<and>
    take (length (tab_columns table)) (tab_columns table') = tab_columns table \<and>
    map declared_part (tab_columns table') = map declared_part (tab_columns table) @
      map declared_part (concat (map (\<lambda>k. added_columns (prefixes plan ! k) name) [i..<j]))"
  using assms(2,3)
proof (induction j rule: dec_induct)
  case base
  with assms(4) show ?case by simp
next
  case (step j)
  then obtain mid where mid: "map_of (table_map (states ! j)) name = Some mid"
    "tab_foreign_keys mid = tab_foreign_keys table"
    "take (length (tab_columns table)) (tab_columns mid) = tab_columns table"
    "map declared_part (tab_columns mid) = map declared_part (tab_columns table) @
      map declared_part (concat (map (\<lambda>k. added_columns (prefixes plan ! k) name) [i..<j]))"
    by auto
  from step.prems transitions_length [OF assms(1)] have "j < length (prefixes plan)" by simp
  from prefix_transition_table [OF transitions_step [OF assms(1) this] mid(1)] obtain table' where
    t: "map_of (table_map (states ! (j + 1))) name = Some table'" "tab_foreign_keys table' = tab_foreign_keys mid"
    "take (length (tab_columns mid)) (tab_columns table') = tab_columns mid"
    "map declared_part (tab_columns table') =
      map declared_part (tab_columns mid) @ map declared_part (added_columns (prefixes plan ! j) name)" by blast
  have "length (tab_columns table) \<le> length (tab_columns mid)"
    using mid(3) by (metis length_take min.cobounded2 min.commute)
  then have "take (length (tab_columns table)) (tab_columns table') = tab_columns table"
    by (metis mid(3) t(3) min.absorb1 take_take)
  with t mid step.hyps show ?case by simp
qed

text \<open>C34: Between any two prefixes of an accepted additive manifest every schema
  object is accounted for: one that was there stays with its table and is unchanged unless a statement
  in between alters it as a table, and one that is new was declared by a \<open>CREATE\<close> in between.
\<close>

theorem additive_objects_accounted:
  assumes "validate_additive_transitions plan states = Inr ()" and "i \<le> j" and "j < length states"
  shows "(\<forall>object. map_of (object_map (states ! i)) identity = Some object \<longrightarrow>
      (\<exists>object'. map_of (object_map (states ! j)) identity = Some object' \<and>
         obj_table_name object' = obj_table_name object \<and>
         (object' = object \<or> (\<exists>k effect. i \<le> k \<and> k < j \<and> addition (prefixes plan ! k) = Some effect \<and>
            identity = (''table'', eff_table_name effect))))) \<and>
    (map_of (object_map (states ! i)) identity = None \<and> map_of (object_map (states ! j)) identity \<noteq> None \<longrightarrow>
      (\<exists>k. i \<le> k \<and> k < j \<and> identity \<in> set (created_objects (prefixes plan ! k))))"
  using assms(2,3)
proof (induction j rule: dec_induct)
  case (step j)
  from step.prems transitions_length [OF assms(1)] have "j < length (prefixes plan)" by simp
  note now = transitions_step [OF assms(1) this]
  from step have IH: "j < length states" by simp
  note IH = step.IH [OF this]
  show ?case
  proof (intro conjI allI impI, goal_cases)
    case (1 object)
    with IH obtain mid where mid: "map_of (object_map (states ! j)) identity = Some mid"
      "obj_table_name mid = obj_table_name object"
      "mid = object \<or> (\<exists>k effect. i \<le> k \<and> k < j \<and> addition (prefixes plan ! k) = Some effect \<and>
            identity = (''table'', eff_table_name effect))" by blast
    from prefix_transition_object [OF now mid(1)] mid step.hyps show ?case
      by simp (metis less_SucI less_Suc_eq)
  next
    case 2
    show ?case
    proof (cases "map_of (object_map (states ! j)) identity = None")
      case True
      with 2 prefix_transition_new_object [OF now] step.hyps show ?thesis by (metis Suc_eq_plus1 lessI)
    next
      case False
      with IH 2 show ?thesis by (metis less_SucI)
    qed
  qed
qed auto

end
