(* ===== verification/D1_Additive_Samples.thy ===== *)
theory D1_Additive_Samples
  imports D1_Additive_Sound
begin

text \<open>A manifest of two prefixes: one appends a column to \<open>items\<close>, the next creates a table.\<close>

definition sample_column :: "int \<Rightarrow> string \<Rightarrow> D1MigrationColumnExpectation" where
  "sample_column cid name = \<lparr>col_cid = cid, col_name = name, col_declared_type = ''TEXT'', col_not_null = False,
     col_default_value = None, col_primary_key_position = 0, col_hidden = 0\<rparr>"

definition sample_object :: "string \<Rightarrow> string \<Rightarrow> D1MigrationSchemaObjectExpectation" where
  "sample_object name digest = \<lparr>obj_type = ''table'', obj_name = name, obj_table_name = name, obj_sql_sha256 = digest\<rparr>"

definition sample_table :: "string \<Rightarrow> D1MigrationColumnExpectation list \<Rightarrow> D1MigrationTableExpectation" where
  "sample_table name columns = \<lparr>tab_name = name, tab_columns = columns, tab_foreign_keys = []\<rparr>"

definition sample_state ::
  "nat \<Rightarrow> D1MigrationSchemaObjectExpectation list \<Rightarrow> D1MigrationTableExpectation list \<Rightarrow> unit D1MigrationStateExpectation" where
  "sample_state n objects ts = \<lparr>manifest_prefix_length = n, schema_objects = objects, tables = ts, seed_tables = []\<rparr>"

definition additive_plan :: AdditiveManifestPlan where
  "additive_plan = \<lparr>prefixes =
     [\<lparr>created_objects = [],
        addition = Some \<lparr>eff_table_name = ''items'', eff_column = sample_column (- 1) ''status''\<rparr>,
        foreign_keys_on = False\<rparr>,
      \<lparr>created_objects = [(''table'', ''logs'')], addition = None, foreign_keys_on = True\<rparr>]\<rparr>"

definition additive_states :: "unit D1MigrationStateExpectation list" where
  "additive_states =
     [sample_state 0 [sample_object ''items'' ''a''] [sample_table ''items'' [sample_column 0 ''id'']],
      sample_state 1 [sample_object ''items'' ''b'']
        [sample_table ''items'' [sample_column 0 ''id'', sample_column 1 ''status'']],
      sample_state 2 [sample_object ''items'' ''b'', sample_object ''logs'' ''c'']
        [sample_table ''items'' [sample_column 0 ''id'', sample_column 1 ''status''],
         sample_table ''logs'' [sample_column 0 ''line'']]]"

lemma sample_transitions: "validate_additive_transitions additive_plan additive_states = Inr ()"
  by code_simp

lemma sample_maps:
  "map_of (table_map (additive_states ! 0)) ''items'' = Some (sample_table ''items'' [sample_column 0 ''id''])"
  "map_of (object_map (additive_states ! 0)) (''table'', ''logs'') = None"
  "map_of (object_map (additive_states ! 2)) (''table'', ''logs'') \<noteq> None"
  "length additive_states = 3"
  by code_simp+

theorem additive_tables_append_only_witness:
  "validate_additive_transitions additive_plan additive_states = Inr () \<and>
   (\<exists>table'. map_of (table_map (additive_states ! 2)) ''items'' = Some table' \<and>
     map declared_part (tab_columns table') = [sample_column (- 1) ''id'', sample_column (- 1) ''status''])"
proof -
  have columns: "map declared_part (tab_columns (sample_table ''items'' [sample_column 0 ''id''])) @
      map declared_part (concat (map (\<lambda>k. added_columns (prefixes additive_plan ! k) ''items'') [0..<2])) =
      [sample_column (- 1) ''id'', sample_column (- 1) ''status'']"
    by code_simp
  from additive_tables_append_only [OF sample_transitions _ _ sample_maps(1), of 2]
  show ?thesis unfolding columns sample_maps(4) using sample_transitions by auto
qed

theorem additive_objects_accounted_witness:
  "validate_additive_transitions additive_plan additive_states = Inr () \<and>
   (\<exists>k. 0 \<le> k \<and> k < 2 \<and> (''table'', ''logs'') \<in> set (created_objects (prefixes additive_plan ! k)))"
  using additive_objects_accounted [OF sample_transitions, of 0 2 "(''table'', ''logs'')"] sample_maps
    sample_transitions by simp

end
