(* ===== verification/D1_Seed_Rows.thy ===== *)
theory D1_Seed_Rows
  imports D1_Additive D1_Catalog "HOL-Library.Multiset"
begin

text \<open>
  \<open>src/d1_migration_seed_rows.rs\<close>: the closed grammar of seed \<open>INSERT\<close> statements, the cumulative set of
  seed tables, and the comparison of the rows read back from the provider with the reviewed ones by a
  digest over canonical rows. The rows a provider returns are JSON objects.
\<close>

section \<open>Literals\<close>

datatype SeedAssertionVersion = V1 | V2 | V3Fts

fun proof_version :: "SeedAssertionVersion \<Rightarrow> nat" where
  "proof_version V1 = 1" | "proof_version V2 = 2" | "proof_version V3Fts = 3"

definition allows_null :: "SeedAssertionVersion \<Rightarrow> bool" where
  "allows_null version \<longleftrightarrow> version = V2 \<or> version = V3Fts"

definition allows_blob :: "SeedAssertionVersion \<Rightarrow> bool" where
  "allows_blob version \<longleftrightarrow> version = V3Fts"

definition MAX_SEED_TABLES :: nat where "MAX_SEED_TABLES = 16"
definition MAX_SEED_COLUMNS_PER_TABLE :: nat where "MAX_SEED_COLUMNS_PER_TABLE = 16"
definition MAX_SEED_ROWS_PER_TABLE :: nat where "MAX_SEED_ROWS_PER_TABLE = 256"
definition MAX_SEED_ROWS_TOTAL :: nat where "MAX_SEED_ROWS_TOTAL = 1024"
definition MAX_SEED_VALUE_BYTES :: nat where "MAX_SEED_VALUE_BYTES = 1024"
definition MAX_SEED_LITERAL_BYTES_TOTAL :: nat where "MAX_SEED_LITERAL_BYTES_TOTAL = 64 * 1024"
definition MAX_SEED_STATEMENT_TOKENS :: nat where "MAX_SEED_STATEMENT_TOKENS = 4096"

datatype SeedLiteral = SeedNull | SeedText string | SeedInteger int | SeedBlob bytes

text \<open>The derived \<open>Ord\<close>: the variants in their order, then their contents.\<close>

fun literal_key :: "SeedLiteral \<Rightarrow> nat \<times> string \<times> int" where
  "literal_key SeedNull = (0, [], 0)"
| "literal_key (SeedText v) = (1, v, 0)"
| "literal_key (SeedInteger i) = (2, [], i)"
| "literal_key (SeedBlob v) = (3, v, 0)"

lemma literal_key_inject [simp]: "literal_key a = literal_key b \<longleftrightarrow> a = b"
  by (cases a; cases b) simp_all

instantiation SeedLiteral :: linorder
begin

definition less_eq_SeedLiteral :: "SeedLiteral \<Rightarrow> SeedLiteral \<Rightarrow> bool" where
  "less_eq_SeedLiteral a b \<longleftrightarrow> literal_key a \<le> literal_key b"

definition less_SeedLiteral :: "SeedLiteral \<Rightarrow> SeedLiteral \<Rightarrow> bool" where
  "less_SeedLiteral a b \<longleftrightarrow> literal_key a < literal_key b"

instance
  by standard (auto simp: less_eq_SeedLiteral_def less_SeedLiteral_def less_le_not_le)

end

definition hex_upper :: "bytes \<Rightarrow> string" where
  "hex_upper bs = concat (map (\<lambda>b. [upper_hex_digit (byte b div 16), upper_hex_digit (byte b mod 16)]) bs)"

text \<open>The number of decimal digits of a magnitude, none for zero.\<close>

fun digit_count :: "nat \<Rightarrow> nat" where
  "digit_count m = (if m = 0 then 0 else 1 + digit_count (m div 10))"

declare digit_count.simps [simp del]

definition signed_decimal_len :: "int \<Rightarrow> nat" where
  "signed_decimal_len v = (if v = 0 then 1 else (if v < 0 then 1 else 0) + digit_count (nat \<bar>v\<bar>))"

fun canonical_value :: "SeedLiteral \<Rightarrow> string option" where
  "canonical_value SeedNull = None"
| "canonical_value (SeedText v) = Some (hex_upper v)"
| "canonical_value (SeedInteger i) = Some (i64_to_string i)"
| "canonical_value (SeedBlob v) = Some (hex_upper v)"

definition saturating_mul :: "usize \<Rightarrow> usize \<Rightarrow> usize" where
  "saturating_mul a b = min (a * b) usize_MAX"

fun canonical_value_bytes :: "SeedLiteral \<Rightarrow> nat" where
  "canonical_value_bytes SeedNull = 0"
| "canonical_value_bytes (SeedText v) = saturating_mul (length v) 2"
| "canonical_value_bytes (SeedInteger i) = signed_decimal_len i"
| "canonical_value_bytes (SeedBlob v) = saturating_mul (length v) 2"

fun storage_class :: "SeedLiteral \<Rightarrow> string" where
  "storage_class SeedNull = ''null''"
| "storage_class (SeedText _) = ''text''"
| "storage_class (SeedInteger _) = ''integer''"
| "storage_class (SeedBlob _) = ''blob''"

section \<open>States and errors\<close>

record SeedInsertEffect =
  sie_version :: SeedAssertionVersion
  sie_table_name :: string
  sie_columns :: "string list"
  sie_rows :: "SeedLiteral list list"

record SeedTableState =
  sts_version :: SeedAssertionVersion
  sts_table_name :: string
  sts_columns :: "string list"
  sts_rows :: "SeedLiteral list list"

record D1MigrationSeedTableExpectation =
  ste_table_name :: string
  ste_columns :: "string list"
  ste_row_count :: nat
  ste_rows_sha256 :: string

datatype SeedContractError =
  SeedContractError (seed_state: string) (seed_code: string) (seed_message: string)

definition seed_grammar :: "SeedAssertionVersion \<Rightarrow> SeedContractError" where
  "seed_grammar version = SeedContractError ''capability_gap''
     ''d1.migration_reconciliation_seed_insert_effect_unavailable''
     (if version = V1
      then ''the seed-row assertion accepts only plain unqualified INSERT INTO a manifest-created table with explicit canonical columns and bounded TEXT or INTEGER literal VALUES tuples''
      else ''the seed-row v2 assertion accepts only plain unqualified INSERT INTO a manifest-created table with explicit canonical columns and bounded NULL, TEXT, or INTEGER literal VALUES tuples'')"

definition contradictory :: "string \<Rightarrow> string \<Rightarrow> SeedContractError" where
  "contradictory code message = SeedContractError ''contradictory'' code message"

section \<open>Seed statements\<close>

definition valid_identifier :: "string \<Rightarrow> bool" where
  "valid_identifier v = canonical_identifier v"

definition canonical_plain_identifier :: "SqlToken option \<Rightarrow> string option" where
  "canonical_plain_identifier token =
     (case word_identifier token of None \<Rightarrow> None | Some v \<Rightarrow> (if valid_identifier v then Some v else None))"

definition canonical_unsigned_decimal_grammar :: "string \<Rightarrow> bool" where
  "canonical_unsigned_decimal_grammar v \<longleftrightarrow>
     v \<noteq> [] \<and> list_all is_ascii_digit v \<and> (length v = 1 \<or> \<not> starts_with v ''0'')"

text \<open>\<open>str::parse\<close> of a digit string into an unsigned integer: its value, when it fits.\<close>

definition decimal_value :: "string \<Rightarrow> nat" where
  "decimal_value v = fold (\<lambda>c n. 10 * n + (byte c - 48)) v 0"

definition canonical_unsigned_integer :: "string \<Rightarrow> int option" where
  "canonical_unsigned_integer v =
     (if \<not> canonical_unsigned_decimal_grammar v then None
      else if int (decimal_value v) < 2 ^ 63 then Some (int (decimal_value v)) else None)"

definition parse_integer :: "string \<Rightarrow> int option" where
  "parse_integer v = canonical_unsigned_integer v"

definition canonical_negative_integer :: "string \<Rightarrow> int option" where
  "canonical_negative_integer magnitude =
     (if \<not> canonical_unsigned_decimal_grammar magnitude \<or> magnitude = ''0'' then None
      else let m = int (decimal_value magnitude)
        in if m \<ge> 2 ^ 64 then None
           else if m = 2 ^ 63 then Some (- (2 ^ 63))
           else if m < 2 ^ 63 then Some (- m) else None)"

definition parse_seed_literal :: "SqlToken list \<Rightarrow> nat \<Rightarrow> SeedAssertionVersion \<Rightarrow> (SeedLiteral \<times> nat) option" where
  "parse_seed_literal tokens cursor version =
     (case list_get tokens cursor of
        Some (Word v) \<Rightarrow>
          (if allows_null version \<and> eq_ignore_ascii_case v ''null'' then Some (SeedNull, 1)
           else map_option (\<lambda>i. (SeedInteger i, 1)) (parse_integer v))
      | Some (StringLiteral v) \<Rightarrow>
          (if length v \<le> MAX_SEED_VALUE_BYTES \<and> CHR 0x00 \<notin> set v then Some (SeedText v, 1) else None)
      | Some (Symbol s) \<Rightarrow>
          (if s = CHR ''-''
           then (case list_get tokens (cursor + 1) of
               Some (Word v) \<Rightarrow> map_option (\<lambda>i. (SeedInteger i, 2)) (canonical_negative_integer v)
             | _ \<Rightarrow> None)
           else None)
      | _ \<Rightarrow> None)"

text \<open>The loops of \<open>classify_seed_insert\<close>; \<open>None\<close> is the grammar error, the only one they return.\<close>

function seed_columns_loop :: "SqlToken list \<Rightarrow> nat \<Rightarrow> string list \<Rightarrow> string list \<Rightarrow> (string list \<times> nat) option" where
  "seed_columns_loop tokens cursor column_names columns =
     (case canonical_plain_identifier (list_get tokens cursor) of
        None \<Rightarrow> None
      | Some column \<Rightarrow>
          (if to_ascii_lowercase column \<in> set column_names \<or> length columns \<ge> MAX_SEED_COLUMNS_PER_TABLE then None
           else if list_get tokens (cursor + 1) = Some (Symbol (CHR '',''))
           then seed_columns_loop tokens (cursor + 2)
             (bset_insert (to_ascii_lowercase column) column_names) (columns @ [column])
           else if list_get tokens (cursor + 1) = Some (Symbol (CHR '')''))
           then Some (columns @ [column], cursor + 2)
           else None))"
  by pat_completeness auto

termination
  by (relation "measure (\<lambda>(tokens, cursor, names, columns). MAX_SEED_COLUMNS_PER_TABLE - length columns)") auto

declare seed_columns_loop.simps [simp del]

text \<open>The cells of one row, with the number of columns left and the literal bytes so far.\<close>

fun seed_cells_loop ::
  "SqlToken list \<Rightarrow> SeedAssertionVersion \<Rightarrow> nat \<Rightarrow> nat \<Rightarrow> nat \<Rightarrow> (SeedLiteral list \<times> nat \<times> nat) option" where
  "seed_cells_loop tokens version 0 cursor bytes_total = Some ([], cursor, bytes_total)"
| "seed_cells_loop tokens version (Suc n) cursor bytes_total =
     (case parse_seed_literal tokens cursor version of
        None \<Rightarrow> None
      | Some (literal, width) \<Rightarrow>
          (case checked_add bytes_total (canonical_value_bytes literal) of
             None \<Rightarrow> None
           | Some bytes_total \<Rightarrow>
               (if bytes_total > MAX_SEED_LITERAL_BYTES_TOTAL then None
                else if n > 0 \<and> list_get tokens (cursor + width) \<noteq> Some (Symbol (CHR '','')) then None
                else map_option (\<lambda>(row, rest). (literal # row, rest))
                  (seed_cells_loop tokens version n (if n > 0 then cursor + width + 1 else cursor + width) bytes_total))))"

function seed_rows_loop ::
  "SqlToken list \<Rightarrow> SeedAssertionVersion \<Rightarrow> nat \<Rightarrow> nat \<Rightarrow> nat \<Rightarrow> SeedLiteral list list \<Rightarrow> SeedLiteral list list option" where
  "seed_rows_loop tokens version width cursor bytes_total rows =
     (if list_get tokens cursor \<noteq> Some (Symbol (CHR ''('')) \<or> length rows \<ge> MAX_SEED_ROWS_PER_TABLE then None
      else case seed_cells_loop tokens version width (cursor + 1) bytes_total of
          None \<Rightarrow> None
        | Some (row, cursor', bytes_total') \<Rightarrow>
            (if list_get tokens cursor' \<noteq> Some (Symbol (CHR '')'')) then None
             else if list_get tokens (cursor' + 1) = Some (Symbol (CHR '',''))
             then seed_rows_loop tokens version width (cursor' + 2) bytes_total' (rows @ [row])
             else if list_get tokens (cursor' + 1) = None then Some (rows @ [row])
             else None))"
  by pat_completeness auto

termination
  by (relation "measure (\<lambda>(tokens, version, width, cursor, bytes_total, rows). MAX_SEED_ROWS_PER_TABLE - length rows)") auto

declare seed_rows_loop.simps [simp del]

definition seed_insert_parts ::
  "SqlToken list \<Rightarrow> SeedAssertionVersion \<Rightarrow> (string \<times> string list \<times> SeedLiteral list list) option" where
  "seed_insert_parts tokens version =
     (if length tokens > MAX_SEED_STATEMENT_TOKENS \<or> \<not> token_is_word (list_get tokens 1) ''into'' then None
      else case canonical_plain_identifier (list_get tokens 2) of
          None \<Rightarrow> None
        | Some table \<Rightarrow>
            (if list_get tokens 3 \<noteq> Some (Symbol (CHR ''('')) then None
             else case seed_columns_loop tokens 4 [] [] of
                 None \<Rightarrow> None
               | Some (columns, cursor) \<Rightarrow>
                   (if columns = [] \<or> \<not> token_is_word (list_get tokens cursor) ''values'' then None
                    else case seed_rows_loop tokens version (length columns) (cursor + 1) 0 [] of
                        None \<Rightarrow> None
                      | Some rows \<Rightarrow> (if rows = [] then None else Some (table, columns, rows)))))"

definition adjacent_equal :: "'a list \<Rightarrow> bool" where
  "adjacent_equal xs = list_ex (\<lambda>(a, b). a = b) (zip xs (tl xs))"

definition classify_seed_insert ::
  "SqlToken list \<Rightarrow> SeedAssertionVersion \<Rightarrow> SeedContractError + SeedInsertEffect option" where
  "classify_seed_insert tokens version =
     (if \<not> token_is_word (list_get tokens 0) ''insert'' then Inr None
      else case seed_insert_parts tokens version of
          None \<Rightarrow> Inl (seed_grammar version)
        | Some (table, columns, rows) \<Rightarrow>
            (if adjacent_equal (sort rows)
             then Inl (contradictory ''d1.migration_reconciliation_seed_rows_duplicate''
               ''one canonical seed INSERT contains duplicate literal tuples'')
             else Inr (Some \<lparr>sie_version = version, sie_table_name = table, sie_columns = columns, sie_rows = sort rows\<rparr>)))"

section \<open>Column affinity\<close>

definition sqlite_ascii_identifier_key :: "string \<Rightarrow> string" where
  "sqlite_ascii_identifier_key v = to_ascii_lowercase v"

definition contains_str :: "string \<Rightarrow> string \<Rightarrow> bool" where
  "contains_str s p = list_ex (\<lambda>k. starts_with (drop k s) p) [0..<Suc (length s)]"

definition affinity :: "string \<Rightarrow> string" where
  "affinity declared_type =
     (if contains_str declared_type ''INT'' then ''integer''
      else if list_ex (contains_str declared_type) [''CHAR'', ''CLOB'', ''TEXT''] then ''text''
      else if declared_type = [] \<or> contains_str declared_type ''BLOB'' then ''blob''
      else if list_ex (contains_str declared_type) [''REAL'', ''FLOA'', ''DOUB''] then ''real''
      else ''numeric'')"

definition seed_literal_is_identity_stable_for_declared_type ::
  "SeedLiteral \<Rightarrow> string \<Rightarrow> bool \<Rightarrow> bool \<Rightarrow> bool" where
  "seed_literal_is_identity_stable_for_declared_type literal declared_type strict_table not_null =
     (if literal = SeedNull then \<not> not_null
      else let declared_type = to_ascii_uppercase declared_type
        in if strict_table
           then (case literal of
               SeedText _ \<Rightarrow> declared_type = ''TEXT''
             | SeedInteger _ \<Rightarrow> declared_type \<in> {''INT'', ''INTEGER''}
             | SeedBlob _ \<Rightarrow> declared_type = ''BLOB''
             | SeedNull \<Rightarrow> False)
           else (case literal of
               SeedText _ \<Rightarrow> affinity declared_type \<in> {''text'', ''blob''}
             | SeedInteger _ \<Rightarrow> affinity declared_type \<in> {''integer'', ''numeric'', ''blob''}
             | SeedBlob _ \<Rightarrow> True
             | SeedNull \<Rightarrow> False))"

definition is_null_or_blob :: "SeedLiteral \<Rightarrow> bool" where
  "is_null_or_blob literal = (case literal of SeedNull \<Rightarrow> True | SeedBlob _ \<Rightarrow> True | _ \<Rightarrow> False)"

definition seed_literal_is_identity_stable_for_reviewed_column ::
  "SeedLiteral \<Rightarrow> string \<Rightarrow> bool \<Rightarrow> bool \<Rightarrow> int \<Rightarrow> bool \<Rightarrow> bool" where
  "seed_literal_is_identity_stable_for_reviewed_column literal declared_type strict_table not_null
     primary_key_position rowid_table =
     (if is_null_or_blob literal \<and> rowid_table \<and> primary_key_position > 0 \<and>
        eq_ignore_ascii_case declared_type ''INTEGER''
      then False
      else seed_literal_is_identity_stable_for_declared_type literal declared_type strict_table not_null)"

section \<open>The cumulative seed tables\<close>

definition checked_sum :: "nat list \<Rightarrow> nat option" where
  "checked_sum xs = fold (\<lambda>x total_so_far. Option.bind total_so_far (\<lambda>t. checked_add t x)) xs (Some 0)"

definition literal_bytes :: "SeedLiteral list list \<Rightarrow> nat list" where
  "literal_bytes rows = map canonical_value_bytes (concat rows)"

definition bounded_literal :: "SeedLiteral \<Rightarrow> bool" where
  "bounded_literal literal = (case literal of
       SeedText v \<Rightarrow> length v \<le> MAX_SEED_VALUE_BYTES \<and> CHR 0x00 \<notin> set v
     | SeedBlob v \<Rightarrow> length v \<le> MAX_SEED_VALUE_BYTES
     | _ \<Rightarrow> True)"

definition synthesized_bounded :: "(string \<times> SeedTableState) list \<Rightarrow> SeedInsertEffect \<Rightarrow> bool" where
  "synthesized_bounded cumulative effect \<longleftrightarrow>
     (case (checked_sum (literal_bytes (concat (map (\<lambda>(_, s). sts_rows s) cumulative))),
            checked_sum (literal_bytes (sie_rows effect))) of
        (Some left, Some right) \<Rightarrow>
          (case checked_add left right of None \<Rightarrow> False | Some t \<Rightarrow> t \<le> MAX_SEED_LITERAL_BYTES_TOTAL)
      | _ \<Rightarrow> False) \<and>
     sie_columns effect \<noteq> [] \<and> length (sie_columns effect) \<le> MAX_SEED_COLUMNS_PER_TABLE \<and>
     list_all valid_identifier (sie_columns effect) \<and>
     length (bset_of (map sqlite_ascii_identifier_key (sie_columns effect))) = length (sie_columns effect) \<and>
     length (sie_rows effect) \<le> MAX_SEED_ROWS_PER_TABLE \<and>
     length (bset_of (sie_rows effect)) = length (sie_rows effect) \<and>
     list_all (\<lambda>row. length row = length (sie_columns effect) \<and> list_all bounded_literal row) (sie_rows effect)"

text \<open>\<open>rows_total\<close> is at most the per-prefix bound plus one statement's rows, so that the sum itself fits.\<close>

definition insert_seed_effect ::
  "(string \<times> SeedTableState) list \<Rightarrow> SeedInsertEffect \<Rightarrow> SeedContractError + (string \<times> SeedTableState) list" where
  "insert_seed_effect cumulative effect =
     (if sie_version effect = V3Fts \<and> \<not> synthesized_bounded cumulative effect
      then Inl (contradictory ''d1.migration_reconciliation_seed_rows_unbounded''
        ''synthesized seed evidence exceeds its row, column, value or aggregate bound'')
      else let authority_key = sqlite_ascii_identifier_key (sie_table_name effect)
        in if length cumulative \<ge> MAX_SEED_TABLES \<or> map_of cumulative authority_key \<noteq> None
           then Inl (contradictory ''d1.migration_reconciliation_seed_target_reused''
             ''each manifest-created seed table may have exactly one canonical top-level seed INSERT'')
           else case checked_add (sum_list (map (\<lambda>(_, s). length (sts_rows s)) cumulative)) (length (sie_rows effect)) of
               None \<Rightarrow> Inl (contradictory ''d1.migration_reconciliation_seed_rows_unbounded''
                 ''the cumulative seed-row set exceeds the closed assertion bound'')
             | Some rows_total \<Rightarrow>
                 (if rows_total > MAX_SEED_ROWS_TOTAL
                  then Inl (contradictory ''d1.migration_reconciliation_seed_rows_unbounded''
                    ''the cumulative seed-row set exceeds the closed assertion bound'')
                  else Inr (bmap_insert authority_key \<lparr>sts_version = sie_version effect,
                    sts_table_name = sie_table_name effect, sts_columns = sie_columns effect,
                    sts_rows = sie_rows effect\<rparr> cumulative)))"

section \<open>Summaries\<close>

definition canonical_cell :: "string \<Rightarrow> string option \<Rightarrow> ser" where
  "canonical_cell class_name v = SStruct [(''storage_class'', SStr class_name), (''value'', ser_option SStr v)]"

definition literal_cell :: "SeedLiteral \<Rightarrow> ser" where
  "literal_cell literal = canonical_cell (storage_class literal) (canonical_value literal)"

text \<open>\<open>sort_by\<close> is a stable sort on the JSON text of the rows.\<close>

definition sort_canonical_rows :: "env \<Rightarrow> ser list list \<Rightarrow> ser list list" where
  "sort_canonical_rows E rows = sort_key (\<lambda>row. to_vec E (SSeq row)) rows"

definition seed_summary_from_canonical_rows ::
  "env \<Rightarrow> SeedAssertionVersion \<Rightarrow> string \<Rightarrow> string list \<Rightarrow> ser list list \<Rightarrow> D1MigrationSeedTableExpectation" where
  "seed_summary_from_canonical_rows E version table columns rows =
     \<lparr>ste_table_name = table, ste_columns = columns, ste_row_count = length rows,
      ste_rows_sha256 = hash_serialized E (SStruct
        [(''columns'', SSeq (map SStr columns)), (''rows'', SSeq (map SSeq rows)),
         (''table_name'', SStr table), (''version'', SInt (int (proof_version version)))])\<rparr>"

definition seed_table_summary :: "env \<Rightarrow> SeedTableState \<Rightarrow> D1MigrationSeedTableExpectation" where
  "seed_table_summary E state =
     seed_summary_from_canonical_rows E (sts_version state) (sts_table_name state) (sts_columns state)
       (sort_canonical_rows E (map (map literal_cell) (sts_rows state)))"

definition state_summaries :: "env \<Rightarrow> SeedTableState list \<Rightarrow> D1MigrationSeedTableExpectation list" where
  "state_summaries E states = map (seed_table_summary E) states"

abbreviation type_field :: "nat \<Rightarrow> string" where
  "type_field index \<equiv> CHR ''t'' # nat_to_string index"

abbreviation value_field :: "nat \<Rightarrow> string" where
  "value_field index \<equiv> CHR ''v'' # nat_to_string index"

definition seed_data_fields :: "nat \<Rightarrow> string list" where
  "seed_data_fields column_count = concat (map (\<lambda>index. [type_field index, value_field index]) [0..<column_count])"

definition quote_identifier :: "string \<Rightarrow> string" where
  "quote_identifier v = CHR 0x22 # v @ [CHR 0x22]"

text \<open>A single-quoted SQL string in the text of a query.\<close>

definition quoted_text :: "string \<Rightarrow> string" where
  "quoted_text v = CHR 0x27 # v @ [CHR 0x27]"

definition when_null :: string where
  "when_null = '' WHEN '' @ quoted_text ''null'' @ '' THEN NULL''"

definition when_text :: "string \<Rightarrow> string" where
  "when_text column = '' WHEN '' @ quoted_text ''text'' @ '' THEN hex(CAST('' @ column @ '' AS BLOB))''"

definition when_integer :: "string \<Rightarrow> string" where
  "when_integer column = '' WHEN '' @ quoted_text ''integer'' @ '' THEN printf('' @ quoted_text ''%lld'' @ '', '' @ column @ '')''"

definition when_bounded :: "string \<Rightarrow> string \<Rightarrow> string" where
  "when_bounded class_name subject = '' WHEN '' @ quoted_text class_name @ '' THEN CASE WHEN length('' @ subject @ '') <= ''
     @ nat_to_string MAX_SEED_VALUE_BYTES @ '' THEN hex('' @ subject @ '') ELSE NULL END''"

definition value_projection :: "SeedAssertionVersion \<Rightarrow> string \<Rightarrow> nat \<Rightarrow> string" where
  "value_projection version column index =
     ''CASE typeof('' @ column @ '')'' @
     (case version of
        V1 \<Rightarrow> when_text column @ when_integer column
      | V2 \<Rightarrow> when_null @ when_text column @ when_integer column
      | V3Fts \<Rightarrow> when_null @ when_bounded ''text'' (''CAST('' @ column @ '' AS BLOB)'') @ when_integer column
          @ when_bounded ''blob'' column)
     @ '' ELSE NULL END AS '' @ quote_identifier (value_field index)"

definition column_projections :: "SeedTableState \<Rightarrow> nat \<times> string \<Rightarrow> string list" where
  "column_projections state entry =
     (case entry of (index, column) \<Rightarrow>
        (if sts_rows state = []
         then [''NULL AS '' @ quote_identifier (type_field index), ''NULL AS '' @ quote_identifier (value_field index)]
         else [''typeof('' @ quote_identifier column @ '') AS '' @ quote_identifier (type_field index),
               value_projection (sts_version state) (quote_identifier column) index]))"

fun joined :: "string list \<Rightarrow> string" where
  "joined [] = []"
| "joined [x] = x"
| "joined (x # xs) = x @ '', '' @ joined xs"

definition seed_select_sql :: "SeedTableState \<Rightarrow> string" where
  "seed_select_sql state =
     ''SELECT '' @ joined (concat (map (column_projections state) (enumerate 0 (sts_columns state))))
     @ '' FROM '' @ quote_identifier (sts_table_name state)
     @ (if sts_version state = V3Fts then []
        else '' ORDER BY '' @ joined (map quote_identifier (seed_data_fields (length (sts_columns state)))))
     @ '' LIMIT '' @ nat_to_string (length (sts_rows state) + 1)"

definition seed_row_malformed :: SeedContractError where
  "seed_row_malformed = contradictory ''d1.migration_reconciliation_seed_row_malformed''
     ''seed-row provider evidence had a missing field, unexpected field, unsupported storage class, or noncanonical value''"

definition is_upper_hex :: "char \<Rightarrow> bool" where
  "is_upper_hex b \<longleftrightarrow> is_ascii_digit b \<or> byte_in (CHR ''A'') (CHR ''F'') b"

definition canonical_signed_decimal :: "string \<Rightarrow> bool" where
  "canonical_signed_decimal v =
     (case v of
        c # rest \<Rightarrow>
          (if c = CHR ''-''
           then rest \<noteq> [] \<and> rest \<noteq> ''0'' \<and> \<not> starts_with rest ''0'' \<and> list_all is_ascii_digit rest \<and>
             int (decimal_value rest) \<le> 2 ^ 63
           else canonical_unsigned_integer v \<noteq> None)
      | [] \<Rightarrow> canonical_unsigned_integer v \<noteq> None)"

text \<open>The check of one cell: its canonical form, or \<open>None\<close> where the row is malformed.\<close>

definition observed_cell :: "SeedAssertionVersion \<Rightarrow> 'n json \<Rightarrow> nat \<Rightarrow> ser option" where
  "observed_cell version row index =
     (case (Option.bind (json_get row (type_field index)) as_str, json_get row (value_field index)) of
        (Some class_name, Some v) \<Rightarrow>
          (if class_name = ''null''
           then (if allows_null version \<and> v = Null then Some (canonical_cell class_name None) else None)
           else if class_name = ''text'' \<or> class_name = ''blob'' \<and> allows_blob version
           then (case as_str v of
               None \<Rightarrow> None
             | Some s \<Rightarrow>
                 (if length s \<le> MAX_SEED_VALUE_BYTES * 2 \<and> length s mod 2 = 0 \<and> list_all is_upper_hex s
                  then Some (canonical_cell class_name (Some s)) else None))
           else if class_name = ''integer''
           then (case as_str v of
               None \<Rightarrow> None
             | Some s \<Rightarrow> (if canonical_signed_decimal s then Some (canonical_cell class_name (Some s)) else None))
           else None)
      | _ \<Rightarrow> None)"

fun all_some :: "'a option list \<Rightarrow> 'a list option" where
  "all_some [] = Some []"
| "all_some (x # xs) = (case x of None \<Rightarrow> None | Some v \<Rightarrow> map_option ((#) v) (all_some xs))"

definition observed_cells :: "SeedTableState \<Rightarrow> 'n json \<Rightarrow> ser list option" where
  "observed_cells state row =
     (case as_object row of
        None \<Rightarrow> None
      | Some object \<Rightarrow>
          (if fst ` set object \<noteq> set (seed_data_fields (length (sts_columns state))) then None
           else all_some (map (observed_cell (sts_version state) row) [0..<length (sts_columns state)])))"

definition observed_seed_summary ::
  "env \<Rightarrow> SeedTableState \<Rightarrow> 'n json list \<Rightarrow> SeedContractError + D1MigrationSeedTableExpectation" where
  "observed_seed_summary E state rows =
     (if length rows > length (sts_rows state)
      then Inl (contradictory ''d1.migration_reconciliation_seed_rows_extra''
        ''seed-row readback exceeded the complete reviewed row-set bound'')
      else case all_some (map (observed_cells state) rows) of
          None \<Rightarrow> Inl seed_row_malformed
        | Some canonical_rows \<Rightarrow>
            Inr (seed_summary_from_canonical_rows E (sts_version state) (sts_table_name state) (sts_columns state)
              (sort_canonical_rows E canonical_rows)))"

end
