(* ===== verification/D1_Seed_Sound.thy ===== *)
theory D1_Seed_Sound
  imports D1_Seed_Rows
begin

text \<open>
  What the seed contract promises: a printed seed statement is read back as its sorted rows, accepted
  effects and the cumulative tables stay within the bounds, and the digest comparison of a readback
  holds exactly when the observed rows are the reviewed ones in some order.
\<close>

section \<open>Decimal text\<close>

lemma decimal_value_append: "decimal_value (v @ [c]) = 10 * decimal_value v + (byte c - 48)"
  by (simp add: decimal_value_def)

lemma decimal_digit: "n < 10 \<Longrightarrow> byte (char_of (48 + n)) = 48 + n \<and> is_ascii_digit (char_of (48 + n))"
  by (simp add: is_ascii_digit_def byte_in_def)

lemma decimal_value_to_string: "decimal_value (nat_to_string n) = n"
proof (induction n rule: nat_to_string.induct)
  case (1 n)
  show ?case
  proof (cases "n < 10")
    case True
    then show ?thesis
      by (subst nat_to_string.simps) (simp add: decimal_value_def decimal_digit)
  next
    case False
    with 1 show ?thesis
      by (subst nat_to_string.simps) (simp add: decimal_value_append decimal_digit)
  qed
qed

lemma nat_to_string_inject [simp]: "nat_to_string m = nat_to_string n \<longleftrightarrow> m = n"
  by (metis decimal_value_to_string)

lemma nat_to_string_digits: "nat_to_string n \<noteq> [] \<and> list_all is_ascii_digit (nat_to_string n)"
proof (induction n rule: nat_to_string.induct)
  case (1 n)
  then show ?case
    by (subst nat_to_string.simps, subst (2) nat_to_string.simps) (auto simp: decimal_digit)
qed

lemma nat_to_string_no_leading_zero: "0 < n \<Longrightarrow> \<not> starts_with (nat_to_string n) ''0''"
proof (induction n rule: nat_to_string.induct)
  case (1 n)
  show ?case
  proof (cases "n < 10")
    case True
    with 1 have "char_of (48 + n) \<noteq> CHR ''0''"
      using byte_inject [of "char_of (48 + n)" "CHR ''0''"] by simp
    with True show ?thesis by (subst nat_to_string.simps) (simp add: starts_with_def)
  next
    case False
    then have "0 < n div 10" by simp
    from "1.IH" [OF False this] nat_to_string_digits [of "n div 10"] False show ?thesis
      by (subst nat_to_string.simps) (cases "nat_to_string (n div 10)"; simp add: starts_with_def)
  qed
qed

lemma canonical_grammar_to_string: "canonical_unsigned_decimal_grammar (nat_to_string n)"
proof (cases "n = 0")
  case True
  have "nat_to_string 0 = ''0''" by (subst nat_to_string.simps) code_simp
  then show ?thesis using True nat_to_string_digits [of 0]
    by (simp add: canonical_unsigned_decimal_grammar_def)
next
  case False
  then show ?thesis using nat_to_string_digits [of n] nat_to_string_no_leading_zero [of n]
    by (simp add: canonical_unsigned_decimal_grammar_def)
qed

lemma digits_no_minus: "list_all is_ascii_digit v \<Longrightarrow> v = CHR ''-'' # w \<Longrightarrow> False"
  by (simp add: byte_defs)

lemma i64_to_string_inject [simp]: "i64_to_string i = i64_to_string j \<longleftrightarrow> i = j"
  using digits_no_minus nat_to_string_digits
  by (auto simp: i64_to_string_def split: if_splits) (metis nat_to_string_digits digits_no_minus)+

section \<open>Literals and their cells\<close>

lemma hex_upper_eq: "hex_upper = hex_bytes"
  by (rule ext) (simp add: hex_upper_def hex_bytes_def)

lemma hex_upper_inject [simp]: "hex_upper v = hex_upper w \<longleftrightarrow> v = w"
  unfolding hex_upper_eq by (metis decode_upper_hex_hex_bytes sum.inject(2))

lemma literal_cell_inject [simp]: "literal_cell a = literal_cell b \<longleftrightarrow> a = b"
  by (cases a; cases b) (simp_all add: literal_cell_def canonical_cell_def)

section \<open>Readback\<close>

text \<open>The literals a state of a given assertion may hold.\<close>

definition literal_allowed :: "SeedAssertionVersion \<Rightarrow> SeedLiteral \<Rightarrow> bool" where
  "literal_allowed version literal = (case literal of
       SeedNull \<Rightarrow> allows_null version
     | SeedText v \<Rightarrow> length v \<le> MAX_SEED_VALUE_BYTES
     | SeedInteger i \<Rightarrow> - (2 ^ 63) \<le> i \<and> i < 2 ^ 63
     | SeedBlob v \<Rightarrow> allows_blob version \<and> length v \<le> MAX_SEED_VALUE_BYTES)"

definition seed_state_wf :: "SeedTableState \<Rightarrow> bool" where
  "seed_state_wf state \<longleftrightarrow> (\<forall>row \<in> set (sts_rows state).
     length row = length (sts_columns state) \<and> list_all (literal_allowed (sts_version state)) row)"

definition json_value :: "SeedLiteral \<Rightarrow> 'n json" where
  "json_value literal = (case canonical_value literal of None \<Rightarrow> Null | Some s \<Rightarrow> String s)"

text \<open>A result row of the projection shows a row of literals: type and canonical text of each cell, nothing else.\<close>

definition shows_row :: "SeedTableState \<Rightarrow> SeedLiteral list \<Rightarrow> 'n json \<Rightarrow> bool" where
  "shows_row state literals row \<longleftrightarrow>
     (\<exists>object. row = Object object \<and> fst ` set object = set (seed_data_fields (length (sts_columns state)))) \<and>
     length literals = length (sts_columns state) \<and>
     (\<forall>i < length literals. json_get row (type_field i) = Some (String (storage_class (literals ! i))) \<and>
       json_get row (value_field i) = Some (json_value (literals ! i)))"

lemma hex_upper_canonical:
  "length (hex_upper v) = 2 * length v \<and> list_all is_upper_hex (hex_upper v)"
proof (induction v)
  case (Cons b bs)
  have "is_upper_hex (upper_hex_digit n)" if "n < 16" for n
    using that by (auto simp: is_upper_hex_def upper_hex_digit_def is_ascii_digit_def byte_in_def)
  with Cons show ?case by (simp add: hex_upper_def div_less_iff_less_mult)
qed (simp add: hex_upper_def)

lemma signed_decimal_to_string:
  assumes "- (2 ^ 63) \<le> i" and "i < 2 ^ 63"
  shows "canonical_signed_decimal (i64_to_string i)"
proof (cases "i < 0")
  case True
  let ?m = "nat (- i)"
  have "?m > 0" using True by simp
  then have "nat_to_string ?m \<noteq> ''0''" using nat_to_string_no_leading_zero [of ?m] by (auto simp: starts_with_def)
  with True assms nat_to_string_digits [of ?m] nat_to_string_no_leading_zero [OF \<open>?m > 0\<close>] show ?thesis
    by (simp add: i64_to_string_def canonical_signed_decimal_def decimal_value_to_string)
next
  case False
  obtain c cs where v: "nat_to_string (nat i) = c # cs" using nat_to_string_digits [of "nat i"] by (cases "nat_to_string (nat i)") auto
  with nat_to_string_digits [of "nat i"] have "c \<noteq> CHR ''-''" using digits_no_minus by metis
  moreover have "canonical_unsigned_integer (nat_to_string (nat i)) \<noteq> None"
    using False assms by (simp add: canonical_unsigned_integer_def canonical_grammar_to_string decimal_value_to_string)
  ultimately show ?thesis using False v by (simp add: i64_to_string_def canonical_signed_decimal_def)
qed

lemma observed_cell_literal:
  assumes "literal_allowed version literal"
    and "json_get row (type_field i) = Some (String (storage_class literal))"
    and "json_get row (value_field i) = Some (json_value literal)"
  shows "observed_cell version row i = Some (literal_cell literal)"
  using assms hex_upper_canonical signed_decimal_to_string
  by (cases literal)
    (auto simp: observed_cell_def literal_cell_def json_value_def literal_allowed_def list_all_iff)

lemma observed_cell_shows:
  assumes "observed_cell version row i = Some (literal_cell literal)"
  shows "json_get row (type_field i) = Some (String (storage_class literal)) \<and>
    json_get row (value_field i) = Some (json_value literal)"
proof -
  from assms obtain c v where get: "Option.bind (json_get row (type_field i)) as_str = Some c"
    "json_get row (value_field i) = Some v"
    by (auto simp: observed_cell_def split: option.splits)
  then have "json_get row (type_field i) = Some (String c)"
    by (auto simp: bind_eq_Some_conv elim!: as_str.elims)
  moreover from assms get have "c = storage_class literal \<and> v = json_value literal"
    by (cases literal) (auto simp: observed_cell_def literal_cell_def canonical_cell_def json_value_def
        split: if_splits option.splits elim!: as_str.elims)
  ultimately show ?thesis using get by simp
qed

lemma all_some_eq: "all_some xs = Some ys \<longleftrightarrow> xs = map Some ys"
  by (induction xs arbitrary: ys) (auto split: option.splits)

lemma observed_cells_eq:
  assumes "length literals = length (sts_columns state)" and "list_all (literal_allowed (sts_version state)) literals"
  shows "observed_cells state row = Some (map literal_cell literals) \<longleftrightarrow> shows_row state literals row"
proof
  assume "observed_cells state row = Some (map literal_cell literals)"
  then obtain object where o: "row = Object object"
    "fst ` set object = set (seed_data_fields (length (sts_columns state)))"
    and cells: "map (observed_cell (sts_version state) row) [0..<length (sts_columns state)] = map Some (map literal_cell literals)"
    by (auto simp: observed_cells_def all_some_eq split: option.splits if_splits elim!: as_object.elims)
  have "observed_cell (sts_version state) row i = Some (literal_cell (literals ! i))" if "i < length literals" for i
    using arg_cong [OF cells, of "\<lambda>xs. xs ! i"] that assms(1) by simp
  then have "\<forall>i < length literals. json_get row (type_field i) = Some (String (storage_class (literals ! i))) \<and>
      json_get row (value_field i) = Some (json_value (literals ! i))"
    using observed_cell_shows by blast
  with o assms(1) show "shows_row state literals row" unfolding shows_row_def by blast
next
  assume shown: "shows_row state literals row"
  have "observed_cell (sts_version state) row i = Some (literal_cell (literals ! i))" if "i < length literals" for i
    using shown that assms(2) by (intro observed_cell_literal) (auto simp: shows_row_def list_all_length)
  then have "map (observed_cell (sts_version state) row) [0..<length (sts_columns state)] = map Some (map literal_cell literals)"
    using assms(1) by (intro nth_equalityI) simp_all
  with shown show "observed_cells state row = Some (map literal_cell literals)"
    by (auto simp: observed_cells_def shows_row_def all_some_eq)
qed

text \<open>Sorting on the text of a row depends on the multiset of rows only.\<close>

lemma sort_canonical_rows_cong:
  assumes "to_vec_injective E"
  shows "sort_canonical_rows E xs = sort_canonical_rows E ys \<longleftrightarrow> mset xs = mset ys"
proof
  assume "sort_canonical_rows E xs = sort_canonical_rows E ys"
  then show "mset xs = mset ys" unfolding sort_canonical_rows_def by (metis mset_sort)
next
  assume "mset xs = mset ys"
  moreover have "inj_on (\<lambda>row. to_vec E (SSeq row)) (set xs)"
    using assms by (auto simp: inj_on_def to_vec_injective_def)
  ultimately show "sort_canonical_rows E xs = sort_canonical_rows E ys"
    unfolding sort_canonical_rows_def
    by (intro sort_key_inj_key_eq) (simp_all add: sorted_sort_key)
qed

lemma mset_map_split:
  assumes "mset ys = mset (map f xs)" and "inj f"
  shows "\<exists>perm. mset perm = mset xs \<and> ys = map f perm"
proof (intro exI conjI)
  have "set ys \<subseteq> range f" using assms(1) by (metis image_subset_iff list.set_map mset_eq_setD rangeI)
  then show "ys = map f (map (inv f) ys)" by (auto simp: f_inv_into_f subset_iff intro!: map_idI [symmetric])
  show "mset (map (inv f) ys) = mset xs" using assms by (simp add: multiset.map_comp)
qed

lemma observed_rows_eq:
  assumes "seed_state_wf state" and "mset perm = mset (sts_rows state)"
  shows "all_some (map (observed_cells state) rows) = Some (map (map literal_cell) perm) \<longleftrightarrow>
    list_all2 (shows_row state) perm rows"
proof -
  have cells: "observed_cells state row = Some (map literal_cell (perm ! i)) \<longleftrightarrow> shows_row state (perm ! i) row"
    if "i < length perm" for i row
    using assms that nth_mem [OF that]
    by (intro observed_cells_eq) (auto simp: seed_state_wf_def dest!: mset_eq_setD)
  show ?thesis
    unfolding all_some_eq by (auto simp: list_eq_iff_nth_eq list_all2_conv_all_nth cells)
qed

text \<open>C19: The digest comparison of seed rows is exact. If the provider returns the
  reviewed rows, in any order, each with the storage class and canonical text of its cells, the
  observed summary is the expected one; and if the summaries agree, the provider returned exactly the
  reviewed rows in some order, unless SHA-256 collides.
\<close>

theorem seed_readback_exact:
  assumes "to_vec_injective E" and "seed_state_wf state"
  shows "((\<exists>perm. mset perm = mset (sts_rows state) \<and> list_all2 (shows_row state) perm rows) \<longrightarrow>
      observed_seed_summary E state rows = Inr (seed_table_summary E state)) \<and>
    (observed_seed_summary E state rows = Inr (seed_table_summary E state) \<longrightarrow>
      (\<exists>perm. mset perm = mset (sts_rows state) \<and> list_all2 (shows_row state) perm rows) \<or> sha256_collision E)"
proof (intro conjI impI)
  assume "\<exists>perm. mset perm = mset (sts_rows state) \<and> list_all2 (shows_row state) perm rows"
  then obtain perm where perm: "mset perm = mset (sts_rows state)" and shown: "list_all2 (shows_row state) perm rows"
    by blast
  from shown perm have "length rows = length (sts_rows state)"
    by (metis list_all2_lengthD size_mset)
  moreover have "sort_canonical_rows E (map (map literal_cell) perm) =
      sort_canonical_rows E (map (map literal_cell) (sts_rows state))"
    unfolding sort_canonical_rows_cong [OF assms(1)] using perm by simp
  moreover have "all_some (map (observed_cells state) rows) = Some (map (map literal_cell) perm)"
    using observed_rows_eq [OF assms(2) perm] shown by blast
  ultimately show "observed_seed_summary E state rows = Inr (seed_table_summary E state)"
    by (simp add: observed_seed_summary_def seed_table_summary_def)
next
  assume equal: "observed_seed_summary E state rows = Inr (seed_table_summary E state)"
  then obtain cells where cells: "all_some (map (observed_cells state) rows) = Some cells"
    and "hash_serialized E (SStruct [(''columns'', SSeq (map SStr (sts_columns state))),
        (''rows'', SSeq (map SSeq (sort_canonical_rows E cells))), (''table_name'', SStr (sts_table_name state)),
        (''version'', SInt (int (proof_version (sts_version state))))]) =
      hash_serialized E (SStruct [(''columns'', SSeq (map SStr (sts_columns state))),
        (''rows'', SSeq (map SSeq (sort_canonical_rows E (map (map literal_cell) (sts_rows state))))),
        (''table_name'', SStr (sts_table_name state)), (''version'', SInt (int (proof_version (sts_version state))))])"
    by (auto simp: observed_seed_summary_def seed_table_summary_def seed_summary_from_canonical_rows_def
        split: if_splits option.splits)
  from hash_serialized_eqD [OF assms(1) this(2)] consider "sha256_collision E"
    | "sort_canonical_rows E cells = sort_canonical_rows E (map (map literal_cell) (sts_rows state))"
    by (auto simp: inj_map_eq_map inj_def)
  then show "(\<exists>perm. mset perm = mset (sts_rows state) \<and> list_all2 (shows_row state) perm rows) \<or> sha256_collision E"
  proof cases
    case 2
    then have "mset cells = mset (map (map literal_cell) (sts_rows state))"
      by (simp only: sort_canonical_rows_cong [OF assms(1)])
    moreover have "inj (map literal_cell)" by (simp add: inj_def inj_map_eq_map)
    ultimately obtain perm where "mset perm = mset (sts_rows state)" "cells = map (map literal_cell) perm"
      using mset_map_split by blast
    with cells observed_rows_eq [OF assms(2)] show ?thesis by auto
  qed simp
qed

section \<open>Bounds\<close>

definition total_bytes :: "SeedLiteral list list \<Rightarrow> nat" where
  "total_bytes rows = sum_list (map canonical_value_bytes (concat rows))"

definition columns_wf :: "string list \<Rightarrow> bool" where
  "columns_wf columns \<longleftrightarrow> length columns \<le> MAX_SEED_COLUMNS_PER_TABLE \<and> list_all valid_identifier columns \<and>
     distinct (map to_ascii_lowercase columns)"

definition row_wf :: "SeedAssertionVersion \<Rightarrow> nat \<Rightarrow> SeedLiteral list \<Rightarrow> bool" where
  "row_wf version width row \<longleftrightarrow> length row = width \<and> list_all (literal_allowed version) row \<and> list_all bounded_literal row"

lemma parse_seed_literal_allowed:
  "parse_seed_literal tokens cursor version = Some (literal, w) \<Longrightarrow> literal_allowed version literal \<and> bounded_literal literal"
  by (auto simp: parse_seed_literal_def literal_allowed_def bounded_literal_def parse_integer_def
      canonical_unsigned_integer_def canonical_negative_integer_def Let_def
      split: option.splits SqlToken.splits if_splits)

lemma seed_columns_loop_wf:
  assumes "seed_columns_loop tokens cursor names columns = Some (columns', cursor')"
    and "set names = to_ascii_lowercase ` set columns" and "columns_wf columns"
  shows "columns_wf columns' \<and> columns' \<noteq> []"
  using assms
proof (induction tokens cursor names columns rule: seed_columns_loop.induct)
  case (1 tokens cursor names columns)
  from "1.prems"(1) obtain column where c: "canonical_plain_identifier (list_get tokens cursor) = Some column"
    and fresh: "to_ascii_lowercase column \<notin> set names" "length columns < MAX_SEED_COLUMNS_PER_TABLE"
    by (auto simp: seed_columns_loop.simps [of tokens cursor] not_le split: option.splits if_splits)
  from c have "valid_identifier column"
    by (auto simp: canonical_plain_identifier_def split: option.splits if_splits)
  with fresh "1.prems"(2,3) have wf: "columns_wf (columns @ [column])" by (auto simp: columns_wf_def)
  show ?case
  proof (cases "list_get tokens (cursor + 1) = Some (Symbol (CHR '',''))")
    case True
    show ?thesis
      by (rule "1.IH" [OF c _ True])
        (use True c fresh "1.prems" wf in \<open>auto simp: seed_columns_loop.simps [of tokens cursor]\<close>)
  next
    case False
    with c fresh "1.prems" wf show ?thesis
      by (auto simp: seed_columns_loop.simps [of tokens cursor] split: if_splits)
  qed
qed

lemma seed_cells_loop_wf:
  assumes "seed_cells_loop tokens version n cursor bytes_so_far = Some (row, cursor', bytes_after)"
  shows "row_wf version n row \<and> bytes_after = bytes_so_far + total_bytes [row] \<and>
    (bytes_so_far \<le> MAX_SEED_LITERAL_BYTES_TOTAL \<longrightarrow> bytes_after \<le> MAX_SEED_LITERAL_BYTES_TOTAL)"
  using assms
  by (induction tokens version n cursor bytes_so_far arbitrary: row rule: seed_cells_loop.induct)
    (fastforce simp: row_wf_def total_bytes_def result_simps not_less
      split: option.splits prod.splits if_splits dest!: parse_seed_literal_allowed)+

lemma seed_rows_loop_wf:
  assumes "seed_rows_loop tokens version width cursor bytes_so_far rows = Some rows'"
    and "\<forall>row \<in> set rows. row_wf version width row" and "length rows \<le> MAX_SEED_ROWS_PER_TABLE"
    and "bytes_so_far = total_bytes rows" and "bytes_so_far \<le> MAX_SEED_LITERAL_BYTES_TOTAL"
  shows "(\<forall>row \<in> set rows'. row_wf version width row) \<and> length rows' \<le> MAX_SEED_ROWS_PER_TABLE \<and>
    total_bytes rows' \<le> MAX_SEED_LITERAL_BYTES_TOTAL"
  using assms
proof (induction tokens version width cursor bytes_so_far rows rule: seed_rows_loop.induct)
  case (1 tokens version width cursor bytes_so_far rows)
  from "1.prems"(1) obtain row cursor' bytes_after where
    cells: "seed_cells_loop tokens version width (cursor + 1) bytes_so_far = Some (row, cursor', bytes_after)"
    and guard: "\<not> (list_get tokens cursor \<noteq> Some (Symbol (CHR ''('')) \<or> length rows \<ge> MAX_SEED_ROWS_PER_TABLE)"
      "\<not> list_get tokens cursor' \<noteq> Some (Symbol (CHR '')''))"
    by (auto simp: seed_rows_loop.simps [of tokens version width cursor] split: option.splits if_splits)
  from seed_cells_loop_wf [OF cells] "1.prems" guard
  have next_rows: "\<forall>r \<in> set (rows @ [row]). row_wf version width r" "length (rows @ [row]) \<le> MAX_SEED_ROWS_PER_TABLE"
    "bytes_after = total_bytes (rows @ [row])" "bytes_after \<le> MAX_SEED_LITERAL_BYTES_TOTAL"
    by (auto simp: total_bytes_def)
  show ?case
  proof (cases "list_get tokens (cursor' + 1) = Some (Symbol (CHR '',''))")
    case True
    have "seed_rows_loop tokens version width (cursor' + 2) bytes_after (rows @ [row]) = Some rows'"
      using "1.prems"(1) cells guard True by (simp add: seed_rows_loop.simps [of tokens version width cursor])
    from "1.IH" [OF guard(1) cells refl refl guard(2) True this next_rows] show ?thesis .
  next
    case False
    with "1.prems"(1) cells guard have "rows' = rows @ [row]"
      by (simp add: seed_rows_loop.simps [of tokens version width cursor] split: if_splits)
    with next_rows show ?thesis by simp
  qed
qed

lemma adjacent_equal_sorted: "sorted xs \<Longrightarrow> \<not> adjacent_equal xs \<longleftrightarrow> sorted_wrt (<) xs"
proof (induction xs rule: induct_list012)
  case (3 x y zs)
  then show ?case by (auto simp: adjacent_equal_def less_le)
qed (simp_all add: adjacent_equal_def)

text \<open>What a seed effect looks like, and the invariant of the cumulative tables.\<close>

definition seed_effect_wf :: "SeedInsertEffect \<Rightarrow> bool" where
  "seed_effect_wf effect \<longleftrightarrow>
     sie_columns effect \<noteq> [] \<and> columns_wf (sie_columns effect) \<and> length (sie_rows effect) \<le> MAX_SEED_ROWS_PER_TABLE \<and>
     sorted_wrt (<) (sie_rows effect) \<and> total_bytes (sie_rows effect) \<le> MAX_SEED_LITERAL_BYTES_TOTAL \<and>
     (\<forall>row \<in> set (sie_rows effect). row_wf (sie_version effect) (length (sie_columns effect)) row)"

lemma total_bytes_mset: "mset xs = mset ys \<Longrightarrow> total_bytes xs = total_bytes ys"
  unfolding total_bytes_def
  by (metis (no_types, lifting) mset_concat mset_map sum_mset_sum_list)

lemma classified_effect_wf:
  assumes "classify_seed_insert tokens version = Inr (Some effect)"
  shows "seed_effect_wf effect \<and> sie_version effect = version"
proof -
  from assms obtain table columns rows where
    parts: "seed_insert_parts tokens version = Some (table, columns, rows)" and fresh: "\<not> adjacent_equal (sort rows)"
    and effect: "effect = \<lparr>sie_version = version, sie_table_name = table, sie_columns = columns, sie_rows = sort rows\<rparr>"
    by (auto simp: classify_seed_insert_def split: if_splits option.splits)
  from parts obtain cursor where columns: "seed_columns_loop tokens 4 [] [] = Some (columns, cursor)"
    and rows: "seed_rows_loop tokens version (length columns) (cursor + 1) 0 [] = Some rows"
    by (auto simp: seed_insert_parts_def split: option.splits if_splits)
  have "columns_wf columns \<and> columns \<noteq> []"
    by (rule seed_columns_loop_wf [OF columns]) (simp_all add: columns_wf_def)
  moreover have "(\<forall>row \<in> set rows. row_wf version (length columns) row) \<and> length rows \<le> MAX_SEED_ROWS_PER_TABLE \<and>
      total_bytes rows \<le> MAX_SEED_LITERAL_BYTES_TOTAL"
    by (rule seed_rows_loop_wf [OF rows]) (simp_all add: total_bytes_def)
  moreover have "total_bytes (sort rows) = total_bytes rows" by (rule total_bytes_mset) simp
  ultimately show ?thesis
    using fresh adjacent_equal_sorted [of "sort rows"] by (simp add: effect seed_effect_wf_def)
qed

definition cumulative_wf :: "(string \<times> SeedTableState) list \<Rightarrow> bool" where
  "cumulative_wf cumulative \<longleftrightarrow> bmap_wf cumulative \<and> length cumulative \<le> MAX_SEED_TABLES \<and>
     sum_list (map (\<lambda>(_, s). length (sts_rows s)) cumulative) \<le> MAX_SEED_ROWS_TOTAL \<and>
     (\<forall>(key, state) \<in> set cumulative. key = sqlite_ascii_identifier_key (sts_table_name state) \<and> seed_state_wf state)"

lemma sum_list_bmap_insert_new:
  fixes f :: "'k::linorder \<times> 'v \<Rightarrow> nat"
  shows "map_of m k = None \<Longrightarrow> sum_list (map f (bmap_insert k v m)) = f (k, v) + sum_list (map f m)"
  by (induction k v m rule: bmap_insert.induct) auto

lemma set_bmap_insert_subset: "set (bmap_insert k v m) \<subseteq> insert (k, v) (set m)"
  by (induction k v m rule: bmap_insert.induct) auto

text \<open>The bytes of all literals the tables hold.\<close>

definition cumulative_bytes :: "(string \<times> SeedTableState) list \<Rightarrow> nat" where
  "cumulative_bytes cumulative = sum_list (map (\<lambda>(_, state). total_bytes (sts_rows state)) cumulative)"

fun value_in_bounds :: "SeedLiteral \<Rightarrow> bool" where
  "value_in_bounds (SeedText v) \<longleftrightarrow> length v \<le> MAX_SEED_VALUE_BYTES \<and> CHR 0x00 \<notin> set v"
| "value_in_bounds (SeedBlob v) \<longleftrightarrow> length v \<le> MAX_SEED_VALUE_BYTES"
| "value_in_bounds _ \<longleftrightarrow> True"

text \<open>The bounds of the columns and rows one effect brings, wherever it comes from.\<close>

definition rows_in_bounds :: "SeedInsertEffect \<Rightarrow> bool" where
  "rows_in_bounds effect \<longleftrightarrow> sie_columns effect \<noteq> [] \<and> columns_wf (sie_columns effect) \<and>
     length (sie_rows effect) \<le> MAX_SEED_ROWS_PER_TABLE \<and> distinct (sie_rows effect) \<and>
     (\<forall>row \<in> set (sie_rows effect). length row = length (sie_columns effect) \<and> (\<forall>literal \<in> set row. value_in_bounds literal))"

lemma bounded_value: "bounded_literal literal = value_in_bounds literal"
  by (cases literal) (simp_all add: bounded_literal_def)

lemma effect_in_bounds: "seed_effect_wf effect \<Longrightarrow> rows_in_bounds effect"
  by (auto simp: seed_effect_wf_def rows_in_bounds_def row_wf_def list_all_iff bounded_value strict_sorted_iff)

lemma checked_sum_Some: "checked_sum xs = Some n \<Longrightarrow> n = sum_list xs"
proof -
  have none: "fold (\<lambda>x acc. Option.bind acc (\<lambda>t. checked_add t x)) xs None = None" for xs by (induction xs) simp_all
  have "fold (\<lambda>x acc. Option.bind acc (\<lambda>t. checked_add t x)) xs (Some m) = Some n \<Longrightarrow> n = m + sum_list xs" for m
  proof (induction xs arbitrary: m)
    case (Cons x xs)
    then obtain k where "checked_add m x = Some k" by (cases "checked_add m x") (simp_all add: none)
    moreover from this have "k = m + x" by (simp add: checked_add_eq_Some)
    ultimately show ?case using Cons.IH [of k] Cons.prems by simp
  qed simp
  from this [of 0] show "checked_sum xs = Some n \<Longrightarrow> n = sum_list xs" by (simp add: checked_sum_def)
qed

lemma literal_bytes_total: "sum_list (literal_bytes rows) = total_bytes rows"
  by (simp add: literal_bytes_def total_bytes_def)

lemma cumulative_bytes_concat: "total_bytes (concat (map (\<lambda>(_, s). sts_rows s) cumulative)) = cumulative_bytes cumulative"
  by (induction cumulative) (auto simp: total_bytes_def cumulative_bytes_def)

text \<open>What every accepted insertion guarantees of the rows of the whole set.\<close>

lemma insert_seed_effect_bounded:
  assumes "insert_seed_effect cumulative effect = Inr cumulative'"
  shows "length cumulative' \<le> MAX_SEED_TABLES \<and>
    sum_list (map (\<lambda>(_, s). length (sts_rows s)) cumulative') \<le> MAX_SEED_ROWS_TOTAL \<and>
    (sie_version effect = V3Fts \<longrightarrow> rows_in_bounds effect \<and> cumulative_bytes cumulative' \<le> MAX_SEED_LITERAL_BYTES_TOTAL)"
proof -
  let ?key = "sqlite_ascii_identifier_key (sie_table_name effect)"
  let ?state = "\<lparr>sts_version = sie_version effect, sts_table_name = sie_table_name effect,
    sts_columns = sie_columns effect, sts_rows = sie_rows effect\<rparr>"
  from assms have c: "cumulative' = bmap_insert ?key ?state cumulative" "map_of cumulative ?key = None"
    "length cumulative < MAX_SEED_TABLES"
    "sum_list (map (\<lambda>(_, s). length (sts_rows s)) cumulative) + length (sie_rows effect) \<le> MAX_SEED_ROWS_TOTAL"
    and v3: "sie_version effect = V3Fts \<Longrightarrow> synthesized_bounded cumulative effect"
    by (auto simp: insert_seed_effect_def Let_def result_simps not_le not_less split: if_splits option.splits)
  have bytes: "cumulative_bytes cumulative' = total_bytes (sie_rows effect) + cumulative_bytes cumulative"
    by (simp add: cumulative_bytes_def c(1) sum_list_bmap_insert_new [OF c(2)])
  have "rows_in_bounds effect \<and> cumulative_bytes cumulative' \<le> MAX_SEED_LITERAL_BYTES_TOTAL" if "sie_version effect = V3Fts"
    using v3 [OF that] length_bset_of_eq [of "map sqlite_ascii_identifier_key (sie_columns effect)"]
    by (auto simp: synthesized_bounded_def rows_in_bounds_def columns_wf_def length_bset_of_eq list_all_iff bounded_value
        sqlite_ascii_identifier_key_def [abs_def] bytes checked_add_eq_Some literal_bytes_total cumulative_bytes_concat
        dest!: checked_sum_Some split: option.splits)
  moreover have "sum_list (map (\<lambda>(_, s). length (sts_rows s)) cumulative') \<le> MAX_SEED_ROWS_TOTAL"
    unfolding c(1) sum_list_bmap_insert_new [OF c(2)] using c(4) by simp
  ultimately show ?thesis using c(2,3) by (simp add: c(1) length_bmap_insert_new)
qed

text \<open>C35: The cumulative seed tables keep their invariant: inserting a classified seed
  statement, under any reviewed spelling of its table, leaves at most 16 tables and 1024 rows, one
  table per case-folded name, and only rows that fit their columns and the literals of the assertion;
  the statement itself has at most 16 columns, distinct under case folding, and at most 256 distinct rows,
  strictly sorted, with at most 64 KiB of literals. Under the FTS assertion the literals of all tables together
  stay within 64 KiB, and the same bounds hold after inserting any effect of that assertion, synthesized ones included.
\<close>

theorem seed_tables_bounded:
  assumes "classify_seed_insert tokens version = Inr (Some effect)" and "cumulative_wf cumulative"
    and "insert_seed_effect cumulative (effect\<lparr>sie_table_name := name\<rparr>) = Inr cumulative'"
  shows "seed_effect_wf effect \<and> rows_in_bounds effect \<and> cumulative_wf cumulative' \<and> length cumulative' = length cumulative + 1 \<and>
    (\<exists>state. map_of cumulative' (sqlite_ascii_identifier_key name) = Some state \<and> sts_rows state = sie_rows effect) \<and>
    (version = V3Fts \<longrightarrow> cumulative_bytes cumulative' \<le> MAX_SEED_LITERAL_BYTES_TOTAL) \<and>
    (\<forall>synthesized after. sie_version synthesized = V3Fts \<and> insert_seed_effect cumulative synthesized = Inr after \<longrightarrow>
      rows_in_bounds synthesized \<and> length after \<le> MAX_SEED_TABLES \<and>
      sum_list (map (\<lambda>(_, s). length (sts_rows s)) after) \<le> MAX_SEED_ROWS_TOTAL \<and>
      cumulative_bytes after \<le> MAX_SEED_LITERAL_BYTES_TOTAL)"
proof -
  let ?key = "sqlite_ascii_identifier_key name"
  define state where "state = \<lparr>sts_version = sie_version effect, sts_table_name = name,
    sts_columns = sie_columns effect, sts_rows = sie_rows effect\<rparr>"
  have wf: "seed_effect_wf effect" using classified_effect_wf [OF assms(1)] by simp
  from assms(3) have c: "cumulative' = bmap_insert ?key state cumulative" "map_of cumulative ?key = None"
    "length cumulative < MAX_SEED_TABLES"
    "sum_list (map (\<lambda>(_, s). length (sts_rows s)) cumulative) + length (sie_rows effect) \<le> MAX_SEED_ROWS_TOTAL"
    by (auto simp: insert_seed_effect_def Let_def result_simps state_def not_le not_less
        split: if_splits option.splits)
  have "seed_state_wf state"
    using wf by (auto simp: seed_effect_wf_def row_wf_def seed_state_wf_def state_def)
  then have "\<forall>(key, s) \<in> set cumulative'. key = sqlite_ascii_identifier_key (sts_table_name s) \<and> seed_state_wf s"
    using assms(2) set_bmap_insert_subset [of ?key state cumulative]
    by (auto simp: cumulative_wf_def c(1) state_def)
  moreover have "sum_list (map (\<lambda>(_, s). length (sts_rows s)) cumulative') \<le> MAX_SEED_ROWS_TOTAL"
    unfolding c(1) sum_list_bmap_insert_new [OF c(2)] using c(4) by (simp add: state_def)
  ultimately have "cumulative_wf cumulative'"
    using assms(2) c(2,3) by (simp add: cumulative_wf_def c(1) length_bmap_insert_new)
  moreover have "length cumulative' = length cumulative + 1 \<and>
    (\<exists>state. map_of cumulative' ?key = Some state \<and> sts_rows state = sie_rows effect)"
    using assms(2) c(2) by (simp add: c(1) length_bmap_insert_new map_of_bmap_insert cumulative_wf_def state_def)
  moreover have "version = V3Fts \<longrightarrow> cumulative_bytes cumulative' \<le> MAX_SEED_LITERAL_BYTES_TOTAL"
    using insert_seed_effect_bounded [OF assms(3)] classified_effect_wf [OF assms(1)] by simp
  moreover note effect_in_bounds [OF wf]
  ultimately show ?thesis using wf insert_seed_effect_bounded [of cumulative] by blast
qed

end
