(* ===== verification/D1_Seed_Print.thy ===== *)
theory D1_Seed_Print
  imports D1_Seed_Sound D1_Check_Grammar
begin

text \<open>Printing a seed statement and reading it back.\<close>

fun literal_tokens :: "SeedLiteral \<Rightarrow> SqlToken list" where
  "literal_tokens SeedNull = [Word ''NULL'']"
| "literal_tokens (SeedText v) = [StringLiteral v]"
| "literal_tokens (SeedInteger i) =
     (if i < 0 then [Symbol (CHR ''-''), Word (nat_to_string (nat (- i)))] else [Word (nat_to_string (nat i))])"
| "literal_tokens (SeedBlob v) = []"

fun comma_separated :: "SqlToken list list \<Rightarrow> SqlToken list" where
  "comma_separated [] = []"
| "comma_separated [x] = x"
| "comma_separated (x # xs) = x @ Symbol (CHR '','') # comma_separated xs"

definition row_tokens :: "SeedLiteral list \<Rightarrow> SqlToken list" where
  "row_tokens row = Symbol (CHR ''('') # comma_separated (map literal_tokens row) @ [Symbol (CHR '')'')]"

definition seed_insert_tokens :: "string \<Rightarrow> string list \<Rightarrow> SeedLiteral list list \<Rightarrow> SqlToken list" where
  "seed_insert_tokens table columns rows =
     [Word ''INSERT'', Word ''INTO'', Word table, Symbol (CHR ''('')] @
     comma_separated (map (\<lambda>c. [Word c]) columns) @ [Symbol (CHR '')''), Word ''VALUES''] @
     comma_separated (map row_tokens rows)"

text \<open>The literals of a statement are those of a row, blobs excepted, which only the engine's tables hold.\<close>

definition printable :: "SeedAssertionVersion \<Rightarrow> SeedLiteral \<Rightarrow> bool" where
  "printable version literal \<longleftrightarrow>
     literal_allowed version literal \<and> bounded_literal literal \<and> (\<forall>v. literal \<noteq> SeedBlob v)"

lemma drop_Cons_get: "drop c tokens = x # xs \<Longrightarrow> list_get tokens c = Some x \<and> drop (c + 1) tokens = xs"
  by (metis Cons_nth_drop_Suc Suc_eq_plus1 drop_eq_Nil2 leI list.discI list.inject list_get_eq_Some)

lemma drop_append_drop: "drop c tokens = xs @ ys \<Longrightarrow> drop (c + length xs) tokens = ys"
  by (metis add.commute append_eq_conv_conj drop_drop)

lemma drop_Nil_get: "drop c tokens = [] \<Longrightarrow> list_get tokens c = None"
  by (simp add: list_get_def)

lemma parse_integer_print: "n < 2 ^ 63 \<Longrightarrow> parse_integer (nat_to_string n) = Some (int n)"
  by (simp add: parse_integer_def canonical_unsigned_integer_def canonical_grammar_to_string decimal_value_to_string)

lemma negative_integer_print:
  assumes "0 < n" and "n \<le> 2 ^ 63"
  shows "canonical_negative_integer (nat_to_string n) = Some (- int n)"
proof -
  have "nat_to_string n \<noteq> ''0''" using nat_to_string_no_leading_zero [OF assms(1)] by (auto simp: starts_with_def)
  with assms show ?thesis
    by (auto simp: canonical_negative_integer_def canonical_grammar_to_string decimal_value_to_string Let_def)
qed

lemma digits_not_null_word: "\<not> eq_ignore_ascii_case (nat_to_string n) ''null''"
  using digits_not_word [of "nat_to_string n" "''null''"] nat_to_string_digits by (simp add: byte_defs)

lemma parse_literal_print:
  assumes "drop c tokens = literal_tokens literal @ rest" and "printable version literal"
  shows "parse_seed_literal tokens c version = Some (literal, length (literal_tokens literal))"
proof (cases literal)
  case SeedNull
  have "eq_ignore_ascii_case ''NULL'' ''null''" by code_simp
  with assms SeedNull show ?thesis
    by (auto simp: parse_seed_literal_def printable_def literal_allowed_def dest!: drop_Cons_get)
next
  case (SeedText v)
  with assms show ?thesis
    by (auto simp: parse_seed_literal_def printable_def bounded_literal_def dest!: drop_Cons_get)
next
  case (SeedInteger i)
  with assms(2) have range: "- (2 ^ 63) \<le> i" "i < 2 ^ 63" by (auto simp: printable_def literal_allowed_def)
  show ?thesis
  proof (cases "i < 0")
    case True
    with assms SeedInteger have "list_get tokens c = Some (Symbol (CHR ''-''))"
      "list_get tokens (c + 1) = Some (Word (nat_to_string (nat (- i))))"
      by (auto dest!: drop_Cons_get)
    moreover have "canonical_negative_integer (nat_to_string (nat (- i))) = Some i"
      using negative_integer_print [of "nat (- i)"] True range by simp
    ultimately show ?thesis using True SeedInteger by (simp add: parse_seed_literal_def)
  next
    case False
    with assms SeedInteger have "list_get tokens c = Some (Word (nat_to_string (nat i)))"
      by (auto dest!: drop_Cons_get)
    moreover have "parse_integer (nat_to_string (nat i)) = Some i"
      using parse_integer_print [of "nat i"] False range by simp
    ultimately show ?thesis using False SeedInteger by (simp add: parse_seed_literal_def digits_not_null_word)
  qed
qed (use assms in \<open>simp add: printable_def\<close>)

lemma cells_print:
  assumes "drop c tokens = comma_separated (map literal_tokens row) @ rest"
    and "list_all (printable version) row"
    and "so_far + total_bytes [row] \<le> MAX_SEED_LITERAL_BYTES_TOTAL"
  shows "seed_cells_loop tokens version (length row) c so_far =
    Some (row, c + length (comma_separated (map literal_tokens row)), so_far + total_bytes [row])"
  using assms
proof (induction row arbitrary: c so_far)
  case (Cons literal row)
  let ?sep = "if row = [] then [] else Symbol (CHR '','') # comma_separated (map literal_tokens row)"
  have tokens: "comma_separated (map literal_tokens (literal # row)) = literal_tokens literal @ ?sep"
    by (cases row) auto
  let ?c = "c + length (literal_tokens literal)"
  have here: "drop c tokens = literal_tokens literal @ (?sep @ rest)" using Cons.prems(1) tokens by simp
  have lit: "parse_seed_literal tokens c version = Some (literal, length (literal_tokens literal))"
    using parse_literal_print [OF here] Cons.prems(2) by simp
  have rest: "drop ?c tokens = ?sep @ rest" by (rule drop_append_drop [OF here])
  have bytes: "so_far + canonical_value_bytes literal + total_bytes [row] \<le> MAX_SEED_LITERAL_BYTES_TOTAL"
    using Cons.prems(3) by (simp add: total_bytes_def)
  then have add: "checked_add so_far (canonical_value_bytes literal) = Some (so_far + canonical_value_bytes literal)"
    by (simp add: checked_add_def MAX_SEED_LITERAL_BYTES_TOTAL_def usize_MAX_def)
  show ?case
  proof (cases row)
    case Nil
    with lit add bytes tokens show ?thesis by (simp add: total_bytes_def)
  next
    case (Cons _ _)
    with rest have "list_get tokens ?c = Some (Symbol (CHR '',''))"
      "drop (?c + 1) tokens = comma_separated (map literal_tokens row) @ rest"
      by (auto dest!: drop_Cons_get)
    with Cons.IH [of "?c + 1" "so_far + canonical_value_bytes literal"] Cons.prems(2) bytes
    have "seed_cells_loop tokens version (length row) (?c + 1) (so_far + canonical_value_bytes literal) =
        Some (row, ?c + 1 + length (comma_separated (map literal_tokens row)),
          so_far + canonical_value_bytes literal + total_bytes [row])"
      by simp
    with lit add bytes tokens \<open>list_get tokens ?c = _\<close> Cons show ?thesis by (simp add: total_bytes_def)
  qed
qed (simp add: total_bytes_def)

lemma rows_print:
  assumes "drop c tokens = comma_separated (map row_tokens rows)" and "rows \<noteq> []"
    and "\<forall>row \<in> set rows. length row = width \<and> list_all (printable version) row"
    and "length acc + length rows \<le> MAX_SEED_ROWS_PER_TABLE"
    and "so_far + total_bytes rows \<le> MAX_SEED_LITERAL_BYTES_TOTAL"
  shows "seed_rows_loop tokens version width c so_far acc = Some (acc @ rows)"
  using assms
proof (induction rows arbitrary: c so_far acc)
  case (Cons row rows)
  let ?cells = "comma_separated (map literal_tokens row)"
  let ?sep = "if rows = [] then [] else Symbol (CHR '','') # comma_separated (map row_tokens rows)"
  have "comma_separated (map row_tokens (row # rows)) = row_tokens row @ ?sep" by (cases rows) auto
  then have "drop c tokens = Symbol (CHR ''('') # ?cells @ Symbol (CHR '')'') # ?sep"
    using Cons.prems(1) by (simp add: row_tokens_def [of row])
  from drop_Cons_get [OF this] have opened: "list_get tokens c = Some (Symbol (CHR ''(''))"
    and inner: "drop (c + 1) tokens = ?cells @ Symbol (CHR '')'') # ?sep" by auto
  let ?d = "c + 1 + length ?cells"
  from drop_Cons_get [OF drop_append_drop [OF inner]] have closed: "list_get tokens ?d = Some (Symbol (CHR '')''))"
    and rest: "drop (?d + 1) tokens = ?sep" by auto
  have bytes: "so_far + total_bytes [row] + total_bytes rows \<le> MAX_SEED_LITERAL_BYTES_TOTAL"
    using Cons.prems(5) by (simp add: total_bytes_def)
  have cells: "seed_cells_loop tokens version width (c + 1) so_far = Some (row, ?d, so_far + total_bytes [row])"
    using cells_print [OF inner] Cons.prems(3) bytes by auto
  show ?case
  proof (cases "rows = []")
    case True
    with rest have "list_get tokens (?d + 1) = None" by (simp add: drop_Nil_get)
    with True opened closed cells Cons.prems(4) show ?thesis
      by (subst seed_rows_loop.simps) simp
  next
    case False
    with rest have comma: "list_get tokens (?d + 1) = Some (Symbol (CHR '',''))"
      and more: "drop (?d + 2) tokens = comma_separated (map row_tokens rows)"
      using drop_Cons_get [of "?d + 1" tokens] by auto
    have "seed_rows_loop tokens version width (?d + 2) (so_far + total_bytes [row]) (acc @ [row]) = Some (acc @ row # rows)"
      using Cons.IH [OF more False, of "acc @ [row]" "so_far + total_bytes [row]"] Cons.prems(3,4) bytes by simp
    with opened closed cells comma Cons.prems(4) show ?thesis
      by (subst seed_rows_loop.simps) simp
  qed
qed simp

lemma columns_print:
  assumes "drop c tokens = comma_separated (map (\<lambda>c. [Word c]) columns) @ Symbol (CHR '')'') # rest" and "columns \<noteq> []"
    and "columns_wf (acc @ columns)" and "set names = to_ascii_lowercase ` set acc"
  shows "seed_columns_loop tokens c names acc =
    Some (acc @ columns, c + length (comma_separated (map (\<lambda>c. [Word c]) columns)) + 1)"
  using assms
proof (induction columns arbitrary: c names acc)
  case (Cons column columns)
  let ?sep = "if columns = [] then [] else Symbol (CHR '','') # comma_separated (map (\<lambda>c. [Word c]) columns)"
  have "drop c tokens = Word column # ?sep @ Symbol (CHR '')'') # rest"
    using Cons.prems(1) by (cases columns) simp_all
  from drop_Cons_get [OF this] have word: "list_get tokens c = Some (Word column)"
    and after: "drop (c + 1) tokens = ?sep @ Symbol (CHR '')'') # rest" by auto
  have fresh: "to_ascii_lowercase column \<notin> set names" "length acc < MAX_SEED_COLUMNS_PER_TABLE" "valid_identifier column"
    using Cons.prems(3,4) by (auto simp: columns_wf_def)
  then have name: "canonical_plain_identifier (list_get tokens c) = Some column"
    using word by (simp add: canonical_plain_identifier_def)
  show ?case
  proof (cases "columns = []")
    case True
    with after have "list_get tokens (c + 1) = Some (Symbol (CHR '')''))" by (auto dest!: drop_Cons_get)
    with True name fresh show ?thesis by (subst seed_columns_loop.simps) simp
  next
    case False
    with after have comma: "list_get tokens (c + 1) = Some (Symbol (CHR '',''))"
      and more: "drop (c + 2) tokens = comma_separated (map (\<lambda>c. [Word c]) columns) @ Symbol (CHR '')'') # rest"
      using drop_Cons_get [of "c + 1" tokens] by auto
    have "seed_columns_loop tokens (c + 2) (bset_insert (to_ascii_lowercase column) names) (acc @ [column]) =
        Some ((acc @ [column]) @ columns, c + 2 + length (comma_separated (map (\<lambda>c. [Word c]) columns)) + 1)"
      by (rule Cons.IH [OF more False]) (use Cons.prems(3,4) in auto)
    with False name fresh comma show ?thesis
      by (subst seed_columns_loop.simps, cases columns) simp_all
  qed
qed simp

lemma seed_insert_parts_print:
  assumes "valid_identifier table" and "columns \<noteq> []" and "columns_wf columns"
    and "rows \<noteq> []" and "length rows \<le> MAX_SEED_ROWS_PER_TABLE"
    and "\<forall>row \<in> set rows. length row = length columns \<and> list_all (printable version) row"
    and "total_bytes rows \<le> MAX_SEED_LITERAL_BYTES_TOTAL"
    and "length (seed_insert_tokens table columns rows) \<le> MAX_SEED_STATEMENT_TOKENS"
  shows "seed_insert_parts (seed_insert_tokens table columns rows) version = Some (table, columns, rows)"
proof -
  let ?tokens = "seed_insert_tokens table columns rows"
  let ?columns = "comma_separated (map (\<lambda>c. [Word c]) columns)"
  obtain ts where ts: "?tokens = ts" by blast
  have at: "list_get ts 0 = Some (Word ''INSERT'')" "list_get ts 1 = Some (Word ''INTO'')"
    "list_get ts 2 = Some (Word table)" "list_get ts 3 = Some (Symbol (CHR ''(''))"
    and body: "drop 4 ts = ?columns @ Symbol (CHR '')'') # Word ''VALUES'' # comma_separated (map row_tokens rows)"
    unfolding ts [symmetric] by (simp_all add: seed_insert_tokens_def list_get_def numeral_eq_Suc)
  have columns: "seed_columns_loop ts 4 [] [] = Some (columns, 4 + length ?columns + 1)"
    using columns_print [OF body assms(2), of "[]" "[]"] assms(3) by simp
  have "drop (4 + length ?columns + 1) ts = Word ''VALUES'' # comma_separated (map row_tokens rows)"
    using drop_Cons_get [OF drop_append_drop [OF body]] by simp
  from drop_Cons_get [OF this] have "list_get ts (4 + length ?columns + 1) = Some (Word ''VALUES'')"
    and rest: "drop (4 + length ?columns + 1 + 1) ts = comma_separated (map row_tokens rows)" by auto
  note values_at = this(1)
  have rows: "seed_rows_loop ts version (length columns) (4 + length ?columns + 1 + 1) 0 [] = Some rows"
    using rows_print [OF rest assms(4), of "length columns" version "[]" 0] assms(5,6,7) by simp
  have words: "eq_ignore_ascii_case ''INSERT'' ''insert''" "eq_ignore_ascii_case ''INTO'' ''into''"
    "eq_ignore_ascii_case ''VALUES'' ''values''"
    by code_simp+
  show ?thesis
    using at columns rows values_at words assms(1,2,4,8) unfolding ts
    by (simp add: seed_insert_parts_def canonical_plain_identifier_def)
qed

text \<open>C36: Round trip: every seed \<open>INSERT\<close> within the bounds, with canonical columns that
  are distinct under case folding and distinct rows of \<open>NULL\<close>, text and 64-bit integer literals, is
  classified as exactly its table, its columns and its rows in canonical order.
\<close>

theorem seed_insert_roundtrip:
  assumes "valid_identifier table" and "columns \<noteq> []" and "columns_wf columns"
    and "rows \<noteq> []" and "length rows \<le> MAX_SEED_ROWS_PER_TABLE" and "distinct rows"
    and "\<forall>row \<in> set rows. length row = length columns \<and> list_all (printable version) row"
    and "total_bytes rows \<le> MAX_SEED_LITERAL_BYTES_TOTAL"
    and "length (seed_insert_tokens table columns rows) \<le> MAX_SEED_STATEMENT_TOKENS"
  shows "classify_seed_insert (seed_insert_tokens table columns rows) version =
    Inr (Some \<lparr>sie_version = version, sie_table_name = table, sie_columns = columns, sie_rows = sort rows\<rparr>)"
proof -
  have insert: "token_is_word (list_get (seed_insert_tokens table columns rows) 0) ''insert''"
    by (simp add: seed_insert_tokens_def list_get_def) code_simp
  have "\<not> adjacent_equal (sort rows)"
    using adjacent_equal_sorted [of "sort rows"] assms(6) by (simp add: strict_sorted_iff)
  with insert seed_insert_parts_print [OF assms(1-5,7-9)] show ?thesis
    by (simp add: classify_seed_insert_def)
qed

end
