(* ===== verification/D1_Seed_Samples.thy ===== *)
theory D1_Seed_Samples
  imports D1_Seed_Print D1_Samples
begin

text \<open>A seed statement of two rows, the state it leads to, and the rows a provider would return for it.\<close>

definition seed_sample_rows :: "SeedLiteral list list" where
  "seed_sample_rows = [[SeedInteger 2, SeedText ''b''], [SeedInteger (- 1), SeedNull]]"

definition seed_sample_columns :: "string list" where
  "seed_sample_columns = [''id'', ''label'']"

definition seed_sample_effect :: SeedInsertEffect where
  "seed_sample_effect = \<lparr>sie_version = V2, sie_table_name = ''items'', sie_columns = seed_sample_columns,
     sie_rows = sort seed_sample_rows\<rparr>"

definition seed_sample_state :: SeedTableState where
  "seed_sample_state = \<lparr>sts_version = V2, sts_table_name = ''items'', sts_columns = seed_sample_columns,
     sts_rows = sort seed_sample_rows\<rparr>"

definition seed_sample_result :: "unit json list" where
  "seed_sample_result =
     [Object [(''t0'', String ''integer''), (''t1'', String ''text''), (''v0'', String ''2''), (''v1'', String ''62'')],
      Object [(''t0'', String ''integer''), (''t1'', String ''null''), (''v0'', String ''-1''), (''v1'', Null)]]"

lemma seed_sample_columns_wf: "valid_identifier ''items''" "columns_wf seed_sample_columns" "seed_sample_columns \<noteq> []"
  by code_simp+

lemma seed_sample_rows_fit:
  "seed_sample_rows \<noteq> []" "distinct seed_sample_rows" "length seed_sample_rows \<le> MAX_SEED_ROWS_PER_TABLE"
  "total_bytes seed_sample_rows \<le> MAX_SEED_LITERAL_BYTES_TOTAL"
  "length (seed_insert_tokens ''items'' seed_sample_columns seed_sample_rows) \<le> MAX_SEED_STATEMENT_TOKENS"
  by (simp_all add: seed_sample_rows_def seed_sample_columns_def seed_insert_tokens_def row_tokens_def total_bytes_def
      saturating_mul_def signed_decimal_len_def digit_count.simps MAX_SEED_ROWS_PER_TABLE_def
      MAX_SEED_LITERAL_BYTES_TOTAL_def MAX_SEED_STATEMENT_TOKENS_def)

lemma seed_sample_rows_printable:
  "\<forall>row \<in> set seed_sample_rows. length row = length seed_sample_columns \<and> list_all (printable V2) row"
  by (simp add: seed_sample_rows_def seed_sample_columns_def printable_def literal_allowed_def bounded_literal_def
      allows_null_def MAX_SEED_VALUE_BYTES_def)

lemma seed_sample_sorted:
  "sort seed_sample_rows = [[SeedInteger (- 1), SeedNull], [SeedInteger 2, SeedText ''b'']]"
  by code_simp

lemma seed_sample_classified:
  "classify_seed_insert (seed_insert_tokens ''items'' seed_sample_columns seed_sample_rows) V2 = Inr (Some seed_sample_effect)"
proof -
  have parts: "seed_insert_parts (seed_insert_tokens ''items'' seed_sample_columns seed_sample_rows) V2 =
      Some (''items'', seed_sample_columns, seed_sample_rows)"
    by (rule seed_insert_parts_print [OF seed_sample_columns_wf(1,3,2) seed_sample_rows_fit(1,3)
          seed_sample_rows_printable seed_sample_rows_fit(4,5)])
  have "token_is_word (list_get (seed_insert_tokens ''items'' seed_sample_columns seed_sample_rows) 0) ''insert''"
    by (simp add: seed_insert_tokens_def list_get_def) code_simp
  moreover have "\<not> adjacent_equal (sort seed_sample_rows)" unfolding seed_sample_sorted by code_simp
  ultimately show ?thesis using parts by (simp add: classify_seed_insert_def seed_sample_effect_def)
qed

lemma seed_sample_inserted:
  "insert_seed_effect [] (seed_sample_effect\<lparr>sie_table_name := ''Items''\<rparr>) =
    Inr [(''items'', seed_sample_state\<lparr>sts_table_name := ''Items''\<rparr>)]"
  by code_simp

lemma seed_sample_shown:
  "list_all2 (shows_row seed_sample_state) seed_sample_rows seed_sample_result"
proof -
  have fields: "seed_data_fields 2 = [''t0'', ''v0'', ''t1'', ''v1'']" by code_simp
  have index: "nat_to_string 0 = ''0''" "nat_to_string (Suc 0) = ''1''" by code_simp+
  have cells: "canonical_value (SeedInteger 2) = Some ''2''" "canonical_value (SeedInteger (- 1)) = Some ''-1''"
    "hex_upper ''b'' = ''62''" by code_simp+
  have "(\<forall>i < 2. P i) \<longleftrightarrow> P 0 \<and> P (Suc 0)" for P
    by (auto simp: less_Suc_eq numeral_2_eq_2)
  with fields index cells show ?thesis
    by (auto simp: seed_sample_rows_def seed_sample_result_def shows_row_def seed_sample_state_def
        seed_sample_columns_def json_value_def numeral_2_eq_2 [symmetric] simp del: canonical_value.simps(3))
qed

text \<open>The observed summary of the sample rows, whatever their order, is the reviewed one.\<close>

theorem seed_readback_exact_witness:
  "to_vec_injective sample_env \<and> seed_state_wf seed_sample_state \<and>
   observed_seed_summary sample_env seed_sample_state seed_sample_result = Inr (seed_table_summary sample_env seed_sample_state)"
proof -
  have wf: "seed_state_wf seed_sample_state"
    using seed_sample_rows_printable by (simp add: seed_state_wf_def seed_sample_state_def printable_def list_all_iff)
  have "mset seed_sample_rows = mset (sts_rows seed_sample_state)" by (simp add: seed_sample_state_def)
  with seed_readback_exact [OF sample_env_injective wf, of seed_sample_result] seed_sample_shown wf
  show ?thesis using sample_env_injective by blast
qed

theorem seed_tables_bounded_witness:
  "classify_seed_insert (seed_insert_tokens ''items'' seed_sample_columns seed_sample_rows) V2 = Inr (Some seed_sample_effect) \<and>
   cumulative_wf [(''items'', seed_sample_state\<lparr>sts_table_name := ''Items''\<rparr>)]"
proof -
  have "cumulative_wf []" by (simp add: cumulative_wf_def bmap_wf_def)
  from seed_tables_bounded [OF seed_sample_classified this seed_sample_inserted] seed_sample_classified
  show ?thesis by blast
qed

theorem seed_insert_roundtrip_witness:
  "classify_seed_insert (seed_insert_tokens ''items'' seed_sample_columns seed_sample_rows) V2 =
    Inr (Some \<lparr>sie_version = V2, sie_table_name = ''items'', sie_columns = seed_sample_columns,
      sie_rows = [[SeedInteger (- 1), SeedNull], [SeedInteger 2, SeedText ''b'']]\<rparr>)"
  using seed_insert_roundtrip [OF seed_sample_columns_wf(1,3,2) seed_sample_rows_fit(1,3,2)
      seed_sample_rows_printable seed_sample_rows_fit(4,5)]
  by (simp add: seed_sample_sorted)

end
