(* ===== verification/D1_Fts.thy ===== *)
theory D1_Fts
  imports D1_Seed_Rows D1_Migration_Sql_Sound
begin

text \<open>
  The external-content FTS5 part of \<open>src/d1_migration_reconciliation.rs\<close>: the closed grammar of the virtual
  table, the shape its content table must have, the rows and definitions the engine is expected to
  own, and the binding of every declared object to the bytes of its statement. A function of the
  source that returns an \<open>Option\<close> and may panic returns a \<open>unit failure\<close>: \<open>Err ()\<close> is the source's \<open>None\<close>.
\<close>

record D1MigrationManifestEntry =
  entry_name :: string
  entry_size_bytes :: u64
  entry_sql_sha256 :: string
  entry_sql :: string

definition or_panic :: "'a checked \<Rightarrow> 'e failure + 'a" where
  "or_panic m = (case m of None \<Rightarrow> Inl (Panic ''slice index out of range'') | Some x \<Rightarrow> Inr x)"

definition or_none :: "'a option \<Rightarrow> unit failure + 'a" where
  "or_none m = ok_or (Err ()) m"

definition unless_none :: "bool \<Rightarrow> unit failure + unit" where
  "unless_none b = (if b then Inl (Err ()) else Inr ())"

text \<open>\<open>slice::split\<close>: the parts between the separators, also empty ones.\<close>

fun split_at_sep :: "'a \<Rightarrow> 'a list \<Rightarrow> 'a list \<Rightarrow> 'a list list" where
  "split_at_sep sep part [] = [part]"
| "split_at_sep sep part (x # xs) = (if x = sep then part # split_at_sep sep [] xs else split_at_sep sep (part @ [x]) xs)"

section \<open>The virtual table\<close>

record ExternalFts5Shape =
  fts_table :: string
  fts_content :: string
  fts_columns :: "string list"

definition shadow_suffixes :: "string list" where
  "shadow_suffixes = [''_data'', ''_idx'', ''_docsize'', ''_config'']"

record fts_scan =
  scan_columns :: "string list"
  scan_seen :: "string list"
  scan_content :: "string option"
  scan_rowid :: bool
  scan_tokenizer :: bool
  scan_in_options :: bool

definition fts_scan_start :: fts_scan where
  "fts_scan_start = \<lparr>scan_columns = [], scan_seen = [], scan_content = None, scan_rowid = False,
     scan_tokenizer = False, scan_in_options = False\<rparr>"

definition fts_column :: "string \<Rightarrow> fts_scan \<Rightarrow> SqlToken list \<Rightarrow> fts_scan option" where
  "fts_column table s part =
     (case canonical_name_at part 0 of
        None \<Rightarrow> None
      | Some name \<Rightarrow>
          let key = to_ascii_lowercase name
          in if key = ''rowid'' \<or> key = ''rank'' \<or> key = to_ascii_lowercase table \<or> key \<in> set (scan_seen s) \<or>
               length (scan_columns s) \<ge> 16
             then None
             else Some (s\<lparr>scan_columns := scan_columns s @ [name], scan_seen := bset_insert key (scan_seen s)\<rparr>))"

definition reserved_content :: "string \<Rightarrow> string \<Rightarrow> bool" where
  "reserved_content table content \<longleftrightarrow> eq_ignore_ascii_case content table \<or>
     list_ex (\<lambda>suffix. eq_ignore_ascii_case content (table @ suffix)) shadow_suffixes \<or>
     starts_with (to_ascii_lowercase content) ''sqlite_''"

definition fts_option :: "string \<Rightarrow> fts_scan \<Rightarrow> SqlToken list \<Rightarrow> string \<Rightarrow> fts_scan option" where
  "fts_option table s part v =
     (if token_is_word (list_get part 0) ''content'' \<and> scan_content s = None
      then (if \<not> canonical_identifier v \<or> reserved_content table v then None
            else Some (s\<lparr>scan_content := Some v\<rparr>))
      else if token_is_word (list_get part 0) ''content_rowid'' \<and> \<not> scan_rowid s \<and> v = ''rowid''
      then Some (s\<lparr>scan_rowid := True\<rparr>)
      else if token_is_word (list_get part 0) ''tokenize'' \<and> \<not> scan_tokenizer s \<and> v = ''unicode61 remove_diacritics 2''
      then Some (s\<lparr>scan_tokenizer := True\<rparr>)
      else None)"

definition fts_part :: "string \<Rightarrow> fts_scan \<Rightarrow> SqlToken list \<Rightarrow> fts_scan option" where
  "fts_part table s part =
     (if length part = 1 \<and> \<not> scan_in_options s then fts_column table s part
      else let s = s\<lparr>scan_in_options := True\<rparr>
        in if length part \<noteq> 3 \<or> part ! 1 \<noteq> Symbol (CHR ''='') then None
           else case part ! 2 of StringLiteral v \<Rightarrow> fts_option table s part v | _ \<Rightarrow> None)"

definition classify_external_fts5 :: "SqlToken list \<Rightarrow> ExternalFts5Shape option checked" where
  "classify_external_fts5 tokens =
     (if \<not> token_is_word (list_get tokens 0) ''create'' \<or> \<not> token_is_word (list_get tokens 1) ''virtual'' \<or>
        \<not> token_is_word (list_get tokens 2) ''table'' \<or> \<not> token_is_word (list_get tokens 4) ''using'' \<or>
        \<not> token_is_word (list_get tokens 5) ''fts5'' \<or> list_get tokens 6 \<noteq> Some (Symbol (CHR ''('')) \<or>
        balanced_parenthesized_end tokens 6 \<noteq> Some (length tokens)
      then Some None
      else some_then (canonical_name_at tokens 3) (\<lambda>table.
        if starts_with (to_ascii_lowercase table) ''sqlite_'' \<or>
          list_ex (\<lambda>suffix. \<not> canonical_identifier (table @ suffix)) shadow_suffixes
        then Some None
        else do {
          last_index \<leftarrow> usize_sub (length tokens) 1;
          body \<leftarrow> slice tokens 7 last_index;
          some_then (checked_fold (fts_part table) fts_scan_start (split_at_sep (Symbol (CHR '','')) [] body)) (\<lambda>s.
            Some (if scan_columns s = [] \<or> \<not> scan_rowid s \<or> \<not> scan_tokenizer s then None
              else map_option (\<lambda>content. \<lparr>fts_table = table, fts_content = content, fts_columns = scan_columns s\<rparr>)
                (scan_content s))) }))"

fun fts_statement :: "ExternalFts5Shape option \<Rightarrow> SqlToken list \<Rightarrow> unit failure + ExternalFts5Shape option" where
  "fts_statement found tokens =
     ok_then (or_panic (classify_external_fts5 tokens)) (\<lambda>shape.
       case shape of
         None \<Rightarrow> Inr found
       | Some shape \<Rightarrow> (if found \<noteq> None then Inl (Err ()) else Inr (Some shape)))"

text \<open>The inner \<open>None\<close> of the state is the source's \<open>found\<close> before any statement matched.\<close>

definition single_fts_shape :: "D1MigrationManifestEntry list \<Rightarrow> unit failure + ExternalFts5Shape" where
  "single_fts_shape manifest =
     ok_then (try_fold (\<lambda>found migration.
         ok_then (or_none (tokenize_sql_statements (entry_sql migration))) (\<lambda>statements.
           try_fold fts_statement found statements)) None manifest) or_none"

section \<open>The content table\<close>

definition after_definition :: "SqlToken list \<Rightarrow> nat option" where
  "after_definition tokens =
     Option.bind (position (\<lambda>token. token = Symbol (CHR ''('')) tokens) (balanced_parenthesized_end tokens)"

definition schema_create_table_is_strict :: "SqlToken list \<Rightarrow> bool checked" where
  "schema_create_table_is_strict tokens =
     (case after_definition tokens of
        None \<Rightarrow> Some False
      | Some after \<Rightarrow> do {
          suffix \<leftarrow> slice tokens after (length tokens);
          Some (list_ex (\<lambda>token. token_is_word (Some token) ''strict'') suffix) })"

fun has_without_rowid :: "SqlToken list \<Rightarrow> bool" where
  "has_without_rowid (a # b # tokens) \<longleftrightarrow>
     token_is_word (Some a) ''without'' \<and> token_is_word (Some b) ''rowid'' \<or> has_without_rowid (b # tokens)"
| "has_without_rowid _ \<longleftrightarrow> False"

definition schema_create_table_is_without_rowid :: "SqlToken list \<Rightarrow> bool checked" where
  "schema_create_table_is_without_rowid tokens =
     (case after_definition tokens of
        None \<Rightarrow> Some False
      | Some after \<Rightarrow> do {
          suffix \<leftarrow> slice tokens after (length tokens);
          Some (has_without_rowid suffix) })"

text \<open>The fields collected from the definition; an error is the source's \<open>return false\<close>.\<close>

type_synonym content_fields = "(string \<times> SqlToken list) list"

definition content_field :: "content_fields \<Rightarrow> SqlToken list \<Rightarrow> unit failure + content_fields" where
  "content_field columns_found part =
     (if part = [] then Inl (Err ())
      else if token_is_word (list_get part 0) ''primary'' \<or>
        token_is_word (list_get part 0) ''constraint'' \<and> list_ex (\<lambda>item. token_is_word (Some item) ''primary'') part
      then Inl (Err ())
      else if list_ex (token_is_word (list_get part 0)) [''check'', ''foreign'', ''unique'', ''constraint'']
      then Inr columns_found
      else case canonical_name_at part 0 of
          None \<Rightarrow> Inl (Err ())
        | Some name \<Rightarrow>
            (if map_of columns_found (to_ascii_lowercase name) \<noteq> None then Inl (Err ())
             else Inr (bmap_insert (to_ascii_lowercase name) part columns_found)))"

definition content_step ::
  "SqlToken list \<Rightarrow> nat \<Rightarrow> nat \<times> nat \<times> content_fields \<Rightarrow> nat \<Rightarrow> unit failure + nat \<times> nat \<times> content_fields" where
  "content_step tokens end_index state index =
     (case state of (start, depth, columns_found) \<Rightarrow>
      ok_then (or_panic (list_get tokens index)) (\<lambda>token.
        let depth = (if token = Symbol (CHR ''('') then depth + 1
                     else if token = Symbol (CHR '')'') \<and> depth > 0 then depth - 1 else depth)
        in if token = Symbol (CHR '','') \<and> depth = 0 \<or> index = end_index - 1
           then ok_then (or_panic (slice tokens start index)) (\<lambda>part.
             map_ok (\<lambda>columns_found. (index + 1, depth, columns_found)) (content_field columns_found part))
           else Inr (start, depth, columns_found)))"

fun generated_scan :: "SqlToken \<Rightarrow> nat \<times> bool \<Rightarrow> nat \<times> bool" where
  "generated_scan item (nested, generated) =
     (if item = Symbol (CHR ''('') then (nested + 1, generated)
      else if item = Symbol (CHR '')'') then (nested - 1, generated)
      else if nested = 0 \<and> (token_is_word (Some item) ''generated'' \<or> token_is_word (Some item) ''as'')
      then (nested, True) else (nested, generated))"

definition text_column :: "content_fields \<Rightarrow> string \<Rightarrow> bool" where
  "text_column columns_found name =
     (case map_of columns_found (to_ascii_lowercase name) of
        None \<Rightarrow> False
      | Some part \<Rightarrow> token_is_word (list_get part 1) ''text'' \<and> \<not> snd (fold generated_scan part (0, False)))"

definition rowid_alias :: "content_fields \<Rightarrow> bool" where
  "rowid_alias columns_found =
     (case map_of columns_found ''rowid'' of
        None \<Rightarrow> False
      | Some part \<Rightarrow> length part = 4 \<and> token_is_word (list_get part 1) ''integer'' \<and>
          token_is_word (list_get part 2) ''primary'' \<and> token_is_word (list_get part 3) ''key'')"

definition fts5_content_declaration_matches :: "SqlToken list \<Rightarrow> ExternalFts5Shape \<Rightarrow> bool checked" where
  "fts5_content_declaration_matches tokens fts =
     (if \<not> token_is_word (list_get tokens 0) ''create'' \<or> \<not> token_is_word (list_get tokens 1) ''table'' \<or>
        \<not> (case token_identifier (list_get tokens 2) of
             None \<Rightarrow> False | Some name \<Rightarrow> eq_ignore_ascii_case name (fts_content fts)) \<or>
        list_get tokens 3 \<noteq> Some (Symbol (CHR ''(''))
      then Some False
      else case balanced_parenthesized_end tokens 3 of
          None \<Rightarrow> Some False
        | Some end_index \<Rightarrow> do {
            suffix \<leftarrow> slice tokens end_index (length tokens);
            without_rowid \<leftarrow> (if \<not> valid_table_suffix suffix then Some True else schema_create_table_is_without_rowid tokens);
            if without_rowid then Some False
            else case try_fold (content_step tokens end_index) (4, 0, []) [4..<end_index] of
                Inl (Panic _) \<Rightarrow> None
              | Inl (Err _) \<Rightarrow> Some False
              | Inr (_, _, columns_found) \<Rightarrow> Some (rowid_alias columns_found \<and> list_all (text_column columns_found) (fts_columns fts)) })"

section \<open>What the engine owns\<close>

definition fts_effect :: "string \<Rightarrow> string list \<Rightarrow> SeedLiteral list list \<Rightarrow> SeedInsertEffect" where
  "fts_effect name columns rows =
     \<lparr>sie_version = V3Fts, sie_table_name = name, sie_columns = columns, sie_rows = rows\<rparr>"

definition fts5_empty_physical_seed_effects :: "ExternalFts5Shape \<Rightarrow> SeedInsertEffect list" where
  "fts5_empty_physical_seed_effects fts =
     [fts_effect (fts_content fts) [''rowid''] [],
      fts_effect (fts_table fts @ ''_config'') [''k'', ''v''] [[SeedText ''version'', SeedInteger 4]],
      fts_effect (fts_table fts @ ''_data'') [''id'', ''block'']
        [[SeedInteger 1, SeedBlob []], [SeedInteger 10, SeedBlob (replicate 7 (CHR 0x00))]],
      fts_effect (fts_table fts @ ''_docsize'') [''id''] [],
      fts_effect (fts_table fts @ ''_idx'') [''segid''] []]"

type_synonym schema_digests = "((string \<times> string) \<times> string) list"

definition shadow_definitions :: "(string \<times> string) list" where
  "shadow_definitions =
     [(''_config'', ''(k PRIMARY KEY, v) WITHOUT ROWID''),
      (''_data'', ''(id INTEGER PRIMARY KEY, block BLOB)''),
      (''_docsize'', ''(id INTEGER PRIMARY KEY, sz BLOB)''),
      (''_idx'', ''(segid, term, pgno, PRIMARY KEY(segid, term)) WITHOUT ROWID'')]"

definition fts5_shadow_schema_digests :: "env \<Rightarrow> ExternalFts5Shape \<Rightarrow> schema_digests" where
  "fts5_shadow_schema_digests E fts =
     fold (\<lambda>(suffix, definition_sql). bmap_insert (''table'', fts_table fts @ suffix)
         (sha256_hex E (''CREATE TABLE '' @ quoted_text (fts_table fts @ suffix) @ definition_sql)))
       shadow_definitions []"

section \<open>Statements bound to their bytes\<close>

definition MAX_SQL_BYTES :: nat where "MAX_SQL_BYTES = 65536"
definition MAX_TERMINATORS :: nat where "MAX_TERMINATORS = 256"

text \<open>
  \<open>pending\<close> holds the bytes from \<open>start\<close> to \<open>index\<close>. The quotes are those of the tokenizer; comments are
  refused. At a semicolon the bytes since the last statement are accepted when they tokenize to
  exactly the next expected statement.
\<close>

definition at_terminator ::
  "SqlToken list list \<Rightarrow> bytes \<Rightarrow> string list \<Rightarrow> (bytes \<times> string list) option" where
  "at_terminator expected pending sources =
     (let candidate = pending @ '';''
      in if (case tokenize_sql_statements candidate of
               None \<Rightarrow> False
             | Some parsed \<Rightarrow> length parsed = 1 \<and> list_get expected (length sources) = list_get parsed 0)
         then (if trim pending = [] then None else Some ([], sources @ [trim pending]))
         else Some (candidate, sources))"

fun strict_sources_loop ::
  "SqlToken list list \<Rightarrow> Mode \<Rightarrow> bytes \<Rightarrow> nat \<Rightarrow> string list \<Rightarrow> bytes \<Rightarrow> string list option" where
  "strict_sources_loop expected quote pending terminators sources [] =
     (if quote \<noteq> Normal \<or> trim pending \<noteq> [] \<or> length sources \<noteq> length expected then None else Some sources)"
| "strict_sources_loop expected quote pending terminators sources (b # bs) =
     (let following = list_get bs 0 in
      if quote = Normal
      then (if b = CHR ''-'' \<and> following = Some (CHR ''-'') \<or> b = CHR ''/'' \<and> following = Some (CHR ''*'') then None
            else case opening_mode b of
                Some opened \<Rightarrow> strict_sources_loop expected opened (pending @ [b]) terminators sources bs
              | None \<Rightarrow>
                  (if b = CHR '';''
                   then (if terminators + 1 > MAX_TERMINATORS then None
                         else case at_terminator expected pending sources of
                             None \<Rightarrow> None
                           | Some (pending, sources) \<Rightarrow>
                               strict_sources_loop expected Normal pending (terminators + 1) sources bs)
                   else strict_sources_loop expected Normal (pending @ [b]) terminators sources bs))
      else if quote = Bracket
      then strict_sources_loop expected (if b = CHR '']'' then Normal else Bracket) (pending @ [b]) terminators sources bs
      else if b = quote_of quote
      then (if following = Some (quote_of quote)
            then strict_sources_loop expected quote (pending @ [b, quote_of quote]) terminators sources (tl bs)
            else strict_sources_loop expected Normal (pending @ [b]) terminators sources bs)
      else strict_sources_loop expected quote (pending @ [b]) terminators sources bs)"

declare strict_sources_loop.simps(2) [simp del]

definition strict_manifest_statement_sources :: "string \<Rightarrow> string list option" where
  "strict_manifest_statement_sources sql =
     (if length sql > MAX_SQL_BYTES then None
      else case tokenize_sql_statements sql of
          None \<Rightarrow> None
        | Some expected \<Rightarrow> (if expected = [] then None else strict_sources_loop expected Normal [] 0 [] sql))"

definition created_prefix_text :: "string \<Rightarrow> string option" where
  "created_prefix_text kind =
     (if kind = ''table'' then Some ''CREATE TABLE '' else if kind = ''index'' then Some ''CREATE INDEX ''
      else if kind = ''trigger'' then Some ''CREATE TRIGGER '' else None)"

text \<open>The object a statement declares, if it declares one.\<close>

definition source_object :: "string \<Rightarrow> SqlToken list \<Rightarrow> unit failure + (string \<times> string) option" where
  "source_object source tokens =
     ok_then (or_panic (classify_schema_create tokens True)) (\<lambda>created.
       case created of
         Some (object, _) \<Rightarrow>
           ok_then (unless_none (schema_create_uses_if_not_exists tokens)) (\<lambda>_.
             ok_then (or_none (created_prefix_text (object_type object))) (\<lambda>prefix.
               ok_then (unless_none (\<not> starts_with source prefix)) (\<lambda>_.
                 Inr (Some (object_type object, object_name object)))))
       | None \<Rightarrow>
           ok_then (or_panic (classify_external_fts5 tokens)) (\<lambda>fts.
             case fts of
               Some fts \<Rightarrow>
                 ok_then (unless_none (\<not> starts_with source ''CREATE VIRTUAL TABLE '')) (\<lambda>_.
                   Inr (Some (''table'', fts_table fts)))
             | None \<Rightarrow>
                 ok_then (or_none (result_ok (classify_seed_insert tokens V3Fts))) (\<lambda>seed.
                   if seed = None then Inl (Err ()) else Inr None)))"

definition source_digest_step ::
  "env \<Rightarrow> schema_digests \<times> string list \<Rightarrow> string \<Rightarrow> unit failure + schema_digests \<times> string list" where
  "source_digest_step E state source =
     (case state of (current, names) \<Rightarrow>
      ok_then (or_none (tokenize_sql_statements source)) (\<lambda>tokens.
        if length tokens \<noteq> 1 then Inl (Err ())
        else ok_then (source_object source (tokens ! 0)) (\<lambda>object.
          case object of
            None \<Rightarrow> Inr (current, names)
          | Some (kind, name) \<Rightarrow>
              (if sqlite_ascii_identifier_key name \<in> set names \<or> map_of current (kind, name) \<noteq> None
               then Inl (Err ())
               else Inr (bmap_insert (kind, name) (sha256_hex E source) current,
                 bset_insert (sqlite_ascii_identifier_key name) names)))))"

definition strict_manifest_schema_digests ::
  "env \<Rightarrow> D1MigrationManifestEntry list \<Rightarrow> unit failure + schema_digests list" where
  "strict_manifest_schema_digests E manifest =
     map_ok (\<lambda>(_, _, digest_list). digest_list)
       (try_fold (\<lambda>(current, names, digest_list) migration.
          ok_then (or_none (strict_manifest_statement_sources (entry_sql migration))) (\<lambda>sources.
            map_ok (\<lambda>(current, names). (current, names, digest_list @ [current]))
              (try_fold (source_digest_step E) (current, names) sources)))
        ([], [], [[]]) manifest)"

definition shadow_step ::
  "string list \<Rightarrow> schema_digests \<Rightarrow> (string \<times> string) \<times> string \<Rightarrow> unit failure + schema_digests" where
  "shadow_step manifest_names shadows entry =
     (case entry of (key, digest) \<Rightarrow>
        (if sqlite_ascii_identifier_key (snd key) \<in> set manifest_names \<or> map_of shadows key \<noteq> None then Inl (Err ())
         else Inr (bmap_insert key digest shadows)))"

definition fts_source_step ::
  "env \<Rightarrow> string list \<Rightarrow> schema_digests \<times> bool \<Rightarrow> string \<Rightarrow> unit failure + schema_digests \<times> bool" where
  "fts_source_step E manifest_names state source =
     (case state of (shadows, fts_seen) \<Rightarrow>
      ok_then (or_none (tokenize_sql_statements source)) (\<lambda>parsed.
      ok_then (or_none (list_get parsed 0)) (\<lambda>statement.
      ok_then (or_panic (classify_external_fts5 statement)) (\<lambda>shape.
        case shape of
          None \<Rightarrow> Inr (shadows, fts_seen)
        | Some shape \<Rightarrow>
            (if fts_seen then Inl (Err ())
             else map_ok (\<lambda>shadows. (shadows, True))
               (try_fold (shadow_step manifest_names) shadows (fts5_shadow_schema_digests E shape)))))))"

definition add_shadows :: "schema_digests \<Rightarrow> schema_digests \<Rightarrow> unit failure + schema_digests" where
  "add_shadows shadows digests =
     try_fold (\<lambda>digests (key, digest).
       if map_of digests key \<noteq> None then Inl (Err ()) else Inr (bmap_insert key digest digests)) digests shadows"

definition fts_migration_step ::
  "env \<Rightarrow> string list \<Rightarrow> schema_digests \<times> bool \<times> schema_digests list \<Rightarrow> nat \<times> D1MigrationManifestEntry \<Rightarrow>
   unit failure + schema_digests \<times> bool \<times> schema_digests list" where
  "fts_migration_step E manifest_names state entry =
     (case (state, entry) of ((shadows, fts_seen, digest_list), (index, migration)) \<Rightarrow>
      ok_then (or_none (strict_manifest_statement_sources (entry_sql migration))) (\<lambda>sources.
      ok_then (try_fold (fts_source_step E manifest_names) (shadows, fts_seen) sources) (\<lambda>(shadows, fts_seen).
        if shadows = [] then Inr (shadows, fts_seen, digest_list)
        else ok_then (or_none (list_get digest_list (index + 1))) (\<lambda>digests.
          map_ok (\<lambda>digests. (shadows, fts_seen, digest_list[index + 1 := digests])) (add_shadows shadows digests)))))"

definition strict_fts_schema_digests ::
  "env \<Rightarrow> D1MigrationManifestEntry list \<Rightarrow> unit failure + schema_digests list" where
  "strict_fts_schema_digests E manifest =
     ok_then (strict_manifest_schema_digests E manifest) (\<lambda>digest_list.
       if digest_list = [] then Inl (Err ())
       else let manifest_names = bset_of (map (\<lambda>((_, name), _). sqlite_ascii_identifier_key name) (last digest_list))
         in ok_then (try_fold (fts_migration_step E manifest_names) ([], False, digest_list) (enumerate 0 manifest))
              (\<lambda>(_, fts_seen, digest_list). if fts_seen then Inr digest_list else Inl (Err ())))"

definition supplied_digests :: "D1MigrationSchemaObjectExpectation list \<Rightarrow> schema_digests" where
  "supplied_digests objects =
     fold (\<lambda>(k, v). bmap_insert k v)
       (map (\<lambda>object. ((obj_type object, obj_name object), obj_sql_sha256 object)) objects) []"

definition fts_expected_schema_is_source_bound ::
  "env \<Rightarrow> D1MigrationManifestEntry list \<Rightarrow> 'seed D1MigrationStateExpectation list \<Rightarrow> bool checked" where
  "fts_expected_schema_is_source_bound E manifest states =
     (case strict_fts_schema_digests E manifest of
        Inl (Panic _) \<Rightarrow> None
      | Inl (Err _) \<Rightarrow> Some False
      | Inr digest_list \<Rightarrow>
          Some (length states = length digest_list \<and>
            list_all (\<lambda>(index, state, expected).
              manifest_prefix_length state = index \<and>
              length (supplied_digests (schema_objects state)) = length (schema_objects state) \<and>
              supplied_digests (schema_objects state) = expected) (enumerate 0 (zip states digest_list))))"

end
