(* ===== verification/D1_Effects.thy ===== *)
theory D1_Effects
  imports D1_Fts
begin

text \<open>
  \<open>derive_effect_assertion_details\<close> of \<open>src/d1_migration_reconciliation.rs\<close>: every statement of a migration
  manifest is classified under the selected effect assertion, and the schema objects, the additive plan
  and the seed tables of each manifest prefix are derived. One record carries the mutable locals of the
  classification loop; the passes over the classified effects follow in the order of the source.
\<close>

section \<open>Assertions and results\<close>

definition EFFECT_ASSERTION_SCHEMA_CREATE_ONLY_V1 :: string where
  "EFFECT_ASSERTION_SCHEMA_CREATE_ONLY_V1 = ''schema_create_only_v1''"
definition EFFECT_ASSERTION_SCHEMA_CREATE_OBJECTS_V1 :: string where
  "EFFECT_ASSERTION_SCHEMA_CREATE_OBJECTS_V1 = ''schema_create_tables_indexes_views_triggers_v1''"
definition EFFECT_ASSERTION_SCHEMA_ADDITIVE_V1 :: string where
  "EFFECT_ASSERTION_SCHEMA_ADDITIVE_V1 = ''schema_create_objects_additive_v1''"
definition EFFECT_ASSERTION_SCHEMA_ADDITIVE_SEED_ROWS_V1 :: string where
  "EFFECT_ASSERTION_SCHEMA_ADDITIVE_SEED_ROWS_V1 = ''schema_create_objects_additive_seed_rows_v1''"
definition EFFECT_ASSERTION_SCHEMA_ADDITIVE_SEED_ROWS_V2 :: string where
  "EFFECT_ASSERTION_SCHEMA_ADDITIVE_SEED_ROWS_V2 = ''schema_create_objects_additive_seed_rows_v2''"
definition EFFECT_ASSERTION_SCHEMA_EMPTY_FTS5_V1 :: string where
  "EFFECT_ASSERTION_SCHEMA_EMPTY_FTS5_V1 = ''schema_create_objects_empty_external_fts5_v1''"

lemmas assertion_ids =
  EFFECT_ASSERTION_SCHEMA_CREATE_ONLY_V1_def EFFECT_ASSERTION_SCHEMA_CREATE_OBJECTS_V1_def
  EFFECT_ASSERTION_SCHEMA_ADDITIVE_V1_def EFFECT_ASSERTION_SCHEMA_ADDITIVE_SEED_ROWS_V1_def
  EFFECT_ASSERTION_SCHEMA_ADDITIVE_SEED_ROWS_V2_def EFFECT_ASSERTION_SCHEMA_EMPTY_FTS5_V1_def

definition canonical_effect_assertion_id :: "string option \<Rightarrow> reconciliation_error + string" where
  "canonical_effect_assertion_id effect_assertion_id =
     (case effect_assertion_id of
        Some name \<Rightarrow>
          (if name \<in> {EFFECT_ASSERTION_SCHEMA_CREATE_ONLY_V1, EFFECT_ASSERTION_SCHEMA_CREATE_OBJECTS_V1,
             EFFECT_ASSERTION_SCHEMA_ADDITIVE_V1, EFFECT_ASSERTION_SCHEMA_ADDITIVE_SEED_ROWS_V1,
             EFFECT_ASSERTION_SCHEMA_ADDITIVE_SEED_ROWS_V2, EFFECT_ASSERTION_SCHEMA_EMPTY_FTS5_V1}
           then Inr name
           else Inl (ReconciliationError ''capability_gap'' ''d1.migration_reconciliation_effect_assertion_missing''
             ''a supported registry-backed migration effect assertion is required''))
      | None \<Rightarrow> Inl (ReconciliationError ''capability_gap'' ''d1.migration_reconciliation_effect_assertion_missing''
             ''a supported registry-backed migration effect assertion is required''))"

definition seed_assertion_version :: "string \<Rightarrow> SeedAssertionVersion option" where
  "seed_assertion_version effect_assertion_id =
     (if effect_assertion_id = EFFECT_ASSERTION_SCHEMA_ADDITIVE_SEED_ROWS_V1 then Some V1
      else if effect_assertion_id = EFFECT_ASSERTION_SCHEMA_ADDITIVE_SEED_ROWS_V2 then Some V2
      else if effect_assertion_id = EFFECT_ASSERTION_SCHEMA_EMPTY_FTS5_V1 then Some V3Fts
      else None)"

definition effect_assertion_scope :: "string \<Rightarrow> string list" where
  "effect_assertion_scope effect_assertion_id =
     (if effect_assertion_id = EFFECT_ASSERTION_SCHEMA_CREATE_ONLY_V1 then [''table'', ''index'']
      else if effect_assertion_id = EFFECT_ASSERTION_SCHEMA_CREATE_OBJECTS_V1
      then [''table'', ''index'', ''view'', ''trigger'']
      else if effect_assertion_id = EFFECT_ASSERTION_SCHEMA_ADDITIVE_V1
      then [''table'', ''index'', ''view'', ''trigger'', ''alter_table_add_column'', ''pragma_foreign_keys_on'']
      else if effect_assertion_id = EFFECT_ASSERTION_SCHEMA_ADDITIVE_SEED_ROWS_V1
      then [''table'', ''index'', ''view'', ''trigger'', ''alter_table_add_column'', ''pragma_foreign_keys_on'',
        ''insert_seed_values'']
      else if effect_assertion_id = EFFECT_ASSERTION_SCHEMA_ADDITIVE_SEED_ROWS_V2
      then [''table'', ''index'', ''view'', ''trigger'', ''alter_table_add_column'', ''pragma_foreign_keys_on'',
        ''insert_seed_values'', ''insert_seed_null_values'']
      else if effect_assertion_id = EFFECT_ASSERTION_SCHEMA_EMPTY_FTS5_V1
      then [''table'', ''index'', ''trigger'', ''insert_seed_values'', ''insert_seed_null_values'',
        ''external_content_fts5'', ''fts5_shadow_schema'', ''fts5_empty_physical_state'']
      else [])"

definition effect_assertion_statement_class :: "string \<Rightarrow> string" where
  "effect_assertion_statement_class effect_assertion_id =
     (if effect_assertion_id = EFFECT_ASSERTION_SCHEMA_CREATE_ONLY_V1 then ''schema_create_only''
      else if effect_assertion_id = EFFECT_ASSERTION_SCHEMA_CREATE_OBJECTS_V1
      then ''schema_create_tables_indexes_views_triggers''
      else if effect_assertion_id = EFFECT_ASSERTION_SCHEMA_ADDITIVE_V1 then ''schema_create_objects_additive''
      else if effect_assertion_id = EFFECT_ASSERTION_SCHEMA_ADDITIVE_SEED_ROWS_V1
      then ''schema_create_objects_additive_seed_rows''
      else if effect_assertion_id = EFFECT_ASSERTION_SCHEMA_ADDITIVE_SEED_ROWS_V2
      then ''schema_create_objects_additive_seed_rows_with_nulls''
      else if effect_assertion_id = EFFECT_ASSERTION_SCHEMA_EMPTY_FTS5_V1
      then ''schema_create_objects_empty_external_fts5''
      else ''unsupported'')"

datatype ClassifiedEffect =
  Create DerivedSchemaObject | AddsColumn AddColumnEffect | SetsForeignKeysOn | SeedRows SeedInsertEffect

record SeedTableRegistration =
  reg_state :: SeedTableState
  reg_created_prefix :: nat
  reg_seeded_prefix :: nat

record SeedManifestPlan =
  plan_states :: "SeedTableState list list"
  strict_table_keys :: "string list"
  rowid_table_keys :: "string list"
  registry :: "SeedTableRegistration list"
  preexisting_table_spellings :: "(string \<times> string) list"

record DerivedEffectAssertion =
  derived_states :: "DerivedSchemaObject list list"
  derived_additive_plan :: "AdditiveManifestPlan option"
  derived_seed_plan :: "SeedManifestPlan option"
  derived_trigger_values :: "string list"

type_synonym 'a recon = "reconciliation_error failure + 'a"

definition effect_unavailable :: "string \<Rightarrow> reconciliation_error failure" where
  "effect_unavailable message =
     Err (ReconciliationError ''capability_gap'' ''d1.migration_reconciliation_effect_proof_unavailable'' message)"

definition contradiction :: "string \<Rightarrow> string \<Rightarrow> reconciliation_error failure" where
  "contradiction code message = Err (ReconciliationError ''contradictory'' code message)"

definition additive_contract_error :: "AdditiveContractError \<Rightarrow> reconciliation_error failure" where
  "additive_contract_error e = Err (ReconciliationError (contract_state e) (contract_code e) (contract_message e))"

definition seed_contract_error :: "SeedContractError \<Rightarrow> reconciliation_error failure" where
  "seed_contract_error e = Err (ReconciliationError (seed_state e) (seed_code e) (seed_message e))"

definition saturating_add :: "usize \<Rightarrow> usize \<Rightarrow> usize" where
  "saturating_add a b = min (a + b) usize_MAX"

definition ends_with :: "string \<Rightarrow> string \<Rightarrow> bool" where
  "ends_with s p \<longleftrightarrow> length p \<le> length s \<and> drop (length s - length p) s = p"

section \<open>Manifests of \<open>CREATE\<close> statements only\<close>

record create_scan =
  cs_cumulative :: "((string \<times> string) \<times> DerivedSchemaObject) list"
  cs_names :: "string list"
  cs_trigger_values :: "string list"

definition create_statement :: "bool \<Rightarrow> string \<Rightarrow> create_scan \<Rightarrow> SqlToken list \<Rightarrow> create_scan recon" where
  "create_statement allow_views_and_triggers unclassified_message s tokens =
     ok_then (or_panic (classify_schema_create tokens allow_views_and_triggers)) (\<lambda>classified.
       case classified of
         None \<Rightarrow> Inl (effect_unavailable unclassified_message)
       | Some (object, trigger_tokens) \<Rightarrow>
           let key = (object_type object, object_name object)
           in if object_name object \<in> set (cs_names s) \<or> map_of (cs_cumulative s) key \<noteq> None
              then Inl (contradiction ''d1.migration_reconciliation_create_target_reused''
                ''the manifest reuses a CREATE schema identity and cannot derive one exact schema state per prefix'')
              else Inr \<lparr>cs_cumulative = bmap_insert key object (cs_cumulative s),
                cs_names = bset_insert (object_name object) (cs_names s),
                cs_trigger_values = bset_union (cs_trigger_values s) trigger_tokens\<rparr>)"

definition create_migration ::
  "bool \<Rightarrow> string \<Rightarrow> create_scan \<times> DerivedSchemaObject list list \<Rightarrow> D1MigrationManifestEntry \<Rightarrow>
   (create_scan \<times> DerivedSchemaObject list list) recon" where
  "create_migration allow_views_and_triggers unclassified_message state migration =
     (case state of (s, states) \<Rightarrow>
      ok_then (ok_or (effect_unavailable ''exact migration SQL could not be classified by the built-in effect registry'')
        (tokenize_sql_statements (entry_sql migration))) (\<lambda>statements.
      if statements = []
      then Inl (effect_unavailable
        ''the built-in effect registry cannot exactly prove arbitrary DML, ALTER, DROP, PRAGMA, trigger, view, or data-copy effects'')
      else map_ok (\<lambda>s. (s, states @ [map snd (cs_cumulative s)]))
        (try_fold (create_statement allow_views_and_triggers unclassified_message) s statements)))"

definition derive_create_effects :: "bool \<Rightarrow> string \<Rightarrow> D1MigrationManifestEntry list \<Rightarrow> DerivedEffectAssertion recon" where
  "derive_create_effects allow_views_and_triggers unclassified_message manifest =
     map_ok (\<lambda>(s, states). \<lparr>derived_states = states, derived_additive_plan = None, derived_seed_plan = None,
         derived_trigger_values = cs_trigger_values s\<rparr>)
       (try_fold (create_migration allow_views_and_triggers unclassified_message)
         (\<lparr>cs_cumulative = [], cs_names = [], cs_trigger_values = []\<rparr>, [[]]) manifest)"

section \<open>Classification of additive manifests\<close>

record effect_scan =
  es_trigger_values :: "string list"
  es_created_tables :: "(string \<times> string) list"
  es_content_declarations :: "(string \<times> SqlToken list) list"
  es_trigger_seen :: "string list"
  es_seeded :: "string list"
  es_strict_keys :: "string list"
  es_rowid_keys :: "string list"
  es_spellings :: "(string \<times> string) list"
  es_fts_sources :: "string list"
  es_fts_shapes :: "(nat \<times> ExternalFts5Shape) list"
  es_migrations :: "ClassifiedEffect list list"
  es_effects :: "ClassifiedEffect list"
  es_additions :: nat
  es_pragmas :: nat

definition effect_scan_start :: effect_scan where
  "effect_scan_start = \<lparr>es_trigger_values = [], es_created_tables = [], es_content_declarations = [],
     es_trigger_seen = [], es_seeded = [], es_strict_keys = [], es_rowid_keys = [], es_spellings = [],
     es_fts_sources = [], es_fts_shapes = [], es_migrations = [], es_effects = [], es_additions = 0, es_pragmas = 0\<rparr>"

definition push_effects :: "ClassifiedEffect list \<Rightarrow> effect_scan \<Rightarrow> effect_scan" where
  "push_effects effects s = s\<lparr>es_effects := es_effects s @ effects\<rparr>"

text \<open>\<open>table_identity_spellings.entry(key).or_insert_with(..).clone()\<close>: the spelling seen first.\<close>

definition spelled_as :: "string \<Rightarrow> effect_scan \<Rightarrow> string \<times> effect_scan" where
  "spelled_as name s =
     (case map_of (es_spellings s) (sqlite_ascii_identifier_key name) of
        Some spelling \<Rightarrow> (spelling, s)
      | None \<Rightarrow> (name, s\<lparr>es_spellings := bmap_insert (sqlite_ascii_identifier_key name) name (es_spellings s)\<rparr>))"

definition create_target_reused :: "reconciliation_error failure" where
  "create_target_reused = contradiction ''d1.migration_reconciliation_create_target_reused''
     ''the manifest reuses a CREATE or additive parent identity and cannot derive exact prefix states''"

definition create_seedable_table :: "effect_scan \<Rightarrow> SqlToken list \<Rightarrow> DerivedSchemaObject \<Rightarrow> effect_scan recon" where
  "create_seedable_table s tokens object =
     (let authority_key = sqlite_ascii_identifier_key (object_name object)
      in if map_of (es_created_tables s) authority_key \<noteq> None then Inl create_target_reused
         else ok_then (or_panic (schema_create_table_is_strict tokens)) (\<lambda>strict.
           ok_then (or_panic (schema_create_table_is_without_rowid tokens)) (\<lambda>without_rowid.
             Inr (snd (spelled_as (object_name object)
               (s\<lparr>es_created_tables := bmap_insert authority_key (object_name object) (es_created_tables s),
                  es_strict_keys := (if strict then bset_insert authority_key (es_strict_keys s) else es_strict_keys s),
                  es_rowid_keys := (if \<not> without_rowid then bset_insert authority_key (es_rowid_keys s)
                    else es_rowid_keys s)\<rparr>))))))"

definition create_dependent :: "effect_scan \<Rightarrow> DerivedSchemaObject \<Rightarrow> DerivedSchemaObject \<times> effect_scan" where
  "create_dependent s object =
     (case spelled_as (table_name object) s of (spelling, s) \<Rightarrow>
        (object\<lparr>table_name := spelling\<rparr>,
         if object_type object = ''trigger''
         then s\<lparr>es_trigger_seen := bset_insert (sqlite_ascii_identifier_key (table_name object)) (es_trigger_seen s)\<rparr>
         else s))"

definition create_effect ::
  "bool \<Rightarrow> effect_scan \<Rightarrow> SqlToken list \<Rightarrow> DerivedSchemaObject \<Rightarrow> string list \<Rightarrow> effect_scan recon" where
  "create_effect allow_seed_rows s tokens object trigger_tokens =
     (if allow_seed_rows \<and> schema_create_uses_if_not_exists tokens
      then Inl (Err (ReconciliationError ''capability_gap''
        ''d1.migration_reconciliation_seed_create_if_not_exists_unavailable''
        ''the seed-row assertion requires every classified CREATE object to be an unconditional actual creation''))
      else
        let s = (if object_type object = ''table''
                 then s\<lparr>es_content_declarations := bmap_insert (sqlite_ascii_identifier_key (object_name object)) tokens
                   (es_content_declarations s)\<rparr> else s)
        in ok_then
          (if allow_seed_rows \<and> object_type object = ''table''
           then map_ok (\<lambda>s. (object, s)) (create_seedable_table s tokens object)
           else if allow_seed_rows \<and> object_type object \<in> {''index'', ''trigger''}
           then Inr (create_dependent s object)
           else Inr (object, s))
          (\<lambda>(object, s). Inr (push_effects [Create object]
             (s\<lparr>es_trigger_values := bset_union (es_trigger_values s) trigger_tokens\<rparr>))))"

definition fts_object :: "string \<Rightarrow> ClassifiedEffect" where
  "fts_object name = Create \<lparr>object_type = ''table'', object_name = name, table_name = name\<rparr>"

definition fts_created :: "ExternalFts5Shape \<Rightarrow> ClassifiedEffect list" where
  "fts_created shape =
     map fts_object (fts_table shape # map ((@) (fts_table shape)) [''_config'', ''_data'', ''_docsize'', ''_idx''])"

definition fts_effect_step :: "bool \<Rightarrow> effect_scan \<Rightarrow> ExternalFts5Shape \<Rightarrow> effect_scan recon" where
  "fts_effect_step fts_prototype s shape =
     (let source_key = sqlite_ascii_identifier_key (fts_content shape) in
      ok_then (case map_of (es_content_declarations s) source_key of
          None \<Rightarrow> Inr False | Some content \<Rightarrow> or_panic (fts5_content_declaration_matches content shape)) (\<lambda>declared.
      if \<not> declared
      then Inl (effect_unavailable
        ''external-content FTS5 requires an earlier ordinary rowid table with an exact integer primary-key alias and declared text columns'')
      else if fts_prototype
      then (if es_fts_shapes s \<noteq> [] \<or> source_key \<in> set (es_fts_sources s) \<or> source_key \<in> set (es_seeded s) \<or>
              es_trigger_seen s \<noteq> [] \<or> map_of (es_created_tables s) source_key \<noteq> Some (fts_content shape)
            then Inl (effect_unavailable ''the empty FTS prototype requires one unseeded content table and no earlier triggers'')
            else Inr (push_effects (fts_created shape)
              (s\<lparr>es_fts_sources := bset_insert source_key (es_fts_sources s),
                 es_fts_shapes := es_fts_shapes s @ [(length (es_migrations s) + 1, shape)]\<rparr>)))
      else Inl (effect_unavailable
        ''external-content FTS5 creation additionally requires exact shadow-table and initial-data reconciliation; no current effect assertion provides that proof'')))"

definition seed_parent_missing :: "reconciliation_error failure" where
  "seed_parent_missing = contradiction ''d1.migration_reconciliation_seed_parent_missing''
     ''a canonical seed INSERT must follow CREATE TABLE for its target in the same manifest history''"

definition seed_effect_step :: "bool \<Rightarrow> effect_scan \<Rightarrow> SeedInsertEffect \<Rightarrow> effect_scan recon" where
  "seed_effect_step fts_prototype s effect =
     (let authority_key = sqlite_ascii_identifier_key (sie_table_name effect)
      in if fts_prototype \<and> (authority_key \<in> set (es_fts_sources s) \<or> es_trigger_seen s \<noteq> [])
         then Inl (effect_unavailable ''the FTS prototype forbids seeding its content table or seeding after a trigger'')
         else case map_of (es_created_tables s) authority_key of
             None \<Rightarrow> Inl seed_parent_missing
           | Some reviewed_table_name \<Rightarrow>
               (if authority_key \<in> set (es_trigger_seen s)
                then Inl (contradiction ''d1.migration_reconciliation_seed_after_trigger''
                  ''a canonical seed INSERT must precede every trigger on its target, including across manifest entries'')
                else if authority_key \<in> set (es_seeded s)
                then Inl (contradiction ''d1.migration_reconciliation_seed_target_reused''
                  ''each manifest-created seed table may have exactly one canonical top-level seed INSERT'')
                else Inr (push_effects [SeedRows (effect\<lparr>sie_table_name := reviewed_table_name\<rparr>)]
                  (s\<lparr>es_seeded := bset_insert authority_key (es_seeded s)\<rparr>))))"

definition unproved_statement :: "bool \<Rightarrow> reconciliation_error failure" where
  "unproved_statement allow_seed_rows = effect_unavailable
     (if allow_seed_rows
      then ''the additive seed-row assertion cannot prove this statement or any arbitrary DML, noncanonical INSERT, ALTER, DROP, PRAGMA, virtual table, or data-producing CREATE effect''
      else ''the additive assertion cannot prove this statement or any arbitrary DML, ALTER, DROP, PRAGMA, virtual table, or data-producing CREATE effect'')"

definition additive_effect ::
  "SeedAssertionVersion option \<Rightarrow> effect_scan \<Rightarrow> SqlToken list \<Rightarrow> AdditiveStatement option \<Rightarrow> effect_scan recon" where
  "additive_effect version s tokens statement =
     (case statement of
        Some (AddColumn effect) \<Rightarrow>
          (if version = Some V3Fts then Inl (effect_unavailable ''the FTS prototype does not accept ALTER statements'')
           else case (if version \<noteq> None then spelled_as (eff_table_name effect) s else (eff_table_name effect, s)) of
               (name, s) \<Rightarrow> Inr (push_effects [AddsColumn (effect\<lparr>eff_table_name := name\<rparr>)]
                 (s\<lparr>es_additions := es_additions s + 1\<rparr>)))
      | Some ForeignKeysOn \<Rightarrow>
          (if version = Some V3Fts then Inl (effect_unavailable ''the FTS prototype does not accept PRAGMA statements'')
           else Inr (push_effects [SetsForeignKeysOn] (s\<lparr>es_pragmas := es_pragmas s + 1\<rparr>)))
      | None \<Rightarrow>
          (case version of
             None \<Rightarrow> Inl (unproved_statement False)
           | Some v \<Rightarrow>
               ok_then (map_err seed_contract_error (classify_seed_insert tokens v)) (\<lambda>seed.
                 case seed of
                   Some effect \<Rightarrow> seed_effect_step (v = V3Fts) s effect
                 | None \<Rightarrow> Inl (unproved_statement True))))"

definition classify_statement ::
  "SeedAssertionVersion option \<Rightarrow> effect_scan \<Rightarrow> SqlToken list \<Rightarrow> effect_scan recon" where
  "classify_statement version s tokens =
     ok_then (or_panic (classify_schema_create tokens True)) (\<lambda>created.
       case created of
         Some (object, trigger_tokens) \<Rightarrow> create_effect (version \<noteq> None) s tokens object trigger_tokens
       | None \<Rightarrow>
           ok_then (or_panic (classify_external_fts5 tokens)) (\<lambda>shape.
             case shape of
               Some shape \<Rightarrow> fts_effect_step (version = Some V3Fts) s shape
             | None \<Rightarrow>
                 ok_then (map_err additive_contract_error (classify_additive_statement tokens))
                   (additive_effect version s tokens)))"

definition classify_migration ::
  "SeedAssertionVersion option \<Rightarrow> effect_scan \<Rightarrow> D1MigrationManifestEntry \<Rightarrow> effect_scan recon" where
  "classify_migration version s migration =
     ok_then (ok_or (effect_unavailable ''exact migration SQL could not be classified by the additive effect registry'')
       (tokenize_sql_statements (entry_sql migration))) (\<lambda>statements.
     if statements = []
     then Inl (effect_unavailable ''the additive effect registry requires at least one classified statement per manifest entry'')
     else ok_then (try_fold (classify_statement version) (s\<lparr>es_effects := [], es_additions := 0, es_pragmas := 0\<rparr>) statements)
       (\<lambda>s. if es_additions s > 1 \<or> es_pragmas s > 1
          then Inl (Err (ReconciliationError ''capability_gap'' ''d1.migration_reconciliation_additive_prefix_unbounded''
            ''each additive manifest prefix may contain at most one ADD COLUMN and one semantic foreign_keys directive''))
          else Inr (s\<lparr>es_migrations := es_migrations s @ [es_effects s]\<rparr>)))"

end
