(* ===== verification/D1_Derivation.thy ===== *)
theory D1_Derivation
  imports D1_Effects
begin

text \<open>
  The second half of \<open>derive_additive_effect_assertion\<close>: where every identity is created, which tables the
  manifest takes as given, where its seed tables are created and seeded, and the states and plans of the
  manifest prefixes; then the entry point and the checks that use the derivation.
\<close>

section \<open>Created and pre-existing identities\<close>

definition identity_key :: "bool \<Rightarrow> string \<Rightarrow> string" where
  "identity_key allow_seed_rows name = (if allow_seed_rows then sqlite_ascii_identifier_key name else name)"

type_synonym created_names = "(string \<times> string \<times> nat) list"

definition additive_parent_missing :: "string \<Rightarrow> reconciliation_error failure" where
  "additive_parent_missing message = contradiction ''d1.migration_reconciliation_additive_parent_missing'' message"

definition entry_or_insert :: "string \<Rightarrow> string \<Rightarrow> (string \<times> string) list \<Rightarrow> (string \<times> string) list" where
  "entry_or_insert key v m = (if map_of m key = None then bmap_insert key v m else m)"

definition locate_create ::
  "bool \<Rightarrow> nat \<Rightarrow> created_names \<times> (string \<times> string) list \<Rightarrow> DerivedSchemaObject \<Rightarrow>
   (created_names \<times> (string \<times> string) list) recon" where
  "locate_create allow_seed_rows prefix state object =
     (case state of (created_names, preexisting) \<Rightarrow>
      let object_key = identity_key allow_seed_rows (object_name object) in
      if map_of preexisting object_key \<noteq> None \<or> map_of created_names object_key \<noteq> None
      then Inl create_target_reused
      else let created_names = bmap_insert object_key (object_type object, prefix) created_names
        in if allow_seed_rows \<and> object_type object \<in> {''index'', ''trigger''}
           then let parent_key = identity_key allow_seed_rows (table_name object)
             in case map_of created_names parent_key of
                 Some (kind, created_prefix) \<Rightarrow>
                   (if kind \<noteq> ''table'' \<or> created_prefix > prefix
                    then Inl (additive_parent_missing
                      ''an index or trigger parent must be a manifest-created or baseline table under SQLite ASCII identity'')
                    else Inr (created_names, preexisting))
               | None \<Rightarrow> Inr (created_names, entry_or_insert parent_key (table_name object) preexisting)
           else Inr (created_names, preexisting))"

definition locate_addition ::
  "bool \<Rightarrow> nat \<Rightarrow> created_names \<times> (string \<times> string) list \<Rightarrow> AddColumnEffect \<Rightarrow>
   (created_names \<times> (string \<times> string) list) recon" where
  "locate_addition allow_seed_rows prefix state effect =
     (case state of (created_names, preexisting) \<Rightarrow>
      let table_key = identity_key allow_seed_rows (eff_table_name effect)
      in case map_of created_names table_key of
          Some (kind, created_prefix) \<Rightarrow>
            (if kind \<noteq> ''table'' \<or> created_prefix \<ge> prefix
             then Inl (additive_parent_missing
               ''ADD COLUMN must target a pre-existing table or a table created in an earlier manifest prefix'')
             else Inr (created_names, preexisting))
        | None \<Rightarrow> Inr (created_names, entry_or_insert table_key (eff_table_name effect) preexisting))"

fun locate_effect ::
  "bool \<Rightarrow> nat \<Rightarrow> created_names \<times> (string \<times> string) list \<Rightarrow> ClassifiedEffect \<Rightarrow>
   (created_names \<times> (string \<times> string) list) recon" where
  "locate_effect allow_seed_rows prefix state (Create object) = locate_create allow_seed_rows prefix state object"
| "locate_effect allow_seed_rows prefix state (AddsColumn effect) = locate_addition allow_seed_rows prefix state effect"
| "locate_effect allow_seed_rows prefix state SetsForeignKeysOn = Inr state"
| "locate_effect allow_seed_rows prefix state (SeedRows _) = Inr state"

definition locate_effects ::
  "bool \<Rightarrow> ClassifiedEffect list list \<Rightarrow> (created_names \<times> (string \<times> string) list) recon" where
  "locate_effects allow_seed_rows migrations =
     try_fold (\<lambda>state (prefix, effects). try_fold (locate_effect allow_seed_rows prefix) state effects)
       ([], []) (enumerate 0 migrations)"

section \<open>Seed tables\<close>

record seed_locations =
  sl_states :: "(string \<times> SeedTableState) list"
  sl_locations :: "(string \<times> nat \<times> nat) list"
  sl_rowid_keys :: "string list"

definition place_seed :: "SeedInsertEffect \<Rightarrow> nat \<times> nat \<Rightarrow> seed_locations \<Rightarrow> seed_locations recon" where
  "place_seed effect location l =
     map_ok (\<lambda>states. l\<lparr>sl_states := states,
         sl_locations := bmap_insert (sqlite_ascii_identifier_key (sie_table_name effect)) location (sl_locations l)\<rparr>)
       (map_err seed_contract_error (insert_seed_effect (sl_states l) effect))"

fun locate_seed :: "created_names \<Rightarrow> nat \<Rightarrow> seed_locations \<Rightarrow> ClassifiedEffect \<Rightarrow> seed_locations recon" where
  "locate_seed created_names seed_index l (SeedRows effect) =
     (case map_of created_names (sqlite_ascii_identifier_key (sie_table_name effect)) of
        None \<Rightarrow> Inl seed_parent_missing
      | Some (kind, created_index) \<Rightarrow>
          (if kind \<noteq> ''table'' then Inl seed_parent_missing
           else place_seed effect (saturating_add created_index 1, saturating_add seed_index 1) l))"
| "locate_seed created_names seed_index l _ = Inr l"

definition locate_seeds ::
  "created_names \<Rightarrow> ClassifiedEffect list list \<Rightarrow> seed_locations \<Rightarrow> seed_locations recon" where
  "locate_seeds created_names migrations l =
     try_fold (\<lambda>l (seed_index, effects). try_fold (locate_seed created_names seed_index) l effects) l (enumerate 0 migrations)"

definition locate_fts_effect ::
  "created_names \<Rightarrow> nat \<Rightarrow> ExternalFts5Shape \<Rightarrow> seed_locations \<Rightarrow> SeedInsertEffect \<Rightarrow> seed_locations recon" where
  "locate_fts_effect created_names created_prefix shape l effect =
     (let key = sqlite_ascii_identifier_key (sie_table_name effect);
          with_rowid = l\<lparr>sl_rowid_keys := bset_insert key (sl_rowid_keys l)\<rparr>
      in if sie_table_name effect = fts_content shape
         then (case map_of created_names key of
             None \<Rightarrow> Inl (contradiction ''d1.migration_reconciliation_seed_parent_missing''
               ''the FTS content source must be created by the exact manifest'')
           | Some (_, source_index) \<Rightarrow> place_seed effect (source_index + 1, source_index + 1) with_rowid)
         else place_seed effect (created_prefix, created_prefix)
           (if ends_with (sie_table_name effect) ''_data'' \<or> ends_with (sie_table_name effect) ''_docsize''
            then with_rowid else l))"

definition first_column :: "SqlToken list \<Rightarrow> string option" where
  "first_column declaration =
     (case token_identifier (list_get declaration 4) of
        None \<Rightarrow> None
      | Some name \<Rightarrow>
          (if \<not> matches_ignore_ascii_case name [''constraint'', ''primary'', ''foreign'', ''unique'', ''check''] \<and>
             canonical_identifier name then Some name else None))"

definition locate_empty_table ::
  "created_names \<Rightarrow> (string \<times> SqlToken list) list \<Rightarrow> seed_locations \<Rightarrow> string \<times> string \<Rightarrow> seed_locations recon" where
  "locate_empty_table created_names declarations l entry =
     (case entry of (key, name) \<Rightarrow>
      if map_of (sl_states l) key \<noteq> None then Inr l
      else ok_then (ok_or (contradiction ''d1.migration_reconciliation_seed_parent_missing''
             ''the empty table witness requires its exact CREATE declaration'') (map_of declarations key)) (\<lambda>declaration.
        ok_then (ok_or (effect_unavailable ''the empty table witness requires a canonical first declared column'')
             (first_column declaration)) (\<lambda>column.
        ok_then (ok_or (contradiction ''d1.migration_reconciliation_seed_parent_missing''
             ''the empty table witness requires a manifest-created table'') (map_of created_names key)) (\<lambda>(_, source_index).
          place_seed (fts_effect name [column] []) (source_index + 1, source_index + 1) l))))"

definition locate_fts ::
  "effect_scan \<Rightarrow> created_names \<times> (string \<times> string) list \<Rightarrow> seed_locations \<Rightarrow> seed_locations recon" where
  "locate_fts s located l =
     (case located of (created_names, preexisting) \<Rightarrow>
      if length (es_fts_shapes s) \<noteq> 1 \<or> preexisting \<noteq> []
      then Inl (effect_unavailable ''the FTS prototype requires one FTS family and no pre-existing parent tables'')
      else ok_then (try_fold (\<lambda>l (created_prefix, shape).
            try_fold (locate_fts_effect created_names created_prefix shape) l (fts5_empty_physical_seed_effects shape))
          l (es_fts_shapes s))
        (\<lambda>l. try_fold (locate_empty_table created_names (es_content_declarations s)) l (es_created_tables s)))"

text \<open>
  The source removes each location as it is used; the keys of the states are distinct, so that the
  removals are not observed.
\<close>

definition seed_registry :: "seed_locations \<Rightarrow> SeedTableRegistration list recon" where
  "seed_registry l =
     try_map (\<lambda>(authority_key, state).
       ok_then (ok_or (contradiction ''d1.migration_reconciliation_seed_parent_missing''
           ''a canonical seed INSERT must bind one bounded full-manifest projection registry entry'')
           (map_of (sl_locations l) authority_key)) (\<lambda>(created_prefix, seeded_prefix).
         Inr \<lparr>reg_state = state, reg_created_prefix = created_prefix, reg_seeded_prefix = seeded_prefix\<rparr>))
       (sl_states l)"

definition seed_state_at :: "SeedTableRegistration list \<Rightarrow> nat \<Rightarrow> SeedTableState list" where
  "seed_state_at registrations prefix =
     map (\<lambda>r. if prefix < reg_seeded_prefix r then (reg_state r)\<lparr>sts_rows := []\<rparr> else reg_state r)
       (filter (\<lambda>r. reg_created_prefix r \<le> prefix) registrations)"

section \<open>States and plans of the prefixes\<close>

type_synonym object_states = "((string \<times> string) \<times> DerivedSchemaObject) list"

definition own_table :: "string \<Rightarrow> DerivedSchemaObject" where
  "own_table name = \<lparr>object_type = ''table'', object_name = name, table_name = name\<rparr>"

definition preexisting_objects :: "(string \<times> string) list \<Rightarrow> object_states" where
  "preexisting_objects preexisting =
     fold (\<lambda>name. bmap_insert (''table'', name) (own_table name)) (map snd preexisting) []"

fun plan_effect :: "object_states \<times> AdditivePrefixPlan \<Rightarrow> ClassifiedEffect \<Rightarrow> object_states \<times> AdditivePrefixPlan" where
  "plan_effect (cumulative, prefix) (Create object) =
     (bmap_insert (object_type object, object_name object) object cumulative,
      prefix\<lparr>created_objects := bset_insert (object_type object, object_name object) (created_objects prefix)\<rparr>)"
| "plan_effect (cumulative, prefix) (AddsColumn effect) = (cumulative, prefix\<lparr>addition := Some effect\<rparr>)"
| "plan_effect (cumulative, prefix) SetsForeignKeysOn = (cumulative, prefix\<lparr>foreign_keys_on := True\<rparr>)"
| "plan_effect (cumulative, prefix) (SeedRows _) = (cumulative, prefix)"

definition empty_prefix :: AdditivePrefixPlan where
  "empty_prefix = \<lparr>created_objects = [], addition = None, foreign_keys_on = False\<rparr>"

fun plan_migrations ::
  "object_states \<Rightarrow> ClassifiedEffect list list \<Rightarrow> DerivedSchemaObject list list \<times> AdditivePrefixPlan list" where
  "plan_migrations cumulative [] = ([], [])"
| "plan_migrations cumulative (effects # migrations) =
     (let (cumulative, prefix) = foldl plan_effect (cumulative, empty_prefix) effects;
          (states, plans) = plan_migrations cumulative migrations
      in (map snd cumulative # states, prefix # plans))"

definition derive_additive_effect_assertion ::
  "D1MigrationManifestEntry list \<Rightarrow> SeedAssertionVersion option \<Rightarrow> DerivedEffectAssertion recon" where
  "derive_additive_effect_assertion manifest version =
     ok_then (try_fold (classify_migration version) effect_scan_start manifest) (\<lambda>s.
     ok_then (locate_effects (version \<noteq> None) (es_migrations s)) (\<lambda>(created_names, preexisting).
     let start = \<lparr>sl_states = [], sl_locations = [], sl_rowid_keys = es_rowid_keys s\<rparr> in
     ok_then (if version \<noteq> None then locate_seeds created_names (es_migrations s) start else Inr start) (\<lambda>l.
     ok_then (if version = Some V3Fts then locate_fts s (created_names, preexisting) l else Inr l) (\<lambda>l.
     ok_then (seed_registry l) (\<lambda>registrations.
     let baseline = preexisting_objects preexisting;
         (states, plans) = plan_migrations baseline (es_migrations s)
     in Inr \<lparr>derived_states = map snd baseline # states,
          derived_additive_plan = Some \<lparr>prefixes = plans\<rparr>,
          derived_seed_plan = (if version = None then None else Some
            \<lparr>plan_states = map (seed_state_at registrations) [0..<Suc (length (es_migrations s))],
             strict_table_keys = es_strict_keys s, rowid_table_keys = sl_rowid_keys l,
             registry = registrations, preexisting_table_spellings = preexisting\<rparr>),
          derived_trigger_values = es_trigger_values s\<rparr>)))))"

text \<open>The last arm of the source is \<open>unreachable!\<close>.\<close>

definition derive_effect_assertion_details ::
  "string option \<Rightarrow> D1MigrationManifestEntry list \<Rightarrow> DerivedEffectAssertion recon" where
  "derive_effect_assertion_details effect_assertion_id manifest =
     ok_then (map_err Err (canonical_effect_assertion_id effect_assertion_id)) (\<lambda>selected.
       if selected = EFFECT_ASSERTION_SCHEMA_CREATE_ONLY_V1
       then derive_create_effects False
         ''the built-in effect registry cannot exactly prove arbitrary DML, ALTER, DROP, PRAGMA, trigger, view, virtual table, or data-producing CREATE effects''
         manifest
       else if selected = EFFECT_ASSERTION_SCHEMA_CREATE_OBJECTS_V1
       then derive_create_effects True
         ''the selected effect assertion cannot exactly prove this statement or any arbitrary top-level DML, ALTER, DROP, PRAGMA, virtual table, or data-producing CREATE effect''
         manifest
       else if selected = EFFECT_ASSERTION_SCHEMA_ADDITIVE_V1 then derive_additive_effect_assertion manifest None
       else if selected = EFFECT_ASSERTION_SCHEMA_ADDITIVE_SEED_ROWS_V1
       then derive_additive_effect_assertion manifest (Some V1)
       else if selected = EFFECT_ASSERTION_SCHEMA_ADDITIVE_SEED_ROWS_V2
       then derive_additive_effect_assertion manifest (Some V2)
       else if selected = EFFECT_ASSERTION_SCHEMA_EMPTY_FTS5_V1
       then derive_additive_effect_assertion manifest (Some V3Fts)
       else Inl (Panic ''canonical registry assertion''))"

definition validate_reserved_migrations_table :: "string \<Rightarrow> DerivedEffectAssertion \<Rightarrow> reconciliation_error + unit" where
  "validate_reserved_migrations_table migrations_table derived =
     (if derived_states derived \<noteq> [] \<and>
        list_ex (\<lambda>object. eq_ignore_ascii_case (object_name object) migrations_table \<or>
          eq_ignore_ascii_case (table_name object) migrations_table) (last (derived_states derived)) \<or>
        list_ex (\<lambda>reference. eq_ignore_ascii_case reference migrations_table) (derived_trigger_values derived)
      then Inl (ReconciliationError ''contradictory'' ''d1.migration_reconciliation_migrations_table_reserved''
        ''the configured migrations table is reserved and cannot be created, indexed, used as a trigger parent, present as an exact trigger header/body token, named as another schema object, or altered by a reconciled manifest'')
      else Inr ())"

definition normalize_object ::
  "(string \<times> string) list \<Rightarrow> D1MigrationSchemaObjectExpectation \<Rightarrow> D1MigrationSchemaObjectExpectation" where
  "normalize_object spellings object =
     (if obj_type object = ''table''
      then (case map_of spellings (sqlite_ascii_identifier_key (obj_name object)) of
          Some spelling \<Rightarrow> object\<lparr>obj_name := spelling, obj_table_name := spelling\<rparr> | None \<Rightarrow> object)
      else if obj_type object \<in> {''index'', ''trigger''}
      then (case map_of spellings (sqlite_ascii_identifier_key (obj_table_name object)) of
          Some spelling \<Rightarrow> object\<lparr>obj_table_name := spelling\<rparr> | None \<Rightarrow> object)
      else object)"

definition normalize_table ::
  "(string \<times> string) list \<Rightarrow> D1MigrationTableExpectation \<Rightarrow> D1MigrationTableExpectation" where
  "normalize_table spellings table =
     (case map_of spellings (sqlite_ascii_identifier_key (tab_name table)) of
        Some spelling \<Rightarrow> table\<lparr>tab_name := spelling\<rparr> | None \<Rightarrow> table)"

definition validate_additive_transitions_with_seed_identity ::
  "AdditiveManifestPlan \<Rightarrow> 'seed D1MigrationStateExpectation list \<Rightarrow> SeedManifestPlan option \<Rightarrow>
   AdditiveContractError + unit" where
  "validate_additive_transitions_with_seed_identity plan states seed_plan =
     (case seed_plan of
        None \<Rightarrow> validate_additive_transitions plan states
      | Some seed_plan \<Rightarrow>
          validate_additive_transitions plan (map (\<lambda>state.
            state\<lparr>schema_objects := map (normalize_object (preexisting_table_spellings seed_plan)) (schema_objects state),
              tables := map (normalize_table (preexisting_table_spellings seed_plan)) (tables state)\<rparr>) states))"

end
