(* ===== verification/D1_Expectations.thy ===== *)
theory D1_Expectations
  imports D1_Derivation
begin

text \<open>
  The reviewed state expectations of \<open>src/d1_migration_reconciliation.rs\<close>: \<open>validate_expectations\<close> checks
  one complete state per manifest prefix against the derived states, and
  \<open>validate_replay_manifest_expectations\<close> composes it with the derivation, the reserved migrations table,
  the FTS source binding and the additive transitions. The loops over states, objects and tables keep
  the locals of the source in records.
\<close>

type_synonym state_expectation = "D1MigrationSeedTableExpectation D1MigrationStateExpectation"

definition MAX_STATE_EXPECTATIONS :: nat where "MAX_STATE_EXPECTATIONS = 128"
definition MAX_SCHEMA_OBJECTS :: nat where "MAX_SCHEMA_OBJECTS = 128"
definition MAX_TABLES :: nat where "MAX_TABLES = 64"
definition MAX_COLUMNS_PER_TABLE :: nat where "MAX_COLUMNS_PER_TABLE = 256"
definition MAX_FOREIGN_KEYS_PER_TABLE :: nat where "MAX_FOREIGN_KEYS_PER_TABLE = 256"

record ValidatedExpectations =
  val_states :: "state_expectation list"
  val_object_names :: "string list"
  val_table_names :: "string list"
  val_seed_states :: "SeedTableState list list"
  val_proof_sha256 :: string

definition expectation_gap :: "string \<Rightarrow> string \<Rightarrow> reconciliation_error failure" where
  "expectation_gap code message = Err (ReconciliationError ''capability_gap'' code message)"

definition noncanonical :: "string \<Rightarrow> reconciliation_error failure" where
  "noncanonical message = contradiction ''d1.migration_reconciliation_expectations_noncanonical'' message"

definition reconciliation_valid_sha256 :: "string \<Rightarrow> bool" where
  "reconciliation_valid_sha256 v \<longleftrightarrow>
     length v = 64 \<and> list_all (\<lambda>b. is_ascii_digit b \<or> byte_in (CHR ''a'') (CHR ''f'') b) v"

interpretation reconciliation_digest: digest_grammar reconciliation_valid_sha256
  by unfold_locales (simp add: reconciliation_valid_sha256_def lower_hex_digit_def [abs_def])

section \<open>Columns and foreign keys\<close>

definition at_least :: "'a::linorder option \<Rightarrow> 'a \<Rightarrow> bool" where
  "at_least previous x \<longleftrightarrow> (case previous of None \<Rightarrow> False | Some p \<Rightarrow> p \<ge> x)"

definition column_invalid :: "reconciliation_error failure" where
  "column_invalid = contradiction ''d1.migration_reconciliation_column_expectation_invalid''
     ''table_xinfo expectations must be bounded, uniquely ordered, and contain canonical scalar fields''"

definition validate_column ::
  "int option \<times> string list \<Rightarrow> D1MigrationColumnExpectation \<Rightarrow> (int option \<times> string list) recon" where
  "validate_column state column =
     (case state of (previous_cid, names) \<Rightarrow>
      ok_then (map_err Err (validate_identifier (col_name column))) (\<lambda>_.
      if col_cid column < 0 \<or> at_least previous_cid (col_cid column) \<or> col_name column \<in> set names \<or>
         col_primary_key_position column < 0 \<or> \<not> (0 \<le> col_hidden column \<and> col_hidden column \<le> 3) \<or>
         length (col_declared_type column) > 128 \<or> CHR 0x00 \<in> set (col_declared_type column) \<or>
         (case col_default_value column of None \<Rightarrow> False | Some v \<Rightarrow> length v > 1024 \<or> CHR 0x00 \<in> set v)
      then Inl column_invalid
      else Inr (Some (col_cid column), bset_insert (col_name column) names)))"

definition validate_columns :: "D1MigrationColumnExpectation list \<Rightarrow> unit recon" where
  "validate_columns columns = map_ok (\<lambda>_. ()) (try_fold validate_column (None, []) columns)"

definition valid_foreign_key_action :: "string \<Rightarrow> bool" where
  "valid_foreign_key_action v \<longleftrightarrow> v \<in> {''NO ACTION'', ''RESTRICT'', ''SET NULL'', ''SET DEFAULT'', ''CASCADE''}"

definition foreign_key_invalid :: "reconciliation_error failure" where
  "foreign_key_invalid = contradiction ''d1.migration_reconciliation_foreign_key_expectation_invalid''
     ''foreign-key expectations must be uniquely ordered and use canonical SQLite actions''"

definition validate_foreign_key ::
  "(int \<times> int) option \<Rightarrow> D1MigrationForeignKeyExpectation \<Rightarrow> (int \<times> int) option recon" where
  "validate_foreign_key previous foreign_key =
     ok_then (map_err Err (validate_identifier (fk_referenced_table foreign_key))) (\<lambda>_.
     ok_then (map_err Err (validate_identifier (fk_from_column foreign_key))) (\<lambda>_.
     ok_then (case fk_to_column foreign_key of
         None \<Rightarrow> Inr () | Some to_column \<Rightarrow> map_err Err (validate_identifier to_column)) (\<lambda>_.
     let key = (fk_id foreign_key, fk_sequence foreign_key)
     in if fk_id foreign_key < 0 \<or> fk_sequence foreign_key < 0 \<or> at_least previous key \<or>
           \<not> valid_foreign_key_action (fk_on_update foreign_key) \<or> \<not> valid_foreign_key_action (fk_on_delete foreign_key) \<or>
           fk_match_mode foreign_key \<notin> {''NONE'', ''SIMPLE'', ''PARTIAL'', ''FULL''}
        then Inl foreign_key_invalid else Inr (Some key))))"

definition validate_foreign_keys :: "D1MigrationForeignKeyExpectation list \<Rightarrow> unit recon" where
  "validate_foreign_keys foreign_keys = map_ok (\<lambda>_. ()) (try_fold validate_foreign_key None foreign_keys)"

section \<open>Seed storage affinity\<close>

definition affinity_unavailable :: "reconciliation_error failure" where
  "affinity_unavailable = contradiction ''d1.migration_reconciliation_seed_affinity_unavailable''
     ''seed storage affinity requires one unambiguous reviewed table and column identity''"

definition reviewed_by :: "('a \<Rightarrow> string) \<Rightarrow> 'a list \<Rightarrow> (string \<times> 'a) list recon" where
  "reviewed_by name items =
     try_fold (\<lambda>reviewed item.
       let key = sqlite_ascii_identifier_key (name item)
       in if map_of reviewed key \<noteq> None then Inl affinity_unavailable else Inr (bmap_insert key item reviewed)) [] items"

text \<open>\<open>rows.iter().any(..)\<close> over \<open>row[column_index]\<close>, which panics past the end of a row.\<close>

fun any_unstable :: "(SeedLiteral \<Rightarrow> bool) \<Rightarrow> nat \<Rightarrow> SeedLiteral list list \<Rightarrow> bool checked" where
  "any_unstable unchanged column_index [] = Some False"
| "any_unstable unchanged column_index (row # rows) =
     or_else (map_option (\<lambda>literal. \<not> unchanged literal) (list_get row column_index)) (any_unstable unchanged column_index rows)"

definition affinity_column ::
  "bool \<Rightarrow> bool \<Rightarrow> SeedLiteral list list \<Rightarrow> (string \<times> D1MigrationColumnExpectation) list \<Rightarrow> nat \<times> string \<Rightarrow> unit recon" where
  "affinity_column strict rowid rows reviewed_columns indexed =
     (case indexed of (column_index, seed_column) \<Rightarrow>
      ok_then (ok_or affinity_unavailable (map_of reviewed_columns (sqlite_ascii_identifier_key seed_column))) (\<lambda>column.
      ok_then (or_panic (any_unstable (\<lambda>literal. seed_literal_is_identity_stable_for_reviewed_column literal
          (col_declared_type column) strict (col_not_null column) (col_primary_key_position column) rowid) column_index rows))
        (\<lambda>unstable. if unstable
           then Inl (expectation_gap ''d1.migration_reconciliation_seed_affinity_unstable''
             ''a seed literal and reviewed SQLite table/column contract could reject or change its storage class or value'')
           else Inr ())))"

definition affinity_table ::
  "string list option \<Rightarrow> string list option \<Rightarrow> (string \<times> D1MigrationTableExpectation) list \<Rightarrow> SeedTableState \<Rightarrow> unit recon" where
  "affinity_table strict_keys rowid_keys reviewed_tables seed_table =
     (let table_key = sqlite_ascii_identifier_key (sts_table_name seed_table);
          holds = (\<lambda>keys. case keys of None \<Rightarrow> False | Some keys \<Rightarrow> table_key \<in> set keys)
      in ok_then (ok_or affinity_unavailable (map_of reviewed_tables table_key)) (\<lambda>table.
         if sts_rows seed_table = [] then Inr ()
         else ok_then (reviewed_by col_name (tab_columns table)) (\<lambda>reviewed_columns.
           map_ok (\<lambda>_. ()) (try_map (affinity_column (holds strict_keys) (holds rowid_keys) (sts_rows seed_table) reviewed_columns)
             (enumerate 0 (sts_columns seed_table))))))"

definition validate_seed_storage_affinity ::
  "SeedTableState list \<Rightarrow> D1MigrationTableExpectation list \<Rightarrow> string list option \<Rightarrow> string list option \<Rightarrow> unit recon" where
  "validate_seed_storage_affinity seed_states reviewed strict_keys rowid_keys =
     (if seed_states = [] then Inr ()
      else ok_then (reviewed_by tab_name reviewed) (\<lambda>reviewed_tables.
        map_ok (\<lambda>_. ()) (try_map (affinity_table strict_keys rowid_keys reviewed_tables) seed_states)))"

section \<open>One state\<close>

definition validate_seed_expectation :: "D1MigrationSeedTableExpectation \<Rightarrow> unit recon" where
  "validate_seed_expectation seed_table =
     ok_then (map_err Err (validate_identifier (ste_table_name seed_table))) (\<lambda>_.
     if ste_columns seed_table = [] \<or>
        list_ex (\<lambda>column. \<not> canonical_identifier column) (ste_columns seed_table) \<or>
        \<not> reconciliation_valid_sha256 (ste_rows_sha256 seed_table)
     then Inl (contradiction ''d1.migration_reconciliation_seed_expectation_invalid''
       ''seed expectations must contain bounded canonical identities, an exact row count, and a lowercase row-set SHA-256'')
     else Inr ())"

record object_scan =
  os_previous :: "(string \<times> string) option"
  os_table_objects :: "string list"
  os_supplied :: "DerivedSchemaObject list"
  os_names :: "string list"

definition schema_object_invalid :: "string \<Rightarrow> reconciliation_error failure" where
  "schema_object_invalid message = contradiction ''d1.migration_reconciliation_schema_expectation_invalid'' message"

definition validate_object :: "object_scan \<Rightarrow> D1MigrationSchemaObjectExpectation \<Rightarrow> object_scan recon" where
  "validate_object s object =
     ok_then (map_err Err (validate_identifier (obj_name object))) (\<lambda>_.
     ok_then (map_err Err (validate_identifier (obj_table_name object))) (\<lambda>_.
     if obj_type object \<notin> {''table'', ''index'', ''view'', ''trigger''} \<or> \<not> reconciliation_valid_sha256 (obj_sql_sha256 object)
     then Inl (expectation_gap ''d1.migration_reconciliation_schema_expectation_invalid''
       ''schema objects must be table/index/view/trigger entries with lowercase exact SQL SHA-256 digests'')
     else
       let key = (obj_type object, obj_name object)
       in if at_least (os_previous s) key
          then Inl (noncanonical ''schema object expectations must be unique and strictly ordered by type then name'')
          else if obj_type object = ''table'' \<and> obj_name object \<noteq> obj_table_name object
          then Inl (schema_object_invalid ''a table schema object must bind its own exact table name'')
          else if obj_type object = ''view'' \<and> obj_name object \<noteq> obj_table_name object
          then Inl (schema_object_invalid ''a view schema object must bind its own exact sqlite_master table name'')
          else Inr \<lparr>os_previous = Some key,
            os_table_objects = (if obj_type object = ''table'' then bset_insert (obj_name object) (os_table_objects s)
              else os_table_objects s),
            os_supplied = os_supplied s @ [\<lparr>object_type = obj_type object, object_name = obj_name object,
              table_name = obj_table_name object\<rparr>],
            os_names = bset_insert (obj_name object) (os_names s)\<rparr>))"

definition normalize_supplied :: "(string \<times> string) list \<Rightarrow> DerivedSchemaObject \<Rightarrow> DerivedSchemaObject" where
  "normalize_supplied spellings object =
     (if object_type object = ''table''
      then (case map_of spellings (sqlite_ascii_identifier_key (object_name object)) of
          Some spelling \<Rightarrow> object\<lparr>object_name := spelling, table_name := spelling\<rparr> | None \<Rightarrow> object)
      else if object_type object \<in> {''index'', ''trigger''}
      then (case map_of spellings (sqlite_ascii_identifier_key (table_name object)) of
          Some spelling \<Rightarrow> object\<lparr>table_name := spelling\<rparr> | None \<Rightarrow> object)
      else object)"

definition identity_order :: "DerivedSchemaObject \<Rightarrow> string \<times> string" where
  "identity_order object = (object_type object, sqlite_ascii_identifier_key (object_name object))"

record table_scan =
  ts_previous :: "string option"
  ts_table_objects :: "string list"
  ts_spellings :: "(string \<times> string) list"
  ts_names :: "string list"

definition validate_table :: "bool \<Rightarrow> table_scan \<Rightarrow> D1MigrationTableExpectation \<Rightarrow> table_scan recon" where
  "validate_table seeded s table =
     ok_then (map_err Err (validate_identifier (tab_name table))) (\<lambda>_.
     let key = sqlite_ascii_identifier_key (tab_name table)
     in if seeded \<and> map_of (ts_spellings s) key \<notin> {None, Some (tab_name table)}
        then Inl (noncanonical ''one SQLite ASCII table identity must retain one exact provider/expectation spelling across every prefix'')
        else if at_least (ts_previous s) (tab_name table)
        then Inl (noncanonical ''table expectations must be unique and strictly ordered by name'')
        else if tab_name table \<notin> set (ts_table_objects s) \<or> tab_columns table = [] \<or>
          length (tab_columns table) > MAX_COLUMNS_PER_TABLE \<or>
          length (tab_foreign_keys table) > MAX_FOREIGN_KEYS_PER_TABLE
        then Inl (contradiction ''d1.migration_reconciliation_table_expectation_invalid''
          ''every declared table object needs one bounded non-empty table_xinfo expectation'')
        else ok_then (validate_columns (tab_columns table)) (\<lambda>_.
          ok_then (validate_foreign_keys (tab_foreign_keys table)) (\<lambda>_.
          Inr \<lparr>ts_previous = Some (tab_name table), ts_table_objects = remove1 (tab_name table) (ts_table_objects s),
            ts_spellings = (if seeded then bmap_insert key (tab_name table) (ts_spellings s) else ts_spellings s),
            ts_names = bset_insert (tab_name table) (ts_names s)\<rparr>)))"

definition orphan :: "string \<Rightarrow> state_expectation \<Rightarrow> bool" where
  "orphan kind state \<longleftrightarrow>
     list_ex (\<lambda>object. obj_type object = kind \<and>
       \<not> list_ex (\<lambda>table. tab_name table = obj_table_name object) (tables state)) (schema_objects state)"

section \<open>All states\<close>

record expectation_scan =
  xs_previous_prefix :: "nat option"
  xs_object_names :: "string list"
  xs_table_names :: "string list"
  xs_spellings :: "(string \<times> string) list"
  xs_seed_states :: "SeedTableState list list"

definition derived_seed_state :: "SeedManifestPlan option \<Rightarrow> nat \<Rightarrow> SeedTableState list" where
  "derived_seed_state seed_plan prefix =
     (case seed_plan of
        None \<Rightarrow> []
      | Some plan \<Rightarrow> (case list_get (plan_states plan) prefix of None \<Rightarrow> [] | Some states \<Rightarrow> states))"

text \<open>The checks of one state before its objects: its place, its size and its seed tables.\<close>

definition validate_state_seeds ::
  "env \<Rightarrow> SeedManifestPlan option \<Rightarrow> nat \<Rightarrow> state_expectation \<Rightarrow> unit recon" where
  "validate_state_seeds E seed_plan expected_prefix state =
     (let seed_states = derived_seed_state seed_plan expected_prefix
      in ok_then (validate_seed_storage_affinity seed_states (tables state)
           (map_option strict_table_keys seed_plan) (map_option rowid_table_keys seed_plan)) (\<lambda>_.
         if seed_tables state \<noteq> state_summaries E seed_states
         then Inl (if seed_plan \<noteq> None
           then contradiction ''d1.migration_reconciliation_seed_expectation_incomplete''
             ''seed table, column, count, and row-set digest expectations must exactly match the canonical literal rows derived from every manifest prefix''
           else contradiction ''d1.migration_reconciliation_seed_expectation_not_allowed''
             ''predecessor effect assertions cannot attest seed-row expectations'')
         else map_ok (\<lambda>_. ()) (try_map validate_seed_expectation (seed_tables state))))"

definition validate_state_objects ::
  "DerivedSchemaObject list list \<Rightarrow> SeedManifestPlan option \<Rightarrow> nat \<Rightarrow> state_expectation \<Rightarrow> string list \<Rightarrow> object_scan recon" where
  "validate_state_objects derived seed_plan expected_prefix state names =
     ok_then (try_fold validate_object \<lparr>os_previous = None, os_table_objects = [], os_supplied = [], os_names = names\<rparr>
         (schema_objects state)) (\<lambda>s.
     let supplied = (case seed_plan of
           None \<Rightarrow> os_supplied s
         | Some plan \<Rightarrow> map (normalize_supplied (preexisting_table_spellings plan)) (os_supplied s))
     in ok_then (or_panic (list_get derived expected_prefix)) (\<lambda>objects.
        if sort_key identity_order supplied \<noteq> sort_key identity_order objects
        then Inl (contradiction ''d1.migration_reconciliation_schema_expectation_incomplete''
          ''schema object expectations must exactly match every CREATE target derived from the manifest prefix'')
        else Inr s))"

definition validate_state_tables ::
  "bool \<Rightarrow> state_expectation \<Rightarrow> table_scan \<Rightarrow> table_scan recon" where
  "validate_state_tables seeded state s =
     ok_then (try_fold (validate_table seeded) s (tables state)) (\<lambda>s.
     if ts_table_objects s \<noteq> []
     then Inl (contradiction ''d1.migration_reconciliation_table_expectation_missing''
       ''every expected table schema object requires table_xinfo and foreign-key expectations'')
     else if orphan ''index'' state
     then Inl (contradiction ''d1.migration_reconciliation_index_parent_missing''
       ''every expected index must bind an expected table in the same state'')
     else if orphan ''trigger'' state
     then Inl (contradiction ''d1.migration_reconciliation_trigger_parent_missing''
       ''every expected trigger must bind an expected table in the same state'')
     else Inr s)"

definition validate_reviewed_state ::
  "env \<Rightarrow> DerivedSchemaObject list list \<Rightarrow> SeedManifestPlan option \<Rightarrow> expectation_scan \<Rightarrow> nat \<times> state_expectation \<Rightarrow>
   expectation_scan recon" where
  "validate_reviewed_state E derived seed_plan s indexed =
     (case indexed of (expected_prefix, state) \<Rightarrow>
      if manifest_prefix_length state \<noteq> expected_prefix \<or> manifest_prefix_length state > length derived - 1 \<or>
         at_least (xs_previous_prefix s) (manifest_prefix_length state)
      then Inl (noncanonical ''state expectations must be unique and strictly ordered by an in-range manifest prefix'')
      else if length (schema_objects state) > MAX_SCHEMA_OBJECTS \<or> length (tables state) > MAX_TABLES
      then Inl (expectation_gap ''d1.migration_reconciliation_expectations_unbounded''
        ''a state expectation exceeds the schema object or table proof bound'')
      else ok_then (validate_state_seeds E seed_plan expected_prefix state) (\<lambda>_.
        ok_then (validate_state_objects derived seed_plan expected_prefix state (xs_object_names s)) (\<lambda>objects.
        ok_then (validate_state_tables (seed_plan \<noteq> None) state \<lparr>ts_previous = None,
            ts_table_objects = os_table_objects objects, ts_spellings = xs_spellings s, ts_names = xs_table_names s\<rparr>) (\<lambda>t.
        Inr \<lparr>xs_previous_prefix = Some (manifest_prefix_length state), xs_object_names = os_names objects,
          xs_table_names = ts_names t, xs_spellings = ts_spellings t,
          xs_seed_states = xs_seed_states s @ [derived_seed_state seed_plan expected_prefix]\<rparr>))))"

subsection \<open>The serialized expectations\<close>

definition ser_schema_object :: "D1MigrationSchemaObjectExpectation \<Rightarrow> ser" where
  "ser_schema_object object = SStruct [(''object_type'', SStr (obj_type object)), (''name'', SStr (obj_name object)),
     (''table_name'', SStr (obj_table_name object)), (''sql_sha256'', SStr (obj_sql_sha256 object))]"

definition ser_column :: "D1MigrationColumnExpectation \<Rightarrow> ser" where
  "ser_column column = SStruct [(''cid'', SInt (col_cid column)), (''name'', SStr (col_name column)),
     (''declared_type'', SStr (col_declared_type column)), (''not_null'', SBool (col_not_null column)),
     (''default_value'', ser_option SStr (col_default_value column)),
     (''primary_key_position'', SInt (col_primary_key_position column)), (''hidden'', SInt (col_hidden column))]"

definition ser_foreign_key :: "D1MigrationForeignKeyExpectation \<Rightarrow> ser" where
  "ser_foreign_key fk = SStruct [(''id'', SInt (fk_id fk)), (''sequence'', SInt (fk_sequence fk)),
     (''referenced_table'', SStr (fk_referenced_table fk)), (''from_column'', SStr (fk_from_column fk)),
     (''to_column'', ser_option SStr (fk_to_column fk)), (''on_update'', SStr (fk_on_update fk)),
     (''on_delete'', SStr (fk_on_delete fk)), (''match_mode'', SStr (fk_match_mode fk))]"

definition ser_table :: "D1MigrationTableExpectation \<Rightarrow> ser" where
  "ser_table table = SStruct [(''name'', SStr (tab_name table)), (''columns'', SSeq (map ser_column (tab_columns table))),
     (''foreign_keys'', SSeq (map ser_foreign_key (tab_foreign_keys table)))]"

definition ser_seed_table :: "D1MigrationSeedTableExpectation \<Rightarrow> ser" where
  "ser_seed_table seed = SStruct [(''table_name'', SStr (ste_table_name seed)),
     (''columns'', SSeq (map SStr (ste_columns seed))), (''row_count'', ser_usize (ste_row_count seed)),
     (''rows_sha256'', SStr (ste_rows_sha256 seed))]"

definition ser_expectation :: "state_expectation \<Rightarrow> ser" where
  "ser_expectation state = SStruct
     ([(''manifest_prefix_length'', ser_usize (manifest_prefix_length state)),
       (''schema_objects'', SSeq (map ser_schema_object (schema_objects state))),
       (''tables'', SSeq (map ser_table (tables state)))] @
      (if seed_tables state = [] then [] else [(''seed_tables'', SSeq (map ser_seed_table (seed_tables state)))]))"

subsection \<open>The entry points\<close>

definition validate_expectations ::
  "env \<Rightarrow> DerivedSchemaObject list list \<Rightarrow> SeedManifestPlan option \<Rightarrow> state_expectation list \<Rightarrow> ValidatedExpectations recon" where
  "validate_expectations E derived seed_plan states =
     (if length states \<noteq> length derived \<or> length states > MAX_STATE_EXPECTATIONS
      then Inl (expectation_gap ''d1.migration_reconciliation_expectations_incomplete''
        ''state_expectations must contain one complete reviewed state for every manifest prefix, including zero'')
      else ok_then (try_fold (validate_reviewed_state E derived seed_plan)
          \<lparr>xs_previous_prefix = None, xs_object_names = [], xs_table_names = [], xs_spellings = [], xs_seed_states = []\<rparr>
          (enumerate 0 states)) (\<lambda>s.
        if length (xs_object_names s) > MAX_SCHEMA_OBJECTS \<or> length (xs_table_names s) > MAX_TABLES
        then Inl (expectation_gap ''d1.migration_reconciliation_expectation_union_unbounded''
          ''the union of reviewed schema objects or tables exceeds the fixed query bound'')
        else Inr \<lparr>val_states = states, val_object_names = xs_object_names s, val_table_names = xs_table_names s,
          val_seed_states = xs_seed_states s, val_proof_sha256 = hash_serialized E (SSeq (map ser_expectation states))\<rparr>))"

definition fts_unbound :: "env \<Rightarrow> D1MigrationManifestEntry list \<Rightarrow> state_expectation list \<Rightarrow> bool checked" where
  "fts_unbound E manifest states =
     (case single_fts_shape manifest of
        Inl (Panic _) \<Rightarrow> None
      | Inl (Err _) \<Rightarrow> Some True
      | Inr _ \<Rightarrow> map_option Not (fts_expected_schema_is_source_bound E manifest states))"

definition validate_replay_manifest_expectations ::
  "env \<Rightarrow> string \<Rightarrow> string \<Rightarrow> D1MigrationManifestEntry list \<Rightarrow> state_expectation list \<Rightarrow> string recon" where
  "validate_replay_manifest_expectations E effect_assertion_id migrations_table manifest state_expectations =
     ok_then (map_err Err (canonical_effect_assertion_id (Some effect_assertion_id))) (\<lambda>selected.
     ok_then (derive_effect_assertion_details (Some selected) manifest) (\<lambda>derived.
     ok_then (map_err Err (validate_reserved_migrations_table migrations_table derived)) (\<lambda>_.
     ok_then (validate_expectations E (derived_states derived) (derived_seed_plan derived) state_expectations) (\<lambda>validated.
     ok_then (if seed_assertion_version selected = Some V3Fts
         then or_panic (fts_unbound E manifest (val_states validated))
         else Inr False) (\<lambda>unbound.
     if unbound
     then Inl (contradiction ''d1.migration_reconciliation_fts_source_binding_mismatch''
       ''FTS replay expectations were not derived from the exact manifest and engine-owned definitions'')
     else ok_then (case derived_additive_plan derived of
         None \<Rightarrow> Inr ()
       | Some plan \<Rightarrow> map_err additive_contract_error (validate_additive_transitions_with_seed_identity plan
           (val_states validated) (derived_seed_plan derived))) (\<lambda>_.
       Inr (val_proof_sha256 validated)))))))"

end
