(* ===== verification/D1_Readback.thy ===== *)
theory D1_Readback
  imports D1_Expectations
begin

text \<open>
  The read-back of \<open>src/d1_migration_reconciliation.rs\<close>: the fixed read-only batch built from the reviewed
  state, every statement tagged with a digest of its identity, and the parser that accepts only a
  complete, tagged, primary-served answer. \<open>as_i64\<close>, a parameter, reads a JSON number as the client
  library does.
\<close>

section \<open>Statements\<close>

record D1ManifestLedgerRow =
  ledger_id :: int
  ledger_name :: string

record ObservedSchemaObject =
  ob_type :: string
  ob_name :: string
  ob_table_name :: string
  ob_sql_sha256 :: string

record ObservedTable =
  ot_name :: string
  ot_columns :: "D1MigrationColumnExpectation list"
  ot_foreign_keys :: "D1MigrationForeignKeyExpectation list"

record 'n CanonicalSnapshot =
  snap_ledger :: "D1ManifestLedgerRow list"
  snap_schema_objects :: "ObservedSchemaObject list"
  snap_tables :: "ObservedTable list"
  snap_seed_tables :: "D1MigrationSeedTableExpectation list"
  snap_fts_table_types :: "'n json list option"
  snap_fts_triggers :: "ObservedSchemaObject list option"

datatype BatchStatement =
    Ledger | Schema | TableXinfo string | ForeignKeyList string | ForeignKeyCheck string
  | SeedCount SeedTableState | SeedRowSet SeedTableState
  | FtsTableTypeCount | FtsTableTypes | FtsTriggerCount | FtsTriggers

definition nul :: string where "nul = [CHR 0x00]"

definition nul_joined :: "string list \<Rightarrow> string" where
  "nul_joined parts = (case parts of [] \<Rightarrow> [] | part # rest \<Rightarrow> part @ concat (map (\<lambda>p. nul @ p) rest))"

fun logical_identity :: "BatchStatement \<Rightarrow> string" where
  "logical_identity Ledger = ''ledger''"
| "logical_identity Schema = ''sqlite_master''"
| "logical_identity (TableXinfo table) = ''table_xinfo'' @ nul @ table"
| "logical_identity (ForeignKeyList table) = ''foreign_key_list'' @ nul @ table"
| "logical_identity (ForeignKeyCheck table) = ''foreign_key_check'' @ nul @ table"
| "logical_identity (SeedCount state) = ''seed_count'' @ nul @ sts_table_name state"
| "logical_identity FtsTableTypes = ''fts_table_types''"
| "logical_identity FtsTableTypeCount = ''fts_table_type_count''"
| "logical_identity FtsTriggerCount = ''fts_trigger_count''"
| "logical_identity FtsTriggers = ''fts_trigger_authority''"
| "logical_identity (SeedRowSet state) = ''seed_rows'' @ nul @ sts_table_name state @ nul @ nul_joined (sts_columns state)"

definition marker_text :: "BatchStatement \<Rightarrow> string \<Rightarrow> string" where
  "marker_text statement proof_sha256 =
     ''d1-reconciliation-statement-v1'' @ nul @ proof_sha256 @ nul @ logical_identity statement"

definition marker :: "env \<Rightarrow> BatchStatement \<Rightarrow> string \<Rightarrow> string" where
  "marker E statement proof_sha256 = sha256_hex E (marker_text statement proof_sha256)"

definition schema_fields :: "string list" where
  "schema_fields = [''type'', ''name'', ''tbl_name'', ''sql'']"

fun data_fields :: "BatchStatement \<Rightarrow> string list" where
  "data_fields Ledger = [''id'', ''name'']"
| "data_fields Schema = schema_fields"
| "data_fields (TableXinfo _) = [''cid'', ''name'', ''type'', ''notnull'', ''dflt_value'', ''pk'', ''hidden'']"
| "data_fields (ForeignKeyList _) = [''id'', ''seq'', ''table'', ''from'', ''to'', ''on_update'', ''on_delete'', ''match'']"
| "data_fields (ForeignKeyCheck _) = [''table'', ''rowid'', ''parent'', ''fkid'']"
| "data_fields (SeedCount _) = [''row_count'']"
| "data_fields (SeedRowSet state) = seed_data_fields (length (sts_columns state))"
| "data_fields FtsTableTypes = [''name'', ''type'']"
| "data_fields FtsTableTypeCount = [''row_count'']"
| "data_fields FtsTriggerCount = [''row_count'']"
| "data_fields FtsTriggers = schema_fields"

section \<open>The fixed query\<close>

record FixedQuery =
  fq_sql :: string
  fq_sha256 :: string
  fq_proof_sha256 :: string
  fq_statements :: "BatchStatement list"
  fq_spellings :: "(string \<times> string) list"

definition separated :: "string \<Rightarrow> string list \<Rightarrow> string" where
  "separated separator parts =
     (case parts of [] \<Rightarrow> [] | part # rest \<Rightarrow> part @ concat (map (\<lambda>p. separator @ p) rest))"

definition quote_string :: "string \<Rightarrow> string" where
  "quote_string v = CHR 0x27 # concat (map (\<lambda>c. if c = CHR 0x27 then [c, c] else [c]) v) @ [CHR 0x27]"

definition tagged_statement :: "env \<Rightarrow> BatchStatement \<Rightarrow> string \<Rightarrow> string \<Rightarrow> nat list \<Rightarrow> string" where
  "tagged_statement E statement proof_sha256 data_sql data_order_positions =
     (let tag = quote_string (marker E statement proof_sha256)
      in ''SELECT '' @ tag @ '' AS \"__cf_mcp_statement_id\", 0 AS \"__cf_mcp_row_kind\", ''
        @ joined (map (\<lambda>field. ''NULL AS '' @ quote_identifier field) (data_fields statement))
        @ '' UNION ALL SELECT '' @ tag @ '', 1, * FROM ('' @ data_sql @ '') ORDER BY ''
        @ joined (''2'' # map nat_to_string data_order_positions))"

type_synonym tagged = "BatchStatement \<times> string \<times> nat list"

definition ledger_query :: "string \<Rightarrow> nat \<Rightarrow> tagged" where
  "ledger_query migrations_table manifest_len =
     (Ledger, ''SELECT id, name FROM '' @ quote_identifier migrations_table @ '' ORDER BY id LIMIT ''
        @ nat_to_string (manifest_len + 1), [3])"

definition schema_query :: "string list \<Rightarrow> tagged" where
  "schema_query object_names =
     (Schema, ''SELECT type, name, tbl_name, sql FROM sqlite_master WHERE name COLLATE NOCASE IN (''
        @ (if object_names = [] then ''NULL'' else joined (map quote_string object_names))
        @ '') ORDER BY type, name LIMIT '' @ nat_to_string (length object_names + 1), [3, 4])"

definition table_queries :: "string \<Rightarrow> tagged list" where
  "table_queries table =
     (let quoted = quote_string table
      in [(TableXinfo table, ''SELECT cid, name, type, \"notnull\", dflt_value, pk, hidden FROM pragma_table_xinfo('' @ quoted
             @ '') ORDER BY cid LIMIT '' @ nat_to_string (MAX_COLUMNS_PER_TABLE + 1), [3]),
          (ForeignKeyList table, ''SELECT id, seq, \"table\", \"from\", \"to\", on_update, on_delete, \"match\" FROM pragma_foreign_key_list(''
             @ quoted @ '') ORDER BY id, seq LIMIT '' @ nat_to_string (MAX_FOREIGN_KEYS_PER_TABLE + 1), [3, 4]),
          (ForeignKeyCheck table, ''SELECT \"table\", rowid, parent, fkid FROM pragma_foreign_key_check('' @ quoted @ '') LIMIT 1'', [])])"

definition seed_queries :: "SeedTableState \<Rightarrow> tagged list" where
  "seed_queries state =
     (if sts_version state = V3Fts
      then [(SeedCount state, ''SELECT COUNT(*) AS row_count FROM (SELECT 1 FROM '' @ quote_identifier (sts_table_name state)
        @ '' LIMIT '' @ nat_to_string (length (sts_rows state) + 1) @ '')'', [3])]
      else []) @
     [(SeedRowSet state, seed_select_sql state, concat (map (\<lambda>index. [3 + index * 2, 4 + index * 2]) [0..<length (sts_columns state)]))]"

definition tagged_text :: "env \<Rightarrow> string \<Rightarrow> tagged \<Rightarrow> string" where
  "tagged_text E proof_sha256 t = (case t of (statement, sql, order) \<Rightarrow> tagged_statement E statement proof_sha256 sql order)"

definition build_fixed_query ::
  "env \<Rightarrow> string \<Rightarrow> nat \<Rightarrow> string list \<Rightarrow> string list \<Rightarrow> SeedTableState list \<Rightarrow> string \<Rightarrow> bool \<Rightarrow> FixedQuery" where
  "build_fixed_query E migrations_table manifest_len object_names table_names seed_states proof_sha256 fold_identities =
     (let queries = ledger_query migrations_table manifest_len # schema_query object_names #
            concat (map table_queries table_names) @ concat (map seed_queries seed_states);
          sql = separated ('';'' @ [CHR 0x0A]) (map (tagged_text E proof_sha256) queries)
      in \<lparr>fq_sql = sql, fq_sha256 = sha256_hex E sql, fq_proof_sha256 = proof_sha256, fq_statements = map fst queries,
          fq_spellings = (if fold_identities
            then fold (\<lambda>table. bmap_insert (sqlite_ascii_identifier_key table) table) table_names [] else [])\<rparr>)"

definition fts5_table_type_query :: "ExternalFts5Shape \<Rightarrow> string" where
  "fts5_table_type_query fts =
     (let prefix = quote_string (fts_table fts @ ''_'')
      in ''SELECT name, type FROM pragma_table_list WHERE schema = '' @ quoted_text ''main'' @ '' AND (name COLLATE NOCASE IN (''
        @ quote_string (fts_content fts) @ '', '' @ quote_string (fts_table fts) @ '') OR substr(name, 1, length('' @ prefix
        @ '')) COLLATE NOCASE = '' @ prefix @ '') ORDER BY name LIMIT 7'')"

definition fts5_trigger_authority_query :: string where
  "fts5_trigger_authority_query =
     ''SELECT type, name, tbl_name, sql FROM sqlite_master WHERE type = '' @ quoted_text ''trigger'' @ '' ORDER BY type, name LIMIT ''
     @ nat_to_string (MAX_SCHEMA_OBJECTS + 1)"

definition count_of :: "string \<Rightarrow> string" where
  "count_of sql = ''SELECT COUNT(*) AS row_count FROM ('' @ sql @ '')''"

definition fts_witnesses :: "ExternalFts5Shape \<Rightarrow> tagged list" where
  "fts_witnesses fts =
     [(FtsTableTypeCount, count_of (fts5_table_type_query fts), [3]), (FtsTableTypes, fts5_table_type_query fts, [3]),
      (FtsTriggerCount, count_of fts5_trigger_authority_query, [3]), (FtsTriggers, fts5_trigger_authority_query, [3, 4])]"

definition append_fts_witnesses :: "env \<Rightarrow> FixedQuery \<Rightarrow> ExternalFts5Shape \<Rightarrow> FixedQuery" where
  "append_fts_witnesses E query fts =
     (let sql = fq_sql query @ concat (map (\<lambda>t. '';'' @ [CHR 0x0A] @ tagged_text E (fq_proof_sha256 query) t) (fts_witnesses fts))
      in query\<lparr>fq_sql := sql, fq_statements := fq_statements query @ map fst (fts_witnesses fts), fq_sha256 := sha256_hex E sql\<rparr>)"

section \<open>Rows\<close>

abbreviation contradicted :: "string \<Rightarrow> string \<Rightarrow> 'a recon" where
  "contradicted code message \<equiv> Inl (contradiction code message)"

definition exact_row :: "'n json \<Rightarrow> string list \<Rightarrow> (string \<times> 'n json) list recon" where
  "exact_row row expected =
     ok_then (ok_or (contradiction ''d1.migration_reconciliation_row_malformed'' ''provider evidence row was not an object'')
       (as_object row)) (\<lambda>object.
     if fst ` set object \<noteq> set expected
     then contradicted ''d1.migration_reconciliation_row_shape_unexpected'' ''provider evidence row had missing or unexpected fields''
     else Inr object)"

definition exact_string :: "(string \<times> 'n json) list \<Rightarrow> string \<Rightarrow> string recon" where
  "exact_string object field =
     (case Option.bind (map_of object field) as_str of
        Some v \<Rightarrow>
          (if length v \<le> 16 * 1024 * 1024 \<and> CHR 0x00 \<notin> set v then Inr v
           else contradicted ''d1.migration_reconciliation_row_value_malformed''
             ''provider evidence row contained a missing or malformed string'')
      | None \<Rightarrow> contradicted ''d1.migration_reconciliation_row_value_malformed''
             ''provider evidence row contained a missing or malformed string'')"

fun as_i64_value :: "('n \<Rightarrow> int option) \<Rightarrow> 'n json \<Rightarrow> int option" where
  "as_i64_value as_i64 (Number n) = as_i64 n"
| "as_i64_value as_i64 _ = None"

definition get_i64 :: "('n \<Rightarrow> int option) \<Rightarrow> (string \<times> 'n json) list \<Rightarrow> string \<Rightarrow> int option" where
  "get_i64 as_i64 object field = Option.bind (map_of object field) (as_i64_value as_i64)"

definition exact_nonnegative_i64 :: "('n \<Rightarrow> int option) \<Rightarrow> (string \<times> 'n json) list \<Rightarrow> string \<Rightarrow> int recon" where
  "exact_nonnegative_i64 as_i64 object field =
     (case get_i64 as_i64 object field of
        Some v \<Rightarrow>
          (if v \<ge> 0 then Inr v
           else contradicted ''d1.migration_reconciliation_row_value_malformed''
             ''provider evidence row contained a missing or malformed integer'')
      | None \<Rightarrow> contradicted ''d1.migration_reconciliation_row_value_malformed''
             ''provider evidence row contained a missing or malformed integer'')"

text \<open>A nullable string; a missing member is refused like any other value.\<close>

definition null_or_string :: "reconciliation_error failure \<Rightarrow> (string \<times> 'n json) list \<Rightarrow> string \<Rightarrow> string option recon" where
  "null_or_string e object field =
     (case map_of object field of Some Null \<Rightarrow> Inr None | Some (String v) \<Rightarrow> Inr (Some v) | _ \<Rightarrow> Inl e)"

definition ledger_malformed :: "string \<Rightarrow> reconciliation_error failure" where
  "ledger_malformed message = contradiction ''d1.migration_reconciliation_ledger_malformed'' message"

definition ledger_step ::
  "('n \<Rightarrow> int option) \<Rightarrow> int option \<times> string list \<times> D1ManifestLedgerRow list \<Rightarrow> 'n json \<Rightarrow>
   (int option \<times> string list \<times> D1ManifestLedgerRow list) recon" where
  "ledger_step as_i64 state row =
     (case state of (previous_id, names, parsed) \<Rightarrow>
      ok_then (exact_row row [''id'', ''name'']) (\<lambda>object.
        case (get_i64 as_i64 object ''id'', Option.bind (map_of object ''name'') as_str) of
          (Some row_id, Some name) \<Rightarrow>
            (if row_id < 0 \<or> name = [] \<or> length name > 255 \<or> CHR 0x00 \<in> set name
             then Inl (ledger_malformed ''migration ledger row did not contain an exact non-negative id and canonical name'')
             else if at_least previous_id row_id \<or> name \<in> set names
             then Inl (ledger_malformed ''migration ledger ids or names were duplicate or out of order'')
             else Inr (Some row_id, bset_insert name names, parsed @ [\<lparr>ledger_id = row_id, ledger_name = name\<rparr>]))
        | _ \<Rightarrow> Inl (ledger_malformed ''migration ledger row did not contain an exact non-negative id and canonical name'')))"

definition parse_ledger_rows :: "('n \<Rightarrow> int option) \<Rightarrow> 'n json list \<Rightarrow> D1ManifestLedgerRow list recon" where
  "parse_ledger_rows as_i64 rows = map_ok (\<lambda>(_, _, parsed). parsed) (try_fold (ledger_step as_i64) (None, [], []) rows)"

definition schema_step ::
  "env \<Rightarrow> (string \<times> string) option \<times> string list \<times> ObservedSchemaObject list \<Rightarrow> 'n json \<Rightarrow>
   ((string \<times> string) option \<times> string list \<times> ObservedSchemaObject list) recon" where
  "schema_step E state row =
     (case state of (previous, names, parsed) \<Rightarrow>
      ok_then (exact_row row [''name'', ''sql'', ''tbl_name'', ''type'']) (\<lambda>object.
      ok_then (exact_string object ''type'') (\<lambda>kind.
      ok_then (exact_string object ''name'') (\<lambda>name.
      ok_then (exact_string object ''tbl_name'') (\<lambda>tbl_name.
      ok_then (exact_string object ''sql'') (\<lambda>sql.
        let identity_key = sqlite_ascii_identifier_key name
        in if kind \<notin> {''table'', ''index'', ''view'', ''trigger''} \<or> identity_key \<in> set names \<or> at_least previous (kind, name)
           then contradicted ''d1.migration_reconciliation_schema_malformed''
             ''sqlite_master rows were duplicate, unexpected, or out of canonical order''
           else Inr (Some (kind, name), bset_insert identity_key names,
             parsed @ [\<lparr>ob_type = kind, ob_name = name, ob_table_name = tbl_name, ob_sql_sha256 = sha256_hex E sql\<rparr>])))))))"

definition parse_schema_rows :: "env \<Rightarrow> 'n json list \<Rightarrow> ObservedSchemaObject list recon" where
  "parse_schema_rows E rows = map_ok (\<lambda>(_, _, parsed). parsed) (try_fold (schema_step E) (None, [], []) rows)"

definition malformed_xinfo :: "reconciliation_error failure" where
  "malformed_xinfo = contradiction ''d1.migration_reconciliation_xinfo_malformed''
     ''table_xinfo row was missing, malformed, duplicate, or out of order''"

definition column_row :: "('n \<Rightarrow> int option) \<Rightarrow> 'n json \<Rightarrow> D1MigrationColumnExpectation recon" where
  "column_row as_i64 row =
     ok_then (exact_row row [''cid'', ''dflt_value'', ''hidden'', ''name'', ''notnull'', ''pk'', ''type'']) (\<lambda>object.
     ok_then (exact_nonnegative_i64 as_i64 object ''cid'') (\<lambda>cid.
     ok_then (exact_string object ''name'') (\<lambda>name.
     ok_then (exact_string object ''type'') (\<lambda>declared_type.
     ok_then (case get_i64 as_i64 object ''notnull'' of
         Some v \<Rightarrow> (if v = 0 then Inr False else if v = 1 then Inr True else Inl malformed_xinfo)
       | None \<Rightarrow> Inl malformed_xinfo) (\<lambda>not_null.
     ok_then (null_or_string malformed_xinfo object ''dflt_value'') (\<lambda>default_value.
     ok_then (exact_nonnegative_i64 as_i64 object ''pk'') (\<lambda>pk.
     ok_then (exact_nonnegative_i64 as_i64 object ''hidden'') (\<lambda>hidden.
       Inr \<lparr>col_cid = cid, col_name = name, col_declared_type = declared_type, col_not_null = not_null,
         col_default_value = default_value, col_primary_key_position = pk, col_hidden = hidden\<rparr>))))))))"

definition parse_column_rows :: "('n \<Rightarrow> int option) \<Rightarrow> 'n json list \<Rightarrow> D1MigrationColumnExpectation list recon" where
  "parse_column_rows as_i64 rows =
     ok_then (try_map (column_row as_i64) rows) (\<lambda>columns.
       ok_then (map_err (\<lambda>_. malformed_xinfo) (validate_columns columns)) (\<lambda>_. Inr columns))"

definition malformed_foreign_key :: "reconciliation_error failure" where
  "malformed_foreign_key = contradiction ''d1.migration_reconciliation_foreign_key_malformed''
     ''foreign_key_list row was missing, malformed, duplicate, or out of order''"

definition foreign_key_row :: "('n \<Rightarrow> int option) \<Rightarrow> 'n json \<Rightarrow> D1MigrationForeignKeyExpectation recon" where
  "foreign_key_row as_i64 row =
     ok_then (exact_row row [''from'', ''id'', ''match'', ''on_delete'', ''on_update'', ''seq'', ''table'', ''to'']) (\<lambda>object.
     ok_then (exact_nonnegative_i64 as_i64 object ''id'') (\<lambda>id.
     ok_then (exact_nonnegative_i64 as_i64 object ''seq'') (\<lambda>seq.
     ok_then (exact_string object ''table'') (\<lambda>referenced.
     ok_then (exact_string object ''from'') (\<lambda>from_column.
     ok_then (null_or_string malformed_foreign_key object ''to'') (\<lambda>to_column.
     ok_then (exact_string object ''on_update'') (\<lambda>on_update.
     ok_then (exact_string object ''on_delete'') (\<lambda>on_delete.
     ok_then (exact_string object ''match'') (\<lambda>match_mode.
       Inr \<lparr>fk_id = id, fk_sequence = seq, fk_referenced_table = referenced, fk_from_column = from_column,
         fk_to_column = to_column, fk_on_update = on_update, fk_on_delete = on_delete, fk_match_mode = match_mode\<rparr>)))))))))"

definition parse_foreign_key_rows :: "('n \<Rightarrow> int option) \<Rightarrow> 'n json list \<Rightarrow> D1MigrationForeignKeyExpectation list recon" where
  "parse_foreign_key_rows as_i64 rows =
     ok_then (try_map (foreign_key_row as_i64) rows) (\<lambda>foreign_keys.
       ok_then (map_err (\<lambda>_. malformed_foreign_key) (validate_foreign_keys foreign_keys)) (\<lambda>_. Inr foreign_keys))"

section \<open>Result sets\<close>

definition statement_marker_malformed :: "reconciliation_error failure" where
  "statement_marker_malformed = contradiction ''d1.migration_reconciliation_statement_marker_malformed''
     ''a fixed reconciliation result had a missing, malformed, duplicate, or conflicting statement identity marker''"

abbreviation id_field :: string where "id_field \<equiv> ''__cf_mcp_statement_id''"
abbreviation kind_field :: string where "kind_field \<equiv> ''__cf_mcp_row_kind''"

definition tagged_keys :: "BatchStatement \<Rightarrow> string set" where
  "tagged_keys statement = set (data_fields statement) \<union> {kind_field, id_field}"

text \<open>Whether the object is a row of this statement and kind: its tag, its kind and exactly the expected members.\<close>

definition tagged_object ::
  "('n \<Rightarrow> int option) \<Rightarrow> BatchStatement \<Rightarrow> string \<Rightarrow> int \<Rightarrow> (string \<times> 'n json) list \<Rightarrow> bool" where
  "tagged_object as_i64 statement tag kind object \<longleftrightarrow>
     Option.bind (map_of object id_field) as_str = Some tag \<and> get_i64 as_i64 object kind_field = Some kind \<and>
     fst ` set object = tagged_keys statement"

definition data_row ::
  "('n \<Rightarrow> int option) \<Rightarrow> BatchStatement \<Rightarrow> string \<Rightarrow> 'n json \<Rightarrow> 'n json recon" where
  "data_row as_i64 statement tag row =
     ok_then (ok_or statement_marker_malformed (as_object row)) (\<lambda>object.
     if \<not> tagged_object as_i64 statement tag 1 object then Inl statement_marker_malformed
     else map_ok Object (try_fold (\<lambda>data field.
         map_ok (\<lambda>v. bmap_insert field v data) (ok_or statement_marker_malformed (map_of object field)))
       [] (data_fields statement)))"

definition parse_tagged_rows ::
  "env \<Rightarrow> ('n \<Rightarrow> int option) \<Rightarrow> 'n json list \<Rightarrow> BatchStatement \<Rightarrow> string \<Rightarrow> 'n json list recon" where
  "parse_tagged_rows E as_i64 rows statement proof_sha256 =
     (let tag = marker E statement proof_sha256
      in case rows of
           [] \<Rightarrow> contradicted ''d1.migration_reconciliation_statement_marker_missing''
             ''a fixed reconciliation result omitted its mandatory statement identity marker''
         | first # rest \<Rightarrow>
             ok_then (ok_or statement_marker_malformed (as_object first)) (\<lambda>object.
             if \<not> tagged_object as_i64 statement tag 0 object \<or>
                list_ex (\<lambda>field. map_of object field \<noteq> Some Null) (data_fields statement)
             then Inl statement_marker_malformed
             else try_map (data_row as_i64 statement tag) rest))"

definition no_errors :: "(string \<times> 'n json) list \<Rightarrow> bool" where
  "no_errors object \<longleftrightarrow>
     (case map_of object ''errors'' of None \<Rightarrow> True | Some (Array errors) \<Rightarrow> errors = [] | _ \<Rightarrow> False)"

definition primary_missing :: "reconciliation_error failure" where
  "primary_missing = contradiction ''d1.migration_reconciliation_primary_evidence_contradictory''
     ''provider result metadata did not prove that the fixed result set was served by the primary''"

definition read_only_meta :: "('n \<Rightarrow> int option) \<Rightarrow> (string \<times> 'n json) list \<Rightarrow> bool" where
  "read_only_meta as_i64 meta \<longleftrightarrow>
     (case map_of meta ''changed_db'' of None \<Rightarrow> True | Some v \<Rightarrow> v = Bool False) \<and>
     list_all (\<lambda>field. case map_of meta field of None \<Rightarrow> True | Some v \<Rightarrow> as_i64_value as_i64 v = Some 0)
       [''changes'', ''rows_written'']"

definition result_rows ::
  "env \<Rightarrow> ('n \<Rightarrow> int option) \<Rightarrow> 'n json \<Rightarrow> BatchStatement \<Rightarrow> string \<Rightarrow> 'n json list recon" where
  "result_rows E as_i64 result_set statement proof_sha256 =
     ok_then (ok_or (contradiction ''d1.migration_reconciliation_result_malformed'' ''a reconciliation result set was not an object'')
       (as_object result_set)) (\<lambda>object.
     if Option.bind (map_of object ''success'') as_bool \<noteq> Some True
     then contradicted ''d1.migration_reconciliation_result_unsuccessful''
       ''a reconciliation result set did not explicitly prove success''
     else if \<not> no_errors object
     then contradicted ''d1.migration_reconciliation_result_errors''
       ''a reconciliation result set contained malformed or non-empty errors''
     else ok_then (ok_or primary_missing (Option.bind (map_of object ''meta'') as_object)) (\<lambda>meta.
       if map_of meta ''served_by_primary'' \<noteq> Some (Bool True) then Inl primary_missing
       else if \<not> read_only_meta as_i64 meta
       then contradicted ''d1.migration_reconciliation_read_only_meta_contradictory''
         ''provider metadata was malformed or contradicted the internally constructed read-only batch''
       else ok_then (ok_or (contradiction ''d1.migration_reconciliation_rows_missing''
           ''a reconciliation result set omitted its rows array'') (Option.bind (map_of object ''results'') as_array)) (\<lambda>rows.
         parse_tagged_rows E as_i64 rows statement proof_sha256)))"

section \<open>The batch\<close>

record 'n batch_scan =
  bs_ledger :: "D1ManifestLedgerRow list option"
  bs_schema :: "ObservedSchemaObject list option"
  bs_tables :: "(string \<times> ObservedTable) list"
  bs_seed_tables :: "D1MigrationSeedTableExpectation list"
  bs_seed_counts :: "(string \<times> nat) list"
  bs_fts_types :: "'n json list option"
  bs_fts_triggers :: "ObservedSchemaObject list option"
  bs_type_count :: "nat option"
  bs_trigger_count :: "nat option"

definition batch_start :: "'n batch_scan" where
  "batch_start = \<lparr>bs_ledger = None, bs_schema = None, bs_tables = [], bs_seed_tables = [], bs_seed_counts = [],
     bs_fts_types = None, bs_fts_triggers = None, bs_type_count = None, bs_trigger_count = None\<rparr>"

definition respell :: "(string \<times> string) list \<Rightarrow> ObservedSchemaObject \<Rightarrow> ObservedSchemaObject" where
  "respell spellings object =
     (if ob_type object \<in> {''index'', ''trigger''}
      then (case map_of spellings (sqlite_ascii_identifier_key (ob_table_name object)) of
          Some reviewed \<Rightarrow> object\<lparr>ob_table_name := reviewed\<rparr> | None \<Rightarrow> object)
      else object)"

definition table_entry :: "'n batch_scan \<Rightarrow> string \<Rightarrow> ObservedTable" where
  "table_entry s table =
     (case map_of (bs_tables s) table of
        Some observed \<Rightarrow> observed | None \<Rightarrow> \<lparr>ot_name = table, ot_columns = [], ot_foreign_keys = []\<rparr>)"

definition usize_try_from :: "int \<Rightarrow> nat option" where
  "usize_try_from v = (if 0 \<le> v \<and> v \<le> int usize_MAX then Some (nat v) else None)"

definition row_count :: "('n \<Rightarrow> int option) \<Rightarrow> reconciliation_error failure \<Rightarrow> 'n json \<Rightarrow> nat recon" where
  "row_count as_i64 out_of_range row =
     ok_then (exact_row row [''row_count'']) (\<lambda>object.
     ok_then (exact_nonnegative_i64 as_i64 object ''row_count'') (\<lambda>v.
       ok_or out_of_range (usize_try_from v)))"

definition seed_count_mismatch :: "string \<Rightarrow> reconciliation_error failure" where
  "seed_count_mismatch message = contradiction ''d1.migration_reconciliation_seed_count_mismatch'' message"

definition fts_count_mismatch :: "string \<Rightarrow> reconciliation_error failure" where
  "fts_count_mismatch message = contradiction ''d1.migration_reconciliation_fts_count_mismatch'' message"

definition seed_count_step ::
  "('n \<Rightarrow> int option) \<Rightarrow> 'n batch_scan \<Rightarrow> SeedTableState \<Rightarrow> 'n json list \<Rightarrow> 'n batch_scan recon" where
  "seed_count_step as_i64 s state rows =
     (if length rows \<noteq> 1
      then contradicted ''d1.migration_reconciliation_seed_count_missing''
        ''bounded seed count evidence must contain exactly one count''
      else ok_then (row_count as_i64 (seed_count_mismatch ''bounded seed count exceeded the supported integer range'') (rows ! 0))
        (\<lambda>count.
          if count \<noteq> length (sts_rows state) \<or> map_of (bs_seed_counts s) (sts_table_name state) \<noteq> None
          then Inl (seed_count_mismatch ''bounded seed count did not match the exact expected row set'')
          else Inr (s\<lparr>bs_seed_counts := bmap_insert (sts_table_name state) count (bs_seed_counts s)\<rparr>)))"

definition seed_rows_step ::
  "env \<Rightarrow> 'n batch_scan \<Rightarrow> SeedTableState \<Rightarrow> 'n json list \<Rightarrow> 'n batch_scan recon" where
  "seed_rows_step E s state rows =
     (if sts_version state = V3Fts \<and> map_of (bs_seed_counts s) (sts_table_name state) \<noteq> Some (length rows)
      then Inl (seed_count_mismatch ''seed rows were incomplete or did not match their independently bounded count'')
      else ok_then (map_err seed_contract_error (observed_seed_summary E state rows)) (\<lambda>summary.
        Inr (s\<lparr>bs_seed_tables := bs_seed_tables s @ [summary],
          bs_seed_counts := (if sts_version state = V3Fts
            then filter (\<lambda>(name, _). name \<noteq> sts_table_name state) (bs_seed_counts s) else bs_seed_counts s)\<rparr>)))"

definition fts_count_step ::
  "('n \<Rightarrow> int option) \<Rightarrow> nat \<Rightarrow> nat option \<Rightarrow> 'n json list \<Rightarrow> nat recon" where
  "fts_count_step as_i64 bound slot rows =
     (if length rows \<noteq> 1 then Inl (fts_count_mismatch ''FTS authority count requires exactly one count row'')
      else ok_then (row_count as_i64 (fts_count_mismatch ''FTS authority count is out of range'') (rows ! 0)) (\<lambda>count.
        if count > bound \<or> slot \<noteq> None
        then Inl (fts_count_mismatch ''FTS authority count was duplicated or exceeded its exact bound'')
        else Inr count))"

definition fts_types_step :: "'n batch_scan \<Rightarrow> 'n json list \<Rightarrow> 'n batch_scan recon" where
  "fts_types_step s rows =
     (if length rows > 6 \<or> bs_fts_types s \<noteq> None \<or> bs_type_count s \<noteq> Some (length rows)
      then contradicted ''d1.migration_reconciliation_fts_types_unbounded''
        ''FTS table-class evidence was duplicate or exceeded its exact bound''
      else ok_then (try_map (\<lambda>row. ok_then (exact_row row [''name'', ''type'']) (\<lambda>object.
          ok_then (exact_string object ''name'') (\<lambda>_. map_ok (\<lambda>_. ()) (exact_string object ''type'')))) rows)
        (\<lambda>_. Inr (s\<lparr>bs_fts_types := Some rows, bs_type_count := None\<rparr>)))"

definition fts_triggers_step :: "env \<Rightarrow> 'n batch_scan \<Rightarrow> 'n json list \<Rightarrow> 'n batch_scan recon" where
  "fts_triggers_step E s rows =
     (if length rows > MAX_SCHEMA_OBJECTS \<or> bs_fts_triggers s \<noteq> None \<or> bs_trigger_count s \<noteq> Some (length rows)
      then contradicted ''d1.migration_reconciliation_fts_triggers_unbounded''
        ''FTS trigger-authority evidence was duplicate or exceeded its exact bound''
      else map_ok (\<lambda>triggers. s\<lparr>bs_fts_triggers := Some triggers, bs_trigger_count := None\<rparr>) (parse_schema_rows E rows))"

text \<open>One arm per statement; \<open>manifest_len\<close> is the only thing the source uses of the manifest.\<close>

fun batch_arm ::
  "env \<Rightarrow> ('n \<Rightarrow> int option) \<Rightarrow> nat \<Rightarrow> (string \<times> string) list \<Rightarrow> 'n batch_scan \<Rightarrow> 'n json list \<Rightarrow> BatchStatement \<Rightarrow>
   'n batch_scan recon" where
  "batch_arm E as_i64 manifest_len spellings s rows Ledger =
     (if length rows > manifest_len
      then contradicted ''d1.migration_reconciliation_ledger_unbounded'' ''migration ledger exceeded the exact manifest prefix bound''
      else map_ok (\<lambda>ledger. s\<lparr>bs_ledger := Some ledger\<rparr>) (parse_ledger_rows as_i64 rows))"
| "batch_arm E as_i64 manifest_len spellings s rows Schema =
     (if length rows > MAX_SCHEMA_OBJECTS
      then contradicted ''d1.migration_reconciliation_schema_unbounded'' ''sqlite_master evidence exceeded the declared object bound''
      else map_ok (\<lambda>objects. s\<lparr>bs_schema := Some (map (respell spellings) objects)\<rparr>) (parse_schema_rows E rows))"
| "batch_arm E as_i64 manifest_len spellings s rows (TableXinfo table) =
     (if length rows > MAX_COLUMNS_PER_TABLE
      then contradicted ''d1.migration_reconciliation_xinfo_unbounded'' ''table_xinfo evidence exceeded the declared column bound''
      else map_ok (\<lambda>columns. s\<lparr>bs_tables := bmap_insert table ((table_entry s table)\<lparr>ot_columns := columns\<rparr>) (bs_tables s)\<rparr>)
        (parse_column_rows as_i64 rows))"
| "batch_arm E as_i64 manifest_len spellings s rows (ForeignKeyList table) =
     (if length rows > MAX_FOREIGN_KEYS_PER_TABLE
      then contradicted ''d1.migration_reconciliation_foreign_keys_unbounded''
        ''foreign_key_list evidence exceeded the declared definition bound''
      else map_ok (\<lambda>foreign_keys.
          s\<lparr>bs_tables := bmap_insert table ((table_entry s table)\<lparr>ot_foreign_keys := foreign_keys\<rparr>) (bs_tables s)\<rparr>)
        (parse_foreign_key_rows as_i64 rows))"
| "batch_arm E as_i64 manifest_len spellings s rows (ForeignKeyCheck table) =
     (if rows \<noteq> []
      then contradicted ''d1.migration_reconciliation_foreign_key_violation''
        ''foreign_key_check reported a violation for a declared table''
      else Inr s)"
| "batch_arm E as_i64 manifest_len spellings s rows (SeedCount state) = seed_count_step as_i64 s state rows"
| "batch_arm E as_i64 manifest_len spellings s rows (SeedRowSet state) = seed_rows_step E s state rows"
| "batch_arm E as_i64 manifest_len spellings s rows FtsTableTypeCount =
     map_ok (\<lambda>count. s\<lparr>bs_type_count := Some count\<rparr>) (fts_count_step as_i64 6 (bs_type_count s) rows)"
| "batch_arm E as_i64 manifest_len spellings s rows FtsTriggerCount =
     map_ok (\<lambda>count. s\<lparr>bs_trigger_count := Some count\<rparr>) (fts_count_step as_i64 MAX_SCHEMA_OBJECTS (bs_trigger_count s) rows)"
| "batch_arm E as_i64 manifest_len spellings s rows FtsTableTypes = fts_types_step s rows"
| "batch_arm E as_i64 manifest_len spellings s rows FtsTriggers = fts_triggers_step E s rows"

definition batch_step ::
  "env \<Rightarrow> ('n \<Rightarrow> int option) \<Rightarrow> nat \<Rightarrow> (string \<times> string) list \<Rightarrow> string \<Rightarrow> 'n batch_scan \<Rightarrow> 'n json \<times> BatchStatement \<Rightarrow>
   'n batch_scan recon" where
  "batch_step E as_i64 manifest_len spellings proof_sha256 s pair =
     (case pair of (result_set, statement) \<Rightarrow>
      ok_then (result_rows E as_i64 result_set statement proof_sha256) (\<lambda>rows.
        batch_arm E as_i64 manifest_len spellings s rows statement))"

definition parse_complete_batch ::
  "env \<Rightarrow> ('n \<Rightarrow> int option) \<Rightarrow> 'n json \<Rightarrow> BatchStatement list \<Rightarrow> string \<Rightarrow> nat \<Rightarrow> (string \<times> string) list \<Rightarrow>
   'n CanonicalSnapshot recon" where
  "parse_complete_batch E as_i64 v statements proof_sha256 manifest_len spellings =
     ok_then (ok_or (contradiction ''d1.migration_reconciliation_batch_malformed'' ''provider batch result was not a result-set array'')
       (as_array v)) (\<lambda>result_sets.
     if length result_sets \<noteq> length statements
     then contradicted ''d1.migration_reconciliation_batch_partial''
       ''provider batch did not contain every fixed reconciliation result set exactly once''
     else ok_then (try_fold (batch_step E as_i64 manifest_len spellings proof_sha256) batch_start (zip result_sets statements)) (\<lambda>s.
       if bs_seed_counts s \<noteq> []
       then Inl (seed_count_mismatch ''bounded seed count was not paired with its exact row set'')
       else if bs_type_count s \<noteq> None \<or> bs_trigger_count s \<noteq> None
       then Inl (fts_count_mismatch ''FTS authority count was not paired with its complete bounded rows'')
       else ok_then (ok_or (contradiction ''d1.migration_reconciliation_ledger_missing''
           ''complete batch omitted migration ledger evidence'') (bs_ledger s)) (\<lambda>ledger.
         ok_then (ok_or (contradiction ''d1.migration_reconciliation_schema_missing''
           ''complete batch omitted sqlite_master evidence'') (bs_schema s)) (\<lambda>objects.
         Inr \<lparr>snap_ledger = ledger, snap_schema_objects = objects, snap_tables = map snd (bs_tables s),
           snap_seed_tables = bs_seed_tables s, snap_fts_table_types = bs_fts_types s, snap_fts_triggers = bs_fts_triggers s\<rparr>))))"

section \<open>Comparison with the reviewed state\<close>

definition expected_object :: "D1MigrationSchemaObjectExpectation \<Rightarrow> ObservedSchemaObject" where
  "expected_object object = \<lparr>ob_type = obj_type object, ob_name = obj_name object, ob_table_name = obj_table_name object,
     ob_sql_sha256 = obj_sql_sha256 object\<rparr>"

definition expected_table :: "D1MigrationTableExpectation \<Rightarrow> ObservedTable" where
  "expected_table table = \<lparr>ot_name = tab_name table, ot_columns = tab_columns table, ot_foreign_keys = tab_foreign_keys table\<rparr>"

definition compare_table :: "(string \<times> ObservedTable) list \<Rightarrow> ObservedTable \<Rightarrow> unit recon" where
  "compare_table expected_tables table =
     (case map_of expected_tables (ot_name table) of
        Some expected \<Rightarrow>
          (if expected = table then Inr ()
           else contradicted ''d1.migration_reconciliation_table_proof_mismatch''
             ''stable table_xinfo or foreign_key_list evidence did not match the reviewed state'')
      | None \<Rightarrow>
          (if ot_columns table = [] \<and> ot_foreign_keys table = [] then Inr ()
           else contradicted ''d1.migration_reconciliation_unexpected_table_state''
             ''a table outside the selected reviewed state returned structural evidence''))"

definition verify_expected_state :: "state_expectation \<Rightarrow> nat \<Rightarrow> 'n CanonicalSnapshot \<Rightarrow> unit recon" where
  "verify_expected_state expected proof_table_count snapshot =
     (let expected_objects = map expected_object (schema_objects expected);
          expected_tables = fold (\<lambda>table. bmap_insert (tab_name table) (expected_table table)) (tables expected) []
      in if snap_schema_objects snapshot \<noteq> expected_objects
         then contradicted (if snap_schema_objects snapshot = [] \<and> expected_objects \<noteq> []
             then ''d1.migration_reconciliation_schema_empty'' else ''d1.migration_reconciliation_schema_mismatch'')
           ''stable sqlite_master object identity, type, parent, or exact SQL digest did not match the reviewed state''
         else ok_then (try_map (compare_table expected_tables) (snap_tables snapshot)) (\<lambda>_.
           if length (snap_tables snapshot) \<noteq> proof_table_count \<or>
              list_ex (\<lambda>name. \<not> list_ex (\<lambda>table. ot_name table = name) (snap_tables snapshot)) (map fst expected_tables)
           then contradicted ''d1.migration_reconciliation_table_proof_missing''
             ''stable batch omitted one or more declared table proof result sets''
           else if snap_seed_tables snapshot \<noteq> seed_tables expected
           then contradicted ''d1.migration_reconciliation_seed_rows_mismatch''
             ''stable seed-row storage classes, values, row count, or complete row-set digest did not match the canonical manifest-derived expectation''
           else Inr ()))"

definition trigger_objects :: "state_expectation \<Rightarrow> ObservedSchemaObject list" where
  "trigger_objects state = map expected_object (filter (\<lambda>object. obj_type object = ''trigger'') (schema_objects state))"

definition expected_table_types :: "ExternalFts5Shape \<Rightarrow> bool \<Rightarrow> bool \<Rightarrow> (string \<times> string) list" where
  "expected_table_types fts source_exists fts_exists =
     fold (\<lambda>(name, kind). bmap_insert name kind)
       ((if source_exists then [(fts_content fts, ''table'')] else []) @
        (if fts_exists then (fts_table fts, ''virtual'') #
           map (\<lambda>suffix. (fts_table fts @ suffix, ''shadow'')) [''_config'', ''_data'', ''_docsize'', ''_idx''] else [])) []"

definition table_type_step ::
  "(string option \<times> (string \<times> string) list) \<Rightarrow> 'n json \<Rightarrow> (string option \<times> (string \<times> string) list) recon" where
  "table_type_step state row =
     (case state of (previous, observed) \<Rightarrow>
      ok_then (exact_row row [''name'', ''type'']) (\<lambda>object.
      ok_then (exact_string object ''name'') (\<lambda>name.
      ok_then (exact_string object ''type'') (\<lambda>kind.
        if at_least previous name \<or> map_of observed name \<noteq> None
        then contradicted [] [] else Inr (Some name, bmap_insert name kind observed)))))"

definition fts5_table_types_match :: "ExternalFts5Shape \<Rightarrow> bool \<Rightarrow> bool \<Rightarrow> 'n json list \<Rightarrow> bool" where
  "fts5_table_types_match fts source_exists fts_exists rows \<longleftrightarrow>
     \<not> (fts_exists \<and> \<not> source_exists) \<and>
     (let expected = expected_table_types fts source_exists fts_exists
      in length rows = length expected \<and>
         (case try_fold table_type_step (None, []) rows of Inl _ \<Rightarrow> False | Inr (_, observed) \<Rightarrow> observed = expected))"

definition fts5_trigger_authority_matches :: "env \<Rightarrow> 'n json list \<Rightarrow> state_expectation \<Rightarrow> bool" where
  "fts5_trigger_authority_matches E rows state \<longleftrightarrow> length rows \<le> MAX_SCHEMA_OBJECTS \<and>
     (case parse_schema_rows E rows of Inl _ \<Rightarrow> False | Inr observed \<Rightarrow> observed = trigger_objects state)"

definition has_own_table :: "state_expectation \<Rightarrow> string \<Rightarrow> bool" where
  "has_own_table state name \<longleftrightarrow>
     list_ex (\<lambda>object. obj_type object = ''table'' \<and> obj_name object = name \<and> obj_table_name object = name) (schema_objects state)"

definition verify_fts_snapshot :: "ExternalFts5Shape \<Rightarrow> state_expectation \<Rightarrow> 'n CanonicalSnapshot \<Rightarrow> unit recon" where
  "verify_fts_snapshot fts expected snapshot =
     (if (case snap_fts_table_types snapshot of None \<Rightarrow> False
          | Some rows \<Rightarrow> fts5_table_types_match fts (has_own_table expected (fts_content fts))
              (has_own_table expected (fts_table fts)) rows) \<and>
         snap_fts_triggers snapshot = Some (trigger_objects expected)
      then Inr ()
      else contradicted ''d1.migration_reconciliation_fts_authority_mismatch''
        ''FTS table classes or complete database trigger authority did not match the selected manifest prefix'')"

end
