(* ===== verification/D1_Fts_Sound.thy ===== *)
theory D1_Fts_Sound
  imports D1_Fts
begin

text \<open>
  The FTS5 functions never slice out of range; the statement sources are the bytes of the migration cut
  exactly at its statements; and an accepted FTS expectation binds the digest of every schema object to
  the bytes of its own statement or to a definition the engine owns.
\<close>

text \<open>A loop invariant for \<^const>\<open>try_fold\<close> over the position in the list.\<close>

lemma try_fold_indexed:
  assumes "try_fold f s xs = Inr t" and "P 0 s"
    and "\<And>i s s'. i < length xs \<Longrightarrow> P i s \<Longrightarrow> f s (xs ! i) = Inr s' \<Longrightarrow> P (Suc i) s'"
  shows "P (length xs) t"
proof -
  have "P (n + length ys) t" if "try_fold f s ys = Inr t" "P n s" "ys = drop n xs" for ys n s
    using that
  proof (induction ys arbitrary: n s)
    case (Cons y ys)
    from Cons.prems(3) have n: "n < length xs" "xs ! n = y" "ys = drop (Suc n) xs"
      by (metis drop_eq_Nil2 leI list.discI, metis hd_drop_conv_nth drop_eq_Nil2 leI list.discI list.sel(1),
          metis drop_Suc list.sel(3) tl_drop)
    from Cons.prems(1) obtain s' where "f s y = Inr s'" "try_fold f s' ys = Inr t" by (auto split: sum.splits)
    with Cons.IH [of s' "Suc n"] assms(3) [of n s s'] Cons.prems(2) n show ?case by simp
  qed simp
  from this [OF assms(1,2)] show ?thesis by simp
qed

section \<open>No slice is out of range\<close>

lemma balanced_end_open:
  assumes "list_get tokens start = Some (Symbol (CHR ''(''))" and "balanced_parenthesized_end tokens start = Some after"
  shows "start + 2 \<le> after"
proof -
  from assms(1) have "drop start tokens = Symbol (CHR ''('') # drop (Suc start) tokens"
    by (auto simp: slice_simps Cons_nth_drop_Suc [symmetric])
  with assms obtain depth where "parenthesized_loop depth (Suc start) (drop (Suc start) tokens) = Some after"
    by (auto simp: balanced_parenthesized_end_def split: if_splits option.splits)
  from parenthesized_loop_bounds [OF this] show ?thesis by simp
qed

lemma classify_external_fts5_defined: "defined (classify_external_fts5 tokens)"
proof (cases "list_get tokens 6 = Some (Symbol (CHR ''('')) \<and> balanced_parenthesized_end tokens 6 = Some (length tokens)")
  case True
  then have "8 \<le> length tokens" using balanced_end_open [of tokens 6 "length tokens"] by simp
  then show ?thesis
    unfolding classify_external_fts5_def
    by (intro defined_intros defined_slice defined_usize_sub) (auto simp: slice_simps)
next
  case False
  then show ?thesis by (auto simp: classify_external_fts5_def)
qed

lemma after_definition_bound: "after_definition tokens = Some after \<Longrightarrow> after \<le> length tokens"
  by (auto simp: after_definition_def bind_eq_Some_conv dest: balanced_end_bounds)

lemma schema_create_table_is_strict_defined: "defined (schema_create_table_is_strict tokens)"
  unfolding schema_create_table_is_strict_def
  by (intro defined_intros defined_slice) (auto dest: after_definition_bound)

lemma schema_create_table_is_without_rowid_defined: "defined (schema_create_table_is_without_rowid tokens)"
  unfolding schema_create_table_is_without_rowid_def
  by (intro defined_intros defined_slice) (auto dest: after_definition_bound)

lemma no_panic_or_panic: "defined m \<Longrightarrow> no_panic (or_panic m)"
  by (auto simp: or_panic_def defined_iff)

lemma no_panic_content_field: "no_panic (content_field columns_found part)"
  unfolding content_field_def by (intro no_panic_intros)

lemma content_steps_no_panic:
  assumes "end_index \<le> length tokens" and "start \<le> index"
  shows "no_panic (try_fold (content_step tokens end_index) (start, depth, columns_found) [index..<end_index])"
  using assms(2)
proof (induction "end_index - index" arbitrary: index start depth columns_found)
  case (Suc n)
  then have indices: "[index..<end_index] = index # [Suc index..<end_index]" by (simp add: upt_conv_Cons)
  have step: "no_panic (content_step tokens end_index (start, depth, columns_found) index)"
    unfolding content_step_def Let_def prod.case using Suc.prems Suc.hyps(2) assms(1)
    by (intro no_panic_intros no_panic_or_panic no_panic_content_field defined_slice) (auto simp: list_get_def)
  show ?case
  proof (cases "content_step tokens end_index (start, depth, columns_found) index")
    case (Inl e)
    with step indices show ?thesis by simp
  next
    case (Inr s)
    then obtain start' depth' found' where s: "s = (start', depth', found')" and "start' \<le> Suc index"
      using Suc.prems by (cases s) (auto simp: content_step_def Let_def result_simps split: if_splits)
    with Suc.hyps(1) [of "Suc index" start' depth' found'] Suc.hyps(2) Inr indices show ?thesis by simp
  qed
qed (simp add: no_panic_def)

lemma fts5_content_declaration_matches_defined: "defined (fts5_content_declaration_matches tokens fts)"
proof -
  have scan: "defined (case try_fold (content_step tokens e) (4, 0, []) [4..<e] of
      Inl (Panic _) \<Rightarrow> None | Inl (Err _) \<Rightarrow> Some False | Inr (_, _, found) \<Rightarrow> Some (P found))"
    if "e \<le> length tokens" for e P
    using content_steps_no_panic [OF that, of 4 4 0 "[]"]
    by (auto simp: no_panic_def defined_def split: sum.splits failure.splits)
  show ?thesis
    unfolding fts5_content_declaration_matches_def
    by (intro defined_intros defined_slice schema_create_table_is_without_rowid_defined scan)
      (auto dest: balanced_end_bounds)
qed

section \<open>Statement sources\<close>

definition cut :: "bytes list \<Rightarrow> bytes" where
  "cut raws = concat (map (\<lambda>raw. raw @ '';'') raws)"

definition statement_source :: "bytes \<Rightarrow> SqlToken list \<Rightarrow> bool" where
  "statement_source raw statement \<longleftrightarrow> trim raw \<noteq> [] \<and> tokenize_sql_statements (raw @ '';'') = Some [statement]"

lemma at_terminator_cases:
  assumes "at_terminator expected pending sources = Some (pending', sources')"
  shows "pending' = pending @ '';'' \<and> sources' = sources \<or>
    pending' = [] \<and> sources' = sources @ [trim pending] \<and>
    (\<exists>statement. statement_source pending statement \<and> list_get expected (length sources) = Some statement)"
  using assms
  by (auto simp: at_terminator_def Let_def statement_source_def list_get_def length_Suc_conv
      split: if_splits option.splits)

definition sources_cut :: "SqlToken list list \<Rightarrow> bytes \<Rightarrow> string list \<Rightarrow> string list \<Rightarrow> bool" where
  "sources_cut expected text sources out \<longleftrightarrow> (\<exists>raws rest. text = cut raws @ rest \<and> trim rest = [] \<and>
     out = sources @ map trim raws \<and> list_all2 statement_source raws (drop (length sources) expected))"

lemma sources_cut_Cons:
  assumes "sources_cut expected bs (sources @ [trim raw]) out" and "statement_source raw statement"
    and "list_get expected (length sources) = Some statement"
  shows "sources_cut expected (raw @ CHR '';'' # bs) sources out"
proof -
  from assms(1) obtain raws rest where "bs = cut raws @ rest" "trim rest = []" "out = sources @ trim raw # map trim raws"
    "list_all2 statement_source raws (drop (Suc (length sources)) expected)"
    by (auto simp: sources_cut_def)
  moreover from assms(3) have "drop (length sources) expected = statement # drop (Suc (length sources)) expected"
    by (auto simp: slice_simps Cons_nth_drop_Suc [symmetric])
  ultimately show ?thesis using assms(2)
    unfolding sources_cut_def by (intro exI [of _ "raw # raws"] exI [of _ rest]) (simp add: cut_def)
qed

lemma strict_sources_loop_sound:
  "strict_sources_loop expected quote pending terminators sources bs = Some out \<Longrightarrow>
    sources_cut expected (pending @ bs) sources out"
proof (induction bs arbitrary: quote pending terminators sources rule: length_induct)
  case (1 bs)
  note IH = "1.IH" [rule_format]
  show ?case
  proof (cases bs)
    case Nil
    with "1.prems" have "pending @ bs = cut [] @ pending \<and> trim pending = [] \<and> out = sources @ map trim [] \<and>
        list_all2 statement_source [] (drop (length sources) expected)"
      by (auto simp: cut_def split: if_splits)
    then show ?thesis unfolding sources_cut_def by blast
  next
    case (Cons b rest)
    consider (one) q where "strict_sources_loop expected q (pending @ [b]) terminators sources rest = Some out"
      | (two) q c more where "rest = c # more"
          "strict_sources_loop expected q (pending @ [b, c]) terminators sources more = Some out"
      | (terminator) pending' sources' n where "b = CHR '';''"
          "at_terminator expected pending sources = Some (pending', sources')"
          "strict_sources_loop expected Normal pending' n sources' rest = Some out"
      using "1.prems" unfolding Cons strict_sources_loop.simps(2) Let_def
      by (cases rest) (auto simp: list_get_def split: if_splits option.splits)
    then show ?thesis
    proof cases
      case one
      from IH [OF _ this] Cons show ?thesis by simp
    next
      case two
      from IH [OF _ two(2)] Cons two(1) show ?thesis by simp
    next
      case terminator
      from at_terminator_cases [OF terminator(2)] show ?thesis
      proof (elim disjE conjE exE)
        assume "pending' = pending @ '';''" and "sources' = sources"
        with IH [OF _ terminator(3)] Cons terminator(1) show ?thesis by simp
      next
        fix statement
        assume "pending' = []" and s: "sources' = sources @ [trim pending]" "statement_source pending statement"
          "list_get expected (length sources) = Some statement"
        with IH [OF _ terminator(3)] Cons have "sources_cut expected rest (sources @ [trim pending]) out" by simp
        from sources_cut_Cons [OF this s(2,3)] Cons terminator(1) show ?thesis by simp
      qed
    qed
  qed
qed

text \<open>C15: The sources of a migration are its bytes cut exactly at its statements: the file is
  the statements, each closed by a semicolon, and a blank rest; every source is one statement without
  the surrounding blanks, and each piece alone tokenizes to the statement of the same position in the
  file, so that no byte of the file belongs to no statement or to another one.
\<close>

theorem strict_sources_exact:
  assumes "strict_manifest_statement_sources sql = Some sources"
  shows "\<exists>statements raws rest. tokenize_sql_statements sql = Some statements \<and> sql = cut raws @ rest \<and> trim rest = [] \<and>
    sources = map trim raws \<and> list_all2 statement_source raws statements"
proof -
  from assms obtain statements where s: "tokenize_sql_statements sql = Some statements"
    and loop: "strict_sources_loop statements Normal [] 0 [] sql = Some sources"
    by (auto simp: strict_manifest_statement_sources_def split: if_splits option.splits)
  from strict_sources_loop_sound [OF loop] s show ?thesis by (auto simp: sources_cut_def)
qed

section \<open>Source binding\<close>

definition source_of :: "D1MigrationManifestEntry \<Rightarrow> string \<Rightarrow> SqlToken list \<Rightarrow> bool" where
  "source_of migration source statement \<longleftrightarrow>
     (\<exists>sources. strict_manifest_statement_sources (entry_sql migration) = Some sources \<and> source \<in> set sources) \<and>
     (\<exists>more. tokenize_sql_statements source = Some (statement # more))"

text \<open>An object whose digest is that of the bytes of its own statement in one of the first \<open>k\<close> migrations.\<close>

definition source_bound :: "env \<Rightarrow> D1MigrationManifestEntry list \<Rightarrow> nat \<Rightarrow> (string \<times> string) \<times> string \<Rightarrow> bool" where
  "source_bound E manifest k entry \<longleftrightarrow> (\<exists>j < k. j < length manifest \<and> (\<exists>source statement.
     source_of (manifest ! j) source statement \<and> snd entry = sha256_hex E source \<and>
     source_object source statement = Inr (Some (fst entry))))"

text \<open>A shadow table of a virtual table that one of the first \<open>k\<close> migrations creates.\<close>

definition engine_owned :: "env \<Rightarrow> D1MigrationManifestEntry list \<Rightarrow> nat \<Rightarrow> (string \<times> string) \<times> string \<Rightarrow> bool" where
  "engine_owned E manifest k entry \<longleftrightarrow> (\<exists>j < k. j < length manifest \<and> (\<exists>source statement shape.
     source_of (manifest ! j) source statement \<and> classify_external_fts5 statement = Some (Some shape) \<and>
     entry \<in> set (fts5_shadow_schema_digests E shape)))"

lemma source_bound_mono: "source_bound E manifest k entry \<Longrightarrow> k \<le> m \<Longrightarrow> source_bound E manifest m entry"
  unfolding source_bound_def by (meson less_le_trans)

lemma engine_owned_mono: "engine_owned E manifest k entry \<Longrightarrow> k \<le> m \<Longrightarrow> engine_owned E manifest m entry"
  unfolding engine_owned_def by (meson less_le_trans)

lemma set_bmap_insert: "set (bmap_insert k v m) \<subseteq> insert (k, v) (set m)"
  by (induction k v m rule: bmap_insert.induct) auto

lemma or_none_eq_Inr [result_simps]: "or_none m = Inr x \<longleftrightarrow> m = Some x"
  by (simp add: or_none_def result_simps)

lemma or_panic_eq_Inr [result_simps]: "or_panic m = Inr x \<longleftrightarrow> m = Some x"
  by (auto simp: or_panic_def split: option.splits)

lemma source_digest_step_bound:
  assumes "source_digest_step E (current, names) source = Inr (current', names')"
    and "\<forall>entry \<in> set current. source_bound E manifest k entry" and "i < k" "i < length manifest"
    and "strict_manifest_statement_sources (entry_sql (manifest ! i)) = Some sources" "source \<in> set sources"
  shows "\<forall>entry \<in> set current'. source_bound E manifest k entry"
proof -
  from assms(1) obtain statement object where tokens: "tokenize_sql_statements source = Some [statement]"
    and object: "source_object source statement = Inr object"
    and current': "current' = (case object of None \<Rightarrow> current | Some key \<Rightarrow> bmap_insert key (sha256_hex E source) current)"
    by (auto simp: source_digest_step_def result_simps length_Suc_conv split: if_splits option.splits prod.splits)
  show ?thesis
  proof (cases object)
    case (Some key)
    from tokens assms(5,6) have "source_of (manifest ! i) source statement" by (auto simp: source_of_def)
    with object Some assms(3,4) have "source_bound E manifest k (key, sha256_hex E source)"
      by (auto simp: source_bound_def)
    with assms(2) current' Some set_bmap_insert [of key "sha256_hex E source" current] show ?thesis by auto
  qed (use assms(2) current' in simp)
qed

lemma manifest_digests_bound:
  assumes "strict_manifest_schema_digests E manifest = Inr digest_list"
  shows "length digest_list = Suc (length manifest) \<and>
    (\<forall>k < length digest_list. \<forall>entry \<in> set (digest_list ! k). source_bound E manifest k entry)"
proof -
  let ?inv = "\<lambda>n (current, names :: string list, ds). length ds = Suc n \<and>
    (\<forall>entry \<in> set current. source_bound E manifest n entry) \<and>
    (\<forall>k < length ds. \<forall>entry \<in> set (ds ! k). source_bound E manifest k entry)"
  from assms obtain current names where
    run: "try_fold (\<lambda>(current, names, ds) migration.
          ok_then (or_none (strict_manifest_statement_sources (entry_sql migration))) (\<lambda>sources.
            map_ok (\<lambda>(current, names). (current, names, ds @ [current]))
              (try_fold (source_digest_step E) (current, names) sources)))
        ([], [], [[]]) manifest = Inr (current, names, digest_list)"
    by (auto simp: strict_manifest_schema_digests_def result_simps)
  have "?inv (length manifest) (current, names, digest_list)"
  proof (rule try_fold_indexed [OF run], goal_cases)
    case 1
    show ?case by simp
  next
    case (2 i s s')
    obtain cur nam ds where s: "s = (cur, nam, ds)" by (cases s)
    from 2(3) s obtain sources cur' nam' where
      sources: "strict_manifest_statement_sources (entry_sql (manifest ! i)) = Some sources"
      and fold: "try_fold (source_digest_step E) (cur, nam) sources = Inr (cur', nam')"
      and s': "s' = (cur', nam', ds @ [cur'])"
      by (auto simp: result_simps)
    have "\<forall>entry \<in> set (fst (cur', nam')). source_bound E manifest (Suc i) entry"
      by (rule try_fold_invariant [OF fold, where P = "\<lambda>st. \<forall>entry \<in> set (fst st). source_bound E manifest (Suc i) entry"])
        (use 2(1,2) s sources in \<open>auto intro: source_bound_mono source_digest_step_bound [rule_format]\<close>)
    with 2(2) s s' show ?case by (auto simp: nth_append less_Suc_eq)
  qed
  then show ?thesis by simp
qed

lemma fts_source_step_owned:
  assumes "fts_source_step E manifest_names (shadows, seen) source = Inr (shadows', seen')"
    and "\<forall>entry \<in> set shadows. engine_owned E manifest k entry" and "i < k" "i < length manifest"
    and "strict_manifest_statement_sources (entry_sql (manifest ! i)) = Some sources" "source \<in> set sources"
  shows "\<forall>entry \<in> set shadows'. engine_owned E manifest k entry"
proof -
  from assms(1) obtain statement more shape where parsed: "tokenize_sql_statements source = Some (statement # more)"
    and shape: "classify_external_fts5 statement = Some shape"
    and next_shadows: "case shape of None \<Rightarrow> shadows' = shadows
      | Some shape \<Rightarrow> try_fold (shadow_step manifest_names) shadows (fts5_shadow_schema_digests E shape) = Inr shadows'"
    by (auto simp: fts_source_step_def result_simps list_get_def neq_Nil_conv split: if_splits option.splits)
  show ?thesis
  proof (cases shape)
    case (Some fts)
    from parsed assms(5,6) have src: "source_of (manifest ! i) source statement" by (auto simp: source_of_def)
    have owned: "engine_owned E manifest k entry" if "entry \<in> set (fts5_shadow_schema_digests E fts)" for entry
      using src shape Some that assms(3,4) by (auto simp: engine_owned_def)
    from next_shadows Some
    have fold: "try_fold (shadow_step manifest_names) shadows (fts5_shadow_schema_digests E fts) = Inr shadows'" by simp
    show ?thesis
      by (rule try_fold_invariant [OF fold, where P = "\<lambda>st. \<forall>entry \<in> set st. engine_owned E manifest k entry"])
        (use assms(2) owned in \<open>auto simp: shadow_step_def split: if_splits dest!: set_bmap_insert [THEN subsetD]\<close>)
  qed (use assms(2) next_shadows in simp)
qed

lemma add_shadows_entries:
  assumes "add_shadows shadows digests = Inr digests'"
  shows "set digests' \<subseteq> set shadows \<union> set digests"
  by (rule try_fold_invariant [OF assms [unfolded add_shadows_def], where P = "\<lambda>st. set st \<subseteq> set shadows \<union> set digests"])
    (auto split: if_splits dest!: set_bmap_insert [THEN subsetD])

lemma fts_migration_step_bound:
  assumes "fts_migration_step E manifest_names (shadows, seen, ds) (i, migration) = Inr (shadows', seen', ds')"
    and "i < length manifest" "migration = manifest ! i"
    and "\<forall>entry \<in> set shadows. engine_owned E manifest i entry"
    and "\<forall>k < length ds. \<forall>entry \<in> set (ds ! k). source_bound E manifest k entry \<or> engine_owned E manifest k entry"
  shows "length ds' = length ds \<and> (\<forall>entry \<in> set shadows'. engine_owned E manifest (Suc i) entry) \<and>
    (\<forall>k < length ds'. \<forall>entry \<in> set (ds' ! k). source_bound E manifest k entry \<or> engine_owned E manifest k entry)"
proof -
  from assms(1,3) obtain sources where
    sources: "strict_manifest_statement_sources (entry_sql (manifest ! i)) = Some sources"
    and fold: "try_fold (fts_source_step E manifest_names) (shadows, seen) sources = Inr (shadows', seen')"
    and ds': "ds' = ds \<and> shadows' = [] \<or> (\<exists>digests. i + 1 < length ds \<and> add_shadows shadows' (ds ! (i + 1)) = Inr digests \<and>
      ds' = ds[i + 1 := digests])"
    by (auto simp: fts_migration_step_def result_simps slice_simps split: if_splits)
  have "\<forall>entry \<in> set (fst (shadows', seen')). engine_owned E manifest (Suc i) entry"
    by (rule try_fold_invariant [OF fold, where P = "\<lambda>st. \<forall>entry \<in> set (fst st). engine_owned E manifest (Suc i) entry"])
      (use assms(2,4) sources in \<open>auto intro: engine_owned_mono fts_source_step_owned [rule_format]\<close>)
  then have owned: "\<forall>entry \<in> set shadows'. engine_owned E manifest (Suc i) entry" by simp
  from ds' show ?thesis
  proof (elim disjE conjE exE)
    fix digests
    assume "add_shadows shadows' (ds ! (i + 1)) = Inr digests" and d: "ds' = ds[i + 1 := digests]" "i + 1 < length ds"
    from add_shadows_entries [OF this(1)] owned assms(5) d(2)
    have "\<forall>entry \<in> set digests. source_bound E manifest (Suc i) entry \<or> engine_owned E manifest (Suc i) entry" by auto
    with d owned assms(5) show ?thesis by (auto simp: nth_list_update)
  qed (use owned assms(5) in auto)
qed

lemma fts_digests_bound:
  assumes "strict_fts_schema_digests E manifest = Inr digest_list"
  shows "length digest_list = Suc (length manifest) \<and>
    (\<forall>k < length digest_list. \<forall>entry \<in> set (digest_list ! k). source_bound E manifest k entry \<or> engine_owned E manifest k entry)"
proof -
  let ?inv = "\<lambda>n (shadows, seen :: bool, ds). length ds = Suc (length manifest) \<and>
    (\<forall>entry \<in> set shadows. engine_owned E manifest n entry) \<and>
    (\<forall>k < length ds. \<forall>entry \<in> set (ds ! k). source_bound E manifest k entry \<or> engine_owned E manifest k entry)"
  from assms obtain ds names shadows seen where manifest_digests: "strict_manifest_schema_digests E manifest = Inr ds"
    and run: "try_fold (fts_migration_step E names) ([], False, ds) (enumerate 0 manifest) = Inr (shadows, seen, digest_list)"
    by (auto simp: strict_fts_schema_digests_def Let_def result_simps split: if_splits)
  have "?inv (length (enumerate 0 manifest)) (shadows, seen, digest_list)"
  proof (rule try_fold_indexed [OF run], goal_cases)
    case 1
    show ?case using manifest_digests_bound [OF manifest_digests] by simp
  next
    case (2 i s s')
    obtain sh se d sh' se' d' where s: "s = (sh, se, d)" "s' = (sh', se', d')" by (cases s, cases s')
    with 2 have "fts_migration_step E names (sh, se, d) (i, manifest ! i) = Inr (sh', se', d')" "i < length manifest"
      by (simp_all add: nth_enumerate_eq)
    from fts_migration_step_bound [OF this refl] 2(2) s show ?case by auto
  qed
  then show ?thesis by simp
qed

lemma bmap_fold_entries:
  assumes "bmap_wf m"
  shows "bmap_wf (fold (\<lambda>(k, v). bmap_insert k v) es m) \<and>
    fst ` set (fold (\<lambda>(k, v). bmap_insert k v) es m) = fst ` set es \<union> fst ` set m"
  using assms
proof (induction es arbitrary: m)
  case (Cons e es)
  obtain k v where "e = (k, v)" by (cases e)
  with Cons.IH [of "bmap_insert k v m"] Cons.prems show ?case by simp
qed simp

lemma map_of_bmap_fold_distinct:
  assumes "bmap_wf m" and "distinct (map fst es)"
  shows "map_of (fold (\<lambda>(k, v). bmap_insert k v) es m) k = (case map_of es k of None \<Rightarrow> map_of m k | Some v \<Rightarrow> Some v)"
  using assms
proof (induction es arbitrary: m)
  case (Cons e es)
  obtain a b where e: "e = (a, b)" by (cases e)
  with Cons.prems have "map_of es a = None" by (simp add: map_of_eq_None_iff)
  with Cons.IH [of "bmap_insert a b m"] Cons.prems e show ?case
    by (simp add: map_of_bmap_insert split: option.splits)
qed simp

lemma supplied_digests_lookup:
  assumes "length (supplied_digests objects) = length objects" and "object \<in> set objects"
  shows "((obj_type object, obj_name object), obj_sql_sha256 object) \<in> set (supplied_digests objects)"
proof -
  define es where "es = map (\<lambda>object. ((obj_type object, obj_name object), obj_sql_sha256 object)) objects"
  have len: "length es = length objects" by (simp add: es_def)
  have supplied: "supplied_digests objects = fold (\<lambda>(k, v). bmap_insert k v) es []"
    by (simp add: supplied_digests_def es_def)
  have wf: "bmap_wf (supplied_digests objects)" and keys: "fst ` set (supplied_digests objects) = fst ` set es"
    using bmap_fold_entries [of "[]" es] by (simp_all add: supplied)
  have "card (set (map fst es)) = length (map fst es)"
    using distinct_card [OF bmap_wf_distinct [OF wf]] keys assms(1) len by simp
  then have distinct: "distinct (map fst es)" by (rule card_distinct)
  have "((obj_type object, obj_name object), obj_sql_sha256 object) \<in> set es" using assms(2) by (auto simp: es_def)
  with distinct have "map_of es (obj_type object, obj_name object) = Some (obj_sql_sha256 object)" by simp
  with map_of_bmap_fold_distinct [OF bmap_wf_Nil distinct] show ?thesis
    unfolding supplied by (intro map_of_SomeD) simp
qed

text \<open>C16: Under the FTS5 assertion no digest of an expected schema object is the caller's
  choice: in every accepted expectation the digest of an object of prefix \<open>k\<close> is that of the bytes of
  the statement that creates exactly this object in one of the first \<open>k\<close> migrations, or that of a shadow
  table definition that the engine owns for a virtual table created there.
\<close>

theorem fts_states_source_bound:
  assumes "fts_expected_schema_is_source_bound E manifest states = Some True"
  shows "length states = length manifest + 1 \<and> (\<forall>k < length states. manifest_prefix_length (states ! k) = k \<and>
    (\<forall>object \<in> set (schema_objects (states ! k)).
      source_bound E manifest k ((obj_type object, obj_name object), obj_sql_sha256 object) \<or>
      engine_owned E manifest k ((obj_type object, obj_name object), obj_sql_sha256 object)))"
proof -
  from assms obtain digest_list where digests: "strict_fts_schema_digests E manifest = Inr digest_list"
    and len: "length states = length digest_list"
    and all: "list_all (\<lambda>(index, state, expected). manifest_prefix_length state = index \<and>
        length (supplied_digests (schema_objects state)) = length (schema_objects state) \<and>
        supplied_digests (schema_objects state) = expected) (enumerate 0 (zip states digest_list))"
    by (auto simp: fts_expected_schema_is_source_bound_def split: sum.splits failure.splits)
  from all len have each: "manifest_prefix_length (states ! k) = k \<and>
      length (supplied_digests (schema_objects (states ! k))) = length (schema_objects (states ! k)) \<and>
      supplied_digests (schema_objects (states ! k)) = digest_list ! k" if "k < length states" for k
    using that by (auto simp: list_all_length nth_enumerate_eq)
  have "\<forall>object \<in> set (schema_objects (states ! k)).
      ((obj_type object, obj_name object), obj_sql_sha256 object) \<in> set (digest_list ! k)" if "k < length states" for k
    using each [OF that] supplied_digests_lookup by metis
  with fts_digests_bound [OF digests] len each show ?thesis by simp
qed

end
