(* ===== verification/D1_Classification.thy ===== *)
theory D1_Classification
  imports D1_Derivation D1_Fts_Sound
begin

text \<open>
  The classification loop: each statement contributes exactly the effects its classifier states, under the
  first spelling of its table, and a seed statement follows the creation of its table.
\<close>

definition same_table :: "bool \<Rightarrow> string \<Rightarrow> string \<Rightarrow> bool" where
  "same_table allow_seed_rows a b \<longleftrightarrow> identity_key allow_seed_rows a = identity_key allow_seed_rows b"

text \<open>How a statement is accounted for: one rule per kind of statement the assertions can prove.\<close>

inductive accounts :: "SeedAssertionVersion option \<Rightarrow> SqlToken list \<Rightarrow> ClassifiedEffect list \<Rightarrow> bool"
  for version :: "SeedAssertionVersion option" and tokens :: "SqlToken list" where
  created: "classify_schema_create tokens True = Some (Some (object, vals)) \<Longrightarrow>
    same_table (version \<noteq> None) name (table_name object) \<Longrightarrow> accounts version tokens [Create (object\<lparr>table_name := name\<rparr>)]"
| virtual: "classify_schema_create tokens True = Some None \<Longrightarrow> classify_external_fts5 tokens = Some (Some shape) \<Longrightarrow>
    version = Some V3Fts \<Longrightarrow> accounts version tokens (fts_created shape)"
| added: "classify_schema_create tokens True = Some None \<Longrightarrow> classify_external_fts5 tokens = Some None \<Longrightarrow>
    classify_additive_statement tokens = Inr (Some (AddColumn effect)) \<Longrightarrow>
    same_table (version \<noteq> None) name (eff_table_name effect) \<Longrightarrow>
    accounts version tokens [AddsColumn (effect\<lparr>eff_table_name := name\<rparr>)]"
| pragma: "classify_schema_create tokens True = Some None \<Longrightarrow> classify_external_fts5 tokens = Some None \<Longrightarrow>
    classify_additive_statement tokens = Inr (Some ForeignKeysOn) \<Longrightarrow> accounts version tokens [SetsForeignKeysOn]"
| seeded: "classify_schema_create tokens True = Some None \<Longrightarrow> classify_external_fts5 tokens = Some None \<Longrightarrow>
    classify_additive_statement tokens = Inr None \<Longrightarrow> version = Some v \<Longrightarrow>
    classify_seed_insert tokens v = Inr (Some effect) \<Longrightarrow> same_table True name (sie_table_name effect) \<Longrightarrow>
    accounts version tokens [SeedRows (effect\<lparr>sie_table_name := name\<rparr>)]"

section \<open>The invariant of the scan\<close>

definition creates_table :: "string \<Rightarrow> ClassifiedEffect list \<Rightarrow> bool" where
  "creates_table name effects \<longleftrightarrow>
     (\<exists>object. Create object \<in> set effects \<and> object_type object = ''table'' \<and> object_name object = name)"

abbreviation "key \<equiv> sqlite_ascii_identifier_key"

text \<open>\<open>groups\<close> are the effects of the migrations so far, the current one last.\<close>

definition scan_inv :: "effect_scan \<Rightarrow> ClassifiedEffect list list \<Rightarrow> bool" where
  "scan_inv s groups \<longleftrightarrow> bmap_wf (es_spellings s) \<and> bmap_wf (es_created_tables s) \<and>
     (\<forall>(k, name) \<in> set (es_spellings s). key name = k) \<and>
     (\<forall>(k, name) \<in> set (es_created_tables s). key name = k \<and> (\<exists>effects \<in> set groups. creates_table name effects)) \<and>
     (\<forall>j < length groups. \<forall>e. SeedRows e \<in> set (groups ! j) \<longrightarrow> (\<exists>i \<le> j. creates_table (sie_table_name e) (groups ! i))) \<and>
     (\<forall>(n, shape) \<in> set (es_fts_shapes s). 0 < n \<and> n \<le> length groups \<and> set (fts_created shape) \<subseteq> set (groups ! (n - 1)) \<and>
       (key (fts_content shape), fts_content shape) \<in> set (es_created_tables s))"

lemma creates_table_append: "creates_table name effects \<Longrightarrow> creates_table name (effects @ later)"
  by (auto simp: creates_table_def)

lemma scan_inv_start: "scan_inv effect_scan_start []"
  by (simp add: scan_inv_def effect_scan_start_def)

lemma scan_inv_group: "scan_inv s groups \<Longrightarrow> scan_inv s (groups @ [[]])"
  by (fastforce simp: scan_inv_def nth_append less_Suc_eq)

lemma scan_inv_irrelevant [simp]:
  "scan_inv (s\<lparr>es_trigger_values := a\<rparr>) groups = scan_inv s groups"
  "scan_inv (s\<lparr>es_content_declarations := d\<rparr>) groups = scan_inv s groups"
  "scan_inv (s\<lparr>es_trigger_seen := a\<rparr>) groups = scan_inv s groups"
  "scan_inv (s\<lparr>es_seeded := a\<rparr>) groups = scan_inv s groups"
  "scan_inv (s\<lparr>es_strict_keys := a\<rparr>) groups = scan_inv s groups"
  "scan_inv (s\<lparr>es_rowid_keys := a\<rparr>) groups = scan_inv s groups"
  "scan_inv (s\<lparr>es_fts_sources := a\<rparr>) groups = scan_inv s groups"
  "scan_inv (s\<lparr>es_migrations := m\<rparr>) groups = scan_inv s groups"
  "scan_inv (s\<lparr>es_effects := e\<rparr>) groups = scan_inv s groups"
  "scan_inv (s\<lparr>es_additions := n\<rparr>) groups = scan_inv s groups"
  "scan_inv (s\<lparr>es_pragmas := n\<rparr>) groups = scan_inv s groups"
  by (simp_all add: scan_inv_def)

lemma scan_inv_seeds:
  "scan_inv s groups \<Longrightarrow> j < length groups \<Longrightarrow> SeedRows e \<in> set (groups ! j) \<Longrightarrow>
    \<exists>i \<le> j. creates_table (sie_table_name e) (groups ! i)"
  unfolding scan_inv_def by blast

lemma scan_inv_created_table:
  "scan_inv s groups \<Longrightarrow> (k, name) \<in> set (es_created_tables s) \<Longrightarrow>
    key name = k \<and> (\<exists>effects \<in> set groups. creates_table name effects)"
  unfolding scan_inv_def by blast

lemma scan_inv_shape:
  "scan_inv s groups \<Longrightarrow> (n, shape) \<in> set (es_fts_shapes s) \<Longrightarrow>
    0 < n \<and> n \<le> length groups \<and> set (fts_created shape) \<subseteq> set (groups ! (n - 1)) \<and>
    (key (fts_content shape), fts_content shape) \<in> set (es_created_tables s)"
  unfolding scan_inv_def by blast

lemma creates_in_groups: "(\<exists>effects \<in> set groups. P effects) \<longleftrightarrow> (\<exists>i < length groups. P (groups ! i))"
  by (metis in_set_conv_nth)

lemma scan_inv_push:
  assumes "scan_inv s (groups @ [current])"
    and "\<And>e. SeedRows e \<in> set effects \<Longrightarrow> \<exists>g \<in> set (groups @ [current]). creates_table (sie_table_name e) g"
  shows "scan_inv s (groups @ [current @ effects])"
proof -
  let ?old = "groups @ [current]" and ?new = "groups @ [current @ effects]"
  have grow: "creates_table name (?old ! i) \<Longrightarrow> i < length ?old \<Longrightarrow> creates_table name (?new ! i)" for name i
    by (auto simp: nth_append less_Suc_eq intro: creates_table_append)
  from assms(1) have seeds: "\<forall>j < length ?old. \<forall>e. SeedRows e \<in> set (?old ! j) \<longrightarrow>
      (\<exists>i \<le> j. creates_table (sie_table_name e) (?old ! i))" unfolding scan_inv_def by blast
  have "\<exists>i \<le> j. creates_table (sie_table_name e) (?new ! i)" if "j < length ?new" "SeedRows e \<in> set (?new ! j)" for j e
  proof (cases "SeedRows e \<in> set (?old ! j)")
    case True
    have "j < length ?old" using that(1) by simp
    with True seeds obtain i where "i \<le> j" "creates_table (sie_table_name e) (?old ! i)" by blast
    with grow \<open>j < length ?old\<close> show ?thesis by (meson le_less_trans)
  next
    case False
    with that have "SeedRows e \<in> set effects" "j = length groups" by (auto simp: nth_append less_Suc_eq split: if_splits)
    with assms(2) obtain i where "i < length ?old" "creates_table (sie_table_name e) (?old ! i)"
      unfolding creates_in_groups by blast
    with grow \<open>j = length groups\<close> show ?thesis by (intro exI [of _ i]) simp
  qed
  moreover have "\<forall>(k, name) \<in> set (es_created_tables s). key name = k \<and> (\<exists>g \<in> set ?new. creates_table name g)"
  proof -
    have "\<exists>g \<in> set ?new. creates_table name g" if "\<exists>g \<in> set ?old. creates_table name g" for name
      using that by (auto intro: creates_table_append)
    moreover have "\<forall>(k, name) \<in> set (es_created_tables s). key name = k \<and> (\<exists>g \<in> set ?old. creates_table name g)"
      using assms(1) unfolding scan_inv_def by blast
    ultimately show ?thesis by fast
  qed
  moreover have "\<forall>(n, shape) \<in> set (es_fts_shapes s). 0 < n \<and> n \<le> length ?new \<and>
      set (fts_created shape) \<subseteq> set (?new ! (n - 1)) \<and> (key (fts_content shape), fts_content shape) \<in> set (es_created_tables s)"
  proof -
    have kept: "set (?old ! (n - 1)) \<subseteq> set (?new ! (n - 1))" if "0 < n" "n \<le> length ?old" for n
      using that by (auto simp: nth_append)
    have old: "\<forall>(n, shape) \<in> set (es_fts_shapes s). 0 < n \<and> n \<le> length ?old \<and>
      set (fts_created shape) \<subseteq> set (?old ! (n - 1)) \<and> (key (fts_content shape), fts_content shape) \<in> set (es_created_tables s)"
      using assms(1) unfolding scan_inv_def by blast
    show ?thesis
    proof
      fix entry
      assume "entry \<in> set (es_fts_shapes s)"
      moreover obtain n shape where entry: "entry = (n, shape)" by (cases entry)
      ultimately have o: "0 < n" "n \<le> length ?old" "set (fts_created shape) \<subseteq> set (?old ! (n - 1))"
        "(key (fts_content shape), fts_content shape) \<in> set (es_created_tables s)" using old by fast+
      with subset_trans [OF o(3) kept [OF o(1,2)]]
      show "case entry of (n, shape) \<Rightarrow> 0 < n \<and> n \<le> length ?new \<and> set (fts_created shape) \<subseteq> set (?new ! (n - 1)) \<and>
          (key (fts_content shape), fts_content shape) \<in> set (es_created_tables s)"
        by (simp add: entry)
    qed
  qed
  ultimately show ?thesis using assms(1) unfolding scan_inv_def by blast
qed

lemma spelled_as_inv:
  assumes "scan_inv s groups" and "spelled_as name s = (spelling, s')"
  shows "scan_inv s' groups \<and> key spelling = key name \<and> es_effects s' = es_effects s \<and> es_migrations s' = es_migrations s \<and>
    es_additions s' = es_additions s \<and> es_pragmas s' = es_pragmas s \<and> es_created_tables s' = es_created_tables s"
proof (cases "map_of (es_spellings s) (key name)")
  case None
  with assms have s': "s' = s\<lparr>es_spellings := bmap_insert (key name) name (es_spellings s)\<rparr>" "spelling = name"
    by (auto simp: spelled_as_def)
  have "\<forall>(k, v) \<in> set (bmap_insert (key name) name (es_spellings s)). key v = k"
    using assms(1) set_bmap_insert [of "key name" name "es_spellings s"] by (auto simp: scan_inv_def)
  with assms(1) s' show ?thesis by (auto simp: scan_inv_def)
next
  case (Some v)
  with assms show ?thesis by (auto simp: spelled_as_def scan_inv_def dest: map_of_SomeD)
qed

lemma scan_inv_created:
  assumes "scan_inv s groups" and "\<exists>g \<in> set groups. creates_table name g"
    and "map_of (es_created_tables s) (key name) = None"
  shows "scan_inv (s\<lparr>es_created_tables := bmap_insert (key name) name (es_created_tables s)\<rparr>) groups"
proof -
  let ?new = "bmap_insert (key name) name (es_created_tables s)"
  have wf: "bmap_wf (es_created_tables s)" using assms(1) by (simp add: scan_inv_def)
  have kept: "set (es_created_tables s) \<subseteq> set ?new"
  proof
    fix entry
    assume "entry \<in> set (es_created_tables s)"
    then have "map_of (es_created_tables s) (fst entry) = Some (snd entry)" using wf by (simp add: bmap_get_iff)
    with assms(3) have "map_of ?new (fst entry) = Some (snd entry)" by (auto simp: map_of_bmap_insert [OF wf])
    then show "entry \<in> set ?new" by (metis map_of_SomeD prod.collapse)
  qed
  with assms wf set_bmap_insert [of "key name" name "es_created_tables s"] show ?thesis
    unfolding scan_inv_def by (auto 0 3)
qed

section \<open>One statement\<close>

definition additions :: "ClassifiedEffect list \<Rightarrow> AddColumnEffect list" where
  "additions effects = List.map_filter (\<lambda>e. case e of AddsColumn a \<Rightarrow> Some a | _ \<Rightarrow> None) effects"

definition pragmas :: "ClassifiedEffect list \<Rightarrow> ClassifiedEffect list" where
  "pragmas effects = filter (\<lambda>e. e = SetsForeignKeysOn) effects"

definition scan_ok :: "ClassifiedEffect list list \<Rightarrow> effect_scan \<Rightarrow> bool" where
  "scan_ok groups s \<longleftrightarrow> es_migrations s = groups \<and> scan_inv s (groups @ [es_effects s]) \<and>
     es_additions s = length (additions (es_effects s)) \<and> es_pragmas s = length (pragmas (es_effects s))"

lemma push_effects_simps [simp]:
  "es_effects (push_effects effects s) = es_effects s @ effects" "es_migrations (push_effects effects s) = es_migrations s"
  "es_additions (push_effects effects s) = es_additions s" "es_pragmas (push_effects effects s) = es_pragmas s"
  "scan_inv (push_effects effects s) groups = scan_inv s groups"
  by (simp_all add: push_effects_def)

lemma additions_append [simp]: "additions (xs @ ys) = additions xs @ additions ys"
  by (simp add: additions_def List.map_filter_def)

lemma pragmas_append [simp]: "pragmas (xs @ ys) = pragmas xs @ pragmas ys"
  by (simp add: pragmas_def)

lemma effect_counts [simp]:
  "additions [Create object] = []" "additions [AddsColumn a] = [a]" "additions [SetsForeignKeysOn] = []"
  "additions [SeedRows e] = []" "pragmas [Create object] = []" "pragmas [AddsColumn a] = []"
  "pragmas [SetsForeignKeysOn] = [SetsForeignKeysOn]" "pragmas [SeedRows e] = []"
  "additions (fts_created shape) = []" "pragmas (fts_created shape) = []"
  by (simp_all add: additions_def pragmas_def List.map_filter_def fts_created_def fts_object_def)

lemma same_table_True: "key a = key b \<Longrightarrow> same_table True a b"
  by (simp add: same_table_def identity_key_def)

lemma same_table_refl [simp]: "same_table allow a a"
  by (simp add: same_table_def)

lemma scan_ok_push:
  assumes "scan_ok groups s" and "\<And>e. SeedRows e \<in> set effects \<Longrightarrow> \<exists>g \<in> set (groups @ [es_effects s]). creates_table (sie_table_name e) g"
  shows "scan_inv s (groups @ [es_effects s @ effects])"
  using assms by (intro scan_inv_push) (auto simp: scan_ok_def)

lemma create_seedable_table_Inr:
  assumes "create_seedable_table s tokens object = Inr s1"
  shows "map_of (es_created_tables s) (key (object_name object)) = None \<and>
    (\<exists>strict rowid. s1 = snd (spelled_as (object_name object)
      (s\<lparr>es_created_tables := bmap_insert (key (object_name object)) (object_name object) (es_created_tables s),
         es_strict_keys := strict, es_rowid_keys := rowid\<rparr>)))"
  using assms unfolding create_seedable_table_def Let_def by (simp add: result_simps split del: if_split) blast

lemma create_effect_ok:
  assumes "create_effect allow s tokens object trigger_tokens = Inr s'" and "scan_ok groups s"
  shows "\<exists>name. same_table allow name (table_name object) \<and> es_effects s' = es_effects s @ [Create (object\<lparr>table_name := name\<rparr>)] \<and>
    scan_ok groups s'"
proof -
  let ?s = "if object_type object = ''table'' then s\<lparr>es_content_declarations :=
    bmap_insert (key (object_name object)) tokens (es_content_declarations s)\<rparr> else s"
  have inv: "scan_inv ?s (groups @ [es_effects s @ [Create object']])" for object'
    using scan_ok_push [OF assms(2), of "[Create object']"] by simp
  have s: "es_effects ?s = es_effects s" "es_migrations ?s = groups" "es_additions ?s = es_additions s" "es_pragmas ?s = es_pragmas s"
    "es_created_tables ?s = es_created_tables s"
    using assms(2) by (simp_all add: scan_ok_def)
  note ok = assms(2) [unfolded scan_ok_def]
  consider (table) s1 where "allow" "object_type object = ''table''" "create_seedable_table ?s tokens object = Inr s1"
      "s' = push_effects [Create object] (s1\<lparr>es_trigger_values := bset_union (es_trigger_values s1) trigger_tokens\<rparr>)"
    | (dependent) object1 s1 where "allow" "create_dependent ?s object = (object1, s1)"
      "s' = push_effects [Create object1] (s1\<lparr>es_trigger_values := bset_union (es_trigger_values s1) trigger_tokens\<rparr>)"
    | (plain) "s' = push_effects [Create object] (?s\<lparr>es_trigger_values := bset_union (es_trigger_values ?s) trigger_tokens\<rparr>)"
    using assms(1) unfolding create_effect_def Let_def
    by (auto simp: result_simps split: if_splits prod.splits)
  then show ?thesis
  proof cases
    case table
    from table(3) obtain strict without_rowid where fresh: "map_of (es_created_tables s) (key (object_name object)) = None"
      and s1: "s1 = snd (spelled_as (object_name object)
        (?s\<lparr>es_created_tables := bmap_insert (key (object_name object)) (object_name object) (es_created_tables ?s),
           es_strict_keys := strict, es_rowid_keys := without_rowid\<rparr>))"
      using create_seedable_table_Inr [OF table(3)] unfolding s(5) by blast
    have "scan_inv (?s\<lparr>es_created_tables := bmap_insert (key (object_name object)) (object_name object) (es_created_tables ?s),
         es_strict_keys := strict, es_rowid_keys := without_rowid\<rparr>) (groups @ [es_effects s @ [Create object]])"
      using scan_inv_created [OF inv [of object], of "object_name object"] fresh table(2)
      by (auto simp: s(5) creates_table_def)
    from spelled_as_inv [OF this surjective_pairing] s1
    have "scan_inv s1 (groups @ [es_effects s @ [Create object]]) \<and> es_effects s1 = es_effects s \<and> es_migrations s1 = groups \<and>
        es_additions s1 = es_additions s \<and> es_pragmas s1 = es_pragmas s"
      using s by simp
    with table(4) ok show ?thesis by (intro exI [of _ "table_name object"]) (simp add: scan_ok_def)
  next
    case dependent
    obtain spelling s2 where sp: "spelled_as (table_name object) ?s = (spelling, s2)" by (cases "spelled_as (table_name object) ?s")
    from dependent(2) sp have d: "object1 = object\<lparr>table_name := spelling\<rparr>"
      "s1 = (if object_type object = ''trigger'' then s2\<lparr>es_trigger_seen := bset_insert (key (table_name object)) (es_trigger_seen s2)\<rparr> else s2)"
      by (auto simp: create_dependent_def)
    from spelled_as_inv [OF inv [of object1] sp] s d(2)
    have "scan_inv s1 (groups @ [es_effects s @ [Create object1]]) \<and> es_effects s1 = es_effects s \<and> es_migrations s1 = groups \<and>
        es_additions s1 = es_additions s \<and> es_pragmas s1 = es_pragmas s \<and> key spelling = key (table_name object)"
      by simp
    with dependent(1,3) d(1) ok show ?thesis
      by (intro exI [of _ spelling]) (simp add: scan_ok_def same_table_True)
  next
    case plain
    with inv [of object] s ok show ?thesis by (intro exI [of _ "table_name object"]) (simp add: scan_ok_def)
  qed
qed

lemma scan_inv_fts:
  assumes "scan_inv s groups" and "groups \<noteq> []" and "set (fts_created shape) \<subseteq> set (last groups)"
    and "map_of (es_created_tables s) (key (fts_content shape)) = Some (fts_content shape)"
  shows "scan_inv (s\<lparr>es_fts_shapes := es_fts_shapes s @ [(length groups, shape)]\<rparr>) groups"
  using assms by (auto simp: scan_inv_def last_conv_nth dest: map_of_SomeD)

lemma fts_effect_step_ok:
  assumes "fts_effect_step prototype s shape = Inr s'" and "scan_ok groups s"
  shows "prototype \<and> es_effects s' = es_effects s @ fts_created shape \<and> scan_ok groups s'"
proof -
  from assms(1) obtain sources where p: "prototype"
    and content: "map_of (es_created_tables s) (key (fts_content shape)) = Some (fts_content shape)"
    and s': "s' = push_effects (fts_created shape) (s\<lparr>es_fts_sources := sources,
      es_fts_shapes := es_fts_shapes s @ [(length (es_migrations s) + 1, shape)]\<rparr>)"
    by (auto simp: fts_effect_step_def Let_def result_simps split: if_splits option.splits)
  have "scan_inv s (groups @ [es_effects s @ fts_created shape])"
    by (rule scan_ok_push [OF assms(2)]) (auto simp: fts_created_def fts_object_def)
  then have "scan_inv (s\<lparr>es_fts_sources := sources\<rparr>) (groups @ [es_effects s @ fts_created shape])" by simp
  from scan_inv_fts [OF this, of shape] content assms(2)
  show ?thesis by (simp add: s' p scan_ok_def)
qed

lemma seed_effect_step_ok:
  assumes "seed_effect_step prototype s effect = Inr s'" and "scan_ok groups s"
  shows "\<exists>name. same_table True name (sie_table_name effect) \<and>
    es_effects s' = es_effects s @ [SeedRows (effect\<lparr>sie_table_name := name\<rparr>)] \<and> scan_ok groups s'"
proof -
  from assms(1) obtain name seeded where reviewed: "map_of (es_created_tables s) (key (sie_table_name effect)) = Some name"
    and s': "s' = push_effects [SeedRows (effect\<lparr>sie_table_name := name\<rparr>)] (s\<lparr>es_seeded := seeded\<rparr>)"
    by (auto simp: seed_effect_step_def Let_def result_simps split: if_splits option.splits)
  from reviewed assms(2) have name: "key name = key (sie_table_name effect)"
    "\<exists>g \<in> set (groups @ [es_effects s]). creates_table name g"
    by (auto simp: scan_ok_def scan_inv_def dest!: map_of_SomeD)
  have "scan_inv s (groups @ [es_effects s @ [SeedRows (effect\<lparr>sie_table_name := name\<rparr>)]])"
    by (rule scan_ok_push [OF assms(2)]) (use name(2) in simp)
  with assms(2) name(1) show ?thesis
    by (intro exI [of _ name]) (simp add: s' scan_ok_def same_table_True)
qed

lemma add_column_ok:
  assumes "scan_ok groups s" and "(if seeding then spelled_as (eff_table_name effect) s else (eff_table_name effect, s)) = (name, s1)"
  shows "same_table seeding name (eff_table_name effect) \<and>
    scan_ok groups (push_effects [AddsColumn (effect\<lparr>eff_table_name := name\<rparr>)] (s1\<lparr>es_additions := es_additions s1 + 1\<rparr>)) \<and>
    es_effects s1 = es_effects s"
proof -
  have "scan_inv s (groups @ [es_effects s @ [AddsColumn (effect\<lparr>eff_table_name := name\<rparr>)]])"
    by (rule scan_ok_push [OF assms(1)]) simp
  note inv = this
  show ?thesis
  proof (cases seeding)
    case True
    with assms(2) have "spelled_as (eff_table_name effect) s = (name, s1)" by simp
    from spelled_as_inv [OF inv this] assms(1) True show ?thesis by (simp add: scan_ok_def same_table_True)
  next
    case False
    with assms inv show ?thesis by (auto simp: scan_ok_def)
  qed
qed

lemma additive_effect_ok:
  assumes "additive_effect version s tokens statement = Inr s'" and "scan_ok groups s"
    and "classify_schema_create tokens True = Some None" "classify_external_fts5 tokens = Some None"
    and "classify_additive_statement tokens = Inr statement"
  shows "scan_ok groups s' \<and> (\<exists>effects. accounts version tokens effects \<and> es_effects s' = es_effects s @ effects)"
proof (cases statement)
  case None
  with assms(1) obtain v effect where v: "version = Some v" "classify_seed_insert tokens v = Inr (Some effect)"
    and step: "seed_effect_step (v = V3Fts) s effect = Inr s'"
    by (auto simp: additive_effect_def result_simps split: option.splits)
  from seed_effect_step_ok [OF step assms(2)] accounts.seeded [OF assms(3,4)] assms(5) None v show ?thesis by auto
next
  case (Some additive)
  show ?thesis
  proof (cases additive)
    case (AddColumn effect)
    obtain name s1 where sp: "(if version \<noteq> None then spelled_as (eff_table_name effect) s else (eff_table_name effect, s)) = (name, s1)"
      by fastforce
    from assms(1) Some AddColumn sp
    have "s' = push_effects [AddsColumn (effect\<lparr>eff_table_name := name\<rparr>)] (s1\<lparr>es_additions := es_additions s1 + 1\<rparr>)"
      by (auto simp: additive_effect_def split: if_splits)
    with add_column_ok [OF assms(2) sp] accounts.added [OF assms(3,4)] assms(5) Some AddColumn show ?thesis by auto
  next
    case ForeignKeysOn
    with assms(1) Some have "s' = push_effects [SetsForeignKeysOn] (s\<lparr>es_pragmas := es_pragmas s + 1\<rparr>)"
      by (auto simp: additive_effect_def split: if_splits)
    moreover have "scan_inv s (groups @ [es_effects s @ [SetsForeignKeysOn]])" by (rule scan_ok_push [OF assms(2)]) simp
    ultimately show ?thesis
      using accounts.pragma [OF assms(3,4)] assms(2,5) Some ForeignKeysOn by (auto simp: scan_ok_def)
  qed
qed

lemma classify_statement_ok:
  assumes "classify_statement version s tokens = Inr s'" and "scan_ok groups s"
  shows "scan_ok groups s' \<and> (\<exists>effects. accounts version tokens effects \<and> es_effects s' = es_effects s @ effects)"
proof -
  from assms(1) obtain found where found: "classify_schema_create tokens True = Some found"
    by (auto simp: classify_statement_def result_simps)
  show ?thesis
  proof (cases found)
    case (Some entry)
    obtain object vals where "entry = (object, vals)" by (cases entry)
    with found Some have create: "classify_schema_create tokens True = Some (Some (object, vals))" by simp
    with assms(1) have "create_effect (version \<noteq> None) s tokens object vals = Inr s'"
      by (simp add: classify_statement_def or_panic_def)
    from create_effect_ok [OF this assms(2)] accounts.created [OF create] show ?thesis by blast
  next
    case None
    with found have no_create: "classify_schema_create tokens True = Some None" by simp
    with assms(1) obtain fts where fts: "classify_external_fts5 tokens = Some fts"
      by (auto simp: classify_statement_def result_simps)
    show ?thesis
    proof (cases fts)
      case (Some shape)
      with assms(1) no_create fts have "fts_effect_step (version = Some V3Fts) s shape = Inr s'"
        by (simp add: classify_statement_def or_panic_def)
      from fts_effect_step_ok [OF this assms(2)] accounts.virtual [OF no_create] fts Some show ?thesis by blast
    next
      case None
      with assms(1) no_create fts obtain statement where "classify_additive_statement tokens = Inr statement"
        "additive_effect version s tokens statement = Inr s'"
        by (auto simp: classify_statement_def or_panic_def result_simps)
      from additive_effect_ok [OF this(2) assms(2) no_create _ this(1)] fts None show ?thesis by simp
    qed
  qed
qed

section \<open>Whole manifests\<close>

text \<open>The effects of a migration are those of its statements, in order, with at most one column addition and pragma.\<close>

definition migration_effects ::
  "SeedAssertionVersion option \<Rightarrow> D1MigrationManifestEntry \<Rightarrow> ClassifiedEffect list \<Rightarrow> bool" where
  "migration_effects version migration effects \<longleftrightarrow>
     (\<exists>statements groups. tokenize_sql_statements (entry_sql migration) = Some statements \<and> statements \<noteq> [] \<and>
        list_all2 (accounts version) statements groups \<and> effects = concat groups) \<and>
     length (additions effects) \<le> 1 \<and> length (pragmas effects) \<le> 1"

lemma classify_statements_ok:
  assumes "try_fold (classify_statement version) s statements = Inr s'" and "scan_ok groups s"
  shows "scan_ok groups s' \<and> (\<exists>parts. list_all2 (accounts version) statements parts \<and> es_effects s' = es_effects s @ concat parts)"
  using assms
proof (induction statements arbitrary: s)
  case (Cons tokens statements)
  from Cons.prems(1) obtain s1 where step: "classify_statement version s tokens = Inr s1"
    and rest: "try_fold (classify_statement version) s1 statements = Inr s'" by (auto split: sum.splits)
  from classify_statement_ok [OF step Cons.prems(2)] obtain effects where ok: "scan_ok groups s1"
    and e: "accounts version tokens effects" "es_effects s1 = es_effects s @ effects" by blast
  from Cons.IH [OF rest ok] obtain parts where "scan_ok groups s'" "list_all2 (accounts version) statements parts"
    "es_effects s' = es_effects s1 @ concat parts" by blast
  with e show ?case by (intro conjI exI [of _ "effects # parts"]) simp_all
qed simp

lemma classify_migration_ok:
  assumes "classify_migration version s migration = Inr s'" and "scan_inv s (es_migrations s)"
  shows "scan_inv s' (es_migrations s') \<and>
    (\<exists>effects. es_migrations s' = es_migrations s @ [effects] \<and> migration_effects version migration effects)"
proof -
  let ?s = "s\<lparr>es_effects := [], es_additions := 0, es_pragmas := 0\<rparr>"
  from assms(1) obtain statements s1 where statements: "tokenize_sql_statements (entry_sql migration) = Some statements" "statements \<noteq> []"
    and run: "try_fold (classify_statement version) ?s statements = Inr s1"
    and s': "s' = s1\<lparr>es_migrations := es_migrations s1 @ [es_effects s1]\<rparr>" "es_additions s1 \<le> 1" "es_pragmas s1 \<le> 1"
    by (auto simp: classify_migration_def result_simps split: if_splits)
  have "scan_ok (es_migrations s) ?s"
    using scan_inv_group [OF assms(2)] by (simp add: scan_ok_def additions_def pragmas_def List.map_filter_def)
  from classify_statements_ok [OF run this] obtain parts where ok: "scan_ok (es_migrations s) s1"
    and parts: "list_all2 (accounts version) statements parts" "es_effects s1 = concat parts" by auto
  from ok statements parts s'(2,3) have "migration_effects version migration (es_effects s1)"
    by (auto simp: migration_effects_def scan_ok_def)
  with ok s'(1) show ?thesis by (simp add: scan_ok_def)
qed

lemma classification_ok:
  assumes "try_fold (classify_migration version) effect_scan_start manifest = Inr s"
  shows "scan_inv s (es_migrations s) \<and> list_all2 (migration_effects version) manifest (es_migrations s)"
proof -
  have "scan_inv t (es_migrations t) \<Longrightarrow> try_fold (classify_migration version) t ms = Inr s \<Longrightarrow>
      scan_inv s (es_migrations s) \<and> (\<exists>groups. es_migrations s = es_migrations t @ groups \<and>
        list_all2 (migration_effects version) ms groups)" for t ms
  proof (induction ms arbitrary: t)
    case (Cons m ms)
    from Cons.prems(2) obtain t1 where step: "classify_migration version t m = Inr t1"
      and rest: "try_fold (classify_migration version) t1 ms = Inr s" by (auto split: sum.splits)
    from classify_migration_ok [OF step Cons.prems(1)] obtain effects where "scan_inv t1 (es_migrations t1)"
      and e: "es_migrations t1 = es_migrations t @ [effects]" "migration_effects version m effects" by blast
    from Cons.IH [OF this(1) rest] obtain groups where "scan_inv s (es_migrations s)"
      "es_migrations s = es_migrations t1 @ groups" "list_all2 (migration_effects version) ms groups" by blast
    with e show ?case by (intro conjI exI [of _ "effects # groups"]) simp_all
  qed simp
  from this [OF _ assms] scan_inv_start show ?thesis by (simp add: effect_scan_start_def)
qed

end
