(* ===== verification/D1_Derivation_Sound.thy ===== *)
theory D1_Derivation_Sound
  imports D1_Classification
begin

text \<open>
  What the derivation of a manifest means: it never panics; every statement is accounted for in the plan
  and nothing else is; the states of the prefixes grow by exactly the objects their migrations create;
  and every seed table is created before it is seeded.
\<close>

section \<open>Freedom from panics\<close>

lemma no_panic_errors [simp, no_panic_intros]:
  "no_panic (Inl (effect_unavailable m))" "no_panic (Inl (contradiction c m))" "no_panic (Inl create_target_reused)"
  "no_panic (Inl seed_parent_missing)" "no_panic (Inl (additive_parent_missing m))" "no_panic (Inl (unproved_statement b))"
  by (simp_all add: no_panic_def effect_unavailable_def contradiction_def create_target_reused_def
      seed_parent_missing_def additive_parent_missing_def unproved_statement_def)

lemma no_panic_reconciliation_error [no_panic_intros]:
  "no_panic (ok_or (effect_unavailable m) x)" "no_panic (ok_or (contradiction c m) x)"
  by (cases x; simp)+

lemma no_panic_contract_error [no_panic_intros]:
  "no_panic (map_err additive_contract_error r)" "no_panic (map_err seed_contract_error r')" "no_panic (map_err Err r'')"
  by (cases r; simp add: additive_contract_error_def; fail | cases r'; simp add: seed_contract_error_def; fail
      | cases r''; simp)+

lemma no_panic_case_prod [no_panic_intros]: "(\<And>a b. p = (a, b) \<Longrightarrow> no_panic (f a b)) \<Longrightarrow> no_panic (case p of (a, b) \<Rightarrow> f a b)"
  by (cases p) simp

lemmas scan_defined = no_panic_or_panic [OF classify_schema_create_defined] no_panic_or_panic [OF classify_external_fts5_defined]
  no_panic_or_panic [OF schema_create_table_is_strict_defined]
  no_panic_or_panic [OF schema_create_table_is_without_rowid_defined]
  no_panic_or_panic [OF fts5_content_declaration_matches_defined]

lemma additive_effect_no_panic: "no_panic (additive_effect version s tokens statement)"
proof (cases statement)
  case None
  then show ?thesis
    unfolding additive_effect_def seed_effect_step_def Let_def by (auto intro!: no_panic_intros)
next
  case (Some effect)
  then show ?thesis by (cases effect) (auto simp: additive_effect_def split: prod.splits)
qed

lemma classify_statement_no_panic: "no_panic (classify_statement version s tokens)"
  unfolding classify_statement_def create_effect_def create_seedable_table_def fts_effect_step_def Let_def
  by (intro no_panic_intros scan_defined additive_effect_no_panic)

lemma classification_no_panic: "no_panic (try_fold (classify_migration version) s manifest)"
  unfolding classify_migration_def by (intro no_panic_intros classify_statement_no_panic)

lemma locate_effect_no_panic: "no_panic (locate_effect allow prefix state effect)"
  by (cases effect) (auto simp: locate_create_def locate_addition_def Let_def intro!: no_panic_intros)

lemma place_seed_no_panic: "no_panic (place_seed effect location l)"
  unfolding place_seed_def by (intro no_panic_intros)

lemma locate_seed_no_panic: "no_panic (locate_seed created_names index l effect)"
  by (cases effect) (auto intro!: no_panic_intros place_seed_no_panic)

lemma locate_fts_no_panic: "no_panic (locate_fts s located l)"
  unfolding locate_fts_def locate_fts_effect_def locate_empty_table_def Let_def
  by (intro no_panic_intros place_seed_no_panic)

text \<open>The derivation answers on every manifest and every assertion name: no slice of the
  classifiers is out of range, and the arm for an unknown assertion is unreachable.
\<close>

theorem derivation_no_panic:
  "no_panic (derive_effect_assertion_details effect_assertion_id manifest)"
proof -
  have create: "no_panic (derive_create_effects allow message manifest)" for allow message
    unfolding derive_create_effects_def create_migration_def create_statement_def Let_def
    by (intro no_panic_intros scan_defined)
  have additive: "no_panic (derive_additive_effect_assertion manifest version)" for version
    unfolding derive_additive_effect_assertion_def locate_effects_def locate_seeds_def seed_registry_def Let_def
    by (intro no_panic_intros classification_no_panic locate_effect_no_panic locate_seed_no_panic locate_fts_no_panic)
  show ?thesis
    unfolding derive_effect_assertion_details_def
    by (intro no_panic_intros create additive)
      (auto simp: canonical_effect_assertion_id_def result_simps split: option.splits if_splits)
qed

section \<open>Where identities are created\<close>

lemma try_fold_map: "try_fold f s (map g xs) = try_fold (\<lambda>s x. f s (g x)) s xs"
  by (induction xs arbitrary: s) (auto split: sum.splits)

lemma try_fold_concat: "try_fold (\<lambda>s xs. try_fold f s xs) s xss = try_fold f s (concat xss)"
  by (induction xss arbitrary: s) (auto simp: try_fold_append split: sum.splits)

text \<open>The effects of a manifest with the index of their migration.\<close>

definition indexed_effects :: "ClassifiedEffect list list \<Rightarrow> (nat \<times> ClassifiedEffect) list" where
  "indexed_effects groups = concat (map (\<lambda>(i, effects). map (Pair i) effects) (enumerate 0 groups))"

lemma indexed_effects_iff: "(i, e) \<in> set (indexed_effects groups) \<longleftrightarrow> i < length groups \<and> e \<in> set (groups ! i)"
  by (force simp: indexed_effects_def in_set_enumerate_eq)

lemma snd_indexed_effects: "map snd (indexed_effects groups) = concat groups"
proof -
  have "map snd (concat (map (\<lambda>(i, effects). map (Pair i) effects) ps)) = concat (map snd ps)" for ps :: "(nat \<times> ClassifiedEffect list) list"
    by (induction ps) (auto simp: o_def)
  then show ?thesis by (simp add: indexed_effects_def)
qed

lemma try_fold_indexed_effects:
  "try_fold (\<lambda>s (i, effects). try_fold (f i) s effects) s (enumerate 0 groups) =
   try_fold (\<lambda>s (i, e). f i s e) s (indexed_effects groups)"
proof -
  have "try_fold (\<lambda>s (i, effects). try_fold (f i) s effects) s ps =
      try_fold (\<lambda>s xs. try_fold (\<lambda>s (i, e). f i s e) s xs) s (map (\<lambda>(i, effects). map (Pair i) effects) ps)" for ps
    unfolding try_fold_map by (rule arg_cong [where f = "\<lambda>g. try_fold g s ps"]) (auto simp: fun_eq_iff try_fold_map)
  then show ?thesis by (simp add: try_fold_concat indexed_effects_def)
qed

definition creates :: "ClassifiedEffect list \<Rightarrow> DerivedSchemaObject list" where
  "creates effects = List.map_filter (\<lambda>e. case e of Create object \<Rightarrow> Some object | _ \<Rightarrow> None) effects"

lemma creates_simps [simp]:
  "creates [] = []" "creates (Create object # effects) = object # creates effects"
  "creates (AddsColumn a # effects) = creates effects" "creates (SetsForeignKeysOn # effects) = creates effects"
  "creates (SeedRows e # effects) = creates effects" "creates (xs @ ys) = creates xs @ creates ys"
  by (simp_all add: creates_def List.map_filter_def)

lemma set_creates: "object \<in> set (creates effects) \<longleftrightarrow> Create object \<in> set effects"
  by (induction effects) (auto simp: creates_def List.map_filter_def split: ClassifiedEffect.splits)

lemma creates_concat: "creates (concat groups) = concat (map creates groups)"
  by (induction groups) simp_all

text \<open>
  Every created identity is created once, at the recorded migration, and no pre-existing table has the
  identity of a created object.
\<close>

definition loc_inv ::
  "bool \<Rightarrow> (nat \<times> ClassifiedEffect) list \<Rightarrow> created_names \<times> (string \<times> string) list \<Rightarrow> bool" where
  "loc_inv allow seen located \<longleftrightarrow> (case located of (created_names, preexisting) \<Rightarrow>
     bmap_wf created_names \<and> bmap_wf preexisting \<and>
     (\<forall>k kind i. map_of created_names k = Some (kind, i) \<longleftrightarrow>
        (\<exists>object. (i, Create object) \<in> set seen \<and> identity_key allow (object_name object) = k \<and> object_type object = kind)) \<and>
     distinct (map (identity_key allow \<circ> object_name) (creates (map snd seen))) \<and>
     fst ` set created_names \<inter> fst ` set preexisting = {} \<and>
     (\<forall>(k, name) \<in> set preexisting. identity_key allow name = k))"

lemma loc_inv_other:
  assumes "loc_inv allow seen located" and "\<And>object. e \<noteq> Create object"
  shows "loc_inv allow (seen @ [(i, e)]) located"
  using assms by (cases e) (auto simp: loc_inv_def)

lemma loc_inv_preexisting:
  assumes "loc_inv allow seen (created_names, preexisting)" and "map_of created_names (identity_key allow name) = None"
  shows "loc_inv allow seen (created_names, entry_or_insert (identity_key allow name) name preexisting)"
proof (cases "map_of preexisting (identity_key allow name)")
  case None
  have "\<forall>(k, n) \<in> set (bmap_insert (identity_key allow name) name preexisting). identity_key allow n = k"
    using assms(1) set_bmap_insert [of "identity_key allow name" name preexisting] by (auto simp: loc_inv_def)
  with assms None show ?thesis by (auto simp: loc_inv_def entry_or_insert_def map_of_eq_None_iff)
qed (use assms in \<open>simp add: entry_or_insert_def\<close>)

lemma loc_inv_create:
  assumes "loc_inv allow seen (created_names, preexisting)"
    and "map_of preexisting (identity_key allow (object_name object)) = None"
    and "map_of created_names (identity_key allow (object_name object)) = None"
  shows "loc_inv allow (seen @ [(i, Create object)])
    (bmap_insert (identity_key allow (object_name object)) (object_type object, i) created_names, preexisting)"
proof -
  let ?k = "identity_key allow (object_name object)"
  have old: "map_of created_names k = Some (kind, j) \<longleftrightarrow>
      (\<exists>object. (j, Create object) \<in> set seen \<and> identity_key allow (object_name object) = k \<and> object_type object = kind)" for k kind j
    using assms(1) by (simp add: loc_inv_def)
  have none: "identity_key allow (object_name o') \<noteq> ?k" if "(j, Create o') \<in> set seen" for j o'
    using old [of ?k "object_type o'" j] that assms(3) by auto
  have wf: "bmap_wf created_names" using assms(1) by (simp add: loc_inv_def)
  have "map_of (bmap_insert ?k (object_type object, i) created_names) k = Some (kind, j) \<longleftrightarrow>
      (\<exists>o'. (j, Create o') \<in> set (seen @ [(i, Create object)]) \<and> identity_key allow (object_name o') = k \<and> object_type o' = kind)"
    for k kind j
    using old [of k kind j] none by (auto simp: map_of_bmap_insert [OF wf])
  moreover have "?k \<notin> (identity_key allow \<circ> object_name) ` set (creates (map snd seen))"
    using none by (auto simp: set_creates image_iff) (metis none)
  ultimately show ?thesis
    using assms by (auto simp: loc_inv_def map_of_eq_None_iff)
qed

lemma locate_effect_inv:
  assumes "locate_effect allow i located e = Inr located'" and "loc_inv allow seen located"
  shows "loc_inv allow (seen @ [(i, e)]) located'"
proof -
  obtain created_names preexisting where l: "located = (created_names, preexisting)" by (cases located)
  show ?thesis
  proof (cases e)
    case (Create object)
    let ?created = "bmap_insert (identity_key allow (object_name object)) (object_type object, i) created_names"
    from assms(1) l Create have fresh: "map_of preexisting (identity_key allow (object_name object)) = None"
      "map_of created_names (identity_key allow (object_name object)) = None"
      and next_located: "located' = (?created, preexisting) \<or>
        map_of ?created (identity_key allow (table_name object)) = None \<and>
        located' = (?created, entry_or_insert (identity_key allow (table_name object)) (table_name object) preexisting)"
      by (auto simp: locate_create_def Let_def simp del: not_None_eq split: if_splits option.splits)
    have "loc_inv allow (seen @ [(i, e)]) (?created, preexisting)"
      using loc_inv_create [OF _ fresh] assms(2) l Create by simp
    with next_located loc_inv_preexisting show ?thesis by auto
  next
    case (AddsColumn effect)
    from assms(1) l AddsColumn have "located' = located \<or>
        map_of created_names (identity_key allow (eff_table_name effect)) = None \<and>
        located' = (created_names, entry_or_insert (identity_key allow (eff_table_name effect)) (eff_table_name effect) preexisting)"
      by (auto simp: locate_addition_def Let_def split: if_splits option.splits)
    with loc_inv_preexisting loc_inv_other [OF assms(2), of e i] assms(2) l AddsColumn show ?thesis by auto
  qed (use assms loc_inv_other [OF assms(2), of e i] in auto)
qed

lemma locate_effects_inv:
  assumes "locate_effects allow groups = Inr located"
  shows "loc_inv allow (indexed_effects groups) located"
proof -
  from assms have "try_fold (\<lambda>s (i, e). locate_effect allow i s e) ([], []) (indexed_effects groups) = Inr located"
    by (simp add: locate_effects_def try_fold_indexed_effects)
  then show ?thesis
  proof (rule try_fold_prefix_invariant)
    show "loc_inv allow [] ([], [])" by (simp add: loc_inv_def)
  qed (auto intro: locate_effect_inv)
qed

end
