(* ===== verification/D1_Plan_Sound.thy ===== *)
theory D1_Plan_Sound
  imports D1_Derivation_Sound
begin

text \<open>
  The derived states and plans, the seed registry and the manifests of \<open>CREATE\<close> statements: the theorems
  about \<open>derive_effect_assertion_details\<close>.
\<close>

section \<open>States and plans\<close>

abbreviation okey :: "DerivedSchemaObject \<Rightarrow> string \<times> string" where
  "okey object \<equiv> (object_type object, object_name object)"

lemma set_bmap_insert_same: "bmap_wf m \<Longrightarrow> (k, v) \<in> set m \<Longrightarrow> set (bmap_insert k v m) = set m"
proof (induction k v m rule: bmap_insert.induct)
  case (2 k v k' v' m)
  then have later: "k' < x" if "(x, y) \<in> set m" for x y using that by (auto simp: bmap_wf_def)
  from "2.prems" later have "\<not> k < k'" by (auto dest: less_asym)
  moreover have "v = v'" if "k = k'" using "2.prems"(2) later [of k v] that by auto
  moreover have "(k, v) \<in> set m" if "k \<noteq> k'" using "2.prems"(2) that by auto
  ultimately show ?case using 2 by (auto simp: bmap_wf_def)
qed simp

lemma plan_effects:
  assumes "foldl plan_effect (cumulative, prefix) effects = (cumulative', prefix')" and "bmap_wf cumulative"
    and "\<forall>object \<in> set (creates effects). okey object \<notin> fst ` set cumulative" and "distinct (map okey (creates effects))"
  shows "bmap_wf cumulative' \<and> set cumulative' = set cumulative \<union> (\<lambda>object. (okey object, object)) ` set (creates effects) \<and>
    set (created_objects prefix') = set (created_objects prefix) \<union> okey ` set (creates effects) \<and>
    addition prefix' = (if additions effects = [] then addition prefix else Some (last (additions effects))) \<and>
    (foreign_keys_on prefix' \<longleftrightarrow> foreign_keys_on prefix \<or> SetsForeignKeysOn \<in> set effects)"
  using assms
proof (induction effects arbitrary: cumulative prefix)
  case (Cons e effects)
  obtain c p where step: "plan_effect (cumulative, prefix) e = (c, p)" by fastforce
  with Cons.prems(1) have rest: "foldl plan_effect (c, p) effects = (cumulative', prefix')" by simp
  show ?case
  proof (cases e)
    case (Create object)
    then have new: "map_of cumulative (okey object) = None" using Cons.prems(3) by (simp add: map_of_eq_None_iff)
    from step Create have cp: "c = bmap_insert (okey object) object cumulative"
      "p = prefix\<lparr>created_objects := bset_insert (okey object) (created_objects prefix)\<rparr>" by auto
    have "set c = insert (okey object, object) (set cumulative)" unfolding cp by (rule set_bmap_insert_new [OF new])
    moreover from this Cons.prems(3,4) Create have "\<forall>o' \<in> set (creates effects). okey o' \<notin> fst ` set c"
      by (auto simp: image_iff)
    ultimately show ?thesis
      using Cons.IH [OF rest] Cons.prems(2,4) Create cp by (auto simp: additions_def List.map_filter_def)
  qed (use step Cons.IH [OF rest] Cons.prems(2-4) in \<open>auto simp: additions_def List.map_filter_def\<close>)
qed (simp add: additions_def List.map_filter_def)

lemma plan_migrations_sound:
  assumes "plan_migrations cumulative groups = (states, plans)" and "bmap_wf cumulative"
    and "\<forall>object \<in> set (creates (concat groups)). okey object \<notin> fst ` set cumulative"
    and "distinct (map okey (creates (concat groups)))"
  shows "length states = length groups \<and> length plans = length groups \<and> (\<forall>i < length groups.
    set (states ! i) = snd ` set cumulative \<union> set (creates (concat (take (Suc i) groups))) \<and>
    set (created_objects (plans ! i)) = okey ` set (creates (groups ! i)) \<and>
    addition (plans ! i) = (if additions (groups ! i) = [] then None else Some (last (additions (groups ! i)))) \<and>
    (foreign_keys_on (plans ! i) \<longleftrightarrow> SetsForeignKeysOn \<in> set (groups ! i)))"
  using assms
proof (induction groups arbitrary: cumulative states plans)
  case (Cons effects groups)
  obtain c p where step: "foldl plan_effect (cumulative, empty_prefix) effects = (c, p)" by fastforce
  obtain ss ps where rest: "plan_migrations c groups = (ss, ps)" by fastforce
  from Cons.prems(1) step rest have out: "states = map snd c # ss" "plans = p # ps" by auto
  have one: "bmap_wf c" "set c = set cumulative \<union> (\<lambda>object. (okey object, object)) ` set (creates effects)"
    "set (created_objects p) = okey ` set (creates effects)"
    "addition p = (if additions effects = [] then None else Some (last (additions effects)))"
    "foreign_keys_on p \<longleftrightarrow> SetsForeignKeysOn \<in> set effects"
    using plan_effects [OF step Cons.prems(2)] Cons.prems(3,4) by (simp_all add: empty_prefix_def)
  have fresh: "\<forall>object \<in> set (creates (concat groups)). okey object \<notin> fst ` set c"
    using Cons.prems(3,4) unfolding one(2) by (auto simp: image_iff disjoint_iff) metis
  have "snd ` set c = snd ` set cumulative \<union> set (creates effects)" unfolding one(2) by force
  with Cons.IH [OF rest one(1) fresh] Cons.prems(4) one(3-5) out show ?case
    by (auto simp: nth_Cons split: nat.splits)
qed simp

lemma preexisting_objects_sound:
  "bmap_wf (preexisting_objects preexisting) \<and>
   set (preexisting_objects preexisting) = (\<lambda>name. ((''table'', name), own_table name)) ` snd ` set preexisting"
proof -
  let ?f = "\<lambda>name. bmap_insert (''table'', name) (own_table name)" and ?e = "\<lambda>name. ((''table'', name), own_table name)"
  have "bmap_wf m \<Longrightarrow> set m \<subseteq> range ?e \<Longrightarrow> bmap_wf (fold ?f names m) \<and> set (fold ?f names m) = ?e ` set names \<union> set m" for names m
  proof (induction names arbitrary: m)
    case (Cons name names)
    have "set (?f name m) = insert (?e name) (set m)"
    proof (cases "map_of m (''table'', name)")
      case (Some v)
      with Cons.prems(2) have "?e name \<in> set m" by (auto dest!: map_of_SomeD)
      with set_bmap_insert_same [OF Cons.prems(1) this] show ?thesis by auto
    qed (simp add: set_bmap_insert_new)
    with Cons.IH [of "?f name m"] Cons.prems show ?case by auto
  qed simp
  from this [of "[]" "map snd preexisting"] show ?thesis by (simp add: preexisting_objects_def)
qed

lemma created_keys_fresh:
  assumes "loc_inv allow (indexed_effects groups) (created_names, preexisting)"
  shows "distinct (map okey (creates (concat groups)))"
    and "\<forall>object \<in> set (creates (concat groups)). \<forall>name \<in> snd ` set preexisting.
      identity_key allow (object_name object) \<noteq> identity_key allow name"
proof -
  from assms have d: "distinct (map (identity_key allow \<circ> object_name) (creates (concat groups)))"
    by (simp add: loc_inv_def snd_indexed_effects)
  then show "distinct (map okey (creates (concat groups)))" by (auto simp: distinct_map inj_on_def)
  from assms have iff: "\<And>k kind i. map_of created_names k = Some (kind, i) \<longleftrightarrow>
      (\<exists>object. (i, Create object) \<in> set (indexed_effects groups) \<and> identity_key allow (object_name object) = k \<and> object_type object = kind)"
    and spelled: "\<forall>(k, name) \<in> set preexisting. identity_key allow name = k"
    and apart: "fst ` set created_names \<inter> fst ` set preexisting = {}"
    by (simp_all add: loc_inv_def)
  show "\<forall>object \<in> set (creates (concat groups)). \<forall>name \<in> snd ` set preexisting.
      identity_key allow (object_name object) \<noteq> identity_key allow name"
  proof (intro ballI notI)
    fix object name
    assume o: "object \<in> set (creates (concat groups))" and "name \<in> snd ` set preexisting"
      and eq: "identity_key allow (object_name object) = identity_key allow name"
    from o obtain i where "(i, Create object) \<in> set (indexed_effects groups)"
      unfolding snd_indexed_effects [symmetric] set_creates by auto
    with iff have "map_of created_names (identity_key allow (object_name object)) = Some (object_type object, i)" by blast
    then have "map_of created_names (identity_key allow (object_name object)) \<noteq> None" by simp
    then have "identity_key allow (object_name object) \<in> fst ` set created_names"
      unfolding bmap_contains_iff .
    moreover obtain k where k: "(k, name) \<in> set preexisting" using \<open>name \<in> snd ` set preexisting\<close> by auto
    with spelled have "k = identity_key allow name" by fast
    with k have "identity_key allow name \<in> fst ` set preexisting" by force
    ultimately show False using apart eq by (metis disjoint_iff)
  qed
qed

lemma derive_additive_Inr:
  assumes "derive_additive_effect_assertion manifest version = Inr d"
  obtains s created_names preexisting l0 l registrations states plans where
    "try_fold (classify_migration version) effect_scan_start manifest = Inr s"
    "locate_effects (version \<noteq> None) (es_migrations s) = Inr (created_names, preexisting)"
    "(if version \<noteq> None then locate_seeds created_names (es_migrations s)
        \<lparr>sl_states = [], sl_locations = [], sl_rowid_keys = es_rowid_keys s\<rparr>
      else Inr \<lparr>sl_states = [], sl_locations = [], sl_rowid_keys = es_rowid_keys s\<rparr>) = Inr l0"
    "(if version = Some V3Fts then locate_fts s (created_names, preexisting) l0 else Inr l0) = Inr l"
    "seed_registry l = Inr registrations"
    "plan_migrations (preexisting_objects preexisting) (es_migrations s) = (states, plans)"
    "derived_states d = map snd (preexisting_objects preexisting) # states"
    "derived_additive_plan d = Some \<lparr>prefixes = plans\<rparr>"
    "derived_seed_plan d = (if version = None then None else Some
       \<lparr>plan_states = map (seed_state_at registrations) [0..<Suc (length (es_migrations s))],
        strict_table_keys = es_strict_keys s, rowid_table_keys = sl_rowid_keys l,
        registry = registrations, preexisting_table_spellings = preexisting\<rparr>)"
    "derived_trigger_values d = es_trigger_values s"
proof -
  from assms obtain s created_names preexisting l0 l registrations where
    steps: "try_fold (classify_migration version) effect_scan_start manifest = Inr s"
    "locate_effects (version \<noteq> None) (es_migrations s) = Inr (created_names, preexisting)"
    "(if version \<noteq> None then locate_seeds created_names (es_migrations s)
        \<lparr>sl_states = [], sl_locations = [], sl_rowid_keys = es_rowid_keys s\<rparr>
      else Inr \<lparr>sl_states = [], sl_locations = [], sl_rowid_keys = es_rowid_keys s\<rparr>) = Inr l0"
    "(if version = Some V3Fts then locate_fts s (created_names, preexisting) l0 else Inr l0) = Inr l"
    "seed_registry l = Inr registrations"
    and last_step: "(case plan_migrations (preexisting_objects preexisting) (es_migrations s) of (states, plans) \<Rightarrow>
      Inr \<lparr>derived_states = map snd (preexisting_objects preexisting) # states,
        derived_additive_plan = Some \<lparr>prefixes = plans\<rparr>,
        derived_seed_plan = (if version = None then None else Some
          \<lparr>plan_states = map (seed_state_at registrations) [0..<Suc (length (es_migrations s))],
           strict_table_keys = es_strict_keys s, rowid_table_keys = sl_rowid_keys l,
           registry = registrations, preexisting_table_spellings = preexisting\<rparr>),
        derived_trigger_values = es_trigger_values s\<rparr>) = (Inr d :: DerivedEffectAssertion recon)"
    unfolding derive_additive_effect_assertion_def Let_def by (auto simp: result_simps)
  obtain states plans where plan: "plan_migrations (preexisting_objects preexisting) (es_migrations s) = (states, plans)" by fastforce
  from that [OF steps plan] last_step plan show ?thesis by auto
qed

text \<open>The derivation of an additive manifest, without the seed tables: what its states and plans are.\<close>

definition additive_shape ::
  "D1MigrationManifestEntry list \<Rightarrow> SeedAssertionVersion option \<Rightarrow> DerivedEffectAssertion \<Rightarrow> ClassifiedEffect list list \<Rightarrow>
   DerivedSchemaObject set \<Rightarrow> AdditivePrefixPlan list \<Rightarrow> bool" where
  "additive_shape manifest version d groups baseline plans \<longleftrightarrow>
     list_all2 (migration_effects version) manifest groups \<and>
     derived_additive_plan d = Some \<lparr>prefixes = plans\<rparr> \<and> length plans = length manifest \<and>
     length (derived_states d) = Suc (length manifest) \<and>
     (\<forall>k \<le> length manifest. set (derived_states d ! k) = baseline \<union> set (creates (concat (take k groups)))) \<and>
     distinct (map (identity_key (version \<noteq> None) \<circ> object_name) (creates (concat groups))) \<and>
     (\<forall>object \<in> set (creates (concat groups)). \<forall>object' \<in> baseline.
       identity_key (version \<noteq> None) (object_name object) \<noteq> identity_key (version \<noteq> None) (object_name object')) \<and>
     (\<forall>i < length manifest. set (created_objects (plans ! i)) = okey ` set (creates (groups ! i)) \<and>
       addition (plans ! i) = (if additions (groups ! i) = [] then None else Some (last (additions (groups ! i)))) \<and>
       (foreign_keys_on (plans ! i) \<longleftrightarrow> SetsForeignKeysOn \<in> set (groups ! i)))"

lemma additive_derivation:
  assumes "derive_additive_effect_assertion manifest version = Inr d"
  obtains s baseline plans where "try_fold (classify_migration version) effect_scan_start manifest = Inr s"
    "additive_shape manifest version d (es_migrations s) baseline plans"
proof -
  from assms obtain s created_names preexisting states plans where
    scan: "try_fold (classify_migration version) effect_scan_start manifest = Inr s"
    and located: "locate_effects (version \<noteq> None) (es_migrations s) = Inr (created_names, preexisting)"
    and plan: "plan_migrations (preexisting_objects preexisting) (es_migrations s) = (states, plans)"
    and d: "derived_states d = map snd (preexisting_objects preexisting) # states" "derived_additive_plan d = Some \<lparr>prefixes = plans\<rparr>"
    by (rule derive_additive_Inr)
  let ?groups = "es_migrations s" and ?base = "snd ` set (preexisting_objects preexisting)"
  from classification_ok [OF scan] have groups: "list_all2 (migration_effects version) manifest ?groups" by simp
  then have len: "length ?groups = length manifest" by (simp add: list_all2_lengthD)
  note inv = locate_effects_inv [OF located]
  have base: "?base = own_table ` snd ` set preexisting"
    using preexisting_objects_sound [of preexisting] by (simp add: image_image)
  have fresh: "\<forall>object \<in> set (creates (concat ?groups)). okey object \<notin> fst ` set (preexisting_objects preexisting)"
  proof (intro ballI notI)
    fix object
    assume o: "object \<in> set (creates (concat ?groups))" and "okey object \<in> fst ` set (preexisting_objects preexisting)"
    with preexisting_objects_sound [of preexisting] have "object_name object \<in> snd ` set preexisting" by force
    with created_keys_fresh(2) [OF inv] o show False by blast
  qed
  from plan_migrations_sound [OF plan _ fresh created_keys_fresh(1) [OF inv]] preexisting_objects_sound [of preexisting]
  have sound: "length states = length ?groups" "length plans = length ?groups"
    "\<And>i. i < length ?groups \<Longrightarrow> set (states ! i) = ?base \<union> set (creates (concat (take (Suc i) ?groups)))"
    "\<And>i. i < length ?groups \<Longrightarrow> set (created_objects (plans ! i)) = okey ` set (creates (?groups ! i))"
    "\<And>i. i < length ?groups \<Longrightarrow>
       addition (plans ! i) = (if additions (?groups ! i) = [] then None else Some (last (additions (?groups ! i))))"
    "\<And>i. i < length ?groups \<Longrightarrow> foreign_keys_on (plans ! i) \<longleftrightarrow> SetsForeignKeysOn \<in> set (?groups ! i)"
    by simp_all
  have "set (derived_states d ! k) = ?base \<union> set (creates (concat (take k ?groups)))" if "k \<le> length manifest" for k
    using that sound(3) [of "k - 1"] len by (cases k) (simp_all add: d(1))
  moreover have "distinct (map (identity_key (version \<noteq> None) \<circ> object_name) (creates (concat ?groups)))"
    using inv by (simp add: loc_inv_def snd_indexed_effects)
  moreover have "identity_key (version \<noteq> None) (object_name object) \<noteq> identity_key (version \<noteq> None) (object_name object')"
    if "object \<in> set (creates (concat ?groups))" "object' \<in> ?base" for object object'
  proof -
    from that(2) obtain name where "name \<in> snd ` set preexisting" "object_name object' = name"
      unfolding base by (force simp: own_table_def)
    with created_keys_fresh(2) [OF inv] that(1) show ?thesis by blast
  qed
  ultimately show ?thesis
    using that [OF scan, of ?base plans] groups d sound len unfolding additive_shape_def by simp
qed

text \<open>C14: The schema states of an additive manifest: one per prefix, with the baseline
  first; each state is the one before it and the objects its migration creates, none of which has the
  identity of an object that was there already.
\<close>

theorem derivation_states_grow:
  assumes "derive_additive_effect_assertion manifest version = Inr d"
  shows "length (derived_states d) = length manifest + 1 \<and>
    (\<exists>plan. derived_additive_plan d = Some plan \<and> length (prefixes plan) = length manifest \<and>
      (\<forall>i < length manifest. \<exists>created.
        set (derived_states d ! (i + 1)) = set (derived_states d ! i) \<union> created \<and>
        set (created_objects (prefixes plan ! i)) = okey ` created \<and>
        (\<forall>object \<in> created. \<forall>object' \<in> set (derived_states d ! i).
          identity_key (version \<noteq> None) (object_name object) \<noteq> identity_key (version \<noteq> None) (object_name object'))))"
proof -
  obtain s baseline plans where "try_fold (classify_migration version) effect_scan_start manifest = Inr s"
    and shape: "additive_shape manifest version d (es_migrations s) baseline plans"
    by (rule additive_derivation [OF assms])
  from shape have g: "list_all2 (migration_effects version) manifest (es_migrations s)"
    and plan: "derived_additive_plan d = Some \<lparr>prefixes = plans\<rparr>" "length plans = length manifest"
    and len: "length (derived_states d) = Suc (length manifest)"
    and states: "\<And>k. k \<le> length manifest \<Longrightarrow> set (derived_states d ! k) = baseline \<union> set (creates (concat (take k (es_migrations s))))"
    and once: "distinct (map (identity_key (version \<noteq> None) \<circ> object_name) (creates (concat (es_migrations s))))"
    and base: "\<And>object object'. object \<in> set (creates (concat (es_migrations s))) \<Longrightarrow> object' \<in> baseline \<Longrightarrow>
       identity_key (version \<noteq> None) (object_name object) \<noteq> identity_key (version \<noteq> None) (object_name object')"
    and created: "\<And>i. i < length manifest \<Longrightarrow> set (created_objects (plans ! i)) = okey ` set (creates (es_migrations s ! i))"
    unfolding additive_shape_def by blast+
  let ?groups = "es_migrations s"
  have "identity_key (version \<noteq> None) (object_name object) \<noteq> identity_key (version \<noteq> None) (object_name object')"
    if "i < length manifest" "object \<in> set (creates (?groups ! i))" "object' \<in> set (derived_states d ! i)" for i object object'
  proof -
    have i: "i < length ?groups" using that(1) g by (simp add: list_all2_lengthD)
    have split: "concat ?groups = concat (take i ?groups) @ ?groups ! i @ concat (drop (Suc i) ?groups)"
      by (metis concat.simps(2) concat_append i id_take_nth_drop)
    have "distinct (map (identity_key (version \<noteq> None) \<circ> object_name) (creates (concat (take i ?groups)) @ creates (?groups ! i) @
        creates (concat (drop (Suc i) ?groups))))"
      using once unfolding split by simp
    then have earlier: "identity_key (version \<noteq> None) (object_name object) \<noteq> identity_key (version \<noteq> None) (object_name object')"
      if "object' \<in> set (creates (concat (take i ?groups)))" using that \<open>object \<in> set (creates (?groups ! i))\<close> by (auto simp: disjoint_iff)
    have "object \<in> set (creates (concat ?groups))" using that(2) unfolding split by simp
    from base [OF this, of object'] earlier that(1,3) states [of i] show ?thesis by auto
  qed
  moreover have "set (derived_states d ! (i + 1)) = set (derived_states d ! i) \<union> set (creates (?groups ! i))" if "i < length manifest" for i
    using that states [of i] states [of "i + 1"] g by (simp add: list_all2_lengthD take_Suc_conv_app_nth Un_assoc)
  ultimately show ?thesis
    using len plan created by (intro conjI exI [of _ "\<lparr>prefixes = plans\<rparr>"] allI impI exI) auto
qed

section \<open>Seed tables\<close>

definition state_of :: "SeedInsertEffect \<Rightarrow> SeedTableState" where
  "state_of effect = \<lparr>sts_version = sie_version effect, sts_table_name = sie_table_name effect,
     sts_columns = sie_columns effect, sts_rows = sie_rows effect\<rparr>"

lemma insert_seed_effect_Inr:
  assumes "insert_seed_effect cumulative effect = Inr cumulative'"
  shows "map_of cumulative (key (sie_table_name effect)) = None \<and>
    cumulative' = bmap_insert (key (sie_table_name effect)) (state_of effect) cumulative"
  using assms by (auto simp: insert_seed_effect_def Let_def state_of_def result_simps split: if_splits option.splits)

text \<open>A located seed table: where its table is created, and that it is seeded there or later.\<close>

definition located_at :: "ClassifiedEffect list list \<Rightarrow> string \<Rightarrow> nat \<times> nat \<Rightarrow> bool" where
  "located_at groups name location \<longleftrightarrow> (case location of (created_prefix, seeded_prefix) \<Rightarrow>
     0 < created_prefix \<and> created_prefix \<le> seeded_prefix \<and> seeded_prefix \<le> length groups \<and>
     creates_table name (groups ! (created_prefix - 1)))"

definition seed_inv :: "ClassifiedEffect list list \<Rightarrow> seed_locations \<Rightarrow> bool" where
  "seed_inv groups l \<longleftrightarrow> bmap_wf (sl_states l) \<and> bmap_wf (sl_locations l) \<and>
     (\<forall>k state. map_of (sl_states l) k = Some state \<longrightarrow> k = key (sts_table_name state) \<and>
        (\<exists>location. map_of (sl_locations l) k = Some location \<and> located_at groups (sts_table_name state) location))"

lemma place_seed_inv:
  assumes "place_seed effect location l = Inr l'" and "seed_inv groups l" and "located_at groups (sie_table_name effect) location"
  shows "seed_inv groups l' \<and> map_of (sl_states l') (key (sie_table_name effect)) = Some (state_of effect) \<and>
    map_of (sl_locations l') (key (sie_table_name effect)) = Some location \<and>
    (\<forall>k \<in> dom (map_of (sl_states l)). map_of (sl_states l') k = map_of (sl_states l) k \<and>
      map_of (sl_locations l') k = map_of (sl_locations l) k)"
proof -
  let ?k = "key (sie_table_name effect)"
  from assms(1) obtain states where "insert_seed_effect (sl_states l) effect = Inr states"
    and l': "l' = l\<lparr>sl_states := states, sl_locations := bmap_insert ?k location (sl_locations l)\<rparr>"
    by (auto simp: place_seed_def result_simps)
  from insert_seed_effect_Inr [OF this(1)] have new: "map_of (sl_states l) ?k = None"
    and states: "states = bmap_insert ?k (state_of effect) (sl_states l)" by simp_all
  from assms(2) have wf: "bmap_wf (sl_states l)" "bmap_wf (sl_locations l)" by (simp_all add: seed_inv_def)
  have "sts_table_name (state_of effect) = sie_table_name effect" by (simp add: state_of_def)
  with assms(2,3) new wf show ?thesis
    by (cases location) (auto simp: seed_inv_def l' states map_of_bmap_insert)
qed

lemma created_at:
  assumes "loc_inv True (indexed_effects groups) (created_names, preexisting)"
    and "creates_table name (groups ! i)" "i < length groups" and "map_of created_names (key name) = Some (kind, j)"
  shows "j = i \<and> kind = ''table''"
proof -
  from assms(2,3) obtain object where "(i, Create object) \<in> set (indexed_effects groups)" "object_type object = ''table''"
    "object_name object = name"
    by (auto simp: creates_table_def indexed_effects_iff)
  with assms(1) have "map_of created_names (key name) = Some (''table'', i)"
    by (auto simp: loc_inv_def identity_key_def)
  with assms(4) show ?thesis by simp
qed

lemma saturating_Suc: "i < n \<Longrightarrow> n < usize_MAX \<Longrightarrow> saturating_add i (Suc 0) = Suc i"
  by (simp add: saturating_add_def)

text \<open>The seeds of the statements: each keeps its rows and the prefix of its own migration.\<close>

definition seeds_placed :: "(nat \<times> ClassifiedEffect) list \<Rightarrow> seed_locations \<Rightarrow> bool" where
  "seeds_placed seen l \<longleftrightarrow> (\<forall>j e. (j, SeedRows e) \<in> set seen \<longrightarrow>
     map_of (sl_states l) (key (sie_table_name e)) = Some (state_of e) \<and>
     (\<exists>c. map_of (sl_locations l) (key (sie_table_name e)) = Some (c, Suc j)))"

lemma seeds_placed_mono:
  assumes "seeds_placed seen l" and "\<forall>k \<in> dom (map_of (sl_states l)). map_of (sl_states l') k = map_of (sl_states l) k \<and>
      map_of (sl_locations l') k = map_of (sl_locations l) k"
  shows "seeds_placed seen l'"
  unfolding seeds_placed_def
proof (intro allI impI)
  fix j e
  assume "(j, SeedRows e) \<in> set seen"
  with assms(1) have "map_of (sl_states l) (key (sie_table_name e)) = Some (state_of e)"
    "\<exists>c. map_of (sl_locations l) (key (sie_table_name e)) = Some (c, Suc j)" by (auto simp: seeds_placed_def)
  with assms(2) show "map_of (sl_states l') (key (sie_table_name e)) = Some (state_of e) \<and>
      (\<exists>c. map_of (sl_locations l') (key (sie_table_name e)) = Some (c, Suc j))" by (metis domI)
qed

lemma locate_seed_inv:
  assumes "locate_seed created_names j l e = Inr l'" and "seed_inv groups l" and "seeds_placed seen l"
    and "loc_inv True (indexed_effects groups) (created_names, preexisting)" and "scan_inv s groups"
    and "j < length groups" "e \<in> set (groups ! j)" "length groups < usize_MAX"
  shows "seed_inv groups l' \<and> seeds_placed (seen @ [(j, e)]) l'"
proof (cases e)
  case (SeedRows effect)
  let ?k = "key (sie_table_name effect)"
  from assms(1) SeedRows obtain created_index where c: "map_of created_names ?k = Some (''table'', created_index)"
    and place: "place_seed effect (saturating_add created_index 1, saturating_add j 1) l = Inr l'"
    by (auto split: option.splits prod.splits if_splits)
  from assms(5-7) SeedRows obtain i where i: "i \<le> j" "creates_table (sie_table_name effect) (groups ! i)"
    using scan_inv_seeds by blast
  with created_at [OF assms(4) i(2) _ c] assms(6) have "created_index = i" by simp
  with place i assms(6,8) have place': "place_seed effect (Suc i, Suc j) l = Inr l'"
    using saturating_Suc [of i "length groups"] saturating_Suc [of j "length groups"] by simp
  have "located_at groups (sie_table_name effect) (Suc i, Suc j)" using i assms(6) by (simp add: located_at_def)
  note placed = place_seed_inv [OF place' assms(2) this]
  with seeds_placed_mono [OF assms(3)] have "seeds_placed seen l'" by blast
  with placed SeedRows show ?thesis by (auto simp: seeds_placed_def)
qed (use assms in \<open>auto simp: seeds_placed_def\<close>)

lemma locate_seeds_inv:
  assumes "locate_seeds created_names groups l = Inr l'" and "sl_states l = []" "sl_locations l = []"
    and "loc_inv True (indexed_effects groups) (created_names, preexisting)" and "scan_inv s groups" "length groups < usize_MAX"
  shows "seed_inv groups l' \<and> seeds_placed (indexed_effects groups) l'"
proof -
  from assms(1) have "try_fold (\<lambda>l (j, e). locate_seed created_names j l e) l (indexed_effects groups) = Inr l'"
    by (simp add: locate_seeds_def try_fold_indexed_effects)
  then show ?thesis
  proof (rule try_fold_prefix_invariant [where P = "\<lambda>seen l. seed_inv groups l \<and> seeds_placed seen l"], goal_cases)
    case 1
    show ?case using assms(2,3) by (simp add: seed_inv_def seeds_placed_def)
  next
    case (2 seen x l l')
    obtain j e where x: "x = (j, e)" by (cases x)
    from 2(2) x have "j < length groups" "e \<in> set (groups ! j)" by (simp_all add: indexed_effects_iff)
    with locate_seed_inv [OF _ _ _ assms(4,5)] 2 x assms(6) show ?case by auto
  qed
qed

lemma created_location:
  assumes "loc_inv True (indexed_effects groups) (created_names, preexisting)"
    and "\<exists>effects \<in> set groups. creates_table name effects" and "map_of created_names (key name) = Some (kind, i)"
  shows "located_at groups name (Suc i, Suc i)"
proof -
  from assms(2) obtain j where "j < length groups" "creates_table name (groups ! j)" by (auto simp: in_set_conv_nth)
  with created_at [OF assms(1) this(2,1) assms(3)] show ?thesis by (simp add: located_at_def Suc_le_eq)
qed

text \<open>One of the engine-owned tables, or a created table that no statement seeds.\<close>

lemma place_seed_keeps:
  assumes "place_seed effect location l = Inr l'" and "seed_inv groups l \<and> seeds_placed seen l"
    and "located_at groups (sie_table_name effect) location"
  shows "seed_inv groups l' \<and> seeds_placed seen l'"
  using place_seed_inv [OF assms(1) _ assms(3)] seeds_placed_mono [of seen l l'] assms(2) by blast

lemma seed_inv_rowid [simp]:
  "seed_inv groups (l\<lparr>sl_rowid_keys := keys\<rparr>) = seed_inv groups l"
  "seeds_placed seen (l\<lparr>sl_rowid_keys := keys\<rparr>) = seeds_placed seen l"
  by (simp_all add: seed_inv_def seeds_placed_def)

lemma locate_fts_effect_inv:
  assumes "locate_fts_effect created_names n shape l effect = Inr l'" and "effect \<in> set (fts5_empty_physical_seed_effects shape)"
    and "(n, shape) \<in> set (es_fts_shapes s)" and "seed_inv groups l \<and> seeds_placed seen l"
    and "loc_inv True (indexed_effects groups) (created_names, preexisting)" and "scan_inv s groups"
  shows "seed_inv groups l' \<and> seeds_placed seen l'"
proof (cases "sie_table_name effect = fts_content shape")
  case True
  with assms(1) obtain kind i rowids where c: "map_of created_names (key (sie_table_name effect)) = Some (kind, i)"
    and place: "place_seed effect (Suc i, Suc i) (l\<lparr>sl_rowid_keys := rowids\<rparr>) = Inr l'"
    by (auto simp: locate_fts_effect_def Let_def split: option.splits)
  from scan_inv_shape [OF assms(6,3)] have "(key (fts_content shape), fts_content shape) \<in> set (es_created_tables s)" by simp
  from scan_inv_created_table [OF assms(6) this] True have "\<exists>g \<in> set groups. creates_table (sie_table_name effect) g" by simp
  from place_seed_keeps [OF place _ created_location [OF assms(5) this c], of seen] assms(4) show ?thesis by simp
next
  case False
  with assms(1) obtain rowids where place: "place_seed effect (n, n) (l\<lparr>sl_rowid_keys := rowids\<rparr>) = Inr l'"
    by (cases "ends_with (sie_table_name effect) ''_data'' \<or> ends_with (sie_table_name effect) ''_docsize''")
      (auto simp: locate_fts_effect_def Let_def intro: that [of "sl_rowid_keys l"])
  from False assms(2) have "sie_table_name effect \<in> (@) (fts_table shape) ` {''_config'', ''_data'', ''_docsize'', ''_idx''}"
    by (auto simp: fts5_empty_physical_seed_effects_def fts_effect_def)
  then have "fts_object (sie_table_name effect) \<in> set (fts_created shape)" by (auto simp: fts_created_def)
  with scan_inv_shape [OF assms(6,3)] have "creates_table (sie_table_name effect) (groups ! (n - 1))" "0 < n" "n \<le> length groups"
    by (auto simp: creates_table_def fts_object_def)
  then have "located_at groups (sie_table_name effect) (n, n)" by (simp add: located_at_def)
  from place_seed_keeps [OF place _ this, of seen] assms(4) show ?thesis by simp
qed

lemma locate_empty_table_inv:
  assumes "locate_empty_table created_names declarations l entry = Inr l'" and "entry \<in> set (es_created_tables s)"
    and "seed_inv groups l \<and> seeds_placed seen l"
    and "loc_inv True (indexed_effects groups) (created_names, preexisting)" and "scan_inv s groups"
  shows "seed_inv groups l' \<and> seeds_placed seen l'"
proof -
  obtain k name where entry: "entry = (k, name)" by (cases entry)
  with scan_inv_created_table [OF assms(5)] assms(2) have k: "key name = k" "\<exists>g \<in> set groups. creates_table name g" by blast+
  show ?thesis
  proof (cases "map_of (sl_states l) k = None")
    case True
    with assms(1) entry obtain column kind i where c: "map_of created_names (key name) = Some (kind, i)"
      and place: "place_seed (fts_effect name [column] []) (Suc i, Suc i) l = Inr l'"
      by (auto simp: locate_empty_table_def result_simps k(1))
    have "sie_table_name (fts_effect name [column] []) = name" by (simp add: fts_effect_def)
    with place_seed_keeps [OF place assms(3)] created_location [OF assms(4) k(2) c] show ?thesis by simp
  qed (use assms(1,3) entry in \<open>auto simp: locate_empty_table_def\<close>)
qed

lemma locate_fts_inv:
  assumes "locate_fts s (created_names, preexisting) l = Inr l'" and "seed_inv groups l \<and> seeds_placed seen l"
    and "loc_inv True (indexed_effects groups) (created_names, preexisting)" and "scan_inv s groups"
  shows "seed_inv groups l' \<and> seeds_placed seen l'"
proof -
  let ?P = "\<lambda>l. seed_inv groups l \<and> seeds_placed seen l"
  from assms(1) obtain l1 where shapes: "try_fold (\<lambda>l (n, shape).
        try_fold (locate_fts_effect created_names n shape) l (fts5_empty_physical_seed_effects shape)) l (es_fts_shapes s) = Inr l1"
    and empties: "try_fold (locate_empty_table created_names (es_content_declarations s)) l1 (es_created_tables s) = Inr l'"
    by (auto simp: locate_fts_def result_simps split: if_splits)
  from shapes assms(2) have "?P l1"
  proof (rule try_fold_invariant, goal_cases)
    case (1 l x l')
    obtain n shape where x: "x = (n, shape)" by (cases x)
    with 1(3) have fold: "try_fold (locate_fts_effect created_names n shape) l (fts5_empty_physical_seed_effects shape) = Inr l'" by simp
    show ?case
      by (rule try_fold_invariant [where P = ?P, OF fold 1(2)]) (use 1(1) x locate_fts_effect_inv [OF _ _ _ _ assms(3,4)] in blast)
  qed
  from empties this show ?thesis
    by (rule try_fold_invariant) (use locate_empty_table_inv [OF _ _ _ assms(3,4)] in blast)
qed

lemma registry_of:
  assumes "seed_registry l = Inr registrations" and "seed_inv groups l"
  shows "(\<forall>r \<in> set registrations. located_at groups (sts_table_name (reg_state r)) (reg_created_prefix r, reg_seeded_prefix r)) \<and>
    (\<forall>k state c n. map_of (sl_states l) k = Some state \<and> map_of (sl_locations l) k = Some (c, n) \<longrightarrow>
      (\<exists>r \<in> set registrations. reg_state r = state \<and> reg_created_prefix r = c \<and> reg_seeded_prefix r = n))"
proof -
  let ?make = "\<lambda>state (c, n). \<lparr>reg_state = state, reg_created_prefix = c, reg_seeded_prefix = n\<rparr>"
  from assms(1) have all: "list_all2 (\<lambda>(k, state) r. \<exists>location. map_of (sl_locations l) k = Some location \<and> r = ?make state location)
      (sl_states l) registrations"
    unfolding seed_registry_def try_map_eq_Inr by (auto simp: result_simps elim!: list_all2_mono)
  have wf: "bmap_wf (sl_states l)" using assms(2) by (simp add: seed_inv_def)
  have "located_at groups (sts_table_name (reg_state r)) (reg_created_prefix r, reg_seeded_prefix r)" if "r \<in> set registrations" for r
  proof -
    from that obtain i where i: "i < length registrations" "r = registrations ! i" by (auto simp: in_set_conv_nth)
    obtain k state where e: "sl_states l ! i = (k, state)" by (cases "sl_states l ! i")
    from list_all2_nthD2 [OF all i(1)] e i(2) obtain location where
      location: "map_of (sl_locations l) k = Some location" and r: "r = ?make state location" by auto
    have "(k, state) \<in> set (sl_states l)" using e i(1) list_all2_lengthD [OF all] nth_mem by metis
    with wf have "map_of (sl_states l) k = Some state" by (simp add: bmap_get_iff)
    with assms(2) location have "located_at groups (sts_table_name state) location"
      unfolding seed_inv_def by (metis option.inject)
    with r show ?thesis by (cases location) simp
  qed
  moreover have "\<exists>r \<in> set registrations. reg_state r = state \<and> reg_created_prefix r = c \<and> reg_seeded_prefix r = n"
    if "map_of (sl_states l) k = Some state" "map_of (sl_locations l) k = Some (c, n)" for k state c n
  proof -
    from that(1) obtain i where i: "i < length (sl_states l)" "sl_states l ! i = (k, state)"
      by (metis in_set_conv_nth map_of_SomeD)
    from list_all2_nthD [OF all i(1)] i(2) that(2) have "registrations ! i = ?make state (c, n)" by simp
    moreover have "registrations ! i \<in> set registrations" using i(1) list_all2_lengthD [OF all] by simp
    ultimately show ?thesis by force
  qed
  ultimately show ?thesis by blast
qed

text \<open>The whole derivation with a seed plan.\<close>

definition seed_shape ::
  "D1MigrationManifestEntry list \<Rightarrow> DerivedEffectAssertion \<Rightarrow> ClassifiedEffect list list \<Rightarrow> SeedManifestPlan \<Rightarrow> bool" where
  "seed_shape manifest d groups seed_plan \<longleftrightarrow> derived_seed_plan d = Some seed_plan \<and>
     plan_states seed_plan = map (seed_state_at (registry seed_plan)) [0..<Suc (length manifest)] \<and>
     (\<forall>r \<in> set (registry seed_plan).
       located_at groups (sts_table_name (reg_state r)) (reg_created_prefix r, reg_seeded_prefix r)) \<and>
     (\<forall>j e. j < length manifest \<and> SeedRows e \<in> set (groups ! j) \<longrightarrow>
       (\<exists>r \<in> set (registry seed_plan). reg_state r = state_of e \<and> reg_seeded_prefix r = Suc j))"

lemma seed_derivation:
  assumes "derive_additive_effect_assertion manifest (Some v) = Inr d" and "length manifest < usize_MAX"
    and "try_fold (classify_migration (Some v)) effect_scan_start manifest = Inr s"
  shows "\<exists>seed_plan. seed_shape manifest d (es_migrations s) seed_plan"
proof -
  from assms(1) obtain s' created_names preexisting l0 l registrations where
    scan: "try_fold (classify_migration (Some v)) effect_scan_start manifest = Inr s'"
    and located: "locate_effects True (es_migrations s') = Inr (created_names, preexisting)"
    and seeds: "locate_seeds created_names (es_migrations s')
        \<lparr>sl_states = [], sl_locations = [], sl_rowid_keys = es_rowid_keys s'\<rparr> = Inr l0"
    and fts: "(if v = V3Fts then locate_fts s' (created_names, preexisting) l0 else Inr l0) = Inr l"
    and registered: "seed_registry l = Inr registrations"
    and plan: "derived_seed_plan d = Some
       \<lparr>plan_states = map (seed_state_at registrations) [0..<Suc (length (es_migrations s'))],
        strict_table_keys = es_strict_keys s', rowid_table_keys = sl_rowid_keys l,
        registry = registrations, preexisting_table_spellings = preexisting\<rparr>"
    by (rule derive_additive_Inr) simp
  from scan assms(3) have "s' = s" by simp
  let ?groups = "es_migrations s'"
  from classification_ok [OF scan] have inv: "scan_inv s' ?groups"
    and len: "length ?groups = length manifest" by (auto dest: list_all2_lengthD)
  note loc = locate_effects_inv [OF located]
  have "seed_inv ?groups l0 \<and> seeds_placed (indexed_effects ?groups) l0"
    by (rule locate_seeds_inv [OF seeds _ _ loc inv]) (use assms(2) len in simp_all)
  with fts locate_fts_inv [OF _ _ loc inv] have l: "seed_inv ?groups l" "seeds_placed (indexed_effects ?groups) l"
    by (auto split: if_splits)
  note r = registry_of [OF registered l(1)]
  have "\<exists>r \<in> set registrations. reg_state r = state_of e \<and> reg_seeded_prefix r = Suc j"
    if "j < length manifest" "SeedRows e \<in> set (?groups ! j)" for j e
  proof -
    from l(2) that len obtain c where "map_of (sl_states l) (key (sie_table_name e)) = Some (state_of e)"
      "map_of (sl_locations l) (key (sie_table_name e)) = Some (c, Suc j)"
      by (auto simp: seeds_placed_def indexed_effects_iff)
    with r show ?thesis by blast
  qed
  with plan r len show ?thesis unfolding seed_shape_def by (auto simp: \<open>s' = s\<close> simp del: upt_Suc)
qed

lemma set_additions: "a \<in> set (additions effects) \<longleftrightarrow> AddsColumn a \<in> set effects"
  by (induction effects) (auto simp: additions_def List.map_filter_def split: ClassifiedEffect.splits)

lemma single_addition:
  assumes "length (additions effects) \<le> 1"
  shows "(if additions effects = [] then None else Some (last (additions effects))) = Some a \<longleftrightarrow> AddsColumn a \<in> set effects"
proof -
  from assms consider "additions effects = []" | b where "additions effects = [b]"
    by (cases "additions effects"; cases "tl (additions effects)") auto
  then show ?thesis unfolding set_additions [symmetric] by cases auto
qed

lemma accounts_seed: "accounts version tokens effects \<Longrightarrow> SeedRows e \<in> set effects \<Longrightarrow> version \<noteq> None"
  by (auto elim!: accounts.cases simp: fts_created_def fts_object_def)

text \<open>C13: No statement of an additive manifest escapes the plan, and the plan holds
  nothing else: every statement of a migration is accounted for by exactly the effects its classifier
  states, and the plan of the prefix is those effects: the created objects, the one added column, the
  pragma, and for every seed statement a registered table with its rows at this prefix.
\<close>

theorem derivation_accounts_statements:
  assumes "derive_additive_effect_assertion manifest version = Inr d" and "i < length manifest" and "length manifest < usize_MAX"
  shows "\<exists>statements effects plan. tokenize_sql_statements (entry_sql (manifest ! i)) = Some statements \<and> statements \<noteq> [] \<and>
    list_all2 (accounts version) statements effects \<and> derived_additive_plan d = Some plan \<and>
    set (created_objects (prefixes plan ! i)) = {okey object | object. Create object \<in> set (concat effects)} \<and>
    (\<forall>a. addition (prefixes plan ! i) = Some a \<longleftrightarrow> AddsColumn a \<in> set (concat effects)) \<and>
    (foreign_keys_on (prefixes plan ! i) \<longleftrightarrow> SetsForeignKeysOn \<in> set (concat effects)) \<and>
    (\<forall>e. SeedRows e \<in> set (concat effects) \<longrightarrow> (\<exists>seed_plan r. derived_seed_plan d = Some seed_plan \<and>
      r \<in> set (registry seed_plan) \<and> reg_state r = state_of e \<and> reg_seeded_prefix r = i + 1))"
proof -
  obtain s baseline plans where scan: "try_fold (classify_migration version) effect_scan_start manifest = Inr s"
    and shape: "additive_shape manifest version d (es_migrations s) baseline plans"
    by (rule additive_derivation [OF assms(1)])
  from shape assms(2) have g: "list_all2 (migration_effects version) manifest (es_migrations s)"
    and plan: "derived_additive_plan d = Some \<lparr>prefixes = plans\<rparr>"
    and created: "set (created_objects (plans ! i)) = okey ` set (creates (es_migrations s ! i))"
    and added: "addition (plans ! i) =
      (if additions (es_migrations s ! i) = [] then None else Some (last (additions (es_migrations s ! i))))"
    and pragma: "foreign_keys_on (plans ! i) \<longleftrightarrow> SetsForeignKeysOn \<in> set (es_migrations s ! i)"
    unfolding additive_shape_def by blast+
  from list_all2_nthD [OF g assms(2)] obtain statements effects where
    statements: "tokenize_sql_statements (entry_sql (manifest ! i)) = Some statements" "statements \<noteq> []"
    "list_all2 (accounts version) statements effects" and e: "es_migrations s ! i = concat effects"
    and few: "length (additions (concat effects)) \<le> 1"
    by (auto simp: migration_effects_def)
  have "\<exists>seed_plan r. derived_seed_plan d = Some seed_plan \<and> r \<in> set (registry seed_plan) \<and> reg_state r = state_of e' \<and>
      reg_seeded_prefix r = i + 1" if seed: "SeedRows e' \<in> set (concat effects)" for e'
  proof -
    from seed obtain k where "k < length effects" "SeedRows e' \<in> set (effects ! k)" by (metis in_set_conv_nth set_concat UN_E)
    with accounts_seed [OF list_all2_nthD2 [OF statements(3)]] obtain v where v: "version = Some v" by blast
    from seed_derivation [OF assms(1) [unfolded v] assms(3)] scan v obtain seed_plan where
      "seed_shape manifest d (es_migrations s) seed_plan" by blast
    with assms(2) e seed show ?thesis unfolding seed_shape_def by (metis Suc_eq_plus1)
  qed
  moreover have "set (created_objects (plans ! i)) = {okey object | object. Create object \<in> set (concat effects)}"
  proof -
    have "set (creates (concat effects)) = {object. Create object \<in> set (concat effects)}" using set_creates by blast
    then show ?thesis unfolding created e by (simp add: image_Collect)
  qed
  moreover have "\<forall>a. addition (plans ! i) = Some a \<longleftrightarrow> AddsColumn a \<in> set (concat effects)"
    using single_addition [OF few] unfolding added e by blast
  ultimately show ?thesis
    using statements plan pragma e by (intro exI [of _ statements] exI [of _ effects] exI [of _ "\<lparr>prefixes = plans\<rparr>"]) simp
qed

text \<open>A created object is in no state before the migration that creates it.\<close>

lemma absent_before_creation:
  assumes "additive_shape manifest version d groups baseline plans" and "length groups = length manifest"
    and "i < j" and "j \<le> length manifest" and "Create object \<in> set (groups ! (j - 1))"
  shows "okey object \<notin> okey ` set (derived_states d ! i)"
proof
  let ?id = "\<lambda>object. identity_key (version \<noteq> None) (object_name object)"
  assume "okey object \<in> okey ` set (derived_states d ! i)"
  then obtain other where other: "other \<in> set (derived_states d ! i)" "?id other = ?id object" by auto
  from assms(1) have states: "set (derived_states d ! i) = baseline \<union> set (creates (concat (take i groups)))"
    and once: "distinct (map (?id) (creates (concat groups)))"
    and fresh: "\<And>o' b. o' \<in> set (creates (concat groups)) \<Longrightarrow> b \<in> baseline \<Longrightarrow> ?id o' \<noteq> ?id b"
    using assms(3,4) unfolding additive_shape_def comp_def by auto
  have "groups ! (j - 1) \<in> set (drop i groups)"
    using assms(2-4) by (auto simp: in_set_conv_nth intro!: exI [of _ "j - 1 - i"])
  with assms(5) have late: "object \<in> set (creates (concat (drop i groups)))" unfolding set_creates by auto
  have "concat groups = concat (take i groups) @ concat (drop i groups)" by (metis append_take_drop_id concat_append)
  then have split: "creates (concat groups) = creates (concat (take i groups)) @ creates (concat (drop i groups))" by simp
  from other(1) states consider "other \<in> baseline" | "other \<in> set (creates (concat (take i groups)))" by blast
  then show False
  proof cases
    case 1
    with fresh [of object other] late split other(2) show ?thesis by simp
  next
    case 2
    with once late other(2) show ?thesis unfolding split by (auto simp: image_iff)
  qed
qed

text \<open>C37: Every registered seed table is created by the migration of its created prefix, in whose
  plan it stands and before which no derived state has it, and seeded there or later. The seed plan of every prefix is
  exactly the registered tables created so far, in the order of the registry: with no rows before the prefix
  that seeds them and with all their rows from it on; and the derived state of the prefix has each of these tables.
\<close>

theorem seed_registry_sound:
  assumes "derive_additive_effect_assertion manifest (Some v) = Inr d" and "length manifest < usize_MAX"
  shows "\<exists>seed_plan plan. derived_seed_plan d = Some seed_plan \<and> derived_additive_plan d = Some plan \<and>
    length (plan_states seed_plan) = length manifest + 1 \<and>
    (\<forall>r \<in> set (registry seed_plan). 0 < reg_created_prefix r \<and> reg_created_prefix r \<le> reg_seeded_prefix r \<and>
      reg_seeded_prefix r \<le> length manifest \<and>
      (''table'', sts_table_name (reg_state r)) \<in> set (created_objects (prefixes plan ! (reg_created_prefix r - 1))) \<and>
      (\<forall>k \<le> length manifest. (''table'', sts_table_name (reg_state r)) \<in> okey ` set (derived_states d ! k) \<longleftrightarrow>
        reg_created_prefix r \<le> k)) \<and>
    (\<forall>k \<le> length manifest. plan_states seed_plan ! k =
      [if k < reg_seeded_prefix r then (reg_state r)\<lparr>sts_rows := []\<rparr> else reg_state r.
        r \<leftarrow> registry seed_plan, reg_created_prefix r \<le> k])"
proof -
  obtain s baseline plans where scan: "try_fold (classify_migration (Some v)) effect_scan_start manifest = Inr s"
    and shape: "additive_shape manifest (Some v) d (es_migrations s) baseline plans"
    by (rule additive_derivation [OF assms(1)])
  from shape have g: "list_all2 (migration_effects (Some v)) manifest (es_migrations s)"
    and states: "\<And>k. k \<le> length manifest \<Longrightarrow> set (derived_states d ! k) = baseline \<union> set (creates (concat (take k (es_migrations s))))"
    and plan: "derived_additive_plan d = Some \<lparr>prefixes = plans\<rparr>"
    and created: "\<And>i. i < length manifest \<Longrightarrow> set (created_objects (plans ! i)) = okey ` set (creates (es_migrations s ! i))"
    unfolding additive_shape_def by blast+
  from seed_derivation [OF assms scan] obtain seed_plan where sp: "derived_seed_plan d = Some seed_plan"
    and at: "plan_states seed_plan = map (seed_state_at (registry seed_plan)) [0..<Suc (length manifest)]"
    and loc: "\<And>r. r \<in> set (registry seed_plan) \<Longrightarrow>
       located_at (es_migrations s) (sts_table_name (reg_state r)) (reg_created_prefix r, reg_seeded_prefix r)"
    unfolding seed_shape_def by blast
  have len: "length (es_migrations s) = length manifest" using list_all2_lengthD [OF g] by simp
  have registered: "0 < reg_created_prefix r \<and> reg_created_prefix r \<le> reg_seeded_prefix r \<and> reg_seeded_prefix r \<le> length manifest \<and>
      (''table'', sts_table_name (reg_state r)) \<in> set (created_objects (plans ! (reg_created_prefix r - 1))) \<and>
      (\<forall>k \<le> length manifest. (''table'', sts_table_name (reg_state r)) \<in> okey ` set (derived_states d ! k) \<longleftrightarrow>
        reg_created_prefix r \<le> k)" if "r \<in> set (registry seed_plan)" for r
  proof -
    let ?j = "reg_created_prefix r"
    from loc [OF that] len obtain object where o: "Create object \<in> set (es_migrations s ! (?j - 1))"
      "okey object = (''table'', sts_table_name (reg_state r))"
      and bounds: "0 < ?j" "?j \<le> reg_seeded_prefix r" "reg_seeded_prefix r \<le> length manifest"
      by (auto simp: located_at_def creates_table_def)
    have "okey object \<in> okey ` set (derived_states d ! k)" if "?j \<le> k" "k \<le> length manifest" for k
    proof -
      have "es_migrations s ! (?j - 1) \<in> set (take k (es_migrations s))"
        using that bounds len by (auto simp: in_set_conv_nth intro!: exI [of _ "?j - 1"])
      with o(1) have "object \<in> set (creates (concat (take k (es_migrations s))))" unfolding set_creates by auto
      with states [OF that(2)] show ?thesis by blast
    qed
    moreover have "okey object \<notin> okey ` set (derived_states d ! k)" if "k < ?j" for k
      by (rule absent_before_creation [OF shape len that _ o(1)]) (use bounds in simp)
    moreover have "okey object \<in> set (created_objects (plans ! (?j - 1)))"
      using created [of "?j - 1"] bounds o(1) by (auto simp: set_creates)
    ultimately show ?thesis unfolding o(2) [symmetric] using bounds by (meson not_le)
  qed
  have comprehension: "[if k < reg_seeded_prefix r then (reg_state r)\<lparr>sts_rows := []\<rparr> else reg_state r.
      r \<leftarrow> rs, reg_created_prefix r \<le> k] = seed_state_at rs k" for rs k
    by (induction rs) (simp_all add: seed_state_at_def)
  have "plan_states seed_plan ! k = seed_state_at (registry seed_plan) k" if "k \<le> length manifest" for k
    using that by (simp add: at del: upt_Suc)
  moreover have "length (plan_states seed_plan) = length manifest + 1" by (simp add: at)
  ultimately show ?thesis
    using sp plan registered unfolding comprehension by (intro exI [of _ seed_plan] exI [of _ "\<lparr>prefixes = plans\<rparr>"]) simp
qed

end
