(* ===== verification/D1_Expectations_Sound.thy ===== *)
theory D1_Expectations_Sound
  imports D1_Expectations D1_Plan_Sound D1_Seed_Sound "HOL-Library.Multiset"
begin

text \<open>
  What an accepted replay of reviewed state expectations means: every state lists exactly the derived
  objects, no object of any state is the migrations table, the digest returned binds the expectations,
  and no step of the validation panics.
\<close>

section \<open>The derived states\<close>

lemma create_statement_grows:
  assumes "create_statement allow message s tokens = Inr s'"
  shows "snd ` set (cs_cumulative s) \<subseteq> snd ` set (cs_cumulative s')"
proof -
  from assms obtain object where "map_of (cs_cumulative s) (okey object) = None"
    and "cs_cumulative s' = bmap_insert (okey object) object (cs_cumulative s)"
    by (auto simp: create_statement_def Let_def result_simps simp del: not_None_eq split: option.splits if_splits)
  then show ?thesis by (auto simp: set_bmap_insert_new image_iff)
qed

definition create_inv :: "D1MigrationManifestEntry list \<Rightarrow> create_scan \<times> DerivedSchemaObject list list \<Rightarrow> bool" where
  "create_inv seen state \<longleftrightarrow> (case state of (s, states) \<Rightarrow>
     length states = Suc (length seen) \<and> set (last states) = snd ` set (cs_cumulative s) \<and>
     (\<forall>objects \<in> set states. set objects \<subseteq> snd ` set (cs_cumulative s)))"

lemma create_migration_inv:
  assumes "create_migration allow message state migration = Inr state'" and "create_inv seen state"
  shows "create_inv (seen @ [migration]) state'"
proof -
  obtain s states where state: "state = (s, states)" by fastforce
  from assms(1) state obtain statements s' where
    fold: "try_fold (create_statement allow message) s statements = Inr s'"
    and state': "state' = (s', states @ [map snd (cs_cumulative s')])"
    by (auto simp: create_migration_def result_simps split: if_splits)
  from fold have "snd ` set (cs_cumulative s) \<subseteq> snd ` set (cs_cumulative s')"
    by (rule try_fold_invariant [where P = "\<lambda>t. snd ` set (cs_cumulative s) \<subseteq> snd ` set (cs_cumulative t)"])
      (use create_statement_grows in blast)+
  with assms(2) state state' show ?thesis by (fastforce simp: create_inv_def)
qed

lemma create_states:
  assumes "derive_create_effects allow message manifest = Inr d"
  shows "length (derived_states d) = Suc (length manifest)" and "derived_seed_plan d = None" and "derived_additive_plan d = None"
    and "\<forall>objects \<in> set (derived_states d). set objects \<subseteq> set (last (derived_states d))"
proof -
  from assms obtain s where
    fold: "try_fold (create_migration allow message) (\<lparr>cs_cumulative = [], cs_names = [], cs_trigger_values = []\<rparr>, [[]]) manifest =
      Inr (s, derived_states d)" and d: "derived_seed_plan d = None" "derived_additive_plan d = None"
    by (auto simp: derive_create_effects_def result_simps)
  have "create_inv manifest (s, derived_states d)"
    by (rule try_fold_prefix_invariant [OF fold]) (simp add: create_inv_def, rule create_migration_inv)
  with d show "length (derived_states d) = Suc (length manifest)" "derived_seed_plan d = None" "derived_additive_plan d = None"
    "\<forall>objects \<in> set (derived_states d). set objects \<subseteq> set (last (derived_states d))"
    by (auto simp: create_inv_def)
qed

lemma additive_states:
  assumes "derive_additive_effect_assertion manifest version = Inr d"
  shows "length (derived_states d) = Suc (length manifest)"
    and "\<forall>objects \<in> set (derived_states d). set objects \<subseteq> set (last (derived_states d))"
proof -
  obtain s baseline plans where "try_fold (classify_migration version) effect_scan_start manifest = Inr s"
    and "additive_shape manifest version d (es_migrations s) baseline plans"
    by (rule additive_derivation [OF assms])
  then have len: "length (derived_states d) = Suc (length manifest)"
    and states: "\<And>k. k \<le> length manifest \<Longrightarrow> set (derived_states d ! k) = baseline \<union> set (creates (concat (take k (es_migrations s))))"
    and groups: "length (es_migrations s) = length manifest"
    by (auto simp: additive_shape_def list_all2_lengthD)
  show "length (derived_states d) = Suc (length manifest)" by (rule len)
  have "last (derived_states d) = derived_states d ! length manifest"
    using len by (simp add: last_conv_nth flip: length_greater_0_conv)
  then have all: "set (last (derived_states d)) = baseline \<union> set (creates (concat (es_migrations s)))"
    using states [of "length manifest"] groups by simp
  have taken: "set (creates (concat (take k (es_migrations s)))) \<subseteq> set (creates (concat (es_migrations s)))" for k
    by (auto simp: set_creates) (meson in_set_takeD)
  show "\<forall>objects \<in> set (derived_states d). set objects \<subseteq> set (last (derived_states d))"
  proof
    fix objects assume "objects \<in> set (derived_states d)"
    then obtain k where "k \<le> length manifest" "objects = derived_states d ! k"
      using len by (metis in_set_conv_nth less_Suc_eq_le)
    then show "set objects \<subseteq> set (last (derived_states d))" using states [of k] taken [of k] all by auto
  qed
qed

lemma canonical_assertion:
  assumes "derive_effect_assertion_details (Some name) manifest = Inr d"
  shows "(\<exists>allow message. derive_create_effects allow message manifest = Inr d) \<or>
    (\<exists>version. derive_additive_effect_assertion manifest version = Inr d)"
  using assms by (auto simp: derive_effect_assertion_details_def result_simps split: if_splits)

lemma details_states:
  assumes "derive_effect_assertion_details (Some name) manifest = Inr d"
  shows "length (derived_states d) = Suc (length manifest)"
    and "\<forall>objects \<in> set (derived_states d). set objects \<subseteq> set (last (derived_states d))"
  using canonical_assertion [OF assms] create_states(1,4) additive_states by metis+

section \<open>The seed plan\<close>

definition rectangular :: "SeedTableState \<Rightarrow> bool" where
  "rectangular state \<longleftrightarrow> (\<forall>row \<in> set (sts_rows state). length row = length (sts_columns state))"

definition all_rectangular :: "seed_locations \<Rightarrow> bool" where
  "all_rectangular l \<longleftrightarrow> (\<forall>state \<in> snd ` set (sl_states l). rectangular state)"

lemma all_rectangular_rowid [simp]: "all_rectangular (l\<lparr>sl_rowid_keys := keys\<rparr>) = all_rectangular l"
  by (simp add: all_rectangular_def)

lemma place_seed_rectangular:
  assumes "place_seed effect location l = Inr l'" and "all_rectangular l"
    and "sie_version effect = V3Fts \<or> rectangular (state_of effect)"
  shows "all_rectangular l'"
proof -
  from assms(1) obtain states where inserted: "insert_seed_effect (sl_states l) effect = Inr states" and "sl_states l' = states"
    by (auto simp: place_seed_def result_simps)
  moreover have "states = bmap_insert (key (sie_table_name effect)) (state_of effect) (sl_states l)"
    using insert_seed_effect_Inr [OF inserted] by simp
  moreover have "rectangular (state_of effect)"
    using assms(3) inserted
    by (auto simp: insert_seed_effect_def synthesized_bounded_def list_all_iff rectangular_def state_of_def split: if_splits)
  ultimately show ?thesis using assms(2) set_bmap_insert [of "key (sie_table_name effect)" "state_of effect" "sl_states l"]
    by (auto simp: all_rectangular_def)
qed

lemma accounts_rectangular:
  assumes "accounts version tokens effects" and "SeedRows e \<in> set effects"
  shows "rectangular (state_of e)"
  using assms
  by (cases rule: accounts.cases)
    (auto simp: fts_created_def fts_object_def rectangular_def state_of_def seed_effect_wf_def row_wf_def dest!: classified_effect_wf)

lemma groups_rectangular:
  assumes "list_all2 (migration_effects version) manifest groups" and "SeedRows e \<in> set (concat groups)"
  shows "rectangular (state_of e)"
proof -
  from assms(2) obtain i where i: "i < length groups" "SeedRows e \<in> set (groups ! i)"
    by (metis UN_E in_set_conv_nth set_concat)
  from list_all2_nthD2 [OF assms(1) i(1)] obtain statements effects where
    "list_all2 (accounts version) statements effects" "groups ! i = concat effects" by (auto simp: migration_effects_def)
  moreover from this(2) i(2) obtain j where "j < length effects" "SeedRows e \<in> set (effects ! j)"
    by (metis UN_E in_set_conv_nth set_concat)
  ultimately have "accounts version (statements ! j) (effects ! j)" by (simp add: list_all2_nthD2)
  with \<open>SeedRows e \<in> set (effects ! j)\<close> show ?thesis by (blast intro: accounts_rectangular)
qed

lemma locate_seeds_rectangular:
  assumes "locate_seeds created_names groups l = Inr l'" and "all_rectangular l"
    and "\<And>e. SeedRows e \<in> set (concat groups) \<Longrightarrow> rectangular (state_of e)"
  shows "all_rectangular l'"
proof -
  have "try_fold (\<lambda>l (i, e). locate_seed created_names i l e) l (indexed_effects groups) = Inr l'"
    using assms(1) by (simp add: locate_seeds_def try_fold_indexed_effects)
  then show ?thesis
  proof (rule try_fold_prefix_invariant [where P = "\<lambda>_. all_rectangular"])
    fix seen x and s s' :: seed_locations
    assume inv: "all_rectangular s" and "x \<in> set (indexed_effects groups)"
      and step: "(case x of (i, e) \<Rightarrow> locate_seed created_names i s e) = Inr s'"
    then obtain i e where x: "x = (i, e)" "e \<in> set (concat groups)"
      by (cases x) (force simp flip: snd_indexed_effects)
    show "all_rectangular s'"
    proof (cases e)
      case (SeedRows effect)
      with step x inv assms(3) [of effect] show ?thesis
        by (auto intro: place_seed_rectangular split: option.splits if_splits)
    qed (use step x inv in auto)
  qed (rule assms(2))
qed

lemma locate_fts_effect_rectangular:
  assumes "locate_fts_effect created_names n shape l effect = Inr l'" and "all_rectangular l" and "sie_version effect = V3Fts"
  shows "all_rectangular l'"
  using assms by (auto simp: locate_fts_effect_def Let_def intro: place_seed_rectangular split: if_splits option.splits prod.splits)

lemma locate_empty_table_rectangular:
  assumes "locate_empty_table created_names declarations l entry = Inr l'" and "all_rectangular l"
  shows "all_rectangular l'"
proof -
  have "sie_version (fts_effect name columns rows) = V3Fts" for name columns rows by (simp add: fts_effect_def)
  with assms show ?thesis
    by (cases entry) (auto simp: locate_empty_table_def result_simps intro: place_seed_rectangular split: if_splits)
qed

lemma locate_fts_rectangular:
  assumes "locate_fts s (created_names, preexisting) l = Inr l'" and "all_rectangular l"
  shows "all_rectangular l'"
proof -
  from assms(1) obtain m where
    shapes: "try_fold (\<lambda>l (created_prefix, shape). try_fold (locate_fts_effect created_names created_prefix shape) l
      (fts5_empty_physical_seed_effects shape)) l (es_fts_shapes s) = Inr m"
    and empty: "try_fold (locate_empty_table created_names (es_content_declarations s)) m (es_created_tables s) = Inr l'"
    by (auto simp: locate_fts_def result_simps split: if_splits)
  have "\<forall>effect \<in> set (fts5_empty_physical_seed_effects shape). sie_version effect = V3Fts" for shape
    by (simp add: fts5_empty_physical_seed_effects_def fts_effect_def)
  then have family: "all_rectangular l2" if "try_fold (locate_fts_effect created_names n shape) l1 (fts5_empty_physical_seed_effects shape) = Inr l2"
    "all_rectangular l1" for n shape l1 l2
    by (intro try_fold_invariant [OF that(1), of all_rectangular] that(2)) (blast intro: locate_fts_effect_rectangular)
  then have "all_rectangular m"
    by (intro try_fold_invariant [OF shapes, of all_rectangular] assms(2)) (auto split: prod.splits)
  then show ?thesis
    by (intro try_fold_invariant [OF empty, of all_rectangular]) (auto intro: locate_empty_table_rectangular)
qed

lemma seed_plan_shape:
  assumes "derive_effect_assertion_details (Some name) manifest = Inr d" and "derived_seed_plan d = Some plan"
  shows "length (plan_states plan) = Suc (length manifest)"
    and "\<forall>states \<in> set (plan_states plan). \<forall>state \<in> set states. rectangular state"
    and "\<forall>(k, spelling) \<in> set (preexisting_table_spellings plan). key spelling = k"
proof -
  from canonical_assertion [OF assms(1)] assms(2) create_states(2) obtain version where
    d: "derive_additive_effect_assertion manifest version = Inr d" by fastforce
  then obtain s created_names preexisting l0 l registrations where
    scan: "try_fold (classify_migration version) effect_scan_start manifest = Inr s"
    and located: "locate_effects (version \<noteq> None) (es_migrations s) = Inr (created_names, preexisting)"
    and seeds: "(if version \<noteq> None then locate_seeds created_names (es_migrations s)
        \<lparr>sl_states = [], sl_locations = [], sl_rowid_keys = es_rowid_keys s\<rparr>
      else Inr \<lparr>sl_states = [], sl_locations = [], sl_rowid_keys = es_rowid_keys s\<rparr>) = Inr l0"
    and fts: "(if version = Some V3Fts then locate_fts s (created_names, preexisting) l0 else Inr l0) = Inr l"
    and registered: "seed_registry l = Inr registrations"
    and seed_plan: "derived_seed_plan d = (if version = None then None else Some
       \<lparr>plan_states = map (seed_state_at registrations) [0..<Suc (length (es_migrations s))],
        strict_table_keys = es_strict_keys s, rowid_table_keys = sl_rowid_keys l,
        registry = registrations, preexisting_table_spellings = preexisting\<rparr>)"
    by (rule derive_additive_Inr)
  from seed_plan assms(2) have version: "version \<noteq> None"
    and plan: "plan_states plan = map (seed_state_at registrations) [0..<Suc (length (es_migrations s))]"
      "preexisting_table_spellings plan = preexisting"
    by (auto split: if_splits)
  from classification_ok [OF scan] have groups: "list_all2 (migration_effects version) manifest (es_migrations s)" by simp
  then show "length (plan_states plan) = Suc (length manifest)" using plan(1) by (simp add: list_all2_lengthD del: upt_Suc)
  from version seeds have "locate_seeds created_names (es_migrations s)
      \<lparr>sl_states = [], sl_locations = [], sl_rowid_keys = es_rowid_keys s\<rparr> = Inr l0" by simp
  then have "all_rectangular l0"
    by (rule locate_seeds_rectangular [OF _ _ groups_rectangular [OF groups]]) (simp add: all_rectangular_def)
  then have "all_rectangular l" using fts by (auto intro: locate_fts_rectangular split: if_splits)
  moreover have "reg_state r \<in> snd ` set (sl_states l)" if r: "r \<in> set registrations" for r
  proof -
    from registered have all: "list_all2 (\<lambda>(k, state) r. reg_state r = state) (sl_states l) registrations"
      unfolding seed_registry_def try_map_eq_Inr by (auto simp: result_simps elim!: list_all2_mono)
    from r obtain i where i: "i < length registrations" "r = registrations ! i" by (auto simp: in_set_conv_nth)
    with list_all2_nthD2 [OF all i(1)] have "reg_state r = snd (sl_states l ! i)" by (simp add: case_prod_beta)
    moreover have "sl_states l ! i \<in> set (sl_states l)" using i(1) list_all2_lengthD [OF all] by simp
    ultimately show ?thesis by simp
  qed
  ultimately have "\<forall>r \<in> set registrations. rectangular (reg_state r)" unfolding all_rectangular_def by blast
  then show "\<forall>states \<in> set (plan_states plan). \<forall>state \<in> set states. rectangular state"
    by (auto simp: plan(1) seed_state_at_def rectangular_def simp del: upt_Suc)
  from locate_effects_inv [OF located] version show "\<forall>(k, spelling) \<in> set (preexisting_table_spellings plan). key spelling = k"
    by (auto simp: plan(2) loc_inv_def identity_key_def)
qed

section \<open>Objects and tables of an accepted state\<close>

definition supplied_of :: "D1MigrationSchemaObjectExpectation \<Rightarrow> DerivedSchemaObject" where
  "supplied_of object = \<lparr>object_type = obj_type object, object_name = obj_name object, table_name = obj_table_name object\<rparr>"

definition table_objects :: "D1MigrationSchemaObjectExpectation list \<Rightarrow> string set" where
  "table_objects objects = obj_name ` {object \<in> set objects. obj_type object = ''table''}"

lemma validate_object_Inr:
  assumes "validate_object s object = Inr s'"
  shows "(obj_type object = ''table'' \<longrightarrow> obj_table_name object = obj_name object) \<and> os_supplied s' = os_supplied s @ [supplied_of object] \<and>
    set (os_table_objects s') = set (os_table_objects s) \<union> table_objects [object]"
  using assms by (auto simp: validate_object_def Let_def result_simps supplied_of_def table_objects_def split: if_splits)

definition objects_inv :: "D1MigrationSchemaObjectExpectation list \<Rightarrow> object_scan \<Rightarrow> bool" where
  "objects_inv seen s \<longleftrightarrow> os_supplied s = map supplied_of seen \<and> set (os_table_objects s) = table_objects seen \<and>
     (\<forall>object \<in> set seen. obj_type object = ''table'' \<longrightarrow> obj_table_name object = obj_name object)"

lemma validate_objects_Inr:
  assumes "try_fold validate_object \<lparr>os_previous = None, os_table_objects = [], os_supplied = [], os_names = names\<rparr> objects = Inr s"
  shows "objects_inv objects s"
proof (rule try_fold_prefix_invariant [OF assms])
  show "objects_inv (seen @ [object]) s'" if "objects_inv seen s" "validate_object s object = Inr s'" for seen object s s'
    using that(1) validate_object_Inr [OF that(2)] by (auto simp: objects_inv_def table_objects_def)
qed (simp add: objects_inv_def table_objects_def)

definition tables_inv :: "string list \<Rightarrow> D1MigrationTableExpectation list \<Rightarrow> table_scan \<Rightarrow> bool" where
  "tables_inv objects seen s \<longleftrightarrow> set (ts_table_objects s) \<subseteq> set objects \<and> tab_name ` set seen \<subseteq> set objects \<and>
     set objects \<subseteq> set (ts_table_objects s) \<union> tab_name ` set seen"

lemma validate_table_inv:
  assumes "validate_table seeded s table = Inr s'" and "tables_inv objects seen s"
  shows "tables_inv objects (seen @ [table]) s'"
proof -
  have removed: "set xs \<subseteq> insert x (set (remove1 x xs))" "set (remove1 x xs) \<subseteq> set xs" for x :: string and xs
    by (induction xs) auto
  from assms(1) have "tab_name table \<in> set (ts_table_objects s)" "ts_table_objects s' = remove1 (tab_name table) (ts_table_objects s)"
    by (auto simp: validate_table_def Let_def result_simps split: if_splits)
  with assms(2) removed(1) [of "ts_table_objects s" "tab_name table"] removed(2) [of "tab_name table" "ts_table_objects s"] show ?thesis by (auto simp: tables_inv_def)
qed

lemma validate_state_tables_Inr:
  assumes "validate_state_tables seeded state s = Inr s'"
  shows "tab_name ` set (tables state) = set (ts_table_objects s)"
    and "kind \<in> {''index'', ''trigger''} \<Longrightarrow> object \<in> set (schema_objects state) \<Longrightarrow> obj_type object = kind \<Longrightarrow>
      obj_table_name object \<in> tab_name ` set (tables state)"
proof -
  from assms have fold: "try_fold (validate_table seeded) s (tables state) = Inr s'"
    and finished: "ts_table_objects s' = []" "\<not> orphan ''index'' state" "\<not> orphan ''trigger'' state"
    by (auto simp: validate_state_tables_def result_simps split: if_splits)
  have "tables_inv (ts_table_objects s) (tables state) s'"
    by (rule try_fold_prefix_invariant [OF fold]) (simp add: tables_inv_def, rule validate_table_inv)
  with finished show "tab_name ` set (tables state) = set (ts_table_objects s)" by (auto simp: tables_inv_def)
  show "kind \<in> {''index'', ''trigger''} \<Longrightarrow> object \<in> set (schema_objects state) \<Longrightarrow> obj_type object = kind \<Longrightarrow>
      obj_table_name object \<in> tab_name ` set (tables state)"
    using finished(2,3) by (auto simp: orphan_def list_ex_iff image_iff) (metis)+
qed

text \<open>The name a supplied object has after the normalization of the source.\<close>

definition normalized :: "SeedManifestPlan option \<Rightarrow> D1MigrationSchemaObjectExpectation \<Rightarrow> DerivedSchemaObject" where
  "normalized seed_plan object =
     (case seed_plan of None \<Rightarrow> supplied_of object
      | Some plan \<Rightarrow> normalize_supplied (preexisting_table_spellings plan) (supplied_of object))"

definition state_exact ::
  "env \<Rightarrow> DerivedSchemaObject list list \<Rightarrow> SeedManifestPlan option \<Rightarrow> nat \<Rightarrow> state_expectation \<Rightarrow> bool" where
  "state_exact E derived seed_plan k state \<longleftrightarrow> manifest_prefix_length state = k \<and>
     mset (map (normalized seed_plan) (schema_objects state)) = mset (derived ! k) \<and>
     tab_name ` set (tables state) = table_objects (schema_objects state) \<and>
     (\<forall>object \<in> set (schema_objects state). (obj_type object = ''table'' \<longrightarrow> obj_table_name object = obj_name object) \<and>
       (obj_type object \<in> {''index'', ''trigger''} \<longrightarrow> obj_table_name object \<in> tab_name ` set (tables state))) \<and>
     seed_tables state = state_summaries E (derived_seed_state seed_plan k)"

lemma validate_reviewed_state_Inr:
  assumes "validate_reviewed_state E derived seed_plan s (k, state) = Inr s'"
  shows "state_exact E derived seed_plan k state"
proof -
  from assms obtain objects t where
    prefix: "manifest_prefix_length state = k" and seeds: "validate_state_seeds E seed_plan k state = Inr ()"
    and os: "validate_state_objects derived seed_plan k state (xs_object_names s) = Inr objects"
    and ts: "validate_state_tables (seed_plan \<noteq> None) state \<lparr>ts_previous = None,
       ts_table_objects = os_table_objects objects, ts_spellings = xs_spellings s, ts_names = xs_table_names s\<rparr> = Inr t"
    by (auto simp: validate_reviewed_state_def result_simps split: if_splits)
  from seeds have seed: "seed_tables state = state_summaries E (derived_seed_state seed_plan k)"
    by (auto simp: validate_state_seeds_def Let_def result_simps split: if_splits)
  from os obtain expected where fold: "try_fold validate_object
      \<lparr>os_previous = None, os_table_objects = [], os_supplied = [], os_names = xs_object_names s\<rparr> (schema_objects state) = Inr objects"
    and get: "list_get derived k = Some expected"
    and sorted: "sort_key identity_order (case seed_plan of None \<Rightarrow> os_supplied objects
      | Some plan \<Rightarrow> map (normalize_supplied (preexisting_table_spellings plan)) (os_supplied objects)) = sort_key identity_order expected"
    by (auto simp: validate_state_objects_def Let_def result_simps or_panic_def split: if_splits option.splits)
  have inv: "objects_inv (schema_objects state) objects" by (rule validate_objects_Inr [OF fold])
  then have "(case seed_plan of None \<Rightarrow> os_supplied objects
      | Some plan \<Rightarrow> map (normalize_supplied (preexisting_table_spellings plan)) (os_supplied objects)) =
      map (normalized seed_plan) (schema_objects state)"
    by (auto simp: objects_inv_def normalized_def split: option.split)
  with sorted have "mset (map (normalized seed_plan) (schema_objects state)) = mset expected" by (metis mset_sort)
  moreover have "expected = derived ! k" using get by (auto simp: list_get_def split: if_splits)
  ultimately show ?thesis
    using prefix seed inv validate_state_tables_Inr [OF ts] by (auto simp: state_exact_def objects_inv_def)
qed

lemma validate_expectations_Inr:
  assumes "validate_expectations E derived seed_plan states = Inr validated"
  shows "val_states validated = states \<and> val_proof_sha256 validated = hash_serialized E (SSeq (map ser_expectation states)) \<and>
    length states = length derived \<and> (\<forall>k < length states. state_exact E derived seed_plan k (states ! k))"
proof -
  from assms obtain s where
    fold: "try_fold (validate_reviewed_state E derived seed_plan)
          \<lparr>xs_previous_prefix = None, xs_object_names = [], xs_table_names = [], xs_spellings = [], xs_seed_states = []\<rparr>
          (enumerate 0 states) = Inr s"
    and rest: "val_states validated = states" "val_proof_sha256 validated = hash_serialized E (SSeq (map ser_expectation states))"
      "length states = length derived"
    by (auto simp: validate_expectations_def result_simps split: if_splits)
  have "state_exact E derived seed_plan k (states ! k)" if "k < length states" for k
  proof -
    have "(k, states ! k) \<in> set (enumerate 0 states)" using that by (simp add: in_set_enumerate_eq)
    from try_fold_each [OF fold this] obtain t t' where "validate_reviewed_state E derived seed_plan t (k, states ! k) = Inr t'" by blast
    then show ?thesis by (rule validate_reviewed_state_Inr)
  qed
  with rest show ?thesis by blast
qed

section \<open>Accepted replays\<close>

lemma normalized_keys:
  assumes "\<And>plan. seed_plan = Some plan \<Longrightarrow> \<forall>(k, spelling) \<in> set (preexisting_table_spellings plan). key spelling = k"
    and "obj_type object = ''table'' \<longrightarrow> obj_table_name object = obj_name object"
  shows "key (object_name (normalized seed_plan object)) = key (obj_name object)"
    and "key (table_name (normalized seed_plan object)) = key (obj_table_name object)"
  using assms
  by (auto simp: normalized_def normalize_supplied_def supplied_of_def split: option.splits dest!: map_of_SomeD)

lemma eq_ignore_key: "eq_ignore_ascii_case a b \<longleftrightarrow> key a = key b"
  by (simp add: eq_ignore_ascii_case_def sqlite_ascii_identifier_key_def)

lemma replay_Inr:
  assumes "validate_replay_manifest_expectations E name migrations_table manifest states = Inr digest"
  obtains derived validated where "derive_effect_assertion_details (Some name) manifest = Inr derived"
    "validate_reserved_migrations_table migrations_table derived = Inr ()"
    "validate_expectations E (derived_states derived) (derived_seed_plan derived) states = Inr validated"
    "digest = val_proof_sha256 validated"
proof -
  from assms obtain selected derived validated where
    "canonical_effect_assertion_id (Some name) = Inr selected" "derive_effect_assertion_details (Some selected) manifest = Inr derived"
    "validate_reserved_migrations_table migrations_table derived = Inr ()"
    "validate_expectations E (derived_states derived) (derived_seed_plan derived) states = Inr validated"
    "digest = val_proof_sha256 validated"
    by (auto simp: validate_replay_manifest_expectations_def result_simps split: if_splits)
  moreover from this(1) have "selected = name" by (auto simp: canonical_effect_assertion_id_def split: if_splits)
  ultimately show ?thesis using that by blast
qed

text \<open>C9: An accepted replay: there is one reviewed state per manifest prefix; the objects of
  each, with the spellings of pre-existing tables normalized, are exactly the derived ones; its tables
  are exactly its table objects, which its indexes and triggers hang on; its seed tables are the
  summaries of the derived rows; and no object of any state is, or hangs on, the migrations table under
  any spelling of its name.
\<close>

theorem replay_expectations_sound:
  assumes "validate_replay_manifest_expectations E name migrations_table manifest states = Inr digest"
  shows "\<exists>derived. derive_effect_assertion_details (Some name) manifest = Inr derived \<and> length states = length manifest + 1 \<and>
    (\<forall>k \<le> length manifest.
      state_exact E (derived_states derived) (derived_seed_plan derived) k (states ! k) \<and>
      (\<forall>object \<in> set (schema_objects (states ! k)).
        \<not> eq_ignore_ascii_case (obj_name object) migrations_table \<and>
        \<not> eq_ignore_ascii_case (obj_table_name object) migrations_table))"
proof -
  from assms obtain derived validated where
    derived: "derive_effect_assertion_details (Some name) manifest = Inr derived"
    and reserved: "validate_reserved_migrations_table migrations_table derived = Inr ()"
    and validated: "validate_expectations E (derived_states derived) (derived_seed_plan derived) states = Inr validated"
    by (rule replay_Inr)
  note shape = details_states [OF derived]
  from validate_expectations_Inr [OF validated] shape(1) have len: "length states = Suc (length manifest)"
    and exact: "\<And>k. k \<le> length manifest \<Longrightarrow> state_exact E (derived_states derived) (derived_seed_plan derived) k (states ! k)"
    by auto
  have free: "key (object_name object) \<noteq> key migrations_table \<and> key (table_name object) \<noteq> key migrations_table"
    if "object \<in> set (derived_states derived ! k)" "k \<le> length manifest" for object k
  proof -
    have "derived_states derived ! k \<in> set (derived_states derived)" "derived_states derived \<noteq> []"
      using that(2) shape(1) by (auto simp: less_Suc_eq_le)
    with shape(2) that(1) reserved show ?thesis
      by (fastforce simp: validate_reserved_migrations_table_def eq_ignore_key list_ex_iff split: if_splits)
  qed
  have "key (obj_name object) \<noteq> key migrations_table \<and> key (obj_table_name object) \<noteq> key migrations_table"
    if "k \<le> length manifest" "object \<in> set (schema_objects (states ! k))" for k object
  proof -
    from exact [OF that(1)] have "mset (map (normalized (derived_seed_plan derived)) (schema_objects (states ! k))) = mset (derived_states derived ! k)"
      and own: "obj_type object = ''table'' \<longrightarrow> obj_table_name object = obj_name object"
      using that(2) by (auto simp: state_exact_def)
    then have "normalized (derived_seed_plan derived) ` set (schema_objects (states ! k)) = set (derived_states derived ! k)"
      by (metis mset_eq_setD set_map)
    with that(2) have "normalized (derived_seed_plan derived) object \<in> set (derived_states derived ! k)" by auto
    from free [OF this that(1)] show ?thesis
      using normalized_keys [OF seed_plan_shape(3) [OF derived] own] by simp
  qed
  with exact derived len show ?thesis by (auto simp: eq_ignore_key)
qed

section \<open>The digest of the expectations\<close>

lemma ser_option_eq: "ser_option SStr a = ser_option SStr b \<longleftrightarrow> a = b"
  by (cases a; cases b) auto

lemma ser_expectation_inject: "ser_expectation a = ser_expectation b \<longleftrightarrow> a = b"
proof -
  have "inj ser_schema_object"
    by (intro injI) (auto simp: ser_schema_object_def intro: D1MigrationSchemaObjectExpectation.equality)
  moreover have "inj ser_column"
    by (intro injI) (auto simp: ser_column_def ser_option_eq intro: D1MigrationColumnExpectation.equality)
  moreover have "inj ser_foreign_key"
    by (intro injI) (auto simp: ser_foreign_key_def ser_option_eq intro: D1MigrationForeignKeyExpectation.equality)
  moreover have "inj ser_seed_table"
    by (intro injI) (auto simp: ser_seed_table_def inj_map_eq_map inj_def intro: D1MigrationSeedTableExpectation.equality)
  moreover from calculation have "inj ser_table"
    by (intro injI) (auto simp: ser_table_def inj_map_eq_map intro: D1MigrationTableExpectation.equality)
  ultimately show ?thesis
    by (auto simp: ser_expectation_def inj_map_eq_map split: if_splits intro: D1MigrationStateExpectation.equality)
qed

text \<open>The text a replay digests.\<close>

definition reviewed_text :: "env \<Rightarrow> state_expectation list \<Rightarrow> bytes" where
  "reviewed_text E states = to_vec E (SSeq (map ser_expectation states))"

lemma reviewed_text_inject: "to_vec_injective E \<Longrightarrow> reviewed_text E states = reviewed_text E states' \<longleftrightarrow> states = states'"
  unfolding reviewed_text_def to_vec_injective_def
  by (metis inj_map_eq_map ser_expectation_inject inj_def ser.inject(4))

text \<open>C39: The digest a replay returns binds the reviewed expectations: two accepted replays, whatever
  their manifests, return the same digest exactly when they reviewed the same states; only a collision of
  SHA-256 on the two reviewed texts themselves could give different states one digest.
\<close>

theorem replay_digest_binds:
  assumes "validate_replay_manifest_expectations E name table manifest states = Inr digest"
    and "validate_replay_manifest_expectations E name' table' manifest' states' = Inr digest'"
    and "to_vec_injective E"
  shows "(digest = digest' \<longleftrightarrow> states = states') \<or>
    reviewed_text E states \<noteq> reviewed_text E states' \<and> sha256_hex E (reviewed_text E states) = sha256_hex E (reviewed_text E states')"
proof -
  have "digest = sha256_hex E (reviewed_text E states)" "digest' = sha256_hex E (reviewed_text E states')"
    unfolding reviewed_text_def hash_serialized_def [symmetric] using assms(1,2) by (metis replay_Inr validate_expectations_Inr)+
  with reviewed_text_inject [OF assms(3)] show ?thesis by auto
qed

section \<open>No panic\<close>

lemma no_panic_or_none [no_panic_intros]: "no_panic (or_none m)"
  by (cases m) (simp_all add: or_none_def)

lemma no_panic_unless_none [no_panic_intros]: "no_panic (unless_none b)"
  by (simp add: unless_none_def)

lemma single_fts_shape_no_panic: "no_panic (single_fts_shape manifest)"
  unfolding single_fts_shape_def fts_statement.simps by (intro no_panic_intros scan_defined)

lemma source_digest_step_no_panic: "no_panic (source_digest_step E state source)"
  unfolding source_digest_step_def source_object_def Let_def by (intro no_panic_intros scan_defined)

lemma strict_manifest_schema_digests_no_panic: "no_panic (strict_manifest_schema_digests E manifest)"
proof -
  have "no_panic ((case s of (current, names, digest_list) \<Rightarrow> \<lambda>migration.
      ok_then (or_none (strict_manifest_statement_sources (entry_sql migration))) (\<lambda>sources.
        map_ok (\<lambda>(current, names). (current, names, digest_list @ [current]))
          (try_fold (source_digest_step E) (current, names) sources))) x)" for s x
    by (cases s) (auto intro!: no_panic_intros source_digest_step_no_panic)
  then show ?thesis unfolding strict_manifest_schema_digests_def by (intro no_panic_intros)
qed

lemma strict_fts_schema_digests_no_panic: "no_panic (strict_fts_schema_digests E manifest)"
proof -
  have "no_panic (add_shadows shadows digests)" for shadows digests
    unfolding add_shadows_def by (intro no_panic_intros)
  then have "no_panic (fts_migration_step E names state entry)" for names state entry
    unfolding fts_migration_step_def fts_source_step_def shadow_step_def
    by (cases state; cases entry) (auto intro!: no_panic_intros scan_defined split: prod.splits)
  then show ?thesis
    unfolding strict_fts_schema_digests_def Let_def
    by (intro no_panic_intros strict_manifest_schema_digests_no_panic)
qed

lemma fts_unbound_defined: "defined (fts_unbound E manifest states)"
proof -
  have "defined (fts_expected_schema_is_source_bound E manifest states)"
    using strict_fts_schema_digests_no_panic [of E manifest]
    by (auto simp: fts_expected_schema_is_source_bound_def defined_def no_panic_def split: sum.splits failure.splits)
  then show ?thesis
    using single_fts_shape_no_panic [of manifest]
    by (auto simp: fts_unbound_def defined_def no_panic_def split: sum.splits failure.splits)
qed

lemma no_panic_expectation_errors [simp, no_panic_intros]:
  "no_panic (Inl (expectation_gap c m))" "no_panic (Inl (noncanonical m))" "no_panic (Inl column_invalid)"
  "no_panic (Inl foreign_key_invalid)" "no_panic (Inl affinity_unavailable)" "no_panic (Inl (schema_object_invalid m))"
  by (simp_all add: expectation_gap_def noncanonical_def column_invalid_def foreign_key_invalid_def affinity_unavailable_def
      schema_object_invalid_def contradiction_def)

lemma no_panic_affinity_or [no_panic_intros]: "no_panic (ok_or affinity_unavailable x)"
  by (cases x) simp_all

lemma any_unstable_defined:
  "\<forall>row \<in> set rows. column_index < length row \<Longrightarrow> defined (any_unstable unchanged column_index rows)"
  by (induction rows) (auto simp: defined_def or_else_def list_get_def split: option.splits bool.splits)

lemma affinity_no_panic:
  assumes "\<forall>state \<in> set seed_states. rectangular state"
  shows "no_panic (validate_seed_storage_affinity seed_states reviewed strict_keys rowid_keys)"
proof -
  have column: "no_panic (affinity_column strict rowid rows columns (index, name))"
    if "\<forall>row \<in> set rows. index < length row" for strict rowid rows columns index name
    unfolding affinity_column_def prod.case
    by (intro no_panic_intros no_panic_or_panic any_unstable_defined that)
  have "no_panic (affinity_table strict_keys rowid_keys reviewed_tables state)" if "rectangular state" for reviewed_tables state
    unfolding affinity_table_def reviewed_by_def Let_def
    by (intro no_panic_intros) (use that in \<open>auto simp: rectangular_def in_set_enumerate_eq intro!: column\<close>)
  with assms show ?thesis
    unfolding validate_seed_storage_affinity_def reviewed_by_def Let_def by (intro no_panic_intros) auto
qed

lemma validate_table_no_panic: "no_panic (validate_table seeded s table)"
  unfolding validate_table_def validate_columns_def validate_column_def validate_foreign_keys_def validate_foreign_key_def Let_def
  by (intro no_panic_intros)

lemma validate_expectations_no_panic:
  assumes "\<And>k state. k < length derived \<Longrightarrow> state \<in> set (derived_seed_state seed_plan k) \<Longrightarrow> rectangular state"
  shows "no_panic (validate_expectations E derived seed_plan states)"
proof -
  have objects: "no_panic (validate_state_objects derived seed_plan k state names)" if "k < length derived" for k state names
    unfolding validate_state_objects_def validate_object_def Let_def
    by (intro no_panic_intros no_panic_or_panic) (use that in \<open>simp add: defined_def list_get_def\<close>)
  have seeds: "no_panic (validate_state_seeds E seed_plan k state)" if "k < length derived" for k state
    unfolding validate_state_seeds_def validate_seed_expectation_def Let_def
    by (intro no_panic_intros affinity_no_panic ballI assms [OF that]) simp_all
  have "no_panic (validate_reviewed_state E derived seed_plan s (k, state))" if "k < length derived" for s k state
    unfolding validate_reviewed_state_def validate_state_tables_def prod.case
    by (intro no_panic_intros objects seeds that validate_table_no_panic)
  then show ?thesis
    unfolding validate_expectations_def by (intro no_panic_intros) (auto simp: in_set_enumerate_eq)
qed

text \<open>C40: Validating a replay ends without a panic, whatever the assertion id, the manifest and
  the expectations: no index into the derived states, a seed row or a token slice is out of range, and
  the unreachable arm is not reached.
\<close>

theorem replay_no_panic:
  "no_panic (validate_replay_manifest_expectations E name migrations_table manifest states)"
proof -
  have rows: "rectangular state" if "derive_effect_assertion_details (Some selected) manifest = Inr derived"
    "state \<in> set (derived_seed_state (derived_seed_plan derived) k)" for selected derived k state
    using that(2) seed_plan_shape(2) [OF that(1)]
    by (cases "derived_seed_plan derived") (auto simp: derived_seed_state_def list_get_def split: if_splits)
  show ?thesis
    unfolding validate_replay_manifest_expectations_def
    by (intro no_panic_intros derivation_no_panic validate_expectations_no_panic no_panic_or_panic fts_unbound_defined)
      (auto intro: rows)
qed

end
