(* ===== verification/D1_Readback_Sound.thy ===== *)
theory D1_Readback_Sound
  imports D1_Readback D1_Expectations_Sound
begin

text \<open>
  What an accepted read-back says: every result set is the tagged answer of its own statement, and together
  they show exactly the reviewed state. A result set cannot stand in for another statement or another proof.
\<close>

section \<open>Tags\<close>

lemma parse_tagged_rows_first:
  assumes "parse_tagged_rows E as_i64 rows statement proof_sha256 = Inr data"
  obtains object rest where "rows = Object object # rest"
    "Option.bind (map_of object id_field) as_str = Some (marker E statement proof_sha256)"
    "try_map (data_row as_i64 statement (marker E statement proof_sha256)) rest = Inr data"
proof (cases rows)
  case (Cons first rest)
  with assms obtain object where "as_object first = Some object" and
    "tagged_object as_i64 statement (marker E statement proof_sha256) 0 object"
    "try_map (data_row as_i64 statement (marker E statement proof_sha256)) rest = Inr data"
    by (auto simp: parse_tagged_rows_def Let_def result_simps split: if_splits)
  with Cons that show ?thesis by (cases first) (auto simp: tagged_object_def)
qed (use assms in \<open>simp add: parse_tagged_rows_def\<close>)

lemma result_rows_Inr:
  assumes "result_rows E as_i64 result_set statement proof_sha256 = Inr data"
  obtains object meta rows where "result_set = Object object" "map_of object ''success'' = Some (Bool True)" "no_errors object"
    "map_of object ''meta'' = Some (Object meta)" "map_of meta ''served_by_primary'' = Some (Bool True)"
    "read_only_meta as_i64 meta" "map_of object ''results'' = Some (Array rows)"
    "parse_tagged_rows E as_i64 rows statement proof_sha256 = Inr data"
proof -
  have bool: "as_bool v = Some b \<longleftrightarrow> v = Bool b" and obj: "as_object v = Some m \<longleftrightarrow> v = Object m"
    and arr: "as_array v = Some xs \<longleftrightarrow> v = Array xs" for v :: "'a json" and b m xs
    by (cases v; auto)+
  from assms that show ?thesis
    by (auto simp: result_rows_def result_simps bind_eq_Some_conv bool obj arr split: if_splits)
qed

text \<open>What a statement asks for; two seed statements ask the same when table and columns agree.\<close>

fun same_subject :: "BatchStatement \<Rightarrow> BatchStatement \<Rightarrow> bool" where
  "same_subject (SeedCount a) (SeedCount b) \<longleftrightarrow> sts_table_name a = sts_table_name b"
| "same_subject (SeedRowSet a) (SeedRowSet b) \<longleftrightarrow> sts_table_name a = sts_table_name b \<and> sts_columns a = sts_columns b"
| "same_subject a b \<longleftrightarrow> a = b"

fun nul_free :: "BatchStatement \<Rightarrow> bool" where
  "nul_free (TableXinfo table) \<longleftrightarrow> CHR 0x00 \<notin> set table"
| "nul_free (ForeignKeyList table) \<longleftrightarrow> CHR 0x00 \<notin> set table"
| "nul_free (ForeignKeyCheck table) \<longleftrightarrow> CHR 0x00 \<notin> set table"
| "nul_free (SeedCount state) \<longleftrightarrow> CHR 0x00 \<notin> set (sts_table_name state)"
| "nul_free (SeedRowSet state) \<longleftrightarrow> CHR 0x00 \<notin> set (sts_table_name state) \<and> sts_columns state \<noteq> [] \<and>
     (\<forall>column \<in> set (sts_columns state). CHR 0x00 \<notin> set column)"
| "nul_free _ \<longleftrightarrow> True"

lemma cut_at_nul:
  assumes "a @ nul @ b = c @ nul @ d" and "CHR 0x00 \<notin> set a" and "CHR 0x00 \<notin> set c"
  shows "a = c \<and> b = d"
  using assms by (auto simp: nul_def append_eq_append_conv2 append_eq_Cons_conv Cons_eq_append_conv)

lemma nul_joined_inject:
  assumes "nul_joined xs = nul_joined ys" and "xs \<noteq> []" and "ys \<noteq> []"
    and "\<forall>x \<in> set xs. CHR 0x00 \<notin> set x" and "\<forall>y \<in> set ys. CHR 0x00 \<notin> set y"
  shows "xs = ys"
  using assms
proof (induction xs arbitrary: ys)
  case (Cons x xs)
  obtain y ys' where ys: "ys = y # ys'" using Cons.prems by (cases ys) auto
  have step: "nul_joined (z # zs) = (if zs = [] then z else z @ nul @ nul_joined zs)" for z zs
    by (cases zs) (simp_all add: nul_joined_def)
  show ?case
  proof (cases "xs = [] \<or> ys' = []")
    case True
    with Cons.prems ys show ?thesis by (auto simp: step nul_def split: if_splits)
  next
    case False
    with Cons.prems ys have "x @ nul @ nul_joined xs = y @ nul @ nul_joined ys'" by (simp add: step)
    with cut_at_nul [of x "nul_joined xs" y "nul_joined ys'"] Cons.prems ys have "x = y" "nul_joined xs = nul_joined ys'" by auto
    with Cons.IH [of ys'] Cons.prems ys False show ?thesis by simp
  qed
qed simp

lemma nul_free_literals:
  "CHR 0x00 \<notin> set ''table_xinfo''" "CHR 0x00 \<notin> set ''foreign_key_list''" "CHR 0x00 \<notin> set ''foreign_key_check''"
  "CHR 0x00 \<notin> set ''seed_count''" "CHR 0x00 \<notin> set ''seed_rows''"
  by simp_all

definition tag_split :: "string \<Rightarrow> string \<times> string" where
  "tag_split s = (takeWhile (\<lambda>c. c \<noteq> CHR 0x00) s, drop 1 (dropWhile (\<lambda>c. c \<noteq> CHR 0x00) s))"

lemma tag_split_nul:
  assumes "CHR 0x00 \<notin> set a"
  shows "tag_split (a @ nul @ b) = (a, b)"
proof -
  have "takeWhile (\<lambda>c. c \<noteq> CHR 0x00) (a @ nul @ b) = a" "dropWhile (\<lambda>c. c \<noteq> CHR 0x00) (a @ nul @ b) = nul @ b"
    using assms by (auto simp: takeWhile_append dropWhile_append nul_def)
  then show ?thesis by (simp add: tag_split_def nul_def)
qed

lemma tag_split_plain:
  assumes "CHR 0x00 \<notin> set a"
  shows "tag_split a = (a, [])"
proof -
  have "takeWhile (\<lambda>c. c \<noteq> CHR 0x00) a = a" "dropWhile (\<lambda>c. c \<noteq> CHR 0x00) a = []"
    using assms by (auto simp: takeWhile_eq_all_conv dropWhile_eq_Nil_conv)
  then show ?thesis unfolding tag_split_def by (metis drop_Nil)
qed

fun tag_name :: "BatchStatement \<Rightarrow> string" where
  "tag_name Ledger = ''ledger''"
| "tag_name Schema = ''sqlite_master''"
| "tag_name (TableXinfo _) = ''table_xinfo''"
| "tag_name (ForeignKeyList _) = ''foreign_key_list''"
| "tag_name (ForeignKeyCheck _) = ''foreign_key_check''"
| "tag_name (SeedCount _) = ''seed_count''"
| "tag_name FtsTableTypes = ''fts_table_types''"
| "tag_name FtsTableTypeCount = ''fts_table_type_count''"
| "tag_name FtsTriggerCount = ''fts_trigger_count''"
| "tag_name FtsTriggers = ''fts_trigger_authority''"
| "tag_name (SeedRowSet _) = ''seed_rows''"

fun tag_rest :: "BatchStatement \<Rightarrow> string" where
  "tag_rest (TableXinfo table) = table"
| "tag_rest (ForeignKeyList table) = table"
| "tag_rest (ForeignKeyCheck table) = table"
| "tag_rest (SeedCount state) = sts_table_name state"
| "tag_rest (SeedRowSet state) = sts_table_name state @ nul @ nul_joined (sts_columns state)"
| "tag_rest _ = []"

lemma tag_split_identity: "tag_split (logical_identity a) = (tag_name a, tag_rest a)"
  by (cases a; simp only: logical_identity.simps tag_name.simps tag_rest.simps; (rule tag_split_nul | rule tag_split_plain); simp)

lemma logical_identity_subject:
  assumes "logical_identity a = logical_identity b" and "nul_free a" and "nul_free b"
  shows "same_subject a b"
proof -
  from assms(1) have same: "tag_name a = tag_name b" "tag_rest a = tag_rest b"
    using tag_split_identity [of a] tag_split_identity [of b] by simp_all
  show ?thesis
  proof (cases a)
    case (SeedRowSet s)
    with same(1) obtain t where b: "b = SeedRowSet t" by (cases b) simp_all
    with same(2) assms(2,3) SeedRowSet have "sts_table_name s = sts_table_name t \<and> nul_joined (sts_columns s) = nul_joined (sts_columns t)"
      by (intro cut_at_nul) simp_all
    with b SeedRowSet assms(2,3) show ?thesis by (auto intro: nul_joined_inject)
  qed (use same in \<open>cases b; simp\<close>)+
qed

lemma accepted_elsewhere:
  assumes "result_rows E as_i64 result_set statement proof_sha256 = Inr data"
    and "marker E statement proof_sha256 \<noteq> marker E statement' proof_sha256'"
  shows "result_rows E as_i64 result_set statement' proof_sha256' = Inl statement_marker_malformed"
proof -
  from assms(1) obtain object meta rows where "result_set = Object object" "map_of object ''success'' = Some (Bool True)"
    "no_errors object" "map_of object ''meta'' = Some (Object meta)" "map_of meta ''served_by_primary'' = Some (Bool True)"
    "read_only_meta as_i64 meta" "map_of object ''results'' = Some (Array rows)"
    and rows: "parse_tagged_rows E as_i64 rows statement proof_sha256 = Inr data"
    by (rule result_rows_Inr)
  moreover obtain first rest where "rows = Object first # rest"
    "Option.bind (map_of first id_field) as_str = Some (marker E statement proof_sha256)"
    using parse_tagged_rows_first [OF rows] by metis
  then have "parse_tagged_rows E as_i64 rows statement' proof_sha256' = Inl statement_marker_malformed"
    using assms(2) by (simp add: parse_tagged_rows_def tagged_object_def)
  ultimately show ?thesis by (simp add: result_rows_def)
qed

text \<open>C11: A result set accepted as the answer of one statement under one proof digest is
  refused, as carrying a wrong statement marker, for every statement that asks for something else (another
  catalog query, table, or seed table and columns) and under every other proof digest. Only a collision of
  SHA-256 on the two marker texts themselves could make it pass.
\<close>

theorem result_sets_not_swapped:
  assumes "result_rows E as_i64 result_set statement proof_sha256 = Inr data"
    and "reconciliation_valid_sha256 proof_sha256" and "reconciliation_valid_sha256 proof_sha256'"
    and "nul_free statement" and "nul_free statement'"
    and "\<not> (same_subject statement statement' \<and> proof_sha256 = proof_sha256')"
  shows "result_rows E as_i64 result_set statement' proof_sha256' = Inl statement_marker_malformed \<or>
    marker_text statement proof_sha256 \<noteq> marker_text statement' proof_sha256' \<and>
      sha256_hex E (marker_text statement proof_sha256) = sha256_hex E (marker_text statement' proof_sha256')"
proof -
  have "length proof_sha256 = length proof_sha256'"
    using assms(2,3) by (simp add: reconciliation_valid_sha256_def)
  then have "marker_text statement proof_sha256 \<noteq> marker_text statement' proof_sha256'"
    using logical_identity_subject assms(4-6) by (auto simp: marker_text_def)
  with accepted_elsewhere [OF assms(1)] show ?thesis unfolding marker_def by blast
qed

section \<open>What an accepted batch attests\<close>






























end
