(* ===== verification/D1_Sql_Print.thy ===== *)
theory D1_Sql_Print
  imports D1_Migration_Sql_Sound
begin

text \<open>
  A printer for the tokens of migration SQL, and that the tokenizer of
  \<open>src/d1_migration_reconciliation.rs\<close> reads back exactly the printed tokens: a word, a symbol, or a
  quoted text with its quotes doubled, each followed by a space.
\<close>

definition escape :: "char \<Rightarrow> string \<Rightarrow> string" where
  "escape q s = concat (map (\<lambda>c. if c = q then [q, q] else [c]) s)"

fun print_token :: "SqlToken \<Rightarrow> string" where
  "print_token (Word w) = w @ '' ''"
| "print_token (Symbol c) = [c, CHR '' '']"
| "print_token (StringLiteral s) = CHR 0x27 # escape (CHR 0x27) s @ [CHR 0x27, CHR '' '']"
| "print_token (Identifier s) = CHR 0x22 # escape (CHR 0x22) s @ [CHR 0x22, CHR '' '']"

definition print_tokens :: "SqlToken list \<Rightarrow> string" where
  "print_tokens tokens = concat (map print_token tokens)"

definition word_byte :: "char \<Rightarrow> bool" where
  "word_byte c \<longleftrightarrow> is_ascii_alphanumeric c \<or> c = CHR ''_''"

fun printable_token :: "SqlToken \<Rightarrow> bool" where
  "printable_token (Word w) \<longleftrightarrow> w \<noteq> [] \<and> list_all word_byte w"
| "printable_token (Symbol c) \<longleftrightarrow> is_ascii_punctuation c \<and> c \<noteq> CHR ''_'' \<and> opening_mode c = None"
| "printable_token _ \<longleftrightarrow> True"

lemma word_byte_plain:
  assumes "word_byte c"
  shows "c \<notin> set symbol_bytes" and "opening_mode c = None" and "c \<noteq> CHR ''-''" and "c \<noteq> CHR ''/''"
  using assms by (auto simp: word_byte_def is_ascii_alphanumeric_def is_ascii_digit_def byte_in_def symbol_bytes_def opening_mode_def byte_def)

lemma punctuation_plain:
  assumes "is_ascii_punctuation c" and "c \<noteq> CHR ''_''"
  shows "\<not> is_ascii_alphanumeric c" and "\<not> is_ascii_whitespace c"
  using assms
  by (auto simp: is_ascii_punctuation_def is_ascii_whitespace_def is_ascii_alphanumeric_def is_ascii_digit_def byte_in_def byte_def)

lemma pushing_pushing: "pushing a (pushing b m) = pushing (a @ b) m"
  by (cases m) (simp_all add: pushing_def)

lemma pushing_Nil: "pushing [] m = m"
  by (cases m) (simp_all add: pushing_def)

lemma tokenize_word_byte:
  "word_byte c \<Longrightarrow> tokenize_loop Normal token quoted (c # bs) = tokenize_loop Normal (token @ [c]) quoted bs"
  using word_byte_plain [of c] by (simp add: tokenize_loop.simps(2) word_byte_def)

lemma tokenize_word:
  "list_all word_byte w \<Longrightarrow> tokenize_loop Normal token quoted (w @ bs) = tokenize_loop Normal (token @ w) quoted bs"
  by (induction w arbitrary: token) (simp_all add: tokenize_word_byte)

lemma tokenize_space:
  "tokenize_loop Normal token quoted (CHR '' '' # bs) = pushing (flush_token token) (tokenize_loop Normal [] quoted bs)"
  by (simp add: tokenize_loop.simps(2) opening_mode_def symbol_bytes_def is_ascii_alphanumeric_def is_ascii_digit_def byte_in_def byte_def
      is_ascii_whitespace_def)

lemma tokenize_symbol:
  assumes "printable_token (Symbol c)"
  shows "tokenize_loop Normal [] quoted (c # CHR '' '' # bs) = pushing [Symbol c] (tokenize_loop Normal [] quoted (CHR '' '' # bs))"
  using assms punctuation_plain [of c] by (simp add: tokenize_loop.simps(2) [of _ _ _ c] list_get_def flush_token_def)

lemma tokenize_quoted:
  assumes "mode \<in> {SingleQuote, DoubleQuote}"
  shows "tokenize_loop mode token quoted (escape (quote_of mode) s @ quote_of mode # CHR '' '' # bs) =
    pushing [quoted_as mode (quoted @ s)] (tokenize_loop Normal token (quoted @ s) (CHR '' '' # bs))"
proof (induction s arbitrary: quoted)
  case Nil
  from assms show ?case
    by (auto simp: escape_def tokenize_loop.simps(2) [of SingleQuote] tokenize_loop.simps(2) [of DoubleQuote] list_get_def quote_of_def)
next
  case (Cons c s)
  have "tokenize_loop mode token quoted (escape (quote_of mode) (c # s) @ rest) =
      tokenize_loop mode token (quoted @ [c]) (escape (quote_of mode) s @ rest)" for rest
    using assms by (auto simp: escape_def tokenize_loop.simps(2) [of SingleQuote] tokenize_loop.simps(2) [of DoubleQuote] list_get_def)
  with Cons.IH [of "quoted @ [c]"] show ?case by simp
qed

lemma tokenize_open:
  assumes "mode \<in> {SingleQuote, DoubleQuote}"
  shows "tokenize_loop Normal [] quoted (quote_of mode # bs) = tokenize_loop mode [] [] bs"
proof -
  have "opening_mode (quote_of mode) = Some mode" "quote_of mode \<noteq> CHR ''-''" "quote_of mode \<noteq> CHR ''/''"
    using assms by (auto simp: quote_of_def opening_mode_def)
  then show ?thesis by (simp add: tokenize_loop.simps(2) [of Normal] flush_token_def pushing_Nil)
qed

lemma tokenize_print_token:
  assumes "printable_token t"
  shows "\<exists>quoted'. tokenize_loop Normal [] quoted (print_token t @ bs) = pushing [t] (tokenize_loop Normal [] quoted' bs)"
proof (cases t)
  case (StringLiteral s)
  with tokenize_open [of SingleQuote quoted] tokenize_quoted [of SingleQuote "[]" "[]" s bs] show ?thesis
    by (auto simp: quote_of_def tokenize_space flush_token_def pushing_Nil quoted_as_def)
next
  case (Identifier s)
  with tokenize_open [of DoubleQuote quoted] tokenize_quoted [of DoubleQuote "[]" "[]" s bs] show ?thesis
    by (auto simp: quote_of_def tokenize_space flush_token_def pushing_Nil quoted_as_def)
qed (use assms in \<open>auto simp: tokenize_word tokenize_space tokenize_symbol flush_token_def pushing_Nil simp del: printable_token.simps(2)\<close>)

lemma tokenize_print_append:
  "list_all printable_token tokens \<Longrightarrow>
    \<exists>quoted'. tokenize_loop Normal [] quoted (print_tokens tokens @ bs) = pushing tokens (tokenize_loop Normal [] quoted' bs)"
proof (induction tokens arbitrary: quoted)
  case (Cons t tokens)
  from tokenize_print_token [of t quoted "print_tokens tokens @ bs"] Cons.prems obtain quoted' where
    "tokenize_loop Normal [] quoted (print_tokens (t # tokens) @ bs) = pushing [t] (tokenize_loop Normal [] quoted' (print_tokens tokens @ bs))"
    by (auto simp: print_tokens_def)
  moreover from Cons.IH [of quoted'] Cons.prems obtain quoted'' where
    "tokenize_loop Normal [] quoted' (print_tokens tokens @ bs) = pushing tokens (tokenize_loop Normal [] quoted'' bs)" by auto
  ultimately show ?case by (auto simp: pushing_pushing intro: exI [of _ quoted''])
qed (auto simp: print_tokens_def pushing_Nil)

lemma tokenize_print:
  assumes "list_all printable_token tokens"
  shows "tokenize_loop Normal [] quoted (print_tokens tokens) = Some tokens"
  using tokenize_print_append [OF assms, of quoted "[]"] by (auto simp: pushing_def flush_token_def)

lemma tokenize_print_symbol:
  assumes "list_all printable_token tokens" and "printable_token (Symbol c)"
  shows "tokenize_loop Normal [] quoted (print_tokens tokens @ [c]) = Some (tokens @ [Symbol c])"
proof -
  have "tokenize_loop Normal [] quoted' [c] = Some [Symbol c]" for quoted'
    using assms(2) punctuation_plain [of c] by (simp add: tokenize_loop.simps list_get_def flush_token_def pushing_def)
  with tokenize_print_append [OF assms(1), of quoted "[c]"] show ?thesis by (auto simp: pushing_def)
qed

text \<open>A statement without semicolons that is no trigger is one statement.\<close>

definition plain_token :: "SqlToken \<Rightarrow> bool" where
  "plain_token token \<longleftrightarrow> token \<noteq> semicolon \<and> \<not> token_is_word (Some token) ''trigger''"

lemma track_plain:
  assumes "plain_token token \<or> token = semicolon" and "\<not> sp_trigger s" and "\<not> sp_trigger_body s"
  shows "track_trigger s token = Some s"
proof -
  have "\<not> token_is_word (Some semicolon) ''trigger''" by code_simp
  with assms(1) have "\<not> create_trigger_prefix (sp_current s) (Some token)" by (auto simp: create_trigger_prefix_def plain_token_def)
  with assms(2,3) show ?thesis by (simp add: track_trigger_def)
qed

lemma split_loop_plain:
  assumes "list_all plain_token tokens"
  shows "split_loop (split_start\<lparr>sp_current := current\<rparr>) (tokens @ rest) = split_loop (split_start\<lparr>sp_current := current @ tokens\<rparr>) rest"
  using assms
proof (induction tokens arbitrary: current)
  case (Cons token tokens)
  then have "track_trigger (split_start\<lparr>sp_current := current\<rparr>) token = Some (split_start\<lparr>sp_current := current\<rparr>)"
    by (intro track_plain) (simp_all add: split_start_def)
  moreover have "token \<noteq> semicolon" using Cons.prems by (simp add: plain_token_def)
  ultimately show ?case using Cons by simp
qed simp

lemma split_plain:
  assumes "list_all plain_token tokens" and "tokens \<noteq> []"
  shows "split_top_level_statements (tokens @ [semicolon]) = Some [tokens]" and "split_top_level_statements tokens = Some [tokens]"
proof -
  have start: "split_start\<lparr>sp_current := []\<rparr> = split_start" by (simp add: split_start_def)
  have "track_trigger (split_start\<lparr>sp_current := tokens\<rparr>) semicolon = Some (split_start\<lparr>sp_current := tokens\<rparr>)"
    by (rule track_plain) (simp_all add: split_start_def)
  then show "split_top_level_statements (tokens @ [semicolon]) = Some [tokens]" "split_top_level_statements tokens = Some [tokens]"
    using split_loop_plain [OF assms(1), of "[]" "[semicolon]"] split_loop_plain [OF assms(1), of "[]" "[]"] assms(2) start
    by (simp_all add: split_top_level_statements_def statement_of_def split_start_def)
qed

text \<open>C38: Tokenizing the printed form of any words, symbols, quoted identifiers and string literals
  (whatever bytes stand between their quotes) and splitting at the top-level semicolons is splitting
  exactly those tokens.
\<close>

theorem tokenize_roundtrip:
  assumes "list_all printable_token tokens"
  shows "tokenize_sql_statements (print_tokens tokens) = split_top_level_statements tokens"
  using assms by (simp add: tokenize_sql_statements_def tokenize_print)

theorem tokenize_roundtrip_witness:
  "tokenize_sql_statements ''SELECT \"a\"\"b\" ; DROP '' = Some [[Word ''SELECT'', Identifier ''a\"b''], [Word ''DROP'']]"
proof -
  have "list_all printable_token [Word ''SELECT'', Identifier ''a\"b'', Symbol (CHR '';''), Word ''DROP'']" by code_simp
  note tokenize_roundtrip [OF this]
  moreover have "print_tokens [Word ''SELECT'', Identifier ''a\"b'', Symbol (CHR '';''), Word ''DROP''] = ''SELECT \"a\"\"b\" ; DROP ''"
    by code_simp
  moreover have "split_top_level_statements [Word ''SELECT'', Identifier ''a\"b'', Symbol (CHR '';''), Word ''DROP''] =
    Some [[Word ''SELECT'', Identifier ''a\"b''], [Word ''DROP'']]" by code_simp
  ultimately show ?thesis by simp
qed

end
