(* ===== verification/D1_Derivation_Samples.thy ===== *)
theory D1_Derivation_Samples
  imports D1_Plan_Sound D1_Sql_Print D1_Fts_Sound D1_Seed_Print D1_Samples
begin

text \<open>Two manifests and what is derived from them: one that creates a table and seeds it, one of an external-content
  FTS5 table. The statements are printed tokens, so that the text of a migration need not be tokenized byte by byte.\<close>

definition create_tokens :: "SqlToken list" where
  "create_tokens = [Word ''CREATE'', Word ''TABLE'', Word ''notes'', Symbol (CHR ''(''), Word ''id'', Word ''INTEGER'', Symbol (CHR '')'')]"

definition insert_tokens :: "SqlToken list" where
  "insert_tokens = seed_insert_tokens ''Notes'' [''id''] [[SeedInteger 7]]"

lemma insert_tokens_eq:
  "insert_tokens = [Word ''INSERT'', Word ''INTO'', Word ''Notes'', Symbol (CHR ''(''), Word ''id'', Symbol (CHR '')''),
     Word ''VALUES'', Symbol (CHR ''(''), Word ''7'', Symbol (CHR '')'')]"
  by code_simp

definition migration_of :: "string \<Rightarrow> SqlToken list \<Rightarrow> D1MigrationManifestEntry" where
  "migration_of name tokens = \<lparr>entry_name = name, entry_size_bytes = of_nat (length (print_tokens (tokens @ [Symbol (CHR '';'')]))),
     entry_sql_sha256 = zero_digest, entry_sql = print_tokens (tokens @ [Symbol (CHR '';'')])\<rparr>"

definition notes_manifest :: "D1MigrationManifestEntry list" where
  "notes_manifest = [migration_of ''0001.sql'' create_tokens, migration_of ''0002.sql'' insert_tokens]"

definition semicolon_free :: "SqlToken \<Rightarrow> bool" where
  "semicolon_free token \<longleftrightarrow> printable_token token \<and> token \<noteq> Symbol (CHR '';'')"

lemma print_tokens_snoc: "print_tokens (tokens @ [Symbol c]) = print_tokens tokens @ [c, CHR '' '']"
  by (simp add: print_tokens_def)

lemma printed_statement:
  assumes "list_all semicolon_free tokens" and "split_top_level_statements (tokens @ [Symbol (CHR '';'')]) = Some [tokens]"
  shows "tokenize_sql_statements (print_tokens (tokens @ [Symbol (CHR '';'')])) = Some [tokens]"
    and "tokenize_sql_statements (print_tokens tokens @ '';'') = Some [tokens]"
proof -
  have semi: "printable_token (Symbol (CHR '';''))" by code_simp
  have printable: "list_all printable_token tokens" using assms(1) by (simp add: list_all_iff semicolon_free_def)
  with semi have "list_all printable_token (tokens @ [Symbol (CHR '';'')])" by simp
  with assms(2) show "tokenize_sql_statements (print_tokens (tokens @ [Symbol (CHR '';'')])) = Some [tokens]"
    by (simp add: tokenize_sql_statements_def tokenize_print)
  from tokenize_print_symbol [OF printable semi] assms(2) show "tokenize_sql_statements (print_tokens tokens @ '';'') = Some [tokens]"
    by (simp add: tokenize_sql_statements_def)
qed

section \<open>Trimmed text\<close>

text \<open>Trimming text whose ends are visible ASCII.\<close>

lemma find_unique: "x \<in> set xs \<Longrightarrow> (\<And>y. y \<in> set xs \<Longrightarrow> P y \<longleftrightarrow> y = x) \<Longrightarrow> find P xs = Some x"
  by (induction xs) auto

definition visible :: "char \<Rightarrow> bool" where
  "visible c \<longleftrightarrow> 32 < byte c \<and> byte c < 128"

lemma space_char: "char_of (32 :: nat) = CHR '' ''"
  by code_simp

lemma whitespace_ends:
  assumes "w \<in> set whitespace_sequences" and "w \<noteq> '' ''"
  shows "w \<noteq> [] \<and> \<not> visible (hd w) \<and> hd w \<noteq> CHR '' '' \<and> \<not> visible (last w) \<and> last w \<noteq> CHR '' ''"
proof -
  have range: "[0x80..<0x8B] = [0x80, 0x81, 0x82, 0x83, 0x84, 0x85, 0x86, 0x87, 0x88, 0x89, 0x8A :: nat]" by code_simp
  have "\<forall>w \<in> set whitespace_sequences. w = '' '' \<or> w \<noteq> [] \<and> (byte (hd w) < 32 \<or> 128 \<le> byte (hd w)) \<and> (byte (last w) < 32 \<or> 128 \<le> byte (last w))"
    unfolding whitespace_sequences_def range by (simp add: byte_def space_char)
  with assms show ?thesis by (force simp: visible_def byte_def)
qed

lemma starts_with_hd: "starts_with s w \<Longrightarrow> w \<noteq> [] \<Longrightarrow> s \<noteq> [] \<and> hd s = hd w"
  by (cases s; cases w) (auto simp: starts_with_def)

lemma space_sequence: "'' '' \<in> set whitespace_sequences"
  by (simp add: whitespace_sequences_def space_char)

lemma trim_visible:
  assumes "s \<noteq> []" and "visible (hd s)" and "visible (last s)"
  shows "trim (s @ '' '') = s"
proof -
  have "\<not> starts_with (s @ '' '') w" "\<not> starts_with (rev s) (rev w)" if "w \<in> set whitespace_sequences" for w
    using that assms whitespace_ends [OF that] starts_with_hd [of "s @ '' ''" w] starts_with_hd [of "rev s" "rev w"]
    by (cases "w = '' ''"; force simp: hd_rev visible_def byte_def)+
  then have "leading_whitespace (s @ '' '') = None" and "trailing_whitespace s = None"
    by (auto simp: leading_whitespace_def trailing_whitespace_def find_None_iff)
  moreover have "find (\<lambda>w. starts_with (rev (s @ '' '')) (rev w)) whitespace_sequences = Some '' ''"
  proof (rule find_unique [OF space_sequence])
    show "starts_with (rev (s @ '' '')) (rev w) \<longleftrightarrow> w = '' ''" if "w \<in> set whitespace_sequences" for w
      using whitespace_ends [OF that] starts_with_hd [of "rev (s @ '' '')" "rev w"]
      by (cases "w = '' ''") (auto simp: starts_with_def hd_rev)
  qed
  then have "trailing_whitespace (s @ '' '') = Some 1" by (simp add: trailing_whitespace_def)
  ultimately show ?thesis by (simp add: trim_def trim_start.simps trim_end.simps [of "s @ '' ''"] trim_end.simps [of s])
qed

lemma trim_space: "trim '' '' = []"
proof -
  have "find (\<lambda>w. starts_with '' '' w) whitespace_sequences = Some '' ''"
  proof (rule find_unique [OF space_sequence])
    show "starts_with '' '' w \<longleftrightarrow> w = '' ''" if "w \<in> set whitespace_sequences" for w
      using whitespace_ends [OF that] starts_with_hd [of "'' ''" w] by (cases "w = '' ''") (auto simp: starts_with_def)
  qed
  moreover have "\<not> starts_with [] w" "\<not> starts_with [] (rev w)" if "w \<in> set whitespace_sequences" for w
    using whitespace_ends [OF that] starts_with_hd [of "[]" w] starts_with_hd [of "[]" "rev w"] by (auto simp: starts_with_def)
  ultimately have "leading_whitespace '' '' = Some 1" "leading_whitespace [] = None" "trailing_whitespace [] = None"
    by (auto simp: leading_whitespace_def trailing_whitespace_def find_None_iff)
  then show ?thesis by (simp add: trim_def trim_start.simps [of "'' ''"] trim_start.simps [of "[]"] trim_end.simps [of "[]"])
qed

section \<open>Statement sources of printed SQL\<close>

abbreviation strict_normal :: "SqlToken list list \<Rightarrow> bytes \<Rightarrow> nat \<Rightarrow> string list \<Rightarrow> bytes \<Rightarrow> string list option" where
  "strict_normal expected pending n sources bs \<equiv> strict_sources_loop expected Normal pending n sources bs"

lemma strict_plain:
  assumes "opening_mode c = None" and "c \<noteq> CHR '';''" and "c \<in> {CHR ''-'', CHR ''/''} \<longrightarrow> list_get bs 0 = Some (CHR '' '')"
  shows "strict_normal expected pending n sources (c # bs) = strict_normal expected (pending @ [c]) n sources bs"
  using assms by (auto simp: strict_sources_loop.simps(2) [of _ Normal])

lemma strict_space:
  "strict_normal expected pending n sources (CHR '' '' # bs) = strict_normal expected (pending @ '' '') n sources bs"
  by (rule strict_plain) (simp_all add: opening_mode_def)

lemma strict_word:
  "list_all word_byte w \<Longrightarrow> strict_normal expected pending n sources (w @ bs) = strict_normal expected (pending @ w) n sources bs"
proof (induction w arbitrary: pending)
  case (Cons c w)
  then have "word_byte c" by simp
  moreover from this have "c \<noteq> CHR '';''" using word_byte_plain(1) [of c] by (auto simp: symbol_bytes_def)
  ultimately have "strict_normal expected pending n sources ((c # w) @ bs) = strict_normal expected (pending @ [c]) n sources (w @ bs)"
    using word_byte_plain [of c] by (simp add: strict_plain)
  with Cons show ?case by simp
qed simp

lemma strict_quoted:
  assumes "mode \<in> {SingleQuote, DoubleQuote}"
  shows "strict_sources_loop expected mode pending n sources (escape (quote_of mode) s @ quote_of mode # CHR '' '' # bs) =
    strict_normal expected (pending @ escape (quote_of mode) s @ [quote_of mode]) n sources (CHR '' '' # bs)"
proof (induction s arbitrary: pending)
  case Nil
  have "quote_of mode \<noteq> CHR '' ''" using assms by (auto simp: quote_of_def)
  moreover have "mode \<noteq> Normal" "mode \<noteq> Bracket" using assms by auto
  ultimately show ?case by (simp add: escape_def strict_sources_loop.simps(2) [of _ mode] list_get_def)
next
  case (Cons c s)
  have "strict_sources_loop expected mode pending n sources (escape (quote_of mode) (c # s) @ rest) =
      strict_sources_loop expected mode (pending @ escape (quote_of mode) [c]) n sources (escape (quote_of mode) s @ rest)" for rest
    using assms by (auto simp: escape_def strict_sources_loop.simps(2) [of _ SingleQuote] strict_sources_loop.simps(2) [of _ DoubleQuote] list_get_def)
  with Cons.IH [of "pending @ escape (quote_of mode) [c]"] show ?case by (simp add: escape_def)
qed

lemma strict_open:
  assumes "mode \<in> {SingleQuote, DoubleQuote}"
  shows "strict_normal expected pending n sources (quote_of mode # bs) = strict_sources_loop expected mode (pending @ [quote_of mode]) n sources bs"
proof -
  have "opening_mode (quote_of mode) = Some mode" "quote_of mode \<noteq> CHR ''-''" "quote_of mode \<noteq> CHR ''/''"
    using assms by (auto simp: quote_of_def opening_mode_def)
  then show ?thesis by (simp add: strict_sources_loop.simps(2) [of _ Normal])
qed

lemma strict_print_token:
  assumes "semicolon_free t"
  shows "strict_normal expected pending n sources (print_token t @ bs) = strict_normal expected (pending @ print_token t) n sources bs"
proof (cases t)
  case (StringLiteral s)
  with strict_open [of SingleQuote] strict_quoted [of SingleQuote expected "pending @ [CHR 0x27]" n sources s bs] show ?thesis
    by (simp add: quote_of_def strict_space)
next
  case (Identifier s)
  with strict_open [of DoubleQuote] strict_quoted [of DoubleQuote expected "pending @ [CHR 0x22]" n sources s bs] show ?thesis
    by (simp add: quote_of_def strict_space)
next
  case (Symbol c)
  with assms strict_plain [of c "CHR '' '' # bs"] show ?thesis by (simp add: semicolon_free_def strict_space list_get_def)
qed (use assms in \<open>simp add: semicolon_free_def strict_word strict_space\<close>)

lemma strict_print:
  "list_all semicolon_free tokens \<Longrightarrow>
    strict_normal expected pending n sources (print_tokens tokens @ bs) = strict_normal expected (pending @ print_tokens tokens) n sources bs"
  by (induction tokens arbitrary: pending) (simp_all add: print_tokens_def strict_print_token)

lemma printed_source:
  assumes "list_all semicolon_free tokens" and "split_top_level_statements (tokens @ [Symbol (CHR '';'')]) = Some [tokens]"
    and "trim (print_tokens tokens) \<noteq> []" and "length (print_tokens tokens) < MAX_SQL_BYTES - 1"
  shows "strict_manifest_statement_sources (print_tokens (tokens @ [Symbol (CHR '';'')])) = Some [trim (print_tokens tokens)]"
proof -
  have "strict_normal [tokens] [] 0 [] (print_tokens (tokens @ [Symbol (CHR '';'')])) =
      strict_normal [tokens] (print_tokens tokens) 0 [] [CHR '';'', CHR '' '']"
    using strict_print [OF assms(1), of "[tokens]" "[]" 0 "[]"] by (simp add: print_tokens_snoc)
  also have "\<dots> = Some [trim (print_tokens tokens)]"
    using printed_statement(2) [OF assms(1,2)] assms(3)
    by (simp add: strict_sources_loop.simps(2) [of _ _ _ _ _ "CHR '';''"] opening_mode_def MAX_TERMINATORS_def at_terminator_def
        list_get_def strict_space trim_space)
  finally show ?thesis
    using printed_statement(1) [OF assms(1,2)] assms(4) by (simp add: strict_manifest_statement_sources_def print_tokens_snoc)
qed

section \<open>A created and seeded table\<close>

lemma notes_semicolon_free: "list_all semicolon_free create_tokens" "list_all semicolon_free insert_tokens"
  by code_simp+

lemma notes_plain: "list_all plain_token create_tokens" "create_tokens \<noteq> []" "list_all plain_token insert_tokens" "insert_tokens \<noteq> []"
  by code_simp+

lemma entry_sql_migration_of: "entry_sql (migration_of name tokens) = print_tokens (tokens @ [Symbol (CHR '';'')])"
  by (simp add: migration_of_def)

lemmas notes_statements =
  printed_statement(1) [OF notes_semicolon_free(1) split_plain(1) [OF notes_plain(1,2)]]
  printed_statement(1) [OF notes_semicolon_free(2) split_plain(1) [OF notes_plain(3,4)]]

definition notes_table :: DerivedSchemaObject where
  "notes_table = \<lparr>object_type = ''table'', object_name = ''notes'', table_name = ''notes''\<rparr>"

definition notes_rows :: SeedInsertEffect where
  "notes_rows = \<lparr>sie_version = V2, sie_table_name = ''notes'', sie_columns = [''id''], sie_rows = [[SeedInteger 7]]\<rparr>"

definition notes_created :: effect_scan where
  "notes_created = effect_scan_start\<lparr>es_created_tables := [(''notes'', ''notes'')],
     es_content_declarations := [(''notes'', create_tokens)], es_rowid_keys := [''notes''],
     es_spellings := [(''notes'', ''notes'')], es_effects := [Create notes_table]\<rparr>"

definition notes_seeded :: effect_scan where
  "notes_seeded = notes_created\<lparr>es_seeded := [''notes''], es_effects := [SeedRows notes_rows],
     es_migrations := [[Create notes_table]]\<rparr>"

definition notes_derived :: DerivedEffectAssertion where
  "notes_derived = \<lparr>derived_states = [[], [notes_table], [notes_table]],
     derived_additive_plan = Some \<lparr>prefixes = [\<lparr>created_objects = [(''table'', ''notes'')], addition = None, foreign_keys_on = False\<rparr>,
       \<lparr>created_objects = [], addition = None, foreign_keys_on = False\<rparr>]\<rparr>,
     derived_seed_plan = Some \<lparr>plan_states = [[], [(state_of notes_rows)\<lparr>sts_rows := []\<rparr>], [state_of notes_rows]],
       strict_table_keys = [], rowid_table_keys = [''notes''],
       registry = [\<lparr>reg_state = state_of notes_rows, reg_created_prefix = 1, reg_seeded_prefix = 2\<rparr>],
       preexisting_table_spellings = []\<rparr>,
     derived_trigger_values = []\<rparr>"

lemma notes_create_classified: "classify_statement (Some V2) effect_scan_start create_tokens = Inr notes_created"
  by code_simp

lemma insert_parts: "seed_insert_parts insert_tokens V2 = Some (''Notes'', [''id''], [[SeedInteger 7]])"
  unfolding insert_tokens_def
proof (rule seed_insert_parts_print)
  show "valid_identifier ''Notes''" "columns_wf [''id'']" by code_simp+
qed (simp_all add: MAX_SEED_ROWS_PER_TABLE_def printable_def literal_allowed_def bounded_literal_def MAX_SEED_VALUE_BYTES_def
  seed_insert_tokens_def row_tokens_def total_bytes_def saturating_mul_def signed_decimal_len_def digit_count.simps
      MAX_SEED_LITERAL_BYTES_TOTAL_def MAX_SEED_STATEMENT_TOKENS_def)
lemma insert_no_create: "classify_schema_create insert_tokens True = Some None"
  by code_simp

lemma insert_no_fts: "classify_external_fts5 insert_tokens = Some None"
  by code_simp

lemma insert_no_additive: "classify_additive_statement insert_tokens = Inr None"
  by code_simp

lemma insert_seed: "classify_seed_insert insert_tokens V2 = Inr (Some (notes_rows\<lparr>sie_table_name := ''Notes''\<rparr>))"
proof -
  have "token_is_word (list_get insert_tokens 0) ''insert''" unfolding insert_tokens_eq by code_simp
  moreover have "sort [[SeedInteger 7]] = [[SeedInteger 7]]" "\<not> adjacent_equal [[SeedInteger 7]]" by (simp_all add: adjacent_equal_def)
  ultimately show ?thesis using insert_parts by (simp add: classify_seed_insert_def notes_rows_def)
qed

lemma notes_keys: "sqlite_ascii_identifier_key ''notes'' = ''notes''" "sqlite_ascii_identifier_key ''Notes'' = ''notes''"
  by code_simp+

lemma notes_insert_classified:
  "classify_statement (Some V2) (notes_created\<lparr>es_migrations := [[Create notes_table]], es_effects := []\<rparr>) insert_tokens = Inr notes_seeded"
  by (simp add: classify_statement_def or_panic_def insert_no_create insert_no_fts insert_no_additive additive_effect_def insert_seed seed_effect_step_def notes_keys)
    (simp add: notes_seeded_def notes_created_def effect_scan_start_def push_effects_def notes_rows_def Let_def)

definition notes_scanned :: effect_scan where
  "notes_scanned = notes_seeded\<lparr>es_migrations := [[Create notes_table], [SeedRows notes_rows]]\<rparr>"

lemma notes_scan: "try_fold (classify_migration (Some V2)) effect_scan_start notes_manifest = Inr notes_scanned"
proof -
  have "effect_scan_start\<lparr>es_effects := [], es_additions := 0, es_pragmas := 0\<rparr> = effect_scan_start"
    by (simp add: effect_scan_start_def)
  then have "classify_migration (Some V2) effect_scan_start (migration_of name create_tokens) =
      Inr (notes_created\<lparr>es_migrations := [[Create notes_table]]\<rparr>)" for name
    using notes_create_classified
    by (simp add: classify_migration_def entry_sql_migration_of notes_statements notes_created_def effect_scan_start_def)
  moreover have "(notes_created\<lparr>es_migrations := [[Create notes_table]]\<rparr>)\<lparr>es_effects := [], es_additions := 0, es_pragmas := 0\<rparr> =
      notes_created\<lparr>es_migrations := [[Create notes_table]], es_effects := []\<rparr>"
    by (simp add: notes_created_def effect_scan_start_def)
  then have "classify_migration (Some V2) (notes_created\<lparr>es_migrations := [[Create notes_table]]\<rparr>) (migration_of name insert_tokens) =
      Inr notes_scanned" for name
    using notes_insert_classified
    by (simp add: classify_migration_def entry_sql_migration_of notes_statements)
      (simp add: notes_scanned_def notes_seeded_def notes_created_def effect_scan_start_def)
  ultimately show ?thesis by (simp add: notes_manifest_def)
qed

lemma notes_located: "locate_effects True (es_migrations notes_scanned) = Inr ([(''notes'', ''table'', 0)], [])"
  by code_simp

definition notes_placed :: seed_locations where
  "notes_placed = \<lparr>sl_states = [(''notes'', state_of notes_rows)], sl_locations = [(''notes'', 1, 2)], sl_rowid_keys = [''notes'']\<rparr>"

lemma notes_inserted: "insert_seed_effect [] notes_rows = Inr [(''notes'', state_of notes_rows)]"
  by code_simp

lemma notes_seeds_located:
  "locate_seeds [(''notes'', ''table'', 0)] (es_migrations notes_scanned)
     \<lparr>sl_states = [], sl_locations = [], sl_rowid_keys = es_rowid_keys notes_scanned\<rparr> = Inr notes_placed"
proof -
  have "sie_table_name notes_rows = ''notes''" "es_migrations notes_scanned = [[Create notes_table], [SeedRows notes_rows]]"
    "es_rowid_keys notes_scanned = [''notes'']"
    by (simp_all add: notes_rows_def notes_scanned_def notes_seeded_def notes_created_def)
  with notes_keys notes_inserted show ?thesis
    by (simp add: locate_seeds_def place_seed_def saturating_add_def usize_MAX_def notes_placed_def)
qed

lemma notes_plan:
  "seed_registry notes_placed = Inr [\<lparr>reg_state = state_of notes_rows, reg_created_prefix = 1, reg_seeded_prefix = 2\<rparr>]"
  "plan_migrations (preexisting_objects []) (es_migrations notes_scanned) =
    ([[notes_table], [notes_table]], [\<lparr>created_objects = [(''table'', ''notes'')], addition = None, foreign_keys_on = False\<rparr>,
       \<lparr>created_objects = [], addition = None, foreign_keys_on = False\<rparr>])"
  "map (seed_state_at [\<lparr>reg_state = state_of notes_rows, reg_created_prefix = 1, reg_seeded_prefix = 2\<rparr>])
     [0..<3] = [[], [(state_of notes_rows)\<lparr>sts_rows := []\<rparr>], [state_of notes_rows]]"
  "length (es_migrations notes_scanned) = 2" "es_strict_keys notes_scanned = []" "es_trigger_values notes_scanned = []" "map snd (preexisting_objects []) = []"
  by code_simp+

lemma notes_derivation: "derive_additive_effect_assertion notes_manifest (Some V2) = Inr notes_derived"
  unfolding derive_additive_effect_assertion_def notes_scan ok_then.simps
  using notes_plan(3)
  by (simp del: upt_Suc add: notes_located notes_seeds_located notes_plan(1,2,4-7)) (simp add: notes_derived_def notes_placed_def)

theorem derivation_states_grow_witness:
  "length (derived_states notes_derived) = 3 \<and> (\<exists>plan. derived_additive_plan notes_derived = Some plan \<and> length (prefixes plan) = 2)"
  using derivation_states_grow [OF notes_derivation] by (auto simp: notes_manifest_def)

theorem derivation_accounts_statements_witness:
  "\<exists>statements effects plan. tokenize_sql_statements (entry_sql (notes_manifest ! 1)) = Some statements \<and> statements \<noteq> [] \<and>
     list_all2 (accounts (Some V2)) statements effects \<and> derived_additive_plan notes_derived = Some plan \<and>
     set (created_objects (prefixes plan ! 1)) = {okey object | object. Create object \<in> set (concat effects)}"
proof -
  have "1 < length notes_manifest" "length notes_manifest < usize_MAX" by (simp_all add: notes_manifest_def usize_MAX_def)
  from derivation_accounts_statements [OF notes_derivation this] show ?thesis by blast
qed

theorem seed_registry_sound_witness:
  "\<exists>seed_plan r. derived_seed_plan notes_derived = Some seed_plan \<and> registry seed_plan = [r] \<and>
    plan_states seed_plan ! 0 = [] \<and> plan_states seed_plan ! 1 = [(reg_state r)\<lparr>sts_rows := []\<rparr>] \<and>
    plan_states seed_plan ! 2 = [reg_state r] \<and> (''table'', ''notes'') \<notin> okey ` set (derived_states notes_derived ! 0) \<and>
    (''table'', ''notes'') \<in> okey ` set (derived_states notes_derived ! 1)"
proof -
  let ?r = "\<lparr>reg_state = state_of notes_rows, reg_created_prefix = 1, reg_seeded_prefix = 2\<rparr>"
  have length: "length notes_manifest = 2" by (simp add: notes_manifest_def)
  then have "length notes_manifest < usize_MAX" by (simp add: usize_MAX_def)
  from seed_registry_sound [OF notes_derivation this] obtain seed_plan where plan: "derived_seed_plan notes_derived = Some seed_plan"
    and registered: "\<And>r k. r \<in> set (registry seed_plan) \<Longrightarrow> k \<le> 2 \<Longrightarrow>
      (''table'', sts_table_name (reg_state r)) \<in> okey ` set (derived_states notes_derived ! k) \<longleftrightarrow> reg_created_prefix r \<le> k"
    and states: "\<And>k. k \<le> 2 \<Longrightarrow> plan_states seed_plan ! k =
      [if k < reg_seeded_prefix r then (reg_state r)\<lparr>sts_rows := []\<rparr> else reg_state r. r \<leftarrow> registry seed_plan, reg_created_prefix r \<le> k]"
    unfolding length by blast
  from plan have reg: "registry seed_plan = [?r]" by (auto simp: notes_derived_def)
  have "plan_states seed_plan ! 0 = []" "plan_states seed_plan ! 1 = [(reg_state ?r)\<lparr>sts_rows := []\<rparr>]"
    "plan_states seed_plan ! 2 = [reg_state ?r]"
    using states [of 0] states [of 1] states [of 2] unfolding reg by simp_all
  moreover have "sts_table_name (reg_state ?r) = ''notes''" by (simp add: state_of_def notes_rows_def)
  ultimately show ?thesis
    using plan reg registered [of ?r 0] registered [of ?r 1] by (intro exI [of _ seed_plan] exI [of _ ?r]) simp
qed

section \<open>An FTS5 table\<close>

definition fts_tokens :: "SqlToken list" where
  "fts_tokens = [Word ''CREATE'', Word ''VIRTUAL'', Word ''TABLE'', Word ''f'', Word ''USING'', Word ''fts5'', Symbol (CHR ''(''),
     Word ''body'', Symbol (CHR '',''), Word ''content'', Symbol (CHR ''=''), StringLiteral ''n'', Symbol (CHR '',''),
     Word ''content_rowid'', Symbol (CHR ''=''), StringLiteral ''rowid'', Symbol (CHR '',''),
     Word ''tokenize'', Symbol (CHR ''=''), StringLiteral ''unicode61 remove_diacritics 2'', Symbol (CHR '')'')]"

definition fts_manifest :: "D1MigrationManifestEntry list" where
  "fts_manifest = [migration_of ''0001.sql'' fts_tokens]"

definition fts_source :: string where
  "fts_source = print_tokens (butlast fts_tokens) @ '')''"

definition fts_names :: "string list" where
  "fts_names = [''f'', ''f_config'', ''f_data'', ''f_docsize'', ''f_idx'']"

definition fts_expectations :: "unit D1MigrationStateExpectation list" where
  "fts_expectations =
     [\<lparr>manifest_prefix_length = 0, schema_objects = [], tables = [], seed_tables = []\<rparr>,
      \<lparr>manifest_prefix_length = 1, schema_objects = map (\<lambda>name. \<lparr>obj_type = ''table'', obj_name = name, obj_table_name = name,
         obj_sql_sha256 = zero_digest\<rparr>) fts_names, tables = [], seed_tables = []\<rparr>]"

lemma fts_free: "list_all semicolon_free fts_tokens"
  by code_simp

lemma fts_plain: "list_all plain_token fts_tokens" "fts_tokens \<noteq> []"
  by code_simp+

lemmas fts_split = split_plain [OF fts_plain]

lemma fts_snoc: "fts_tokens = butlast fts_tokens @ [Symbol (CHR '')'')]"
  by (simp add: fts_tokens_def)

lemma fts_trim: "trim (print_tokens fts_tokens) = fts_source"
proof -
  have "print_tokens fts_tokens = fts_source @ '' ''"
    by (simp add: fts_source_def fts_tokens_def print_tokens_def)
  moreover have "fts_source \<noteq> []" "hd fts_source = CHR ''C''" "last fts_source = CHR '')''"
    by (simp_all add: fts_source_def fts_tokens_def print_tokens_def)
  ultimately show ?thesis by (simp add: trim_visible visible_def byte_def)
qed

lemma fts_source_bounds: "fts_source \<noteq> []" "length (print_tokens fts_tokens) < MAX_SQL_BYTES - 1"
  by (simp_all add: fts_source_def fts_tokens_def print_tokens_def escape_def MAX_SQL_BYTES_def)

lemmas fts_sources = printed_source [OF fts_free fts_split(1), unfolded fts_trim, OF fts_source_bounds]

lemma fts_source_tokens: "tokenize_sql_statements fts_source = Some [fts_tokens]"
proof -
  have "list_all printable_token (butlast fts_tokens)" "printable_token (Symbol (CHR '')''))" by code_simp+
  from tokenize_print_symbol [OF this] fts_split(2) fts_snoc show ?thesis
    by (simp add: tokenize_sql_statements_def fts_source_def)
qed

lemma fts_no_create: "classify_schema_create fts_tokens True = Some None"
  by code_simp

lemma fts_classified:
  "classify_external_fts5 fts_tokens = Some (Some \<lparr>fts_table = ''f'', fts_content = ''n'', fts_columns = [''body'']\<rparr>)"
  "starts_with fts_source ''CREATE VIRTUAL TABLE ''"
  by code_simp+

lemma fts_keys: "sqlite_ascii_identifier_key ''f'' = ''f''"
  by code_simp

theorem strict_sources_exact_witness:
  "\<exists>raws rest. print_tokens (fts_tokens @ [Symbol (CHR '';'')]) = cut raws @ rest \<and> trim rest = [] \<and>
     [fts_source] = map trim raws \<and> list_all2 statement_source raws [fts_tokens]"
  using strict_sources_exact [OF fts_sources] printed_statement(1) [OF fts_free fts_split(1)] by auto

lemma fts_manifest_digests:
  "strict_manifest_schema_digests sample_env fts_manifest = Inr [[], [((''table'', ''f''), zero_digest)]]"
  by (simp add: strict_manifest_schema_digests_def fts_manifest_def entry_sql_migration_of fts_sources or_none_def
      source_digest_step_def fts_source_tokens source_object_def or_panic_def fts_classified unless_none_def fts_keys fts_no_create)

lemma fts_shadow_step:
  "try_fold (shadow_step [''f'']) [] (fts5_shadow_schema_digests sample_env \<lparr>fts_table = ''f'', fts_content = ''n'', fts_columns = [''body'']\<rparr>) =
    Inr (map (\<lambda>name. ((''table'', name), zero_digest)) (tl fts_names))"
  by code_simp

lemma fts_shadows_added:
  "add_shadows (map (\<lambda>name. ((''table'', name), zero_digest)) (tl fts_names)) [((''table'', ''f''), zero_digest)] =
    Inr (map (\<lambda>name. ((''table'', name), zero_digest)) fts_names)"
  by code_simp

lemma fts_bound: "fts_expected_schema_is_source_bound sample_env fts_manifest fts_expectations = Some True"
proof -
  have names: "bset_of (map (\<lambda>((_, name), _). sqlite_ascii_identifier_key name) [((''table'', ''f''), zero_digest)]) = [''f'']"
    by (simp add: fts_keys bset_of_def)
  have shadows: "map (\<lambda>name. ((''table'', name), zero_digest)) (tl fts_names) \<noteq> []" by (simp add: fts_names_def)
  have "strict_fts_schema_digests sample_env fts_manifest = Inr [[], map (\<lambda>name. ((''table'', name), zero_digest)) fts_names]"
    using shadows names
    by (simp add: strict_fts_schema_digests_def fts_manifest_digests [unfolded fts_manifest_def] fts_migration_step_def fts_manifest_def entry_sql_migration_of
        fts_sources or_none_def fts_source_step_def fts_source_tokens list_get_def or_panic_def fts_classified fts_shadow_step
        fts_shadows_added)
  moreover have "supplied_digests (schema_objects (fts_expectations ! 1)) = map (\<lambda>name. ((''table'', name), zero_digest)) fts_names"
    by code_simp
  ultimately show ?thesis
    by (simp add: fts_expected_schema_is_source_bound_def fts_expectations_def supplied_digests_def)
qed

theorem fts_states_source_bound_witness:
  "length fts_expectations = 2 \<and>
     (source_bound sample_env fts_manifest 1 ((''table'', ''f_idx''), zero_digest) \<or>
      engine_owned sample_env fts_manifest 1 ((''table'', ''f_idx''), zero_digest))"
proof -
  have "length fts_manifest = 1" by (simp add: fts_manifest_def)
  moreover have "\<lparr>obj_type = ''table'', obj_name = ''f_idx'', obj_table_name = ''f_idx'', obj_sql_sha256 = zero_digest\<rparr>
      \<in> set (schema_objects (fts_expectations ! 1))"
    by (simp add: fts_expectations_def fts_names_def)
  ultimately show ?thesis using fts_states_source_bound [OF fts_bound] by fastforce
qed

end
