(* ===== verification/D1_Expectations_Samples.thy ===== *)
theory D1_Expectations_Samples
  imports D1_Expectations_Sound D1_Derivation_Samples Digest_Samples
begin

text \<open>Reviewed expectations for the manifest that creates and seeds a table, accepted as a replay.\<close>

definition notes_column :: D1MigrationColumnExpectation where
  "notes_column = \<lparr>col_cid = 0, col_name = ''id'', col_declared_type = ''INTEGER'', col_not_null = False, col_default_value = None,
     col_primary_key_position = 0, col_hidden = 0\<rparr>"

definition notes_state :: "nat \<Rightarrow> nat \<Rightarrow> state_expectation" where
  "notes_state k rows = \<lparr>manifest_prefix_length = k,
     schema_objects = [\<lparr>obj_type = ''table'', obj_name = ''notes'', obj_table_name = ''notes'', obj_sql_sha256 = zero_digest\<rparr>],
     tables = [\<lparr>tab_name = ''notes'', tab_columns = [notes_column], tab_foreign_keys = []\<rparr>],
     seed_tables = [\<lparr>ste_table_name = ''notes'', ste_columns = [''id''], ste_row_count = rows, ste_rows_sha256 = zero_digest\<rparr>]\<rparr>"

definition notes_states :: "state_expectation list" where
  "notes_states = [\<lparr>manifest_prefix_length = 0, schema_objects = [], tables = [], seed_tables = []\<rparr>, notes_state 1 0, notes_state 2 1]"

definition scan_start :: expectation_scan where
  "scan_start = \<lparr>xs_previous_prefix = None, xs_object_names = [], xs_table_names = [], xs_spellings = [], xs_seed_states = []\<rparr>"

definition scan_empty :: expectation_scan where
  "scan_empty = scan_start\<lparr>xs_previous_prefix := Some 0, xs_seed_states := [[]]\<rparr>"

definition scan_created :: expectation_scan where
  "scan_created = \<lparr>xs_previous_prefix = Some 1, xs_object_names = [''notes''], xs_table_names = [''notes''],
     xs_spellings = [(''notes'', ''notes'')], xs_seed_states = [[], [(state_of notes_rows)\<lparr>sts_rows := []\<rparr>]]\<rparr>"

definition scan_seeded :: expectation_scan where
  "scan_seeded = scan_created\<lparr>xs_previous_prefix := Some 2,
     xs_seed_states := [[], [(state_of notes_rows)\<lparr>sts_rows := []\<rparr>], [state_of notes_rows]]\<rparr>"

abbreviation review :: "expectation_scan \<Rightarrow> nat \<times> state_expectation \<Rightarrow> expectation_scan recon" where
  "review \<equiv> validate_reviewed_state sample_env (derived_states notes_derived) (derived_seed_plan notes_derived)"

lemma notes_reviewed_0: "review scan_start (0, notes_states ! 0) = Inr scan_empty"
  by code_simp

lemma notes_reviewed_1: "review scan_empty (1, notes_state 1 0) = Inr scan_created"
  by code_simp

lemma notes_reviewed_2: "review scan_created (2, notes_state 2 1) = Inr scan_seeded"
  by code_simp

lemma notes_transitions:
  "validate_additive_transitions_with_seed_identity (the (derived_additive_plan notes_derived)) notes_states (derived_seed_plan notes_derived) = Inr ()"
  by code_simp

lemma notes_unreserved: "validate_reserved_migrations_table ''d1_migrations'' notes_derived = Inr ()"
  by code_simp

lemma validated_of:
  assumes "length states = 3" and "validate_reviewed_state E (derived_states notes_derived) (derived_seed_plan notes_derived) scan_start (0, states ! 0) = Inr scan_empty"
    and "validate_reviewed_state E (derived_states notes_derived) (derived_seed_plan notes_derived) scan_empty (1, states ! 1) = Inr scan_created"
    and "validate_reviewed_state E (derived_states notes_derived) (derived_seed_plan notes_derived) scan_created (2, states ! 2) = Inr scan_seeded"
  shows "validate_expectations E (derived_states notes_derived) (derived_seed_plan notes_derived) states =
    Inr \<lparr>val_states = states, val_object_names = [''notes''], val_table_names = [''notes''],
      val_seed_states = xs_seed_states scan_seeded, val_proof_sha256 = hash_serialized E (SSeq (map ser_expectation states))\<rparr>"
proof -
  from assms(1) have "states = [states ! 0, states ! 1, states ! 2]"
    by (auto simp: numeral_3_eq_3 numeral_2_eq_2 length_Suc_conv)
  then have "enumerate 0 states = [(0, states ! 0), (1, states ! 1), (2, states ! 2)]"
    by (metis Suc_1 enumerate_simps(1,2) One_nat_def)
  then have "try_fold (validate_reviewed_state E (derived_states notes_derived) (derived_seed_plan notes_derived)) scan_start
      (enumerate 0 states) = Inr scan_seeded"
    using assms(2-4) by simp
  moreover have "length (derived_states notes_derived) = 3" by (simp add: notes_derived_def)
  ultimately show ?thesis
    using assms(1) by (simp add: validate_expectations_def scan_start_def scan_seeded_def scan_created_def MAX_STATE_EXPECTATIONS_def
        MAX_SCHEMA_OBJECTS_def MAX_TABLES_def)
qed

lemma replay_of:
  assumes "validate_expectations E (derived_states notes_derived) (derived_seed_plan notes_derived) states = Inr validated"
    and "validate_additive_transitions_with_seed_identity (the (derived_additive_plan notes_derived)) (val_states validated) (derived_seed_plan notes_derived) = Inr ()"
  shows "validate_replay_manifest_expectations E EFFECT_ASSERTION_SCHEMA_ADDITIVE_SEED_ROWS_V2 ''d1_migrations'' notes_manifest states =
    Inr (val_proof_sha256 validated)"
proof -
  have "derive_effect_assertion_details (Some EFFECT_ASSERTION_SCHEMA_ADDITIVE_SEED_ROWS_V2) notes_manifest = Inr notes_derived"
    using notes_derivation
    by (simp add: derive_effect_assertion_details_def canonical_effect_assertion_id_def assertion_ids)
  moreover have "canonical_effect_assertion_id (Some EFFECT_ASSERTION_SCHEMA_ADDITIVE_SEED_ROWS_V2) = Inr EFFECT_ASSERTION_SCHEMA_ADDITIVE_SEED_ROWS_V2"
    by (simp add: canonical_effect_assertion_id_def)
  moreover have "seed_assertion_version EFFECT_ASSERTION_SCHEMA_ADDITIVE_SEED_ROWS_V2 = Some V2"
    by (simp add: seed_assertion_version_def assertion_ids)
  moreover obtain plan where "derived_additive_plan notes_derived = Some plan" by (simp add: notes_derived_def)
  ultimately show ?thesis
    using notes_unreserved assms by (simp add: validate_replay_manifest_expectations_def)
qed

lemma notes_replay:
  "validate_replay_manifest_expectations sample_env EFFECT_ASSERTION_SCHEMA_ADDITIVE_SEED_ROWS_V2 ''d1_migrations'' notes_manifest
     notes_states = Inr zero_digest"
proof -
  have "notes_states ! 1 = notes_state 1 0" "notes_states ! 2 = notes_state 2 1" "length notes_states = 3"
    by (simp_all add: notes_states_def)
  from replay_of [OF validated_of [OF this(3) notes_reviewed_0]] notes_reviewed_1 notes_reviewed_2 notes_transitions this
  show ?thesis by simp
qed

text \<open>The same manifest reviewed with a default value, under a digest that tells the two reviews apart.\<close>

definition dated_state :: "nat \<Rightarrow> nat \<Rightarrow> state_expectation" where
  "dated_state k rows = (notes_state k rows)\<lparr>tables :=
     [\<lparr>tab_name = ''notes'', tab_columns = [notes_column\<lparr>col_default_value := Some ''1888''\<rparr>], tab_foreign_keys = []\<rparr>]\<rparr>"

definition dated_states :: "state_expectation list" where
  "dated_states = [notes_states ! 0, dated_state 1 0, dated_state 2 1]"

abbreviation review_split :: "expectation_scan \<Rightarrow> nat \<times> state_expectation \<Rightarrow> expectation_scan recon" where
  "review_split \<equiv> validate_reviewed_state split_env (derived_states notes_derived) (derived_seed_plan notes_derived)"

lemma split_reviewed_0: "review_split scan_start (0, notes_states ! 0) = Inr scan_empty"
  by code_simp

lemma split_reviewed_1:
  "review_split scan_empty (1, notes_state 1 0) = Inr scan_created" "review_split scan_empty (1, dated_state 1 0) = Inr scan_created"
  by code_simp+

lemma split_reviewed_2:
  "review_split scan_created (2, notes_state 2 1) = Inr scan_seeded" "review_split scan_created (2, dated_state 2 1) = Inr scan_seeded"
  by code_simp+

lemma dated_transitions:
  "validate_additive_transitions_with_seed_identity (the (derived_additive_plan notes_derived)) dated_states (derived_seed_plan notes_derived) = Inr ()"
  by code_simp

lemma reviewed_texts:
  "eights (reviewed_text split_env notes_states) = 0" "eights (reviewed_text split_env dated_states) = 6"
  by (simp_all add: reviewed_text_def notes_states_def notes_state_def dated_states_def dated_state_def ser_expectation_def
      ser_schema_object_def ser_table_def ser_column_def ser_seed_table_def notes_column_def)

lemma split_replays:
  "validate_replay_manifest_expectations split_env EFFECT_ASSERTION_SCHEMA_ADDITIVE_SEED_ROWS_V2 ''d1_migrations'' notes_manifest
     notes_states = Inr zero_digest"
  "validate_replay_manifest_expectations split_env EFFECT_ASSERTION_SCHEMA_ADDITIVE_SEED_ROWS_V2 ''d1_migrations'' notes_manifest
     dated_states = Inr eight_digest"
proof -
  have states: "notes_states ! 1 = notes_state 1 0" "notes_states ! 2 = notes_state 2 1" "length notes_states = 3"
    "dated_states ! 0 = notes_states ! 0" "dated_states ! 1 = dated_state 1 0" "dated_states ! 2 = dated_state 2 1" "length dated_states = 3"
    by (simp_all add: notes_states_def dated_states_def)
  have digest: "hash_serialized split_env (SSeq (map ser_expectation states)) = split_digest (reviewed_text split_env states)" for states
    by (simp add: reviewed_text_def)
  note replay_of [OF validated_of [OF states(3) split_reviewed_0]] replay_of [OF validated_of [OF states(7)]]
  then show "validate_replay_manifest_expectations split_env EFFECT_ASSERTION_SCHEMA_ADDITIVE_SEED_ROWS_V2 ''d1_migrations'' notes_manifest
     notes_states = Inr zero_digest"
    "validate_replay_manifest_expectations split_env EFFECT_ASSERTION_SCHEMA_ADDITIVE_SEED_ROWS_V2 ''d1_migrations'' notes_manifest
     dated_states = Inr eight_digest"
    using split_reviewed_0 split_reviewed_1 split_reviewed_2 notes_transitions dated_transitions states reviewed_texts
    by (simp_all add: digest split_digest_def del: split_env_simps(3))
qed

theorem replay_expectations_sound_witness:
  "\<exists>derived. derive_effect_assertion_details (Some EFFECT_ASSERTION_SCHEMA_ADDITIVE_SEED_ROWS_V2) notes_manifest = Inr derived \<and>
     state_exact sample_env (derived_states derived) (derived_seed_plan derived) 2 (notes_states ! 2) \<and>
     \<not> eq_ignore_ascii_case ''notes'' ''d1_migrations''"
proof -
  have "length notes_manifest = 2" by (simp add: notes_manifest_def)
  moreover have "\<lparr>obj_type = ''table'', obj_name = ''notes'', obj_table_name = ''notes'', obj_sql_sha256 = zero_digest\<rparr>
      \<in> set (schema_objects (notes_states ! 2))" by (simp add: notes_states_def notes_state_def)
  ultimately show ?thesis using replay_expectations_sound [OF notes_replay] by fastforce
qed

theorem replay_digest_binds_witness:
  "notes_states \<noteq> dated_states \<and>
   validate_replay_manifest_expectations split_env EFFECT_ASSERTION_SCHEMA_ADDITIVE_SEED_ROWS_V2 ''d1_migrations'' notes_manifest
     notes_states \<noteq>
   validate_replay_manifest_expectations split_env EFFECT_ASSERTION_SCHEMA_ADDITIVE_SEED_ROWS_V2 ''d1_migrations'' notes_manifest
     dated_states"
proof -
  have "notes_states \<noteq> dated_states" using reviewed_texts by force
  moreover have "split_digest (reviewed_text split_env notes_states) \<noteq> split_digest (reviewed_text split_env dated_states)"
    using reviewed_texts by (simp add: split_digest_def)
  ultimately have "notes_states \<noteq> dated_states \<and> zero_digest \<noteq> eight_digest"
    using replay_digest_binds [OF split_replays split_env_injective] by (simp del: digests_differ)
  then show ?thesis unfolding split_replays by (simp del: digests_differ)
qed

end
