(* ===== verification/D1_Readback_Samples.thy ===== *)
theory D1_Readback_Samples
  imports D1_Readback_Sound D1_Expectations_Samples Digest_Samples
begin

























text \<open>An empty answer with the markers of one statement, under a digest that tells the markers apart.\<close>

definition marked_answer :: "BatchStatement \<Rightarrow> string \<Rightarrow> int json" where
  "marked_answer statement proof_sha256 =
     Object [(''success'', Bool True), (''meta'', Object [(''served_by_primary'', Bool True)]),
       (''results'', Array [Object ((''__cf_mcp_statement_id'', String (marker split_env statement proof_sha256)) #
          (''__cf_mcp_row_kind'', Number 0) # map (\<lambda>column. (column, Null)) (data_fields statement))])]"

abbreviation notes_link :: BatchStatement where
  "notes_link \<equiv> ForeignKeyList ''notes''"

lemma marked_accepted: "result_rows split_env Some (marked_answer notes_link zero_digest) notes_link zero_digest = Inr []"
  by code_simp

lemma marker_texts_differ:
  "split_digest (marker_text notes_link zero_digest) \<noteq> split_digest (marker_text (ForeignKeyList ''notes_1888'') zero_digest)"
  "split_digest (marker_text notes_link zero_digest) \<noteq> split_digest (marker_text notes_link eight_digest)"
  by (simp_all add: split_digest_def marker_text_def nul_def)

theorem result_sets_not_swapped_witness:
  "result_rows split_env Some (marked_answer notes_link zero_digest) notes_link zero_digest = Inr [] \<and>
   result_rows split_env Some (marked_answer notes_link zero_digest) (ForeignKeyList ''notes_1888'') zero_digest =
     Inl statement_marker_malformed \<and>
   result_rows split_env Some (marked_answer notes_link zero_digest) notes_link eight_digest = Inl statement_marker_malformed"
proof -
  have "reconciliation_valid_sha256 zero_digest" "reconciliation_valid_sha256 eight_digest" by code_simp+
  moreover have "\<not> same_subject notes_link (ForeignKeyList ''notes_1888'')" by simp
  ultimately show ?thesis
    using result_sets_not_swapped [OF marked_accepted, of zero_digest "ForeignKeyList ''notes_1888''"]
      result_sets_not_swapped [OF marked_accepted, of eight_digest notes_link] marked_accepted marker_texts_differ
    by simp
qed

end
