(* ===== verification/Spec2Isabelle.thy ===== *)
theory Spec2Isabelle
  imports D1_Attempt_Samples Sql_Samples D1_Migration_Sql_Sound D1_Additive_Samples D1_Seed_Samples D1_Readback_Samples
begin

text \<open>
  A verification library for \<open>cloudflare-mcp\<close>, an MCP server in Rust that operates a Cloudflare account
  on behalf of an agent. The server must never let an agent-written SQL statement touch a relation it
  keeps for itself, never dispatch one approved write twice, and never take a database migration for
  applied that changed more than its files say. The modules that decide these questions are pure: they
  map inputs and provider responses to receipts. This library models them and proves what the receipts
  mean.

  \<^bold>\<open>Parts of the program and how they interact\<close>

  The exact-write pipeline (\<open>src/d1_*.rs\<close>): a target is normalized (\<open>d1_target.rs\<close>); two observations of
  the database catalog are verified against each other and against a fixed query
  (\<open>d1_catalog_evidence.rs\<close>); the verified rows become a graph of write effects with one decision per
  relation and operation (\<open>d1_reserved_relation_graph.rs\<close>); a write plan binds statement and parameters by
  digest and the provider's acknowledgement is classified (\<open>d1_row_write_plan.rs\<close>,
  \<open>d1_execute_write.rs\<close>); target, plan, catalog and graph are composed into one receipt
  (\<open>d1_exact_plan_composition.rs\<close>); the receipt is carried through a recoverable attempt
  (\<open>d1_dml_attempt_custody.rs\<close>).

  The migration reader: migration files are tokenized, split into statements and classified
  (\<open>d1_migration_reconciliation.rs\<close>), \<open>ALTER TABLE ... ADD COLUMN\<close> and its \<open>CHECK\<close> by a closed grammar
  (\<open>d1_migration_additive.rs\<close>), seed \<open>INSERT\<close> statements by another (\<open>d1_migration_seed_rows.rs\<close>), external-content
  FTS5 tables by their shape and the bytes of their sources. From a whole manifest the schema state of every prefix,
  the plan of additions and the seed plan are derived; reviewed expectations are compared with them, one per prefix;
  and the answer of the provider to one fixed batch of queries is parsed and compared with the reviewed state.

  The SQL preflight (\<open>sql_preflight.rs\<close>): a query is lexed, the tables, columns and functions it references
  are collected and checked against schema metadata before it is sent.

  \<^bold>\<open>Theories\<close>

  \<^item> \<open>Rust_Prelude\<close>, \<open>BTree\<close>, \<open>Serde\<close>, \<open>Rust_Slice\<close>: \<open>Result\<close> and panics as values, ASCII, \<open>str::trim\<close>, checked
    \<open>usize\<close> arithmetic; ordered sets and maps with their contracts (locales \<open>ordered_set\<close>, \<open>ordered_map\<close>);
    JSON values, serialized trees, the digest and JSON-writer functions as a record of parameters
    (locale \<open>digest_grammar\<close>); slices that may panic (locale \<open>paren_scanner\<close>).
  \<^item> \<open>D1_Target\<close> (locale \<open>target_normalizer\<close>): \<open>d1_target.rs\<close>.
  \<^item> \<open>D1_Catalog_Query\<close>, \<open>D1_Catalog\<close> (locale \<open>hex_decoder\<close>), \<open>D1_Catalog_Verify\<close>: \<open>d1_catalog_evidence.rs\<close>: the
    query text, the rows, the verifier.
  \<^item> \<open>D1_Graph\<close>, \<open>D1_Graph_Sound\<close> (locale \<open>write_decisions\<close>): \<open>d1_reserved_relation_graph.rs\<close>.
  \<^item> \<open>D1_Write_Plan\<close>: \<open>d1_row_write_plan.rs\<close>, \<open>d1_execute_write.rs\<close>.
  \<^item> \<open>D1_Composition\<close>, \<open>D1_Composition_Sound\<close>: \<open>d1_exact_plan_composition.rs\<close>.
  \<^item> \<open>D1_Custody\<close>, \<open>D1_Custody_Sound\<close> (locale \<open>custody_operation\<close>, interpreted on all five operations):
    \<open>d1_dml_attempt_custody.rs\<close>.
  \<^item> \<open>Sql_Lexer\<close>, \<open>Sql_Preflight\<close>, \<open>Sql_References\<close>, \<open>Sql_Validate\<close>: \<open>sql_preflight.rs\<close> in the order of its calls;
    \<open>Sql_Total\<close>: no slice of it is out of range.
  \<^item> \<open>D1_Migration_Sql\<close>, \<open>D1_Migration_Sql_Sound\<close>, \<open>D1_Sql_Print\<close>: the SQL front end of \<open>d1_migration_reconciliation.rs\<close>
    (\<open>tokenize_sql_statements\<close>, \<open>split_top_level_statements\<close>, \<open>classify_schema_create\<close>) and a printer of its tokens.
  \<^item> \<open>D1_Additive\<close>, \<open>D1_Check_Grammar\<close>, \<open>D1_Additive_Sound\<close>: \<open>d1_migration_additive.rs\<close>.
  \<^item> \<open>D1_Seed_Rows\<close>, \<open>D1_Seed_Sound\<close>, \<open>D1_Seed_Print\<close>: \<open>d1_migration_seed_rows.rs\<close>.
  \<^item> \<open>D1_Fts\<close>, \<open>D1_Fts_Sound\<close>: \<open>classify_external_fts5\<close>, \<open>strict_manifest_statement_sources\<close>,
    \<open>fts_expected_schema_is_source_bound\<close> of \<open>d1_migration_reconciliation.rs\<close>.
  \<^item> \<open>D1_Effects\<close>, \<open>D1_Derivation\<close>, \<open>D1_Classification\<close>, \<open>D1_Derivation_Sound\<close>, \<open>D1_Plan_Sound\<close>: the effects of the
    statements of a manifest and \<open>derive_additive_effect_assertion\<close>.
  \<^item> \<open>D1_Expectations\<close>, \<open>D1_Expectations_Sound\<close>: \<open>validate_replay_manifest_expectations\<close>.
  \<^item> \<open>D1_Readback\<close>, \<open>D1_Readback_Sound\<close>: \<open>build_fixed_query\<close>, \<open>parse_complete_batch\<close>, \<open>verify_expected_state\<close>.
  \<^item> \<open>Digest_Samples\<close> and the theories whose names end in \<open>_Samples\<close>: concrete inputs on which the model is
    evaluated and the hypotheses of the theorems are met.

  A Rust struct is a record, an enum a datatype with the source's variants (prefixed where HOL or another
  type has the name), \<open>Result\<close> a sum, \<open>Option\<close> an option. A function that may panic returns a value for the
  panic: a constructor of \<open>failure\<close> in the exact-write pipeline, the outer \<open>None\<close> of a \<open>checked\<close> result in
  the SQL parts. Strings are the UTF-8 bytes of the source's strings. State is passed explicitly: the
  custody operations map durable bytes to durable bytes.

  \<^bold>\<open>What is shown\<close>

  \<^item> Catalog: an accepted product is bound to its target and plan, both observations agree, are complete,
    bounded and ordered; relations are unique, unblocked foreign keys resolve, the counts partition the
    rows; the verifier never panics.
  \<^item> Graph: the decisions refine reachability in the write-effect relation of the catalog rows; an allowed
    write reaches nothing reserved; the traversal ends within its limits.
  \<^item> Plans and composition: equal digests mean equal plans unless SHA-256 collides; the response classifier
    accepts exactly the stated results; an accepted composition is safe, and one succeeds whenever the
    graph allows its primitives.
  \<^item> Custody: at most one dispatch is proposed over any sequence of operations; terminal states are final;
    evidence only grows; the two assertions commute; stored bytes restore exactly and under no other
    binding; an attempt can be completed.
  \<^item> Migrations: the split finds exactly the statement boundaries; classification never
    panics and yields canonical objects; the \<open>CHECK\<close> parser accepts exactly its bounded grammar; each
    \<open>ADD COLUMN\<close> and each seed \<open>INSERT\<close> is read as the effect it states; an accepted chain of states only appends
    the declared columns and adds the declared objects; every statement of a manifest is accounted for in its plan,
    states only grow, and the seed plan of each prefix is exactly the tables created so far, with their rows once seeded; FTS5
    expectations are bound to the bytes of their statements.
  \<^item> Reconciliation: accepted expectations describe exactly the derived states, their digest tells any two reviews
    apart, and the validation never panics; an accepted read-back is served by the primary, writes nothing, is tagged
    row by row and shows exactly the reviewed state; no result set passes for the answer to another statement; seed rows
    that are read back are the reviewed rows.
  \<^item> Preflight: lexing inverts printing; the preflight answers on every input, its verdict is decided by the
    referenced names, accepted queries read from known sources, and case does not matter.

  \<^bold>\<open>Hypotheses on code outside the repository\<close>

  \<open>sha256_is_hex\<close> (a digest is 64 lower-case hex digits), \<open>to_vec_injective\<close> (the JSON writer separates
  serialized trees), \<open>state_codec\<close> (the text of an attempt state parses back to it) and
  \<open>state_text_bounded\<close> (that text fits the byte cap). Collision resistance is never assumed: statements about
  digests conclude \<open>... or sha256_collision\<close>, or name the texts that would have to collide. The sample theories
  instantiate all four, with a constant digest (\<open>sample_env\<close>) and with one that has two values (\<open>split_env\<close>).

  \<^bold>\<open>Bounds and termination\<close>

  No fuel is used. Recursions that are not structural have measures: the breadth-first traversal by the
  nodes not yet visited, the SQL scans by the tokens left, the nested output columns by the length of the
  slice, \<open>CHECK\<close> expressions by the depth limit 6 of the source. \<open>usize\<close> values are naturals with the
  64-bit limit in the checked operations; \<open>u8\<close> counters are words.

  \<^bold>\<open>Not modelled\<close>

  The HTTP client and the tool handlers (\<open>cloudflare/\<close>, \<open>tools.rs\<close>): provider I/O and presentation. The SQL
  the provider executes: its text is part of the plan, its semantics are the provider's. Of the
  reconciliation, the asynchronous entry points that send the batch and the receipts they render; the manifest reader, the
  lease, the bootstrap and terminal records, which work on files; the access policy and the worker-version
  records. Caches, start-up and OAuth are time and I/O.
\<close>

end
